(* ===== verification/Prelude.thy ===== *)
theory Prelude
  imports Complex_Main "HOL-Library.Word" "HOL-Library.Char_ord" "HOL-Library.List_Lexorder"
begin

text \<open>
  Shared vocabulary of the development: results and fallible state transformers with their
  simplification rules, the unit-of-work wrapper that gives a handler its transaction, Python's
  whitespace and string primitives, and the canonical text of a UUID.

  A Python exception is the left injection of a sum, a returned value the right one. A use case
  that runs inside a database session is a function from the database state to either an error or
  a value with the new state. Instants are integers counting microseconds (the resolution of
  \<open>datetime\<close>), UUIDs are 128-bit words, characters are code points below 256.
\<close>

named_theorems step_defs \<open>definitions of the operations of a component\<close>
named_theorems inv_intros \<open>preservation rules for state transformers\<close>

type_synonym uuid = "128 word"
type_synonym instant = int

subsection \<open>Results\<close>

definition rbind :: "'e + 'a \<Rightarrow> ('a \<Rightarrow> 'e + 'b) \<Rightarrow> 'e + 'b" where
  "rbind r f = (case r of Inl e \<Rightarrow> Inl e | Inr x \<Rightarrow> f x)"

definition require :: "bool \<Rightarrow> 'e \<Rightarrow> 'e + unit" where
  "require b e = (if b then Inr () else Inl e)"

definition of_option :: "'e \<Rightarrow> 'a option \<Rightarrow> 'e + 'a" where
  "of_option e v = (case v of None \<Rightarrow> Inl e | Some x \<Rightarrow> Inr x)"

definition map_error :: "('e \<Rightarrow> 'f) \<Rightarrow> 'e + 'a \<Rightarrow> 'f + 'a" where
  "map_error h r = (case r of Inl e \<Rightarrow> Inl (h e) | Inr x \<Rightarrow> Inr x)"

fun map_result :: "('a \<Rightarrow> 'e + 'b) \<Rightarrow> 'a list \<Rightarrow> 'e + 'b list" where
  "map_result f [] = Inr []"
| "map_result f (x # xs) =
     rbind (f x) (\<lambda>y. rbind (map_result f xs) (\<lambda>ys. Inr (y # ys)))"

lemma rbind_simps [simp]:
  "rbind (Inl e) f = Inl e"
  "rbind (Inr x) f = f x"
  by (simp_all add: rbind_def)

lemma rbind_Inr_iff: "rbind r f = Inr y \<longleftrightarrow> (\<exists>x. r = Inr x \<and> f x = Inr y)"
  by (cases r) simp_all

lemma rbind_Inl_iff: "rbind r f = Inl e \<longleftrightarrow> r = Inl e \<or> (\<exists>x. r = Inr x \<and> f x = Inl e)"
  by (cases r) simp_all

lemma require_iff [simp]:
  "require b e = Inr u \<longleftrightarrow> b"
  "require b e = Inl e' \<longleftrightarrow> \<not> b \<and> e = e'"
  by (auto simp: require_def)

lemma require_simps [simp]: "require True e = Inr ()" "require False e = Inl e"
  by (simp_all add: require_def)

lemma of_option_simps [simp]: "of_option e None = Inl e" "of_option e (Some x) = Inr x"
  by (simp_all add: of_option_def)

lemma of_option_iff [simp]:
  "of_option e v = Inr x \<longleftrightarrow> v = Some x"
  "of_option e v = Inl e' \<longleftrightarrow> v = None \<and> e = e'"
  by (auto simp: of_option_def split: option.splits)

lemma map_error_simps [simp]: "map_error h (Inl e) = Inl (h e)" "map_error h (Inr x) = Inr x"
  by (simp_all add: map_error_def)

lemma map_error_Inr_iff [simp]: "map_error h r = Inr x \<longleftrightarrow> r = Inr x"
  by (cases r) simp_all

lemma map_result_Inr_iff:
  "map_result f xs = Inr ys \<longleftrightarrow> list_all2 (\<lambda>x y. f x = Inr y) xs ys"
  by (induction xs arbitrary: ys) (auto simp: rbind_Inr_iff list_all2_Cons1)

lemma list_all2_left:
  assumes "list_all2 R xs ys" "x \<in> set xs"
  obtains y where "y \<in> set ys" "R x y"
  using assms by (induction rule: list_all2_induct) auto

lemma list_all2_right:
  assumes "list_all2 R xs ys" "y \<in> set ys"
  obtains x where "x \<in> set xs" "R x y"
  using assms by (induction rule: list_all2_induct) auto

lemma map_result_source:
  assumes "map_result f xs = Inr ys" "y \<in> set ys"
  obtains x where "x \<in> set xs" "f x = Inr y"
proof -
  have "\<exists>x\<in>set xs. f x = Inr y"
    using assms by (induction xs arbitrary: ys) (auto simp: rbind_Inr_iff)
  then show thesis using that by blast
qed

lemma map_result_total:
  "(\<And>x. x \<in> set xs \<Longrightarrow> f x = Inr (g x)) \<Longrightarrow> map_result f xs = Inr (map g xs)"
  by (induction xs) simp_all

lemmas result_iffs = rbind_Inr_iff rbind_Inl_iff

subsection \<open>Fallible state transformers\<close>

type_synonym ('s, 'e, 'a) op = "'s \<Rightarrow> 'e + 'a \<times> 's"

definition ret :: "'a \<Rightarrow> ('s, 'e, 'a) op" where
  "ret x s = Inr (x, s)"

definition raise :: "'e \<Rightarrow> ('s, 'e, 'a) op" where
  "raise e s = Inl e"

definition bindS :: "('s, 'e, 'a) op \<Rightarrow> ('a \<Rightarrow> ('s, 'e, 'b) op) \<Rightarrow> ('s, 'e, 'b) op" where
  "bindS m f s = (case m s of Inl e \<Rightarrow> Inl e | Inr (x, s') \<Rightarrow> f x s')"

definition getS :: "('s \<Rightarrow> 'a) \<Rightarrow> ('s, 'e, 'a) op" where
  "getS g s = Inr (g s, s)"

definition modS :: "('s \<Rightarrow> 's) \<Rightarrow> ('s, 'e, unit) op" where
  "modS g s = Inr ((), g s)"

definition liftS :: "'e + 'a \<Rightarrow> ('s, 'e, 'a) op" where
  "liftS r s = (case r of Inl e \<Rightarrow> Inl e | Inr x \<Rightarrow> Inr (x, s))"

definition whenS :: "bool \<Rightarrow> ('s, 'e, unit) op \<Rightarrow> ('s, 'e, unit) op" where
  "whenS b m = (if b then m else ret ())"

primrec forS :: "('x \<Rightarrow> ('s, 'e, unit) op) \<Rightarrow> 'x list \<Rightarrow> ('s, 'e, unit) op" where
  "forS f [] = ret ()"
| "forS f (x # xs) = bindS (f x) (\<lambda>_. forS f xs)"

lemma ret_simp [simp]: "ret x s = Inr (x, s)"
  by (simp add: ret_def)

lemma raise_simp [simp]: "raise e s = Inl e"
  by (simp add: raise_def)

lemma getS_simp [simp]: "getS g s = Inr (g s, s)"
  by (simp add: getS_def)

lemma modS_simp [simp]: "modS g s = Inr ((), g s)"
  by (simp add: modS_def)

lemma liftS_simps [simp]: "liftS (Inl e) s = Inl e" "liftS (Inr x) s = Inr (x, s)"
  by (simp_all add: liftS_def)

lemma liftS_iff [simp]:
  "liftS r s = Inr (x, s') \<longleftrightarrow> r = Inr x \<and> s' = s"
  "liftS r s = Inl e \<longleftrightarrow> r = Inl e"
  by (cases r; auto)+

lemma bindS_Inr_iff:
  "bindS m f s = Inr (y, t) \<longleftrightarrow> (\<exists>x s'. m s = Inr (x, s') \<and> f x s' = Inr (y, t))"
  by (auto simp: bindS_def split: sum.splits)

lemma bindS_Inl_iff:
  "bindS m f s = Inl e \<longleftrightarrow> m s = Inl e \<or> (\<exists>x s'. m s = Inr (x, s') \<and> f x s' = Inl e)"
  by (auto simp: bindS_def split: sum.splits)

lemma bindS_eval [simp]:
  "m s = Inr (x, s') \<Longrightarrow> bindS m f s = f x s'"
  "m s = Inl e \<Longrightarrow> bindS m f s = Inl e"
  by (simp_all add: bindS_def)

lemma bindS_E:
  assumes "bindS m f s = Inr (y, t)"
  obtains x s' where "m s = Inr (x, s')" "f x s' = Inr (y, t)"
  using assms by (auto simp: bindS_Inr_iff)

lemma bind_liftS_iff: "bindS (liftS r) f s = Inr p \<longleftrightarrow> (\<exists>x. r = Inr x \<and> f x s = Inr p)"
  by (cases r) simp_all

lemma bind_getS_simp [simp]: "bindS (getS g) f s = f (g s) s"
  by simp

lemmas op_iffs = bindS_Inr_iff bindS_Inl_iff

text \<open>A relation every successful run of a transformer keeps to.\<close>

definition keeps :: "('s \<Rightarrow> 's \<Rightarrow> bool) \<Rightarrow> ('s, 'e, 'a) op \<Rightarrow> bool" where
  "keeps R m \<longleftrightarrow> (\<forall>s x t. m s = Inr (x, t) \<longrightarrow> R s t)"

lemma keepsI [intro?]: "(\<And>s x t. m s = Inr (x, t) \<Longrightarrow> R s t) \<Longrightarrow> keeps R m"
  by (auto simp: keeps_def)

lemma keepsD: "keeps R m \<Longrightarrow> m s = Inr (x, t) \<Longrightarrow> R s t"
  by (auto simp: keeps_def)

text \<open>
  The interface of a history relation: states only ever move forward along it. Whatever is built
  from transformers that respect it with the combinators above keeps it too.
\<close>

locale history =
  fixes R :: "'s \<Rightarrow> 's \<Rightarrow> bool"
  assumes refl: "R s s"
    and trans: "R s t \<Longrightarrow> R t u \<Longrightarrow> R s u"
begin

lemma keeps_ret [inv_intros]: "keeps R (ret x)"
  by (auto simp: keeps_def refl)

lemma keeps_raise [inv_intros]: "keeps R (raise e)"
  by (auto simp: keeps_def)

lemma keeps_getS [inv_intros]: "keeps R (getS g)"
  by (auto simp: keeps_def refl)

lemma keeps_liftS [inv_intros]: "keeps R (liftS r)"
  by (auto simp: keeps_def refl)

lemma keeps_bindS [inv_intros]:
  "keeps R m \<Longrightarrow> (\<And>x. keeps R (f x)) \<Longrightarrow> keeps R (bindS m f)"
proof
  fix s y u
  assume m: "keeps R m" and f: "\<And>x. keeps R (f x)" and run: "bindS m f s = Inr (y, u)"
  from run obtain x t where "m s = Inr (x, t)" "f x t = Inr (y, u)"
    by (auto simp: bindS_Inr_iff)
  with m f show "R s u" by (blast intro: trans dest: keepsD)
qed

lemma keeps_whenS [inv_intros]: "(b \<Longrightarrow> keeps R m) \<Longrightarrow> keeps R (whenS b m)"
  by (auto simp: whenS_def intro: keeps_ret)

lemma keeps_if [inv_intros]:
  "(b \<Longrightarrow> keeps R m) \<Longrightarrow> (\<not> b \<Longrightarrow> keeps R n) \<Longrightarrow> keeps R (if b then m else n)"
  by simp

lemma keeps_forS [inv_intros]:
  "(\<And>x. x \<in> set xs \<Longrightarrow> keeps R (f x)) \<Longrightarrow> keeps R (forS f xs)"
proof (induction xs)
  case Nil
  show ?case by (simp only: forS.simps keeps_ret)
next
  case (Cons x xs)
  then have "keeps R (f x)" "keeps R (forS f xs)" by simp_all
  then show ?case by (simp add: keeps_bindS)
qed

end

text \<open>
  The same with a precondition that the relation keeps: what a handler knows about the objects it
  has read stays true while it works through the others.
\<close>

definition keeps_if :: "('s \<Rightarrow> bool) \<Rightarrow> ('s \<Rightarrow> 's \<Rightarrow> bool) \<Rightarrow> ('s, 'e, 'a) op \<Rightarrow> bool" where
  "keeps_if P R m \<longleftrightarrow> (\<forall>s x t. P s \<longrightarrow> m s = Inr (x, t) \<longrightarrow> R s t)"

lemma keeps_ifI [intro?]: "(\<And>s x t. P s \<Longrightarrow> m s = Inr (x, t) \<Longrightarrow> R s t) \<Longrightarrow> keeps_if P R m"
  by (auto simp: keeps_if_def)

lemma keeps_ifD: "keeps_if P R m \<Longrightarrow> P s \<Longrightarrow> m s = Inr (x, t) \<Longrightarrow> R s t"
  by (auto simp: keeps_if_def)

context history
begin

lemma keeps_if_forS:
  assumes "\<And>x s t. x \<in> set xs \<Longrightarrow> P x s \<Longrightarrow> R s t \<Longrightarrow> P x t"
    and "\<And>x. x \<in> set xs \<Longrightarrow> keeps_if (P x) R (f x)"
  shows "keeps_if (\<lambda>s. \<forall>x\<in>set xs. P x s) R (forS f xs)"
  using assms
proof (induction xs)
  case Nil
  show ?case by (auto simp: keeps_if_def refl)
next
  case (Cons x xs)
  show ?case
  proof
    fix s r u
    assume P: "\<forall>y\<in>set (x # xs). P y s" and run: "forS f (x # xs) s = Inr (r, u)"
    from run obtain v t where one: "f x s = Inr (v, t)" and rest: "forS f xs t = Inr (r, u)"
      by (auto simp: bindS_Inr_iff)
    have "R s t" using keeps_ifD [OF Cons.prems(2) _ one] P by simp
    have "P y t" if y: "y \<in> set xs" for y
    proof (rule Cons.prems(1))
      show "y \<in> set (x # xs)" "P y s" "R s t" using y P \<open>R s t\<close> by simp_all
    qed
    then have later: "\<forall>y\<in>set xs. P y t" by blast
    have "keeps_if (\<lambda>s. \<forall>x\<in>set xs. P x s) R (forS f xs)"
    proof (rule Cons.IH)
      show "P y t" if "y \<in> set xs" "P y s" "R s t" for y s t
        using that Cons.prems(1) [of y s t] by simp
      show "keeps_if (P y) R (f y)" if "y \<in> set xs" for y using that Cons.prems(2) by simp
    qed
    from keeps_ifD [OF this later rest] have "R t u" .
    with \<open>R s t\<close> show "R s u" by (rule trans)
  qed
qed

end

subsection \<open>Units of work\<close>

text \<open>
  \<open>async with factory(context) as uow\<close>: an exception that leaves the block rolls the session
  back. A body that commits and then raises returns the error as a value, so its writes stay.
\<close>

definition run_uow :: "('s, 'e, 'e + 'a) op \<Rightarrow> 's \<Rightarrow> ('e + 'a) \<times> 's" where
  "run_uow body s = (case body s of Inl e \<Rightarrow> (Inl e, s) | Inr (r, s') \<Rightarrow> (r, s'))"

lemma run_uow_rollback: "body s = Inl e \<Longrightarrow> run_uow body s = (Inl e, s)"
  by (simp add: run_uow_def)

lemma run_uow_commit: "body s = Inr (r, s') \<Longrightarrow> run_uow body s = (r, s')"
  by (simp add: run_uow_def)

lemma run_uow_cases:
  assumes "run_uow body s = (r, t)"
  obtains (rollback) e where "body s = Inl e" "r = Inl e" "t = s"
    | (commit) "body s = Inr (r, t)"
proof (cases "body s")
  case (Inl e)
  with assms show ?thesis by (intro rollback) (auto simp: run_uow_def)
next
  case (Inr p)
  with assms show ?thesis by (intro commit) (cases p, auto simp: run_uow_def)
qed

subsection \<open>Strings\<close>

text \<open>\<open>str.split()\<close> with no argument, \<open>sep.join(parts)\<close> and \<open>str.strip()\<close>.\<close>

definition py_isspace :: "char \<Rightarrow> bool" where
  "py_isspace c = (let n = (of_char c :: nat) in
     9 \<le> n \<and> n \<le> 13 \<or> 28 \<le> n \<and> n \<le> 32 \<or> n = 133 \<or> n = 160)"

fun split_go :: "string \<Rightarrow> string \<Rightarrow> string list" where
  "split_go acc [] = (if acc = [] then [] else [acc])"
| "split_go acc (c # cs) =
     (if py_isspace c then (if acc = [] then split_go [] cs else acc # split_go [] cs)
      else split_go (acc @ [c]) cs)"

definition py_split :: "string \<Rightarrow> string list" where
  "py_split s = split_go [] s"

fun py_join :: "string \<Rightarrow> string list \<Rightarrow> string" where
  "py_join sep [] = []"
| "py_join sep [x] = x"
| "py_join sep (x # y # ys) = x @ sep @ py_join sep (y # ys)"

definition py_strip :: "string \<Rightarrow> string" where
  "py_strip s = rev (dropWhile py_isspace (rev (dropWhile py_isspace s)))"

definition collapse :: "string \<Rightarrow> string" where
  "collapse s = py_join '' '' (py_split s)"

definition word_like :: "string \<Rightarrow> bool" where
  "word_like w \<longleftrightarrow> w \<noteq> [] \<and> (\<forall>c\<in>set w. \<not> py_isspace c)"

lemma isspace_blank [simp]: "py_isspace (CHR '' '')"
  by (simp add: py_isspace_def)

lemma split_go_words:
  "(\<forall>c\<in>set acc. \<not> py_isspace c) \<Longrightarrow> \<forall>w\<in>set (split_go acc s). word_like w"
proof (induction s arbitrary: acc)
  case Nil
  then show ?case by (simp add: word_like_def)
next
  case (Cons c cs)
  show ?case
  proof (cases "py_isspace c")
    case True
    with Cons.prems Cons.IH [of "[]"] show ?thesis by (simp add: word_like_def)
  next
    case False
    with Cons.prems Cons.IH [of "acc @ [c]"] show ?thesis by simp
  qed
qed

lemma py_split_words: "\<forall>w\<in>set (py_split s). word_like w"
  unfolding py_split_def by (rule split_go_words) simp

lemma split_go_append:
  "(\<forall>c\<in>set w. \<not> py_isspace c) \<Longrightarrow> split_go acc (w @ s) = split_go (acc @ w) s"
  by (induction w arbitrary: acc) simp_all

lemma split_go_join:
  "(\<forall>w\<in>set ws. word_like w) \<Longrightarrow> split_go [] (py_join '' '' ws) = ws"
proof (induction "'' '' :: string" ws rule: py_join.induct)
  case (2 x)
  then show ?case using split_go_append [of x "[]" "[]"] by (simp add: word_like_def)
next
  case (3 x y ys)
  then show ?case by (simp add: split_go_append word_like_def)
qed simp

lemma collapse_idem: "collapse (collapse s) = collapse s"
  using py_split_words [of s] by (simp add: collapse_def py_split_def split_go_join)

lemma length_split_go: "sum_list (map (Suc \<circ> length) (split_go acc s)) \<le> Suc (length acc + length s)"
  by (induction acc s rule: split_go.induct) auto

lemma length_py_join: "length (py_join '' '' ws) \<le> sum_list (map (Suc \<circ> length) ws) - 1"
  by (induction "'' '' :: string" ws rule: py_join.induct) auto

lemma length_collapse: "length (collapse s) \<le> length s"
  using length_split_go [of "[]" s] length_py_join [of "py_split s"]
  by (simp add: collapse_def py_split_def)

subsection \<open>Canonical text of a UUID\<close>

definition hex_digit :: "nat \<Rightarrow> char" where
  "hex_digit n = ''0123456789abcdef'' ! (n mod 16)"

primrec hex_fixed :: "nat \<Rightarrow> nat \<Rightarrow> string" where
  "hex_fixed 0 n = []"
| "hex_fixed (Suc k) n = hex_fixed k (n div 16) @ [hex_digit n]"

definition uuid_str :: "uuid \<Rightarrow> string" where
  "uuid_str u = (let h = hex_fixed 32 (unat u) in
     take 8 h @ ''-'' @ take 4 (drop 8 h) @ ''-'' @ take 4 (drop 12 h) @ ''-''
       @ take 4 (drop 16 h) @ ''-'' @ drop 20 h)"

lemma length_hex_fixed [simp]: "length (hex_fixed k n) = k"
  by (induction k arbitrary: n) simp_all

lemma hex_digit_inj: "hex_digit m = hex_digit n \<longleftrightarrow> m mod 16 = n mod 16"
proof
  have "distinct ''0123456789abcdef''" by simp
  then have "inj_on ((!) ''0123456789abcdef'') {..<16}"
    by (rule inj_on_nth) simp
  moreover assume "hex_digit m = hex_digit n"
  ultimately show "m mod 16 = n mod 16"
    unfolding hex_digit_def by (rule inj_onD) simp_all
qed (simp add: hex_digit_def)

lemma hex_fixed_inj: "hex_fixed k m = hex_fixed k n \<Longrightarrow> m mod 16 ^ k = n mod 16 ^ k"
proof (induction k arbitrary: m n)
  case 0
  then show ?case by simp
next
  case (Suc k)
  from Suc.prems have "hex_fixed k (m div 16) = hex_fixed k (n div 16)" by simp
  then have hi: "m div 16 mod 16 ^ k = n div 16 mod 16 ^ k" by (rule Suc.IH)
  from Suc.prems have lo: "m mod 16 = n mod 16" by (simp add: hex_digit_inj)
  have step: "x mod 16 ^ Suc k = 16 * (x div 16 mod 16 ^ k) + x mod 16" for x :: nat
    unfolding power_Suc by (rule mod_mult2_eq)
  show ?case by (simp only: step [of m] step [of n] hi lo)
qed

lemma dashed_split:
  assumes "length h = 32"
  shows "h = take 8 h @ take 4 (drop 8 h) @ take 4 (drop 12 h) @ take 4 (drop 16 h) @ drop 20 h"
proof -
  have "drop 16 h = take 4 (drop 16 h) @ drop 20 h"
    using append_take_drop_id [of 4 "drop 16 h"] by (simp del: append_take_drop_id)
  moreover have "drop 12 h = take 4 (drop 12 h) @ drop 16 h"
    using append_take_drop_id [of 4 "drop 12 h"] by (simp del: append_take_drop_id)
  moreover have "drop 8 h = take 4 (drop 8 h) @ drop 12 h"
    using append_take_drop_id [of 4 "drop 8 h"] by (simp del: append_take_drop_id)
  ultimately show ?thesis using append_take_drop_id [of 8 h] by metis
qed

lemma uuid_str_inj [simp]: "uuid_str u = uuid_str v \<longleftrightarrow> u = v"
proof
  assume eq: "uuid_str u = uuid_str v"
  define g h where "g = hex_fixed 32 (unat u)" and "h = hex_fixed 32 (unat v)"
  have len: "length g = 32" "length h = 32" by (simp_all only: g_def h_def length_hex_fixed)
  have "take 8 g @ ''-'' @ take 4 (drop 8 g) @ ''-'' @ take 4 (drop 12 g) @ ''-''
       @ take 4 (drop 16 g) @ ''-'' @ drop 20 g =
     take 8 h @ ''-'' @ take 4 (drop 8 h) @ ''-'' @ take 4 (drop 12 h) @ ''-''
       @ take 4 (drop 16 h) @ ''-'' @ drop 20 h"
    using eq unfolding uuid_str_def Let_def g_def h_def .
  with len have "take 8 g = take 8 h \<and> take 4 (drop 8 g) = take 4 (drop 8 h)
      \<and> take 4 (drop 12 g) = take 4 (drop 12 h) \<and> take 4 (drop 16 g) = take 4 (drop 16 h)
      \<and> drop 20 g = drop 20 h"
    by (simp add: append_eq_append_conv)
  then have "g = h" using dashed_split [OF len(1)] dashed_split [OF len(2)] by metis
  then have "unat u mod 16 ^ 32 = unat v mod 16 ^ 32" unfolding g_def h_def by (rule hex_fixed_inj)
  moreover have "unat w < 16 ^ 32" for w :: uuid proof -
    have "unat w < 2 ^ LENGTH(128)" by (rule unsigned_less)
    then show ?thesis by simp
  qed
  ultimately show "u = v" by (simp add: word_unat_eq_iff)
qed simp

lemma length_uuid_str [simp]: "length (uuid_str u) = 36"
  by (simp add: uuid_str_def Let_def)

lemma uuid_str_append [simp]: "uuid_str u @ xs = uuid_str v @ ys \<longleftrightarrow> u = v \<and> xs = ys"
  using append_eq_append_conv [of "uuid_str u" "uuid_str v"] by auto

subsection \<open>Decimal text and UUID parsing\<close>

definition dec_digit :: "nat \<Rightarrow> char" where
  "dec_digit n = ''0123456789'' ! (n mod 10)"

fun nat_str :: "nat \<Rightarrow> string" where
  "nat_str n = (if n < 10 then [dec_digit n] else nat_str (n div 10) @ [dec_digit n])"

declare nat_str.simps [simp del]

definition int_str :: "int \<Rightarrow> string" where
  "int_str i = (if i < 0 then ''-'' @ nat_str (nat (- i)) else nat_str (nat i))"

text \<open>
  \<open>UUID(text)\<close>: the prefixes \<open>urn:\<close> and \<open>uuid:\<close> and the dashes are removed wherever they stand and
  braces at the ends; what is left must be 32 characters that \<open>int(_, 16)\<close> reads as a
  non-negative number (spaces around it, a plus sign, \<open>0x\<close> and single underscores between digits
  are allowed there).
\<close>

definition starts_with :: "string \<Rightarrow> string \<Rightarrow> bool" where
  "starts_with p s \<longleftrightarrow> take (length p) s = p"

function remove_all :: "string \<Rightarrow> string \<Rightarrow> string" where
  "remove_all p s = (if p = [] \<or> s = [] then s
     else if starts_with p s then remove_all p (drop (length p) s)
     else hd s # remove_all p (tl s))"
  by auto
termination by (relation "measure (\<lambda>(p, s). length s)") (auto simp: starts_with_def)

declare remove_all.simps [simp del]

definition strip_chars :: "string \<Rightarrow> string \<Rightarrow> string" where
  "strip_chars cs s = rev (dropWhile (\<lambda>c. c \<in> set cs) (rev (dropWhile (\<lambda>c. c \<in> set cs) s)))"

definition hex_value :: "char \<Rightarrow> int option" where
  "hex_value c = (let n = (of_char c :: int) in
     if 48 \<le> n \<and> n \<le> 57 then Some (n - 48)
     else if 97 \<le> n \<and> n \<le> 102 then Some (n - 87)
     else if 65 \<le> n \<and> n \<le> 70 then Some (n - 55) else None)"

text \<open>\<open>after\<close> tells whether the previous character was a digit: an underscore must have one on each side.\<close>

fun hex_digits :: "bool \<Rightarrow> int \<Rightarrow> string \<Rightarrow> int option" where
  "hex_digits after acc [] = (if after then Some acc else None)"
| "hex_digits after acc (c # cs) =
     (if c = CHR ''_'' then if after then hex_digits False acc cs else None
      else case hex_value c of None \<Rightarrow> None | Some v \<Rightarrow> hex_digits True (16 * acc + v) cs)"

definition hex_body :: "string \<Rightarrow> int option" where
  "hex_body s = (if starts_with ''0x'' s \<or> starts_with ''0X'' s
     then (let b = drop 2 s in hex_digits False 0 (if starts_with ''_'' b then drop 1 b else b))
     else hex_digits False 0 s)"

definition int16 :: "string \<Rightarrow> int option" where
  "int16 s = (let t = py_strip s in
     if starts_with ''-'' t then map_option uminus (hex_body (drop 1 t))
     else if starts_with ''+'' t then hex_body (drop 1 t)
     else hex_body t)"

definition uuid_of_text :: "string \<Rightarrow> uuid option" where
  "uuid_of_text s =
     (let h = remove_all ''-'' (strip_chars ''{}'' (remove_all ''uuid:'' (remove_all ''urn:'' s))) in
      if length h \<noteq> 32 then None
      else case int16 h of None \<Rightarrow> None
        | Some i \<Rightarrow> if 0 \<le> i \<and> i < 2 ^ 128 then Some (of_int i) else None)"

end
