(* ===== verification/Calendar.thy ===== *)
theory Calendar
  imports Prelude "HOL-Library.Product_Lexorder"
begin

text \<open>
  \<open>sla/calendar.py\<close> and the calendar records of \<open>sla/models.py\<close>: business-time arithmetic over an
  immutable calendar version. Dates count days and local datetimes count microseconds from
  1970-01-01, instants count microseconds from the same moment in UTC.

  \<open>zoneinfo\<close> is modelled from its documented behaviour (PEP 495): a zone is its first offset and
  the list of its transitions, each the UTC instant from which a new offset holds. The table from
  zone names to zones is the installed time zone database and a parameter.
\<close>

definition second :: int where "second = 1000000"
definition minute :: int where "minute = 60 * second"
definition day_length :: int where "day_length = 86400 * second"

datatype calendar_error = CalendarConfigurationError string | CalendarValueError string

datatype calendar_exception_type = CLOSED | CUSTOM_HOURS

record working_period =
  iso_day_of_week :: int
  start_local_time :: int
  end_local_time :: int

record calendar_exception =
  exception_date :: int
  exception_type :: calendar_exception_type
  exc_start :: "int option"
  exc_end :: "int option"

record calendar_version =
  business_calendar_version_id :: uuid
  calendar_id :: uuid
  timezone_name :: string
  twenty_four_seven :: bool
  working_periods :: "working_period list"
  exceptions :: "calendar_exception list"

subsection \<open>Time zones\<close>

record zone =
  first_offset :: int
  zone_transitions :: "(instant \<times> int) list"

fun offset_from :: "int \<Rightarrow> (instant \<times> int) list \<Rightarrow> instant \<Rightarrow> int" where
  "offset_from off [] u = off"
| "offset_from off ((t, off') # ts) u = (if t \<le> u then offset_from off' ts u else off)"

definition to_local :: "zone \<Rightarrow> instant \<Rightarrow> int" where
  "to_local z u = u + offset_from (first_offset z) (zone_transitions z) u"

text \<open>
  The offset of a local time: a transition applies from its instant shifted by the larger of the
  two offsets on the first pass over an ambiguous time (\<open>fold=0\<close>), by the smaller on the second.
\<close>

fun local_offset_from :: "bool \<Rightarrow> int \<Rightarrow> (instant \<times> int) list \<Rightarrow> int \<Rightarrow> int" where
  "local_offset_from snd_pass off [] l = off"
| "local_offset_from snd_pass off ((t, off') # ts) l =
     (if t + (if snd_pass then min off off' else max off off') \<le> l
      then local_offset_from snd_pass off' ts l else off)"

definition to_utc :: "zone \<Rightarrow> bool \<Rightarrow> int \<Rightarrow> instant" where
  "to_utc z snd_pass l = l - local_offset_from snd_pass (first_offset z) (zone_transitions z) l"

definition date_of :: "int \<Rightarrow> int" where
  "date_of l = l div day_length"

definition local_date :: "zone \<Rightarrow> instant \<Rightarrow> int" where
  "local_date z u = date_of (to_local z u)"

definition combine :: "int \<Rightarrow> int \<Rightarrow> int" where
  "combine d t = d * day_length + t"

definition isoweekday :: "int \<Rightarrow> int" where
  "isoweekday d = (d + 3) mod 7 + 1"

subsection \<open>Validation\<close>

fun check_periods :: "working_period list \<Rightarrow> calendar_error + unit" where
  "check_periods [] = Inr ()"
| "check_periods (p # ps) =
     (if \<not> (1 \<le> iso_day_of_week p \<and> iso_day_of_week p \<le> 7)
      then Inl (CalendarConfigurationError ''Working-period day is invalid.'')
      else if start_local_time p \<ge> end_local_time p
      then Inl (CalendarConfigurationError ''Working-period bounds are invalid.'')
      else check_periods ps)"

definition day_periods :: "working_period list \<Rightarrow> int \<Rightarrow> working_period list" where
  "day_periods ps day = sort_key start_local_time (filter (\<lambda>p. iso_day_of_week p = day) ps)"

fun no_overlap :: "working_period list \<Rightarrow> bool" where
  "no_overlap (p # q # ps) \<longleftrightarrow> \<not> end_local_time p > start_local_time q \<and> no_overlap (q # ps)"
| "no_overlap _ = True"

definition validated_periods ::
  "working_period list \<Rightarrow> calendar_error + (int \<Rightarrow> working_period list)" where
  "validated_periods ps = rbind (check_periods ps) (\<lambda>_.
     if \<exists>day\<in>set (map iso_day_of_week ps). \<not> no_overlap (day_periods ps day)
     then Inl (CalendarConfigurationError ''Working periods overlap.'')
     else Inr (day_periods ps))"

fun check_exceptions :: "calendar_exception list \<Rightarrow> calendar_error + unit" where
  "check_exceptions [] = Inr ()"
| "check_exceptions (x # xs) =
     (if exception_type x = CUSTOM_HOURS \<and>
         (case (exc_start x, exc_end x) of (Some s, Some e) \<Rightarrow> s \<ge> e | _ \<Rightarrow> True)
      then Inl (CalendarConfigurationError ''Custom calendar hours are invalid.'')
      else if exception_type x = CLOSED \<and> (exc_start x \<noteq> None \<or> exc_end x \<noteq> None)
      then Inl (CalendarConfigurationError ''Closed calendar exceptions cannot have hours.'')
      else check_exceptions xs)"

definition validated_exceptions ::
  "calendar_exception list \<Rightarrow> calendar_error + (int \<Rightarrow> calendar_exception list)" where
  "validated_exceptions xs = rbind (check_exceptions xs) (\<lambda>_.
     Inr (\<lambda>d. filter (\<lambda>x. exception_date x = d) xs))"

record calendar =
  cal_version :: calendar_version
  cal_zone :: zone
  cal_periods :: "int \<Rightarrow> working_period list"
  cal_exceptions :: "int \<Rightarrow> calendar_exception list"

definition business_calendar ::
  "(string \<Rightarrow> zone option) \<Rightarrow> calendar_version \<Rightarrow> calendar_error + calendar" where
  "business_calendar zoneinfo version =
     (case zoneinfo (timezone_name version) of
        None \<Rightarrow> Inl (CalendarConfigurationError ''Business calendar timezone is unknown.'')
      | Some z \<Rightarrow>
          rbind (validated_periods (working_periods version)) (\<lambda>periods.
          rbind (validated_exceptions (exceptions version)) (\<lambda>excs.
            Inr \<lparr>cal_version = version, cal_zone = z, cal_periods = periods,
                 cal_exceptions = excs\<rparr>)))"

subsection \<open>The open intervals of a day\<close>

fun probe_gap :: "zone \<Rightarrow> int \<Rightarrow> nat \<Rightarrow> instant option" where
  "probe_gap z naive 0 = None"
| "probe_gap z naive (Suc n) =
     (let probe = naive + minute; u = to_utc z False probe in
      if to_local z u = probe then Some u else probe_gap z probe n)"

definition local_boundary :: "zone \<Rightarrow> int \<Rightarrow> bool \<Rightarrow> calendar_error + instant" where
  "local_boundary z naive is_end =
     (case filter (\<lambda>u. to_local z u = naive) (map (\<lambda>snd_pass. to_utc z snd_pass naive) [False, True]) of
        u # us \<Rightarrow> Inr (if is_end then foldl max u us else foldl min u us)
      | [] \<Rightarrow> (case probe_gap z naive 180 of
          Some u \<Rightarrow> Inr u
        | None \<Rightarrow> Inl (CalendarConfigurationError
                   ''Calendar contains an unresolvable local time.'')))"

fun merge_step :: "(instant \<times> instant) list \<Rightarrow> instant \<times> instant \<Rightarrow> (instant \<times> instant) list" where
  "merge_step [] (s, e) = [(s, e)]"
| "merge_step ((ps, pe) # acc) (s, e) =
     (if s > pe then (s, e) # (ps, pe) # acc else (ps, max pe e) # acc)"

text \<open>\<open>merged\<close> is kept with its last element first, and reversed at the end.\<close>

definition merge_intervals :: "(instant \<times> instant) list \<Rightarrow> (instant \<times> instant) list" where
  "merge_intervals ivs =
     rev (foldl merge_step [] (sort (filter (\<lambda>(s, e). e > s) ivs)))"

definition boundary_pair :: "zone \<Rightarrow> int \<Rightarrow> int \<times> int \<Rightarrow> calendar_error + instant \<times> instant" where
  "boundary_pair z d p =
     rbind (local_boundary z (combine d (fst p)) False) (\<lambda>s.
     rbind (local_boundary z (combine d (snd p)) True) (\<lambda>e. Inr (s, e)))"

definition period_bounds :: "calendar \<Rightarrow> int \<Rightarrow> (int \<times> int) list" where
  "period_bounds cal d =
     (let custom = map (\<lambda>x. (case exc_start x of None \<Rightarrow> 0 | Some t \<Rightarrow> t,
                             case exc_end x of None \<Rightarrow> 0 | Some t \<Rightarrow> t))
            (filter (\<lambda>x. exception_type x = CUSTOM_HOURS) (cal_exceptions cal d))
      in if custom \<noteq> [] then custom
         else map (\<lambda>p. (start_local_time p, end_local_time p)) (cal_periods cal (isoweekday d)))"

definition intervals :: "calendar \<Rightarrow> int \<Rightarrow> calendar_error + (instant \<times> instant) list" where
  "intervals cal d =
     (if twenty_four_seven (cal_version cal) then
        rbind (local_boundary (cal_zone cal) (combine d 0) False) (\<lambda>s.
        rbind (local_boundary (cal_zone cal) (combine (d + 1) 0) True) (\<lambda>e. Inr [(s, e)]))
      else if \<exists>x\<in>set (cal_exceptions cal d). exception_type x = CLOSED then Inr []
      else rbind (map_result (boundary_pair (cal_zone cal) d) (period_bounds cal d)) (\<lambda>ivs.
        Inr (merge_intervals ivs)))"

subsection \<open>Arithmetic\<close>

text \<open>
  The inner loop of \<open>add_business_seconds\<close>: either the instant where the remaining seconds are used
  up, or what remains after the day.
\<close>

fun consume ::
  "(instant \<times> instant) list \<Rightarrow> instant \<Rightarrow> int \<Rightarrow> instant + int" where
  "consume [] current remaining = Inr remaining"
| "consume ((s, e) # ivs) current remaining =
     (let cursor = max current s in
      if cursor \<ge> e then consume ivs current remaining
      else let available = (e - cursor) div second in
        if remaining \<le> available then Inl (cursor + remaining * second)
        else consume ivs current (remaining - available))"

fun add_days :: "calendar \<Rightarrow> int \<Rightarrow> nat \<Rightarrow> instant \<Rightarrow> int \<Rightarrow> calendar_error + instant" where
  "add_days cal d 0 current remaining =
     Inl (CalendarConfigurationError ''Business-time calculation exceeds ten years.'')"
| "add_days cal d (Suc n) current remaining =
     rbind (intervals cal d) (\<lambda>ivs.
       case consume ivs current remaining of
         Inl t \<Rightarrow> Inr t
       | Inr rest \<Rightarrow>
           rbind (local_boundary (cal_zone cal) (combine (d + 1) 0) False) (\<lambda>current'.
             add_days cal (d + 1) n current' rest))"

definition max_search_days :: nat where "max_search_days = 3660"

definition add_business_seconds :: "calendar \<Rightarrow> instant \<Rightarrow> int \<Rightarrow> calendar_error + instant" where
  "add_business_seconds cal start seconds =
     (if seconds < 0 then Inl (CalendarValueError ''Business seconds cannot be negative.'')
      else if seconds = 0 then Inr start
      else add_days cal (local_date (cal_zone cal) start) max_search_days start seconds)"

definition overlap_seconds :: "instant \<Rightarrow> instant \<Rightarrow> instant \<times> instant \<Rightarrow> int" where
  "overlap_seconds lower upper iv =
     (let s = max lower (fst iv); e = min upper (snd iv) in
      if e > s then (e - s) div second else 0)"

function between_days ::
  "calendar \<Rightarrow> instant \<Rightarrow> instant \<Rightarrow> int \<Rightarrow> int \<Rightarrow> int \<Rightarrow> calendar_error + int" where
  "between_days cal lower upper day last_day acc =
     (if day \<le> last_day
      then rbind (intervals cal day) (\<lambda>ivs.
        between_days cal lower upper (day + 1) last_day
          (acc + sum_list (map (overlap_seconds lower upper) ivs)))
      else Inr acc)"
  by pat_completeness auto
termination
  by (relation "measure (\<lambda>(cal, lower, upper, day, last_day, acc). nat (last_day + 1 - day))") auto

declare between_days.simps [simp del]

definition business_seconds_between ::
  "calendar \<Rightarrow> instant \<Rightarrow> instant \<Rightarrow> calendar_error + int" where
  "business_seconds_between cal lower upper =
     (if upper \<le> lower then Inr 0
      else between_days cal lower upper (local_date (cal_zone cal) lower)
        (local_date (cal_zone cal) upper) 0)"

end
