(* ===== verification/CalendarLaws.thy ===== *)
theory CalendarLaws
  imports Calendar
begin

text \<open>
  What the calendar promises: merged intervals are separated and cover the same instants; business
  time splits over an intermediate instant and inverts \<open>add_business_seconds\<close>. The laws of a day
  clock are a locale; the calendars over a regular zone interpret it.
\<close>

lemma unit_pos [simp]: "0 < second" "0 < minute" "0 < day_length"
  by (simp_all add: second_def minute_def day_length_def)

lemma second_nonzero [simp]: "second \<noteq> 0"
  by (simp add: second_def)

subsection \<open>Merging intervals\<close>

definition separated :: "(instant \<times> instant) list \<Rightarrow> bool" where
  "separated ivs \<longleftrightarrow> sorted_wrt (\<lambda>a b. snd a < fst b) ivs \<and> (\<forall>iv\<in>set ivs. fst iv < snd iv)"

definition cover :: "(instant \<times> instant) list \<Rightarrow> instant set" where
  "cover ivs = (\<Union>iv\<in>set ivs. {fst iv..<snd iv})"

lemma cover_simps [simp]:
  "cover [] = {}" "cover (iv # ivs) = {fst iv..<snd iv} \<union> cover ivs"
  "cover (rev ivs) = cover ivs"
  by (auto simp: cover_def)

lemma merge_fold:
  assumes "sorted (map fst xs)" "\<forall>x\<in>set xs. fst x < snd x" "separated (rev acc)"
    and "acc \<noteq> [] \<Longrightarrow> \<forall>x\<in>set xs. fst (hd acc) \<le> fst x"
  shows "separated (rev (foldl merge_step acc xs))
    \<and> cover (foldl merge_step acc xs) = cover acc \<union> cover xs"
  using assms
proof (induction xs arbitrary: acc)
  case Nil
  then show ?case by simp
next
  case (Cons x xs)
  obtain s e where x: "x = (s, e)" by (cases x)
  have later: "\<forall>y\<in>set xs. s \<le> fst y" "sorted (map fst xs)" "s < e"
    using Cons.prems(1,2) x by auto
  show ?case
  proof (cases acc)
    case Nil
    have "separated (rev [(s, e)])" using later by (simp add: separated_def)
    from Cons.IH [OF later(2) _ this] show ?thesis
      using Cons.prems(2) later x Nil by auto
  next
    case (Cons p rest)
    obtain ps pe where p: "p = (ps, pe)" by (cases p)
    show ?thesis
    proof (cases "s > pe")
      case True
      have "separated (rev ((s, e) # (ps, pe) # rest))"
        using Cons.prems(3) Cons p True later
        by (auto simp: separated_def sorted_wrt_append dest: order_less_trans)
      from Cons.IH [OF later(2) _ this] show ?thesis
        using Cons.prems(2) later x Cons p True by auto
    next
      case False
      have "ps \<le> s" using Cons.prems(4) Cons p x by auto
      have sep: "separated (rev ((ps, max pe e) # rest))"
        using Cons.prems(3) Cons p by (auto simp: separated_def sorted_wrt_append less_max_iff_disj)
      have "{ps..<max pe e} = {ps..<pe} \<union> {s..<e}"
        using False \<open>ps \<le> s\<close> later(3) by auto
      moreover have "\<forall>y\<in>set xs. ps \<le> fst y" using later(1) \<open>ps \<le> s\<close> by force
      with Cons.IH [OF later(2) _ sep] Cons.prems(2)
      have "separated (rev (foldl merge_step ((ps, max pe e) # rest) xs))
        \<and> cover (foldl merge_step ((ps, max pe e) # rest) xs)
          = cover ((ps, max pe e) # rest) \<union> cover xs" by simp
      ultimately show ?thesis using Cons p x False by (simp add: Un_assoc Un_left_commute)
    qed
  qed
qed

lemma sorted_map_fst: "sorted (xs :: (int \<times> int) list) \<Longrightarrow> sorted (map fst xs)"
  by (induction xs) (auto simp: less_eq_prod_def)

lemma cover_nonempty_only: "cover (filter (\<lambda>(s, e). e > s) ivs) = cover ivs"
  by (auto simp: cover_def)

lemma cover_sort [simp]: "cover (sort ivs) = cover ivs"
  by (simp add: cover_def)

text \<open>Merging the working intervals of a day keeps exactly the open instants, and leaves
  non-empty intervals in ascending order with a gap between any two.\<close>

lemma merge_intervals_normal:
  "separated (merge_intervals ivs) \<and> cover (merge_intervals ivs) = cover ivs"
proof -
  let ?xs = "sort (filter (\<lambda>(s, e). e > s) ivs)"
  have "separated (rev (foldl merge_step [] ?xs)) \<and> cover (foldl merge_step [] ?xs) = {} \<union> cover ?xs"
    using merge_fold [of ?xs "[]"] sorted_map_fst [of ?xs] by (auto simp: separated_def)
  then show ?thesis by (simp add: merge_intervals_def cover_nonempty_only)
qed

lemma merge_intervals_separated: "separated (merge_intervals ivs)"
  and merge_intervals_cover: "cover (merge_intervals ivs) = cover ivs"
  using merge_fold [OF sorted_map_fst, of "sort (filter (\<lambda>(s, e). e > s) ivs)" "[]"]
  by (auto simp: separated_def merge_intervals_def cover_nonempty_only)

subsection \<open>Truncated seconds\<close>

lemma div_split_le:
  fixes x y k :: int
  assumes "0 < k"
  shows "x div k + y div k \<le> (x + y) div k"
proof -
  have "0 \<le> (x mod k + y mod k) div k" using assms by (simp add: pos_imp_zdiv_nonneg_iff)
  then show ?thesis by (simp add: div_add1_eq [of x y])
qed

lemma div_split_eq:
  fixes x y k :: int
  assumes "k dvd x"
  shows "x div k + y div k = (x + y) div k"
  using assms by (simp add: div_plus_div_distrib_dvd_left)

lemma overlap_nonneg: "0 \<le> overlap_seconds a b iv"
  by (simp add: overlap_seconds_def Let_def pos_imp_zdiv_nonneg_iff)

lemma overlap_none: "min b (snd iv) \<le> max a (fst iv) \<Longrightarrow> overlap_seconds a b iv = 0"
  unfolding overlap_seconds_def Let_def by (rule if_not_P) linarith

lemma overlap_some:
  "max a (fst iv) < min b (snd iv) \<Longrightarrow>
     overlap_seconds a b iv = (min b (snd iv) - max a (fst iv)) div second"
  unfolding overlap_seconds_def Let_def by (rule if_P)

lemma overlap_upto:
  "max a s < e \<Longrightarrow> e \<le> u \<Longrightarrow> overlap_seconds a u (s, e) = (e - max a s) div second"
  by (simp add: overlap_some min_absorb2)

lemma overlap_until:
  "max a s < u \<Longrightarrow> u \<le> e \<Longrightarrow> overlap_seconds a u (s, e) = (u - max a s) div second"
  by (simp add: overlap_some min_absorb1)

lemma overlap_split:
  assumes "a \<le> b" "b \<le> c"
  obtains (outside) "overlap_seconds a b iv + overlap_seconds b c iv = overlap_seconds a c iv"
    | (inside) "overlap_seconds a b iv = (b - max a (fst iv)) div second"
        "overlap_seconds b c iv = (min c (snd iv) - b) div second"
        "overlap_seconds a c iv = ((b - max a (fst iv)) + (min c (snd iv) - b)) div second"
proof -
  let ?s = "max a (fst iv)" and ?e = "min c (snd iv)"
  consider "b \<le> ?s" | "?e \<le> b" | "?s < b" "b < ?e" by linarith
  then show ?thesis
  proof cases
    case 1
    then have "overlap_seconds a b iv = 0" by (intro overlap_none) auto
    moreover have "max b (fst iv) = ?s" using 1 assms by auto
    then have "overlap_seconds b c iv = overlap_seconds a c iv" by (simp add: overlap_seconds_def)
    ultimately show ?thesis by (intro outside) simp
  next
    case 2
    then have "overlap_seconds b c iv = 0" by (intro overlap_none) auto
    moreover have "min b (snd iv) = ?e" using 2 assms by auto
    then have "overlap_seconds a b iv = overlap_seconds a c iv" by (simp add: overlap_seconds_def)
    ultimately show ?thesis by (intro outside) simp
  next
    case 3
    then have "min b (snd iv) = b" "max b (fst iv) = b" by auto
    with 3 overlap_some [of a iv b] overlap_some [of b iv c] overlap_some [of a iv c]
    show ?thesis by (intro inside) simp_all
  qed
qed

lemma overlap_split_le:
  assumes "a \<le> b" "b \<le> c"
  shows "overlap_seconds a b iv + overlap_seconds b c iv \<le> overlap_seconds a c iv"
proof (rule overlap_split [OF assms, of iv])
  assume "overlap_seconds a b iv = (b - max a (fst iv)) div second"
    "overlap_seconds b c iv = (min c (snd iv) - b) div second"
    "overlap_seconds a c iv = ((b - max a (fst iv)) + (min c (snd iv) - b)) div second"
  then show ?thesis
    using div_split_le [of second "b - max a (fst iv)" "min c (snd iv) - b"] by simp
qed simp

lemma overlap_split_eq:
  assumes "a \<le> b" "b \<le> c" "second dvd a" "second dvd b" "second dvd fst iv"
  shows "overlap_seconds a b iv + overlap_seconds b c iv = overlap_seconds a c iv"
proof -
  have aligned: "second dvd b - max a (fst iv)" using assms(3-5) by (simp add: max_def)
  show ?thesis
  proof (rule overlap_split [OF assms(1,2), of iv])
    assume "overlap_seconds a b iv = (b - max a (fst iv)) div second"
      "overlap_seconds b c iv = (min c (snd iv) - b) div second"
      "overlap_seconds a c iv = ((b - max a (fst iv)) + (min c (snd iv) - b)) div second"
    then show ?thesis using div_split_eq [OF aligned, of "min c (snd iv) - b"] by simp
  qed
qed

subsection \<open>Consuming a day\<close>

lemma consume_rest:
  assumes "consume ivs cur rem = Inr r" "\<forall>iv\<in>set ivs. snd iv \<le> u"
  shows "sum_list (map (overlap_seconds cur u) ivs) = rem - r \<and> (0 < rem \<longrightarrow> 0 < r)"
  using assms
proof (induction ivs cur rem rule: consume.induct)
  case (2 s e ivs cur rem)
  show ?case
  proof (cases "max cur s \<ge> e")
    case True
    then have "overlap_seconds cur u (s, e) = 0" by (intro overlap_none) simp
    moreover have "consume ivs cur rem = Inr r" using 2(3) True by (simp add: Let_def)
    ultimately show ?thesis using 2(1) [OF refl True] 2(4) by simp
  next
    case False
    then have open_now: "overlap_seconds cur u (s, e) = (e - max cur s) div second"
      using 2(4) by (intro overlap_upto) auto
    have more: "(e - max cur s) div second < rem"
      and rest: "consume ivs cur (rem - (e - max cur s) div second) = Inr r"
      using 2(3) False by (auto simp: Let_def split: if_splits)
    then show ?thesis using 2(2) [OF refl False refl] 2(4) open_now by simp
  qed
qed simp

lemma consume_done:
  assumes "consume ivs cur rem = Inl t" "separated ivs" "0 < rem"
  shows "sum_list (map (overlap_seconds cur t) ivs) = rem
    \<and> (\<exists>iv\<in>set ivs. max cur (fst iv) < t \<and> t \<le> snd iv)"
  using assms
proof (induction ivs cur rem rule: consume.induct)
  case (2 s e ivs cur rem)
  have sep: "separated ivs" and apart: "\<forall>iv\<in>set ivs. e < fst iv"
    using 2(4) by (auto simp: separated_def)
  show ?case
  proof (cases "max cur s \<ge> e")
    case True
    then have "overlap_seconds cur t (s, e) = 0" by (intro overlap_none) simp
    moreover have "consume ivs cur rem = Inl t" using 2(3) True by (simp add: Let_def)
    ultimately show ?thesis using 2(1) [OF refl True] 2(5) sep by auto
  next
    case False
    let ?avail = "(e - max cur s) div second"
    show ?thesis
    proof (cases "rem \<le> ?avail")
      case True
      then have t: "t = max cur s + rem * second" using 2(3) False by (simp add: Let_def)
      have "rem * second \<le> ?avail * second" using True by (simp add: mult_right_mono)
      also have "\<dots> \<le> e - max cur s"
        by (metis add.commute diff_add_cancel div_mult_mod_eq le_add_same_cancel1
            pos_mod_sign unit_pos(1) mult.commute)
      finally have "t \<le> e" using t by simp
      have "0 < rem * second" using 2(5) by simp
      then have "max cur s < t" using t by linarith
      then have "overlap_seconds cur t (s, e) = rem"
        using overlap_until [of cur s t e] \<open>t \<le> e\<close> by (simp add: t)
      moreover have "map (overlap_seconds cur t) ivs = map (\<lambda>_. 0) ivs"
        using apart \<open>t \<le> e\<close> by (auto intro!: overlap_none)
      then have "sum_list (map (overlap_seconds cur t) ivs) = 0" by (metis sum_list_0)
      ultimately show ?thesis using \<open>t \<le> e\<close> \<open>max cur s < t\<close> by auto
    next
      case more: False
      have "consume ivs cur (rem - ?avail) = Inl t"
        using 2(3) False more by (simp add: Let_def)
      then have IH: "sum_list (map (overlap_seconds cur t) ivs) = rem - ?avail"
          "\<exists>iv\<in>set ivs. max cur (fst iv) < t \<and> t \<le> snd iv"
        using 2(2) [OF refl False refl more _ sep] more by auto
      then have "e < t" using apart by force
      then have "overlap_seconds cur t (s, e) = ?avail" using False by (intro overlap_upto) auto
      then show ?thesis using IH by auto
    qed
  qed
qed simp

fun search_days ::
  "(int \<Rightarrow> (instant \<times> instant) list) \<Rightarrow> (int \<Rightarrow> instant) \<Rightarrow> int \<Rightarrow> nat \<Rightarrow> instant \<Rightarrow> int
     \<Rightarrow> instant option" where
  "search_days I D d 0 cur rem = None"
| "search_days I D d (Suc n) cur rem =
     (case consume (I d) cur rem of
        Inl t \<Rightarrow> Some t
      | Inr r \<Rightarrow> search_days I D (d + 1) n (D (d + 1)) r)"

subsection \<open>Day clocks\<close>

text \<open>
  The interface the arithmetic relies on: the open intervals of a day in order, inside the day
  (the local date of every open instant is that day), after the day's dawn, and local dates that
  never run backwards.
\<close>

locale day_clock =
  fixes valid :: "'c \<Rightarrow> bool"
    and ivs :: "'c \<Rightarrow> int \<Rightarrow> (instant \<times> instant) list"
    and dawn :: "'c \<Rightarrow> int \<Rightarrow> instant"
    and date :: "'c \<Rightarrow> instant \<Rightarrow> int"
  assumes date_mono: "valid c \<Longrightarrow> t \<le> u \<Longrightarrow> date c t \<le> date c u"
    and in_day: "valid c \<Longrightarrow> iv \<in> set (ivs c d) \<Longrightarrow> fst iv \<le> t \<Longrightarrow> t < snd iv \<Longrightarrow> date c t = d"
    and dawn_day: "valid c \<Longrightarrow> date c (dawn c d) = d"
    and after_dawn: "valid c \<Longrightarrow> iv \<in> set (ivs c d) \<Longrightarrow> dawn c d \<le> fst iv"
    and ivs_separated: "valid c \<Longrightarrow> separated (ivs c d)"
begin

definition day_seconds :: "'c \<Rightarrow> instant \<Rightarrow> instant \<Rightarrow> int \<Rightarrow> int" where
  "day_seconds c a b d = sum_list (map (overlap_seconds a b) (ivs c d))"

lemma day_seconds_nonneg: "0 \<le> day_seconds c a b d"
  unfolding day_seconds_def by (rule sum_list_nonneg) (auto simp: overlap_nonneg)

lemma day_seconds_outside:
  assumes "valid c" "d < date c a \<or> date c b < d"
  shows "day_seconds c a b d = 0"
proof -
  have "overlap_seconds a b iv = 0" if iv: "iv \<in> set (ivs c d)" for iv
  proof (cases "max a (fst iv) < min b (snd iv)")
    case True
    let ?t = "max a (fst iv)"
    have "date c ?t = d" using in_day [OF assms(1) iv, of ?t] True by simp
    moreover have "date c a \<le> date c ?t" "date c ?t \<le> date c b"
      using True by (auto intro: date_mono [OF assms(1)])
    ultimately show ?thesis using assms(2) by linarith
  qed (auto intro: overlap_none)
  then have "map (overlap_seconds a b) (ivs c d) = map (\<lambda>_. 0) (ivs c d)" by simp
  then show ?thesis unfolding day_seconds_def by (metis sum_list_0)
qed

lemma day_seconds_split_le:
  "a \<le> b \<Longrightarrow> b \<le> e \<Longrightarrow> day_seconds c a b d + day_seconds c b e d \<le> day_seconds c a e d"
  unfolding day_seconds_def sum_list_addf [symmetric]
  by (rule sum_list_mono) (rule overlap_split_le)

lemma day_seconds_split_eq:
  assumes "a \<le> b" "b \<le> e" "second dvd a" "second dvd b" "\<forall>iv\<in>set (ivs c d). second dvd fst iv"
  shows "day_seconds c a b d + day_seconds c b e d = day_seconds c a e d"
  unfolding day_seconds_def sum_list_addf [symmetric]
  using assms by (intro arg_cong [where f = sum_list] map_cong refl overlap_split_eq) auto

text \<open>Business seconds between two instants, over any range of days that spans them.\<close>

definition seconds_between :: "'c \<Rightarrow> instant \<Rightarrow> instant \<Rightarrow> int" where
  "seconds_between c a b =
     (if b \<le> a then 0 else (\<Sum>d = date c a..date c b. day_seconds c a b d))"

lemma seconds_between_range:
  assumes "valid c" "a < b" "lo \<le> date c a" "date c b \<le> hi"
  shows "seconds_between c a b = (\<Sum>d = lo..hi. day_seconds c a b d)"
proof -
  have "(\<Sum>d = lo..hi. day_seconds c a b d) = (\<Sum>d = date c a..date c b. day_seconds c a b d)"
    using assms by (intro sum.mono_neutral_right) (auto intro: day_seconds_outside)
  then show ?thesis using assms(2) by (simp add: seconds_between_def)
qed

lemma seconds_between_nonneg: "0 \<le> seconds_between c a b"
  by (simp add: seconds_between_def sum_nonneg day_seconds_nonneg)

lemma seconds_between_split_le:
  assumes "valid c" "a \<le> b" "b \<le> e"
  shows "seconds_between c a b + seconds_between c b e \<le> seconds_between c a e"
proof (cases "a = b \<or> b = e")
  case True
  then show ?thesis by (auto simp: seconds_between_def)
next
  case False
  let ?S = "\<lambda>x y. \<Sum>d = date c a..date c e. day_seconds c x y d"
  have *: "seconds_between c a b = ?S a b" "seconds_between c b e = ?S b e"
      "seconds_between c a e = ?S a e"
    using assms False by (auto intro!: seconds_between_range date_mono)
  show ?thesis unfolding * sum.distrib [symmetric]
    using assms by (intro sum_mono day_seconds_split_le)
qed

lemma seconds_between_split_eq:
  assumes "valid c" "a \<le> b" "b \<le> e" "second dvd a" "second dvd b"
    and "\<And>d iv. iv \<in> set (ivs c d) \<Longrightarrow> second dvd fst iv"
  shows "seconds_between c a b + seconds_between c b e = seconds_between c a e"
proof (cases "a = b \<or> b = e")
  case True
  then show ?thesis by (auto simp: seconds_between_def)
next
  case False
  let ?S = "\<lambda>x y. \<Sum>d = date c a..date c e. day_seconds c x y d"
  have *: "seconds_between c a b = ?S a b" "seconds_between c b e = ?S b e"
      "seconds_between c a e = ?S a e"
    using assms False by (auto intro!: seconds_between_range date_mono)
  show ?thesis unfolding * sum.distrib [symmetric]
    using assms by (intro sum.cong refl day_seconds_split_eq) auto
qed

lemma later_starts:
  assumes "valid c" "date c cur \<le> d" "d < d'" "iv \<in> set (ivs c d')"
  shows "cur \<le> fst iv"
proof (rule ccontr)
  assume "\<not> cur \<le> fst iv"
  then have "date c (fst iv) \<le> date c cur" using date_mono [OF assms(1)] by simp
  moreover have "fst iv < snd iv"
    using ivs_separated [OF assms(1)] assms(4) by (auto simp: separated_def)
  then have "date c (fst iv) = d'" using in_day [OF assms(1,4)] by simp
  ultimately show False using assms(2,3) by simp
qed

lemma earlier_ends:
  assumes "valid c" "iv \<in> set (ivs c d)" "d < d'" "iv' \<in> set (ivs c d')" "fst iv' < t" "t \<le> snd iv'"
  shows "snd iv \<le> t"
proof (rule ccontr)
  assume "\<not> snd iv \<le> t"
  then have "date c (t - 1) \<le> date c (snd iv - 1)" using date_mono [OF assms(1)] by simp
  moreover have "fst iv < snd iv"
    using ivs_separated [OF assms(1)] assms(2) by (auto simp: separated_def)
  then have "date c (snd iv - 1) = d" using in_day [OF assms(1,2)] by simp
  moreover have "date c (t - 1) = d'" using in_day [OF assms(1,4)] assms(5,6) by simp
  ultimately show False using assms(3) by simp
qed

lemma search_days_sound:
  assumes "valid c" "search_days (ivs c) (dawn c) d n cur rem = Some t" "0 < rem" "date c cur \<le> d"
  shows "\<exists>d'\<ge>d. (\<exists>iv\<in>set (ivs c d'). max cur (fst iv) < t \<and> t \<le> snd iv)
    \<and> (\<Sum>k = d..d'. day_seconds c cur t k) = rem"
  using assms(2-)
proof (induction n arbitrary: d cur rem)
  case (Suc n)
  show ?case
  proof (cases "consume (ivs c d) cur rem")
    case (Inl t')
    then have "consume (ivs c d) cur rem = Inl t" using Suc.prems(1) by simp
    from consume_done [OF this ivs_separated [OF assms(1)] Suc.prems(2)] show ?thesis
      by (intro exI [of _ d]) (simp add: day_seconds_def)
  next
    case (Inr r)
    then have search: "search_days (ivs c) (dawn c) (d + 1) n (dawn c (d + 1)) r = Some t"
      and "0 < r" using Suc.prems(1,2) consume_rest [OF Inr, of "Max (snd ` set (ivs c d))"] by auto
    from Suc.IH [OF this] dawn_day [OF assms(1)] obtain d' iv where d': "d + 1 \<le> d'"
      and iv: "iv \<in> set (ivs c d')" "max (dawn c (d + 1)) (fst iv) < t" "t \<le> snd iv"
      and sum: "(\<Sum>k = d + 1..d'. day_seconds c (dawn c (d + 1)) t k) = r"
      by auto
    have "\<forall>i\<in>set (ivs c d). snd i \<le> t"
      using earlier_ends [OF assms(1) _ _ iv(1)] iv(2,3) d' by auto
    then have today: "day_seconds c cur t d = rem - r"
      using consume_rest [OF Inr] by (simp add: day_seconds_def)
    have "day_seconds c cur t k = day_seconds c (dawn c (d + 1)) t k" if k: "k \<in> {d + 1..d'}" for k
    proof -
      have "overlap_seconds cur t i = overlap_seconds (dawn c (d + 1)) t i"
        if i: "i \<in> set (ivs c k)" for i
      proof -
        have "cur \<le> fst i" using later_starts [OF assms(1) Suc.prems(3) _ i] k by simp
        moreover have "dawn c (d + 1) \<le> fst i"
        proof (cases "k = d + 1")
          case True
          then show ?thesis using after_dawn [OF assms(1)] i by simp
        next
          case False
          then show ?thesis
            using later_starts [OF assms(1) _ _ i, of "dawn c (d + 1)" "d + 1"]
              dawn_day [OF assms(1)] k by simp
        qed
        ultimately show ?thesis by (simp add: overlap_seconds_def max_absorb2)
      qed
      then show ?thesis unfolding day_seconds_def
        by (intro arg_cong [where f = sum_list] map_cong refl)
    qed
    then have later: "(\<Sum>k = d + 1..d'. day_seconds c cur t k) = r" using sum by simp
    have "{d..d'} = insert d {d + 1..d'}" using d' by auto
    then have "(\<Sum>k = d..d'. day_seconds c cur t k) = rem" using today later by simp
    moreover have "cur \<le> fst iv" using later_starts [OF assms(1) Suc.prems(3) _ iv(1)] d' by simp
    ultimately show ?thesis using d' iv by (intro exI [of _ d']) auto
  qed
qed simp

lemma search_days_between:
  assumes "valid c" "search_days (ivs c) (dawn c) (date c cur) n cur rem = Some t" "0 < rem"
  shows "seconds_between c cur t = rem \<and> cur < t"
proof -
  from search_days_sound [OF assms] obtain d' iv where d': "date c cur \<le> d'"
    and iv: "iv \<in> set (ivs c d')" "max cur (fst iv) < t" "t \<le> snd iv"
    and sum: "(\<Sum>k = date c cur..d'. day_seconds c cur t k) = rem" by auto
  let ?hi = "max d' (date c t)"
  have "day_seconds c cur t k = 0" if "k \<in> {date c cur..?hi} - {date c cur..d'}" for k
  proof -
    have "overlap_seconds cur t i = 0" if i: "i \<in> set (ivs c k)" for i
    proof (rule overlap_none)
      have "date c (t - 1) = d'" using in_day [OF assms(1) iv(1), of "t - 1"] iv(2,3) by simp
      then have "t - 1 \<le> fst i" "t - 1 \<noteq> fst i"
        using later_starts [OF assms(1) _ _ i, of "t - 1" d'] in_day [OF assms(1) i, of "fst i"]
          ivs_separated [OF assms(1), of k] i \<open>k \<in> _\<close> by (auto simp: separated_def)
      then show "min t (snd i) \<le> max cur (fst i)" by simp
    qed
    then have "map (overlap_seconds cur t) (ivs c k) = map (\<lambda>_. 0) (ivs c k)" by simp
    then show ?thesis unfolding day_seconds_def by (metis sum_list_0)
  qed
  then have "(\<Sum>k = date c cur..?hi. day_seconds c cur t k)
      = (\<Sum>k = date c cur..d'. day_seconds c cur t k)"
    by (intro sum.mono_neutral_right) auto
  then show ?thesis
    using seconds_between_range [OF assms(1), of cur t "date c cur" ?hi] iv(2) sum by simp
qed

end

end
