(* ===== verification/CalendarSpec.thy ===== *)
theory CalendarSpec
  imports CalendarLaws
begin

text \<open>
  The contract of \<open>BusinessCalendar\<close> for calendars whose zone never moves a local date backwards
  and resolves every local time, and what happens where a zone repeats midnight.
\<close>

subsection \<open>Regular zones and calendars\<close>

definition regular_zone :: "zone \<Rightarrow> bool" where
  "regular_zone z \<longleftrightarrow>
     (\<forall>naive is_end. \<exists>u. local_boundary z naive is_end = Inr u)
   \<and> (\<forall>t u. t \<le> u \<longrightarrow> local_date z t \<le> local_date z u)
   \<and> (\<forall>d tod is_end u. 0 \<le> tod \<longrightarrow> tod < day_length \<longrightarrow>
        local_boundary z (combine d tod) is_end = Inr u \<longrightarrow> local_date z u = d)
   \<and> (\<forall>d t u. local_boundary z (combine d 0) True = Inr u \<longrightarrow> t < u \<longrightarrow> local_date z t < d)
   \<and> (\<forall>d tod s u. 0 \<le> tod \<longrightarrow> local_boundary z (combine d 0) False = Inr s \<longrightarrow>
        local_boundary z (combine d tod) False = Inr u \<longrightarrow> s \<le> u)"

definition time_of_day :: "int \<Rightarrow> bool" where
  "time_of_day t \<longleftrightarrow> 0 \<le> t \<and> t < day_length"

text \<open>The \<open>time\<close> values of a version are times of day.\<close>

definition well_timed :: "calendar_version \<Rightarrow> bool" where
  "well_timed v \<longleftrightarrow>
     (\<forall>p\<in>set (working_periods v). time_of_day (start_local_time p) \<and> time_of_day (end_local_time p))
   \<and> (\<forall>x\<in>set (exceptions v). \<forall>t. (exc_start x = Some t \<or> exc_end x = Some t) \<longrightarrow> time_of_day t)"

definition regular_calendar :: "calendar \<Rightarrow> bool" where
  "regular_calendar cal \<longleftrightarrow> regular_zone (cal_zone cal)
     \<and> (\<forall>d. \<forall>b\<in>set (period_bounds cal d). time_of_day (fst b) \<and> time_of_day (snd b))"

definition open_on :: "calendar \<Rightarrow> int \<Rightarrow> (instant \<times> instant) list" where
  "open_on cal d = (case intervals cal d of Inl _ \<Rightarrow> [] | Inr ivs \<Rightarrow> ivs)"

definition dawn_of :: "calendar \<Rightarrow> int \<Rightarrow> instant" where
  "dawn_of cal d = (case local_boundary (cal_zone cal) (combine d 0) False of
     Inl _ \<Rightarrow> 0 | Inr u \<Rightarrow> u)"

lemma time_of_day_zero [simp]: "time_of_day 0"
  by (simp add: time_of_day_def)

lemma business_calendar_regular:
  assumes "business_calendar zoneinfo v = Inr cal" "well_timed v" "regular_zone (cal_zone cal)"
  shows "regular_calendar cal"
proof -
  from assms(1) have cal: "cal_periods cal = day_periods (working_periods v)"
      "cal_exceptions cal = (\<lambda>d. filter (\<lambda>x. exception_date x = d) (exceptions v))"
    by (auto simp: business_calendar_def validated_periods_def validated_exceptions_def rbind_Inr_iff
        split: option.splits if_splits)
  have "time_of_day (fst b) \<and> time_of_day (snd b)" if "b \<in> set (period_bounds cal d)" for d b
    using that assms(2) unfolding period_bounds_def cal well_timed_def
    by (auto simp: Let_def day_periods_def split: if_splits option.splits)
  with assms(3) show ?thesis by (simp add: regular_calendar_def)
qed

lemma regular_calendarD:
  assumes "regular_calendar cal"
  shows boundary_total: "\<exists>u. local_boundary (cal_zone cal) naive is_end = Inr u"
    and date_monotone: "t \<le> u \<Longrightarrow> local_date (cal_zone cal) t \<le> local_date (cal_zone cal) u"
    and boundary_date: "time_of_day tod \<Longrightarrow>
      local_boundary (cal_zone cal) (combine d tod) is_end = Inr u \<Longrightarrow> local_date (cal_zone cal) u = d"
    and before_midnight: "local_boundary (cal_zone cal) (combine d 0) True = Inr u \<Longrightarrow> t < u \<Longrightarrow>
      local_date (cal_zone cal) t < d"
    and boundary_after_dawn: "0 \<le> tod \<Longrightarrow>
      local_boundary (cal_zone cal) (combine d tod) False = Inr u \<Longrightarrow> dawn_of cal d \<le> u"
    and period_times: "b \<in> set (period_bounds cal d) \<Longrightarrow> time_of_day (fst b) \<and> time_of_day (snd b)"
proof -
  have z: "regular_zone (cal_zone cal)" using assms by (simp add: regular_calendar_def)
  show "\<exists>u. local_boundary (cal_zone cal) naive is_end = Inr u"
    "t \<le> u \<Longrightarrow> local_date (cal_zone cal) t \<le> local_date (cal_zone cal) u"
    "time_of_day tod \<Longrightarrow> local_boundary (cal_zone cal) (combine d tod) is_end = Inr u \<Longrightarrow>
      local_date (cal_zone cal) u = d"
    "local_boundary (cal_zone cal) (combine d 0) True = Inr u \<Longrightarrow> t < u \<Longrightarrow>
      local_date (cal_zone cal) t < d"
    using z unfolding regular_zone_def time_of_day_def by blast+
  obtain w where w: "local_boundary (cal_zone cal) (combine d 0) False = Inr w"
    using z unfolding regular_zone_def by blast
  show "0 \<le> tod \<Longrightarrow> local_boundary (cal_zone cal) (combine d tod) False = Inr u \<Longrightarrow> dawn_of cal d \<le> u"
    using z w unfolding regular_zone_def dawn_of_def by auto
  show "b \<in> set (period_bounds cal d) \<Longrightarrow> time_of_day (fst b) \<and> time_of_day (snd b)"
    using assms by (simp add: regular_calendar_def)
qed

lemma dawn_boundary:
  "regular_calendar cal \<Longrightarrow> local_boundary (cal_zone cal) (combine d 0) False = Inr (dawn_of cal d)"
  using boundary_total [of cal "combine d 0" False] by (auto simp: dawn_of_def)

lemma intervals_total:
  assumes "regular_calendar cal"
  shows "intervals cal d = Inr (open_on cal d)"
proof -
  have "\<exists>iv. boundary_pair (cal_zone cal) d p = Inr iv" for p
    using boundary_total [OF assms, of "combine d (fst p)" False]
      boundary_total [OF assms, of "combine d (snd p)" True]
    by (auto simp: boundary_pair_def)
  then obtain g where g: "\<And>p. boundary_pair (cal_zone cal) d p = Inr (g p)" by metis
  obtain s e where "local_boundary (cal_zone cal) (combine d 0) False = Inr s"
      "local_boundary (cal_zone cal) (combine (d + 1) 0) True = Inr e"
    using boundary_total [OF assms] by metis
  then have "\<exists>ivs. intervals cal d = Inr ivs"
    using map_result_total [of "period_bounds cal d" "boundary_pair (cal_zone cal) d" g] g
    by (simp add: intervals_def)
  then show ?thesis by (auto simp: open_on_def)
qed

lemma intervals_shape:
  assumes "intervals cal d = Inr I"
  obtains (all_day) s e where "I = [(s, e)]"
      "local_boundary (cal_zone cal) (combine d 0) False = Inr s"
      "local_boundary (cal_zone cal) (combine (d + 1) 0) True = Inr e"
    | (closed) "I = []"
    | (hours) ivs where "I = merge_intervals ivs"
      "map_result (boundary_pair (cal_zone cal) d) (period_bounds cal d) = Inr ivs"
  using assms by (auto simp: intervals_def rbind_Inr_iff split: if_splits)

lemma separated_small: "separated []" "s < e \<Longrightarrow> separated [(s, e)]"
  by (simp_all add: separated_def)

text \<open>Every open instant lies between the boundaries of one period of the day.\<close>

lemma open_on_period:
  assumes "regular_calendar cal" "iv \<in> set (open_on cal d)" "fst iv \<le> t" "t < snd iv"
  obtains tod s e where "time_of_day tod" "s \<le> t" "t < e"
    "local_boundary (cal_zone cal) (combine d tod) False = Inr s"
    "(\<exists>tod'. time_of_day tod' \<and> local_boundary (cal_zone cal) (combine d tod') True = Inr e)
      \<or> local_boundary (cal_zone cal) (combine (d + 1) 0) True = Inr e"
  using intervals_total [OF assms(1), of d]
proof (cases rule: intervals_shape)
  case (all_day s e)
  then have "iv = (s, e)" using assms(2) by simp
  then show ?thesis using all_day assms(3,4) by (intro that [of 0 s e] disjI2) simp_all
next
  case closed
  then show ?thesis using assms(2) by simp
next
  case (hours ivs)
  have "t \<in> cover (merge_intervals ivs)" using assms(2-4) hours(1) by (auto simp: cover_def)
  then have "t \<in> cover ivs" by (simp add: merge_intervals_cover)
  then obtain r where r: "r \<in> set ivs" "fst r \<le> t" "t < snd r"
    by (auto simp: cover_def)
  from hours(2) r(1) obtain b where b: "b \<in> set (period_bounds cal d)"
      "boundary_pair (cal_zone cal) d b = Inr r"
    by (rule map_result_source)
  from b(2) have bounds: "local_boundary (cal_zone cal) (combine d (fst b)) False = Inr (fst r)"
      "local_boundary (cal_zone cal) (combine d (snd b)) True = Inr (snd r)"
    by (auto simp: boundary_pair_def rbind_Inr_iff)
  show ?thesis
    using period_times [OF assms(1) b(1)] bounds
    by (intro that [of "fst b" "fst r" "snd r"] r disjI1) blast+
qed

lemma open_on_date:
  assumes "regular_calendar cal" "iv \<in> set (open_on cal d)" "fst iv \<le> t" "t < snd iv"
  shows "local_date (cal_zone cal) t = d"
  using assms
proof (rule open_on_period)
  fix tod s e
  assume *: "time_of_day tod" "s \<le> t" "t < e"
    "local_boundary (cal_zone cal) (combine d tod) False = Inr s"
    and e: "(\<exists>tod'. time_of_day tod' \<and> local_boundary (cal_zone cal) (combine d tod') True = Inr e)
      \<or> local_boundary (cal_zone cal) (combine (d + 1) 0) True = Inr e"
  have "d \<le> local_date (cal_zone cal) t"
    using boundary_date [OF assms(1) *(1,4)] date_monotone [OF assms(1) *(2)] by simp
  moreover have "local_date (cal_zone cal) t \<le> d"
    using e
  proof
    assume "\<exists>tod'. time_of_day tod' \<and> local_boundary (cal_zone cal) (combine d tod') True = Inr e"
    then have "local_date (cal_zone cal) e = d" using boundary_date [OF assms(1)] by blast
    then show ?thesis using date_monotone [OF assms(1), of t e] *(3) by simp
  next
    assume "local_boundary (cal_zone cal) (combine (d + 1) 0) True = Inr e"
    from before_midnight [OF assms(1) this *(3)] show ?thesis by simp
  qed
  ultimately show ?thesis by simp
qed

lemma open_on_separated:
  assumes "regular_calendar cal"
  shows "separated (open_on cal d)"
  using intervals_total [OF assms, of d]
proof (cases rule: intervals_shape)
  case (all_day s e)
  have "s < e"
    using boundary_date [OF assms _ all_day(2)] boundary_date [OF assms _ all_day(3)]
      date_monotone [OF assms, of e s] by force
  then show ?thesis using all_day(1) by (simp add: separated_small)
qed (simp_all add: separated_small merge_intervals_separated)

interpretation bc: day_clock regular_calendar open_on dawn_of "\<lambda>cal. local_date (cal_zone cal)"
proof unfold_locales
  fix cal d assume cal: "regular_calendar cal"
  show "local_date (cal_zone cal) (dawn_of cal d) = d"
    using boundary_date [OF cal _ dawn_boundary [OF cal]] by simp
  show "separated (open_on cal d)" using cal by (rule open_on_separated)
  fix iv assume iv: "iv \<in> set (open_on cal d)"
  then have "fst iv < snd iv" using open_on_separated [OF cal] by (auto simp: separated_def)
  then obtain tod s where "time_of_day tod" "s \<le> fst iv"
      "local_boundary (cal_zone cal) (combine d tod) False = Inr s"
    using open_on_period [OF cal iv order_refl] by metis
  then show "dawn_of cal d \<le> fst iv"
    using boundary_after_dawn [OF cal, of tod d s] by (simp add: time_of_day_def)
qed (auto intro: date_monotone open_on_date)

subsection \<open>The code's arithmetic is the day clock's\<close>

lemma between_days_total:
  assumes "regular_calendar cal"
  shows "between_days cal a b day last_day acc
    = Inr (acc + (\<Sum>d = day..last_day. bc.day_seconds cal a b d))"
  using assms
proof (induction cal a b day last_day acc rule: between_days.induct)
  case (1 cal a b day last_day acc)
  show ?case
  proof (cases "day \<le> last_day")
    case True
    then have "{day..last_day} = insert day {day + 1..last_day}" by auto
    then show ?thesis using 1 True
      by (subst between_days.simps) (simp add: intervals_total bc.day_seconds_def)
  qed (subst between_days.simps, simp)
qed

lemma business_seconds_between_eq:
  "regular_calendar cal \<Longrightarrow> business_seconds_between cal a b = Inr (bc.seconds_between cal a b)"
  by (simp add: business_seconds_between_def bc.seconds_between_def between_days_total)

lemma add_days_eq:
  assumes "regular_calendar cal"
  shows "add_days cal d n cur rem = Inr t \<longleftrightarrow> search_days (open_on cal) (dawn_of cal) d n cur rem = Some t"
  by (induction n arbitrary: d cur rem)
    (auto simp: intervals_total [OF assms] dawn_boundary [OF assms] split: sum.splits)

subsection \<open>Fixed offsets\<close>

lemma fixed_offset_boundary:
  "zone_transitions z = [] \<Longrightarrow> local_boundary z naive is_end = Inr (naive - first_offset z)"
  by (simp add: local_boundary_def to_local_def to_utc_def)

lemma fixed_offset_regular:
  assumes "zone_transitions z = []"
  shows "regular_zone z"
proof -
  have "(t + first_offset z) div day_length < d" if "t < d * day_length - first_offset z" for t d
  proof (rule ccontr)
    assume "\<not> (t + first_offset z) div day_length < d"
    then have "d * day_length \<le> (t + first_offset z) div day_length * day_length"
      by (simp add: mult_right_mono)
    also have "\<dots> \<le> t + first_offset z"
      using pos_mod_sign [of day_length "t + first_offset z"]
      by (simp add: div_mult_mod_eq [symmetric] minus_mod_eq_div_mult [symmetric])
    finally show False using that by simp
  qed
  then show ?thesis
    unfolding regular_zone_def fixed_offset_boundary [OF assms] local_date_def to_local_def date_of_def
    by (auto simp: assms combine_def intro: zdiv_mono1)
qed

subsection \<open>Example calendars\<close>

definition hours :: "int \<Rightarrow> int" where "hours n = n * 60 * minute"

definition utc_zone :: zone where "utc_zone = \<lparr>first_offset = 0, zone_transitions = []\<rparr>"

definition example_version :: "bool \<Rightarrow> calendar_version" where
  "example_version always_open = \<lparr>business_calendar_version_id = 1, calendar_id = 2, timezone_name = ''UTC'',
     twenty_four_seven = always_open,
     working_periods = (if always_open then [] else
       map (\<lambda>d. \<lparr>iso_day_of_week = d, start_local_time = hours 9, end_local_time = hours 17\<rparr>) [1, 2, 3, 4, 5]),
     exceptions = []\<rparr>"

definition example_calendar :: "zone \<Rightarrow> bool \<Rightarrow> calendar" where
  "example_calendar z always_open = \<lparr>cal_version = example_version always_open, cal_zone = z,
     cal_periods = day_periods (working_periods (example_version always_open)),
     cal_exceptions = (\<lambda>d. [])\<rparr>"

lemma example_calendar_built:
  "business_calendar (\<lambda>_. Some z) (example_version b) = Inr (example_calendar z b)"
  by (cases b) (auto simp: business_calendar_def example_version_def example_calendar_def validated_periods_def
      validated_exceptions_def hours_def minute_def second_def day_periods_def)

lemma utc_regular: "regular_calendar (example_calendar utc_zone b)"
  by (rule business_calendar_regular [OF example_calendar_built])
    (auto simp: well_timed_def example_version_def time_of_day_def hours_def minute_def second_def
      day_length_def example_calendar_def utc_zone_def intro: fixed_offset_regular)

lemma utc_always_open:
  "open_on (example_calendar utc_zone True) d = [(d * day_length, (d + 1) * day_length)]"
  by (simp add: open_on_def intervals_def fixed_offset_boundary example_calendar_def example_version_def
      utc_zone_def combine_def)

subsection \<open>Properties\<close>

text \<open>C34: over a regular calendar, one whose zone resolves every local time and never goes back to an earlier date,
  business time is measured without an error and splits at any instant in between: the two parts never exceed the
  whole, and add up to it when the first two instants and the openings fall on whole seconds. Without that last
  condition parts can be lost, and in a zone that repeats midnight an hour can be counted twice.\<close>

theorem business_time_splits:
  assumes "regular_calendar cal" "a \<le> b" "b \<le> c"
  shows "\<exists>m n k. business_seconds_between cal a b = Inr m \<and> business_seconds_between cal b c = Inr n
    \<and> business_seconds_between cal a c = Inr k \<and> 0 \<le> m \<and> 0 \<le> n \<and> m + n \<le> k
    \<and> (second dvd a \<and> second dvd b \<and> (\<forall>d. \<forall>iv\<in>set (open_on cal d). second dvd fst iv)
        \<longrightarrow> m + n = k)"
  using bc.seconds_between_split_le [OF assms] bc.seconds_between_split_eq [OF assms]
  by (auto simp: business_seconds_between_eq [OF assms(1)] bc.seconds_between_nonneg)

theorem business_time_splits_witness:
  "\<exists>m n. business_seconds_between (example_calendar utc_zone True) 0 (hours 5) = Inr m
    \<and> business_seconds_between (example_calendar utc_zone True) (hours 5) (hours 30) = Inr n
    \<and> business_seconds_between (example_calendar utc_zone True) 0 (hours 30) = Inr (m + n)"
proof -
  have "second dvd d * day_length" for d by (simp add: day_length_def)
  then show ?thesis
    using business_time_splits [OF utc_regular [of True], of 0 "hours 5" "hours 30"]
    by (auto simp: utc_always_open hours_def minute_def less_imp_le)
qed

text \<open>C35: over a regular calendar \<open>add_business_seconds\<close> is undone by \<open>business_seconds_between\<close>: the instant it
  returns is not before the start, and exactly the requested business seconds after it. Where a zone repeats
  midnight this can fail.\<close>

theorem add_then_measure:
  assumes "regular_calendar cal" "add_business_seconds cal start n = Inr t"
  shows "business_seconds_between cal start t = Inr n \<and> start \<le> t"
proof (cases "n = 0")
  case True
  with assms(2) show ?thesis by (simp add: add_business_seconds_def business_seconds_between_def)
next
  case False
  with assms(2) have "0 < n" "search_days (open_on cal) (dawn_of cal) (local_date (cal_zone cal) start)
      max_search_days start n = Some t"
    by (auto simp: add_business_seconds_def add_days_eq [OF assms(1)] split: if_splits)
  with bc.search_days_between [OF assms(1)] show ?thesis
    by (force simp: business_seconds_between_eq [OF assms(1)])
qed

theorem add_then_measure_witness:
  "add_business_seconds (example_calendar utc_zone False) (hours 16) 7200 = Inr (hours (24 + 10))
   \<and> business_seconds_between (example_calendar utc_zone False) (hours 16) (hours (24 + 10)) = Inr 7200"
proof -
  have "add_business_seconds (example_calendar utc_zone False) (hours 16) 7200 = Inr (hours (24 + 10))"
    by code_simp
  with add_then_measure [OF utc_regular this] show ?thesis by simp
qed

text \<open>Each interval is cut to whole seconds, so measuring a second in two halves counts nothing:
  repeated sub-second measurements undercount.\<close>

lemma measured_pieces_lose_seconds:
  "business_seconds_between (example_calendar utc_zone True) 0 500000 = Inr 0
   \<and> business_seconds_between (example_calendar utc_zone True) 500000 1000000 = Inr 0
   \<and> business_seconds_between (example_calendar utc_zone True) 0 1000000 = Inr 1"
  by code_simp

text \<open>A zone whose clocks go back from 01:00 to midnight, as in Havana.\<close>

definition midnight_zone :: zone where
  "midnight_zone = \<lparr>first_offset = - hours 4, zone_transitions = [(hours 29, - hours 5)]\<rparr>"

text \<open>Where a zone repeats midnight, a round-the-clock calendar closes a day at the second
  midnight and opens the next at the first: 25 hours from noon to noon count as 26.\<close>

lemma repeated_midnight_counted_twice:
  "business_seconds_between (example_calendar midnight_zone True) (hours 16) (hours 41) = Inr (26 * 3600)"
  by code_simp

end
