(* ===== verification/PyValue.thy ===== *)
theory PyValue
  imports Prelude "HOL-Library.AList" "HOL-Library.Sublist"
begin

text \<open>
  The Python values that configuration documents and rule environments hold: what \<open>json.loads\<close>
  makes of a stored document, and the UUIDs and aware datetimes of a ticket row. A \<open>dict\<close> is an
  association list in insertion order with distinct keys. A finite float is the rational it
  denotes, so Python's exact comparison of an int with a float is comparison of rationals.
\<close>

datatype pyval =
    PNone
  | PBool bool
  | PInt int
  | PFloat rat
  | PStr string
  | PUuid uuid
  | PTime instant
  | PList "pyval list"
  | PDict "(string \<times> pyval) list"

type_synonym pydict = "(string \<times> pyval) list"

abbreviation dget :: "pydict \<Rightarrow> string \<Rightarrow> pyval option" where
  "dget d k \<equiv> map_of d k"

definition dkeys :: "pydict \<Rightarrow> string set" where
  "dkeys d = fst ` set d"

text \<open>\<open>d.get(k)\<close>, with \<open>None\<close> for a missing key.\<close>

definition dget_none :: "pydict \<Rightarrow> string \<Rightarrow> pyval" where
  "dget_none d k = (case dget d k of None \<Rightarrow> PNone | Some v \<Rightarrow> v)"

lemma dkeys_simps [simp]: "dkeys [] = {}" "dkeys ((k, v) # d) = insert k (dkeys d)"
  by (simp_all add: dkeys_def)

lemma dkeys_iff: "k \<in> dkeys d \<longleftrightarrow> (\<exists>v. dget d k = Some v)"
proof -
  have "k \<in> dkeys d \<longleftrightarrow> k \<in> dom (map_of d)" by (simp add: dkeys_def dom_map_of_conv_image_fst)
  then show ?thesis by auto
qed

lemma dget_None_iff: "dget d k = None \<longleftrightarrow> k \<notin> dkeys d"
  by (auto simp: dkeys_iff)

lemma dkeys_update [simp]: "dkeys (AList.update k v d) = insert k (dkeys d)"
  by (simp add: dkeys_def dom_update image_set [symmetric] del: image_set)

subsection \<open>Equality\<close>

text \<open>
  \<open>==\<close>: booleans, ints and floats compare by value, containers elementwise, dicts regardless of
  order, and values of different kinds are unequal.
\<close>

definition num_of :: "pyval \<Rightarrow> rat option" where
  "num_of v = (case v of PBool b \<Rightarrow> Some (if b then 1 else 0) | PInt i \<Rightarrow> Some (of_int i)
     | PFloat q \<Rightarrow> Some q | _ \<Rightarrow> None)"

definition scalar_eq :: "pyval \<Rightarrow> pyval \<Rightarrow> bool" where
  "scalar_eq x y = (case num_of x of Some a \<Rightarrow> num_of y = Some a | None \<Rightarrow> x = y)"

fun py_eq :: "pyval \<Rightarrow> pyval \<Rightarrow> bool"
  and py_eq_list :: "pyval list \<Rightarrow> pyval list \<Rightarrow> bool"
  and py_eq_dict :: "pydict \<Rightarrow> pydict \<Rightarrow> bool" where
  "py_eq (PList xs) w = (case w of PList ys \<Rightarrow> py_eq_list xs ys | _ \<Rightarrow> False)"
| "py_eq (PDict d) w =
     (case w of PDict d' \<Rightarrow> length d = length d' \<and> py_eq_dict d d' | _ \<Rightarrow> False)"
| "py_eq v w = scalar_eq v w"
| "py_eq_list [] ys = (ys = [])"
| "py_eq_list (x # xs) ys = (case ys of [] \<Rightarrow> False | y # ys' \<Rightarrow> py_eq x y \<and> py_eq_list xs ys')"
| "py_eq_dict [] d' = True"
| "py_eq_dict ((k, v) # d) d' =
     (case dget d' k of None \<Rightarrow> False | Some w \<Rightarrow> py_eq v w \<and> py_eq_dict d d')"

lemma scalar_eq_simps [simp]:
  "scalar_eq PNone w \<longleftrightarrow> w = PNone"
  "scalar_eq (PStr s) w \<longleftrightarrow> w = PStr s"
  "scalar_eq (PUuid u) w \<longleftrightarrow> w = PUuid u"
  "scalar_eq (PTime t) w \<longleftrightarrow> w = PTime t"
  by (auto simp: scalar_eq_def num_of_def)

text \<open>A value as a constructor tree with distinct keys in every dict.\<close>

fun wf_val :: "pyval \<Rightarrow> bool"
  and wf_vals :: "pyval list \<Rightarrow> bool"
  and wf_items :: "pydict \<Rightarrow> bool" where
  "wf_val (PList xs) = wf_vals xs"
| "wf_val (PDict d) = (distinct (map fst d) \<and> wf_items d)"
| "wf_val v = True"
| "wf_vals [] = True"
| "wf_vals (x # xs) = (wf_val x \<and> wf_vals xs)"
| "wf_items [] = True"
| "wf_items ((k, v) # d) = (wf_val v \<and> wf_items d)"

lemma py_eq_dict_weaken:
  "k \<notin> fst ` set d \<Longrightarrow> py_eq_dict d ((k, v) # d') = py_eq_dict d d'"
  by (induction d) (auto split: option.splits)

lemma py_eq_refl:
  "wf_val v \<Longrightarrow> py_eq v v"
  "wf_vals vs \<Longrightarrow> py_eq_list vs vs"
  "wf_items d \<Longrightarrow> distinct (map fst d) \<Longrightarrow> py_eq_dict d d"
proof (induction v and vs and d rule: wf_val_wf_vals_wf_items.induct)
  case (7 k v d)
  then show ?case by (simp add: py_eq_dict_weaken)
qed (auto simp: scalar_eq_def num_of_def)

text \<open>\<open>x in xs\<close> on a list, and membership in the literal tuples the code tests against.\<close>

definition py_in :: "pyval \<Rightarrow> pyval list \<Rightarrow> bool" where
  "py_in x xs \<longleftrightarrow> (\<exists>y\<in>set xs. py_eq y x)"

definition is_empty_doc :: "pyval \<Rightarrow> bool" where
  "is_empty_doc v \<longleftrightarrow> v = PNone \<or> v = PDict [] \<or> v = PList []"

definition is_blank :: "pyval \<Rightarrow> bool" where
  "is_blank v \<longleftrightarrow> v = PNone \<or> v = PStr [] \<or> v = PList []"

lemma is_empty_doc_tuple: "is_empty_doc v \<longleftrightarrow> py_in v [PNone, PDict [], PList []]"
  by (cases v) (auto simp: is_empty_doc_def py_in_def split: list.splits)

lemma is_blank_tuple: "is_blank v \<longleftrightarrow> py_in v [PNone, PStr [], PList []]"
  by (cases v) (auto simp: is_blank_def py_in_def split: list.splits)

subsection \<open>Order\<close>

text \<open>
  \<open><\<close> and its relatives: numbers, strings, UUIDs and datetimes within their kind, lists
  lexicographically by the first pair that is not \<open>==\<close>; \<^const>\<open>None\<close> stands for \<open>TypeError\<close>.
\<close>

datatype ordering = Lt | Eq | Gt

definition ord_of :: "'a::linorder \<Rightarrow> 'a \<Rightarrow> ordering" where
  "ord_of a b = (if a < b then Lt else if a = b then Eq else Gt)"

definition scalar_cmp :: "pyval \<Rightarrow> pyval \<Rightarrow> ordering option" where
  "scalar_cmp v w = (case (num_of v, num_of w) of
       (Some a, Some b) \<Rightarrow> Some (ord_of a b)
     | _ \<Rightarrow> (case (v, w) of
         (PStr s, PStr t) \<Rightarrow> Some (ord_of s t)
       | (PUuid a, PUuid b) \<Rightarrow> Some (ord_of a b)
       | (PTime a, PTime b) \<Rightarrow> Some (ord_of a b)
       | _ \<Rightarrow> None))"

fun py_cmp :: "pyval \<Rightarrow> pyval \<Rightarrow> ordering option"
  and py_cmp_list :: "pyval list \<Rightarrow> pyval list \<Rightarrow> ordering option" where
  "py_cmp (PList xs) w = (case w of PList ys \<Rightarrow> py_cmp_list xs ys | _ \<Rightarrow> None)"
| "py_cmp v w = scalar_cmp v w"
| "py_cmp_list [] ys = Some (if ys = [] then Eq else Lt)"
| "py_cmp_list (x # xs) ys =
     (case ys of [] \<Rightarrow> Some Gt
      | y # ys' \<Rightarrow> if py_eq x y then py_cmp_list xs ys' else py_cmp x y)"

end
