(* ===== verification/Rules.thy ===== *)
theory Rules
  imports PyValue
begin

text \<open>
  \<open>core/rules.py\<close>: the restricted rule language shared by workflow guards, routing rules and
  SLA goals. A rule is a document; \<open>evaluate\<close> decides it over an environment of field values.
  \<open>InvalidRule\<close> is the module's own exception; \<open>RuleTypeError\<close> is the \<open>TypeError\<close> Python
  raises for an unhashable operator and for a non-string operand of \<open>in\<close> on a string.
\<close>

datatype rule_error = InvalidRule | RuleTypeError

definition operators :: "string list" where
  "operators = [''equals'', ''not_equals'', ''in'', ''not_in'', ''is_null'', ''is_not_null'',
     ''contains'', ''starts_with'', ''greater_than'', ''greater_than_or_equal'', ''less_than'',
     ''less_than_or_equal'']"

text \<open>\<open>operator not in _OPERATORS\<close>: membership in a set hashes the value first.\<close>

definition known_operator :: "pyval \<Rightarrow> rule_error + bool" where
  "known_operator v = (case v of
       PStr s \<Rightarrow> Inr (s \<in> set operators)
     | PList _ \<Rightarrow> Inl RuleTypeError
     | PDict _ \<Rightarrow> Inl RuleTypeError
     | _ \<Rightarrow> Inr False)"

definition cmp_operator :: "string \<Rightarrow> ordering \<Rightarrow> bool" where
  "cmp_operator oper c =
     (if oper = ''greater_than'' then c = Gt
      else if oper = ''greater_than_or_equal'' then c \<noteq> Lt
      else if oper = ''less_than'' then c = Lt
      else c \<noteq> Gt)"

definition contains_operator :: "pyval \<Rightarrow> pyval \<Rightarrow> rule_error + bool" where
  "contains_operator actual expected = (case actual of
       PStr s \<Rightarrow> (case expected of PStr t \<Rightarrow> Inr (sublist t s) | _ \<Rightarrow> Inl RuleTypeError)
     | PList xs \<Rightarrow> Inr (py_in expected xs)
     | _ \<Rightarrow> Inr False)"

text \<open>The operators that cannot raise: the four comparisons turn a \<open>TypeError\<close> into false.\<close>

definition pure_operator :: "string \<Rightarrow> pyval \<Rightarrow> pyval \<Rightarrow> bool" where
  "pure_operator oper actual expected =
     (if oper = ''is_null'' then actual = PNone
      else if oper = ''is_not_null'' then actual \<noteq> PNone
      else if oper = ''equals'' then py_eq actual expected
      else if oper = ''not_equals'' then \<not> py_eq actual expected
      else if oper = ''in'' then (case expected of PList xs \<Rightarrow> py_in actual xs | _ \<Rightarrow> False)
      else if oper = ''not_in'' then (case expected of PList xs \<Rightarrow> \<not> py_in actual xs | _ \<Rightarrow> False)
      else if oper = ''starts_with'' then
        (case (actual, expected) of (PStr s, PStr t) \<Rightarrow> prefix t s | _ \<Rightarrow> False)
      else (case py_cmp actual expected of None \<Rightarrow> False | Some c \<Rightarrow> cmp_operator oper c))"

definition apply_operator :: "string \<Rightarrow> pyval \<Rightarrow> pyval \<Rightarrow> rule_error + bool" where
  "apply_operator oper actual expected =
     (if oper = ''contains'' then contains_operator actual expected
      else Inr (pure_operator oper actual expected))"

definition evaluate_leaf :: "pydict \<Rightarrow> pydict \<Rightarrow> rule_error + bool" where
  "evaluate_leaf rule values =
     (if \<not> {''field'', ''operator''} \<subseteq> dkeys rule
         \<or> \<not> dkeys rule \<subseteq> {''field'', ''operator'', ''value''}
      then Inl InvalidRule
      else case dget_none rule ''field'' of
        PStr field \<Rightarrow>
          rbind (known_operator (dget_none rule ''operator'')) (\<lambda>known.
            if \<not> known then Inl InvalidRule
            else case dget_none rule ''operator'' of
              PStr oper \<Rightarrow>
                (case dget values field of
                   None \<Rightarrow> Inl InvalidRule
                 | Some actual \<Rightarrow> apply_operator oper actual (dget_none rule ''value''))
            | _ \<Rightarrow> Inl InvalidRule)
      | _ \<Rightarrow> Inl InvalidRule)"

text \<open>
  \<open>set(rule) == {key} and isinstance(rule[key], list)\<close>, the shape of a group: keys of a dict are
  distinct, so the dict has exactly this one entry.
\<close>

definition group_items :: "string \<Rightarrow> pydict \<Rightarrow> pyval list option" where
  "group_items key d = (case d of [(k, PList items)] \<Rightarrow> if k = key then Some items else None
     | _ \<Rightarrow> None)"

lemma group_items_Some_iff: "group_items key d = Some items \<longleftrightarrow> d = [(key, PList items)]"
  by (auto simp: group_items_def split: list.splits pyval.splits if_splits)

lemma group_items_single [simp]:
  "group_items key [(k, PList items)] = (if k = key then Some items else None)"
  by (simp add: group_items_def)

lemma group_items_size:
  "group_items key d = Some items \<Longrightarrow> size_list size items < size (PDict d)"
  by (simp add: group_items_Some_iff)

function (sequential) evaluate :: "pyval \<Rightarrow> pydict \<Rightarrow> rule_error + bool"
  and evaluate_all :: "pyval list \<Rightarrow> pydict \<Rightarrow> rule_error + bool"
  and evaluate_any :: "pyval list \<Rightarrow> pydict \<Rightarrow> rule_error + bool" where
  "evaluate PNone values = Inr True"
| "evaluate (PList items) values = evaluate_all items values"
| "evaluate (PDict d) values =
     (if d = [] then Inr True
      else case group_items ''all'' d of
        Some items \<Rightarrow> evaluate_all items values
      | None \<Rightarrow> (case group_items ''any'' d of
          Some items \<Rightarrow> evaluate_any items values
        | None \<Rightarrow> evaluate_leaf d values))"
| "evaluate v values = Inl InvalidRule"
| "evaluate_all [] values = Inr True"
| "evaluate_all (r # rs) values =
     rbind (evaluate r values) (\<lambda>b. if b then evaluate_all rs values else Inr False)"
| "evaluate_any [] values = Inr False"
| "evaluate_any (r # rs) values =
     rbind (evaluate r values) (\<lambda>b. if b then Inr True else evaluate_any rs values)"
  by pat_completeness auto
termination
  by (relation "measure (case_sum (\<lambda>(r, _). size r)
       (case_sum (\<lambda>(rs, _). size_list size rs) (\<lambda>(rs, _). size_list size rs)))")
    (auto dest: group_items_size)

subsection \<open>Groups\<close>

lemma evaluate_group_simps [simp]:
  "evaluate (PDict []) values = Inr True"
  "evaluate (PDict [(''all'', PList items)]) values = evaluate_all items values"
  "evaluate (PDict [(''any'', PList items)]) values = evaluate_any items values"
  by (simp_all add: group_items_def)

lemma evaluate_all_True_iff:
  "evaluate_all rs values = Inr True \<longleftrightarrow> (\<forall>r\<in>set rs. evaluate r values = Inr True)"
  by (induction rs) (auto simp: rbind_Inr_iff)

lemma evaluate_any_False_iff:
  "evaluate_any rs values = Inr False \<longleftrightarrow> (\<forall>r\<in>set rs. evaluate r values = Inr False)"
  by (induction rs) (auto simp: rbind_Inr_iff)

lemma evaluate_all_total:
  "(\<forall>r\<in>set rs. \<exists>b. evaluate r values = Inr b) \<Longrightarrow>
     evaluate_all rs values = Inr (\<forall>r\<in>set rs. evaluate r values = Inr True)"
  by (induction rs) auto

lemma evaluate_any_total:
  "(\<forall>r\<in>set rs. \<exists>b. evaluate r values = Inr b) \<Longrightarrow>
     evaluate_any rs values = Inr (\<exists>r\<in>set rs. evaluate r values = Inr True)"
  by (induction rs) auto

subsection \<open>Well-formed rules\<close>

text \<open>
  What a rule author has to respect for evaluation to return: the document shape, known operators,
  available fields, and a string operand for \<open>contains\<close>.
\<close>

definition is_str :: "pyval \<Rightarrow> bool" where
  "is_str v = (case v of PStr _ \<Rightarrow> True | _ \<Rightarrow> False)"

definition the_str :: "pyval \<Rightarrow> string" where
  "the_str v = (case v of PStr s \<Rightarrow> s | _ \<Rightarrow> [])"

lemma is_str_iff: "is_str v \<longleftrightarrow> (\<exists>s. v = PStr s)"
  by (cases v) (simp_all add: is_str_def)

lemma is_str_simps [simp]: "is_str (PStr s)" "the_str (PStr s) = s"
  by (simp_all add: is_str_def the_str_def)

definition leaf_ok :: "(string \<Rightarrow> bool) \<Rightarrow> pydict \<Rightarrow> bool" where
  "leaf_ok avail d \<longleftrightarrow>
     {''field'', ''operator''} \<subseteq> dkeys d \<and> dkeys d \<subseteq> {''field'', ''operator'', ''value''} \<and>
     is_str (dget_none d ''field'') \<and> avail (the_str (dget_none d ''field'')) \<and>
     is_str (dget_none d ''operator'') \<and> the_str (dget_none d ''operator'') \<in> set operators \<and>
     (the_str (dget_none d ''operator'') = ''contains'' \<longrightarrow> is_str (dget_none d ''value''))"

function (sequential) rule_ok :: "(string \<Rightarrow> bool) \<Rightarrow> pyval \<Rightarrow> bool"
  and rules_ok :: "(string \<Rightarrow> bool) \<Rightarrow> pyval list \<Rightarrow> bool" where
  "rule_ok avail PNone = True"
| "rule_ok avail (PList items) = rules_ok avail items"
| "rule_ok avail (PDict d) =
     (if d = [] then True
      else case group_items ''all'' d of
        Some items \<Rightarrow> rules_ok avail items
      | None \<Rightarrow> (case group_items ''any'' d of
          Some items \<Rightarrow> rules_ok avail items
        | None \<Rightarrow> leaf_ok avail d))"
| "rule_ok avail v = False"
| "rules_ok avail [] = True"
| "rules_ok avail (r # rs) = (rule_ok avail r \<and> rules_ok avail rs)"
  by pat_completeness auto
termination
  by (relation "measure (case_sum (\<lambda>(_, r). size r) (\<lambda>(_, rs). size_list size rs))")
    (auto dest: group_items_size)

lemma rules_ok_iff: "rules_ok avail rs \<longleftrightarrow> (\<forall>r\<in>set rs. rule_ok avail r)"
  by (induction rs) auto

lemma apply_operator_total:
  "(oper = ''contains'' \<longrightarrow> (\<exists>t. expected = PStr t)) \<Longrightarrow>
     \<exists>b. apply_operator oper actual expected = Inr b"
  by (cases actual) (auto simp: apply_operator_def contains_operator_def)

lemma leaf_ok_total:
  assumes "leaf_ok (\<lambda>f. f \<in> dkeys values) d"
  shows "\<exists>b. evaluate_leaf d values = Inr b"
proof -
  from assms obtain f oper where keys: "{''field'', ''operator''} \<subseteq> dkeys d"
      "dkeys d \<subseteq> {''field'', ''operator'', ''value''}"
    and f: "dget_none d ''field'' = PStr f" and oper: "dget_none d ''operator'' = PStr oper"
    and known: "oper \<in> set operators" and avail: "f \<in> dkeys values"
    and operand: "oper = ''contains'' \<longrightarrow> (\<exists>t. dget_none d ''value'' = PStr t)"
    unfolding leaf_ok_def is_str_iff by auto
  from avail obtain actual where "dget values f = Some actual" by (auto simp: dkeys_iff)
  then have "evaluate_leaf d values = apply_operator oper actual (dget_none d ''value'')"
    using keys f oper known by (simp add: evaluate_leaf_def known_operator_def)
  then show ?thesis using apply_operator_total [OF operand] by simp
qed

lemma evaluate_total_mutual:
  "(\<And>f. avail f \<Longrightarrow> f \<in> dkeys env) \<Longrightarrow> rule_ok avail r \<Longrightarrow> \<exists>b. evaluate r env = Inr b"
  "(\<And>f. avail f \<Longrightarrow> f \<in> dkeys env) \<Longrightarrow> rules_ok avail rs \<Longrightarrow>
     \<forall>r\<in>set rs. \<exists>b. evaluate r env = Inr b"
proof (induction avail r and avail rs rule: rule_ok_rules_ok.induct)
  case (2 avail items)
  then show ?case using evaluate_all_total [of items env] by simp
next
  case (3 avail d)
  show ?case
  proof (cases "group_items ''all'' d")
    case (Some items)
    with 3 show ?thesis using evaluate_all_total [of items env] by (cases "d = []") (auto intro: exI [of _ True])
  next
    case None
    show ?thesis
    proof (cases "group_items ''any'' d")
      case (Some items)
      with 3 None show ?thesis using evaluate_any_total [of items env] by (cases "d = []") (auto intro: exI [of _ True])
    next
      case any: None
      show ?thesis
      proof (cases "d = []")
        case False
        with 3(4) None any have "leaf_ok avail d" by simp
        then have "leaf_ok (\<lambda>f. f \<in> dkeys env) d" using 3(3) by (auto simp: leaf_ok_def)
        from leaf_ok_total [OF this] show ?thesis using False None any by simp
      qed auto
    qed
  qed
qed auto

text \<open>C31: a well-formed rule over available fields always evaluates to a boolean, whatever the
  values of the fields are: no comparison, membership test or nesting raises.\<close>

theorem evaluate_well_formed:
  "rule_ok (\<lambda>f. f \<in> dkeys values) rule \<Longrightarrow> \<exists>b. evaluate rule values = Inr b"
  by (rule evaluate_total_mutual(1) [of "\<lambda>f. f \<in> dkeys values"])

theorem evaluate_well_formed_witness:
  "\<exists>b. evaluate (PDict [(''all'', PList [
       PDict [(''field'', PStr ''priority_code''), (''operator'', PStr ''equals''),
         (''value'', PStr ''P1'')],
       PDict [(''field'', PStr ''summary''), (''operator'', PStr ''contains''),
         (''value'', PStr ''VPN'')]])])
     [(''priority_code'', PStr ''P1''), (''summary'', PStr ''No VPN'')] = Inr b"
  by (rule evaluate_well_formed) (simp add: group_items_def leaf_ok_def dget_none_def operators_def)

subsection \<open>Which fields a rule reads\<close>

text \<open>
  \<open>_rule_fields\<close> of \<open>sla/service.py\<close>. \<open>render\<close> is Python's \<open>str\<close> on the values other than
  strings, which \<open>str\<close> returns unchanged.
\<close>

definition py_str :: "(pyval \<Rightarrow> string) \<Rightarrow> pyval \<Rightarrow> string" where
  "py_str render v = (case v of PStr s \<Rightarrow> s | _ \<Rightarrow> render v)"

fun rule_fields :: "(pyval \<Rightarrow> string) \<Rightarrow> pyval \<Rightarrow> string set"
  and rule_fields_items :: "(pyval \<Rightarrow> string) \<Rightarrow> pydict \<Rightarrow> string set"
  and rule_fields_list :: "(pyval \<Rightarrow> string) \<Rightarrow> pyval list \<Rightarrow> string set" where
  "rule_fields render (PDict d) =
     (case dget d ''field'' of Some v \<Rightarrow> {py_str render v} | None \<Rightarrow> {})
       \<union> rule_fields_items render d"
| "rule_fields render (PList xs) = rule_fields_list render xs"
| "rule_fields render v = {}"
| "rule_fields_items render [] = {}"
| "rule_fields_items render ((k, v) # d) = rule_fields render v \<union> rule_fields_items render d"
| "rule_fields_list render [] = {}"
| "rule_fields_list render (x # xs) = rule_fields render x \<union> rule_fields_list render xs"

lemma rule_fields_list_UN: "rule_fields_list render xs = (\<Union>x\<in>set xs. rule_fields render x)"
  by (induction xs) auto

lemma evaluate_leaf_local:
  assumes "\<And>s. dget_none d ''field'' = PStr s \<Longrightarrow> dget e1 s = dget e2 s"
  shows "evaluate_leaf d e1 = evaluate_leaf d e2"
proof (cases "dget_none d ''field''")
  case (PStr s)
  show ?thesis unfolding evaluate_leaf_def PStr pyval.case assms [OF PStr] by (rule refl)
qed (simp_all add: evaluate_leaf_def)

lemma leaf_field_read:
  "dget_none d ''field'' = PStr s \<Longrightarrow> s \<in> rule_fields render (PDict d)"
  by (simp add: dget_none_def py_str_def split: option.splits)

lemma evaluate_local_mutual:
  "(\<forall>f\<in>rule_fields render r. dget e1 f = dget e2 f) \<Longrightarrow> evaluate r e1 = evaluate r e2"
  "(\<forall>f\<in>rule_fields_list render rs. dget e1 f = dget e2 f) \<Longrightarrow>
     evaluate_all rs e1 = evaluate_all rs e2"
  "(\<forall>f\<in>rule_fields_list render ss. dget e1 f = dget e2 f) \<Longrightarrow>
     evaluate_any ss e1 = evaluate_any ss e2"
proof (induction r e1 and rs e1 and ss e1 rule: evaluate_evaluate_all_evaluate_any.induct)
  case (3 d e1)
  show ?case
  proof (cases "group_items ''all'' d")
    case (Some items)
    with 3 show ?thesis by (cases "d = []") (simp_all add: group_items_Some_iff)
  next
    case None
    show ?thesis
    proof (cases "group_items ''any'' d")
      case (Some items)
      with 3 None show ?thesis by (cases "d = []") (simp_all add: group_items_Some_iff)
    next
      case any: None
      have "evaluate_leaf d e1 = evaluate_leaf d e2"
        by (rule evaluate_leaf_local) (use 3(3) leaf_field_read in blast)
      with None any show ?thesis by simp
    qed
  qed
next
  case (6 r rs e1)
  then show ?case by (simp add: rbind_def split: sum.splits)
next
  case (8 r rs e1)
  then show ?case by (simp add: rbind_def split: sum.splits)
qed simp_all

text \<open>A rule reads its environment only at the fields that \<open>_rule_fields\<close> collects, so the
  check that an SLA goal refers to supported fields bounds what its decision can depend on.\<close>

lemma evaluate_reads_rule_fields:
  "(\<forall>f\<in>rule_fields render r. dget e1 f = dget e2 f) \<Longrightarrow> evaluate r e1 = evaluate r e2"
  by (rule evaluate_local_mutual(1))

lemma evaluate_reads_rule_fields_witness:
  "evaluate (PDict [(''field'', PStr ''work_type_code''), (''operator'', PStr ''is_null'')])
     [(''work_type_code'', PNone), (''priority_code'', PStr ''P1'')]
   = evaluate (PDict [(''field'', PStr ''work_type_code''), (''operator'', PStr ''is_null'')])
     [(''work_type_code'', PNone)]"
  by (rule evaluate_reads_rule_fields [where render = "\<lambda>_. []"])
    (simp add: py_str_def)

text \<open>\<open>contains\<close> on a text field with an operand that is not text is not a rejected rule but
  an uncaught \<open>TypeError\<close>, for every text.\<close>

lemma contains_operand_escapes:
  "evaluate (PDict [(''field'', PStr f), (''operator'', PStr ''contains''), (''value'', PInt n)])
     [(f, PStr text)] = Inl RuleTypeError"
  by (simp add: group_items_def evaluate_leaf_def dget_none_def known_operator_def operators_def
      apply_operator_def contains_operator_def)

end
