(* ===== verification/SlaModel.thy ===== *)
theory SlaModel
  imports Rules Calendar
begin

text \<open>
  The runtime records of \<open>sla/models.py\<close> and the tables and queries of \<open>sla/repository.py\<close>, with
  the two database functions of migration \<open>0009_business_calendar_sla\<close> and the constraints of
  \<open>itsm.ticket_sla\<close>. A runtime row is kept joined with its definition and goal version (the joins
  of \<open>_SLA_SELECT\<close>): published versions never change. Every transaction is one list of tables; an
  exception aborts it.
\<close>

datatype sla_error =
    SlaConfigurationError string
  | SlaCalendarError calendar_error
  | SlaTypeError
  | SlaValueError string
  | ConcurrentSlaUpdate
  | TenantContextMismatch
  | SlaIntegrityError string

datatype sla_metric = FIRST_RESPONSE | RESOLUTION

datatype sla_state = PENDING | RUNNING | PAUSED | COMPLETED | BREACHED | CANCELLED

record sla_definition_version =
  sla_definition_id :: uuid
  sla_definition_version_id :: uuid
  metric :: sla_metric
  pause_conditions :: pyval

record sla_goal_version =
  sla_goal_id :: uuid
  sla_goal_version_id :: uuid
  goal_definition_version_id :: uuid
  goal_calendar_version_id :: uuid
  match_conditions :: pyval
  target_seconds :: int
  warning_seconds :: "int option"
  priority_order :: int

record ticket_facts =
  fact_ticket_id :: uuid
  fact_tenant_id :: uuid
  fact_project_id :: uuid
  service_node_id :: "uuid option"
  work_type_code :: string
  priority_code :: string
  status_code :: string
  status_category :: string
  created_at :: instant
  first_response_at :: "instant option"
  resolved_at :: "instant option"

definition rule_values :: "ticket_facts \<Rightarrow> pydict" where
  "rule_values t =
     [(''priority_code'', PStr (priority_code t)),
      (''service_node_id'', case service_node_id t of Some u \<Rightarrow> PStr (uuid_str u) | None \<Rightarrow> PNone),
      (''work_type_code'', PStr (work_type_code t))]"

record ticket_sla =
  ticket_sla_id :: uuid
  sla_tenant_id :: uuid
  sla_ticket_id :: uuid
  sla_definition :: sla_definition_version
  sla_goal :: sla_goal_version
  sla_state :: sla_state
  started_at :: instant
  target_at :: instant
  warning_at :: "instant option"
  paused_at :: "instant option"
  accumulated_pause_seconds :: int
  completed_at :: "instant option"
  breached_at :: "instant option"
  elapsed_working_seconds :: int
  remaining_working_seconds :: int
  last_calculated_at :: instant
  warning_emitted_at :: "instant option"
  row_version :: int

record sla_input_event =
  in_event_id :: uuid
  in_tenant_id :: uuid
  in_ticket_id :: uuid
  in_event_type :: string
  in_payload :: pydict
  occurred_at :: instant

subsection \<open>Tables\<close>

text \<open>A published version's validity window, as the queries test it.\<close>

definition effective :: "instant option \<Rightarrow> instant option \<Rightarrow> instant \<Rightarrow> bool" where
  "effective since till moment \<longleftrightarrow>
     (case since of None \<Rightarrow> True | Some f \<Rightarrow> f \<le> moment) \<and> (case till of None \<Rightarrow> True | Some u \<Rightarrow> moment < u)"

record definition_row =
  def_tenant_id :: uuid
  def_project_id :: uuid
  def_active :: bool
  def_id :: uuid
  def_version_id :: uuid
  def_version_number :: int
  def_status :: string
  def_from :: "instant option"
  def_to :: "instant option"
  def_metric_code :: string
  def_pause_conditions :: pyval

record goal_row =
  goal_id :: uuid
  goal_active :: bool
  goal_version_id :: uuid
  goal_def_version_id :: uuid
  goal_cal_version_id :: uuid
  goal_version_number :: int
  goal_status :: string
  goal_from :: "instant option"
  goal_to :: "instant option"
  goal_match_conditions :: pyval
  target_minutes :: int
  warning_minutes :: "int option"
  goal_priority_order :: int

record sla_event =
  event_sla_id :: uuid
  event_type :: string
  event_at :: instant
  event_key :: string
  event_data :: pydict

record outbox_event =
  outbox_tenant_id :: uuid
  outbox_aggregate_id :: uuid
  outbox_event_type :: string
  outbox_payload :: pydict
  deduplication_key :: string

record sla_metrics =
  input_events_processed :: nat
  instances_started :: nat
  instances_paused :: nat
  instances_resumed :: nat
  instances_met :: nat
  warnings_emitted :: nat
  breaches_emitted :: nat
  recalculations :: nat

text \<open>
  \<open>workflow_statuses\<close> lists the status codes of a ticket's workflow version with their categories;
  \<open>new_sla_id\<close> is \<open>gen_random_uuid()\<close> for the n-th runtime row; \<open>current_tenant\<close> is the tenant of
  the transaction's context. The counters live in the process.
\<close>

record sla_db =
  current_tenant :: uuid
  tickets :: "ticket_facts list"
  workflow_statuses :: "uuid \<Rightarrow> (string \<times> string) list"
  definition_rows :: "definition_row list"
  goal_rows :: "goal_row list"
  calendar_rows :: "(calendar_version \<times> string) list"
  new_sla_id :: "nat \<Rightarrow> uuid"
  slas :: "ticket_sla list"
  sla_events :: "sla_event list"
  outbox :: "outbox_event list"
  sla_counts :: sla_metrics

type_synonym 'a sla_op = "(sla_db, sla_error, 'a) op"

subsection \<open>Queries\<close>

definition ticket_query :: "uuid \<Rightarrow> uuid \<Rightarrow> sla_db \<Rightarrow> ticket_facts option" where
  "ticket_query tenant ticket db =
     find (\<lambda>t. fact_tenant_id t = tenant \<and> fact_ticket_id t = ticket) (tickets db)"

definition status_category_query :: "uuid \<Rightarrow> string \<Rightarrow> sla_db \<Rightarrow> string option" where
  "status_category_query ticket code db = map_of (workflow_statuses db ticket) code"

definition metric_of_code :: "string \<Rightarrow> sla_metric option" where
  "metric_of_code code =
     (if code = ''TIME_TO_FIRST_RESPONSE'' then Some FIRST_RESPONSE
      else if code = ''TIME_TO_RESOLUTION'' then Some RESOLUTION else None)"

definition definition_of_row :: "definition_row \<Rightarrow> sla_metric \<Rightarrow> sla_definition_version" where
  "definition_of_row r m = \<lparr>sla_definition_id = def_id r, sla_definition_version_id = def_version_id r,
     metric = m, pause_conditions = def_pause_conditions r\<rparr>"

definition definitions_query :: "uuid \<Rightarrow> uuid \<Rightarrow> instant \<Rightarrow> sla_db \<Rightarrow> sla_definition_version list" where
  "definitions_query tenant project moment db =
     List.map_filter (\<lambda>r. map_option (definition_of_row r) (metric_of_code (def_metric_code r)))
       (sort_key (\<lambda>r. (def_id r, - def_version_number r))
         (filter (\<lambda>r. def_tenant_id r = tenant \<and> def_project_id r = project \<and> def_active r
            \<and> def_status r = ''PUBLISHED'' \<and> effective (def_from r) (def_to r) moment)
           (definition_rows db)))"

definition goal_of_row :: "goal_row \<Rightarrow> sla_goal_version" where
  "goal_of_row r = \<lparr>sla_goal_id = goal_id r, sla_goal_version_id = goal_version_id r,
     goal_definition_version_id = goal_def_version_id r,
     goal_calendar_version_id = goal_cal_version_id r, match_conditions = goal_match_conditions r,
     target_seconds = target_minutes r * 60,
     warning_seconds = map_option (\<lambda>m. m * 60) (warning_minutes r),
     priority_order = goal_priority_order r\<rparr>"

definition goals_query :: "uuid \<Rightarrow> instant \<Rightarrow> sla_db \<Rightarrow> sla_goal_version list" where
  "goals_query def_version moment db =
     map goal_of_row
       (sort_key (\<lambda>r. (goal_priority_order r, goal_id r, - goal_version_number r))
         (filter (\<lambda>r. goal_def_version_id r = def_version \<and> goal_active r
            \<and> goal_status r = ''PUBLISHED'' \<and> effective (goal_from r) (goal_to r) moment)
           (goal_rows db)))"

definition nulls_first :: "int option \<Rightarrow> int \<times> int" where
  "nulls_first v = (case v of None \<Rightarrow> (0, 0) | Some t \<Rightarrow> (1, t))"

definition calendar_query :: "uuid \<Rightarrow> sla_db \<Rightarrow> calendar_version option" where
  "calendar_query version db =
     (case find (\<lambda>(v, status). business_calendar_version_id v = version
                  \<and> status \<in> {''PUBLISHED'', ''RETIRED''}) (calendar_rows db) of
        None \<Rightarrow> None
      | Some (v, _) \<Rightarrow> Some (v
          \<lparr>working_periods := sort_key (\<lambda>p. (iso_day_of_week p, start_local_time p, end_local_time p))
             (working_periods v),
           exceptions := sort_key (\<lambda>x. (exception_date x, nulls_first (exc_start x))) (exceptions v)\<rparr>))"

definition ticket_slas_query :: "uuid \<Rightarrow> uuid \<Rightarrow> sla_db \<Rightarrow> ticket_sla list" where
  "ticket_slas_query tenant ticket db =
     filter (\<lambda>s. sla_tenant_id s = tenant \<and> sla_ticket_id s = ticket) (slas db)"

definition is_due :: "uuid \<Rightarrow> instant \<Rightarrow> ticket_sla \<Rightarrow> bool" where
  "is_due tenant due_at s \<longleftrightarrow> sla_tenant_id s = tenant \<and> sla_state s = RUNNING
     \<and> (target_at s \<le> due_at
        \<or> (warning_emitted_at s = None \<and> (case warning_at s of None \<Rightarrow> False | Some w \<Rightarrow> w \<le> due_at)))"

definition due_slas_query :: "uuid \<Rightarrow> instant \<Rightarrow> nat \<Rightarrow> sla_db \<Rightarrow> ticket_sla list" where
  "due_slas_query tenant due_at limit db =
     take limit (sort_key (\<lambda>s. (target_at s, ticket_sla_id s)) (filter (is_due tenant due_at) (slas db)))"

subsection \<open>Writes\<close>

text \<open>\<open>ticket_sla_temporal_ck\<close> and \<open>ticket_sla_remaining_ck\<close>.\<close>

definition not_before :: "instant \<Rightarrow> instant option \<Rightarrow> bool" where
  "not_before start moment = (case moment of None \<Rightarrow> True | Some t \<Rightarrow> start \<le> t)"

definition row_check :: "ticket_sla \<Rightarrow> bool" where
  "row_check s \<longleftrightarrow> not_before (started_at s) (paused_at s) \<and> not_before (started_at s) (completed_at s)
     \<and> not_before (started_at s) (breached_at s) \<and> started_at s \<le> last_calculated_at s
     \<and> 0 \<le> elapsed_working_seconds s \<and> 0 \<le> accumulated_pause_seconds s
     \<and> 0 \<le> remaining_working_seconds s"

definition create_sla ::
  "ticket_facts \<Rightarrow> sla_definition_version \<Rightarrow> sla_goal_version \<Rightarrow> instant \<Rightarrow> instant
     \<Rightarrow> instant option \<Rightarrow> ticket_sla option sla_op" where
  "create_sla ticket d goal start target warning db =
     (if \<exists>s\<in>set (slas db). sla_ticket_id s = fact_ticket_id ticket
           \<and> sla_definition_id (sla_definition s) = sla_definition_id d
      then Inr (None, db)
      else
        let row = \<lparr>ticket_sla_id = new_sla_id db (length (slas db)),
              sla_tenant_id = fact_tenant_id ticket, sla_ticket_id = fact_ticket_id ticket,
              sla_definition = d, sla_goal = goal, sla_state = RUNNING, started_at = start,
              target_at = target, warning_at = warning, paused_at = None,
              accumulated_pause_seconds = 0, completed_at = None, breached_at = None,
              elapsed_working_seconds = 0, remaining_working_seconds = target_seconds goal,
              last_calculated_at = start, warning_emitted_at = None, row_version = 1\<rparr>
        in if ticket_sla_id row \<in> ticket_sla_id ` set (slas db) \<or> \<not> row_check row
           then Inl (SlaIntegrityError ''ticket_sla'')
           else Inr (Some row, db\<lparr>slas := slas db @ [row]\<rparr>))"

text \<open>The columns \<open>save\<close> writes; the others keep the values of the stored row.\<close>

definition saved_row :: "ticket_sla \<Rightarrow> ticket_sla \<Rightarrow> ticket_sla" where
  "saved_row sla row = row
     \<lparr>sla_goal := sla_goal sla, sla_state := sla_state sla, target_at := target_at sla,
      warning_at := warning_at sla, paused_at := paused_at sla,
      accumulated_pause_seconds := accumulated_pause_seconds sla,
      completed_at := completed_at sla, breached_at := breached_at sla,
      elapsed_working_seconds := elapsed_working_seconds sla,
      remaining_working_seconds := remaining_working_seconds sla,
      last_calculated_at := last_calculated_at sla,
      warning_emitted_at := warning_emitted_at sla, row_version := row_version row + 1\<rparr>"

definition save_target :: "ticket_sla \<Rightarrow> int \<Rightarrow> ticket_sla \<Rightarrow> bool" where
  "save_target sla expected row \<longleftrightarrow> ticket_sla_id row = ticket_sla_id sla
     \<and> sla_tenant_id row = sla_tenant_id sla \<and> row_version row = expected"

definition save_sla :: "ticket_sla \<Rightarrow> int \<Rightarrow> ticket_sla sla_op" where
  "save_sla sla expected db =
     (if \<not> (\<exists>row\<in>set (slas db). save_target sla expected row) then Inl ConcurrentSlaUpdate
      else if \<exists>row\<in>set (slas db). save_target sla expected row \<and> \<not> row_check (saved_row sla row)
      then Inl (SlaIntegrityError ''ticket_sla'')
      else Inr (sla\<lparr>row_version := expected + 1\<rparr>,
        db\<lparr>slas := map (\<lambda>row. if save_target sla expected row then saved_row sla row else row)
              (slas db)\<rparr>))"

definition record_event ::
  "ticket_sla \<Rightarrow> string \<Rightarrow> instant \<Rightarrow> string \<Rightarrow> pydict \<Rightarrow> bool sla_op" where
  "record_event sla type moment key data db =
     (if \<not> (\<exists>row\<in>set (slas db). ticket_sla_id row = ticket_sla_id sla
              \<and> sla_tenant_id row = current_tenant db) then Inl TenantContextMismatch
      else if \<exists>e\<in>set (sla_events db). event_sla_id e = ticket_sla_id sla \<and> event_key e = key
      then Inr (False, db)
      else if type \<in> {''WARNING'', ''BREACHED''}
          \<and> (\<exists>e\<in>set (sla_events db). event_sla_id e = ticket_sla_id sla \<and> event_type e = type)
      then Inl (SlaIntegrityError ''ticket_sla_terminal_event_ux'')
      else Inr (True, db\<lparr>sla_events := sla_events db @
        [\<lparr>event_sla_id = ticket_sla_id sla, event_type = type, event_at = moment, event_key = key,
          event_data = data\<rparr>]\<rparr>))"

definition emit_outbox :: "ticket_sla \<Rightarrow> string \<Rightarrow> pydict \<Rightarrow> string \<Rightarrow> unit sla_op" where
  "emit_outbox sla type payload key = modS (\<lambda>db.
     if \<exists>e\<in>set (outbox db). outbox_tenant_id e = sla_tenant_id sla \<and> outbox_event_type e = type
          \<and> deduplication_key e = key
     then db
     else db\<lparr>outbox := outbox db @
       [\<lparr>outbox_tenant_id = sla_tenant_id sla, outbox_aggregate_id = ticket_sla_id sla,
         outbox_event_type = type, outbox_payload = payload, deduplication_key = key\<rparr>]\<rparr>)"

definition mark_first_response :: "uuid \<Rightarrow> uuid \<Rightarrow> instant \<Rightarrow> unit sla_op" where
  "mark_first_response tenant ticket moment db =
     (if tenant \<noteq> current_tenant db then Inl TenantContextMismatch
      else Inr ((), db\<lparr>tickets := map (\<lambda>t.
        if fact_tenant_id t = tenant \<and> fact_ticket_id t = ticket \<and> first_response_at t = None
        then t\<lparr>first_response_at := Some moment\<rparr> else t) (tickets db)\<rparr>))"

end
