(* ===== verification/SlaEngine.thy ===== *)
theory SlaEngine
  imports SlaModel
begin

text \<open>
  \<open>SlaEngine\<close> of \<open>sla/service.py\<close>, operation by operation. The environment holds the installed
  time zones and Python's \<open>str\<close> on the values that are not text. Instants in event payloads stand
  for their ISO form.
\<close>

record sla_env =
  zoneinfo :: "string \<Rightarrow> zone option"
  python_str :: "pyval \<Rightarrow> string"

subsection \<open>Reading the configuration\<close>

definition supported_input_events :: "string list" where
  "supported_input_events = [''START_SLA'', ''AGENT_PUBLIC_RESPONSE_ADDED'', ''CUSTOMER_COMMENT_ADDED'',
     ''TICKET_WORKFLOW_TRANSITIONED'', ''TICKET_PRIORITY_CHANGED'']"

definition goal_fields :: "string set" where
  "goal_fields = {''priority_code'', ''service_node_id'', ''work_type_code''}"

definition rule_failure :: "string \<Rightarrow> rule_error \<Rightarrow> sla_error" where
  "rule_failure message e =
     (case e of InvalidRule \<Rightarrow> SlaConfigurationError message | RuleTypeError \<Rightarrow> SlaTypeError)"

definition goal_matches :: "sla_env \<Rightarrow> pyval \<Rightarrow> pydict \<Rightarrow> sla_error + bool" where
  "goal_matches env configuration values =
     (if py_in configuration [PDict [], PNone] then Inr True
      else case configuration of
        PDict d \<Rightarrow>
          if dkeys d \<subseteq> goal_fields
          then Inr (\<forall>(field, expected)\<in>set d. py_eq (dget_none values field) (PStr (py_str (python_str env) expected)))
          else if \<not> rule_fields (python_str env) configuration \<subseteq> goal_fields
          then Inl (SlaConfigurationError ''SLA goal condition references an unsupported field.'')
          else map_error (rule_failure ''SLA goal condition is invalid.'') (evaluate configuration values)
      | _ \<Rightarrow> Inl (SlaConfigurationError ''SLA goal condition must be an object.''))"

fun pause_status_list :: "pyval list \<Rightarrow> sla_error + string list" where
  "pause_status_list [] = Inr []"
| "pause_status_list (condition # rest) =
     (case condition of
        PDict d \<Rightarrow>
          if dkeys d \<noteq> {''status_code''}
          then Inl (SlaConfigurationError ''SLA pause condition is unsupported.'')
          else (case dget_none d ''status_code'' of
            PStr status \<Rightarrow>
              if status = [] then Inl (SlaConfigurationError ''SLA pause status is invalid.'')
              else rbind (pause_status_list rest) (\<lambda>statuses. Inr (status # statuses))
          | _ \<Rightarrow> Inl (SlaConfigurationError ''SLA pause status is invalid.''))
      | _ \<Rightarrow> Inl (SlaConfigurationError ''SLA pause condition is unsupported.''))"

definition pause_statuses :: "pyval \<Rightarrow> sla_error + string list" where
  "pause_statuses configuration =
     (if is_empty_doc configuration then Inr []
      else case configuration of
        PList conditions \<Rightarrow> pause_status_list conditions
      | _ \<Rightarrow> Inl (SlaConfigurationError ''SLA pause conditions must be an array.''))"

definition required_string :: "pydict \<Rightarrow> string \<Rightarrow> sla_error + string" where
  "required_string payload key =
     (case dget_none payload key of
        PStr v \<Rightarrow> if v = [] then Inl (SlaConfigurationError (''SLA input is missing '' @ key @ ''.''))
          else Inr v
      | _ \<Rightarrow> Inl (SlaConfigurationError (''SLA input is missing '' @ key @ ''.'')))"

fun matching_goals ::
  "sla_env \<Rightarrow> pydict \<Rightarrow> sla_goal_version list \<Rightarrow> sla_error + sla_goal_version list" where
  "matching_goals env values [] = Inr []"
| "matching_goals env values (g # gs) =
     rbind (goal_matches env (match_conditions g) values) (\<lambda>ok.
     rbind (matching_goals env values gs) (\<lambda>rest. Inr (if ok then g # rest else rest)))"

definition goal_order :: "sla_goal_version \<Rightarrow> int \<times> string" where
  "goal_order g = (priority_order g, uuid_str (sla_goal_id g))"

definition choose_goal :: "sla_goal_version list \<Rightarrow> sla_error + sla_goal_version" where
  "choose_goal candidates =
     (case sort_key goal_order candidates of
        [] \<Rightarrow> Inl (SlaConfigurationError ''No published SLA goal matches the ticket.'')
      | [g] \<Rightarrow> Inr g
      | g # h # _ \<Rightarrow>
          if priority_order g = priority_order h
          then Inl (SlaConfigurationError ''Published SLA goals have an ambiguous priority tie.'')
          else Inr g)"

definition select_goal ::
  "sla_env \<Rightarrow> sla_definition_version \<Rightarrow> ticket_facts \<Rightarrow> instant \<Rightarrow> sla_db
     \<Rightarrow> sla_error + sla_goal_version" where
  "select_goal env d ticket effective_at db =
     rbind (matching_goals env (rule_values ticket)
             (goals_query (sla_definition_version_id d) effective_at db)) choose_goal"

definition calendar_failure :: "calendar_error \<Rightarrow> sla_error" where
  "calendar_failure e = (case e of CalendarConfigurationError m \<Rightarrow> SlaConfigurationError m
     | CalendarValueError m \<Rightarrow> SlaValueError m)"

definition goal_calendar :: "sla_env \<Rightarrow> sla_goal_version \<Rightarrow> sla_db \<Rightarrow> sla_error + calendar" where
  "goal_calendar env goal db =
     (case calendar_query (goal_calendar_version_id goal) db of
        None \<Rightarrow> Inl (SlaConfigurationError ''SLA goal references an unavailable calendar version.'')
      | Some version \<Rightarrow> map_error calendar_failure (business_calendar (zoneinfo env) version))"

definition add_seconds :: "calendar \<Rightarrow> instant \<Rightarrow> int \<Rightarrow> sla_error + instant" where
  "add_seconds cal start seconds = map_error SlaCalendarError (add_business_seconds cal start seconds)"

definition initial_warning_at :: "calendar \<Rightarrow> instant \<Rightarrow> sla_goal_version \<Rightarrow> sla_error + instant option" where
  "initial_warning_at cal started goal =
     (case warning_seconds goal of
        None \<Rightarrow> Inr None
      | Some w \<Rightarrow> rbind (add_seconds cal started (max 0 (target_seconds goal - w))) (\<lambda>t. Inr (Some t)))"

definition remaining_warning_at :: "calendar \<Rightarrow> instant \<Rightarrow> ticket_sla \<Rightarrow> sla_error + instant option" where
  "remaining_warning_at cal resumed sla =
     (case (warning_emitted_at sla, warning_seconds (sla_goal sla)) of
        (None, Some w) \<Rightarrow>
          rbind (add_seconds cal resumed (max 0 (remaining_working_seconds sla - w))) (\<lambda>t. Inr (Some t))
      | _ \<Rightarrow> Inr (warning_at sla))"

definition readS :: "(sla_db \<Rightarrow> sla_error + 'a) \<Rightarrow> 'a sla_op" where
  "readS query db = (case query db of Inl e \<Rightarrow> Inl e | Inr x \<Rightarrow> Inr (x, db))"

definition count :: "((nat \<Rightarrow> nat) \<Rightarrow> sla_metrics \<Rightarrow> sla_metrics) \<Rightarrow> unit sla_op" where
  "count counter = modS (\<lambda>db. db\<lparr>sla_counts := counter Suc (sla_counts db)\<rparr>)"

definition input_key :: "sla_input_event \<Rightarrow> string \<Rightarrow> ticket_sla \<Rightarrow> string" where
  "input_key event what sla =
     ''input:'' @ uuid_str (in_event_id event) @ '':'' @ what @ '':'' @ uuid_str (ticket_sla_id sla)"

subsection \<open>Accounting\<close>

definition calculated :: "sla_env \<Rightarrow> ticket_sla \<Rightarrow> instant \<Rightarrow> ticket_sla sla_op" where
  "calculated env sla moment =
     (if sla_state sla \<noteq> RUNNING \<or> moment \<le> last_calculated_at sla then ret sla
      else bindS (readS (goal_calendar env (sla_goal sla))) (\<lambda>cal.
        bindS (liftS (map_error SlaCalendarError
                (business_seconds_between cal (last_calculated_at sla) moment))) (\<lambda>worked.
          let elapsed = elapsed_working_seconds sla + worked in
          ret (sla\<lparr>elapsed_working_seconds := elapsed,
            remaining_working_seconds := max 0 (target_seconds (sla_goal sla) - elapsed),
            last_calculated_at := moment\<rparr>))))"

definition advance_sla :: "sla_env \<Rightarrow> ticket_sla \<Rightarrow> instant \<Rightarrow> ticket_sla sla_op" where
  "advance_sla env sla moment =
     (if sla_state sla \<noteq> RUNNING then ret sla
      else bindS (calculated env sla moment) (\<lambda>advanced.
        if advanced = sla then ret sla else save_sla advanced (row_version sla)))"

definition notice_payload :: "ticket_sla \<Rightarrow> pydict" where
  "notice_payload sla =
     [(''ticket_id'', PStr (uuid_str (sla_ticket_id sla))),
      (''ticket_sla_id'', PStr (uuid_str (ticket_sla_id sla))),
      (''sla_goal_version_id'', PStr (uuid_str (sla_goal_version_id (sla_goal sla))))]"

definition warn_sla :: "ticket_sla \<Rightarrow> instant \<Rightarrow> ticket_sla sla_op" where
  "warn_sla sla moment =
     bindS (record_event sla ''WARNING'' moment ''warning''
       [(''remaining_working_seconds'', PInt (remaining_working_seconds sla))]) (\<lambda>inserted.
     if \<not> inserted then ret sla
     else bindS (save_sla (sla\<lparr>warning_emitted_at := Some moment\<rparr>) (row_version sla)) (\<lambda>warned.
       bindS (emit_outbox warned ''SLA_WARNING'' (notice_payload warned)
         (''sla:'' @ uuid_str (ticket_sla_id warned) @ '':warning'')) (\<lambda>_.
       bindS (count warnings_emitted_update) (\<lambda>_. ret warned))))"

definition breach_sla :: "ticket_sla \<Rightarrow> instant \<Rightarrow> ticket_sla sla_op" where
  "breach_sla sla moment =
     (if sla_state sla = BREACHED then ret sla
      else bindS (record_event sla ''BREACHED'' moment ''breach''
        [(''target_at'', PTime (target_at sla))]) (\<lambda>inserted.
      if \<not> inserted then ret sla
      else bindS (save_sla (sla\<lparr>sla_state := BREACHED, breached_at := Some moment,
          remaining_working_seconds := 0, last_calculated_at := moment\<rparr>) (row_version sla)) (\<lambda>breached.
        bindS (emit_outbox breached ''SLA_BREACHED'' (notice_payload breached)
          (''sla:'' @ uuid_str (ticket_sla_id breached) @ '':breach'')) (\<lambda>_.
        bindS (count breaches_emitted_update) (\<lambda>_. ret breached)))))"

subsection \<open>Transitions of one runtime row\<close>

definition pause_sla ::
  "sla_env \<Rightarrow> ticket_sla \<Rightarrow> instant \<Rightarrow> sla_input_event \<Rightarrow> string \<Rightarrow> ticket_sla sla_op" where
  "pause_sla env sla moment event reason =
     (if sla_state sla \<noteq> RUNNING then ret sla
      else bindS (calculated env sla moment) (\<lambda>current.
        let paused = current\<lparr>sla_state := PAUSED, paused_at := Some moment\<rparr> in
        bindS (record_event paused ''PAUSED'' moment (input_key event ''paused'' sla)
          [(''reason'', PStr reason),
           (''remaining_working_seconds'', PInt (remaining_working_seconds paused))]) (\<lambda>inserted.
        if \<not> inserted then ret sla
        else bindS (save_sla paused (row_version sla)) (\<lambda>saved.
          bindS (count instances_paused_update) (\<lambda>_. ret saved)))))"

definition resume_sla ::
  "sla_env \<Rightarrow> ticket_sla \<Rightarrow> instant \<Rightarrow> sla_input_event \<Rightarrow> string \<Rightarrow> ticket_sla sla_op" where
  "resume_sla env sla moment event reason =
     (case paused_at sla of
        None \<Rightarrow> ret sla
      | Some paused \<Rightarrow>
        if sla_state sla \<noteq> PAUSED then ret sla
        else bindS (readS (goal_calendar env (sla_goal sla))) (\<lambda>cal.
          bindS (liftS (add_seconds cal moment (remaining_working_seconds sla))) (\<lambda>target.
          bindS (liftS (remaining_warning_at cal moment sla)) (\<lambda>warning.
          let resumed = sla\<lparr>sla_state := RUNNING, paused_at := None,
            accumulated_pause_seconds := accumulated_pause_seconds sla
              + max 0 ((moment - paused) div second),
            target_at := target, warning_at := warning, last_calculated_at := moment\<rparr> in
          bindS (record_event resumed ''RESUMED'' moment (input_key event ''resumed'' sla)
            [(''reason'', PStr reason), (''target_at'', PTime target)]) (\<lambda>inserted.
          if \<not> inserted then ret sla
          else bindS (save_sla resumed (row_version sla)) (\<lambda>saved.
            bindS (count instances_resumed_update) (\<lambda>_. ret saved)))))))"

definition complete_sla ::
  "sla_env \<Rightarrow> ticket_sla \<Rightarrow> instant \<Rightarrow> sla_input_event \<Rightarrow> string \<Rightarrow> ticket_sla sla_op" where
  "complete_sla env sla moment event reason =
     (if completed_at sla \<noteq> None \<or> sla_state sla \<in> {CANCELLED, PENDING} then ret sla
      else bindS (calculated env sla moment) (\<lambda>counted.
        bindS (if sla_state counted = RUNNING \<and> remaining_working_seconds counted \<le> 0
               then breach_sla counted moment else ret counted) (\<lambda>current.
        let completed = current\<lparr>sla_state := (if sla_state current = BREACHED then BREACHED else COMPLETED),
          completed_at := Some moment, paused_at := None, last_calculated_at := moment\<rparr> in
        bindS (record_event completed ''STOPPED'' moment (input_key event ''stopped'' sla)
          [(''reason'', PStr reason),
           (''elapsed_working_seconds'', PInt (elapsed_working_seconds completed))]) (\<lambda>inserted.
        if \<not> inserted then ret sla
        else bindS (save_sla completed (row_version current)) (\<lambda>saved.
          if sla_state saved = COMPLETED
          then bindS (record_event saved ''MET'' moment (input_key event ''met'' sla)
              [(''reason'', PStr reason),
               (''remaining_working_seconds'', PInt (remaining_working_seconds saved))]) (\<lambda>_.
            bindS (count instances_met_update) (\<lambda>_. ret saved))
          else ret saved)))))"

definition reopen_sla :: "sla_env \<Rightarrow> ticket_sla \<Rightarrow> instant \<Rightarrow> sla_input_event \<Rightarrow> ticket_sla sla_op" where
  "reopen_sla env sla moment event =
     (if sla_state sla \<noteq> COMPLETED then ret sla
      else bindS (readS (goal_calendar env (sla_goal sla))) (\<lambda>cal.
        let remaining = max 0 (target_seconds (sla_goal sla) - elapsed_working_seconds sla) in
        if remaining = 0 then breach_sla (sla\<lparr>completed_at := None\<rparr>) moment
        else bindS (liftS (add_seconds cal moment remaining)) (\<lambda>target.
          bindS (liftS (remaining_warning_at cal moment
              (sla\<lparr>remaining_working_seconds := remaining\<rparr>))) (\<lambda>warning.
          let reopened = sla\<lparr>sla_state := RUNNING, completed_at := None,
            remaining_working_seconds := remaining, target_at := target, warning_at := warning,
            last_calculated_at := moment\<rparr> in
          bindS (record_event reopened ''RESUMED'' moment (input_key event ''reopened'' sla)
            [(''reason'', PStr ''TICKET_REOPENED''), (''target_at'', PTime target)]) (\<lambda>inserted.
          if \<not> inserted then ret sla
          else bindS (save_sla reopened (row_version sla)) (\<lambda>saved.
            bindS (count instances_resumed_update) (\<lambda>_. ret saved)))))))"

definition retarget_sla ::
  "sla_env \<Rightarrow> ticket_facts \<Rightarrow> sla_input_event \<Rightarrow> ticket_sla \<Rightarrow> unit sla_op" where
  "retarget_sla env ticket event sla =
     (if sla_state sla \<in> {CANCELLED, COMPLETED, BREACHED} then ret ()
      else bindS (calculated env sla (occurred_at event)) (\<lambda>current.
        bindS (readS (select_goal env (sla_definition sla) ticket (occurred_at event))) (\<lambda>goal.
        bindS (readS (goal_calendar env goal)) (\<lambda>cal.
        let remaining = max 0 (target_seconds goal - elapsed_working_seconds current) in
        bindS (liftS (add_seconds cal (occurred_at event) remaining)) (\<lambda>target.
        bindS (liftS (remaining_warning_at cal (occurred_at event)
            (current\<lparr>sla_goal := goal, remaining_working_seconds := remaining\<rparr>))) (\<lambda>warning.
        let changed = current\<lparr>sla_goal := goal, remaining_working_seconds := remaining,
          target_at := target, warning_at := warning, last_calculated_at := occurred_at event\<rparr> in
        bindS (record_event changed ''RECALCULATED'' (occurred_at event) (input_key event ''recalculated'' sla)
          [(''old_sla_goal_version_id'', PStr (uuid_str (sla_goal_version_id (sla_goal sla)))),
           (''new_sla_goal_version_id'', PStr (uuid_str (sla_goal_version_id goal))),
           (''business_calendar_version_id'', PStr (uuid_str (goal_calendar_version_id goal)))]) (\<lambda>inserted.
        if \<not> inserted then ret ()
        else bindS (save_sla changed (row_version sla)) (\<lambda>saved.
          bindS (count recalculations_update) (\<lambda>_.
          if sla_state saved = RUNNING \<and> remaining = 0
          then bindS (breach_sla saved (occurred_at event)) (\<lambda>_. ret ()) else ret ())))))))))"

subsection \<open>Handlers\<close>

definition start_one ::
  "sla_env \<Rightarrow> ticket_facts \<Rightarrow> sla_input_event \<Rightarrow> sla_definition_version \<Rightarrow> unit sla_op" where
  "start_one env ticket event d =
     (let effective_at = created_at ticket in
      bindS (readS (select_goal env d ticket effective_at)) (\<lambda>goal.
      bindS (readS (goal_calendar env goal)) (\<lambda>cal.
      bindS (liftS (add_seconds cal effective_at (target_seconds goal))) (\<lambda>target.
      bindS (liftS (initial_warning_at cal effective_at goal)) (\<lambda>warning.
      bindS (create_sla ticket d goal effective_at target warning) (\<lambda>created.
      case created of
        None \<Rightarrow> ret ()
      | Some sla \<Rightarrow>
        bindS (record_event sla ''STARTED'' effective_at
          (''input:'' @ uuid_str (in_event_id event) @ '':started'')
          [(''sla_definition_version_id'', PStr (uuid_str (sla_definition_version_id d))),
           (''sla_goal_version_id'', PStr (uuid_str (sla_goal_version_id goal))),
           (''business_calendar_version_id'', PStr (uuid_str (goal_calendar_version_id goal))),
           (''target_at'', PTime target)]) (\<lambda>_.
        bindS (count instances_started_update) (\<lambda>_.
        case (metric d, first_response_at ticket, resolved_at ticket) of
          (FIRST_RESPONSE, Some responded, _) \<Rightarrow>
            bindS (complete_sla env sla responded event ''ALREADY_RESPONDED'') (\<lambda>_. ret ())
        | (RESOLUTION, _, Some resolved) \<Rightarrow>
            bindS (complete_sla env sla resolved event ''ALREADY_RESOLVED'') (\<lambda>_. ret ())
        | _ \<Rightarrow>
            bindS (liftS (pause_statuses (pause_conditions d))) (\<lambda>paused.
            if status_code ticket \<in> set paused
            then bindS (pause_sla env sla effective_at event (status_code ticket)) (\<lambda>_. ret ())
            else ret ())))))))))"

definition start_slas :: "sla_env \<Rightarrow> ticket_facts \<Rightarrow> sla_input_event \<Rightarrow> unit sla_op" where
  "start_slas env ticket event =
     bindS (getS (definitions_query (fact_tenant_id ticket) (fact_project_id ticket) (created_at ticket)))
       (\<lambda>definitions.
     if \<not> distinct (map sla_definition_id definitions)
     then raise (SlaConfigurationError ''Published SLA definition versions overlap.'')
     else forS (start_one env ticket event) definitions)"

definition transition_one ::
  "sla_env \<Rightarrow> ticket_facts \<Rightarrow> sla_input_event \<Rightarrow> string \<Rightarrow> string \<Rightarrow> string \<Rightarrow> ticket_sla \<Rightarrow> unit sla_op" where
  "transition_one env ticket event to_status from_category to_category sla =
     (if metric (sla_definition sla) = FIRST_RESPONSE \<and> first_response_at ticket \<noteq> None
         \<and> sla_state sla \<in> {RUNNING, PAUSED}
      then bindS (complete_sla env sla (the (first_response_at ticket)) event ''FIRST_RESPONSE_RECORDED'')
        (\<lambda>_. ret ())
      else if metric (sla_definition sla) \<noteq> RESOLUTION then ret ()
      else if from_category = ''DONE'' \<and> to_category \<noteq> ''DONE''
      then bindS (reopen_sla env sla (occurred_at event) event) (\<lambda>_. ret ())
      else if to_category = ''DONE''
      then bindS (complete_sla env sla (occurred_at event) event ''RESOLVED'') (\<lambda>_. ret ())
      else bindS (liftS (pause_statuses (pause_conditions (sla_definition sla)))) (\<lambda>paused.
        if to_status \<in> set paused
        then bindS (pause_sla env sla (occurred_at event) event to_status) (\<lambda>_. ret ())
        else if sla_state sla = PAUSED
        then bindS (resume_sla env sla (occurred_at event) event to_status) (\<lambda>_. ret ())
        else ret ()))"

definition transition_slas :: "sla_env \<Rightarrow> ticket_facts \<Rightarrow> sla_input_event \<Rightarrow> unit sla_op" where
  "transition_slas env ticket event =
     bindS (liftS (required_string (in_payload event) ''from_status'')) (\<lambda>from_status.
     bindS (liftS (required_string (in_payload event) ''to_status'')) (\<lambda>to_status.
     bindS (getS (status_category_query (fact_ticket_id ticket) from_status)) (\<lambda>from_category.
     bindS (getS (status_category_query (fact_ticket_id ticket) to_status)) (\<lambda>to_category.
     case (from_category, to_category) of
       (Some from_cat, Some to_cat) \<Rightarrow>
         bindS (getS (ticket_slas_query (fact_tenant_id ticket) (fact_ticket_id ticket))) (\<lambda>rows.
         forS (transition_one env ticket event to_status from_cat to_cat) rows)
     | _ \<Rightarrow> raise (SlaConfigurationError ''Workflow event references an unknown status.'')))))"

definition complete_metric ::
  "sla_env \<Rightarrow> ticket_facts \<Rightarrow> sla_metric \<Rightarrow> sla_input_event \<Rightarrow> unit sla_op" where
  "complete_metric env ticket m event =
     bindS (getS (ticket_slas_query (fact_tenant_id ticket) (fact_ticket_id ticket))) (\<lambda>rows.
     forS (\<lambda>sla. whenS (metric (sla_definition sla) = m)
       (bindS (complete_sla env sla (occurred_at event) event (in_event_type event)) (\<lambda>_. ret ()))) rows)"

definition priority_changed :: "sla_env \<Rightarrow> ticket_facts \<Rightarrow> sla_input_event \<Rightarrow> unit sla_op" where
  "priority_changed env ticket event =
     bindS (getS (ticket_slas_query (fact_tenant_id ticket) (fact_ticket_id ticket))) (\<lambda>rows.
     forS (retarget_sla env ticket event) rows)"

definition process :: "sla_env \<Rightarrow> sla_input_event \<Rightarrow> unit sla_op" where
  "process env event =
     (if in_event_type event \<notin> set supported_input_events
      then raise (SlaValueError ''Unsupported SLA input event.'')
      else bindS (getS (ticket_query (in_tenant_id event) (in_ticket_id event))) (\<lambda>found.
        case found of
          None \<Rightarrow> raise (SlaConfigurationError ''SLA input references an unavailable ticket.'')
        | Some ticket \<Rightarrow>
          bindS (if in_event_type event = ''START_SLA'' then start_slas env ticket event
            else if in_event_type event = ''AGENT_PUBLIC_RESPONSE_ADDED''
            then bindS (mark_first_response (in_tenant_id event) (in_ticket_id event) (occurred_at event))
              (\<lambda>_. complete_metric env ticket FIRST_RESPONSE event)
            else if in_event_type event = ''TICKET_WORKFLOW_TRANSITIONED''
            then transition_slas env ticket event
            else if in_event_type event = ''TICKET_PRIORITY_CHANGED''
            then priority_changed env ticket event
            else ret ()) (\<lambda>_. count input_events_processed_update)))"

definition evaluate_one :: "sla_env \<Rightarrow> instant \<Rightarrow> ticket_sla \<Rightarrow> unit sla_op" where
  "evaluate_one env due_at sla =
     bindS (advance_sla env sla due_at) (\<lambda>advanced.
     bindS (if warning_emitted_at advanced = None
               \<and> (case warning_seconds (sla_goal advanced) of None \<Rightarrow> False
                  | Some w \<Rightarrow> remaining_working_seconds advanced \<le> w)
            then warn_sla advanced due_at else ret advanced) (\<lambda>current.
     if remaining_working_seconds current \<le> 0 \<and> sla_state current = RUNNING
     then bindS (breach_sla current due_at) (\<lambda>_. ret ()) else ret ()))"

definition evaluate_due :: "sla_env \<Rightarrow> uuid \<Rightarrow> instant \<Rightarrow> nat \<Rightarrow> nat sla_op" where
  "evaluate_due env tenant due_at limit =
     bindS (getS (due_slas_query tenant due_at limit)) (\<lambda>due.
     bindS (forS (evaluate_one env due_at) due) (\<lambda>_. ret (length due)))"

end
