(* ===== verification/SlaLaws.thy ===== *)
theory SlaLaws
  imports SlaEngine
begin

text \<open>
  The invariant of the SLA tables and the history relation every handler keeps: identities are
  fixed, every change raises the row version, breached rows stay breached, and each row has as
  many breach and warning events as its state says.
\<close>

subsection \<open>Invariant and history\<close>

definition same_identity :: "ticket_sla \<Rightarrow> ticket_sla \<Rightarrow> bool" where
  "same_identity x y \<longleftrightarrow> ticket_sla_id x = ticket_sla_id y \<and> sla_tenant_id x = sla_tenant_id y
     \<and> sla_ticket_id x = sla_ticket_id y \<and> sla_definition x = sla_definition y
     \<and> started_at x = started_at y"

text \<open>The accounting of a row, and which times go with which state.\<close>

definition row_inv :: "ticket_sla \<Rightarrow> bool" where
  "row_inv r \<longleftrightarrow> row_check r
     \<and> remaining_working_seconds r = max 0 (target_seconds (sla_goal r) - elapsed_working_seconds r)
     \<and> (paused_at r \<noteq> None \<longleftrightarrow> sla_state r = PAUSED)
     \<and> (breached_at r \<noteq> None \<longleftrightarrow> sla_state r = BREACHED)
     \<and> (sla_state r = COMPLETED \<longrightarrow> completed_at r \<noteq> None)
     \<and> (completed_at r \<noteq> None \<longrightarrow> sla_state r \<in> {COMPLETED, BREACHED})
     \<and> sla_state r \<notin> {PENDING, CANCELLED}
     \<and> (sla_state r = BREACHED \<longrightarrow> remaining_working_seconds r = 0)"

definition count_events :: "string \<Rightarrow> uuid \<Rightarrow> sla_event list \<Rightarrow> nat" where
  "count_events type i es = length (filter (\<lambda>e. event_sla_id e = i \<and> event_type e = type) es)"

definition announced :: "ticket_sla \<Rightarrow> outbox_event list \<Rightarrow> bool" where
  "announced r os \<longleftrightarrow> (\<exists>m\<in>set os. outbox_tenant_id m = sla_tenant_id r
     \<and> outbox_event_type m = ''SLA_BREACHED''
     \<and> deduplication_key m = ''sla:'' @ uuid_str (ticket_sla_id r) @ '':breach'')"

definition recorded :: "sla_db \<Rightarrow> ticket_sla \<Rightarrow> bool" where
  "recorded db r \<longleftrightarrow>
     count_events ''BREACHED'' (ticket_sla_id r) (sla_events db) = of_bool (sla_state r = BREACHED)
   \<and> count_events ''WARNING'' (ticket_sla_id r) (sla_events db) = of_bool (warning_emitted_at r \<noteq> None)
   \<and> (sla_state r = BREACHED \<longrightarrow> announced r (outbox db))"

definition sla_inv :: "sla_db \<Rightarrow> bool" where
  "sla_inv db \<longleftrightarrow> distinct (map ticket_sla_id (slas db))
     \<and> (\<forall>e\<in>set (sla_events db). event_sla_id e \<in> ticket_sla_id ` set (slas db))
     \<and> (\<forall>r\<in>set (slas db). row_inv r \<and> recorded db r)"

definition row_le :: "ticket_sla \<Rightarrow> ticket_sla \<Rightarrow> bool" where
  "row_le r r' \<longleftrightarrow> same_identity r' r \<and> (r' = r \<or> row_version r < row_version r')
     \<and> elapsed_working_seconds r \<le> elapsed_working_seconds r'
     \<and> accumulated_pause_seconds r \<le> accumulated_pause_seconds r'
     \<and> (sla_state r = BREACHED \<longrightarrow> sla_state r' = BREACHED \<and> breached_at r' = breached_at r)
     \<and> (warning_emitted_at r \<noteq> None \<longrightarrow> warning_emitted_at r' = warning_emitted_at r)"

definition sla_later :: "sla_db \<Rightarrow> sla_db \<Rightarrow> bool" where
  "sla_later db db' \<longleftrightarrow> (\<forall>r\<in>set (slas db). \<exists>r'\<in>set (slas db'). row_le r r')
     \<and> (\<exists>es. sla_events db' = sla_events db @ es) \<and> (\<exists>os. outbox db' = outbox db @ os)"

definition sla_step :: "sla_db \<Rightarrow> sla_db \<Rightarrow> bool" where
  "sla_step db db' \<longleftrightarrow> (sla_inv db \<longrightarrow> sla_inv db' \<and> sla_later db db')"

lemma same_identity_refl [simp]: "same_identity x x"
  by (simp add: same_identity_def)

lemma row_le_refl [simp]: "row_le r r"
  by (simp add: row_le_def)

lemma row_le_trans: "row_le r s \<Longrightarrow> row_le s t \<Longrightarrow> row_le r t"
  by (auto simp: row_le_def same_identity_def)

lemma sla_later_refl: "sla_later d d"
  by (auto simp: sla_later_def intro: row_le_refl)

lemma sla_laterD:
  assumes "sla_later d e"
  shows "r \<in> set (slas d) \<Longrightarrow> \<exists>r'\<in>set (slas e). row_le r r'"
    and "\<exists>es. sla_events e = sla_events d @ es" "\<exists>os. outbox e = outbox d @ os"
  using assms by (simp_all add: sla_later_def)

lemma sla_later_trans:
  assumes "sla_later d e" "sla_later e f"
  shows "sla_later d f"
  unfolding sla_later_def
proof (intro conjI ballI)
  fix r assume "r \<in> set (slas d)"
  with sla_laterD(1) [OF assms(1)] sla_laterD(1) [OF assms(2)]
  show "\<exists>r'\<in>set (slas f). row_le r r'" by (meson row_le_trans)
qed (use sla_laterD(2,3) [OF assms(1)] sla_laterD(2,3) [OF assms(2)] in auto)

interpretation sh: history sla_step
proof
  show "sla_step s s" for s by (simp add: sla_step_def sla_later_refl)
  show "sla_step s t \<Longrightarrow> sla_step t u \<Longrightarrow> sla_step s u" for s t u
    by (auto simp: sla_step_def intro: sla_later_trans)
qed

subsection \<open>What a handler knows of a row it has read\<close>

definition known :: "ticket_sla \<Rightarrow> sla_db \<Rightarrow> bool" where
  "known sla db \<longleftrightarrow> sla_inv db \<and> (\<exists>row\<in>set (slas db). same_identity row sla
     \<and> row_version sla \<le> row_version row \<and> (row_version row = row_version sla \<longrightarrow> row = sla))"

lemma known_stored: "sla_inv db \<Longrightarrow> sla \<in> set (slas db) \<Longrightarrow> known sla db"
  unfolding known_def by (intro conjI bexI [of _ sla]) simp_all

lemma known_stable: "known sla db \<Longrightarrow> sla_step db db' \<Longrightarrow> known sla db'"
proof -
  assume k: "known sla db" and step: "sla_step db db'"
  then obtain row where row: "row \<in> set (slas db)" "same_identity row sla"
      "row_version sla \<le> row_version row" "row_version row = row_version sla \<longrightarrow> row = sla"
    and inv: "sla_inv db'" and later: "sla_later db db'" by (auto simp: known_def sla_step_def)
  from sla_laterD(1) [OF later row(1)] obtain row' where "row' \<in> set (slas db')" "row_le row row'" ..
  with row inv show "known sla db'" by (auto simp: known_def row_le_def same_identity_def)
qed

lemma stored_unique:
  assumes "sla_inv db" "r \<in> set (slas db)" "r' \<in> set (slas db)" "ticket_sla_id r = ticket_sla_id r'"
  shows "r = r'"
  using assms by (auto simp: sla_inv_def dest: inj_onD [OF distinct_map [THEN iffD1, THEN conjunct2]])

lemma known_row:
  assumes "known sla db" "row \<in> set (slas db)" "ticket_sla_id row = ticket_sla_id sla"
    "row_version row = row_version sla"
  shows "row = sla"
proof -
  from assms(1) obtain r where r: "r \<in> set (slas db)" "same_identity r sla" and inv: "sla_inv db"
    and eq: "row_version r = row_version sla \<longrightarrow> r = sla" by (auto simp: known_def)
  have "row = r" using stored_unique [OF inv assms(2) r(1)] r(2) assms(3)
    by (simp add: same_identity_def)
  then show ?thesis using eq assms(4) by simp
qed

subsection \<open>Replacing one row\<close>

definition put_row :: "ticket_sla \<Rightarrow> ticket_sla list \<Rightarrow> ticket_sla list" where
  "put_row r = map (\<lambda>x. if ticket_sla_id x = ticket_sla_id r then r else x)"

lemma put_row_ids [simp]: "map ticket_sla_id (put_row r rows) = map ticket_sla_id rows"
  by (simp add: put_row_def)

lemma put_row_id_set [simp]: "ticket_sla_id ` set (put_row r rows) = ticket_sla_id ` set rows"
  by (metis put_row_ids list.set_map)

lemma in_put_row:
  "x \<in> set (put_row r rows) \<Longrightarrow> x = r \<or> (x \<in> set rows \<and> ticket_sla_id x \<noteq> ticket_sla_id r)"
  by (auto simp: put_row_def split: if_splits)

lemma put_row_mem:
  "row \<in> set rows \<Longrightarrow> ticket_sla_id row = ticket_sla_id r \<Longrightarrow> r \<in> set (put_row r rows)"
  "x \<in> set rows \<Longrightarrow> ticket_sla_id x \<noteq> ticket_sla_id r \<Longrightarrow> x \<in> set (put_row r rows)"
  by (force simp: put_row_def)+

lemma count_events_append [simp]:
  "count_events t i (es @ fs) = count_events t i es + count_events t i fs"
  by (simp add: count_events_def)

lemma count_events_other: "\<forall>e\<in>set es. event_sla_id e \<noteq> i \<Longrightarrow> count_events t i es = 0"
  by (auto simp: count_events_def filter_empty_conv)

lemma announced_append: "announced r os \<Longrightarrow> announced r (os @ ps)"
  by (auto simp: announced_def)

lemma sla_invD:
  assumes "sla_inv db"
  shows "distinct (map ticket_sla_id (slas db))"
    and "e \<in> set (sla_events db) \<Longrightarrow> event_sla_id e \<in> ticket_sla_id ` set (slas db)"
    and "r \<in> set (slas db) \<Longrightarrow> row_inv r" "r \<in> set (slas db) \<Longrightarrow> recorded db r"
  using assms by (auto simp: sla_inv_def)

lemma update_row:
  assumes inv: "sla_inv db" and row: "row \<in> set (slas db)"
    and db': "slas db' = put_row r (slas db)" "sla_events db' = sla_events db @ es"
      "outbox db' = outbox db @ os"
    and r: "row_le row r" "row_inv r"
    and es: "\<forall>e\<in>set es. event_sla_id e = ticket_sla_id row"
    and breaches: "count_events ''BREACHED'' (ticket_sla_id row) es + of_bool (sla_state row = BREACHED)
      = of_bool (sla_state r = BREACHED)"
    and warnings: "count_events ''WARNING'' (ticket_sla_id row) es + of_bool (warning_emitted_at row \<noteq> None)
      = of_bool (warning_emitted_at r \<noteq> None)"
    and notice: "sla_state r = BREACHED \<Longrightarrow> sla_state row \<noteq> BREACHED \<Longrightarrow> announced r (outbox db')"
  shows "sla_inv db' \<and> sla_later db db'"
proof
  have ids: "ticket_sla_id r = ticket_sla_id row" "sla_tenant_id r = sla_tenant_id row"
    using r(1) by (auto simp: row_le_def same_identity_def)
  have rec: "recorded db' r"
    using sla_invD(4) [OF inv row] breaches warnings notice ids db'(3)
    by (auto simp: recorded_def db'(2) announced_def)
  have other: "recorded db' x" if "x \<in> set (slas db)" "ticket_sla_id x \<noteq> ticket_sla_id r" for x
  proof -
    have "count_events t (ticket_sla_id x) es = 0" for t
      using that(2) es ids by (intro count_events_other) auto
    then show ?thesis using sla_invD(4) [OF inv that(1)]
      by (auto simp: recorded_def db'(2,3) announced_append)
  qed
  show "sla_inv db'"
    unfolding sla_inv_def
  proof (intro conjI ballI)
    show "distinct (map ticket_sla_id (slas db'))" using sla_invD(1) [OF inv] by (simp add: db'(1))
    fix e assume "e \<in> set (sla_events db')"
    then show "event_sla_id e \<in> ticket_sla_id ` set (slas db')"
      using sla_invD(2) [OF inv] es row by (auto simp: db'(1,2))
  next
    fix x assume "x \<in> set (slas db')"
    then consider "x = r" | "x \<in> set (slas db)" "ticket_sla_id x \<noteq> ticket_sla_id r"
      using in_put_row db'(1) by metis
    then show "row_inv x" "recorded db' x"
      using rec other r(2) sla_invD(3) [OF inv] by (cases, simp_all)+
  qed
  show "sla_later db db'"
    unfolding sla_later_def
  proof (intro conjI ballI)
    fix x assume x: "x \<in> set (slas db)"
    show "\<exists>x'\<in>set (slas db'). row_le x x'"
    proof (cases "ticket_sla_id x = ticket_sla_id r")
      case True
      then have "x = row" using stored_unique [OF inv x row] ids by simp
      then show ?thesis using r(1) put_row_mem(1) [OF row] ids db'(1) by auto
    next
      case False
      then show ?thesis using put_row_mem(2) [OF x] db'(1) by (auto intro: row_le_refl)
    qed
  qed (use db' in auto)
qed

text \<open>An event of another kind than a breach or a warning.\<close>

lemma append_event:
  assumes "sla_inv db" "event_sla_id e \<in> ticket_sla_id ` set (slas db)"
    "event_type e \<notin> {''BREACHED'', ''WARNING''}"
  shows "sla_inv (db\<lparr>sla_events := sla_events db @ [e]\<rparr>)
    \<and> sla_later db (db\<lparr>sla_events := sla_events db @ [e]\<rparr>)"
proof -
  have "count_events t i [e] = 0" if "t \<in> {''BREACHED'', ''WARNING''}" for t i
    using assms(3) that by (auto simp: count_events_def)
  then have "recorded (db\<lparr>sla_events := sla_events db @ [e]\<rparr>) r \<longleftrightarrow> recorded db r" for r
    by (simp add: recorded_def)
  then show ?thesis using assms(1,2)
    by (auto simp: sla_inv_def sla_later_def intro: row_le_refl)
qed

subsection \<open>The primitives\<close>

definition new_event :: "ticket_sla \<Rightarrow> string \<Rightarrow> instant \<Rightarrow> string \<Rightarrow> pydict \<Rightarrow> sla_event" where
  "new_event sla type moment key data = \<lparr>event_sla_id = ticket_sla_id sla, event_type = type,
     event_at = moment, event_key = key, event_data = data\<rparr>"

lemma new_event_simps [simp]:
  "event_sla_id (new_event sla t m k d) = ticket_sla_id sla" "event_type (new_event sla t m k d) = t"
  by (simp_all add: new_event_def)

lemma record_eventD:
  assumes "record_event sla t m k d db = Inr (b, db')"
  shows "ticket_sla_id sla \<in> ticket_sla_id ` set (slas db)"
    and "b \<Longrightarrow> db' = db\<lparr>sla_events := sla_events db @ [new_event sla t m k d]\<rparr>"
    and "\<not> b \<Longrightarrow> db' = db"
    and "b \<Longrightarrow> t \<in> {''WARNING'', ''BREACHED''} \<Longrightarrow> count_events t (ticket_sla_id sla) (sla_events db) = 0"
  using assms
  by (auto simp: record_event_def new_event_def count_events_def filter_empty_conv split: if_splits
      intro: rev_image_eqI)

lemma record_event_keeps:
  assumes "sla_inv db" "record_event sla t m k d db = Inr (b, db')" "t \<notin> {''BREACHED'', ''WARNING''}"
  shows "sla_inv db' \<and> sla_later db db'"
proof (cases b)
  case True
  then show ?thesis using record_eventD [OF assms(2)] append_event [OF assms(1), of "new_event sla t m k d"] assms(3)
    by simp
qed (use record_eventD(3) [OF assms(2)] assms(1) sla_later_refl in simp)

lemma saved_row_same:
  "same_identity x row \<Longrightarrow> saved_row x row = x\<lparr>row_version := row_version row + 1\<rparr>"
  by (cases x; cases row) (simp add: saved_row_def same_identity_def)

lemma save_slaD:
  assumes "known sla db" "same_identity x sla" "slas db1 = slas db"
    and "save_sla x (row_version sla) db1 = Inr (z, db2)"
  shows "sla \<in> set (slas db)" and "z = x\<lparr>row_version := row_version sla + 1\<rparr>" and "row_check z"
    and "db2 = db1\<lparr>slas := put_row z (slas db)\<rparr>"
proof -
  have target: "save_target x (row_version sla) row \<longleftrightarrow> row = sla" if "row \<in> set (slas db)" for row
    using known_row [OF assms(1) that] assms(2) by (auto simp: save_target_def same_identity_def)
  from assms(4) have "\<exists>row\<in>set (slas db). save_target x (row_version sla) row"
    by (auto simp: save_sla_def assms(3) split: if_splits)
  then show stored: "sla \<in> set (slas db)" using target by auto
  note saved = saved_row_same [OF assms(2)]
  show z: "z = x\<lparr>row_version := row_version sla + 1\<rparr>"
    using assms(4) by (auto simp: save_sla_def split: if_splits)
  show "row_check z"
    using assms(4) stored target saved z by (auto simp: save_sla_def assms(3) split: if_splits)
  have "map (\<lambda>row. if save_target x (row_version sla) row then saved_row x row else row) (slas db)
      = put_row z (slas db)"
    unfolding put_row_def
  proof (rule map_cong [OF refl])
    fix row assume row: "row \<in> set (slas db)"
    have "ticket_sla_id row = ticket_sla_id z \<longleftrightarrow> row = sla"
      using stored_unique [of db row sla] assms(1,2) row stored
      by (auto simp: known_def z same_identity_def)
    then show "(if save_target x (row_version sla) row then saved_row x row else row)
        = (if ticket_sla_id row = ticket_sla_id z then z else row)"
      using target [OF row] saved z by simp
  qed
  then show "db2 = db1\<lparr>slas := put_row z (slas db)\<rparr>"
    using assms(4) by (auto simp: save_sla_def assms(3) split: if_splits)
qed

lemma count_simp [simp]: "count c db = Inr ((), db\<lparr>sla_counts := c Suc (sla_counts db)\<rparr>)"
  by (simp add: count_def)

lemma emit_outboxD:
  assumes "emit_outbox sla t p k db = Inr (u, db')"
  shows "\<exists>os. db' = db\<lparr>outbox := outbox db @ os\<rparr>"
    and "\<exists>m\<in>set (outbox db'). outbox_tenant_id m = sla_tenant_id sla \<and> outbox_event_type m = t
      \<and> deduplication_key m = k"
  using assms by (auto simp: emit_outbox_def split: if_splits intro: exI [of _ "[]"])

text \<open>Recording an event and saving the row, as every transition does.\<close>

lemma record_then_save:
  assumes k: "known sla db" and rec: "record_event y t m k d db = Inr (True, db1)"
    and save: "save_sla x (row_version sla) db1 = Inr (z, db2)"
    and ids: "ticket_sla_id y = ticket_sla_id sla" "same_identity x sla"
    and db3: "slas db3 = slas db2" "sla_events db3 = sla_events db2" "outbox db3 = outbox db2 @ os"
    and le: "row_le sla z" and inv: "row_check z \<Longrightarrow> row_inv z"
    and breach: "t = ''BREACHED'' \<longleftrightarrow> sla_state sla \<noteq> BREACHED \<and> sla_state z = BREACHED"
    and warn: "t = ''WARNING'' \<longleftrightarrow> warning_emitted_at sla = None \<and> warning_emitted_at z \<noteq> None"
    and notice: "t = ''BREACHED'' \<Longrightarrow> announced z (outbox db3)"
  shows "sla_inv db3 \<and> sla_later db db3 \<and> known z db3"
proof -
  note db1 = record_eventD(2) [OF rec]
  note saved = save_slaD [OF k ids(2) _ save]
  have *: "slas db3 = put_row z (slas db)" "sla_events db3 = sla_events db @ [new_event y t m k d]"
      "outbox db3 = outbox db @ os" "sla \<in> set (slas db)" "row_check z"
    using db1 saved db3 by simp_all
  have b: "count_events ''BREACHED'' (ticket_sla_id sla) [new_event y t m k d] = of_bool (t = ''BREACHED'')"
    and w: "count_events ''WARNING'' (ticket_sla_id sla) [new_event y t m k d] = of_bool (t = ''WARNING'')"
    using ids by (auto simp: count_events_def)
  have "sla_inv db" using k by (simp add: known_def)
  then have "sla_inv db3 \<and> sla_later db db3"
  proof (rule update_row [OF _ *(4,1,2,3) le inv [OF *(5)]])
    show "\<forall>e\<in>set [new_event y t m k d]. event_sla_id e = ticket_sla_id sla" using ids by simp
    show "count_events ''BREACHED'' (ticket_sla_id sla) [new_event y t m k d]
        + of_bool (sla_state sla = BREACHED) = of_bool (sla_state z = BREACHED)"
      using b breach le by (auto simp: row_le_def)
    show "count_events ''WARNING'' (ticket_sla_id sla) [new_event y t m k d]
        + of_bool (warning_emitted_at sla \<noteq> None) = of_bool (warning_emitted_at z \<noteq> None)"
      using w warn le by (auto simp: row_le_def)
    show "announced z (outbox db3)" if "sla_state z = BREACHED" "sla_state sla \<noteq> BREACHED"
      using breach that notice by simp
  qed
  moreover have "z \<in> set (slas db3)"
    using *(1,4) put_row_mem(1) [of sla "slas db" z] le by (simp add: row_le_def same_identity_def)
  ultimately show ?thesis using known_stored by blast
qed

subsection \<open>Row operations\<close>

lemma between_days_ge: "between_days cal a b day last_day acc = Inr n \<Longrightarrow> acc \<le> n"
proof (induction cal a b day last_day acc rule: between_days.induct)
  case (1 cal a b day last_day acc)
  have "0 \<le> sum_list (map (overlap_seconds a b) ivs)" for ivs
    by (rule sum_list_nonneg) (auto simp: overlap_seconds_def Let_def pos_imp_zdiv_nonneg_iff second_def)
  moreover have "acc = n" if "\<not> day \<le> last_day"
    using 1(2) that by (subst (asm) between_days.simps) simp
  moreover have "\<exists>ivs. acc + sum_list (map (overlap_seconds a b) ivs) \<le> n" if "day \<le> last_day"
    using 1(2) that by (subst (asm) between_days.simps) (auto simp: rbind_Inr_iff dest: 1(1) [OF that])
  ultimately show ?case by (metis add_increasing2 order.refl order_trans le_add_same_cancel1)
qed

lemma worked_nonneg: "business_seconds_between cal a b = Inr n \<Longrightarrow> 0 \<le> n"
  by (auto simp: business_seconds_between_def split: if_splits dest: between_days_ge)

definition counted_to :: "ticket_sla \<Rightarrow> int \<Rightarrow> instant \<Rightarrow> ticket_sla" where
  "counted_to sla elapsed moment = sla\<lparr>elapsed_working_seconds := elapsed,
     remaining_working_seconds := max 0 (target_seconds (sla_goal sla) - elapsed),
     last_calculated_at := moment\<rparr>"

lemma counted_to_simps [simp]:
  "same_identity (counted_to sla n m) y = same_identity sla y"
  "same_identity x (counted_to sla n m) = same_identity x sla"
  "ticket_sla_id (counted_to sla n m) = ticket_sla_id sla"
  "row_version (counted_to sla n m) = row_version sla" "sla_goal (counted_to sla n m) = sla_goal sla"
  "sla_state (counted_to sla n m) = sla_state sla" "paused_at (counted_to sla n m) = paused_at sla"
  "completed_at (counted_to sla n m) = completed_at sla"
  "breached_at (counted_to sla n m) = breached_at sla"
  "warning_emitted_at (counted_to sla n m) = warning_emitted_at sla"
  "accumulated_pause_seconds (counted_to sla n m) = accumulated_pause_seconds sla"
  "elapsed_working_seconds (counted_to sla n m) = n"
  "remaining_working_seconds (counted_to sla n m) = max 0 (target_seconds (sla_goal sla) - n)"
  "last_calculated_at (counted_to sla n m) = m"
  "sla_definition (counted_to sla n m) = sla_definition sla"
  by (simp_all add: counted_to_def same_identity_def)

lemma readS_iff [simp]: "readS q db = Inr (x, db') \<longleftrightarrow> q db = Inr x \<and> db' = db"
  by (auto simp: readS_def split: sum.splits)

lemma bind_read_iff:
  "bindS (readS q) f db = Inr p \<longleftrightarrow> (\<exists>x. q db = Inr x \<and> f x db = Inr p)"
  "bindS (liftS v) f db = Inr p \<longleftrightarrow> (\<exists>x. v = Inr x \<and> f x db = Inr p)"
  "bindS (getS g) f db = Inr p \<longleftrightarrow> f (g db) db = Inr p"
  by (cases p; auto simp: bindS_Inr_iff)+

lemma calculated_iff:
  "calculated env sla moment db = Inr (c, db') \<longleftrightarrow> db' = db \<and>
     (if sla_state sla \<noteq> RUNNING \<or> moment \<le> last_calculated_at sla then c = sla
      else \<exists>cal worked. goal_calendar env (sla_goal sla) db = Inr cal
        \<and> business_seconds_between cal (last_calculated_at sla) moment = Inr worked
        \<and> c = counted_to sla (elapsed_working_seconds sla + worked) moment)"
  by (auto simp: calculated_def bindS_Inr_iff counted_to_def Let_def)

lemma calculatedE:
  assumes "calculated env sla moment db = Inr (c, db')"
  obtains (same) "c = sla" "db' = db"
    | (counted) n where "c = counted_to sla n moment" "db' = db" "elapsed_working_seconds sla \<le> n"
        "sla_state sla = RUNNING" "last_calculated_at sla < moment"
  using assms unfolding calculated_iff by (auto split: if_splits dest: worked_nonneg)

text \<open>\<open>x\<close> is the row \<open>sla\<close> as a handler holds it, possibly recounted.\<close>

definition recount :: "ticket_sla \<Rightarrow> ticket_sla \<Rightarrow> bool" where
  "recount sla x \<longleftrightarrow> x = sla \<or> (sla_state sla = RUNNING
     \<and> (\<exists>n m. x = counted_to sla n m \<and> elapsed_working_seconds sla \<le> n))"

lemma recount_refl [simp]: "recount sla sla"
  by (simp add: recount_def)

lemma calculated_recount:
  "calculated env sla moment db = Inr (c, db') \<Longrightarrow> recount sla c \<and> db' = db"
  by (erule calculatedE) (auto simp: recount_def)

lemma recountD:
  assumes "recount sla x"
  shows "same_identity x sla" "row_version x = row_version sla" "sla_state x = sla_state sla"
    "elapsed_working_seconds sla \<le> elapsed_working_seconds x"
    "accumulated_pause_seconds x = accumulated_pause_seconds sla"
    "warning_emitted_at x = warning_emitted_at sla" "paused_at x = paused_at sla"
    "completed_at x = completed_at sla" "breached_at x = breached_at sla" "sla_goal x = sla_goal sla"
    "sla_definition x = sla_definition sla"
    "row_inv sla \<Longrightarrow> remaining_working_seconds x
      = max 0 (target_seconds (sla_goal x) - elapsed_working_seconds x)"
  using assms by (auto simp: recount_def row_inv_def)

lemma known_inv: "known sla db \<Longrightarrow> sla \<in> set (slas db) \<Longrightarrow> row_inv sla"
  by (auto simp: known_def sla_inv_def)

text \<open>The invariant of the row a transition writes, from what changes.\<close>

lemma row_le_saved:
  assumes "same_identity x sla" "elapsed_working_seconds sla \<le> elapsed_working_seconds x"
    "accumulated_pause_seconds sla \<le> accumulated_pause_seconds x"
    "sla_state sla = BREACHED \<Longrightarrow> sla_state x = BREACHED \<and> breached_at x = breached_at sla"
    "warning_emitted_at sla \<noteq> None \<Longrightarrow> warning_emitted_at x = warning_emitted_at sla"
  shows "row_le sla (x\<lparr>row_version := row_version sla + 1\<rparr>)"
  using assms by (auto simp: row_le_def same_identity_def)

definition breached_row :: "ticket_sla \<Rightarrow> instant \<Rightarrow> ticket_sla" where
  "breached_row x m = x\<lparr>sla_state := BREACHED, breached_at := Some m,
     remaining_working_seconds := 0, last_calculated_at := m\<rparr>"

lemma breach_keeps:
  assumes k: "known sla db" and run: "breach_sla x m db = Inr (r, db')"
    and x: "same_identity x sla" "row_version x = row_version sla" "sla_state x \<noteq> BREACHED"
      "sla_state sla \<noteq> BREACHED"
      "sla \<in> set (slas db) \<Longrightarrow> target_seconds (sla_goal x) \<le> elapsed_working_seconds x"
      "sla \<in> set (slas db) \<Longrightarrow> paused_at x = None"
      "elapsed_working_seconds sla \<le> elapsed_working_seconds x"
      "accumulated_pause_seconds x = accumulated_pause_seconds sla"
      "warning_emitted_at x = warning_emitted_at sla"
  shows "db' = db \<and> r = x \<or> sla_inv db' \<and> sla_later db db' \<and> known r db'
    \<and> r = (breached_row x m)\<lparr>row_version := row_version sla + 1\<rparr>"
proof -
  from run obtain b db1 where rec: "record_event x ''BREACHED'' m ''breach''
        [(''target_at'', PTime (target_at x))] db = Inr (b, db1)"
    and rest: "(if \<not> b then ret x else bindS (save_sla (breached_row x m) (row_version x)) (\<lambda>breached.
        bindS (emit_outbox breached ''SLA_BREACHED'' (notice_payload breached)
          (''sla:'' @ uuid_str (ticket_sla_id breached) @ '':breach'')) (\<lambda>_.
        bindS (count breaches_emitted_update) (\<lambda>_. ret breached)))) db1 = Inr (r, db')"
    unfolding breach_sla_def if_not_P [OF x(3)] breached_row_def [symmetric] by (rule bindS_E)
  show ?thesis
  proof (cases b)
    case False
    with rest record_eventD(3) [OF rec] show ?thesis by simp
  next
    case True
    with rest x(2) obtain db2 u db3 where save: "save_sla (breached_row x m) (row_version sla) db1 = Inr (r, db2)"
      and emit: "emit_outbox r ''SLA_BREACHED'' (notice_payload r)
        (''sla:'' @ uuid_str (ticket_sla_id r) @ '':breach'') db2 = Inr (u, db3)"
      and db': "db' = db3\<lparr>sla_counts := breaches_emitted_update Suc (sla_counts db3)\<rparr>"
      by (auto simp: bindS_Inr_iff)
    have same: "same_identity (breached_row x m) sla"
      using x(1) by (simp add: breached_row_def same_identity_def)
    have slas1: "slas db1 = slas db" using record_eventD(2) [OF rec] True by simp
    note r = save_slaD(2) [OF k same slas1 save] and stored = save_slaD(1) [OF k same slas1 save]
    from emit_outboxD(1) [OF emit] obtain os where os: "db3 = db2\<lparr>outbox := outbox db2 @ os\<rparr>" ..
    have "sla_inv db' \<and> sla_later db db' \<and> known r db'"
    proof (rule record_then_save [OF k rec [unfolded True [THEN eqTrueI]] save _ same, of db' os])
      show "ticket_sla_id x = ticket_sla_id sla" using x(1) by (simp add: same_identity_def)
      show "row_le sla r" unfolding r
        using x same by (intro row_le_saved) (simp_all add: breached_row_def)
      show "row_inv r" if "row_check r"
        using that x(5) [OF stored] x(6) [OF stored] by (simp add: r row_inv_def breached_row_def)
      show "announced r (outbox db')"
        using emit_outboxD(2) [OF emit] by (simp add: announced_def db')
    qed (use x(3,4,9) in \<open>auto simp: r breached_row_def db' os\<close>)
    then show ?thesis using r by simp
  qed
qed

lemma warn_keeps:
  assumes k: "known sla db" and run: "warn_sla sla m db = Inr (r, db')" and "warning_emitted_at sla = None"
  shows "sla_inv db' \<and> sla_later db db' \<and> known r db'
    \<and> (r = sla \<or> r = sla\<lparr>warning_emitted_at := Some m, row_version := row_version sla + 1\<rparr>)"
proof -
  let ?x = "sla\<lparr>warning_emitted_at := Some m\<rparr>"
  from run obtain b db1 where rec: "record_event sla ''WARNING'' m ''warning''
        [(''remaining_working_seconds'', PInt (remaining_working_seconds sla))] db = Inr (b, db1)"
    and rest: "(if \<not> b then ret sla else bindS (save_sla ?x (row_version sla)) (\<lambda>warned.
        bindS (emit_outbox warned ''SLA_WARNING'' (notice_payload warned)
          (''sla:'' @ uuid_str (ticket_sla_id warned) @ '':warning'')) (\<lambda>_.
        bindS (count warnings_emitted_update) (\<lambda>_. ret warned)))) db1 = Inr (r, db')"
    unfolding warn_sla_def by (rule bindS_E)
  show ?thesis
  proof (cases b)
    case False
    with rest record_eventD(3) [OF rec] k show ?thesis by (simp add: known_def sla_later_refl)
  next
    case True
    with rest obtain db2 u db3 where save: "save_sla ?x (row_version sla) db1 = Inr (r, db2)"
      and emit: "emit_outbox r ''SLA_WARNING'' (notice_payload r)
        (''sla:'' @ uuid_str (ticket_sla_id r) @ '':warning'') db2 = Inr (u, db3)"
      and db': "db' = db3\<lparr>sla_counts := warnings_emitted_update Suc (sla_counts db3)\<rparr>"
      by (auto simp: bindS_Inr_iff)
    have same: "same_identity ?x sla" by (simp add: same_identity_def)
    have slas1: "slas db1 = slas db" using record_eventD(2) [OF rec] True by simp
    note r = save_slaD(1,2) [OF k same slas1 save]
    from emit_outboxD(1) [OF emit] obtain os where os: "db3 = db2\<lparr>outbox := outbox db2 @ os\<rparr>" ..
    have "sla_inv db' \<and> sla_later db db' \<and> known r db'"
    proof (rule record_then_save [OF k rec [unfolded True [THEN eqTrueI]] save _ same, of db' os])
      show "row_le sla r" unfolding r(2) using assms(3) same by (intro row_le_saved) simp_all
      show "row_inv r" if "row_check r"
        using that known_inv [OF k r(1)] by (auto simp: r(2) row_inv_def)
    qed (use assms(3) in \<open>simp_all add: r(2) db' os\<close>)
    then show ?thesis using r by simp
  qed
qed

lemma known_inv': "known sla db \<Longrightarrow> sla_inv db"
  by (simp add: known_def)

lemma counts_irrelevant [simp]:
  "sla_inv (db\<lparr>sla_counts := n\<rparr>) = sla_inv db"
  "sla_later db0 (db\<lparr>sla_counts := n\<rparr>) = sla_later db0 db"
  "sla_later (db\<lparr>sla_counts := n\<rparr>) db1 = sla_later db db1"
  "known sla (db\<lparr>sla_counts := n\<rparr>) = known sla db"
  by (simp_all add: sla_inv_def recorded_def sla_later_def known_def)

text \<open>The common end of the transitions: the event, the row, the counter.\<close>

lemma record_save_count:
  assumes k: "known sla db"
    and run: "bindS (record_event y t m key d) (\<lambda>inserted. if \<not> inserted then ret r0
      else bindS (save_sla x (row_version sla)) k') db = Inr (r, db')"
    and ids: "ticket_sla_id y = ticket_sla_id sla" "same_identity x sla"
    and t: "t \<notin> {''BREACHED'', ''WARNING''}"
    and state: "sla_state x = BREACHED \<longleftrightarrow> sla_state sla = BREACHED"
      "warning_emitted_at x = warning_emitted_at sla"
    and mono: "elapsed_working_seconds sla \<le> elapsed_working_seconds x"
      "accumulated_pause_seconds sla \<le> accumulated_pause_seconds x"
      "sla_state sla = BREACHED \<Longrightarrow> breached_at x = breached_at sla"
    and inv: "sla \<in> set (slas db) \<Longrightarrow> row_check (x\<lparr>row_version := row_version sla + 1\<rparr>)
      \<Longrightarrow> row_inv (x\<lparr>row_version := row_version sla + 1\<rparr>)"
  obtains (old) "db' = db" "r = r0"
    | (new) z db2 where "z = x\<lparr>row_version := row_version sla + 1\<rparr>" "sla_inv db2" "sla_later db db2"
        "known z db2" "k' z db2 = Inr (r, db')" "sla \<in> set (slas db)"
        "slas db2 = put_row z (slas db)"
        "sla_events db2 = sla_events db @ [new_event y t m key d]" "outbox db2 = outbox db"
proof -
  from run obtain b db1 where rec: "record_event y t m key d db = Inr (b, db1)"
    and rest: "(if \<not> b then ret r0 else bindS (save_sla x (row_version sla)) k') db1 = Inr (r, db')"
    by (rule bindS_E)
  show thesis
  proof (cases b)
    case False
    with rest record_eventD(3) [OF rec] show thesis by (intro old) simp_all
  next
    case True
    with rest obtain z db2 where save: "save_sla x (row_version sla) db1 = Inr (z, db2)"
      and k': "k' z db2 = Inr (r, db')"
      by (auto simp: bindS_Inr_iff)
    have slas1: "slas db1 = slas db" using record_eventD(2) [OF rec] True by simp
    note z = save_slaD [OF k ids(2) slas1 save]
    have "sla_inv db2 \<and> sla_later db db2 \<and> known z db2"
    proof (rule record_then_save [OF k rec [unfolded True [THEN eqTrueI]] save ids, of db2 "[]"])
      show "row_le sla z" unfolding z(2) using ids state mono by (intro row_le_saved) simp_all
      show "row_inv z" if "row_check z" using that inv [OF z(1)] z(2) by simp
    qed (use t state in \<open>auto simp: z(2)\<close>)
    with k' z record_eventD(2) [OF rec] True show thesis by (intro new [of z db2]) simp_all
  qed
qed

lemma row_invD:
  assumes "row_inv r"
  shows "sla_state r \<noteq> PAUSED \<Longrightarrow> paused_at r = None" "sla_state r = PAUSED \<Longrightarrow> paused_at r \<noteq> None"
    "sla_state r \<noteq> BREACHED \<Longrightarrow> breached_at r = None" "sla_state r = RUNNING \<Longrightarrow> completed_at r = None"
    "sla_state r = PAUSED \<Longrightarrow> completed_at r = None"
    "remaining_working_seconds r = max 0 (target_seconds (sla_goal r) - elapsed_working_seconds r)"
    "0 \<le> elapsed_working_seconds r" "sla_state r \<notin> {PENDING, CANCELLED}"
  using assms by (auto simp: row_inv_def row_check_def)

lemma pause_keeps:
  assumes k: "known sla db" and run: "pause_sla env sla m ev why db = Inr (r, db')"
  shows "sla_inv db' \<and> sla_later db db'"
proof (cases "sla_state sla = RUNNING")
  case False
  with run k show ?thesis by (simp add: pause_sla_def known_inv' sla_later_refl)
next
  case True
  with run obtain c where c: "recount sla c"
    and rest: "bindS (record_event (c\<lparr>sla_state := PAUSED, paused_at := Some m\<rparr>) ''PAUSED'' m
        (input_key ev ''paused'' sla) [(''reason'', PStr why),
          (''remaining_working_seconds'', PInt (remaining_working_seconds c))])
      (\<lambda>inserted. if \<not> inserted then ret sla
        else bindS (save_sla (c\<lparr>sla_state := PAUSED, paused_at := Some m\<rparr>) (row_version sla))
          (\<lambda>saved. bindS (count instances_paused_update) (\<lambda>_. ret saved))) db = Inr (r, db')"
    unfolding pause_sla_def Let_def by (auto elim!: bindS_E dest: calculated_recount)
  note c = recountD [OF c]
  from k rest show ?thesis
  proof (rule record_save_count)
    fix z db2
    assume "sla_inv db2" "sla_later db db2" "bindS (count instances_paused_update) (\<lambda>_. ret z) db2 = Inr (r, db')"
    then show ?thesis by auto
  next
    assume "sla \<in> set (slas db)" "row_check (c\<lparr>sla_state := PAUSED, paused_at := Some m, row_version := row_version sla + 1\<rparr>)"
    then show "row_inv (c\<lparr>sla_state := PAUSED, paused_at := Some m, row_version := row_version sla + 1\<rparr>)"
      using row_invD [OF known_inv [OF k]] c True known_inv [OF k] by (simp add: row_inv_def)
  qed (use c True k in \<open>auto simp: same_identity_def known_inv' sla_later_refl\<close>)
qed

lemma resume_keeps:
  assumes k: "known sla db" and run: "resume_sla env sla m ev why db = Inr (r, db')"
  shows "sla_inv db' \<and> sla_later db db'"
proof (cases "sla_state sla = PAUSED \<and> paused_at sla \<noteq> None")
  case False
  with run k show ?thesis
    by (auto simp: resume_sla_def known_inv' sla_later_refl split: option.splits)
next
  case True
  then obtain p where p: "paused_at sla = Some p" by auto
  define x where "x target warning = sla\<lparr>sla_state := RUNNING, paused_at := None,
      accumulated_pause_seconds := accumulated_pause_seconds sla + max 0 ((m - p) div second),
      target_at := target, warning_at := warning, last_calculated_at := m\<rparr>" for target warning
  from run True obtain target warning where
    rest: "bindS (record_event (x target warning) ''RESUMED'' m (input_key ev ''resumed'' sla)
        [(''reason'', PStr why), (''target_at'', PTime target)])
      (\<lambda>inserted. if \<not> inserted then ret sla
        else bindS (save_sla (x target warning) (row_version sla))
          (\<lambda>saved. bindS (count instances_resumed_update) (\<lambda>_. ret saved))) db = Inr (r, db')"
    unfolding resume_sla_def Let_def p option.case x_def [symmetric] by (auto simp: bind_read_iff)
  have same: "same_identity (x target warning) sla" by (simp add: x_def same_identity_def)
  from k rest show ?thesis
  proof (rule record_save_count)
    fix z db2
    assume "sla_inv db2" "sla_later db db2" "bindS (count instances_resumed_update) (\<lambda>_. ret z) db2 = Inr (r, db')"
    then show ?thesis by auto
  next
    let ?z = "(x target warning)\<lparr>row_version := row_version sla + 1\<rparr>"
    assume "sla \<in> set (slas db)" "row_check ?z"
    then show "row_inv ?z"
      using row_invD [OF known_inv [OF k]] True by (simp add: row_inv_def x_def)
  qed (use same True k in \<open>auto simp: same_identity_def known_inv' sla_later_refl x_def\<close>)
qed

lemma reopen_keeps:
  assumes k: "known sla db" and run: "reopen_sla env sla m ev db = Inr (r, db')"
  shows "sla_inv db' \<and> sla_later db db'"
proof (cases "sla_state sla = COMPLETED")
  case False
  with run k show ?thesis by (simp add: reopen_sla_def known_inv' sla_later_refl)
next
  case True
  define rem where "rem = max 0 (target_seconds (sla_goal sla) - elapsed_working_seconds sla)"
  define x where "x target warning = sla\<lparr>sla_state := RUNNING, completed_at := None,
      remaining_working_seconds := rem, target_at := target, warning_at := warning,
      last_calculated_at := m\<rparr>" for target warning
  from run True obtain cal where "(if rem = 0 then breach_sla (sla\<lparr>completed_at := None\<rparr>) m
      else bindS (liftS (add_seconds cal m rem)) (\<lambda>target.
          bindS (liftS (remaining_warning_at cal m
              (sla\<lparr>remaining_working_seconds := rem\<rparr>))) (\<lambda>warning.
          bindS (record_event (x target warning) ''RESUMED'' m (input_key ev ''reopened'' sla)
            [(''reason'', PStr ''TICKET_REOPENED''), (''target_at'', PTime target)]) (\<lambda>inserted.
          if \<not> inserted then ret sla
          else bindS (save_sla (x target warning) (row_version sla)) (\<lambda>saved.
            bindS (count instances_resumed_update) (\<lambda>_. ret saved)))))) db = Inr (r, db')"
    unfolding reopen_sla_def Let_def rem_def [symmetric] x_def [symmetric] by (auto simp: bind_read_iff)
  then consider (late) "rem = 0" "breach_sla (sla\<lparr>completed_at := None\<rparr>) m db = Inr (r, db')"
    | (again) target warning where "bindS (record_event (x target warning) ''RESUMED'' m (input_key ev ''reopened'' sla)
        [(''reason'', PStr ''TICKET_REOPENED''), (''target_at'', PTime target)])
      (\<lambda>inserted. if \<not> inserted then ret sla
        else bindS (save_sla (x target warning) (row_version sla))
          (\<lambda>saved. bindS (count instances_resumed_update) (\<lambda>_. ret saved))) db = Inr (r, db')"
    by (auto simp: bind_read_iff split: if_splits)
  then show ?thesis
  proof cases
    case late
    have "sla \<in> set (slas db) \<Longrightarrow> paused_at sla = None"
      using row_invD(1) [OF known_inv [OF k]] True by simp
    moreover have "target_seconds (sla_goal sla) \<le> elapsed_working_seconds sla"
      using late(1) by (simp add: rem_def max_def split: if_splits)
    ultimately show ?thesis using breach_keeps [OF k late(2)] True k
      by (auto simp: same_identity_def known_inv' sla_later_refl)
  next
    case (again target warning)
    have same: "same_identity (x target warning) sla" by (simp add: x_def same_identity_def)
    from k again show ?thesis
    proof (rule record_save_count)
      fix z db2
      assume "sla_inv db2" "sla_later db db2" "bindS (count instances_resumed_update) (\<lambda>_. ret z) db2 = Inr (r, db')"
      then show ?thesis by auto
    next
      let ?z = "(x target warning)\<lparr>row_version := row_version sla + 1\<rparr>"
      assume "sla \<in> set (slas db)" "row_check ?z"
      then show "row_inv ?z"
        using row_invD [OF known_inv [OF k]] True by (simp add: row_inv_def x_def rem_def)
    qed (use same True k in \<open>auto simp: same_identity_def known_inv' sla_later_refl x_def\<close>)
  qed
qed

lemma advance_keeps:
  assumes k: "known sla db" and run: "advance_sla env sla m db = Inr (r, db')"
  shows "sla_inv db' \<and> sla_later db db' \<and> known r db'
    \<and> warning_emitted_at r = warning_emitted_at sla \<and> sla_state r = sla_state sla"
proof (cases "sla_state sla = RUNNING")
  case False
  with run k show ?thesis by (simp add: advance_sla_def known_inv' sla_later_refl)
next
  case True
  with run obtain c where c: "recount sla c"
    and rest: "(if c = sla then ret sla else save_sla c (row_version sla)) db = Inr (r, db')"
    unfolding advance_sla_def by (auto elim!: bindS_E dest: calculated_recount)
  note cD = recountD [OF c]
  show ?thesis
  proof (cases "c = sla")
    case True
    with rest k show ?thesis by (simp add: known_inv' sla_later_refl)
  next
    case False
    with rest have save: "save_sla c (row_version sla) db = Inr (r, db')" by simp
    note r = save_slaD [OF k cD(1) refl save]
    have le: "row_le sla r" unfolding r(2) using cD True by (intro row_le_saved) simp_all
    have "sla_inv db' \<and> sla_later db db'"
    proof (rule update_row [OF known_inv' [OF k] r(1), where r = r and es = "[]" and os = "[]"])
      show "row_inv r"
        using r(2,3) known_inv [OF k r(1)] cD True by (auto simp: row_inv_def)
    qed (use le r cD in \<open>simp_all add: count_events_def\<close>)
    moreover have "r \<in> set (slas db')"
      using r put_row_mem(1) [OF r(1), of r] cD(1) by (simp add: same_identity_def)
    ultimately show ?thesis using r cD known_stored by simp
  qed
qed

definition completed_row :: "ticket_sla \<Rightarrow> instant \<Rightarrow> ticket_sla" where
  "completed_row c m = c\<lparr>sla_state := (if sla_state c = BREACHED then BREACHED else COMPLETED),
      completed_at := Some m, paused_at := None, last_calculated_at := m\<rparr>"

definition met_tail :: "ticket_sla \<Rightarrow> instant \<Rightarrow> sla_input_event \<Rightarrow> string \<Rightarrow> ticket_sla \<Rightarrow> ticket_sla sla_op" where
  "met_tail sla m ev why saved = (if sla_state saved = COMPLETED
      then bindS (record_event saved ''MET'' m (input_key ev ''met'' sla)
          [(''reason'', PStr why),
           (''remaining_working_seconds'', PInt (remaining_working_seconds saved))]) (\<lambda>_.
        bindS (count instances_met_update) (\<lambda>_. ret saved))
      else ret saved)"

definition stop_tail :: "ticket_sla \<Rightarrow> instant \<Rightarrow> sla_input_event \<Rightarrow> string \<Rightarrow> ticket_sla \<Rightarrow> ticket_sla sla_op" where
  "stop_tail sla m ev why current = bindS (record_event (completed_row current m) ''STOPPED'' m (input_key ev ''stopped'' sla)
          [(''reason'', PStr why),
           (''elapsed_working_seconds'', PInt (elapsed_working_seconds (completed_row current m)))]) (\<lambda>inserted.
        if \<not> inserted then ret sla
        else bindS (save_sla (completed_row current m) (row_version current)) (met_tail sla m ev why))"

lemma complete_sla_alt:
  "complete_sla env sla m ev why =
     (if completed_at sla \<noteq> None \<or> sla_state sla \<in> {CANCELLED, PENDING} then ret sla
      else bindS (calculated env sla m) (\<lambda>c.
        bindS (if sla_state c = RUNNING \<and> remaining_working_seconds c \<le> 0
               then breach_sla c m else ret c) (stop_tail sla m ev why)))"
  unfolding complete_sla_def Let_def completed_row_def [symmetric] met_tail_def [symmetric]
    stop_tail_def [symmetric] by (rule refl)

lemma met_tail_keeps:
  assumes "sla_inv db" "met_tail sla m ev why saved db = Inr (r, db')"
  shows "sla_inv db' \<and> sla_later db db'"
proof (cases "sla_state saved = COMPLETED")
  case True
  then obtain b db1 where "record_event saved ''MET'' m (input_key ev ''met'' sla)
        [(''reason'', PStr why),
         (''remaining_working_seconds'', PInt (remaining_working_seconds saved))] db = Inr (b, db1)"
      and "db' = db1\<lparr>sla_counts := instances_met_update Suc (sla_counts db1)\<rparr>"
    using assms(2) by (auto simp: met_tail_def elim: bindS_E)
  with record_event_keeps [OF assms(1)] show ?thesis by simp
qed (use assms in \<open>simp add: met_tail_def sla_later_refl\<close>)

lemma stop_tail_keeps:
  assumes k: "known base db" and c: "recount base c" "ticket_sla_id base = ticket_sla_id sla"
    and run: "stop_tail sla m ev why c db = Inr (r, db')"
  shows "sla_inv db' \<and> sla_later db db'"
  using k run [unfolded stop_tail_def recountD(2) [OF c(1)]]
proof (rule record_save_count)
  note cD = recountD [OF c(1)]
  show "ticket_sla_id (completed_row c m) = ticket_sla_id base" "same_identity (completed_row c m) base"
    using cD(1) by (simp_all add: completed_row_def same_identity_def)
  let ?z = "(completed_row c m)\<lparr>row_version := row_version base + 1\<rparr>"
  show "row_inv ?z" if "base \<in> set (slas db)" "row_check ?z"
    using that(2) known_inv [OF k that(1)] cD by (auto simp: row_inv_def completed_row_def)
  show "sla_inv db' \<and> sla_later db db'" if "sla_inv db2" "sla_later db db2" "met_tail sla m ev why z db2 = Inr (r, db')"
    for z db2
    using met_tail_keeps [OF that(1,3)] that(2) by (auto intro: sla_later_trans)
qed (use recountD [OF c(1)] k in \<open>auto simp: completed_row_def known_inv' sla_later_refl\<close>)

lemma complete_keeps:
  assumes k: "known sla db" and run: "complete_sla env sla m ev why db = Inr (r, db')"
  shows "sla_inv db' \<and> sla_later db db'"
proof (cases "completed_at sla \<noteq> None \<or> sla_state sla \<in> {CANCELLED, PENDING}")
  case True
  with run k show ?thesis unfolding complete_sla_alt if_P [OF True]
    by (simp add: known_inv' sla_later_refl)
next
  case False
  from run obtain c current db1 where c: "recount sla c"
    and phase: "(if sla_state c = RUNNING \<and> remaining_working_seconds c \<le> 0
               then breach_sla c m else ret c) db = Inr (current, db1)"
    and tail: "stop_tail sla m ev why current db1 = Inr (r, db')"
    unfolding complete_sla_alt if_not_P [OF False]
    by (auto elim!: bindS_E dest: calculated_recount)
  note cD = recountD [OF c]
  consider (plain) "current = c" "db1 = db"
    | (breach) "sla_inv db1" "sla_later db db1" "known current db1" "ticket_sla_id current = ticket_sla_id sla"
  proof (cases "sla_state c = RUNNING \<and> remaining_working_seconds c \<le> 0")
    case True
    then have run': "breach_sla c m db = Inr (current, db1)" using phase by simp
    have running: "sla_state sla = RUNNING" using True cD by simp
    have inv: "paused_at c = None" "target_seconds (sla_goal c) \<le> elapsed_working_seconds c"
      if "sla \<in> set (slas db)"
      using row_invD(1,6) [OF known_inv [OF k that]] cD(12) [OF known_inv [OF k that]] cD(7) running True
      by (auto simp: max_def split: if_splits)
    from breach_keeps [OF k run' cD(1,2)] inv cD running show thesis
      using plain breach by (auto simp: breached_row_def same_identity_def)
  qed (use phase plain in auto)
  then show ?thesis
  proof cases
    case plain
    with stop_tail_keeps [OF k c refl] tail show ?thesis by simp
  next
    case breach
    with stop_tail_keeps [OF breach(3) recount_refl breach(4) tail] show ?thesis
      by (auto intro: sla_later_trans)
  qed
qed

definition retargeted_row ::
  "ticket_sla \<Rightarrow> sla_goal_version \<Rightarrow> int \<Rightarrow> instant \<Rightarrow> instant option \<Rightarrow> instant \<Rightarrow> ticket_sla" where
  "retargeted_row c goal remaining target warning m = c\<lparr>sla_goal := goal,
     remaining_working_seconds := remaining, target_at := target, warning_at := warning,
     last_calculated_at := m\<rparr>"

lemma retarget_keeps:
  assumes k: "known sla db" and run: "retarget_sla env ticket ev sla db = Inr (r, db')"
  shows "sla_inv db' \<and> sla_later db db'"
proof (cases "sla_state sla \<in> {CANCELLED, COMPLETED, BREACHED}")
  case True
  with run k show ?thesis unfolding retarget_sla_def if_P [OF True]
    by (simp add: known_inv' sla_later_refl)
next
  case False
  let ?m = "occurred_at ev"
  define left where "left c goal = max 0 (target_seconds goal - elapsed_working_seconds c)"
    for c :: ticket_sla and goal :: sla_goal_version
  from run obtain c goal target warning data where c: "recount sla c" and
    tail: "bindS (record_event (retargeted_row c goal (left c goal) target warning ?m) ''RECALCULATED'' ?m
        (input_key ev ''recalculated'' sla) data) (\<lambda>inserted.
      if \<not> inserted then ret ()
      else bindS (save_sla (retargeted_row c goal (left c goal) target warning ?m) (row_version sla)) (\<lambda>saved.
        bindS (count recalculations_update) (\<lambda>_.
        if sla_state saved = RUNNING \<and> left c goal = 0
        then bindS (breach_sla saved ?m) (\<lambda>_. ret ()) else ret ()))) db = Inr (r, db')"
    unfolding retarget_sla_def if_not_P [OF False] Let_def retargeted_row_def [symmetric]
      left_def [symmetric]
    by (auto simp: bind_read_iff elim!: bindS_E [where m = "calculated env sla ?m"] dest!: calculated_recount)
  note cD = recountD [OF c]
  let ?x = "retargeted_row c goal (left c goal) target warning ?m"
  let ?z = "?x\<lparr>row_version := row_version sla + 1\<rparr>"
  from k tail show ?thesis
  proof (rule record_save_count)
    show "ticket_sla_id ?x = ticket_sla_id sla" "same_identity ?x sla"
      using cD(1) by (simp_all add: retargeted_row_def same_identity_def)
    show "row_inv ?z" if "sla \<in> set (slas db)" "row_check ?z"
      using that(2) known_inv [OF k that(1)] cD False by (auto simp: row_inv_def retargeted_row_def left_def)
  next
    fix z db2 assume z: "z = ?z" and mid: "sla_inv db2" "sla_later db db2" "known z db2" "sla \<in> set (slas db)"
      and rest: "bindS (count recalculations_update) (\<lambda>_.
        if sla_state z = RUNNING \<and> left c goal = 0
        then bindS (breach_sla z ?m) (\<lambda>_. ret ()) else ret ()) db2 = Inr (r, db')"
    show ?thesis
    proof (cases "sla_state z = RUNNING \<and> left c goal = 0")
      case False
      with rest mid show ?thesis by auto
    next
      case True
      let ?db3 = "db2\<lparr>sla_counts := recalculations_update Suc (sla_counts db2)\<rparr>"
      from rest True obtain u where b: "breach_sla z ?m ?db3 = Inr (u, db')"
        by (auto simp: bindS_Inr_iff)
      have known3: "known z ?db3" using mid by simp
      have "z \<in> set (slas ?db3) \<Longrightarrow> paused_at z = None"
        "z \<in> set (slas ?db3) \<Longrightarrow> target_seconds (sla_goal z) \<le> elapsed_working_seconds z"
        using row_invD(1,6) [OF known_inv [OF known3]] True
        by (auto simp: z retargeted_row_def left_def max_def split: if_splits)
      from breach_keeps [OF known3 b same_identity_refl refl _ _ this(2,1)] True mid show ?thesis
        by (auto intro: sla_later_trans)
    qed
  qed (use cD False k in \<open>auto simp: retargeted_row_def known_inv' sla_later_refl\<close>)
qed

lemma evaluate_keeps:
  assumes k: "known sla db" and run: "evaluate_one env m sla db = Inr (r, db')"
  shows "sla_inv db' \<and> sla_later db db'"
proof -
  from run obtain a db1 c db2 where adv: "advance_sla env sla m db = Inr (a, db1)"
    and warn: "(if warning_emitted_at a = None
               \<and> (case warning_seconds (sla_goal a) of None \<Rightarrow> False
                  | Some w \<Rightarrow> remaining_working_seconds a \<le> w)
            then warn_sla a m else ret a) db1 = Inr (c, db2)"
    and last: "(if remaining_working_seconds c \<le> 0 \<and> sla_state c = RUNNING
      then bindS (breach_sla c m) (\<lambda>_. ret ()) else ret ()) db2 = Inr (r, db')"
    unfolding evaluate_one_def by (elim bindS_E)
  note a = advance_keeps [OF k adv]
  have mid: "sla_inv db2 \<and> sla_later db db2 \<and> known c db2"
  proof (cases "warning_emitted_at a = None \<and> (case warning_seconds (sla_goal a) of None \<Rightarrow> False
                  | Some w \<Rightarrow> remaining_working_seconds a \<le> w)")
    case True
    with warn have "warn_sla a m db1 = Inr (c, db2)" by simp
    with warn_keeps [of a db1 m c db2] a True show ?thesis by (auto intro: sla_later_trans)
  qed (use warn a in auto)
  show ?thesis
  proof (cases "remaining_working_seconds c \<le> 0 \<and> sla_state c = RUNNING")
    case True
    with last obtain u where b: "breach_sla c m db2 = Inr (u, db')" by (auto simp: bindS_Inr_iff)
    have "known c db2" using mid by simp
    have "c \<in> set (slas db2) \<Longrightarrow> paused_at c = None"
      "c \<in> set (slas db2) \<Longrightarrow> target_seconds (sla_goal c) \<le> elapsed_working_seconds c"
      using row_invD(1,6) [OF known_inv [OF \<open>known c db2\<close>]] True
      by (auto simp: max_def split: if_splits)
    from breach_keeps [OF \<open>known c db2\<close> b same_identity_refl refl _ _ this(2,1)] True mid show ?thesis
      by (auto intro: sla_later_trans)
  qed (use last mid in auto)
qed

subsection \<open>Handlers\<close>

lemma create_keeps:
  assumes inv: "sla_inv db" and run: "create_sla t d g start target warning db = Inr (Some sla, db')"
  shows "sla_inv db' \<and> sla_later db db' \<and> known sla db'"
proof -
  from run have db': "db' = db\<lparr>slas := slas db @ [sla]\<rparr>" and fresh: "ticket_sla_id sla \<notin> ticket_sla_id ` set (slas db)"
    and row: "row_check sla" "sla_state sla = RUNNING" "paused_at sla = None" "breached_at sla = None"
      "completed_at sla = None" "warning_emitted_at sla = None" "elapsed_working_seconds sla = 0"
      "remaining_working_seconds sla = target_seconds (sla_goal sla)"
    by (auto simp: create_sla_def Let_def split: if_splits)
  have "count_events t (ticket_sla_id sla) (sla_events db) = 0" for t
    using sla_invD(2) [OF inv] fresh by (intro count_events_other) metis
  then have "recorded db' sla" using row by (simp add: recorded_def db')
  moreover have "row_inv sla" using row by (simp add: row_inv_def row_check_def)
  moreover have "recorded db' r \<longleftrightarrow> recorded db r" for r by (simp add: recorded_def db')
  ultimately have "sla_inv db'"
    using inv fresh by (auto simp: sla_inv_def db')
  then show ?thesis
    by (auto simp: db' sla_later_def intro: row_le_refl intro!: known_stored)
qed

lemma sla_stepI: "sla_inv db' \<and> sla_later db db' \<Longrightarrow> sla_step db db'"
  by (simp add: sla_step_def)

lemma row_op_step:
  assumes "known sla db"
  shows pause_step: "bindS (pause_sla env sla m ev why) (\<lambda>_. ret ()) db = Inr (u, db') \<Longrightarrow>
      sla_inv db' \<and> sla_later db db'"
    and resume_step: "bindS (resume_sla env sla m ev why) (\<lambda>_. ret ()) db = Inr (u, db') \<Longrightarrow>
      sla_inv db' \<and> sla_later db db'"
    and complete_step: "bindS (complete_sla env sla m ev why) (\<lambda>_. ret ()) db = Inr (u, db') \<Longrightarrow>
      sla_inv db' \<and> sla_later db db'"
    and reopen_step: "bindS (reopen_sla env sla m ev) (\<lambda>_. ret ()) db = Inr (u, db') \<Longrightarrow>
      sla_inv db' \<and> sla_later db db'"
  by (auto elim!: bindS_E dest!: pause_keeps [OF assms] resume_keeps [OF assms]
      complete_keeps [OF assms] reopen_keeps [OF assms])

lemma start_one_keeps:
  assumes inv: "sla_inv db" and run: "start_one env ticket ev d db = Inr (u, db')"
  shows "sla_inv db' \<and> sla_later db db'"
proof -
  from run obtain goal target warning created db1 where create:
      "create_sla ticket d goal (created_at ticket) target warning db = Inr (created, db1)"
    and rest: "(case created of None \<Rightarrow> ret ()
      | Some sla \<Rightarrow>
        bindS (record_event sla ''STARTED'' (created_at ticket)
          (''input:'' @ uuid_str (in_event_id ev) @ '':started'')
          [(''sla_definition_version_id'', PStr (uuid_str (sla_definition_version_id d))),
           (''sla_goal_version_id'', PStr (uuid_str (sla_goal_version_id goal))),
           (''business_calendar_version_id'', PStr (uuid_str (goal_calendar_version_id goal))),
           (''target_at'', PTime target)]) (\<lambda>_.
        bindS (count instances_started_update) (\<lambda>_.
        case (metric d, first_response_at ticket, resolved_at ticket) of
          (FIRST_RESPONSE, Some responded, _) \<Rightarrow>
            bindS (complete_sla env sla responded ev ''ALREADY_RESPONDED'') (\<lambda>_. ret ())
        | (RESOLUTION, _, Some resolved) \<Rightarrow>
            bindS (complete_sla env sla resolved ev ''ALREADY_RESOLVED'') (\<lambda>_. ret ())
        | _ \<Rightarrow>
            bindS (liftS (pause_statuses (pause_conditions d))) (\<lambda>paused.
            if status_code ticket \<in> set paused
            then bindS (pause_sla env sla (created_at ticket) ev (status_code ticket)) (\<lambda>_. ret ())
            else ret ())))) db1 = Inr (u, db')"
    unfolding start_one_def Let_def bind_read_iff by (elim exE conjE bindS_E) (rule that)
  show ?thesis
  proof (cases created)
    case None
    with create rest inv show ?thesis
      by (auto simp: create_sla_def Let_def sla_later_refl split: if_splits)
  next
    case (Some sla)
    note c = create_keeps [OF inv create [unfolded Some]]
    from rest obtain b db2 db3 where rec: "record_event sla ''STARTED'' (created_at ticket)
          (''input:'' @ uuid_str (in_event_id ev) @ '':started'')
          [(''sla_definition_version_id'', PStr (uuid_str (sla_definition_version_id d))),
           (''sla_goal_version_id'', PStr (uuid_str (sla_goal_version_id goal))),
           (''business_calendar_version_id'', PStr (uuid_str (goal_calendar_version_id goal))),
           (''target_at'', PTime target)] db1 = Inr (b, db2)"
      and db3: "db3 = db2\<lparr>sla_counts := instances_started_update Suc (sla_counts db2)\<rparr>"
      and last: "(case (metric d, first_response_at ticket, resolved_at ticket) of
          (FIRST_RESPONSE, Some responded, _) \<Rightarrow>
            bindS (complete_sla env sla responded ev ''ALREADY_RESPONDED'') (\<lambda>_. ret ())
        | (RESOLUTION, _, Some resolved) \<Rightarrow>
            bindS (complete_sla env sla resolved ev ''ALREADY_RESOLVED'') (\<lambda>_. ret ())
        | _ \<Rightarrow>
            bindS (liftS (pause_statuses (pause_conditions d))) (\<lambda>paused.
            if status_code ticket \<in> set paused
            then bindS (pause_sla env sla (created_at ticket) ev (status_code ticket)) (\<lambda>_. ret ())
            else ret ())) db3 = Inr (u, db')"
      unfolding Some option.case by (elim bindS_E) simp
    have "sla_inv db2 \<and> sla_later db1 db2" using record_event_keeps [OF _ rec] c by simp
    with c have mid: "sla_inv db3" "sla_later db db3" "known sla db3"
      by (auto simp: db3 intro: sla_later_trans known_stable sla_stepI)
    have pausing: "sla_inv db' \<and> sla_later db3 db'"
      if "bindS (liftS (pause_statuses (pause_conditions d))) (\<lambda>paused.
            if status_code ticket \<in> set paused
            then bindS (pause_sla env sla (created_at ticket) ev (status_code ticket)) (\<lambda>_. ret ())
            else ret ()) db3 = Inr ((), db')"
      using that mid(1) by (auto simp: bind_read_iff sla_later_refl split: if_splits dest: pause_step [OF mid(3)])
    from last have "sla_inv db' \<and> sla_later db3 db'"
      by (cases "metric d"; cases "first_response_at ticket"; cases "resolved_at ticket";
          auto dest: complete_step [OF mid(3)] pausing)
    with mid show ?thesis by (auto intro: sla_later_trans)
  qed
qed

lemma transition_one_keeps:
  assumes k: "known sla db"
    and run: "transition_one env ticket ev to_status from_cat to_cat sla db = Inr (u, db')"
  shows "sla_inv db' \<and> sla_later db db'"
proof -
  have stay: "sla_inv db \<and> sla_later db db" using k by (simp add: known_inv' sla_later_refl)
  have "sla_inv db' \<and> sla_later db db'"
    if "bindS (liftS (pause_statuses (pause_conditions (sla_definition sla)))) (\<lambda>paused.
        if to_status \<in> set paused
        then bindS (pause_sla env sla (occurred_at ev) ev to_status) (\<lambda>_. ret ())
        else if sla_state sla = PAUSED
        then bindS (resume_sla env sla (occurred_at ev) ev to_status) (\<lambda>_. ret ())
        else ret ()) db = Inr (u, db')"
    using that stay
    by (auto simp: bind_read_iff split: if_splits dest: pause_step [OF k] resume_step [OF k])
  then show ?thesis
    using run stay unfolding transition_one_def
    by (auto split: if_splits dest: complete_step [OF k] reopen_step [OF k])
qed

text \<open>What is known of every row a handler has read stays known while it handles the others.\<close>

lemma forS_rows_keep:
  assumes "\<And>sla db u db'. known sla db \<Longrightarrow> f sla db = Inr (u, db') \<Longrightarrow> sla_inv db' \<and> sla_later db db'"
    and "sla_inv db" "set rows \<subseteq> set (slas db)" "forS f rows db = Inr (u, db')"
  shows "sla_inv db' \<and> sla_later db db'"
proof -
  have "keeps_if (\<lambda>db. \<forall>sla\<in>set rows. known sla db) sla_step (forS f rows)"
  proof (rule sh.keeps_if_forS)
    show "keeps_if (known x) sla_step (f x)" for x
      by (rule keeps_ifI, rule sla_stepI, rule assms(1))
  qed (rule known_stable)
  then have "sla_step db db'"
    using assms(2-4) by (auto intro: known_stored dest: keeps_ifD)
  then show ?thesis using assms(2) by (simp add: sla_step_def)
qed

lemma forS_defs_keep:
  assumes "\<And>d db u db'. sla_inv db \<Longrightarrow> f d db = Inr (u, db') \<Longrightarrow> sla_inv db' \<and> sla_later db db'"
    and "sla_inv db" "forS f ds db = Inr (u, db')"
  shows "sla_inv db' \<and> sla_later db db'"
proof -
  have "keeps sla_step (forS f ds)"
    by (rule sh.keeps_forS) (auto intro!: keepsI simp: sla_step_def dest: assms(1))
  then have "sla_step db db'" using assms(3) by (rule keepsD)
  then show ?thesis using assms(2) by (simp add: sla_step_def)
qed

lemma ticket_slas_stored: "set (ticket_slas_query tenant ticket db) \<subseteq> set (slas db)"
  by (auto simp: ticket_slas_query_def)

lemma due_slas_stored: "set (due_slas_query tenant due_at limit db) \<subseteq> set (slas db)"
  by (auto simp: due_slas_query_def dest: in_set_takeD)

lemma mark_first_responseD:
  assumes "mark_first_response tenant ticket m db = Inr (u, db')"
  shows "slas db' = slas db \<and> sla_events db' = sla_events db \<and> outbox db' = outbox db"
  using assms by (auto simp: mark_first_response_def split: if_splits)

lemma process_keeps:
  assumes inv: "sla_inv db" and run: "process env ev db = Inr (u, db')"
  shows "sla_inv db' \<and> sla_later db db'"
proof -
  have stay: "sla_inv db \<and> sla_later db db" using inv by (simp add: sla_later_refl)
  from run obtain ticket db1 where
    handler: "(if in_event_type ev = ''START_SLA'' then start_slas env ticket ev
            else if in_event_type ev = ''AGENT_PUBLIC_RESPONSE_ADDED''
            then bindS (mark_first_response (in_tenant_id ev) (in_ticket_id ev) (occurred_at ev))
              (\<lambda>_. complete_metric env ticket FIRST_RESPONSE ev)
            else if in_event_type ev = ''TICKET_WORKFLOW_TRANSITIONED''
            then transition_slas env ticket ev
            else if in_event_type ev = ''TICKET_PRIORITY_CHANGED''
            then priority_changed env ticket ev
            else ret ()) db = Inr ((), db1)"
    and db': "db' = db1\<lparr>sla_counts := input_events_processed_update Suc (sla_counts db1)\<rparr>"
    by (auto simp: process_def bind_read_iff split: if_splits option.splits elim!: bindS_E)
  have start: "sla_inv db1 \<and> sla_later db db1" if "start_slas env ticket ev db = Inr ((), db1)"
    using that inv forS_defs_keep [where f = "start_one env ticket ev", OF start_one_keeps]
    by (auto simp: start_slas_def bind_read_iff split: if_splits)
  have moved: "sla_inv db1 \<and> sla_later db db1"
    if "forS (transition_one env ticket ev ts fc tc) (ticket_slas_query a b db) db = Inr ((), db1)" for ts fc tc a b
    by (rule forS_rows_keep [OF _ inv ticket_slas_stored that]) (rule transition_one_keeps)
  have transition: "sla_inv db1 \<and> sla_later db db1" if "transition_slas env ticket ev db = Inr ((), db1)"
  proof -
    let ?cat = "\<lambda>code. status_category_query (fact_ticket_id ticket) code db"
    from that obtain a b where "(case (?cat a, ?cat b) of
       (Some from_cat, Some to_cat) \<Rightarrow>
         bindS (getS (ticket_slas_query (fact_tenant_id ticket) (fact_ticket_id ticket))) (\<lambda>rows.
         forS (transition_one env ticket ev b from_cat to_cat) rows)
     | _ \<Rightarrow> raise (SlaConfigurationError ''Workflow event references an unknown status.'')) db = Inr ((), db1)"
      unfolding transition_slas_def bind_read_iff by blast
    then show ?thesis
      by (cases "?cat a"; cases "?cat b") (auto simp: bind_read_iff dest: moved)
  qed
  have retargeted: "sla_inv db1 \<and> sla_later db db1"
    if "forS (retarget_sla env ticket ev) (ticket_slas_query a b db) db = Inr ((), db1)" for a b
    by (rule forS_rows_keep [OF _ inv ticket_slas_stored that]) (rule retarget_keeps)
  then have priority: "sla_inv db1 \<and> sla_later db db1" if "priority_changed env ticket ev db = Inr ((), db1)"
    using that by (auto simp: priority_changed_def bind_read_iff)
  have response: "sla_inv db1 \<and> sla_later db db1"
    if "bindS (mark_first_response (in_tenant_id ev) (in_ticket_id ev) (occurred_at ev))
              (\<lambda>_. complete_metric env ticket FIRST_RESPONSE ev) db = Inr ((), db1)"
  proof -
    from that obtain db2 where "slas db2 = slas db" "sla_events db2 = sla_events db" "outbox db2 = outbox db"
      and cm: "complete_metric env ticket FIRST_RESPONSE ev db2 = Inr ((), db1)"
      by (elim bindS_E) (auto dest: mark_first_responseD)
    then have "sla_inv db2" and later: "sla_later db2 db1 \<Longrightarrow> sla_later db db1"
      using inv by (auto simp: sla_inv_def recorded_def sla_later_def)
    have whenever: "sla_inv e \<and> sla_later d e"
      if "known sla d" "whenS (metric (sla_definition sla) = FIRST_RESPONSE)
        (bindS (complete_sla env sla (occurred_at ev) ev (in_event_type ev)) (\<lambda>_. ret ())) d = Inr (v, e)"
      for sla d v e
      using that by (auto simp: whenS_def known_inv' sla_later_refl split: if_splits
          dest: complete_step [OF that(1)])
    from cm have "sla_inv db1 \<and> sla_later db2 db1"
      unfolding complete_metric_def bind_read_iff
      by (rule forS_rows_keep [rotated 3]) (use \<open>sla_inv db2\<close> ticket_slas_stored whenever in blast)+
    with later show ?thesis by simp
  qed
  have "sla_inv db1 \<and> sla_later db db1"
    using handler start transition priority response stay by (auto split: if_splits)
  then show ?thesis by (simp add: db')
qed

lemma evaluate_due_keeps:
  assumes inv: "sla_inv db" and run: "evaluate_due env tenant due_at limit db = Inr (n, db')"
  shows "sla_inv db' \<and> sla_later db db'"
proof -
  from run have "forS (evaluate_one env due_at) (due_slas_query tenant due_at limit db) db = Inr ((), db')"
    by (auto simp: evaluate_due_def bind_read_iff elim!: bindS_E)
  then show ?thesis
    by (rule forS_rows_keep [OF _ inv due_slas_stored, rotated]) (rule evaluate_keeps)
qed

end
