(* ===== verification/SlaWorker.thy ===== *)
theory SlaWorker
  imports SlaLaws
begin

text \<open>
  \<open>apps/worker/worker/sla_worker.py\<close>: the outbox consumer that feeds the SLA engine, with its claim,
  retry and dead-letter bookkeeping, and the deadline scan. Every call runs in a transaction of its
  own: when the engine raises, its writes and the claim are rolled back and the failure is recorded
  in a second transaction. \<open>clock_timestamp()\<close> is read once per call.
\<close>

subsection \<open>The queue\<close>

record queued_event =
  q_event_id :: uuid
  q_tenant_id :: "uuid option"
  q_aggregate_id :: string
  q_event_type :: string
  q_payload :: pydict
  q_created_at :: instant
  q_available_at :: instant
  q_status :: string
  q_retry_count :: nat
  q_locked_by :: "string option"
  q_last_error :: "string option"

text \<open>\<open>uuid_of_text\<close> is Python's \<open>UUID(...)\<close>, \<open>None\<close> where it raises.\<close>

record worker_env =
  engine_env :: sla_env
  uuid_of_text :: "string \<Rightarrow> uuid option"
  worker_id :: string
  max_attempts :: nat
  batch_size :: nat

record worker_state =
  engine_db :: sla_db
  queue :: "queued_event list"
  active_tenants :: "uuid list"

definition claimable :: "instant \<Rightarrow> queued_event \<Rightarrow> bool" where
  "claimable now q \<longleftrightarrow> q_status q \<in> {''PENDING'', ''FAILED''} \<and> q_available_at q \<le> now
     \<and> q_event_type q \<in> set supported_input_events"

definition candidate :: "instant \<Rightarrow> queued_event list \<Rightarrow> queued_event option" where
  "candidate now rows =
     (case sort_key (\<lambda>q. (q_created_at q, q_event_id q)) (filter (claimable now) rows) of
        [] \<Rightarrow> None | q # _ \<Rightarrow> Some q)"

definition update_queue ::
  "uuid \<Rightarrow> (queued_event \<Rightarrow> queued_event) \<Rightarrow> queued_event list \<Rightarrow> queued_event list" where
  "update_queue i f = map (\<lambda>q. if q_event_id q = i then f q else q)"

definition input_of_row :: "worker_env \<Rightarrow> queued_event \<Rightarrow> sla_input_event option" where
  "input_of_row env q =
     (case q_tenant_id q of
        None \<Rightarrow> None
      | Some tenant \<Rightarrow>
        (case uuid_of_text env
            (case dget (q_payload q) ''ticket_id'' of
               None \<Rightarrow> q_aggregate_id q
             | Some v \<Rightarrow> py_str (python_str (engine_env env)) v) of
           None \<Rightarrow> None
         | Some ticket \<Rightarrow> Some \<lparr>in_event_id = q_event_id q, in_tenant_id = tenant, in_ticket_id = ticket,
             in_event_type = q_event_type q, in_payload = q_payload q, occurred_at = q_created_at q\<rparr>))"

definition processed :: "queued_event \<Rightarrow> queued_event" where
  "processed q = q\<lparr>q_status := ''PROCESSED'', q_locked_by := None, q_last_error := None\<rparr>"

definition failed :: "worker_env \<Rightarrow> instant \<Rightarrow> string \<Rightarrow> queued_event \<Rightarrow> queued_event" where
  "failed env now error q =
     (if q_status q \<in> {''PENDING'', ''FAILED'', ''PROCESSING''}
      then q\<lparr>q_retry_count := q_retry_count q + 1,
        q_status := (if max_attempts env \<le> q_retry_count q + 1 then ''DEAD_LETTER'' else ''FAILED''),
        q_available_at := now + min 300 (2 ^ q_retry_count q) * second,
        q_locked_by := None, q_last_error := Some (take 100 error)\<rparr>
      else q)"

definition error_code :: "sla_error \<Rightarrow> string" where
  "error_code e = (case e of SlaConfigurationError _ \<Rightarrow> ''SlaConfigurationError''
     | SlaCalendarError (CalendarConfigurationError _) \<Rightarrow> ''CalendarConfigurationError''
     | SlaCalendarError (CalendarValueError _) \<Rightarrow> ''ValueError''
     | SlaTypeError \<Rightarrow> ''TypeError'' | SlaValueError _ \<Rightarrow> ''ValueError''
     | ConcurrentSlaUpdate \<Rightarrow> ''RuntimeError'' | TenantContextMismatch \<Rightarrow> ''DBAPIError''
     | SlaIntegrityError _ \<Rightarrow> ''IntegrityError'')"

subsection \<open>The worker\<close>

text \<open>
  A claim that raises (no tenant, no ticket identity) leaves \<open>event_id\<close> unset, so nothing is
  recorded of it.
\<close>

definition process_one :: "worker_env \<Rightarrow> instant \<Rightarrow> worker_state \<Rightarrow> bool \<times> worker_state" where
  "process_one env now st =
     (case candidate now (queue st) of
        None \<Rightarrow> (False, st)
      | Some q \<Rightarrow>
        (case input_of_row env q of
           None \<Rightarrow> (True, st)
         | Some event \<Rightarrow>
           (case process (engine_env env) event ((engine_db st)\<lparr>current_tenant := in_tenant_id event\<rparr>) of
              Inr (_, db) \<Rightarrow>
                (True, st\<lparr>engine_db := db, queue := update_queue (q_event_id q) processed (queue st)\<rparr>)
            | Inl e \<Rightarrow>
                (True, st\<lparr>queue := update_queue (q_event_id q) (failed env now (error_code e)) (queue st)\<rparr>))))"

fun due_scan :: "worker_env \<Rightarrow> instant \<Rightarrow> uuid list \<Rightarrow> sla_db \<Rightarrow> nat \<Rightarrow> (sla_error + nat) \<times> sla_db" where
  "due_scan env due_at [] db n = (Inr n, db)"
| "due_scan env due_at (tenant # rest) db n =
     (case evaluate_due (engine_env env) tenant due_at (batch_size env) (db\<lparr>current_tenant := tenant\<rparr>) of
        Inl e \<Rightarrow> (Inl e, db)
      | Inr (k, db') \<Rightarrow> due_scan env due_at rest db' (n + k))"

definition process_due :: "worker_env \<Rightarrow> instant \<Rightarrow> worker_state \<Rightarrow> (sla_error + nat) \<times> worker_state" where
  "process_due env due_at st =
     (let (r, db) = due_scan env due_at (sort (active_tenants st)) (engine_db st) 0
      in (r, st\<lparr>engine_db := db\<rparr>))"

text \<open>
  \<open>run_forever\<close> as the steps it can take: consume, scan, and whatever else appends rows to the queue
  in between.
\<close>

inductive worker_step :: "worker_env \<Rightarrow> worker_state \<Rightarrow> worker_state \<Rightarrow> bool" for env where
  consume: "process_one env now st = (r, st') \<Longrightarrow> worker_step env st st'"
| scan: "process_due env now st = (r, st') \<Longrightarrow> worker_step env st st'"
| arrive: "q_event_id q \<notin> q_event_id ` set (queue st) \<Longrightarrow>
    worker_step env st (st\<lparr>queue := queue st @ [q]\<rparr>)"

inductive worker_run :: "worker_env \<Rightarrow> worker_state \<Rightarrow> worker_state \<Rightarrow> bool" for env where
  stop: "worker_run env st st"
| step: "worker_run env st st' \<Longrightarrow> worker_step env st' st'' \<Longrightarrow> worker_run env st st''"

inductive_cases worker_stepE: "worker_step env st st'"

subsection \<open>The tables over a run\<close>

lemma tenant_irrelevant [simp]:
  "sla_inv (db\<lparr>current_tenant := t\<rparr>) = sla_inv db"
  "sla_later (db\<lparr>current_tenant := t\<rparr>) db' = sla_later db db'"
  by (simp_all add: sla_inv_def recorded_def sla_later_def)

lemma process_one_keeps:
  assumes "process_one env now st = (r, st')" "sla_inv (engine_db st)"
  shows "sla_inv (engine_db st') \<and> sla_later (engine_db st) (engine_db st')"
  using assms process_keeps [of "(engine_db st)\<lparr>current_tenant := t\<rparr>" "engine_env env" for t]
  by (auto simp: process_one_def sla_later_refl split: option.splits sum.splits)

lemma due_scan_keeps:
  "due_scan env due_at tenants db n = (r, db') \<Longrightarrow> sla_inv db \<Longrightarrow> sla_inv db' \<and> sla_later db db'"
proof (induction env due_at tenants db n rule: due_scan.induct)
  case (2 env due_at tenant rest db n)
  show ?case
  proof (cases "evaluate_due (engine_env env) tenant due_at (batch_size env) (db\<lparr>current_tenant := tenant\<rparr>)")
    case (Inl e)
    with 2(2,3) show ?thesis by (simp add: sla_later_refl)
  next
    case (Inr p)
    then obtain k db1 where run: "evaluate_due (engine_env env) tenant due_at (batch_size env)
        (db\<lparr>current_tenant := tenant\<rparr>) = Inr (k, db1)" by (cases p) auto
    from evaluate_due_keeps [OF _ run] 2(3) have one: "sla_inv db1 \<and> sla_later db db1" by simp
    from 2(2) run have "due_scan env due_at rest db1 (n + k) = (r, db')" by simp
    with 2(1) run one show ?thesis by (auto intro: sla_later_trans)
  qed
qed (auto simp: sla_later_refl)

lemma worker_step_keeps:
  assumes "worker_step env st st'" "sla_inv (engine_db st)"
  shows "sla_inv (engine_db st') \<and> sla_later (engine_db st) (engine_db st')"
  using assms
proof cases
  case (consume now r)
  with assms(2) show ?thesis by (rule process_one_keeps [rotated])
next
  case (scan now r)
  then show ?thesis using due_scan_keeps [OF _ assms(2)]
    by (auto simp: process_due_def split: prod.splits)
qed (use assms(2) sla_later_refl in simp)

lemma worker_run_keeps:
  assumes "worker_run env st st'" "sla_inv (engine_db st)"
  shows "sla_inv (engine_db st') \<and> sla_later (engine_db st) (engine_db st')"
  using assms
proof induction
  case (step st st' st'')
  then show ?case using worker_step_keeps [OF step(2)] by (auto intro: sla_later_trans)
qed (simp add: sla_later_refl)

end
