(* ===== verification/SlaSpec.thy ===== *)
theory SlaSpec
  imports SlaWorker CalendarSpec
begin

text \<open>
  What the SLA engine promises over whole runs of the worker, and the cases where it does not do
  what its events say.
\<close>

subsection \<open>A small configuration\<close>

definition sla_demo_env :: worker_env where
  "sla_demo_env = \<lparr>engine_env = \<lparr>zoneinfo = (\<lambda>_. Some utc_zone), python_str = (\<lambda>_. [])\<rparr>,
     uuid_of_text = (\<lambda>_. Some 1), worker_id = ''w'', max_attempts = 3, batch_size = 10\<rparr>"

definition sla_demo_definition :: "uuid \<Rightarrow> string \<Rightarrow> definition_row" where
  "sla_demo_definition i code = \<lparr>def_tenant_id = 9, def_project_id = 8, def_active = True, def_id = i,
     def_version_id = i, def_version_number = 1, def_status = ''PUBLISHED'', def_from = None, def_to = None,
     def_metric_code = code,
     def_pause_conditions = PList [PDict [(''status_code'', PStr ''WAITING'')]]\<rparr>"

definition demo_goal :: "uuid \<Rightarrow> uuid \<Rightarrow> string \<Rightarrow> int \<Rightarrow> goal_row" where
  "demo_goal i d prio minutes = \<lparr>goal_id = i, goal_active = True, goal_version_id = i, goal_def_version_id = d,
     goal_cal_version_id = 1, goal_version_number = 1, goal_status = ''PUBLISHED'', goal_from = None,
     goal_to = None, goal_match_conditions = PDict [(''priority_code'', PStr prio)],
     target_minutes = minutes, warning_minutes = None, goal_priority_order = 1\<rparr>"

definition sla_demo_ticket :: "string \<Rightarrow> ticket_facts" where
  "sla_demo_ticket status = \<lparr>fact_ticket_id = 1, fact_tenant_id = 9, fact_project_id = 8,
     service_node_id = None, work_type_code = ''INCIDENT'', priority_code = ''P1'', status_code = status,
     status_category = ''OPEN'', created_at = 0, first_response_at = None, resolved_at = None\<rparr>"

definition sla_demo_db :: "string \<Rightarrow> string \<Rightarrow> sla_db" where
  "sla_demo_db status code = \<lparr>current_tenant = 9, tickets = [sla_demo_ticket status],
     workflow_statuses = (\<lambda>_. [(''NEW'', ''OPEN''), (''WAITING'', ''OPEN''), (''DONE'', ''DONE'')]),
     definition_rows = [sla_demo_definition 3 code], goal_rows = [demo_goal 5 3 ''P1'' 60],
     calendar_rows = [(example_version True, ''PUBLISHED'')], new_sla_id = of_nat, slas = [],
     sla_events = [], outbox = [], sla_counts = \<lparr>input_events_processed = 0, instances_started = 0,
       instances_paused = 0, instances_resumed = 0, instances_met = 0, warnings_emitted = 0,
       breaches_emitted = 0, recalculations = 0\<rparr>\<rparr>"

definition demo_event :: "uuid \<Rightarrow> string \<Rightarrow> pydict \<Rightarrow> instant \<Rightarrow> sla_input_event" where
  "demo_event i type payload moment = \<lparr>in_event_id = i, in_tenant_id = 9, in_ticket_id = 1,
     in_event_type = type, in_payload = payload, occurred_at = moment\<rparr>"

definition moves :: "string \<Rightarrow> string \<Rightarrow> pydict" where
  "moves a b = [(''from_status'', PStr a), (''to_status'', PStr b)]"

fun process_all :: "sla_env \<Rightarrow> sla_input_event list \<Rightarrow> sla_db \<Rightarrow> sla_error + sla_db" where
  "process_all env [] db = Inr db"
| "process_all env (e # es) db =
     (case process env e db of Inl err \<Rightarrow> Inl err | Inr (_, db') \<Rightarrow> process_all env es db')"

definition demo_row :: "sla_metric \<Rightarrow> sla_state \<Rightarrow> int \<Rightarrow> int \<Rightarrow> instant \<Rightarrow> ticket_sla" where
  "demo_row m state minutes elapsed counted = \<lparr>ticket_sla_id = 7, sla_tenant_id = 9, sla_ticket_id = 1,
     sla_definition = \<lparr>sla_definition_id = 3, sla_definition_version_id = 3, metric = m,
       pause_conditions = PList [PDict [(''status_code'', PStr ''WAITING'')]]\<rparr>,
     sla_goal = goal_of_row (demo_goal 5 3 ''P1'' minutes), sla_state = state, started_at = 0,
     target_at = hours 1, warning_at = None,
     paused_at = (if state = PAUSED then Some 0 else None), accumulated_pause_seconds = 0,
     completed_at = None, breached_at = None, elapsed_working_seconds = elapsed,
     remaining_working_seconds = max 0 (minutes * 60 - elapsed), last_calculated_at = counted,
     warning_emitted_at = None, row_version = 1\<rparr>"

definition demo_with :: "ticket_sla \<Rightarrow> sla_db" where
  "demo_with r = (sla_demo_db ''NEW'' ''TIME_TO_RESOLUTION'')\<lparr>slas := [r]\<rparr>"

lemma demo_calendar:
  "calendar_rows db = [(example_version True, ''PUBLISHED'')] \<Longrightarrow> goal_calendar_version_id g = 1 \<Longrightarrow>
    goal_calendar (engine_env sla_demo_env) g db = Inr (example_calendar utc_zone True)"
  using example_calendar_built [of utc_zone True]
  by (simp add: goal_calendar_def calendar_query_def example_version_def sla_demo_env_def)

lemma demo_elapsed:
  "business_seconds_between (example_calendar utc_zone True) 0 (hours 2) = Inr 7200"
  "business_seconds_between (example_calendar utc_zone True) (hours 1) (hours 3) = Inr 7200"
  by code_simp+

lemma demo_target:
  "add_business_seconds (example_calendar utc_zone True) (hours 1) 3600 = Inr (hours 2)"
  "add_business_seconds (example_calendar utc_zone True) (hours 1) 7200 = Inr (hours 3)"
  by code_simp+

lemma demo_pause:
  "pause_statuses (PList [PDict [(''status_code'', PStr ''WAITING'')]]) = Inr [''WAITING'']"
  by code_simp

lemma hours_simps:
  "hours a \<le> hours b \<longleftrightarrow> a \<le> b" "hours a < hours b \<longleftrightarrow> a < b" "hours a = hours b \<longleftrightarrow> a = b"
  "0 \<le> hours b \<longleftrightarrow> 0 \<le> b" "hours b \<le> 0 \<longleftrightarrow> b \<le> 0" "hours a - hours b = (a - b) * 3600 * second"
  by (auto simp: hours_def minute_def second_def)

lemma input_key_eq:
  "input_key e w s = input_key e' w' s' \<longleftrightarrow> in_event_id e = in_event_id e'
     \<and> w @ '':'' @ uuid_str (ticket_sla_id s) = w' @ '':'' @ uuid_str (ticket_sla_id s')"
  by (auto simp: input_key_def)

lemmas sla_demo_data = demo_with_def sla_demo_db_def demo_row_def demo_event_def moves_def sla_demo_ticket_def
  goal_of_row_def demo_goal_def

lemmas demo_run = process_def supported_input_events_def ticket_query_def transition_slas_def
  required_string_def dget_none_def bindS_def status_category_query_def ticket_slas_query_def
  transition_one_def demo_pause pause_sla_def resume_sla_def complete_sla_def calculated_def readS_def
  demo_calendar demo_elapsed Let_def record_event_def save_sla_def save_target_def saved_row_def
  row_check_def not_before_def hours_simps

lemma sla_demo_inv:
  "sla_inv (demo_with (demo_row m RUNNING 60 0 0))"
  by (simp add: sla_inv_def sla_demo_data row_inv_def row_check_def not_before_def recorded_def count_events_def)

subsection \<open>Properties\<close>

text \<open>C36: whatever the worker consumes and scans, the tables only move forward: no runtime row
  disappears or changes its ticket, definition or start, every change raises its version, counted
  work never shrinks, a breach is final and keeps its instant, and events and notices are only
  appended.\<close>

theorem worker_history:
  assumes "worker_run env st st'" "sla_inv (engine_db st)"
  shows "(\<forall>r\<in>set (slas (engine_db st)). \<exists>r'\<in>set (slas (engine_db st')). row_le r r')
    \<and> (\<exists>es. sla_events (engine_db st') = sla_events (engine_db st) @ es)
    \<and> (\<exists>os. outbox (engine_db st') = outbox (engine_db st) @ os)"
  using worker_run_keeps [OF assms] by (simp add: sla_later_def)

text \<open>C37: from empty tables, every row the worker ever leaves is balanced (what remains is the
  target less the counted work, never negative), is paused exactly while it has a pause time, and
  is breached exactly when one \<open>BREACHED\<close> event and its outbox notice were written.\<close>

theorem worker_accounting:
  assumes "worker_run env st st'" "slas (engine_db st) = []" "sla_events (engine_db st) = []"
    and "r \<in> set (slas (engine_db st'))"
  shows "remaining_working_seconds r = max 0 (target_seconds (sla_goal r) - elapsed_working_seconds r)
    \<and> (sla_state r = PAUSED \<longleftrightarrow> paused_at r \<noteq> None)
    \<and> (sla_state r = COMPLETED \<longrightarrow> completed_at r \<noteq> None)
    \<and> count_events ''BREACHED'' (ticket_sla_id r) (sla_events (engine_db st')) = of_bool (sla_state r = BREACHED)
    \<and> count_events ''WARNING'' (ticket_sla_id r) (sla_events (engine_db st')) = of_bool (warning_emitted_at r \<noteq> None)
    \<and> (sla_state r = BREACHED \<longrightarrow> announced r (outbox (engine_db st')))"
proof -
  have "sla_inv (engine_db st)" using assms(2,3) by (simp add: sla_inv_def)
  with worker_run_keeps [OF assms(1)] have inv: "sla_inv (engine_db st')" by blast
  from sla_invD(3,4) [OF inv assms(4)] show ?thesis by (auto simp: row_inv_def recorded_def)
qed

subsection \<open>Goal selection\<close>

lemma matching_goals_iff:
  "matching_goals env values gs = Inr ms \<Longrightarrow>
     ms = filter (\<lambda>g. goal_matches env (match_conditions g) values = Inr True) gs"
  by (induction gs arbitrary: ms) (auto simp: rbind_Inr_iff split: if_splits)

lemma choose_goal_least:
  assumes "choose_goal ms = Inr g"
  shows "g \<in> set ms \<and> (\<forall>h\<in>set ms. h \<noteq> g \<longrightarrow> priority_order g < priority_order h)"
proof -
  from assms consider "sort_key goal_order ms = [g]"
    | h rest where "sort_key goal_order ms = g # h # rest" "priority_order g \<noteq> priority_order h"
    by (auto simp: choose_goal_def split: list.splits if_splits)
  then show ?thesis
  proof cases
    case 1
    then have "set ms = {g}" by (metis set_sort list.simps(15) empty_set)
    then show ?thesis by simp
  next
    case 2
    have sorted: "sorted (map goal_order (g # h # rest))" using sorted_sort_key [of goal_order ms] 2 by simp
    have set: "set ms = set (g # h # rest)" using set_sort [of goal_order ms] 2 by simp
    have "priority_order g < priority_order h" using sorted 2(2)
      by (auto simp: goal_order_def less_eq_prod_def)
    moreover have "priority_order h \<le> priority_order x" if "x \<in> set rest" for x
      using sorted that by (force simp: goal_order_def less_eq_prod_def)
    ultimately show ?thesis using set by force
  qed
qed

text \<open>C38: the goal chosen for a ticket is a published, effective goal of the definition that matches
  the ticket, and every other matching goal comes strictly later in the priority order: a tie is
  never resolved silently.\<close>

theorem select_goal_sound:
  assumes "select_goal env d ticket at_time db = Inr g"
  shows "g \<in> set (goals_query (sla_definition_version_id d) at_time db)
    \<and> goal_matches env (match_conditions g) (rule_values ticket) = Inr True
    \<and> (\<forall>h\<in>set (goals_query (sla_definition_version_id d) at_time db). h \<noteq> g \<longrightarrow>
         goal_matches env (match_conditions h) (rule_values ticket) = Inr True \<longrightarrow>
         priority_order g < priority_order h)"
proof -
  from assms obtain ms where "matching_goals env (rule_values ticket)
      (goals_query (sla_definition_version_id d) at_time db) = Inr ms" "choose_goal ms = Inr g"
    by (auto simp: select_goal_def rbind_Inr_iff)
  with matching_goals_iff choose_goal_least show ?thesis by fastforce
qed

subsection \<open>Deadlines\<close>

lemma regular_add:
  assumes "regular_calendar cal" "add_seconds cal m n = Inr t"
  shows "business_seconds_between cal m t = Inr n \<and> m \<le> t"
proof -
  have add: "add_business_seconds cal m n = Inr t" using assms(2) by (simp add: add_seconds_def)
  show ?thesis
  proof (cases "n = 0")
    case True
    with add show ?thesis by (simp add: add_business_seconds_def business_seconds_between_def)
  next
    case False
    with add have "0 < n" "search_days (open_on cal) (dawn_of cal) (local_date (cal_zone cal) m)
        max_search_days m n = Some t"
      by (auto simp: add_business_seconds_def add_days_eq [OF assms(1)] split: if_splits)
    with bc.search_days_between [OF assms(1)] show ?thesis
      by (force simp: business_seconds_between_eq [OF assms(1)])
  qed
qed

lemma save_sla_result: "save_sla sla v db = Inr (r, db') \<Longrightarrow> r = sla\<lparr>row_version := v + 1\<rparr>"
  by (simp add: save_sla_def split: if_splits)

lemma resume_result:
  assumes run: "resume_sla env sla m event why db = Inr (r, db')"
    and new: "sla_state sla = PAUSED" "r \<noteq> sla" and cal: "goal_calendar env (sla_goal sla) db = Inr cal"
  obtains target warning p where "add_seconds cal m (remaining_working_seconds sla) = Inr target"
    "r = sla\<lparr>sla_state := RUNNING, paused_at := None, accumulated_pause_seconds := p,
      target_at := target, warning_at := warning, last_calculated_at := m,
      row_version := row_version sla + 1\<rparr>"
proof (cases "paused_at sla")
  case None
  with run new show thesis by (simp add: resume_sla_def)
next
  case (Some p)
  define x where "x target warning = sla\<lparr>sla_state := RUNNING, paused_at := None,
      accumulated_pause_seconds := accumulated_pause_seconds sla + max 0 ((m - p) div second),
      target_at := target, warning_at := warning, last_calculated_at := m\<rparr>" for target warning
  from run new(1) cal obtain target warning where
    t: "add_seconds cal m (remaining_working_seconds sla) = Inr target" and
    rest: "bindS (record_event (x target warning) ''RESUMED'' m (input_key event ''resumed'' sla)
        [(''reason'', PStr why), (''target_at'', PTime target)])
      (\<lambda>inserted. if \<not> inserted then ret sla
        else bindS (save_sla (x target warning) (row_version sla))
          (\<lambda>saved. bindS (count instances_resumed_update) (\<lambda>_. ret saved))) db = Inr (r, db')"
    unfolding resume_sla_def Let_def Some option.case x_def [symmetric]
    by (auto simp: bind_read_iff bind_liftS_iff)
  from rest new(2) show thesis
    by (auto elim!: bindS_E dest!: save_sla_result intro!: that [OF t] simp: x_def split: if_splits)
qed

text \<open>C39: resuming a paused clock whose goal has a regular calendar moves the deadline so that exactly the working
  time left when it was paused lies between the resumption and the new deadline; the pause costs nothing. A
  calendar is regular when its times of day are in range and its zone resolves every local time and never goes back
  to an earlier date; in a zone that repeats midnight the deadline can be off.\<close>

theorem resume_restores_deadline:
  assumes "resume_sla env sla m event why db = Inr (r, db')" "sla_state sla = PAUSED" "r \<noteq> sla"
    and "goal_calendar env (sla_goal sla) db = Inr cal" "regular_calendar cal"
  shows "business_seconds_between cal m (target_at r) = Inr (remaining_working_seconds sla)
    \<and> remaining_working_seconds r = remaining_working_seconds sla
    \<and> elapsed_working_seconds r = elapsed_working_seconds sla
    \<and> sla_state r = RUNNING \<and> last_calculated_at r = m \<and> m \<le> target_at r"
proof -
  from assms(1-4) obtain target warning p where
    add: "add_seconds cal m (remaining_working_seconds sla) = Inr target"
    and r: "r = sla\<lparr>sla_state := RUNNING, paused_at := None, accumulated_pause_seconds := p,
      target_at := target, warning_at := warning, last_calculated_at := m,
      row_version := row_version sla + 1\<rparr>"
    by (rule resume_result)
  from regular_add [OF assms(5) add] show ?thesis by (simp add: r)
qed

subsection \<open>Where the clocks go wrong\<close>

text \<open>A clock that ran over its target before anybody looked is not breached by a pause, and
  when the ticket is then resolved it is reported as met: an hour allowed, two hours worked.\<close>

lemma overdue_pause_counts_as_met:
  "\<exists>db. process_all (engine_env sla_demo_env)
      [demo_event 1 ''TICKET_WORKFLOW_TRANSITIONED'' (moves ''NEW'' ''WAITING'') (hours 2),
       demo_event 2 ''TICKET_WORKFLOW_TRANSITIONED'' (moves ''WAITING'' ''DONE'') (hours 3)]
      (demo_with (demo_row RESOLUTION RUNNING 60 0 0)) = Inr db
    \<and> map sla_state (slas db) = [COMPLETED] \<and> map breached_at (slas db) = [None]
    \<and> map (target_seconds \<circ> sla_goal) (slas db) = [3600] \<and> map elapsed_working_seconds (slas db) = [7200]
    \<and> map event_type (sla_events db) = [''PAUSED'', ''STOPPED'', ''MET'']"
  by (simp add: demo_run sla_demo_data input_key_def)

definition demo_long :: sla_db where
  "demo_long = (demo_with (demo_row RESOLUTION RUNNING 240 7200 (hours 2)))
     \<lparr>goal_rows := [demo_goal 5 3 ''P1'' 240]\<rparr>"

lemma demo_goal_selected:
  "select_goal (engine_env sla_demo_env) \<lparr>sla_definition_id = 3, sla_definition_version_id = 3,
       metric = RESOLUTION, pause_conditions = pc\<rparr> (sla_demo_ticket ''NEW'') (hours 1) demo_long
     = Inr (goal_of_row (demo_goal 5 3 ''P1'' 240))"
  by code_simp

text \<open>A priority change that reaches the engine after a later deadline scan moves the clock back
  to the change and counts the time in between twice: four hours of work in three.\<close>

lemma late_priority_change_counts_twice:
  "\<exists>db. process_all (engine_env sla_demo_env)
      [demo_event 1 ''TICKET_PRIORITY_CHANGED'' [] (hours 1),
       demo_event 2 ''TICKET_WORKFLOW_TRANSITIONED'' (moves ''NEW'' ''WAITING'') (hours 3)] demo_long
      = Inr db
    \<and> map elapsed_working_seconds (slas db) = [14400] \<and> map started_at (slas db) = [0]"
  using demo_goal_selected
  by (simp add: demo_run sla_demo_data demo_long_def priority_changed_def retarget_sla_def add_seconds_def
      remaining_warning_at_def demo_target input_key_eq)

text \<open>No status change resumes a first-response clock, whatever its pause conditions say, and
  the deadline scan skips paused clocks: one paused at the start stays so until a response.\<close>

lemma first_response_clock_stays_paused:
  assumes "metric (sla_definition sla) = FIRST_RESPONSE" "sla_state sla = PAUSED"
    and "first_response_at ticket = None"
  shows "transition_one env ticket event to_status from_category to_category sla db = Inr ((), db)
    \<and> \<not> is_due tenant due_at sla"
  using assms by (simp add: transition_one_def is_due_def)

lemma first_response_clock_stays_paused_witness:
  "transition_one (engine_env sla_demo_env) (sla_demo_ticket ''WAITING'')
      (demo_event 1 ''TICKET_WORKFLOW_TRANSITIONED'' (moves ''WAITING'' ''NEW'') (hours 2))
      ''NEW'' ''OPEN'' ''OPEN'' (demo_row FIRST_RESPONSE PAUSED 60 0 0) (sla_demo_db ''WAITING'' ''TIME_TO_FIRST_RESPONSE'')
    = Inr ((), sla_demo_db ''WAITING'' ''TIME_TO_FIRST_RESPONSE'')"
  using first_response_clock_stays_paused [of "demo_row FIRST_RESPONSE PAUSED 60 0 0" "sla_demo_ticket ''WAITING''"]
  by (simp add: demo_row_def sla_demo_ticket_def)

subsection \<open>The queue\<close>

definition attempts_left :: "worker_env \<Rightarrow> queued_event \<Rightarrow> nat" where
  "attempts_left env q = (if q_status q \<in> {''PENDING'', ''FAILED''}
     then max 1 (max_attempts env - q_retry_count q) else 0)"

definition backlog :: "worker_env \<Rightarrow> worker_state \<Rightarrow> nat" where
  "backlog env st = sum_list (map (attempts_left env) (queue st))"

definition readable_queue :: "worker_env \<Rightarrow> worker_state \<Rightarrow> bool" where
  "readable_queue env st \<longleftrightarrow> distinct (map q_event_id (queue st))
     \<and> (\<forall>q\<in>set (queue st). input_of_row env q \<noteq> None)"

fun consume_times :: "worker_env \<Rightarrow> instant list \<Rightarrow> worker_state \<Rightarrow> bool list \<times> worker_state" where
  "consume_times env [] st = ([], st)"
| "consume_times env (now # rest) st =
     (let (r, st') = process_one env now st; (rs, st'') = consume_times env rest st' in (r # rs, st''))"

lemma candidate_claimable:
  assumes "candidate now rows = Some q"
  shows "q \<in> set rows" "claimable now q"
proof -
  from assms obtain rest where "sort_key (\<lambda>q. (q_created_at q, q_event_id q)) (filter (claimable now) rows) = q # rest"
    by (auto simp: candidate_def split: list.splits)
  then have "q \<in> set (filter (claimable now) rows)" by (metis list.set_intros(1) set_sort)
  then show "q \<in> set rows" "claimable now q" by simp_all
qed

lemma update_queue_decreases:
  assumes "q \<in> set rows" "distinct (map q_event_id rows)" "g (f q) < g q"
  shows "sum_list (map g (update_queue (q_event_id q) f rows)) < (sum_list (map g rows) :: nat)"
  using assms
proof (induction rows)
  case (Cons x rows)
  show ?case
  proof (cases "x = q")
    case True
    have "update_queue (q_event_id q) f rows = rows"
      using Cons.prems(2) True unfolding update_queue_def by (intro map_idI) (auto simp: rev_image_eqI)
    then show ?thesis using True Cons.prems(3) by (simp add: update_queue_def)
  next
    case False
    then have "q_event_id x \<noteq> q_event_id q" "q \<in> set rows" using Cons.prems by auto
    with Cons show ?thesis by (simp add: update_queue_def)
  qed
qed simp

lemma update_queue_readable:
  assumes "readable_queue env st" "\<And>q. q_event_id (f q) = q_event_id q"
    "\<And>q. input_of_row env (f q) = input_of_row env q" "queue st' = update_queue i f (queue st)"
  shows "readable_queue env st'"
proof -
  have "map q_event_id (queue st') = map q_event_id (queue st)"
    using assms(2) by (simp add: assms(4) update_queue_def)
  then have "distinct (map q_event_id (queue st'))" using assms(1) by (simp add: readable_queue_def)
  moreover have "\<forall>q\<in>set (queue st'). input_of_row env q \<noteq> None"
    using assms(1,3) by (auto simp: readable_queue_def assms(4) update_queue_def)
  ultimately show ?thesis by (simp add: readable_queue_def)
qed

lemma input_of_row_cong:
  assumes "q_tenant_id q = q_tenant_id q'" "q_payload q = q_payload q'" "q_aggregate_id q = q_aggregate_id q'"
    "q_event_id q = q_event_id q'" "q_event_type q = q_event_type q'" "q_created_at q = q_created_at q'"
  shows "input_of_row env q = input_of_row env q'"
  by (simp only: input_of_row_def assms)

lemma input_of_row_bookkeeping [simp]:
  "input_of_row env (processed q) = input_of_row env q"
  "input_of_row env (failed env' now e q) = input_of_row env q"
  "q_event_id (processed q) = q_event_id q" "q_event_id (failed env' now e q) = q_event_id q"
proof -
  show "input_of_row env (processed q) = input_of_row env q"
    by (rule input_of_row_cong) (simp_all add: processed_def)
  show "input_of_row env (failed env' now e q) = input_of_row env q"
    by (rule input_of_row_cong) (simp_all add: failed_def)
qed (simp_all add: processed_def failed_def)

lemma process_one_progress:
  assumes run: "process_one env now st = (True, st')" and readable: "readable_queue env st"
  shows "backlog env st' < backlog env st \<and> readable_queue env st'"
proof -
  from run obtain q where q: "candidate now (queue st) = Some q"
    by (auto simp: process_one_def split: option.splits)
  note qD = candidate_claimable [OF q]
  from readable qD(1) obtain event where event: "input_of_row env q = Some event"
    by (auto simp: readable_queue_def)
  have pending: "q_status q \<in> {''PENDING'', ''FAILED''}" using qD(2) by (simp add: claimable_def)
  have less: "attempts_left env (processed q) < attempts_left env q"
    "attempts_left env (failed env now e q) < attempts_left env q" for e
    using pending by (auto simp: attempts_left_def processed_def failed_def)
  from run q event have "queue st' = update_queue (q_event_id q) processed (queue st)
      \<or> (\<exists>e. queue st' = update_queue (q_event_id q) (failed env now e) (queue st))"
    by (auto simp: process_one_def split: sum.splits)
  then obtain f where f: "queue st' = update_queue (q_event_id q) f (queue st)"
    and cases: "f = processed \<or> (\<exists>e. f = failed env now e)" by blast
  have "attempts_left env (f q) < attempts_left env q" using cases less by auto
  with update_queue_decreases [OF qD(1), where f = f and g = "attempts_left env"] readable
  have "backlog env st' < backlog env st" by (simp add: backlog_def f readable_queue_def)
  moreover have "readable_queue env st'"
    using update_queue_readable [OF readable _ _ f] cases by auto
  ultimately show ?thesis by simp
qed

lemma process_one_ids: "process_one env now st = (r, st') \<Longrightarrow> map q_event_id (queue st') = map q_event_id (queue st)"
  by (auto simp: process_one_def update_queue_def split: option.splits sum.splits)

lemma idle_queue:
  assumes "process_one env now st = (False, st')"
  shows "st' = st" "list_all (\<lambda>q. \<not> claimable now q) (queue st)"
proof -
  from assms have none: "candidate now (queue st) = None" and "st' = st"
    by (auto simp: process_one_def split: option.splits sum.splits)
  then have "sort_key (\<lambda>q. (q_created_at q, q_event_id q)) (filter (claimable now) (queue st)) = []"
    by (auto simp: candidate_def split: list.splits)
  then have "filter (claimable now) (queue st) = []" by (metis set_empty set_sort)
  then show "list_all (\<lambda>q. \<not> claimable now q) (queue st)" by (simp add: filter_empty_conv list_all_iff)
  show "st' = st" by fact
qed

text \<open>C40: as long as every queued event can be read, the consumer cannot be kept busy for ever, whatever the engine
  raises: after at most as many handled events as attempts are left, one for each call, a call finds nothing to do,
  and then no supported event of the queue that is pending or failed is due at the time of that call; only those
  that are to be tried later remain. No event is lost on the way.\<close>

theorem queue_drains:
  assumes "readable_queue env st" "backlog env st < length nows"
  shows "\<exists>k st'. k \<le> backlog env st \<and> consume_times env (take k nows) st = (replicate k True, st')
    \<and> process_one env (nows ! k) st' = (False, st')
    \<and> map q_event_id (queue st') = map q_event_id (queue st)
    \<and> list_all (\<lambda>q. \<not> (q_status q \<in> {''PENDING'', ''FAILED''} \<and> q_available_at q \<le> nows ! k
        \<and> q_event_type q \<in> set supported_input_events)) (queue st')"
  using assms
proof (induction nows arbitrary: st)
  case (Cons now rest)
  obtain r st' where run: "process_one env now st = (r, st')" by (cases "process_one env now st")
  show ?case
  proof (cases r)
    case False
    with run idle_queue [of env now st st'] show ?thesis by (intro exI [of _ 0] exI [of _ st]) (simp add: claimable_def)
  next
    case True
    with process_one_progress [of env now st st'] run Cons.prems
    have "readable_queue env st'" and less: "backlog env st' < backlog env st" "backlog env st' < length rest" by auto
    from Cons.IH [OF this(1) less(2)] obtain k st'' where "k \<le> backlog env st'"
      "consume_times env (take k rest) st' = (replicate k True, st'')"
      "process_one env (rest ! k) st'' = (False, st'')" "map q_event_id (queue st'') = map q_event_id (queue st')"
      "list_all (\<lambda>q. \<not> (q_status q \<in> {''PENDING'', ''FAILED''} \<and> q_available_at q \<le> rest ! k
        \<and> q_event_type q \<in> set supported_input_events)) (queue st'')" by blast
    with True run less(1) process_one_ids [OF run] show ?thesis
      by (intro exI [of _ "Suc k"] exI [of _ st'']) simp
  qed
qed simp

text \<open>An event whose claim cannot be read (no tenant, or a ticket identity that is not a UUID) is
  never marked as failed: it stays the first candidate and the consumer takes it again and again.\<close>

lemma unreadable_event_blocks_queue:
  assumes "candidate now (queue st) = Some q" "input_of_row env q = None"
  shows "consume_times env (replicate n now) st = (replicate n True, st)"
  using assms by (induction n) (simp_all add: process_one_def)

subsection \<open>Witnesses\<close>

definition demo_queued :: "uuid option \<Rightarrow> queued_event" where
  "demo_queued tenant = \<lparr>q_event_id = 2, q_tenant_id = tenant, q_aggregate_id = ''1'',
     q_event_type = ''TICKET_WORKFLOW_TRANSITIONED'', q_payload = moves ''NEW'' ''WAITING'',
     q_created_at = hours 2, q_available_at = hours 2, q_status = ''PENDING'', q_retry_count = 0,
     q_locked_by = None, q_last_error = None\<rparr>"

definition demo_state :: "sla_db \<Rightarrow> uuid option \<Rightarrow> worker_state" where
  "demo_state db tenant = \<lparr>engine_db = db, queue = [demo_queued tenant], active_tenants = [9]\<rparr>"

lemma demo_candidate:
  "q_status q = ''PENDING'' \<Longrightarrow> q_available_at q \<le> now \<Longrightarrow> q_event_type q \<in> set supported_input_events \<Longrightarrow>
     candidate now [q] = Some q"
  by (simp add: candidate_def claimable_def)

lemma demo_input:
  "input_of_row sla_demo_env (demo_queued (Some 9))
     = Some (demo_event 2 ''TICKET_WORKFLOW_TRANSITIONED'' (moves ''NEW'' ''WAITING'') (hours 2))"
  "input_of_row sla_demo_env ((demo_queued (Some 9))\<lparr>q_event_type := ''START_SLA''\<rparr>)
     = Some (demo_event 2 ''START_SLA'' (moves ''NEW'' ''WAITING'') (hours 2))"
  "input_of_row sla_demo_env (demo_queued None) = None"
  by (simp_all add: input_of_row_def demo_queued_def sla_demo_env_def demo_event_def)

lemma demo_queued_first:
  "q \<in> {demo_queued t, (demo_queued t)\<lparr>q_event_type := ''START_SLA''\<rparr>} \<Longrightarrow> candidate (hours 3) [q] = Some q"
  by (rule demo_candidate) (auto simp: demo_queued_def supported_input_events_def hours_simps)

text \<open>The engine's part of one call of the consumer.\<close>

lemma demo_process_one:
  assumes "queue st = [q]" "q \<in> {demo_queued (Some 9), (demo_queued (Some 9))\<lparr>q_event_type := ''START_SLA''\<rparr>}"
    and "input_of_row sla_demo_env q = Some event"
    and "process (engine_env sla_demo_env) event ((engine_db st)\<lparr>current_tenant := in_tenant_id event\<rparr>) = Inr ((), db)"
  shows "\<exists>st'. process_one sla_demo_env (hours 3) st = (True, st') \<and> engine_db st' = db"
  using assms demo_queued_first [OF assms(2)] by (simp add: process_one_def)

lemma demo_paused:
  "\<exists>st. process_one sla_demo_env (hours 3) (demo_state (demo_with (demo_row RESOLUTION RUNNING 60 0 0)) (Some 9)) = (True, st)
    \<and> map sla_state (slas (engine_db st)) = [PAUSED]"
proof -
  let ?db = "demo_with (demo_row RESOLUTION RUNNING 60 0 0)"
  have same: "?db\<lparr>current_tenant := 9\<rparr> = ?db" by (simp add: demo_with_def sla_demo_db_def)
  have "\<exists>db. process (engine_env sla_demo_env) (demo_event 2 ''TICKET_WORKFLOW_TRANSITIONED'' (moves ''NEW'' ''WAITING'') (hours 2))
      ?db = Inr ((), db) \<and> map sla_state (slas db) = [PAUSED]"
    by (simp add: demo_run sla_demo_data)
  then obtain db where "process (engine_env sla_demo_env) (demo_event 2 ''TICKET_WORKFLOW_TRANSITIONED'' (moves ''NEW'' ''WAITING'') (hours 2))
      ?db = Inr ((), db)" "map sla_state (slas db) = [PAUSED]"
    by (elim exE conjE) (rule that)
  with demo_process_one [OF _ _ demo_input(1), of "demo_state ?db (Some 9)" db] same
  show ?thesis by (auto simp: demo_state_def demo_event_def)
qed

theorem worker_history_witness:
  "\<exists>st. worker_run sla_demo_env (demo_state (demo_with (demo_row RESOLUTION RUNNING 60 0 0)) (Some 9)) st
    \<and> map sla_state (slas (engine_db st)) = [PAUSED]
    \<and> (\<exists>r\<in>set (slas (engine_db st)). row_le (demo_row RESOLUTION RUNNING 60 0 0) r)"
proof -
  let ?st = "demo_state (demo_with (demo_row RESOLUTION RUNNING 60 0 0)) (Some 9)"
  obtain st where st: "process_one sla_demo_env (hours 3) ?st = (True, st)"
    "map sla_state (slas (engine_db st)) = [PAUSED]" using demo_paused
    by (elim exE conjE) (rule that)
  then have run: "worker_run sla_demo_env ?st st" by (intro worker_run.step [OF worker_run.stop] worker_step.consume)
  have "sla_inv (engine_db ?st)" using sla_demo_inv by (simp add: demo_state_def)
  from worker_history [OF run this] run st(2) show ?thesis
    by (auto simp: demo_state_def demo_with_def)
qed

lemma demo_started:
  "\<exists>db. process (engine_env sla_demo_env) (demo_event i ''START_SLA'' p t) (sla_demo_db ''NEW'' ''TIME_TO_RESOLUTION'')
      = Inr ((), db) \<and> map sla_state (slas db) = [RUNNING]"
proof -
  let ?d = "definition_of_row (sla_demo_definition 3 ''TIME_TO_RESOLUTION'') RESOLUTION"
  let ?db = "sla_demo_db ''NEW'' ''TIME_TO_RESOLUTION''"
  have defs: "definitions_query 9 8 0 ?db = [?d]" by code_simp
  have "select_goal (engine_env sla_demo_env) ?d (sla_demo_ticket ''NEW'') 0 ?db = Inr (goal_of_row (demo_goal 5 3 ''P1'' 60))"
    by code_simp
  moreover have "add_business_seconds (example_calendar utc_zone True) 0 3600 = Inr (hours 1)" by code_simp
  ultimately have "\<exists>db. start_one (engine_env sla_demo_env) (sla_demo_ticket ''NEW'') (demo_event i ''START_SLA'' p t) ?d ?db = Inr ((), db)
      \<and> map sla_state (slas db) = [RUNNING]"
    by (simp add: start_one_def add_seconds_def initial_warning_at_def sla_demo_data bind_read_iff
        create_sla_def definition_of_row_def sla_demo_definition_def demo_calendar row_check_def not_before_def
        bindS_def Let_def readS_def record_event_def demo_pause)
  then obtain db where one: "start_one (engine_env sla_demo_env) (sla_demo_ticket ''NEW'') (demo_event i ''START_SLA'' p t) ?d ?db = Inr ((), db)"
      and running: "map sla_state (slas db) = [RUNNING]"
    by (elim exE conjE) (rule that)
  have "ticket_query 9 1 ?db = Some (sla_demo_ticket ''NEW'')"
    by (simp add: ticket_query_def sla_demo_db_def sla_demo_ticket_def)
  moreover have "start_slas (engine_env sla_demo_env) (sla_demo_ticket ''NEW'') (demo_event i ''START_SLA'' p t) ?db = Inr ((), db)"
    using one defs by (simp add: start_slas_def bindS_def sla_demo_ticket_def)
  ultimately have "process (engine_env sla_demo_env) (demo_event i ''START_SLA'' p t) ?db
      = Inr ((), db\<lparr>sla_counts := input_events_processed_update Suc (sla_counts db)\<rparr>)"
    by (simp add: process_def bindS_def demo_event_def supported_input_events_def)
  with running show ?thesis by simp
qed

theorem worker_accounting_witness:
  "\<exists>st st' r. worker_run sla_demo_env st st' \<and> slas (engine_db st) = [] \<and> slas (engine_db st') = [r]
    \<and> sla_state r = RUNNING
    \<and> remaining_working_seconds r = max 0 (target_seconds (sla_goal r) - elapsed_working_seconds r)"
proof -
  let ?st = "(demo_state (sla_demo_db ''NEW'' ''TIME_TO_RESOLUTION'') (Some 9))
    \<lparr>queue := [(demo_queued (Some 9))\<lparr>q_event_type := ''START_SLA''\<rparr>]\<rparr>"
  obtain db where db: "process (engine_env sla_demo_env) (demo_event 2 ''START_SLA'' (moves ''NEW'' ''WAITING'') (hours 2))
      (sla_demo_db ''NEW'' ''TIME_TO_RESOLUTION'') = Inr ((), db)" "map sla_state (slas db) = [RUNNING]"
    using demo_started [of 2 "moves ''NEW'' ''WAITING''" "hours 2"]
    by (elim exE conjE) (rule that)
  have same: "(sla_demo_db ''NEW'' ''TIME_TO_RESOLUTION'')\<lparr>current_tenant := 9\<rparr> = sla_demo_db ''NEW'' ''TIME_TO_RESOLUTION''"
    by (simp add: sla_demo_db_def)
  have "\<exists>st'. process_one sla_demo_env (hours 3) ?st = (True, st') \<and> engine_db st' = db"
    using db(1) by (intro demo_process_one [OF _ _ demo_input(2)])
      (simp_all add: demo_state_def demo_event_def same)
  then obtain st' where st': "process_one sla_demo_env (hours 3) ?st = (True, st')" "engine_db st' = db"
    by (elim exE conjE) (rule that)
  then have run: "worker_run sla_demo_env ?st st'" by (intro worker_run.step [OF worker_run.stop] worker_step.consume)
  from db(2) st'(2) obtain r where r: "slas (engine_db st') = [r]" "sla_state r = RUNNING" by auto
  have empty: "slas (engine_db ?st) = []" "sla_events (engine_db ?st) = []"
    by (simp_all add: demo_state_def sla_demo_db_def)
  from worker_accounting [OF run empty] r
  have "remaining_working_seconds r = max 0 (target_seconds (sla_goal r) - elapsed_working_seconds r)" by simp
  with run empty(1) r show ?thesis by (intro exI conjI)
qed

theorem select_goal_sound_witness:
  "goal_of_row (demo_goal 5 3 ''P1'' 240) \<in> set (goals_query 3 (hours 1) demo_long)"
  using select_goal_sound [OF demo_goal_selected] by simp

theorem resume_restores_deadline_witness:
  "\<exists>r db. resume_sla (engine_env sla_demo_env) (demo_row RESOLUTION PAUSED 60 0 0) (hours 1)
      (demo_event 3 ''TICKET_WORKFLOW_TRANSITIONED'' (moves ''WAITING'' ''NEW'') (hours 1)) ''NEW''
      (demo_with (demo_row RESOLUTION PAUSED 60 0 0)) = Inr (r, db)
    \<and> business_seconds_between (example_calendar utc_zone True) (hours 1) (target_at r) = Inr 3600"
proof -
  let ?sla = "demo_row RESOLUTION PAUSED 60 0 0"
  obtain r db where run: "resume_sla (engine_env sla_demo_env) ?sla (hours 1)
      (demo_event 3 ''TICKET_WORKFLOW_TRANSITIONED'' (moves ''WAITING'' ''NEW'') (hours 1)) ''NEW''
      (demo_with ?sla) = Inr (r, db)" and "row_version r = 2"
    by (simp add: demo_run sla_demo_data add_seconds_def demo_target remaining_warning_at_def)
  moreover have "goal_calendar (engine_env sla_demo_env) (sla_goal ?sla) (demo_with ?sla)
      = Inr (example_calendar utc_zone True)"
    by (rule demo_calendar) (simp_all add: sla_demo_data)
  ultimately have "business_seconds_between (example_calendar utc_zone True) (hours 1) (target_at r)
      = Inr (remaining_working_seconds ?sla)"
    using resume_restores_deadline [OF run _ _ _ utc_regular] by (force simp: demo_row_def)
  with run show ?thesis by (auto simp: demo_row_def)
qed

theorem queue_drains_witness:
  "\<exists>k st. k \<le> 5 \<and> process_one sla_demo_env ([hours 3, hours 4, hours 5, hours 6, hours 7, hours 8] ! k) st = (False, st)
    \<and> map q_event_id (queue st) = [2]"
proof -
  let ?st = "demo_state (demo_with (demo_row RESOLUTION RUNNING 60 0 0)) (Some 9)"
  have ready: "readable_queue sla_demo_env ?st" "backlog sla_demo_env ?st \<le> 5" "map q_event_id (queue ?st) = [2]"
    by (simp_all add: readable_queue_def backlog_def attempts_left_def demo_state_def demo_queued_def sla_demo_env_def input_of_row_def)
  then have "backlog sla_demo_env ?st < length [hours 3, hours 4, hours 5, hours 6, hours 7, hours 8]"
    by simp
  from queue_drains [OF ready(1) this] obtain k st' where "k \<le> backlog sla_demo_env ?st"
      "process_one sla_demo_env ([hours 3, hours 4, hours 5, hours 6, hours 7, hours 8] ! k) st' = (False, st')"
      "map q_event_id (queue st') = map q_event_id (queue ?st)" by blast
  then show ?thesis using ready(2) unfolding ready(3) by (intro exI [of _ k] exI [of _ st']) (simp only: order_trans)
qed

lemma unreadable_event_blocks_queue_witness:
  "consume_times sla_demo_env (replicate 3 (hours 3)) (demo_state (demo_with (demo_row RESOLUTION RUNNING 60 0 0)) None)
    = (replicate 3 True, demo_state (demo_with (demo_row RESOLUTION RUNNING 60 0 0)) None)"
proof (rule unreadable_event_blocks_queue)
  show "candidate (hours 3) (queue (demo_state (demo_with (demo_row RESOLUTION RUNNING 60 0 0)) None))
      = Some (demo_queued None)"
    using demo_queued_first [of "demo_queued None" None] by (simp add: demo_state_def)
qed (rule demo_input(3))

end
