(* ===== verification/Authorization.thy ===== *)
theory Authorization
  imports Prelude
begin

text \<open>
  \<open>identity/authorization.py\<close> and the caller's context of \<open>core/context.py\<close>: permission codes, the
  permissions each role grants, and the policy that decides a permission for a caller.
\<close>

datatype permission =
    SYSTEM_HEALTH_READ | IDENTITY_SELF_READ | ADMIN_IDENTITY_READ | ADMIN_IDENTITY_WRITE
  | ADMIN_CONFIG_READ | ADMIN_CONFIG_WRITE | CATALOG_PROJECT_LIST | CATALOG_SERVICE_READ
  | CATALOG_REQUEST_TYPE_LIST | CATALOG_FORM_READ | PROJECT_ADMIN | TICKET_CREATE
  | TICKET_DRAFT_CREATE | TICKET_DRAFT_READ_OWN | TICKET_DRAFT_UPDATE_OWN | TICKET_SUBMIT
  | TICKET_REQUEST_FOR_OTHER | TICKET_READ_OWN | TICKET_READ_GROUP | TICKET_READ_ALL
  | TICKET_ANALYST_READ | TICKET_COMMENT_PUBLIC | TICKET_COMMENT_INTERNAL | TICKET_UPDATE_GROUP
  | TICKET_TRANSITION | TICKET_ROUTE | TICKET_ASSIGN_MANUAL | ATTACHMENT_UPLOAD
  | ATTACHMENT_DOWNLOAD | APPROVAL_READ_ASSIGNED | APPROVAL_DECIDE | NOTIFICATION_READ_OWN
  | NOTIFICATION_UPDATE_OWN | KNOWLEDGE_READ_EMPLOYEE | KNOWLEDGE_READ_ANALYST
  | KNOWLEDGE_SOURCE_READ_ADMIN | KNOWLEDGE_SOURCE_CREATE | KNOWLEDGE_SOURCE_UPDATE
  | KNOWLEDGE_SOURCE_APPROVE | KNOWLEDGE_SOURCE_MANAGE_GLOBAL
  | KNOWLEDGE_ACQUISITION_PERMISSION_MANAGE | KNOWLEDGE_MANIFEST_IMPORT
  | KNOWLEDGE_MANIFEST_APPROVE | KNOWLEDGE_INGESTION_RUN_CREATE | KNOWLEDGE_DOCUMENT_UPLOAD
  | KNOWLEDGE_DOCUMENT_READ_ADMIN | KNOWLEDGE_DOCUMENT_APPROVE | KNOWLEDGE_DOCUMENT_PUBLISH
  | KNOWLEDGE_DOCUMENT_RETIRE | AI_EMPLOYEE_USE | AI_ANALYST_USE | AI_OVERSIGHT | AUDIT_EVENT_READ

text \<open>Role codes are strings; these are the ones \<open>INITIAL_ROLE_CODES\<close> seeds.\<close>

definition initial_role_codes :: "string list" where
  "initial_role_codes = [''PLATFORM_ADMIN'', ''PROJECT_ADMIN'', ''SERVICE_OWNER'',
     ''SUPPORT_MANAGER'', ''AGENT'', ''CUSTOMER'', ''APPROVER'', ''KNOWLEDGE_AUTHOR'',
     ''KNOWLEDGE_APPROVER'', ''AUDITOR'', ''AI_ADMIN'', ''REPORTING_USER'']"

definition catalogue_read :: "permission list" where
  "catalogue_read = [CATALOG_PROJECT_LIST, CATALOG_SERVICE_READ, CATALOG_REQUEST_TYPE_LIST,
     CATALOG_FORM_READ]"

definition base_permissions :: "permission list" where
  "base_permissions = catalogue_read @ [TICKET_DRAFT_CREATE, TICKET_DRAFT_READ_OWN,
     TICKET_DRAFT_UPDATE_OWN, TICKET_SUBMIT, TICKET_READ_OWN, ATTACHMENT_UPLOAD,
     ATTACHMENT_DOWNLOAD, NOTIFICATION_READ_OWN, NOTIFICATION_UPDATE_OWN]"

definition platform_admin_permissions :: "permission list" where
  "platform_admin_permissions = catalogue_read @ [ADMIN_IDENTITY_READ, ADMIN_IDENTITY_WRITE,
     ADMIN_CONFIG_READ, ADMIN_CONFIG_WRITE, TICKET_DRAFT_CREATE, TICKET_DRAFT_READ_OWN,
     TICKET_DRAFT_UPDATE_OWN, TICKET_SUBMIT, TICKET_READ_OWN, TICKET_READ_ALL,
     TICKET_ANALYST_READ, TICKET_COMMENT_PUBLIC, TICKET_COMMENT_INTERNAL, TICKET_TRANSITION,
     TICKET_ROUTE, TICKET_ASSIGN_MANUAL, TICKET_REQUEST_FOR_OTHER, ATTACHMENT_UPLOAD,
     ATTACHMENT_DOWNLOAD, NOTIFICATION_READ_OWN, NOTIFICATION_UPDATE_OWN]"

text \<open>
  \<open>ROLE_PERMISSIONS\<close> is built by statements that run in order: a comprehension over the initial
  roles, one assignment and a series of \<open>|=\<close> updates. The model runs the same statements on an
  association of roles to permissions; \<open>grant_to\<close> is \<open>|=\<close> on one entry.
\<close>

type_synonym role_table = "string \<Rightarrow> permission list option"

definition grant_to :: "string list \<Rightarrow> permission list \<Rightarrow> role_table \<Rightarrow> role_table" where
  "grant_to roles perms t =
     (\<lambda>r. case t r of None \<Rightarrow> None | Some ps \<Rightarrow> Some (if r \<in> set roles then ps @ perms else ps))"

definition role_permissions :: role_table where
  "role_permissions =
    (grant_to [''KNOWLEDGE_APPROVER''] [KNOWLEDGE_SOURCE_READ_ADMIN, KNOWLEDGE_SOURCE_APPROVE,
       KNOWLEDGE_ACQUISITION_PERMISSION_MANAGE, KNOWLEDGE_MANIFEST_APPROVE,
       KNOWLEDGE_INGESTION_RUN_CREATE, KNOWLEDGE_DOCUMENT_READ_ADMIN, KNOWLEDGE_DOCUMENT_APPROVE,
       KNOWLEDGE_DOCUMENT_PUBLISH, KNOWLEDGE_DOCUMENT_RETIRE]
     \<circ> grant_to [''AUDITOR''] [AUDIT_EVENT_READ]
     \<circ> grant_to [''PLATFORM_ADMIN''] [SYSTEM_HEALTH_READ, AUDIT_EVENT_READ]
     \<circ> grant_to [''KNOWLEDGE_AUTHOR''] [KNOWLEDGE_SOURCE_READ_ADMIN, KNOWLEDGE_SOURCE_CREATE,
         KNOWLEDGE_SOURCE_UPDATE, KNOWLEDGE_MANIFEST_IMPORT, KNOWLEDGE_INGESTION_RUN_CREATE,
         KNOWLEDGE_DOCUMENT_UPLOAD, KNOWLEDGE_DOCUMENT_READ_ADMIN]
     \<circ> grant_to [''PLATFORM_ADMIN''] [APPROVAL_READ_ASSIGNED, APPROVAL_DECIDE,
         KNOWLEDGE_SOURCE_READ_ADMIN, KNOWLEDGE_SOURCE_CREATE, KNOWLEDGE_SOURCE_UPDATE,
         KNOWLEDGE_SOURCE_APPROVE, KNOWLEDGE_SOURCE_MANAGE_GLOBAL,
         KNOWLEDGE_ACQUISITION_PERMISSION_MANAGE, KNOWLEDGE_MANIFEST_IMPORT,
         KNOWLEDGE_MANIFEST_APPROVE, KNOWLEDGE_INGESTION_RUN_CREATE, KNOWLEDGE_DOCUMENT_UPLOAD,
         KNOWLEDGE_DOCUMENT_READ_ADMIN, KNOWLEDGE_DOCUMENT_APPROVE, KNOWLEDGE_DOCUMENT_PUBLISH,
         KNOWLEDGE_DOCUMENT_RETIRE]
     \<circ> grant_to [''APPROVER''] [APPROVAL_READ_ASSIGNED, APPROVAL_DECIDE]
     \<circ> grant_to [''AI_ADMIN'', ''PLATFORM_ADMIN''] [AI_OVERSIGHT]
     \<circ> grant_to [''PLATFORM_ADMIN'', ''SUPPORT_MANAGER'', ''AGENT'']
         [KNOWLEDGE_READ_ANALYST, AI_ANALYST_USE]
     \<circ> grant_to [''PLATFORM_ADMIN'', ''PROJECT_ADMIN'', ''SERVICE_OWNER'', ''SUPPORT_MANAGER'',
         ''AGENT'', ''CUSTOMER'', ''APPROVER'', ''KNOWLEDGE_AUTHOR'', ''KNOWLEDGE_APPROVER'',
         ''AI_ADMIN''] [KNOWLEDGE_READ_EMPLOYEE, AI_EMPLOYEE_USE]
     \<circ> grant_to [''CUSTOMER''] [TICKET_COMMENT_PUBLIC]
     \<circ> grant_to [''SUPPORT_MANAGER''] [TICKET_ROUTE, TICKET_ASSIGN_MANUAL]
     \<circ> grant_to [''AGENT'', ''SUPPORT_MANAGER''] [TICKET_READ_GROUP, TICKET_ANALYST_READ,
         TICKET_COMMENT_PUBLIC, TICKET_COMMENT_INTERNAL, TICKET_TRANSITION]
     \<circ> grant_to [''PROJECT_ADMIN''] [TICKET_READ_ALL, TICKET_ANALYST_READ, TICKET_COMMENT_PUBLIC,
         TICKET_COMMENT_INTERNAL, TICKET_TRANSITION, TICKET_ROUTE, TICKET_ASSIGN_MANUAL])
      ((\<lambda>r. if r \<in> set initial_role_codes then Some base_permissions else None)
         (''PLATFORM_ADMIN'' := Some platform_admin_permissions))"

subsection \<open>The caller and the policy\<close>

record request_context =
  ctx_tenant_id :: "uuid option"
  ctx_user_id :: "uuid option"
  external_subject :: "string option"
  roles :: "string list"
  support_group_ids :: "uuid list"
  business_unit_id :: "uuid option"
  correlation_id :: string
  request_id :: string

definition anonymous :: "string \<Rightarrow> string \<Rightarrow> request_context" where
  "anonymous corr req = \<lparr>ctx_tenant_id = None, ctx_user_id = None, external_subject = None,
     roles = [], support_group_ids = [], business_unit_id = None, correlation_id = corr,
     request_id = req\<rparr>"

definition is_authenticated :: "request_context \<Rightarrow> bool" where
  "is_authenticated c \<longleftrightarrow> ctx_tenant_id c \<noteq> None \<and> ctx_user_id c \<noteq> None \<and> external_subject c \<noteq> None"

record authorization_resource =
  res_tenant_id :: "uuid option"
  res_service_project_id :: "uuid option"
  res_owner_user_id :: "uuid option"
  res_reporter_user_id :: "uuid option"
  res_requested_for_user_id :: "uuid option"
  res_participant_user_ids :: "uuid list"
  res_support_group_id :: "uuid option"
  res_business_unit_id :: "uuid option"
  res_security_classification :: "string option"
  res_environment_code :: "string option"
  res_tool_code :: "string option"

definition role_grants :: "string \<Rightarrow> permission list" where
  "role_grants r = (case role_permissions r of None \<Rightarrow> [] | Some ps \<Rightarrow> ps)"

definition permissions_for :: "request_context \<Rightarrow> permission set" where
  "permissions_for c =
     (if \<not> is_authenticated c then {}
      else insert IDENTITY_SELF_READ (\<Union>r\<in>set (roles c). set (role_grants r)))"

definition is_allowed ::
  "request_context \<Rightarrow> permission \<Rightarrow> authorization_resource option \<Rightarrow> bool" where
  "is_allowed c p resource =
     (if \<not> is_authenticated c then False
      else if (case resource of None \<Rightarrow> False
               | Some r \<Rightarrow> res_tenant_id r \<noteq> None \<and> res_tenant_id r \<noteq> ctx_tenant_id c)
        then False
      else p \<in> permissions_for c)"

subsection \<open>Who holds what\<close>

definition granting_roles :: "permission \<Rightarrow> string list" where
  "granting_roles p = filter (\<lambda>r. p \<in> set (role_grants r)) initial_role_codes"

lemma grant_to_None [simp]: "grant_to rs ps t r = None \<longleftrightarrow> t r = None"
  by (simp add: grant_to_def split: option.splits)

lemma role_permissions_None: "r \<notin> set initial_role_codes \<Longrightarrow> role_permissions r = None"
  by (simp add: role_permissions_def initial_role_codes_def)

lemma role_grants_initial: "p \<in> set (role_grants r) \<Longrightarrow> r \<in> set (granting_roles p)"
  by (cases "r \<in> set initial_role_codes")
    (auto simp: granting_roles_def role_grants_def role_permissions_None)

lemma is_allowed_iff:
  "is_allowed c p resource \<longleftrightarrow> is_authenticated c
     \<and> (\<forall>r. resource = Some r \<longrightarrow> res_tenant_id r = None \<or> res_tenant_id r = ctx_tenant_id c)
     \<and> (p = IDENTITY_SELF_READ \<or> (\<exists>r\<in>set (roles c). p \<in> set (role_grants r)))"
  by (cases resource) (auto simp: is_allowed_def permissions_for_def)

text \<open>A permission that every role with another one holds too.\<close>

lemma implied_permission:
  assumes "list_all (\<lambda>r. q \<in> set (role_grants r)) (granting_roles p)" "p \<noteq> IDENTITY_SELF_READ"
    and "is_allowed c p None"
  shows "is_allowed c q None"
  using assms role_grants_initial by (fastforce simp: is_allowed_iff list_all_iff)

text \<open>A permission is only ever allowed to an authenticated caller, within the caller's own
  tenant, and on the strength of a role the table knows; unknown role codes grant nothing.\<close>

lemma is_allowed_sound:
  "is_allowed c p resource \<Longrightarrow>
     ctx_tenant_id c \<noteq> None \<and> ctx_user_id c \<noteq> None \<and> external_subject c \<noteq> None
     \<and> (\<forall>r t. resource = Some r \<longrightarrow> res_tenant_id r = Some t \<longrightarrow> ctx_tenant_id c = Some t)
     \<and> (p = IDENTITY_SELF_READ \<or> (\<exists>r\<in>set (roles c). r \<in> set (granting_roles p)))"
  by (auto simp: is_allowed_iff is_authenticated_def dest: role_grants_initial)

text \<open>Segregation of duties in the role table. Deciding approvals, publishing knowledge,
  administering identity, and overseeing AI are each held by exactly the listed roles, and three
  declared permission codes are held by no role.\<close>

lemma sensitive_grants:
  "granting_roles APPROVAL_DECIDE = [''PLATFORM_ADMIN'', ''APPROVER'']
   \<and> granting_roles KNOWLEDGE_DOCUMENT_PUBLISH = [''PLATFORM_ADMIN'', ''KNOWLEDGE_APPROVER'']
   \<and> granting_roles KNOWLEDGE_MANIFEST_IMPORT = [''PLATFORM_ADMIN'', ''KNOWLEDGE_AUTHOR'']
   \<and> granting_roles ADMIN_IDENTITY_WRITE = [''PLATFORM_ADMIN'']
   \<and> granting_roles TICKET_READ_ALL = [''PLATFORM_ADMIN'', ''PROJECT_ADMIN'']
   \<and> granting_roles AI_OVERSIGHT = [''PLATFORM_ADMIN'', ''AI_ADMIN'']
   \<and> granting_roles TICKET_CREATE = []
   \<and> granting_roles TICKET_UPDATE_GROUP = []
   \<and> granting_roles PROJECT_ADMIN = []"
  by code_simp

end
