(* ===== verification/HelpdeskDb.thy ===== *)
theory HelpdeskDb
  imports Rules Authorization
begin

text \<open>
  The tables that the workflow, approval and routing services share, and the statements all of them
  issue: the ticket update under its version trigger, event, outbox and audit rows, and the
  idempotency records. Tables are lists in insertion order. A unit of work passes the tables from
  statement to statement; an exception that leaves it rolls everything back.
\<close>

datatype app_error =
    NotFoundError
  | AuthorizationError
  | ValidationError string
  | InvalidFields string "(string \<times> string list) list"
  | ConflictError string
  | ConcurrencyError string
  | InvalidTransitionError string
  | WorkflowConfigurationError string
  | ApprovalConfigurationError string
  | RoutingConfigurationError string
  | IdempotencyConflict
  | IntegrityError string
  | UncaughtError string

subsection \<open>Tables\<close>

text \<open>
  \<open>t_columns\<close> holds the five columns a transition may write; \<open>t_project_code\<close>, \<open>t_work_type_code\<close>
  and \<open>t_environment_code\<close> are the codes the queries join in.
\<close>

record ticket_row =
  t_id :: uuid
  t_tenant :: uuid
  t_key :: string
  t_project :: uuid
  t_project_code :: string
  t_node :: "uuid option"
  t_environment_code :: "string option"
  t_work_type_code :: string
  t_priority_code :: string
  t_workflow_version :: uuid
  t_status :: uuid
  t_row_version :: int
  t_summary :: string
  t_description :: "string option"
  t_reporter :: uuid
  t_requested_for :: "uuid option"
  t_group :: "uuid option"
  t_assignee :: "uuid option"
  t_columns :: "string \<Rightarrow> pyval"
  t_custom :: pydict
  t_work_type :: uuid
  t_request_type :: uuid
  t_request_version :: uuid
  t_environment :: "uuid option"
  t_impact :: "string option"
  t_urgency :: "string option"
  t_matrix :: "uuid option"
  t_conversation :: "uuid option"
  t_created :: instant

record status_row =
  st_id :: uuid
  st_version :: uuid
  st_code :: string
  st_name :: string
  st_visible_name :: "string option"

record transition_row =
  tr_id :: uuid
  tr_version :: uuid
  tr_code :: string
  tr_name :: string
  tr_from :: uuid
  tr_to :: uuid
  tr_condition :: pyval
  tr_validators :: pyval
  tr_actions :: pyval
  tr_active :: bool
  tr_order :: int

record user_row =
  u_id :: uuid
  u_tenant :: uuid
  u_active :: bool
  u_manager :: "uuid option"
  u_name :: string

record comment_row =
  c_id :: uuid
  c_ticket :: uuid
  c_author :: uuid
  c_body :: string
  c_visibility :: string
  c_created :: instant
  c_channel :: string

record ticket_event_row =
  ev_tenant :: uuid
  ev_ticket :: uuid
  ev_type :: string
  ev_actor_type :: string
  ev_actor :: uuid
  ev_data :: pydict

record outbox_row =
  ob_tenant :: uuid
  ob_aggregate_type :: string
  ob_aggregate :: uuid
  ob_type :: string
  ob_payload :: pydict
  ob_key :: "string option"

record audit_row =
  au_tenant :: uuid
  au_actor :: uuid
  au_action :: string
  au_resource_type :: string
  au_resource :: uuid
  au_summary :: pydict
  au_correlation :: string
  au_request :: string
  au_outcome :: string

record idempotency_row =
  idem_id :: uuid
  idem_tenant :: uuid
  idem_operation :: string
  idem_key :: string
  idem_hash :: string
  idem_principal :: string
  idem_status :: string
  idem_result :: "uuid option"
  idem_payload :: pydict

record approval_definition =
  ad_id :: uuid
  ad_version :: uuid
  ad_tenant :: uuid
  ad_project :: uuid
  ad_code :: string
  ad_name :: string
  ad_mode :: string
  ad_rule :: pyval
  ad_approved_transition :: "uuid option"
  ad_rejected_transition :: "uuid option"
  ad_self_approval :: bool
  ad_expires_after :: "int option"

record approval_definition_row =
  adr_definition :: approval_definition
  adr_active :: bool
  adr_status :: string
  adr_from :: "instant option"
  adr_to :: "instant option"
  adr_number :: int

record approval_row =
  ap_id :: uuid
  ap_tenant :: uuid
  ap_ticket :: uuid
  ap_definition :: uuid
  ap_version :: uuid
  ap_status :: string
  ap_row_version :: int
  ap_requested_at :: instant
  ap_completed_at :: "instant option"
  ap_expires_at :: "instant option"

record approver_row =
  av_approval :: uuid
  av_user :: uuid
  av_sequence :: nat
  av_decision :: "string option"
  av_comment :: "string option"
  av_decided_at :: "instant option"

record decision_row =
  dc_approval :: uuid
  dc_user :: uuid
  dc_code :: string
  dc_comment :: "string option"

record node_row =
  node_id :: uuid
  node_code :: string
  node_parent :: "uuid option"

record group_row =
  g_id :: uuid
  g_tenant :: uuid
  g_code :: string
  g_active :: bool
  g_name :: string

record member_row =
  m_group :: uuid
  m_user :: uuid
  m_role :: string
  m_active :: bool

record history_row =
  h_ticket :: uuid
  h_from_group :: "uuid option"
  h_to_group :: uuid
  h_from_assignee :: "uuid option"
  h_to_assignee :: "uuid option"
  h_reason :: string
  h_rule :: "uuid option"
  h_rule_version :: "uuid option"
  h_by :: uuid

record routing_rule_version =
  rr_rule :: uuid
  rr_version :: uuid
  rr_number :: int
  rr_priority :: int
  rr_condition :: pyval
  rr_group :: uuid
  rr_method :: string
  rr_assignee :: "uuid option"
  rr_effective_from :: "instant option"
  rr_group_code :: string

record routing_rule_row =
  rrr_version :: routing_rule_version
  rrr_tenant :: uuid
  rrr_project :: uuid
  rrr_active :: bool
  rrr_rule_start :: "instant option"
  rrr_rule_end :: "instant option"
  rrr_status :: string
  rrr_published_at :: "instant option"
  rrr_effective_to :: "instant option"

text \<open>\<open>fresh_id\<close> is \<open>gen_random_uuid()\<close> at its n-th draw.\<close>

record helpdesk_db =
  tickets :: "ticket_row list"
  version_status :: "uuid \<Rightarrow> string"
  statuses :: "status_row list"
  transition_rows :: "transition_row list"
  resolution_codes :: "string list"
  users :: "user_row list"
  groups :: "group_row list"
  members :: "member_row list"
  service_nodes :: "node_row list"
  comments :: "comment_row list"
  ticket_events :: "ticket_event_row list"
  outbox_events :: "outbox_row list"
  audit_events :: "audit_row list"
  idempotency :: "idempotency_row list"
  approval_definitions :: "approval_definition_row list"
  approvals :: "approval_row list"
  approvers :: "approver_row list"
  decisions :: "decision_row list"
  routing_rules :: "routing_rule_row list"
  assignment_history :: "history_row list"
  fresh_id :: "nat \<Rightarrow> uuid"
  drawn :: nat

type_synonym 'a db_op = "(helpdesk_db, app_error, 'a) op"

subsection \<open>Surroundings of a service call\<close>

text \<open>
  \<open>now()\<close> of the transaction, \<open>datetime.now(UTC)\<close> of the process, and the SHA-256 digest of the
  canonical JSON of a document.
\<close>

record service_env =
  env_now :: instant
  env_wall :: instant
  env_digest :: "pydict \<Rightarrow> string"

definition in_force :: "instant option \<Rightarrow> instant option \<Rightarrow> instant \<Rightarrow> bool" where
  "in_force start stop now \<longleftrightarrow> (case start of None \<Rightarrow> True | Some s \<Rightarrow> s \<le> now)
     \<and> (case stop of None \<Rightarrow> True | Some e \<Rightarrow> now < e)"

text \<open>\<open>_identity\<close>: the caller's tenant and user, or the error the service hides a missing one behind.\<close>

definition identity_or :: "app_error \<Rightarrow> request_context \<Rightarrow> app_error + uuid \<times> uuid" where
  "identity_or e ctx = (case (ctx_tenant_id ctx, ctx_user_id ctx) of
       (Some tenant, Some user) \<Rightarrow> Inr (tenant, user)
     | _ \<Rightarrow> Inl e)"

abbreviation identity_of :: "request_context \<Rightarrow> app_error + uuid \<times> uuid" where
  "identity_of \<equiv> identity_or NotFoundError"

definition uuid_val :: "uuid \<Rightarrow> pyval" where
  "uuid_val u = PStr (uuid_str u)"

subsection \<open>Statements\<close>

definition draw_uuid :: "uuid db_op" where
  "draw_uuid db = Inr (fresh_id db (drawn db), db\<lparr>drawn := drawn db + 1\<rparr>)"

text \<open>\<open>UPDATE itsm.ticket ... RETURNING row_version\<close>, with the trigger that counts versions.\<close>

definition bump :: "(ticket_row \<Rightarrow> ticket_row) \<Rightarrow> ticket_row \<Rightarrow> ticket_row" where
  "bump f t = (f t)\<lparr>t_row_version := t_row_version t + 1\<rparr>"

definition update_ticket :: "(ticket_row \<Rightarrow> bool) \<Rightarrow> (ticket_row \<Rightarrow> ticket_row) \<Rightarrow> int option db_op" where
  "update_ticket p f db =
     (case find p (tickets db) of
        None \<Rightarrow> Inr (None, db)
      | Some t \<Rightarrow> Inr (Some (t_row_version t + 1),
          db\<lparr>tickets := map (\<lambda>x. if p x then bump f x else x) (tickets db)\<rparr>))"

definition insert_event :: "uuid \<Rightarrow> uuid \<Rightarrow> string \<Rightarrow> string \<Rightarrow> uuid \<Rightarrow> pydict \<Rightarrow> unit db_op" where
  "insert_event tenant ticket type actor_type actor data = modS (\<lambda>db. db\<lparr>ticket_events := ticket_events db @
     [\<lparr>ev_tenant = tenant, ev_ticket = ticket, ev_type = type, ev_actor_type = actor_type,
       ev_actor = actor, ev_data = data\<rparr>]\<rparr>)"

text \<open>The unique index on (tenant, event type, key), with and without \<open>ON CONFLICT DO NOTHING\<close>.\<close>

definition outbox_conflict :: "uuid \<Rightarrow> string \<Rightarrow> string option \<Rightarrow> helpdesk_db \<Rightarrow> bool" where
  "outbox_conflict tenant type key db \<longleftrightarrow> key \<noteq> None \<and>
     (\<exists>m\<in>set (outbox_events db). ob_tenant m = tenant \<and> ob_type m = type \<and> ob_key m = key)"

definition insert_outbox ::
  "bool \<Rightarrow> uuid \<Rightarrow> string \<Rightarrow> uuid \<Rightarrow> string \<Rightarrow> pydict \<Rightarrow> string option \<Rightarrow> unit db_op" where
  "insert_outbox ignore tenant aggregate_type aggregate type payload key db =
     (if outbox_conflict tenant type key db
      then if ignore then Inr ((), db) else Inl (IntegrityError ''outbox_deduplication_ux'')
      else Inr ((), db\<lparr>outbox_events := outbox_events db @
        [\<lparr>ob_tenant = tenant, ob_aggregate_type = aggregate_type, ob_aggregate = aggregate, ob_type = type,
          ob_payload = payload, ob_key = key\<rparr>]\<rparr>))"

definition insert_audit ::
  "uuid \<Rightarrow> uuid \<Rightarrow> string \<Rightarrow> string \<Rightarrow> uuid \<Rightarrow> pydict \<Rightarrow> string \<Rightarrow> string \<Rightarrow> unit db_op" where
  "insert_audit tenant actor action resource_type resource summary correlation request =
     modS (\<lambda>db. db\<lparr>audit_events := audit_events db @
       [\<lparr>au_tenant = tenant, au_actor = actor, au_action = action, au_resource_type = resource_type,
         au_resource = resource, au_summary = summary, au_correlation = correlation,
         au_request = request, au_outcome = ''SUCCESS''\<rparr>]\<rparr>)"

subsection \<open>Idempotency records\<close>

definition same_request :: "uuid \<Rightarrow> string \<Rightarrow> string \<Rightarrow> idempotency_row \<Rightarrow> bool" where
  "same_request tenant operation key r \<longleftrightarrow>
     idem_tenant r = tenant \<and> idem_operation r = operation \<and> idem_key r = key"

definition claim_idempotency ::
  "uuid \<Rightarrow> uuid \<Rightarrow> string \<Rightarrow> string \<Rightarrow> string \<Rightarrow> idempotency_row db_op" where
  "claim_idempotency tenant user operation key hash db =
     (case find (same_request tenant operation key) (idempotency db) of
        Some r \<Rightarrow> Inr (r, db)
      | None \<Rightarrow>
        let r = \<lparr>idem_id = fresh_id db (drawn db), idem_tenant = tenant, idem_operation = operation,
              idem_key = key, idem_hash = hash, idem_principal = uuid_str user,
              idem_status = ''IN_PROGRESS'', idem_result = None, idem_payload = []\<rparr>
        in Inr (r, db\<lparr>idempotency := idempotency db @ [r], drawn := drawn db + 1\<rparr>))"

text \<open>The claim with the check that every service makes of the record it gets.\<close>

definition claim_checked ::
  "uuid \<Rightarrow> uuid \<Rightarrow> string \<Rightarrow> string \<Rightarrow> string \<Rightarrow> idempotency_row db_op" where
  "claim_checked tenant user operation key hash =
     bindS (claim_idempotency tenant user operation key hash) (\<lambda>r.
     if idem_hash r \<noteq> hash \<or> idem_principal r \<noteq> uuid_str user then raise IdempotencyConflict
     else ret r)"

definition complete_idempotency :: "uuid \<Rightarrow> uuid \<Rightarrow> pydict \<Rightarrow> unit db_op" where
  "complete_idempotency record resource payload = modS (\<lambda>db. db\<lparr>idempotency := map (\<lambda>r.
     if idem_id r = record
     then r\<lparr>idem_status := ''COMPLETED'', idem_result := Some resource, idem_payload := payload\<rparr>
     else r) (idempotency db)\<rparr>)"

subsection \<open>Reading a ticket as an analyst\<close>

text \<open>
  The guard of every analyst query: the tenant's ticket with the key, if all tickets may be read or
  it is unassigned or assigned to one of the caller's groups.
\<close>

definition visible_to :: "request_context \<Rightarrow> uuid \<Rightarrow> string \<Rightarrow> ticket_row \<Rightarrow> bool" where
  "visible_to ctx tenant key t \<longleftrightarrow> t_tenant t = tenant \<and> t_key t = key
     \<and> (is_allowed ctx TICKET_READ_ALL None
        \<or> (case t_group t of None \<Rightarrow> True | Some g \<Rightarrow> g \<in> set (support_group_ids ctx)))"

definition visible_ticket :: "request_context \<Rightarrow> uuid \<Rightarrow> string \<Rightarrow> helpdesk_db \<Rightarrow> ticket_row option" where
  "visible_ticket ctx tenant key db = find (visible_to ctx tenant key) (tickets db)"

text \<open>\<open>TicketService.analyst_ticket\<close> as far as it decides whether there is an answer.\<close>

definition analyst_ticket :: "request_context \<Rightarrow> string \<Rightarrow> helpdesk_db \<Rightarrow> app_error + ticket_row" where
  "analyst_ticket ctx key db =
     rbind (identity_or AuthorizationError ctx) (\<lambda>(tenant, _).
       if \<not> is_allowed ctx TICKET_ANALYST_READ None then Inl AuthorizationError
       else of_option NotFoundError (visible_ticket ctx tenant key db))"

subsection \<open>Lookups\<close>

lemma find_Some_in: "find p xs = Some x \<Longrightarrow> x \<in> set xs \<and> p x"
  by (induction xs) (auto split: if_splits)

lemma find_unique:
  "distinct (map f xs) \<Longrightarrow> x \<in> set xs \<Longrightarrow> find (\<lambda>y. f y = f x) xs = Some x"
  by (induction xs) (auto simp: image_iff)

lemma find_append: "find p (xs @ ys) = (case find p xs of None \<Rightarrow> find p ys | Some x \<Rightarrow> Some x)"
  by (induction xs) auto

lemma find_map: "(\<And>x. p (f x) = p x) \<Longrightarrow> find p (map f xs) = map_option f (find p xs)"
  by (induction xs) auto

end
