(* ===== verification/Frames.thy ===== *)
theory Frames
  imports HelpdeskDb
begin

text \<open>
  Frame relations: the parts of the state an operation leaves alone. Each is an instance of the
  history interface, so what holds of the shared statements carries over to everything built of them.
\<close>

definition approval_frame :: "helpdesk_db \<Rightarrow> helpdesk_db \<Rightarrow> bool" where
  "approval_frame s t \<longleftrightarrow> approvals t = approvals s \<and> approvers t = approvers s
     \<and> decisions t = decisions s \<and> approval_definitions t = approval_definitions s"

definition config_frame :: "helpdesk_db \<Rightarrow> helpdesk_db \<Rightarrow> bool" where
  "config_frame s t \<longleftrightarrow> transition_rows t = transition_rows s \<and> statuses t = statuses s
     \<and> version_status t = version_status s \<and> resolution_codes t = resolution_codes s
     \<and> users t = users s \<and> groups t = groups s \<and> members t = members s
     \<and> service_nodes t = service_nodes s \<and> routing_rules t = routing_rules s"

definition ticket_frame :: "helpdesk_db \<Rightarrow> helpdesk_db \<Rightarrow> bool" where
  "ticket_frame s t \<longleftrightarrow> tickets t = tickets s \<and> assignment_history t = assignment_history s
     \<and> config_frame s t"

definition idem_frame :: "helpdesk_db \<Rightarrow> helpdesk_db \<Rightarrow> bool" where
  "idem_frame s t \<longleftrightarrow> idempotency t = idempotency s"

interpretation fr: history approval_frame
  by unfold_locales (auto simp: approval_frame_def)

interpretation cf: history config_frame
  by unfold_locales (auto simp: config_frame_def)

interpretation tf: history ticket_frame
  by unfold_locales (auto simp: ticket_frame_def intro: cf.refl cf.trans)

interpretation idf: history idem_frame
  by unfold_locales (auto simp: idem_frame_def)

lemmas frame_defs = approval_frame_def config_frame_def ticket_frame_def idem_frame_def

subsection \<open>The statements\<close>

text \<open>Rows of the event, outbox and audit tables, and drawn identifiers, are in no frame.\<close>

lemma insert_event_frames [inv_intros]:
  "keeps approval_frame (insert_event te ti ty aty ac d)" "keeps ticket_frame (insert_event te ti ty aty ac d)"
  "keeps idem_frame (insert_event te ti ty aty ac d)"
  by (auto simp: keeps_def frame_defs insert_event_def)

lemma insert_audit_frames [inv_intros]:
  "keeps approval_frame (insert_audit te ac an rt rs su co rq)" "keeps ticket_frame (insert_audit te ac an rt rs su co rq)"
  "keeps idem_frame (insert_audit te ac an rt rs su co rq)"
  by (auto simp: keeps_def frame_defs insert_audit_def)

lemma insert_outbox_frames [inv_intros]:
  "keeps approval_frame (insert_outbox ig te aty ag ty pa k)" "keeps ticket_frame (insert_outbox ig te aty ag ty pa k)"
  "keeps idem_frame (insert_outbox ig te aty ag ty pa k)"
  by (auto simp: keeps_def frame_defs insert_outbox_def split: if_splits)

lemma draw_uuid_frames [inv_intros]:
  "keeps approval_frame draw_uuid" "keeps ticket_frame draw_uuid" "keeps idem_frame draw_uuid"
  by (auto simp: keeps_def frame_defs draw_uuid_def)

lemma update_ticket_frames [inv_intros]:
  "keeps approval_frame (update_ticket p f)" "keeps config_frame (update_ticket p f)"
  "keeps idem_frame (update_ticket p f)"
  by (auto simp: keeps_def frame_defs update_ticket_def split: option.splits)

lemma claim_frames [inv_intros]:
  "keeps approval_frame (claim_checked te us opn k h)" "keeps ticket_frame (claim_checked te us opn k h)"
  by (auto simp: keeps_def frame_defs claim_checked_def claim_idempotency_def Let_def
      elim!: bindS_E split: option.splits if_splits)

lemma complete_frames [inv_intros]:
  "keeps approval_frame (complete_idempotency r a p)" "keeps ticket_frame (complete_idempotency r a p)"
  by (auto simp: keeps_def frame_defs complete_idempotency_def)

lemma update_ticket_effect:
  assumes "update_ticket p f s = Inr (Some v, t)"
  shows "t = s\<lparr>tickets := map (\<lambda>x. if p x then bump f x else x) (tickets s)\<rparr>
    \<and> (\<exists>x\<in>set (tickets s). p x \<and> v = t_row_version x + 1)"
  using assms by (auto simp: update_ticket_def dest: find_Some_in split: option.splits)

end
