(* ===== verification/Idempotency.thy ===== *)
theory Idempotency
  imports Frames
begin

text \<open>
  The idempotency protocol of the mutating use cases: claim the key, compare the request, answer a
  completed key from what is stored, otherwise do the work and complete the record. The locale states
  what a use case must promise for its repetition to be harmless.
\<close>

subsection \<open>The protocol\<close>

definition idempotent_call ::
  "uuid \<Rightarrow> uuid \<Rightarrow> string \<Rightarrow> string \<Rightarrow> string \<Rightarrow> (idempotency_row \<Rightarrow> 'a db_op)
     \<Rightarrow> ('a \<times> uuid \<times> pydict) db_op \<Rightarrow> 'a db_op" where
  "idempotent_call tenant user operation key hash replay work =
     bindS (claim_checked tenant user operation key hash) (\<lambda>r.
     if idem_status r = ''COMPLETED'' then replay r
     else bindS work (\<lambda>(x, resource, payload).
       bindS (complete_idempotency (idem_id r) resource payload) (\<lambda>_. ret x)))"

definition is_completed :: "uuid \<Rightarrow> string \<Rightarrow> string \<Rightarrow> helpdesk_db \<Rightarrow> bool" where
  "is_completed tenant operation key db \<longleftrightarrow>
     (case find (same_request tenant operation key) (idempotency db) of
        None \<Rightarrow> False | Some r \<Rightarrow> idem_status r = ''COMPLETED'')"

lemma claim_result:
  assumes "claim_checked tenant user opn key h s = Inr (r, t)"
  shows "find (same_request tenant opn key) (idempotency t) = Some r \<and> idem_hash r = h
    \<and> idem_principal r = uuid_str user"
proof -
  from assms have claim: "claim_idempotency tenant user opn key h s = Inr (r, t)"
    and ok: "idem_hash r = h" "idem_principal r = uuid_str user"
    by (auto simp: claim_checked_def elim!: bindS_E split: if_splits)
  show ?thesis
  proof (cases "find (same_request tenant opn key) (idempotency s)")
    case None
    with claim have "\<lparr>idem_id = fresh_id s (drawn s), idem_tenant = tenant, idem_operation = opn,
        idem_key = key, idem_hash = h, idem_principal = uuid_str user, idem_status = ''IN_PROGRESS'',
        idem_result = None, idem_payload = []\<rparr> = r"
      and t: "idempotency t = idempotency s @ [r]"
      by (auto simp: claim_idempotency_def Let_def)
    from this(1) have "same_request tenant opn key r" by (auto simp: same_request_def)
    with None t ok show ?thesis by (simp add: find_append)
  next
    case (Some x)
    with claim ok show ?thesis by (simp add: claim_idempotency_def)
  qed
qed

lemma claim_known:
  "find (same_request tenant opn key) (idempotency s) = Some r \<Longrightarrow> idem_hash r = h
    \<Longrightarrow> idem_principal r = uuid_str user \<Longrightarrow> claim_checked tenant user opn key h s = Inr (r, s)"
  by (simp add: claim_checked_def claim_idempotency_def)

lemma completed_request:
  assumes "find (same_request tenant opn key) (idempotency s) = Some r"
    and "complete_idempotency (idem_id r) res payload s = Inr (u, t)"
  shows "find (same_request tenant opn key) (idempotency t)
    = Some (r\<lparr>idem_status := ''COMPLETED'', idem_result := Some res, idem_payload := payload\<rparr>)"
proof -
  have "find (same_request tenant opn key) (map (\<lambda>x. if idem_id x = idem_id r
      then x\<lparr>idem_status := ''COMPLETED'', idem_result := Some res, idem_payload := payload\<rparr> else x) (idempotency s))
    = map_option (\<lambda>x. if idem_id x = idem_id r
      then x\<lparr>idem_status := ''COMPLETED'', idem_result := Some res, idem_payload := payload\<rparr> else x)
      (find (same_request tenant opn key) (idempotency s))"
    by (rule find_map) (simp add: same_request_def)
  with assms show ?thesis by (auto simp: complete_idempotency_def)
qed

lemma claim_status:
  assumes "claim_checked tenant user opn key h s = Inr (r, t)"
  shows "idem_status r = ''COMPLETED'' \<longleftrightarrow> is_completed tenant opn key s"
  using assms
  by (auto simp: claim_checked_def claim_idempotency_def is_completed_def Let_def
      elim!: bindS_E split: option.splits if_splits)

lemma claim_tables:
  assumes "claim_checked tenant user opn key h s = Inr (r, t)"
  shows "\<exists>rows n. t = s\<lparr>idempotency := rows, drawn := n\<rparr>"
proof (cases "find (same_request tenant opn key) (idempotency s)")
  case None
  with assms show ?thesis
    by (auto simp: claim_checked_def claim_idempotency_def Let_def elim!: bindS_E split: if_splits)
next
  case (Some x)
  with assms have "t = s\<lparr>idempotency := idempotency s, drawn := drawn s\<rparr>"
    by (auto simp: claim_checked_def claim_idempotency_def elim!: bindS_E split: if_splits)
  then show ?thesis by blast
qed

text \<open>A key that is known with another request or another caller is refused before anything is done.\<close>

lemma claim_conflict:
  assumes "find (same_request tenant opn key) (idempotency s) = Some r"
    and "idem_hash r \<noteq> h \<or> idem_principal r \<noteq> uuid_str user"
  shows "idempotent_call tenant user opn key h replay work s = Inl IdempotencyConflict"
  using assms by (auto simp: idempotent_call_def claim_checked_def claim_idempotency_def)

lemma idempotent_call_fresh:
  assumes "idempotent_call tenant user opn key h replay work s = Inr (x, t)" "\<not> is_completed tenant opn key s"
  obtains r s1 res payload s2 where "claim_checked tenant user opn key h s = Inr (r, s1)"
    "work s1 = Inr ((x, res, payload), s2)" "complete_idempotency (idem_id r) res payload s2 = Inr ((), t)"
  using assms unfolding idempotent_call_def
  by (elim bindS_E) (auto dest: claim_status elim!: bindS_E split: if_splits prod.splits)

subsection \<open>Use cases that keep the records\<close>

locale idempotent_use_case =
  fixes work :: "('a \<times> uuid \<times> pydict) db_op"
  assumes keeps_records: "keeps idem_frame work"
begin

lemma completed_after:
  assumes "idempotent_call tenant user opn key h replay work s = Inr (x, t)" "\<not> is_completed tenant opn key s"
  obtains r s1 res payload s2 where "claim_checked tenant user opn key h s = Inr (r, s1)"
    "work s1 = Inr ((x, res, payload), s2)"
    "complete_idempotency (idem_id r) res payload s2 = Inr ((), t)"
    "find (same_request tenant opn key) (idempotency t)
      = Some (r\<lparr>idem_status := ''COMPLETED'', idem_result := Some res, idem_payload := payload\<rparr>)"
    "idem_hash r = h" "idem_principal r = uuid_str user"
proof -
  from assms obtain r s1 res payload s2 where cl: "claim_checked tenant user opn key h s = Inr (r, s1)"
    and w: "work s1 = Inr ((x, res, payload), s2)"
    and fin: "complete_idempotency (idem_id r) res payload s2 = Inr ((), t)"
    by (rule idempotent_call_fresh)
  note c = claim_result [OF cl]
  have "idempotency s2 = idempotency s1" using keepsD [OF keeps_records w] by (simp add: idem_frame_def)
  with c have "find (same_request tenant opn key) (idempotency s2) = Some r" by simp
  from completed_request [OF this fin] c show thesis by (intro that [OF cl w fin]) simp_all
qed

text \<open>The same request under the same key is answered by the replay on the stored record, the state as it is.\<close>

lemma repeated:
  assumes "idempotent_call tenant user opn key h replay work s = Inr (x, t)" "\<not> is_completed tenant opn key s"
  obtains r where "idem_status r = ''COMPLETED''"
    "\<And>again later. idempotent_call tenant user opn key h again later t = again r t"
proof -
  from assms obtain r s1 res payload s2 where
    found: "find (same_request tenant opn key) (idempotency t)
      = Some (r\<lparr>idem_status := ''COMPLETED'', idem_result := Some res, idem_payload := payload\<rparr>)"
    and same: "idem_hash r = h" "idem_principal r = uuid_str user"
    by (rule completed_after)
  let ?r = "r\<lparr>idem_status := ''COMPLETED'', idem_result := Some res, idem_payload := payload\<rparr>"
  have "claim_checked tenant user opn key h t = Inr (?r, t)"
    by (rule claim_known [OF found]) (use same in simp_all)
  then have "idempotent_call tenant user opn key h again later t = again ?r t" for again later
    by (simp add: idempotent_call_def)
  then show thesis by (intro that [of ?r]) simp_all
qed

end

end
