(* ===== verification/Routing.thy ===== *)
theory Routing
  imports Idempotency Rules "HOL-Library.Product_Lexorder"
begin

text \<open>
  Routing and manual assignment: the statements of \<open>routing/repository.py\<close> and \<open>routing/service.py\<close>:
  which published rule a ticket matches, whom the rule assigns it to, and the optimistic assignment
  with its history, events and audit trail.
\<close>

subsection \<open>Records\<close>

record routing_ticket =
  rt_id :: uuid
  rt_tenant :: uuid
  rt_key :: string
  rt_project :: uuid
  rt_project_code :: string
  rt_node :: "uuid option"
  rt_node_code :: "string option"
  rt_service_code :: "string option"
  rt_module_code :: "string option"
  rt_environment_code :: "string option"
  rt_work_type_code :: string
  rt_priority_code :: string
  rt_status_code :: string
  rt_summary :: string
  rt_description :: "string option"
  rt_group :: "uuid option"
  rt_assignee :: "uuid option"
  rt_row_version :: int
  rt_custom :: pydict

record assignment_result =
  as_group :: uuid
  as_group_code :: string
  as_assignee :: "uuid option"
  as_row_version :: int

record manual_command =
  mc_group :: uuid
  mc_assignee :: "uuid option"
  mc_reason :: string
  mc_row_version :: int

subsection \<open>Queries\<close>

text \<open>A top-level node is the service itself; a child is a module of its parent's service.\<close>

definition node_by_id :: "helpdesk_db \<Rightarrow> uuid option \<Rightarrow> node_row option" where
  "node_by_id db i = (case i of None \<Rightarrow> None | Some n \<Rightarrow> find (\<lambda>x. node_id x = n) (service_nodes db))"

definition service_code :: "helpdesk_db \<Rightarrow> node_row option \<Rightarrow> string option" where
  "service_code db n = (case n of None \<Rightarrow> None
     | Some x \<Rightarrow> (case node_parent x of None \<Rightarrow> Some (node_code x)
        | Some p \<Rightarrow> map_option node_code (node_by_id db (Some p))))"

definition module_code :: "node_row option \<Rightarrow> string option" where
  "module_code n = (case n of None \<Rightarrow> None
     | Some x \<Rightarrow> (case node_parent x of None \<Rightarrow> None | Some _ \<Rightarrow> Some (node_code x)))"

definition routing_ticket_of :: "helpdesk_db \<Rightarrow> ticket_row \<Rightarrow> routing_ticket option" where
  "routing_ticket_of db t = map_option
     (\<lambda>st. let n = node_by_id db (t_node t) in
       \<lparr>rt_id = t_id t, rt_tenant = t_tenant t, rt_key = t_key t, rt_project = t_project t,
        rt_project_code = t_project_code t, rt_node = t_node t, rt_node_code = map_option node_code n,
        rt_service_code = service_code db n, rt_module_code = module_code n,
        rt_environment_code = t_environment_code t, rt_work_type_code = t_work_type_code t,
        rt_priority_code = t_priority_code t, rt_status_code = st_code st, rt_summary = t_summary t,
        rt_description = t_description t, rt_group = t_group t, rt_assignee = t_assignee t,
        rt_row_version = t_row_version t, rt_custom = t_custom t\<rparr>)
     (find (\<lambda>st. st_id st = t_status t) (statuses db))"

definition routing_ticket_query ::
  "request_context \<Rightarrow> uuid \<Rightarrow> string \<Rightarrow> helpdesk_db \<Rightarrow> routing_ticket option" where
  "routing_ticket_query ctx tenant key db =
     (case visible_ticket ctx tenant key db of None \<Rightarrow> None | Some t \<Rightarrow> routing_ticket_of db t)"

definition active_group :: "helpdesk_db \<Rightarrow> uuid \<Rightarrow> uuid \<Rightarrow> group_row option" where
  "active_group db tenant g =
     find (\<lambda>x. g_tenant x = tenant \<and> g_id x = g \<and> g_active x) (groups db)"

definition rule_in_force :: "instant \<Rightarrow> uuid \<Rightarrow> uuid \<Rightarrow> routing_rule_row \<Rightarrow> bool" where
  "rule_in_force now tenant project r \<longleftrightarrow> rrr_tenant r = tenant \<and> rrr_project r = project
     \<and> rrr_active r \<and> in_force (rrr_rule_start r) (rrr_rule_end r) now
     \<and> rrr_status r = ''PUBLISHED''
     \<and> (case rrr_published_at r of None \<Rightarrow> False | Some p \<Rightarrow> p \<le> now)
     \<and> in_force (rr_effective_from (rrr_version r)) (rrr_effective_to r) now"

definition rule_versions :: "instant \<Rightarrow> routing_ticket \<Rightarrow> helpdesk_db \<Rightarrow> routing_rule_version list" where
  "rule_versions now rt db = List.map_filter
     (\<lambda>r. map_option (\<lambda>g. (rrr_version r)\<lparr>rr_group_code := g_code g\<rparr>)
        (active_group db (rrr_tenant r) (rr_group (rrr_version r))))
     (filter (rule_in_force now (rt_tenant rt) (rt_project rt)) (routing_rules db))"

definition active_user :: "helpdesk_db \<Rightarrow> uuid \<Rightarrow> uuid \<Rightarrow> bool" where
  "active_user db tenant user \<longleftrightarrow>
     (\<exists>u\<in>set (users db). u_id u = user \<and> u_tenant u = tenant \<and> u_active u)"

definition target :: "uuid \<Rightarrow> uuid \<Rightarrow> uuid option \<Rightarrow> helpdesk_db \<Rightarrow> (string \<times> uuid option) option" where
  "target tenant g assignee db =
     (case active_group db tenant g of
        None \<Rightarrow> None
      | Some x \<Rightarrow>
          (case assignee of
             None \<Rightarrow> Some (g_code x, None)
           | Some a \<Rightarrow>
               if \<exists>m\<in>set (members db). m_group m = g \<and> m_user m = a \<and> m_active m \<and> active_user db tenant a
               then Some (g_code x, Some a) else None))"

definition eligible :: "helpdesk_db \<Rightarrow> uuid \<Rightarrow> uuid \<Rightarrow> uuid list" where
  "eligible db tenant g = map m_user (filter (\<lambda>m. m_group m = g \<and> m_active m
     \<and> m_role m \<in> {''AGENT'', ''LEAD'', ''MANAGER''} \<and> active_user db tenant (m_user m)) (members db))"

definition assignment_count :: "helpdesk_db \<Rightarrow> uuid \<Rightarrow> uuid \<Rightarrow> nat" where
  "assignment_count db g user =
     length (filter (\<lambda>h. h_to_group h = g \<and> h_to_assignee h = Some user) (assignment_history db))"

definition round_robin_assignee :: "uuid \<Rightarrow> uuid \<Rightarrow> helpdesk_db \<Rightarrow> uuid option" where
  "round_robin_assignee tenant g db =
     (case sort_key (\<lambda>u. (assignment_count db g u, u)) (eligible db tenant g) of
        [] \<Rightarrow> None | u # _ \<Rightarrow> Some u)"

subsection \<open>Writes\<close>

definition assign ::
  "routing_ticket \<Rightarrow> uuid \<Rightarrow> string \<Rightarrow> uuid option \<Rightarrow> assignment_result option db_op" where
  "assign rt g code assignee =
     bindS (update_ticket
       (\<lambda>t. t_id t = rt_id rt \<and> t_row_version t = rt_row_version rt \<and> t_group t = rt_group rt
          \<and> t_assignee t = rt_assignee rt)
       (\<lambda>t. t\<lparr>t_group := Some g, t_assignee := assignee\<rparr>)) (\<lambda>updated.
     ret (map_option (\<lambda>v. \<lparr>as_group = g, as_group_code = code, as_assignee = assignee,
       as_row_version = v\<rparr>) updated))"

definition uuid_or_none :: "uuid option \<Rightarrow> pyval" where
  "uuid_or_none x = (case x of None \<Rightarrow> PNone | Some u \<Rightarrow> uuid_val u)"

definition text_or_none :: "string option \<Rightarrow> pyval" where
  "text_or_none x = (case x of None \<Rightarrow> PNone | Some s \<Rightarrow> PStr s)"

definition assignment_payload ::
  "routing_ticket \<Rightarrow> assignment_result \<Rightarrow> string \<Rightarrow> routing_rule_version option \<Rightarrow> bool \<Rightarrow> pyval
     \<Rightarrow> string \<Rightarrow> string \<Rightarrow> pydict" where
  "assignment_payload rt res reason rl fallback trace corr req =
     [(''ticket_key'', PStr (rt_key rt)), (''from_group_id'', uuid_or_none (rt_group rt)),
      (''to_group_id'', uuid_val (as_group res)), (''from_assignee_id'', uuid_or_none (rt_assignee rt)),
      (''to_assignee_id'', uuid_or_none (as_assignee res)),
      (''routing_rule_id'', uuid_or_none (map_option rr_rule rl)),
      (''routing_rule_version_id'', uuid_or_none (map_option rr_version rl)),
      (''fallback'', PBool fallback), (''reason'', PStr reason),
      (''old_row_version'', PInt (rt_row_version rt)), (''new_row_version'', PInt (as_row_version res)),
      (''correlation_id'', PStr corr), (''request_id'', PStr req), (''routing_trace'', trace)]"

definition record_history ::
  "routing_ticket \<Rightarrow> assignment_result \<Rightarrow> string \<Rightarrow> routing_rule_version option \<Rightarrow> uuid \<Rightarrow> unit db_op" where
  "record_history rt res reason rl actor = modS (\<lambda>db. db\<lparr>assignment_history := assignment_history db @
     [\<lparr>h_ticket = rt_id rt, h_from_group = rt_group rt, h_to_group = as_group res,
       h_from_assignee = rt_assignee rt, h_to_assignee = as_assignee res, h_reason = reason,
       h_rule = map_option rr_rule rl, h_rule_version = map_option rr_version rl, h_by = actor\<rparr>]\<rparr>)"

definition record_assignment ::
  "routing_ticket \<Rightarrow> assignment_result \<Rightarrow> uuid \<Rightarrow> string \<Rightarrow> string \<Rightarrow> string
     \<Rightarrow> routing_rule_version option \<Rightarrow> bool \<Rightarrow> pyval \<Rightarrow> unit db_op" where
  "record_assignment rt res actor reason corr req rl fallback trace =
     (let payload = assignment_payload rt res reason rl fallback trace corr req;
          type = (if rl \<noteq> None then ''TICKET_ROUTED'' else ''TICKET_REASSIGNED'') in
      bindS (record_history rt res reason rl actor) (\<lambda>_.
      bindS (insert_event (rt_tenant rt) (rt_id rt) type ''AGENT'' actor payload) (\<lambda>_.
      bindS (insert_outbox False (rt_tenant rt) ''TICKET'' (rt_id rt) ''TICKET_ASSIGNED'' payload None) (\<lambda>_.
      bindS (whenS (as_assignee res \<noteq> None)
        (insert_outbox True (rt_tenant rt) ''TICKET'' (rt_id rt) ''NOTIFY_TICKET_ASSIGNED'' payload
          (Some (''notify-assigned:'' @ uuid_str (rt_id rt) @ '':'' @ int_str (as_row_version res))))) (\<lambda>_.
      insert_audit (rt_tenant rt) actor type ''TICKET'' (rt_id rt) payload corr req)))))"

subsection \<open>Choosing a rule\<close>

definition bad_condition :: app_error where
  "bad_condition = RoutingConfigurationError ''A routing rule has invalid condition syntax.''"

text \<open>\<open>_specificity\<close>: the number of leaves of a condition.\<close>

fun specificity :: "pyval \<Rightarrow> app_error + nat"
  and specificity_sum :: "pyval list \<Rightarrow> app_error + nat" where
  "specificity PNone = Inr 0"
| "specificity (PList xs) = specificity_sum xs"
| "specificity (PDict []) = Inr 0"
| "specificity (PDict [(k, PList xs)]) =
     (if k = ''all'' \<or> k = ''any'' then specificity_sum xs else Inl bad_condition)"
| "specificity (PDict d) =
     (if ''field'' \<in> dkeys d \<and> ''operator'' \<in> dkeys d then Inr 1 else Inl bad_condition)"
| "specificity _ = Inl bad_condition"
| "specificity_sum [] = Inr 0"
| "specificity_sum (x # xs) =
     rbind (specificity x) (\<lambda>n. rbind (specificity_sum xs) (\<lambda>m. Inr (n + m)))"

text \<open>The key of \<open>_rule_order\<close>; the timestamp of an unset \<open>effective_from\<close> is the epoch.\<close>

type_synonym rule_key = "int \<times> int \<times> int \<times> string"

definition rule_order :: "routing_rule_version \<Rightarrow> app_error + rule_key" where
  "rule_order r = rbind (specificity (rr_condition r)) (\<lambda>n.
     Inr (rr_priority r, - int n, - (case rr_effective_from r of None \<Rightarrow> 0 | Some t \<Rightarrow> t),
       uuid_str (rr_version r)))"

definition is_default :: "routing_rule_version \<Rightarrow> bool" where
  "is_default r \<longleftrightarrow> is_empty_doc (rr_condition r)"

definition set_default :: "pydict \<Rightarrow> string \<Rightarrow> pyval \<Rightarrow> pydict" where
  "set_default d k v = (if k \<in> dkeys d then d else d @ [(k, v)])"

definition routing_values :: "routing_ticket \<Rightarrow> pydict" where
  "routing_values rt = foldl (\<lambda>d (code, v). set_default (AList.update (''field.'' @ code) v d) code v)
     [(''project_id'', uuid_val (rt_project rt)), (''project_code'', PStr (rt_project_code rt)),
      (''service_node_id'', uuid_or_none (rt_node rt)), (''service_node_code'', text_or_none (rt_node_code rt)),
      (''service_code'', text_or_none (rt_service_code rt)), (''module_code'', text_or_none (rt_module_code rt)),
      (''environment_code'', text_or_none (rt_environment_code rt)),
      (''work_type_code'', PStr (rt_work_type_code rt)), (''priority_code'', PStr (rt_priority_code rt)),
      (''status_code'', PStr (rt_status_code rt)), (''summary'', PStr (rt_summary rt)),
      (''description'', text_or_none (rt_description rt))] (rt_custom rt)"

definition trace_entry :: "routing_rule_version \<Rightarrow> bool \<Rightarrow> pyval" where
  "trace_entry r matched =
     PDict [(''routing_rule_version_id'', uuid_val (rr_version r)), (''matched'', PBool matched)]"

definition routing_rule_failure :: "rule_error \<Rightarrow> app_error" where
  "routing_rule_failure e = (case e of
     InvalidRule \<Rightarrow> RoutingConfigurationError
       ''A published routing rule contains unsupported deterministic configuration.''
   | RuleTypeError \<Rightarrow> UncaughtError ''TypeError'')"

text \<open>The loop over the sorted candidates: the first match, with the trace up to it.\<close>

fun first_match ::
  "pydict \<Rightarrow> routing_rule_version list \<Rightarrow> app_error + routing_rule_version option \<times> pyval list" where
  "first_match env [] = Inr (None, [])"
| "first_match env (r # rs) =
     rbind (map_error routing_rule_failure (evaluate (rr_condition r) env)) (\<lambda>matched.
     if matched then Inr (Some r, [trace_entry r True])
     else rbind (first_match env rs) (\<lambda>(found, trace). Inr (found, trace_entry r False # trace)))"

definition default_entry :: "routing_rule_version \<Rightarrow> pyval" where
  "default_entry r = PDict [(''routing_rule_version_id'', uuid_val (rr_version r)),
     (''matched'', PBool True), (''default'', PBool True)]"

definition keyed :: "routing_rule_version \<Rightarrow> app_error + rule_key \<times> routing_rule_version" where
  "keyed r = rbind (rule_order r) (\<lambda>k. Inr (k, r))"

definition select_rule ::
  "routing_rule_version list \<Rightarrow> routing_ticket \<Rightarrow> app_error + routing_rule_version \<times> bool \<times> pyval list" where
  "select_rule versions rt =
     (if \<not> distinct (map rr_rule versions)
      then Inl (RoutingConfigurationError
        ''More than one effective published version exists for a routing rule.'')
      else case filter is_default versions of
        [d] \<Rightarrow>
          let candidates = filter (\<lambda>r. r \<notin> set [d]) versions in
          rbind (map_result keyed candidates) (\<lambda>ks.
          rbind (first_match (routing_values rt) (map snd (sort_key fst ks))) (\<lambda>(found, trace).
          case found of Some r \<Rightarrow> Inr (r, False, trace)
          | None \<Rightarrow> Inr (d, True, trace @ [default_entry d])))
      | _ \<Rightarrow> Inl (RoutingConfigurationError
          ''The ticket project must have exactly one effective default route.''))"

definition assignee :: "routing_ticket \<Rightarrow> routing_rule_version \<Rightarrow> helpdesk_db \<Rightarrow> app_error + uuid option" where
  "assignee rt r db =
     (if rr_method r = ''GROUP_ONLY'' then Inr None
      else if rr_method r = ''ROUND_ROBIN''
      then (case round_robin_assignee (rt_tenant rt) (rr_group r) db of
              None \<Rightarrow> Inl (RoutingConfigurationError ''The round-robin group has no active eligible analysts.'')
            | Some u \<Rightarrow> Inr (Some u))
      else if rr_method r = ''NAMED_ASSIGNEE'' \<and> rr_assignee r \<noteq> None
           \<and> target (rt_tenant rt) (rr_group r) (rr_assignee r) db \<noteq> None
      then Inr (rr_assignee r)
      else Inl (RoutingConfigurationError
        ''The published routing rule uses an unsupported or invalid assignment method.''))"

definition authorize_group :: "request_context \<Rightarrow> uuid \<Rightarrow> app_error + unit" where
  "authorize_group ctx g =
     (if is_allowed ctx TICKET_READ_ALL None \<or> g \<in> set (support_group_ids ctx)
      then Inr () else Inl AuthorizationError)"

definition routing_trace :: "service_env \<Rightarrow> routing_ticket \<Rightarrow> pyval list \<Rightarrow> pyval" where
  "routing_trace env rt evaluated = PDict [(''evaluated_rules'', PList evaluated),
     (''inputs'', PDict [(''project_code'', PStr (rt_project_code rt)),
        (''service_code'', text_or_none (rt_service_code rt)), (''module_code'', text_or_none (rt_module_code rt)),
        (''environment_code'', text_or_none (rt_environment_code rt)),
        (''work_type_code'', PStr (rt_work_type_code rt)), (''priority_code'', PStr (rt_priority_code rt)),
        (''custom_field_codes'', PList (map PStr (sort (map fst (rt_custom rt)))))]),
     (''input_hash'', PStr (env_digest env (routing_values rt))), (''classifier_version'', PNone),
     (''classifier_confidence'', PNone), (''routing_source'', PStr ''CONFIGURATION_ONLY'')]"

subsection \<open>The service\<close>

definition stale :: app_error where
  "stale = ConcurrencyError ''Ticket row version is stale.''"

definition locked_ticket ::
  "request_context \<Rightarrow> uuid \<Rightarrow> string \<Rightarrow> int \<Rightarrow> helpdesk_db \<Rightarrow> app_error + routing_ticket" where
  "locked_ticket ctx tenant key version db =
     rbind (of_option (ConcurrencyError ''Ticket changed while assignment was acquiring its lock.'')
       (routing_ticket_query ctx tenant key db)) (\<lambda>rt.
     if rt_row_version rt \<noteq> version then Inl stale else Inr rt)"

definition assignment_answer :: "assignment_result \<Rightarrow> routing_rule_version option \<Rightarrow> bool \<Rightarrow> pydict" where
  "assignment_answer res rl fallback = [(''assignment_group_code'', PStr (as_group_code res)),
     (''assignee_user_id'', uuid_or_none (as_assignee res)),
     (''routing_rule_version_id'', uuid_or_none (map_option rr_version rl)),
     (''fallback'', PBool fallback)]"

definition route_work ::
  "service_env \<Rightarrow> request_context \<Rightarrow> uuid \<Rightarrow> uuid \<Rightarrow> string \<Rightarrow> int \<Rightarrow> ((pydict \<times> bool) \<times> uuid \<times> pydict) db_op" where
  "route_work env ctx tenant user key version =
     bindS (getS (locked_ticket ctx tenant key version)) (\<lambda>locked.
     bindS (liftS locked) (\<lambda>rt.
     bindS (getS (\<lambda>db. select_rule (rule_versions (env_now env) rt db) rt)) (\<lambda>selected.
     bindS (liftS selected) (\<lambda>(r, fallback, trace).
     bindS (liftS (authorize_group ctx (rr_group r))) (\<lambda>_.
     bindS (getS (assignee rt r)) (\<lambda>who.
     bindS (liftS who) (\<lambda>assignee_id.
     bindS (assign rt (rr_group r) (rr_group_code r) assignee_id) (\<lambda>assigned.
     bindS (liftS (of_option (ConcurrencyError ''Ticket changed while routing was executing.'') assigned)) (\<lambda>res.
     bindS (record_assignment rt res user (if fallback then ''DEFAULT_ROUTE'' else ''ROUTING_RULE'')
       (correlation_id ctx) (request_id ctx) (Some r) fallback (routing_trace env rt trace)) (\<lambda>_.
     ret ((assignment_answer res (Some r) fallback, False), rt_id rt,
       assignment_answer res (Some r) fallback)))))))))))"

definition manual_work ::
  "request_context \<Rightarrow> uuid \<Rightarrow> uuid \<Rightarrow> string \<Rightarrow> manual_command \<Rightarrow> ((pydict \<times> bool) \<times> uuid \<times> pydict) db_op" where
  "manual_work ctx tenant user key cmd =
     bindS (getS (locked_ticket ctx tenant key (mc_row_version cmd))) (\<lambda>locked.
     bindS (liftS locked) (\<lambda>rt.
     bindS (liftS (authorize_group ctx (mc_group cmd))) (\<lambda>_.
     bindS (getS (target tenant (mc_group cmd) (mc_assignee cmd))) (\<lambda>found.
     bindS (liftS (of_option (ValidationError ''Assignment target is invalid.'') found)) (\<lambda>(code, assignee_id).
     bindS (assign rt (mc_group cmd) code assignee_id) (\<lambda>assigned.
     bindS (liftS (of_option (ConcurrencyError ''Ticket changed while reassignment was executing.'') assigned)) (\<lambda>res.
     bindS (record_assignment rt res user (''MANUAL: '' @ collapse (mc_reason cmd))
       (correlation_id ctx) (request_id ctx) None False PNone) (\<lambda>_.
     ret ((assignment_answer res None False, False), rt_id rt, assignment_answer res None False)))))))))"

text \<open>Both use cases: the ticket, the protocol, and the answer with the ticket read again.\<close>

definition assignment_body ::
  "request_context \<Rightarrow> uuid \<Rightarrow> uuid \<Rightarrow> string \<Rightarrow> string \<Rightarrow> string \<Rightarrow> string
     \<Rightarrow> ((pydict \<times> bool) \<times> uuid \<times> pydict) db_op \<Rightarrow> (pydict \<times> bool) db_op" where
  "assignment_body ctx tenant user key operation ikey hash work =
     bindS (getS (routing_ticket_query ctx tenant key)) (\<lambda>found.
     bindS (liftS (of_option NotFoundError found)) (\<lambda>_.
     idempotent_call tenant user operation ikey hash (\<lambda>r. ret (idem_payload r, True)) work))"

definition answered ::
  "request_context \<Rightarrow> string \<Rightarrow> (pydict \<times> bool) db_op \<Rightarrow> helpdesk_db
     \<Rightarrow> (app_error + ticket_row \<times> pydict \<times> bool) \<times> helpdesk_db" where
  "answered ctx key body db =
     (case body db of
        Inl e \<Rightarrow> (Inl e, db)
      | Inr ((payload, replayed), db') \<Rightarrow>
          (rbind (analyst_ticket ctx key db') (\<lambda>t. Inr (t, payload, replayed)), db'))"

definition route ::
  "service_env \<Rightarrow> request_context \<Rightarrow> string \<Rightarrow> int \<Rightarrow> string \<Rightarrow> helpdesk_db
     \<Rightarrow> (app_error + ticket_row \<times> pydict \<times> bool) \<times> helpdesk_db" where
  "route env ctx key version ikey db =
     (if \<not> is_allowed ctx TICKET_ROUTE None then (Inl AuthorizationError, db)
      else case identity_or AuthorizationError ctx of
        Inl e \<Rightarrow> (Inl e, db)
      | Inr (tenant, user) \<Rightarrow> answered ctx key (assignment_body ctx tenant user key ''TICKET_ROUTE'' ikey
          (env_digest env [(''ticket_key'', PStr key), (''row_version'', PInt version)])
          (route_work env ctx tenant user key version)) db)"

definition assign_manual ::
  "service_env \<Rightarrow> request_context \<Rightarrow> string \<Rightarrow> manual_command \<Rightarrow> string \<Rightarrow> helpdesk_db
     \<Rightarrow> (app_error + ticket_row \<times> pydict \<times> bool) \<times> helpdesk_db" where
  "assign_manual env ctx key cmd ikey db =
     (if \<not> is_allowed ctx TICKET_ASSIGN_MANUAL None then (Inl AuthorizationError, db)
      else case identity_or AuthorizationError ctx of
        Inl e \<Rightarrow> (Inl e, db)
      | Inr (tenant, user) \<Rightarrow>
          if length (collapse (mc_reason cmd)) < 3
          then (Inl (ValidationError ''Assignment reason is required.''), db)
          else answered ctx key (assignment_body ctx tenant user key ''TICKET_ASSIGN_MANUAL'' ikey
            (env_digest env [(''ticket_key'', PStr key), (''row_version'', PInt (mc_row_version cmd)),
              (''assignment_group_id'', uuid_val (mc_group cmd)),
              (''assignee_user_id'', uuid_or_none (mc_assignee cmd)),
              (''reason'', PStr (collapse (mc_reason cmd)))])
            (manual_work ctx tenant user key cmd)) db)"

end
