(* ===== verification/Demo.thy ===== *)
theory Demo
  imports HelpdeskDb
begin

text \<open>
  A small helpdesk at which the properties are applied: one tenant, a reporter, two approvers and an
  agent with a colleague, one workflow of four statuses, a ticket that waits for an approval and one
  that is new.
\<close>

definition demo_columns :: "string \<Rightarrow> pyval" where
  "demo_columns = (\<lambda>_. PNone)"

definition demo_ticket :: "uuid \<Rightarrow> string \<Rightarrow> uuid \<Rightarrow> ticket_row" where
  "demo_ticket i key status = \<lparr>t_id = i, t_tenant = 9, t_key = key, t_project = 8, t_project_code = ''HR'',
     t_node = None, t_environment_code = None, t_work_type_code = ''REQUEST'', t_priority_code = ''P2'',
     t_workflow_version = 20, t_status = status, t_row_version = 4, t_summary = ''Access'',
     t_description = None, t_reporter = 2, t_requested_for = None, t_group = Some 60, t_assignee = None,
     t_columns = demo_columns, t_custom = [], t_work_type = 90, t_request_type = 80, t_request_version = 81,
     t_environment = None, t_impact = Some ''LOW'', t_urgency = Some ''LOW'', t_matrix = None, t_conversation = None,
     t_created = 0\<rparr>"

definition demo_status :: "uuid \<Rightarrow> string \<Rightarrow> status_row" where
  "demo_status i code = \<lparr>st_id = i, st_version = 20, st_code = code, st_name = code, st_visible_name = None\<rparr>"

definition demo_transition :: "uuid \<Rightarrow> string \<Rightarrow> uuid \<Rightarrow> uuid \<Rightarrow> pyval \<Rightarrow> pyval \<Rightarrow> transition_row" where
  "demo_transition i code a b validators actions = \<lparr>tr_id = i, tr_version = 20, tr_code = code,
     tr_name = code, tr_from = a, tr_to = b, tr_condition = PDict [], tr_validators = validators,
     tr_actions = actions, tr_active = True, tr_order = 1\<rparr>"

definition demo_user :: "uuid \<Rightarrow> user_row" where
  "demo_user i = \<lparr>u_id = i, u_tenant = 9, u_active = True, u_manager = (if i = 2 then Some 6 else None),
     u_name = ''User''\<rparr>"

definition continuation :: pyval where
  "continuation = PList [PDict [(''type'', PStr ''APPROVAL_CONTINUATION'')]]"

definition demo_definition :: approval_definition where
  "demo_definition = \<lparr>ad_id = 40, ad_version = 41, ad_tenant = 9, ad_project = 8, ad_code = ''CHANGE'',
     ad_name = ''Change'', ad_mode = ''MANAGER_APPROVAL'', ad_rule = PDict [],
     ad_approved_transition = Some 31, ad_rejected_transition = Some 32, ad_self_approval = False,
     ad_expires_after = Some 60\<rparr>"

definition demo_approval :: approval_row where
  "demo_approval = \<lparr>ap_id = 50, ap_tenant = 9, ap_ticket = 1, ap_definition = 40, ap_version = 41,
     ap_status = ''PENDING'', ap_row_version = 1, ap_requested_at = 0, ap_completed_at = None,
     ap_expires_at = Some 3600000000\<rparr>"

definition demo_member :: "uuid \<Rightarrow> uuid \<Rightarrow> member_row" where
  "demo_member g u = \<lparr>m_group = g, m_user = u, m_role = ''AGENT'', m_active = True\<rparr>"

definition demo_rule :: "uuid \<Rightarrow> int \<Rightarrow> pyval \<Rightarrow> string \<Rightarrow> routing_rule_version" where
  "demo_rule i priority condition how = \<lparr>rr_rule = i, rr_version = i, rr_number = 1, rr_priority = priority,
     rr_condition = condition, rr_group = 60, rr_method = how, rr_assignee = None,
     rr_effective_from = None, rr_group_code = ''DESK''\<rparr>"

definition demo_rule_row :: "routing_rule_version \<Rightarrow> routing_rule_row" where
  "demo_rule_row v = \<lparr>rrr_version = v, rrr_tenant = 9, rrr_project = 8, rrr_active = True,
     rrr_rule_start = None, rrr_rule_end = None, rrr_status = ''PUBLISHED'', rrr_published_at = Some 0,
     rrr_effective_to = None\<rparr>"

definition priority_rule :: pyval where
  "priority_rule = PDict [(''field'', PStr ''priority_code''), (''operator'', PStr ''equals''), (''value'', PStr ''P2'')]"

definition demo_db :: helpdesk_db where
  "demo_db = \<lparr>tickets = [demo_ticket 1 ''HR-1'' 24, demo_ticket 2 ''HR-2'' 21],
     version_status = (\<lambda>_. ''PUBLISHED''),
     statuses = [demo_status 21 ''NEW'', demo_status 22 ''DONE'', demo_status 23 ''REFUSED'',
       demo_status 24 ''WAITING''],
     transition_rows = [demo_transition 31 ''APPROVED'' 24 22 (PList []) continuation,
       demo_transition 32 ''REFUSED'' 24 23 (PList []) continuation,
       demo_transition 33 ''ASK'' 21 24
         (PList [PDict [(''type'', PStr ''required_field''), (''field'', PStr ''summary'')]])
         (PList [PDict [(''type'', PStr ''SET_TIMESTAMP''), (''field'', PStr ''first_response_at'')],
           PDict [(''type'', PStr ''CREATE_APPROVAL''), (''approval_code'', PStr ''CHANGE'')]])],
     resolution_codes = [''FIXED''], users = [demo_user 2, demo_user 6, demo_user 7, demo_user 8],
     groups = [\<lparr>g_id = 60, g_tenant = 9, g_code = ''DESK'', g_active = True, g_name = ''Desk''\<rparr>],
     members = [demo_member 60 7, demo_member 60 8], service_nodes = [], comments = [],
     ticket_events = [], outbox_events = [], audit_events = [], idempotency = [],
     approval_definitions = [\<lparr>adr_definition = demo_definition, adr_active = True,
       adr_status = ''PUBLISHED'', adr_from = None, adr_to = None, adr_number = 1\<rparr>],
     approvals = [demo_approval],
     approvers = [\<lparr>av_approval = 50, av_user = 6, av_sequence = 1, av_decision = None, av_comment = None,
       av_decided_at = None\<rparr>],
     decisions = [], routing_rules = [demo_rule_row (demo_rule 70 100 (PDict []) ''ROUND_ROBIN''),
       demo_rule_row (demo_rule 71 10 priority_rule ''ROUND_ROBIN'')],
     assignment_history = [], fresh_id = (\<lambda>n. 1000 + of_nat n), drawn = 0\<rparr>"

lemmas demo_data = demo_db_def demo_ticket_def demo_columns_def demo_status_def demo_transition_def
  demo_user_def continuation_def demo_definition_def demo_approval_def demo_member_def demo_rule_def
  demo_rule_row_def priority_rule_def

definition demo_env :: service_env where
  "demo_env = \<lparr>env_now = 1000000, env_wall = 1000000, env_digest = (\<lambda>_. ''digest'')\<rparr>"

definition demo_context :: "uuid \<Rightarrow> string \<Rightarrow> request_context" where
  "demo_context user role = \<lparr>ctx_tenant_id = Some 9, ctx_user_id = Some user,
     external_subject = Some ''subject'', roles = [role], support_group_ids = [60],
     business_unit_id = None, correlation_id = ''corr'', request_id = ''req''\<rparr>"

lemma demo_context_simps [simp]:
  "ctx_tenant_id (demo_context u r) = Some 9" "ctx_user_id (demo_context u r) = Some u"
  "support_group_ids (demo_context u r) = [60]" "correlation_id (demo_context u r) = ''corr''"
  "request_id (demo_context u r) = ''req''"
  by (simp_all add: demo_context_def)

text \<open>The evaluation of a use case: what it is composed of.\<close>

lemmas shared_steps = bindS_def Let_def claim_checked_def claim_idempotency_def same_request_def
  complete_idempotency_def insert_event_def insert_outbox_def outbox_conflict_def insert_audit_def
  update_ticket_def bump_def draw_uuid_def identity_or_def List.map_filter_def run_uow_def
  visible_ticket_def visible_to_def analyst_ticket_def

end
