(* ===== verification/RoutingSpec.thy ===== *)
theory RoutingSpec
  imports Routing Demo "HOL-Library.Multiset"
begin

text \<open>
  What routing promises: the rule it picks is the first in the published order that matches, whatever
  order the query returns the rules in; round robin keeps the assignments of a group balanced; an
  assignment changes one ticket at the version it was asked for and is on record.
\<close>

subsection \<open>The chosen rule\<close>

lemma first_match_sound:
  assumes "first_match env rs = Inr (found, trace)"
  shows "(case found of
      None \<Rightarrow> \<forall>r\<in>set rs. evaluate (rr_condition r) env = Inr False
    | Some r \<Rightarrow> \<exists>before after. rs = before @ r # after \<and> evaluate (rr_condition r) env = Inr True
        \<and> (\<forall>q\<in>set before. evaluate (rr_condition q) env = Inr False))"
  using assms
proof (induction rs arbitrary: trace)
  case (Cons r rs)
  from Cons.prems obtain matched where m: "evaluate (rr_condition r) env = Inr matched"
    by (auto simp: rbind_Inr_iff)
  show ?case
  proof (cases matched)
    case True
    with Cons.prems m have "found = Some r" by simp
    with m True show ?thesis by force
  next
    case False
    with Cons.prems m obtain trace' where rest: "first_match env rs = Inr (found, trace')"
      by (auto simp: rbind_Inr_iff)
    note IH = Cons.IH [OF rest]
    show ?thesis
    proof (cases found)
      case None
      with IH m False show ?thesis by simp
    next
      case (Some q)
      with IH obtain before after where "rs = before @ q # after" "evaluate (rr_condition q) env = Inr True"
        "\<forall>p\<in>set before. evaluate (rr_condition p) env = Inr False" by auto
      with m False show ?thesis
        unfolding Some option.case by (intro exI [of _ "r # before"] exI [of _ after]) simp
    qed
  qed
qed simp

lemma keyed_iff: "keyed r = Inr (k, q) \<longleftrightarrow> rule_order r = Inr k \<and> q = r"
  by (auto simp: keyed_def rbind_Inr_iff simp del: split_paired_Ex)

lemma keyed_list:
  assumes "map_result keyed rs = Inr ks"
  shows "map snd ks = rs" "(k, r) \<in> set ks \<longleftrightarrow> r \<in> set rs \<and> rule_order r = Inr k"
proof -
  from assms have all: "list_all2 (\<lambda>r p. keyed r = Inr p) rs ks" by (simp add: map_result_Inr_iff)
  then show "map snd ks = rs" by (induction rule: list_all2_induct) (auto simp: keyed_iff)
  from all show "(k, r) \<in> set ks \<longleftrightarrow> r \<in> set rs \<and> rule_order r = Inr k"
    by (induction rule: list_all2_induct) (auto simp: keyed_iff)
qed

lemma select_rule_run:
  assumes "select_rule versions rt = Inr (r, fallback, trace)"
  obtains d ks found tr where "distinct (map rr_rule versions)" "filter is_default versions = [d]"
    "map_result keyed (filter (\<lambda>r. r \<noteq> d) versions) = Inr ks"
    "first_match (routing_values rt) (map snd (sort_key fst ks)) = Inr (found, tr)"
    "(case found of Some q \<Rightarrow> r = q \<and> \<not> fallback | None \<Rightarrow> r = d \<and> fallback)"
  using assms unfolding select_rule_def
  by (auto simp: Let_def rbind_Inr_iff split: if_splits list.splits option.splits)

lemma sorted_prefix:
  "sorted (map f (xs @ y # ys)) \<Longrightarrow> z \<in> set (xs @ y # ys) \<Longrightarrow> f z < f y \<Longrightarrow> z \<in> set xs"
  by (auto simp: sorted_append)

lemma selected_rule:
  assumes "select_rule versions rt = Inr (r, fallback, trace)"
  shows "r \<in> set versions \<and> fallback = is_default r
    \<and> (\<not> fallback \<longrightarrow> evaluate (rr_condition r) (routing_values rt) = Inr True
        \<and> (\<forall>q\<in>set versions. \<forall>k k'. \<not> is_default q \<longrightarrow> rule_order q = Inr k \<longrightarrow> rule_order r = Inr k' \<longrightarrow> k < k'
             \<longrightarrow> evaluate (rr_condition q) (routing_values rt) = Inr False))
    \<and> (fallback \<longrightarrow> (\<forall>q\<in>set versions. \<not> is_default q
             \<longrightarrow> evaluate (rr_condition q) (routing_values rt) = Inr False))"
  using assms
proof (rule select_rule_run)
  fix d found tr and ks :: "(rule_key \<times> routing_rule_version) list"
  let ?cands = "filter (\<lambda>r. r \<noteq> d) versions" and ?sorted = "sort_key fst ks"
  assume d: "filter is_default versions = [d]" and ks: "map_result keyed ?cands = Inr ks"
    and fm: "first_match (routing_values rt) (map snd ?sorted) = Inr (found, tr)"
    and res: "case found of Some q \<Rightarrow> r = q \<and> \<not> fallback | None \<Rightarrow> r = d \<and> fallback"
  have "d \<in> set (filter is_default versions)" by (simp add: d)
  then have dv: "d \<in> set versions" "is_default d" by simp_all
  have only: "q = d" if "q \<in> set versions" "is_default q" for q
  proof -
    from that have "q \<in> set (filter is_default versions)" by simp
    then show ?thesis by (simp add: d)
  qed
  then have "is_default q \<longleftrightarrow> q = d" if "q \<in> set versions" for q using dv that by blast
  then have cands: "q \<in> set ?cands \<longleftrightarrow> q \<in> set versions \<and> \<not> is_default q" for q
    by auto
  have sorted_set: "set (map snd ?sorted) = set ?cands"
    using keyed_list(1) [OF ks] by (metis image_set set_sort)
  note fs = first_match_sound [OF fm]
  show ?thesis
  proof (cases found)
    case None
    with fs res have "\<forall>q\<in>set ?cands. evaluate (rr_condition q) (routing_values rt) = Inr False"
      by (simp only: option.case sorted_set)
    then have "\<forall>q\<in>set versions. \<not> is_default q \<longrightarrow> evaluate (rr_condition q) (routing_values rt) = Inr False"
      using cands by blast
    with None res dv show ?thesis by simp
  next
    case (Some q)
    with fs obtain before after where split: "map snd ?sorted = before @ q # after"
      and hit: "evaluate (rr_condition q) (routing_values rt) = Inr True"
      and miss: "\<forall>p\<in>set before. evaluate (rr_condition p) (routing_values rt) = Inr False" by auto
    from split have "q \<in> set (map snd ?sorted)" by simp
    then have q: "q \<in> set ?cands" by (simp only: sorted_set)
    from split obtain s1 p s2 where s: "?sorted = s1 @ p # s2" "map snd s1 = before" "snd p = q"
      by (auto simp: map_eq_append_conv map_eq_Cons_conv)
    have "evaluate (rr_condition z) (routing_values rt) = Inr False"
      if z: "z \<in> set versions" "\<not> is_default z" "rule_order z = Inr k" "rule_order q = Inr k'" "k < k'" for z k k'
    proof -
      have "p \<in> set ?sorted" by (simp add: s(1))
      then have "(fst p, q) \<in> set ks" by (simp add: s(3) [symmetric])
      then have "fst p = k'" using keyed_list(2) [OF ks] z(4) by simp
      moreover have "z \<in> set ?cands" using cands z by blast
      then have "(k, z) \<in> set ?sorted" using keyed_list(2) [OF ks, of k z] z(3) by simp
      moreover have "sorted (map fst ?sorted)" by (rule sorted_sort_key)
      ultimately have "(k, z) \<in> set s1"
        using sorted_prefix [of fst s1 p s2 "(k, z)"] z(5) unfolding s(1) by simp
      then have "z \<in> set before" using s(2) by force
      with miss show ?thesis by blast
    qed
    then have "\<forall>z\<in>set versions. \<forall>k k'. \<not> is_default z \<longrightarrow> rule_order z = Inr k \<longrightarrow> rule_order q = Inr k' \<longrightarrow> k < k'
        \<longrightarrow> evaluate (rr_condition z) (routing_values rt) = Inr False" by blast
    moreover have "q \<in> set versions" "\<not> is_default q" using q cands by blast+
    ultimately show ?thesis using hit res Some by simp
  qed
qed


subsection \<open>The order of the query does not matter\<close>

lemma specificity_error:
  "specificity v = Inl e \<Longrightarrow> e = bad_condition"
  "specificity_sum vs = Inl e \<Longrightarrow> e = bad_condition"
  by (induction v and vs rule: specificity_specificity_sum.induct)
    (auto simp: rbind_Inl_iff split: if_splits)

lemma keyed_error: "keyed r = Inl e \<Longrightarrow> e = bad_condition"
  by (auto simp: keyed_def rule_order_def rbind_Inl_iff dest: specificity_error)

lemma map_result_error:
  assumes "\<And>x e. f x = Inl e \<Longrightarrow> e = e0"
  shows "(\<exists>ys. map_result f xs = Inr ys) \<or> map_result f xs = Inl e0 \<and> (\<exists>x\<in>set xs. f x = Inl e0)"
proof (induction xs)
  case (Cons x xs)
  show ?case
  proof (cases "f x")
    case (Inl e)
    with assms have "e = e0" by blast
    with Inl show ?thesis by simp
  next
    case (Inr y)
    with Cons show ?thesis by auto
  qed
qed simp

lemma rule_key_inj:
  "rule_order r = Inr k \<Longrightarrow> rule_order q = Inr k \<Longrightarrow> rr_version r = rr_version q"
  by (auto simp: rule_order_def rbind_Inr_iff)

lemma map_result_mset:
  assumes "mset xs = mset ys" "map_result keyed xs = Inr ks"
  shows "\<exists>ls. map_result keyed ys = Inr ls \<and> mset ls = mset ks"
proof -
  define g where "g r = (case keyed r of Inr p \<Rightarrow> p | Inl _ \<Rightarrow> undefined)" for r
  from assms(2) have all: "list_all2 (\<lambda>r p. keyed r = Inr p) xs ks" by (simp add: map_result_Inr_iff)
  then have ok: "keyed r = Inr (g r)" if "r \<in> set xs" for r
    using that by (auto simp: g_def elim: list_all2_left)
  from all have "ks = map g xs" by (induction rule: list_all2_induct) (auto simp: g_def)
  moreover have "map_result keyed ys = Inr (map g ys)"
    by (rule map_result_total) (use ok mset_eq_setD [OF assms(1)] in auto)
  ultimately show ?thesis using assms(1) by simp
qed

lemma single_default:
  assumes "mset vs = mset ws" "filter p vs = [d]"
  shows "filter p ws = [d]"
proof -
  from assms have "mset (filter p ws) = mset [d]" by (metis mset_filter)
  then show ?thesis by (metis mset_single_iff_right mset.simps)
qed

lemma keyed_failure:
  "\<nexists>ks. map_result keyed xs = Inr ks \<Longrightarrow> map_result keyed xs = Inl bad_condition"
  using map_result_error [of keyed bad_condition xs] keyed_error by blast

lemma keyed_same_order:
  assumes "map_result keyed xs = Inr ks" "mset ls = mset ks" "distinct (map rr_version xs)"
  shows "sort_key fst ks = sort_key fst ls"
proof -
  have "inj_on fst (set ks)"
  proof (rule inj_onI)
    fix p q assume pq: "p \<in> set ks" "q \<in> set ks" "fst p = fst q"
    obtain k r l s where p: "p = (k, r)" "q = (l, s)" by (cases p, cases q)
    with pq keyed_list(2) [OF assms(1)] have rs: "r \<in> set xs" "s \<in> set xs" "rule_order r = Inr k"
      "rule_order s = Inr k" by auto
    from rule_key_inj [OF rs(3,4)] assms(3) rs(1,2) have "r = s" by (auto simp: distinct_map dest: inj_onD)
    with p pq show "p = q" by simp
  qed
  then show ?thesis by (intro sort_key_inj_key_eq) (simp_all add: assms(2))
qed

text \<open>C20: the routing query has no order, and the outcome does not depend on one: for rule versions with
  distinct identifiers every permutation gives the same rule, fallback flag, trace or error.\<close>

theorem select_rule_permutation:
  assumes perm: "mset vs = mset ws" and ids: "distinct (map rr_version vs)"
  shows "select_rule vs rt = select_rule ws rt"
proof (cases "\<exists>d. filter is_default vs = [d]")
  case False
  moreover from this have "\<not> (\<exists>d. filter is_default ws = [d])"
    using single_default [OF perm [symmetric]] by blast
  moreover have "distinct (map rr_rule vs) = distinct (map rr_rule ws)"
    using mset_eq_imp_distinct_iff [of "map rr_rule vs" "map rr_rule ws"] perm by simp
  ultimately show ?thesis by (auto simp: select_rule_def split: list.splits)
next
  case True
  then obtain d where d: "filter is_default vs = [d]" by blast
  note d' = single_default [OF perm d]
  have rules: "distinct (map rr_rule vs) = distinct (map rr_rule ws)"
    using mset_eq_imp_distinct_iff [of "map rr_rule vs" "map rr_rule ws"] perm by simp
  let ?f = "filter (\<lambda>r. r \<noteq> d)"
  have cands: "mset (?f vs) = mset (?f ws)" using perm by simp
  show ?thesis
  proof (cases "\<exists>ks. map_result keyed (?f vs) = Inr ks")
    case False
    moreover have "\<nexists>ks. map_result keyed (?f ws) = Inr ks"
      using False map_result_mset [OF cands [symmetric]] by blast
    ultimately have "map_result keyed (?f vs) = Inl bad_condition" "map_result keyed (?f ws) = Inl bad_condition"
      by (auto intro: keyed_failure)
    then show ?thesis by (simp add: select_rule_def rules d d' Let_def)
  next
    case True
    then obtain ks where ks: "map_result keyed (?f vs) = Inr ks" by blast
    from map_result_mset [OF cands ks] obtain ls where ls: "map_result keyed (?f ws) = Inr ls" "mset ls = mset ks"
      by blast
    have "sort_key fst ks = sort_key fst ls"
      using ids by (intro keyed_same_order [OF ks ls(2)]) (simp add: distinct_map inj_on_def)
    with ks ls show ?thesis by (simp add: select_rule_def rules d d' Let_def)
  qed
qed

subsection \<open>What an assignment writes\<close>

definition history_of ::
  "routing_ticket \<Rightarrow> assignment_result \<Rightarrow> string \<Rightarrow> routing_rule_version option \<Rightarrow> uuid \<Rightarrow> history_row" where
  "history_of rt res reason rl actor = \<lparr>h_ticket = rt_id rt, h_from_group = rt_group rt,
     h_to_group = as_group res, h_from_assignee = rt_assignee rt, h_to_assignee = as_assignee res,
     h_reason = reason, h_rule = map_option rr_rule rl, h_rule_version = map_option rr_version rl, h_by = actor\<rparr>"

lemma record_assignment_effect:
  assumes "record_assignment rt res actor reason corr req rl fallback trace s = Inr (u, t)"
  shows "tickets t = tickets s \<and> config_frame s t \<and> idempotency t = idempotency s
    \<and> assignment_history t = assignment_history s @ [history_of rt res reason rl actor]"
proof -
  from assms obtain s1 where h: "record_history rt res reason rl actor s = Inr ((), s1)"
    and f: "ticket_frame s1 t" "idem_frame s1 t"
  proof -
    let ?payload = "assignment_payload rt res reason rl fallback trace corr req"
    let ?type = "if rl \<noteq> None then ''TICKET_ROUTED'' else ''TICKET_REASSIGNED''"
    let ?rest = "bindS (insert_event (rt_tenant rt) (rt_id rt) ?type ''AGENT'' actor ?payload) (\<lambda>_.
      bindS (insert_outbox False (rt_tenant rt) ''TICKET'' (rt_id rt) ''TICKET_ASSIGNED'' ?payload None) (\<lambda>_.
      bindS (whenS (as_assignee res \<noteq> None)
        (insert_outbox True (rt_tenant rt) ''TICKET'' (rt_id rt) ''NOTIFY_TICKET_ASSIGNED'' ?payload
          (Some (''notify-assigned:'' @ uuid_str (rt_id rt) @ '':'' @ int_str (as_row_version res))))) (\<lambda>_.
      insert_audit (rt_tenant rt) actor ?type ''TICKET'' (rt_id rt) ?payload corr req)))"
    from assms obtain s1 where h: "record_history rt res reason rl actor s = Inr ((), s1)"
      and r: "?rest s1 = Inr (u, t)"
      unfolding record_assignment_def Let_def by (rule bindS_E) auto
    have "keeps ticket_frame ?rest" "keeps idem_frame ?rest"
      by (intro tf.keeps_bindS tf.keeps_whenS idf.keeps_bindS idf.keeps_whenS inv_intros)+
    with r that [OF h] show thesis by (simp add: keepsD)
  qed
  from h have "s1 = s\<lparr>assignment_history := assignment_history s @ [history_of rt res reason rl actor]\<rparr>"
    by (simp add: record_history_def history_of_def)
  with f show ?thesis by (simp add: frame_defs)
qed

definition at_same_version :: "ticket_row \<Rightarrow> ticket_row \<Rightarrow> bool" where
  "at_same_version t x \<longleftrightarrow> t_id x = t_id t \<and> t_row_version x = t_row_version t
     \<and> t_group x = t_group t \<and> t_assignee x = t_assignee t"

definition assigned :: "uuid \<Rightarrow> uuid option \<Rightarrow> ticket_row \<Rightarrow> ticket_row" where
  "assigned g who x = x\<lparr>t_group := Some g, t_assignee := who, t_row_version := t_row_version x + 1\<rparr>"

lemma assign_effect:
  assumes "assign rt g code who s = Inr (Some res, t)" "routing_ticket_of s x = Some rt"
  shows "t = s\<lparr>tickets := map (\<lambda>y. if at_same_version x y then assigned g who y else y) (tickets s)\<rparr>
    \<and> as_group res = g \<and> as_group_code res = code \<and> as_assignee res = who"
proof -
  let ?p = "\<lambda>y. t_id y = rt_id rt \<and> t_row_version y = rt_row_version rt \<and> t_group y = rt_group rt
      \<and> t_assignee y = rt_assignee rt"
  from assms(1) obtain v where up: "update_ticket ?p (\<lambda>y. y\<lparr>t_group := Some g, t_assignee := who\<rparr>) s = Inr (Some v, t)"
    and res: "res = \<lparr>as_group = g, as_group_code = code, as_assignee = who, as_row_version = v\<rparr>"
    by (auto simp: assign_def elim!: bindS_E)
  have p: "?p y \<longleftrightarrow> at_same_version x y" for y
    using assms(2) by (auto simp: at_same_version_def routing_ticket_of_def Let_def)
  have f: "bump (\<lambda>y. y\<lparr>t_group := Some g, t_assignee := who\<rparr>) = assigned g who"
    by (simp add: fun_eq_iff bump_def assigned_def)
  from update_ticket_effect [OF up] res show ?thesis unfolding p f by simp
qed

lemma locked_ticket_facts:
  assumes "locked_ticket ctx tenant key version s = Inr rt"
  obtains x where "visible_ticket ctx tenant key s = Some x" "x \<in> set (tickets s)"
    "routing_ticket_of s x = Some rt" "t_row_version x = version"
    "rt_tenant rt = tenant" "rt_id rt = t_id x"
proof -
  from assms obtain x where x: "visible_ticket ctx tenant key s = Some x" "routing_ticket_of s x = Some rt"
    "rt_row_version rt = version"
    by (auto simp: locked_ticket_def routing_ticket_query_def rbind_Inr_iff split: if_splits option.splits)
  from find_Some_in [OF x(1) [unfolded visible_ticket_def]] x show thesis
    by (intro that [of x]) (auto simp: routing_ticket_of_def Let_def visible_to_def)
qed

lemma route_work_effect:
  assumes "route_work env ctx tenant user key version s = Inr (((ans, rep), res, payload), t)"
  obtains x rt r fallback trace who v where "\<not> rep" "x \<in> set (tickets s)"
    "visible_ticket ctx tenant key s = Some x" "t_row_version x = version" "routing_ticket_of s x = Some rt"
    "select_rule (rule_versions (env_now env) rt s) rt = Inr (r, fallback, trace)"
    "authorize_group ctx (rr_group r) = Inr ()" "assignee rt r s = Inr who"
    "tickets t = map (\<lambda>y. if at_same_version x y then assigned (rr_group r) who y else y) (tickets s)"
    "as_group v = rr_group r" "as_assignee v = who"
    "assignment_history t = assignment_history s @ [history_of rt v
      (if fallback then ''DEFAULT_ROUTE'' else ''ROUTING_RULE'') (Some r) user]"
    "config_frame s t" "idempotency t = idempotency s"
proof -
  from assms obtain rt r fallback trace who v s1 where
    lk: "locked_ticket ctx tenant key version s = Inr rt"
    and sel: "select_rule (rule_versions (env_now env) rt s) rt = Inr (r, fallback, trace)"
    and au: "authorize_group ctx (rr_group r) = Inr ()" and who: "assignee rt r s = Inr who"
    and asg: "assign rt (rr_group r) (rr_group_code r) who s = Inr (Some v, s1)"
    and rec: "record_assignment rt v user (if fallback then ''DEFAULT_ROUTE'' else ''ROUTING_RULE'')
       (correlation_id ctx) (request_id ctx) (Some r) fallback (routing_trace env rt trace) s1 = Inr ((), t)"
    and rep: "\<not> rep"
    unfolding route_work_def by (auto simp: bind_liftS_iff elim!: bindS_E split: prod.splits)
  from lk obtain x where x: "visible_ticket ctx tenant key s = Some x" "x \<in> set (tickets s)"
    "routing_ticket_of s x = Some rt" "t_row_version x = version" by (rule locked_ticket_facts)
  note a = assign_effect [OF asg x(3)] and e = record_assignment_effect [OF rec]
  show thesis
    by (rule that [of x rt r fallback trace who v])
      (use x sel au who rep a e in \<open>simp_all add: config_frame_def\<close>)
qed

lemma manual_work_effect:
  assumes "manual_work ctx tenant user key cmd s = Inr (((ans, rep), res, payload), t)"
  obtains x rt code who v where "\<not> rep" "x \<in> set (tickets s)"
    "visible_ticket ctx tenant key s = Some x" "t_row_version x = mc_row_version cmd"
    "routing_ticket_of s x = Some rt" "authorize_group ctx (mc_group cmd) = Inr ()"
    "target tenant (mc_group cmd) (mc_assignee cmd) s = Some (code, who)"
    "tickets t = map (\<lambda>y. if at_same_version x y then assigned (mc_group cmd) who y else y) (tickets s)"
    "as_group v = mc_group cmd" "as_assignee v = who"
    "assignment_history t = assignment_history s @
      [history_of rt v (''MANUAL: '' @ collapse (mc_reason cmd)) None user]"
    "config_frame s t" "idempotency t = idempotency s"
proof -
  from assms obtain rt code who v s1 where
    lk: "locked_ticket ctx tenant key (mc_row_version cmd) s = Inr rt"
    and au: "authorize_group ctx (mc_group cmd) = Inr ()"
    and ta: "target tenant (mc_group cmd) (mc_assignee cmd) s = Some (code, who)"
    and asg: "assign rt (mc_group cmd) code who s = Inr (Some v, s1)"
    and rec: "record_assignment rt v user (''MANUAL: '' @ collapse (mc_reason cmd))
       (correlation_id ctx) (request_id ctx) None False PNone s1 = Inr ((), t)"
    and rep: "\<not> rep"
    unfolding manual_work_def by (auto simp: bind_liftS_iff elim!: bindS_E split: prod.splits)
  from lk obtain x where x: "visible_ticket ctx tenant key s = Some x" "x \<in> set (tickets s)"
    "routing_ticket_of s x = Some rt" "t_row_version x = mc_row_version cmd" by (rule locked_ticket_facts)
  note a = assign_effect [OF asg x(3)] and e = record_assignment_effect [OF rec]
  show thesis
    by (rule that [of x rt code who v])
      (use x au ta rep a e in \<open>simp_all add: config_frame_def\<close>)
qed

interpretation rw: idempotent_use_case "route_work env ctx tenant user key version"
  for env ctx tenant user key version
proof
  show "keeps idem_frame (route_work env ctx tenant user key version)"
  proof
    fix s y t assume run: "route_work env ctx tenant user key version s = Inr (y, t)"
    obtain ans rep res payload where y: "y = ((ans, rep), res, payload)" by (cases y) auto
    from run [unfolded y] show "idem_frame s t" by (rule route_work_effect) (simp add: idem_frame_def)
  qed
qed

interpretation mw: idempotent_use_case "manual_work ctx tenant user key cmd"
  for ctx tenant user key cmd
proof
  show "keeps idem_frame (manual_work ctx tenant user key cmd)"
  proof
    fix s y t assume run: "manual_work ctx tenant user key cmd s = Inr (y, t)"
    obtain ans rep res payload where y: "y = ((ans, rep), res, payload)" by (cases y) auto
    from run [unfolded y] show "idem_frame s t" by (rule manual_work_effect) (simp add: idem_frame_def)
  qed
qed

subsection \<open>The use cases\<close>

lemma answered_fresh:
  assumes "answered ctx key (assignment_body ctx tenant user key opn ikey h work) db = (Inr (t0, payload, False), db')"
  obtains s1 s2 res pay where "ticket_frame db s1" "work s1 = Inr (((payload, False), res, pay), s2)" "ticket_frame s2 db'"
    "\<not> is_completed tenant opn ikey db"
    "idempotent_call tenant user opn ikey h (\<lambda>r. ret (idem_payload r, True)) work db = Inr ((payload, False), db')"
proof -
  from assms have call: "idempotent_call tenant user opn ikey h (\<lambda>r. ret (idem_payload r, True)) work db
      = Inr ((payload, False), db')"
    by (auto simp: answered_def assignment_body_def bind_liftS_iff rbind_def split: sum.splits elim!: bindS_E)
  then have new: "\<not> is_completed tenant opn ikey db"
    by (auto simp: idempotent_call_def elim!: bindS_E dest: claim_status)
  from idempotent_call_fresh [OF call new] obtain r s1 res pay s2 where
    "claim_checked tenant user opn ikey h db = Inr (r, s1)" "work s1 = Inr (((payload, False), res, pay), s2)"
    "complete_idempotency (idem_id r) res pay s2 = Inr ((), db')" .
  with call new show thesis
    by (intro that [of s1 res pay s2]) (auto dest: keepsD [OF claim_frames(2)] keepsD [OF complete_frames(2)])
qed

text \<open>What the queries of this component read is in the ticket frame.\<close>

lemma routing_reads:
  assumes "ticket_frame s t"
  shows "visible_ticket ctx tenant key t = visible_ticket ctx tenant key s"
    "routing_ticket_of t = routing_ticket_of s" "rule_versions now rt t = rule_versions now rt s"
    "target te g a t = target te g a s" "assignee rt r t = assignee rt r s"
    "eligible t te g = eligible s te g" "assignment_count t g u = assignment_count s g u"
proof -
  have f: "tickets t = tickets s" "assignment_history t = assignment_history s" "statuses t = statuses s"
    "users t = users s" "groups t = groups s" "members t = members s" "service_nodes t = service_nodes s"
    "routing_rules t = routing_rules s"
    using assms by (simp_all add: frame_defs)
  show "visible_ticket ctx tenant key t = visible_ticket ctx tenant key s" by (simp add: visible_ticket_def f)
  have node: "node_by_id t = node_by_id s" by (simp add: fun_eq_iff node_by_id_def f cong: option.case_cong)
  then have "service_code t = service_code s" by (simp add: fun_eq_iff service_code_def cong: option.case_cong)
  with node show "routing_ticket_of t = routing_ticket_of s"
    by (simp add: fun_eq_iff routing_ticket_of_def f)
  have grp: "active_group t = active_group s" and usr: "active_user t = active_user s"
    by (simp_all add: fun_eq_iff active_group_def active_user_def f)
  show "rule_versions now rt t = rule_versions now rt s" by (simp add: rule_versions_def f grp)
  have tg: "target te g a t = target te g a s" for te g a unfolding target_def f grp usr by (rule refl)
  then show "target te g a t = target te g a s" .
  have el: "eligible t te g = eligible s te g" for te g by (simp add: eligible_def f usr)
  then show "eligible t te g = eligible s te g" .
  have ct: "assignment_count t g u = assignment_count s g u" for g u by (simp add: assignment_count_def f)
  then show "assignment_count t g u = assignment_count s g u" .
  show "assignee rt r t = assignee rt r s" by (simp add: assignee_def round_robin_assignee_def tg el ct)
qed

lemma route_fresh:
  assumes "route env ctx key version ikey db = (Inr (t0, answer, False), db')"
  obtains tenant user where "identity_or AuthorizationError ctx = Inr (tenant, user)"
    "answered ctx key (assignment_body ctx tenant user key ''TICKET_ROUTE'' ikey
      (env_digest env [(''ticket_key'', PStr key), (''row_version'', PInt version)])
      (route_work env ctx tenant user key version)) db = (Inr (t0, answer, False), db')"
  using assms by (auto simp: route_def split: if_splits sum.splits)

lemma manual_fresh:
  assumes "assign_manual env ctx key cmd ikey db = (Inr (t0, answer, False), db')"
  obtains tenant user h where "identity_or AuthorizationError ctx = Inr (tenant, user)"
    "3 \<le> length (collapse (mc_reason cmd))"
    "answered ctx key (assignment_body ctx tenant user key ''TICKET_ASSIGN_MANUAL'' ikey h
      (manual_work ctx tenant user key cmd)) db = (Inr (t0, answer, False), db')"
  using assms by (auto simp: assign_manual_def split: if_splits sum.splits)

text \<open>C18: a routing that is not a replay was asked for at the ticket's current version; it puts exactly
  that ticket into the group of the rule that selection picks, a group the caller may assign to, with
  the assignee the rule's method gives, and appends one history row saying so.\<close>

theorem route_assigns:
  assumes "route env ctx key version ikey db = (Inr (t0, answer, False), db')"
  shows "\<exists>tenant user x rt r fallback trace who h. ctx_tenant_id ctx = Some tenant
    \<and> visible_ticket ctx tenant key db = Some x \<and> t_row_version x = version
    \<and> routing_ticket_of db x = Some rt
    \<and> select_rule (rule_versions (env_now env) rt db) rt = Inr (r, fallback, trace)
    \<and> authorize_group ctx (rr_group r) = Inr () \<and> assignee rt r db = Inr who
    \<and> tickets db' = map (\<lambda>y. if at_same_version x y then assigned (rr_group r) who y else y) (tickets db)
    \<and> assignment_history db' = assignment_history db @ [h]
    \<and> h_ticket h = t_id x \<and> h_to_group h = rr_group r \<and> h_to_assignee h = who \<and> h_by h = user
    \<and> config_frame db db'"
proof -
  from assms obtain tenant user where who: "identity_or AuthorizationError ctx = Inr (tenant, user)"
    and ans: "answered ctx key (assignment_body ctx tenant user key ''TICKET_ROUTE'' ikey
      (env_digest env [(''ticket_key'', PStr key), (''row_version'', PInt version)])
      (route_work env ctx tenant user key version)) db = (Inr (t0, answer, False), db')" by (rule route_fresh)
  from ans obtain s1 s2 res pay where f1: "ticket_frame db s1" and f2: "ticket_frame s2 db'"
    and w: "route_work env ctx tenant user key version s1 = Inr (((answer, False), res, pay), s2)"
    by (rule answered_fresh)
  have te: "ctx_tenant_id ctx = Some tenant" using who by (auto simp: identity_or_def split: option.splits)
  have same: "tickets s1 = tickets db" "assignment_history s1 = assignment_history db" "config_frame db s1"
    "tickets db' = tickets s2" "assignment_history db' = assignment_history s2" "config_frame s2 db'"
    using f1 f2 by (simp_all add: ticket_frame_def)
  from w show ?thesis
  proof (rule route_work_effect)
    fix x rt r fallback trace who v
    assume x: "visible_ticket ctx tenant key s1 = Some x" "t_row_version x = version"
      "routing_ticket_of s1 x = Some rt"
      "select_rule (rule_versions (env_now env) rt s1) rt = Inr (r, fallback, trace)"
      "authorize_group ctx (rr_group r) = Inr ()" "assignee rt r s1 = Inr who"
      "tickets s2 = map (\<lambda>y. if at_same_version x y then assigned (rr_group r) who y else y) (tickets s1)"
      and v: "as_group v = rr_group r" "as_assignee v = who"
      and h: "assignment_history s2 = assignment_history s1 @ [history_of rt v
        (if fallback then ''DEFAULT_ROUTE'' else ''ROUTING_RULE'') (Some r) user]"
      and cf: "config_frame s1 s2"
    let ?h = "history_of rt v (if fallback then ''DEFAULT_ROUTE'' else ''ROUTING_RULE'') (Some r) user"
    have "h_ticket ?h = t_id x" "h_to_group ?h = rr_group r" "h_to_assignee ?h = who" "h_by ?h = user"
      using x(3) v by (auto simp: history_of_def routing_ticket_of_def Let_def)
    moreover have "config_frame db db'" using same cf by (blast intro: cf.trans)
    ultimately show ?thesis
      using te x h unfolding routing_reads [OF f1] same by blast
  qed
qed

text \<open>The recorded reason of a manual assignment within the request's limit of 64 characters fits its
  80-character column, the target is an active group of the tenant and the assignee, if one is
  named, an active member of it.\<close>

lemma manual_assigns:
  assumes "assign_manual env ctx key cmd ikey db = (Inr (t0, answer, False), db')"
    and "length (mc_reason cmd) \<le> 64"
  shows "\<exists>tenant x who h. ctx_tenant_id ctx = Some tenant
    \<and> visible_ticket ctx tenant key db = Some x \<and> t_row_version x = mc_row_version cmd
    \<and> (\<exists>code. target tenant (mc_group cmd) (mc_assignee cmd) db = Some (code, who)) \<and> who = mc_assignee cmd
    \<and> tickets db' = map (\<lambda>y. if at_same_version x y then assigned (mc_group cmd) who y else y) (tickets db)
    \<and> assignment_history db' = assignment_history db @ [h]
    \<and> h_ticket h = t_id x \<and> h_to_group h = mc_group cmd \<and> h_to_assignee h = who
    \<and> 11 \<le> length (h_reason h) \<and> length (h_reason h) \<le> 80"
proof -
  from assms(1) obtain tenant user h where who: "identity_or AuthorizationError ctx = Inr (tenant, user)"
    and len: "3 \<le> length (collapse (mc_reason cmd))"
    and ans: "answered ctx key (assignment_body ctx tenant user key ''TICKET_ASSIGN_MANUAL'' ikey h
      (manual_work ctx tenant user key cmd)) db = (Inr (t0, answer, False), db')" by (rule manual_fresh)
  from ans obtain s1 s2 res pay where f1: "ticket_frame db s1" and f2: "ticket_frame s2 db'"
    and w: "manual_work ctx tenant user key cmd s1 = Inr (((answer, False), res, pay), s2)"
    by (rule answered_fresh)
  have te: "ctx_tenant_id ctx = Some tenant" using who by (auto simp: identity_or_def split: option.splits)
  have same: "tickets s1 = tickets db" "assignment_history s1 = assignment_history db"
    "tickets db' = tickets s2" "assignment_history db' = assignment_history s2"
    using f1 f2 by (simp_all add: ticket_frame_def)
  from w show ?thesis
  proof (rule manual_work_effect)
    fix x rt code who v
    assume x: "visible_ticket ctx tenant key s1 = Some x" "t_row_version x = mc_row_version cmd"
      and rt: "routing_ticket_of s1 x = Some rt"
      and ta: "target tenant (mc_group cmd) (mc_assignee cmd) s1 = Some (code, who)"
      and t: "tickets s2 = map (\<lambda>y. if at_same_version x y then assigned (mc_group cmd) who y else y) (tickets s1)"
      and v: "as_group v = mc_group cmd" "as_assignee v = who"
      and h: "assignment_history s2 = assignment_history s1 @
        [history_of rt v (''MANUAL: '' @ collapse (mc_reason cmd)) None user]"
    let ?h = "history_of rt v (''MANUAL: '' @ collapse (mc_reason cmd)) None user"
    have "h_ticket ?h = t_id x" "h_to_group ?h = mc_group cmd" "h_to_assignee ?h = who"
      using rt v by (auto simp: history_of_def routing_ticket_of_def Let_def)
    moreover have "11 \<le> length (h_reason ?h)" "length (h_reason ?h) \<le> 80"
      using len length_collapse [of "mc_reason cmd"] assms(2) by (simp_all add: history_of_def)
    moreover have "who = mc_assignee cmd" using ta by (auto simp: target_def split: option.splits if_splits)
    ultimately show ?thesis
      using te x ta t h unfolding routing_reads [OF f1] same by blast
  qed
qed

subsection \<open>Round robin\<close>

definition balanced :: "helpdesk_db \<Rightarrow> uuid \<Rightarrow> bool" where
  "balanced db tenant \<longleftrightarrow> (\<forall>g. \<forall>u\<in>set (eligible db tenant g). \<forall>v\<in>set (eligible db tenant g).
     assignment_count db g u \<le> assignment_count db g v + 1)"

definition even_rules :: "helpdesk_db \<Rightarrow> bool" where
  "even_rules db \<longleftrightarrow> (\<forall>r\<in>set (routing_rules db). rr_method (rrr_version r) \<in> {''ROUND_ROBIN'', ''GROUP_ONLY''})"

lemma round_robin_minimal:
  assumes "round_robin_assignee tenant g db = Some u"
  shows "u \<in> set (eligible db tenant g)
    \<and> (\<forall>v\<in>set (eligible db tenant g). assignment_count db g u \<le> assignment_count db g v)"
proof -
  let ?f = "\<lambda>u. (assignment_count db g u, u)"
  from assms obtain us where s: "sort_key ?f (eligible db tenant g) = u # us"
    by (auto simp: round_robin_assignee_def split: list.splits)
  then have members: "set (eligible db tenant g) = set (u # us)" unfolding s [symmetric] by simp
  have "sorted (map ?f (u # us))" unfolding s [symmetric] by (rule sorted_sort_key)
  then have "\<forall>v\<in>set us. ?f u \<le> ?f v" by simp
  then have "\<forall>v\<in>set us. assignment_count db g u \<le> assignment_count db g v" by (auto simp: less_eq_prod_def)
  with members show ?thesis by simp
qed

lemma eligible_frame: "config_frame s t \<Longrightarrow> eligible t te g = eligible s te g"
  by (simp add: eligible_def active_user_def config_frame_def)

lemma count_append:
  assumes "assignment_history t = assignment_history s @ [h]"
  shows "assignment_count t g u = assignment_count s g u
    + (if h_to_group h = g \<and> h_to_assignee h = Some u then 1 else 0)"
  using assms by (simp add: assignment_count_def)

lemma rule_versions_method:
  assumes "r \<in> set (rule_versions now rt db)" "even_rules db"
  shows "rr_method r \<in> {''ROUND_ROBIN'', ''GROUP_ONLY''}"
proof -
  have mf: "set (List.map_filter f xs) = {y. \<exists>x\<in>set xs. f x = Some y}" for f :: "routing_rule_row \<Rightarrow> routing_rule_version option" and xs
    by (induction xs) (auto simp: List.map_filter_simps split: option.splits)
  from assms(1) obtain row where "row \<in> set (routing_rules db)" "rr_method r = rr_method (rrr_version row)"
    by (auto simp: rule_versions_def mf)
  with assms(2) show ?thesis by (simp add: even_rules_def)
qed

text \<open>One routing, whatever comes of it.\<close>

lemma route_keeps_balance:
  assumes bal: "balanced db tenant" and ev: "even_rules db" and te: "ctx_tenant_id ctx = Some tenant"
  shows "balanced (snd (route env ctx key version ikey db)) tenant
    \<and> even_rules (snd (route env ctx key version ikey db))"
proof -
  have same: "balanced t tenant \<and> even_rules t" if "ticket_frame db t" for t
    using bal ev that by (simp add: balanced_def even_rules_def routing_reads [OF that]) (simp add: frame_defs)
  show ?thesis
  proof (cases "\<exists>tenant' user q t. is_allowed ctx TICKET_ROUTE None \<and> identity_or AuthorizationError ctx = Inr (tenant', user)
      \<and> assignment_body ctx tenant' user key ''TICKET_ROUTE'' ikey
        (env_digest env [(''ticket_key'', PStr key), (''row_version'', PInt version)])
        (route_work env ctx tenant' user key version) db = Inr (q, t)")
    case False
    then have "snd (route env ctx key version ikey db) = db"
      by (auto simp: route_def answered_def split: sum.splits)
    with same [OF tf.refl] show ?thesis by simp
  next
    case True
    then obtain tenant' user payload rep t where al: "is_allowed ctx TICKET_ROUTE None"
      and who: "identity_or AuthorizationError ctx = Inr (tenant', user)"
      and body: "assignment_body ctx tenant' user key ''TICKET_ROUTE'' ikey
        (env_digest env [(''ticket_key'', PStr key), (''row_version'', PInt version)])
        (route_work env ctx tenant' user key version) db = Inr ((payload, rep), t)" by auto
    have res: "snd (route env ctx key version ikey db) = t"
      using al who body by (simp add: route_def answered_def)
    have te': "tenant' = tenant" using who te by (auto simp: identity_or_def split: option.splits)
    from body obtain r s1 where cl: "claim_checked tenant user ''TICKET_ROUTE'' ikey
        (env_digest env [(''ticket_key'', PStr key), (''row_version'', PInt version)]) db = Inr (r, s1)"
      and rest: "(if idem_status r = ''COMPLETED'' then ret (idem_payload r, True)
        else bindS (route_work env ctx tenant user key version) (\<lambda>(x, resource, payload).
          bindS (complete_idempotency (idem_id r) resource payload) (\<lambda>_. ret x))) s1 = Inr ((payload, rep), t)"
      unfolding te' assignment_body_def idempotent_call_def by (auto simp: bind_liftS_iff elim!: bindS_E)
    have f1: "ticket_frame db s1" by (rule keepsD [OF claim_frames(2) cl])
    show ?thesis
    proof (cases "idem_status r = ''COMPLETED''")
      case True
      with rest same [OF f1] res show ?thesis by simp
    next
      case False
      from rest False obtain res' pay s2 where w: "route_work env ctx tenant user key version s1 = Inr (((payload, rep), res', pay), s2)"
        and fin: "complete_idempotency (idem_id r) res' pay s2 = Inr ((), t)"
        by (auto elim!: bindS_E)
      have f2: "ticket_frame s2 t" by (rule keepsD [OF complete_frames(2) fin])
      note [simp] = routing_reads [OF f2]
      from w have "balanced s2 tenant \<and> even_rules s2"
      proof (rule route_work_effect)
        fix x rt rl fallback trace who v
        assume x: "routing_ticket_of s1 x = Some rt" "visible_ticket ctx tenant key s1 = Some x"
          and sel: "select_rule (rule_versions (env_now env) rt s1) rt = Inr (rl, fallback, trace)"
          and as: "assignee rt rl s1 = Inr who" and v: "as_group v = rr_group rl" "as_assignee v = who"
          and h: "assignment_history s2 = assignment_history s1 @ [history_of rt v
            (if fallback then ''DEFAULT_ROUTE'' else ''ROUTING_RULE'') (Some rl) user]"
          and cf: "config_frame s1 s2"
        have b1: "balanced s1 tenant" "even_rules s1" using same [OF f1] by simp_all
        have ev2: "even_rules s2" using b1(2) cf by (simp add: even_rules_def config_frame_def)
        have "rl \<in> set (rule_versions (env_now env) rt s1)"
          using selected_rule [OF sel] by blast
        then have m: "rr_method rl \<in> {''ROUND_ROBIN'', ''GROUP_ONLY''}" using b1(2) by (rule rule_versions_method)
        have rt: "rt_tenant rt = tenant"
          using x find_Some_in by (fastforce simp: routing_ticket_of_def visible_ticket_def visible_to_def Let_def)
        have "who = None \<or> (\<exists>u. who = Some u \<and> round_robin_assignee tenant (rr_group rl) s1 = Some u)"
          using as m by (auto simp: assignee_def rt split: option.splits)
        then show ?thesis
        proof
          assume "who = None"
          then have "assignment_count s2 g u = assignment_count s1 g u" for g u
            by (simp add: count_append [OF h] history_of_def v)
          with b1(1) ev2 show ?thesis by (simp add: balanced_def eligible_frame [OF cf])
        next
          assume "\<exists>u. who = Some u \<and> round_robin_assignee tenant (rr_group rl) s1 = Some u"
          then obtain u where u: "who = Some u" "round_robin_assignee tenant (rr_group rl) s1 = Some u" by blast
          note min = round_robin_minimal [OF u(2)]
          have "assignment_count s2 g w = assignment_count s1 g w + (if g = rr_group rl \<and> w = u then 1 else 0)" for g w
            by (auto simp: count_append [OF h] history_of_def v u(1))
          moreover have "assignment_count s1 g w \<le> assignment_count s1 g z + 1"
            if "w \<in> set (eligible s1 tenant g)" "z \<in> set (eligible s1 tenant g)" for g w z
            using b1(1) that by (simp add: balanced_def)
          moreover have "assignment_count s1 (rr_group rl) u \<le> assignment_count s1 (rr_group rl) z"
            if "z \<in> set (eligible s1 tenant (rr_group rl))" for z using min that by blast
          ultimately have "balanced s2 tenant"
            unfolding balanced_def eligible_frame [OF cf] by (auto simp: trans_le_add1 le_SucI)
          with ev2 show ?thesis by simp
        qed
      qed
      then show ?thesis
        unfolding res using f2 by (simp add: balanced_def even_rules_def frame_defs)
    qed
  qed
qed

definition route_all :: "(service_env \<times> request_context \<times> string \<times> int \<times> string) list \<Rightarrow> helpdesk_db \<Rightarrow> helpdesk_db" where
  "route_all calls db = foldl (\<lambda>db (env, ctx, key, version, ikey). snd (route env ctx key version ikey db)) db calls"

text \<open>C17: round robin is fair. Under rules that assign by round robin or to the group only, no sequence of
  routing calls of a tenant, successful, failed or repeated, ever gives an eligible analyst of a group
  two assignments more than another, if none had when it began.\<close>

theorem round_robin_fair:
  assumes "balanced db tenant" "even_rules db"
    and "\<forall>(env, ctx, key, version, ikey)\<in>set calls. ctx_tenant_id ctx = Some tenant"
  shows "balanced (route_all calls db) tenant"
proof -
  have "balanced (route_all calls db) tenant \<and> even_rules (route_all calls db)"
    using assms
  proof (induction calls arbitrary: db)
    case (Cons c calls)
    obtain env ctx key version ikey where c: "c = (env, ctx, key, version, ikey)" by (cases c)
    have "balanced (snd (route env ctx key version ikey db)) tenant
        \<and> even_rules (snd (route env ctx key version ikey db))"
      by (rule route_keeps_balance) (use Cons.prems c in auto)
    with Cons.IH Cons.prems(3) show ?case by (simp add: route_all_def c)
  qed (simp add: route_all_def)
  then show ?thesis ..
qed

subsection \<open>The properties at work\<close>

lemmas routing_evaluation = shared_steps route_def answered_def assignment_body_def idempotent_call_def
  routing_ticket_query_def routing_ticket_of_def node_by_id_def service_code_def module_code_def
  route_work_def locked_ticket_def select_rule_def rule_versions_def active_group_def rule_in_force_def
  in_force_def is_default_def is_empty_doc_def keyed_def rule_order_def trace_entry_def default_entry_def
  routing_values_def uuid_or_none_def text_or_none_def authorize_group_def assignee_def
  round_robin_assignee_def eligible_def active_user_def assignment_count_def assign_def
  record_assignment_def record_history_def group_items_def evaluate_leaf_def known_operator_def
  operators_def dget_none_def apply_operator_def pure_operator_def whenS_def

abbreviation manager_context :: request_context where
  "manager_context \<equiv> demo_context 7 ''SUPPORT_MANAGER''"

lemma manager_allowed: "is_allowed manager_context TICKET_ROUTE None"
  "is_allowed manager_context TICKET_ASSIGN_MANUAL None"
  "is_allowed manager_context TICKET_ANALYST_READ None" "\<not> is_allowed manager_context TICKET_READ_ALL None"
  by code_simp+

lemma demo_routes:
  "\<exists>t payload db'. route demo_env manager_context ''HR-2'' 4 ''k'' demo_db = (Inr (t, payload, False), db')"
  by (simp add: routing_evaluation manager_allowed demo_data demo_env_def)

theorem route_assigns_witness:
  "\<exists>x who. visible_ticket manager_context 9 ''HR-2'' demo_db = Some x \<and> t_row_version x = 4
    \<and> tickets (snd (route demo_env manager_context ''HR-2'' 4 ''k'' demo_db))
      = map (\<lambda>y. if at_same_version x y then assigned 60 who y else y) (tickets demo_db)"
proof -
  obtain t payload db' where run: "route demo_env manager_context ''HR-2'' 4 ''k'' demo_db
    = (Inr (t, payload, False), db')" using demo_routes by blast
  from route_assigns [OF run] obtain tenant x who and r :: routing_rule_version
    where te: "ctx_tenant_id manager_context = Some tenant"
    and x: "visible_ticket manager_context tenant ''HR-2'' demo_db = Some x" "t_row_version x = 4"
    and au: "authorize_group manager_context (rr_group r) = Inr ()"
    and t: "tickets db' = map (\<lambda>y. if at_same_version x y then assigned (rr_group r) who y else y) (tickets demo_db)"
    by (elim exE conjE) (rule that)
  from au te have eq: "rr_group r = 60" "tenant = 9"
    by (simp_all add: authorize_group_def manager_allowed split: if_splits)
  show ?thesis unfolding run snd_conv
    by (intro exI conjI) (rule x [unfolded eq] t [unfolded eq])+
qed

definition hand_over :: manual_command where
  "hand_over = \<lparr>mc_group = 60, mc_assignee = Some 8, mc_reason = ''on leave'', mc_row_version = 4\<rparr>"

lemma hand_over_reason: "collapse ''on leave'' = ''on leave''"
  by code_simp

lemma manual_assigns_witness:
  "\<exists>x h. visible_ticket manager_context 9 ''HR-2'' demo_db = Some x
    \<and> assignment_history (snd (assign_manual demo_env manager_context ''HR-2'' hand_over ''k'' demo_db)) = [h]
    \<and> h_to_assignee h = Some 8"
proof -
  obtain t payload db' where run: "assign_manual demo_env manager_context ''HR-2'' hand_over ''k'' demo_db
    = (Inr (t, payload, False), db')"
    by (simp add: routing_evaluation assign_manual_def manual_work_def target_def manager_allowed demo_data
        demo_env_def hand_over_def hand_over_reason)
  have "length (mc_reason hand_over) \<le> 64" by (simp add: hand_over_def)
  from manual_assigns [OF run this] obtain tenant x and h :: history_row where "ctx_tenant_id manager_context = Some tenant"
    "visible_ticket manager_context tenant ''HR-2'' demo_db = Some x" "h_to_assignee h = mc_assignee hand_over"
    "assignment_history db' = assignment_history demo_db @ [h]"
    by (elim exE conjE) (rule that, simp_all only:)
  moreover have "assignment_history demo_db = []" "mc_assignee hand_over = Some 8"
    by (simp_all add: demo_db_def hand_over_def)
  ultimately have "visible_ticket manager_context 9 ''HR-2'' demo_db = Some x" "assignment_history db' = [h]"
    "h_to_assignee h = Some 8" by simp_all
  then show ?thesis unfolding run snd_conv by blast
qed

abbreviation demo_versions :: "routing_rule_version list" where
  "demo_versions \<equiv> [demo_rule 70 100 (PDict []) ''ROUND_ROBIN'', demo_rule 71 10 priority_rule ''ROUND_ROBIN'']"

theorem select_rule_permutation_witness:
  "\<forall>rt. select_rule demo_versions rt = select_rule (rev demo_versions) rt"
  by (rule allI, rule select_rule_permutation) (simp_all add: demo_rule_def)


theorem round_robin_fair_witness:
  "balanced (route_all [(demo_env, manager_context, ''HR-2'', 4, ''k''),
      (demo_env, manager_context, ''HR-1'', 4, ''j'')] demo_db) 9"
  by (rule round_robin_fair)
    (simp_all add: balanced_def even_rules_def assignment_count_def demo_data)

end
