(* ===== verification/Approvals.thy ===== *)
theory Approvals
  imports HelpdeskDb "HOL-Library.Product_Lexorder"
begin

text \<open>
  The approval engine: \<open>approvals/models.py\<close>, the statements of \<open>approvals/repository.py\<close> and the
  orchestration of \<open>approvals/service.py\<close>. \<open>request\<close> resolves the approvers of a published definition
  and opens an approval, \<open>decide\<close> records one approver's decision, tallies it and, when the tally is
  final, moves the ticket along the continuation transition of the definition.
\<close>

subsection \<open>Records\<close>

record approval_ticket =
  at_ticket :: uuid
  at_tenant :: uuid
  at_key :: string
  at_project :: uuid
  at_reporter :: uuid
  at_requested_for :: "uuid option"

record locked_approval =
  la_id :: uuid
  la_tenant :: uuid
  la_ticket :: uuid
  la_ticket_key :: string
  la_requester :: uuid
  la_status :: string
  la_row_version :: int
  la_mode :: string
  la_rule :: pyval
  la_approved_transition :: "uuid option"
  la_rejected_transition :: "uuid option"
  la_self_approval :: bool
  la_expires_at :: "instant option"
  la_approver :: uuid
  la_decision :: "string option"

record approval_view =
  vw_approval :: uuid
  vw_ticket :: uuid
  vw_ticket_key :: string
  vw_summary :: string
  vw_version :: uuid
  vw_code :: string
  vw_name :: string
  vw_mode :: string
  vw_status :: string
  vw_requested_at :: instant
  vw_completed_at :: "instant option"
  vw_expires_at :: "instant option"
  vw_row_version :: int
  vw_approver :: uuid
  vw_sequence :: nat
  vw_decision :: "string option"
  vw_comment :: "string option"
  vw_decided_at :: "instant option"

datatype decision = APPROVE | REJECT

record decision_command =
  cmd_decision :: decision
  cmd_comment :: "string option"
  cmd_expected_version :: int

subsection \<open>Queries\<close>

definition requested_for_or_reporter :: "uuid option \<Rightarrow> uuid \<Rightarrow> uuid" where
  "requested_for_or_reporter requested reporter = (case requested of None \<Rightarrow> reporter | Some u \<Rightarrow> u)"

definition ticket_for_approval :: "uuid \<Rightarrow> uuid \<Rightarrow> helpdesk_db \<Rightarrow> approval_ticket option" where
  "ticket_for_approval tenant ticket db = map_option
     (\<lambda>t. \<lparr>at_ticket = t_id t, at_tenant = t_tenant t, at_key = t_key t, at_project = t_project t,
       at_reporter = t_reporter t, at_requested_for = t_requested_for t\<rparr>)
     (find (\<lambda>t. t_tenant t = tenant \<and> t_id t = ticket) (tickets db))"

definition is_published :: "instant \<Rightarrow> uuid \<Rightarrow> uuid \<Rightarrow> string \<Rightarrow> approval_definition_row \<Rightarrow> bool" where
  "is_published now tenant project code r \<longleftrightarrow>
     ad_tenant (adr_definition r) = tenant \<and> ad_project (adr_definition r) = project
     \<and> ad_code (adr_definition r) = code \<and> adr_active r \<and> adr_status r = ''PUBLISHED''
     \<and> in_force (adr_from r) (adr_to r) now"

definition published_definition ::
  "instant \<Rightarrow> uuid \<Rightarrow> uuid \<Rightarrow> string \<Rightarrow> helpdesk_db \<Rightarrow> approval_definition option" where
  "published_definition now tenant project code db =
     (case sort_key (\<lambda>r. - adr_number r)
        (filter (is_published now tenant project code) (approval_definitions db)) of
        [] \<Rightarrow> None
      | r # _ \<Rightarrow> Some (adr_definition r))"

definition active_users :: "uuid \<Rightarrow> uuid list \<Rightarrow> helpdesk_db \<Rightarrow> uuid set" where
  "active_users tenant ids db =
     set (map u_id (filter (\<lambda>u. u_tenant u = tenant \<and> u_active u \<and> u_id u \<in> set ids) (users db)))"

definition manager_for :: "uuid \<Rightarrow> uuid \<Rightarrow> helpdesk_db \<Rightarrow> uuid option" where
  "manager_for tenant user db =
     (case find (\<lambda>u. u_tenant u = tenant \<and> u_id u = user \<and> u_active u) (users db) of
        None \<Rightarrow> None
      | Some subject \<Rightarrow> map_option u_id
          (find (\<lambda>m. Some (u_id m) = u_manager subject \<and> u_tenant m = u_tenant subject \<and> u_active m)
            (users db)))"

definition definition_version :: "uuid \<Rightarrow> helpdesk_db \<Rightarrow> approval_definition option" where
  "definition_version version db = map_option adr_definition
     (find (\<lambda>r. ad_version (adr_definition r) = version) (approval_definitions db))"

definition approver_rows :: "uuid \<Rightarrow> helpdesk_db \<Rightarrow> approver_row list" where
  "approver_rows approval db = filter (\<lambda>v. av_approval v = approval) (approvers db)"

definition lock_for_decision ::
  "uuid \<Rightarrow> uuid \<Rightarrow> uuid \<Rightarrow> helpdesk_db \<Rightarrow> locked_approval option" where
  "lock_for_decision tenant approval user db =
     (case (find (\<lambda>a. ap_tenant a = tenant \<and> ap_id a = approval) (approvals db),
            find (\<lambda>v. av_user v = user) (approver_rows approval db)) of
        (Some a, Some v) \<Rightarrow>
          (case (find (\<lambda>t. t_id t = ap_ticket a) (tickets db), definition_version (ap_version a) db) of
             (Some t, Some d) \<Rightarrow> Some \<lparr>la_id = ap_id a, la_tenant = ap_tenant a,
               la_ticket = ap_ticket a, la_ticket_key = t_key t,
               la_requester = requested_for_or_reporter (t_requested_for t) (t_reporter t),
               la_status = ap_status a, la_row_version = ap_row_version a, la_mode = ad_mode d,
               la_rule = ad_rule d, la_approved_transition = ad_approved_transition d,
               la_rejected_transition = ad_rejected_transition d,
               la_self_approval = ad_self_approval d, la_expires_at = ap_expires_at a,
               la_approver = av_user v, la_decision = av_decision v\<rparr>
           | _ \<Rightarrow> None)
      | _ \<Rightarrow> None)"

definition count_rows :: "('a \<Rightarrow> bool) \<Rightarrow> 'a list \<Rightarrow> nat" where
  "count_rows p xs = length (filter p xs)"

definition decision_counts :: "uuid \<Rightarrow> helpdesk_db \<Rightarrow> nat \<times> nat \<times> nat" where
  "decision_counts approval db = (let rows = approver_rows approval db in
     (length rows, count_rows (\<lambda>v. av_decision v = Some ''APPROVED'') rows,
      count_rows (\<lambda>v. av_decision v = Some ''REJECTED'') rows))"

definition view_of :: "helpdesk_db \<Rightarrow> approval_row \<Rightarrow> approver_row \<Rightarrow> approval_view option" where
  "view_of db a v =
     (case (find (\<lambda>t. t_id t = ap_ticket a) (tickets db),
            find (\<lambda>r. ad_id (adr_definition r) = ap_definition a) (approval_definitions db),
            definition_version (ap_version a) db) of
        (Some t, Some r, Some d) \<Rightarrow> Some \<lparr>vw_approval = ap_id a, vw_ticket = ap_ticket a,
          vw_ticket_key = t_key t, vw_summary = t_summary t, vw_version = ap_version a,
          vw_code = ad_code (adr_definition r), vw_name = ad_name (adr_definition r),
          vw_mode = ad_mode d, vw_status = ap_status a, vw_requested_at = ap_requested_at a,
          vw_completed_at = ap_completed_at a, vw_expires_at = ap_expires_at a,
          vw_row_version = ap_row_version a, vw_approver = av_user v, vw_sequence = av_sequence v,
          vw_decision = av_decision v, vw_comment = av_comment v, vw_decided_at = av_decided_at v\<rparr>
      | _ \<Rightarrow> None)"

definition views_for_user :: "uuid \<Rightarrow> uuid \<Rightarrow> helpdesk_db \<Rightarrow> approval_view list" where
  "views_for_user tenant user db = List.map_filter (\<lambda>(a, v). view_of db a v)
     [(a, v). a \<leftarrow> approvals db, ap_tenant a = tenant, v \<leftarrow> approver_rows (ap_id a) db, av_user v = user]"

definition list_for_user :: "uuid \<Rightarrow> uuid \<Rightarrow> helpdesk_db \<Rightarrow> approval_view list" where
  "list_for_user tenant user db =
     rev (sort_key (\<lambda>w. (vw_requested_at w, vw_approval w)) (views_for_user tenant user db))"

definition view_for_user :: "uuid \<Rightarrow> uuid \<Rightarrow> uuid \<Rightarrow> helpdesk_db \<Rightarrow> approval_view option" where
  "view_for_user tenant approval user db =
     find (\<lambda>w. vw_approval w = approval) (views_for_user tenant user db)"

subsection \<open>Writes\<close>

text \<open>\<open>_record_fact\<close>: the ticket event, the outbox message under its key, the audit row.\<close>

definition fact_key :: "string \<Rightarrow> uuid \<Rightarrow> pydict \<Rightarrow> string" where
  "fact_key type approval payload = type @ '':'' @ uuid_str approval @ '':'' @
     (case dget payload ''row_version'' of Some (PInt v) \<Rightarrow> int_str v | _ \<Rightarrow> int_str 1)"

definition record_fact ::
  "uuid \<Rightarrow> uuid \<Rightarrow> uuid \<Rightarrow> uuid \<Rightarrow> string \<Rightarrow> pydict \<Rightarrow> string \<Rightarrow> string \<Rightarrow> unit db_op" where
  "record_fact tenant ticket actor approval type payload corr req =
     bindS (insert_event tenant ticket type ''USER'' actor payload) (\<lambda>_.
     bindS (insert_outbox True tenant ''APPROVAL'' approval type payload
       (Some (fact_key type approval payload))) (\<lambda>_.
     insert_audit tenant actor type ''APPROVAL'' approval payload corr req))"

definition insert_approval :: "approval_row \<Rightarrow> unit db_op" where
  "insert_approval a db =
     (if ap_id a \<in> ap_id ` set (approvals db) then Inl (IntegrityError ''ticket_approval_pkey'')
      else if \<exists>b\<in>set (approvals db). ap_ticket b = ap_ticket a \<and> ap_definition b = ap_definition a
                \<and> ap_status b = ''PENDING''
      then Inl (IntegrityError ''ticket_approval_pending_definition_ux'')
      else if (case ap_expires_at a of None \<Rightarrow> False | Some t \<Rightarrow> t \<le> ap_requested_at a)
      then Inl (IntegrityError ''ticket_approval_temporal_ck'')
      else Inr ((), db\<lparr>approvals := approvals db @ [a]\<rparr>))"

definition insert_approver :: "uuid \<Rightarrow> nat \<times> uuid \<Rightarrow> unit db_op" where
  "insert_approver approval entry db =
     (if \<exists>v\<in>set (approvers db). av_approval v = approval \<and> av_user v = snd entry
      then Inl (IntegrityError ''ticket_approver_pkey'')
      else Inr ((), db\<lparr>approvers := approvers db @
        [\<lparr>av_approval = approval, av_user = snd entry, av_sequence = fst entry, av_decision = None,
          av_comment = None, av_decided_at = None\<rparr>]\<rparr>))"

definition requested_payload :: "uuid \<Rightarrow> approval_ticket \<Rightarrow> approval_definition \<Rightarrow> uuid list \<Rightarrow> pydict" where
  "requested_payload approval ticket d ids =
     [(''approval_id'', uuid_val approval), (''ticket_id'', uuid_val (at_ticket ticket)),
      (''ticket_key'', PStr (at_key ticket)), (''approval_code'', PStr (ad_code d)),
      (''approval_definition_version_id'', uuid_val (ad_version d)),
      (''approval_mode'', PStr (ad_mode d)), (''approver_user_ids'', PList (map uuid_val ids))]"

definition create_approval ::
  "service_env \<Rightarrow> approval_ticket \<Rightarrow> approval_definition \<Rightarrow> uuid list \<Rightarrow> uuid \<Rightarrow> string \<Rightarrow> string
     \<Rightarrow> uuid db_op" where
  "create_approval env ticket d ids actor corr req =
     bindS draw_uuid (\<lambda>approval.
     bindS (insert_approval \<lparr>ap_id = approval, ap_tenant = at_tenant ticket,
       ap_ticket = at_ticket ticket, ap_definition = ad_id d, ap_version = ad_version d,
       ap_status = ''PENDING'', ap_row_version = 1, ap_requested_at = env_now env,
       ap_completed_at = None,
       ap_expires_at = map_option (\<lambda>m. env_now env + m * 60000000) (ad_expires_after d)\<rparr>) (\<lambda>_.
     bindS (forS (insert_approver approval) (enumerate 1 ids)) (\<lambda>_.
     bindS (record_fact (at_tenant ticket) (at_ticket ticket) actor approval ''APPROVAL_REQUESTED''
       (requested_payload approval ticket d ids) corr req) (\<lambda>_.
     ret approval))))"

definition decide_row :: "instant \<Rightarrow> uuid \<Rightarrow> uuid \<Rightarrow> string \<Rightarrow> string option \<Rightarrow> approver_row \<Rightarrow> approver_row" where
  "decide_row now approval user code comment v =
     (if av_approval v = approval \<and> av_user v = user \<and> av_decision v = None
      then v\<lparr>av_decision := Some code, av_comment := comment, av_decided_at := Some now\<rparr> else v)"

text \<open>
  \<open>record_decision\<close>: the decision log (one row per approver), the approver row where it is undecided,
  and the approval under its version; the last statement must hit a row.
\<close>

definition insert_decision :: "uuid \<Rightarrow> uuid \<Rightarrow> string \<Rightarrow> string option \<Rightarrow> unit db_op" where
  "insert_decision approval user code comment db =
     (if \<exists>c\<in>set (decisions db). dc_approval c = approval \<and> dc_user c = user
      then Inl (IntegrityError ''ticket_approval_decision_once_ux'')
      else Inr ((), db\<lparr>decisions := decisions db @
        [\<lparr>dc_approval = approval, dc_user = user, dc_code = code, dc_comment = comment\<rparr>]\<rparr>))"

definition closed_row :: "instant \<Rightarrow> string option \<Rightarrow> approval_row \<Rightarrow> approval_row" where
  "closed_row now terminal a =
     a\<lparr>ap_status := (case terminal of None \<Rightarrow> ap_status a | Some s \<Rightarrow> s),
       ap_completed_at := (case terminal of None \<Rightarrow> ap_completed_at a | Some _ \<Rightarrow> Some now),
       ap_row_version := ap_row_version a + 1\<rparr>"

text \<open>The temporal check of the table: an approval is not completed before it was requested.\<close>

definition completion_check :: "approval_row \<Rightarrow> bool" where
  "completion_check a \<longleftrightarrow>
     (case ap_completed_at a of None \<Rightarrow> True | Some t \<Rightarrow> ap_requested_at a \<le> t)"

definition update_approvals ::
  "(approval_row \<Rightarrow> bool) \<Rightarrow> (approval_row \<Rightarrow> approval_row) \<Rightarrow> approval_row list db_op" where
  "update_approvals p f db =
     (if \<exists>a\<in>set (approvals db). p a \<and> \<not> completion_check (f a)
      then Inl (IntegrityError ''ticket_approval_temporal_ck'')
      else Inr (map f (filter p (approvals db)),
        db\<lparr>approvals := map (\<lambda>a. if p a then f a else a) (approvals db)\<rparr>))"

definition decided_payload ::
  "locked_approval \<Rightarrow> uuid \<Rightarrow> string \<Rightarrow> string option \<Rightarrow> string option \<Rightarrow> int \<Rightarrow> pydict" where
  "decided_payload la user code comment terminal version =
     [(''approval_id'', uuid_val (la_id la)), (''ticket_id'', uuid_val (la_ticket la)),
      (''ticket_key'', PStr (la_ticket_key la)), (''approver_user_id'', uuid_val user),
      (''decision'', PStr code),
      (''approval_status'', PStr (case terminal of None \<Rightarrow> ''PENDING'' | Some s \<Rightarrow> s)),
      (''comment_present'', PBool (comment \<noteq> None)), (''row_version'', PInt version)]"

definition record_decision ::
  "service_env \<Rightarrow> locked_approval \<Rightarrow> uuid \<Rightarrow> string \<Rightarrow> string option \<Rightarrow> string option
     \<Rightarrow> string \<Rightarrow> string \<Rightarrow> int db_op" where
  "record_decision env la user code comment terminal corr req =
     bindS (insert_decision (la_id la) user code comment) (\<lambda>_.
     bindS (modS (\<lambda>db. db\<lparr>approvers :=
       map (decide_row (env_now env) (la_id la) user code comment) (approvers db)\<rparr>)) (\<lambda>_.
     bindS (update_approvals (\<lambda>a. ap_id a = la_id la \<and> ap_row_version a = la_row_version la)
       (closed_row (env_now env) terminal)) (\<lambda>rows.
     case rows of
       [] \<Rightarrow> raise (UncaughtError ''NoResultFound'')
     | a # _ \<Rightarrow>
         bindS (record_fact (la_tenant la) (la_ticket la) user (la_id la) ''APPROVAL_DECIDED''
           (decided_payload la user code comment terminal (ap_row_version a)) corr req) (\<lambda>_.
         ret (ap_row_version a)))))"

text \<open>\<open>action_json @> '[{"type":"APPROVAL_CONTINUATION"}]'\<close>.\<close>

definition is_continuation_action :: "pyval \<Rightarrow> bool" where
  "is_continuation_action v =
     (case v of PDict d \<Rightarrow> dget d ''type'' = Some (PStr ''APPROVAL_CONTINUATION'') | _ \<Rightarrow> False)"

definition has_continuation :: "pyval \<Rightarrow> bool" where
  "has_continuation v = (case v of PList xs \<Rightarrow> list_ex is_continuation_action xs | _ \<Rightarrow> False)"

definition continuation_transition :: "uuid \<Rightarrow> helpdesk_db \<Rightarrow> transition_row option" where
  "continuation_transition transition db =
     find (\<lambda>tr. tr_id tr = transition \<and> tr_active tr \<and> has_continuation (tr_actions tr))
       (transition_rows db)"

definition continues :: "locked_approval \<Rightarrow> transition_row \<Rightarrow> ticket_row \<Rightarrow> bool" where
  "continues la tr t \<longleftrightarrow> t_id t = la_ticket la \<and> t_tenant t = la_tenant la
     \<and> tr_version tr = t_workflow_version t \<and> tr_from tr = t_status t"

definition continuation_payload ::
  "locked_approval \<Rightarrow> transition_row \<Rightarrow> int \<Rightarrow> string \<Rightarrow> string \<Rightarrow> pydict" where
  "continuation_payload la tr version corr req =
     [(''ticket_key'', PStr (la_ticket_key la)), (''approval_id'', uuid_val (la_id la)),
      (''transition_id'', uuid_val (tr_id tr)), (''transition_code'', PStr (tr_code tr)),
      (''from_status_id'', uuid_val (tr_from tr)), (''to_status_id'', uuid_val (tr_to tr)),
      (''row_version'', PInt version), (''correlation_id'', PStr corr), (''request_id'', PStr req)]"

definition continuation_error :: app_error where
  "continuation_error =
     ApprovalConfigurationError ''Approval continuation transition is invalid for the ticket state.''"

definition continue_workflow ::
  "locked_approval \<Rightarrow> uuid \<Rightarrow> uuid \<Rightarrow> string \<Rightarrow> string \<Rightarrow> unit db_op" where
  "continue_workflow la transition actor corr req =
     bindS (getS (continuation_transition transition)) (\<lambda>found.
     case found of
       None \<Rightarrow> raise continuation_error
     | Some tr \<Rightarrow>
         bindS (update_ticket (continues la tr) (\<lambda>t. t\<lparr>t_status := tr_to tr\<rparr>)) (\<lambda>updated.
         case updated of
           None \<Rightarrow> raise continuation_error
         | Some version \<Rightarrow>
             let payload = continuation_payload la tr version corr req in
             bindS (insert_event (la_tenant la) (la_ticket la) ''WORKFLOW_TRANSITION_EXECUTED'' ''USER''
               actor payload) (\<lambda>_.
             bindS (insert_outbox False (la_tenant la) ''TICKET'' (la_ticket la)
               ''TICKET_WORKFLOW_TRANSITIONED'' payload
               (Some (''approval-workflow:'' @ uuid_str (la_id la)))) (\<lambda>_.
             insert_audit (la_tenant la) actor ''TICKET_WORKFLOW_TRANSITIONED'' ''TICKET''
               (la_ticket la) payload corr req))))"

definition expire_if_due ::
  "service_env \<Rightarrow> locked_approval \<Rightarrow> uuid \<Rightarrow> string \<Rightarrow> string \<Rightarrow> bool db_op" where
  "expire_if_due env la actor corr req =
     (if (case la_expires_at la of None \<Rightarrow> True | Some t \<Rightarrow> env_wall env < t) then ret False
      else
        bindS (update_approvals (\<lambda>a. ap_id a = la_id la \<and> ap_status a = ''PENDING'')
          (closed_row (env_now env) (Some ''EXPIRED''))) (\<lambda>rows.
        if rows = [] then ret False
        else bindS (record_fact (la_tenant la) (la_ticket la) actor (la_id la) ''APPROVAL_EXPIRED''
               [(''approval_id'', uuid_val (la_id la))] corr req) (\<lambda>_. ret True)))"

definition cancel_pending ::
  "service_env \<Rightarrow> uuid \<Rightarrow> uuid \<Rightarrow> uuid \<Rightarrow> string \<Rightarrow> string \<Rightarrow> nat db_op" where
  "cancel_pending env tenant ticket actor corr req =
     bindS (update_approvals
       (\<lambda>a. ap_tenant a = tenant \<and> ap_ticket a = ticket \<and> ap_status a = ''PENDING'')
       (closed_row (env_now env) (Some ''CANCELLED''))) (\<lambda>rows.
     bindS (forS (\<lambda>a. record_fact tenant ticket actor (ap_id a) ''APPROVAL_CANCELLED''
       [(''approval_id'', uuid_val (ap_id a))] corr req) rows) (\<lambda>_.
     ret (length rows)))"

subsection \<open>The engine\<close>

definition config_error :: "string \<Rightarrow> app_error" where
  "config_error = ApprovalConfigurationError"

text \<open>\<open>UUID(value)\<close> on what the rule's list holds: only text and \<open>None\<close> raise what the engine catches.\<close>

definition rule_user_id :: "pyval \<Rightarrow> app_error + uuid" where
  "rule_user_id v =
     (case v of
        PStr s \<Rightarrow> of_option (config_error ''The approver rule contains an invalid user ID.'') (uuid_of_text s)
      | PNone \<Rightarrow> Inl (config_error ''The approver rule contains an invalid user ID.'')
      | _ \<Rightarrow> Inl (UncaughtError ''AttributeError''))"

definition distinct_first :: "'a list \<Rightarrow> 'a list" where
  "distinct_first xs = rev (remdups (rev xs))"

definition keys_within :: "string list \<Rightarrow> pydict \<Rightarrow> bool" where
  "keys_within ks d \<longleftrightarrow> list_all (\<lambda>(k, _). k \<in> set ks) d"

definition resolve_listed :: "approval_ticket \<Rightarrow> pydict \<Rightarrow> uuid list db_op" where
  "resolve_listed ticket rl db =
     (if \<not> keys_within [''user_ids'', ''rejection_comment_required''] rl
      then Inl (config_error ''The approver rule contains unsupported keys.'')
      else case dget rl ''user_ids'' of
        Some (PList (v # vs)) \<Rightarrow>
          rbind (map_result rule_user_id (v # vs)) (\<lambda>ids.
            let requested = distinct_first ids in
            if active_users (at_tenant ticket) requested db \<noteq> set requested
            then Inl (config_error ''Every configured approver must be active in the tenant.'')
            else Inr (requested, db))
      | _ \<Rightarrow> Inl (config_error ''The approver rule must contain user_ids.''))"

definition subject_supported :: "pydict \<Rightarrow> bool" where
  "subject_supported rl =
     (case dget rl ''subject'' of None \<Rightarrow> True | Some v \<Rightarrow> v = PStr ''REQUESTED_FOR_OR_REPORTER'')"

definition ticket_requester :: "approval_ticket \<Rightarrow> uuid" where
  "ticket_requester ticket = requested_for_or_reporter (at_requested_for ticket) (at_reporter ticket)"

definition resolve_manager :: "approval_ticket \<Rightarrow> pydict \<Rightarrow> uuid list db_op" where
  "resolve_manager ticket rl db =
     (if \<not> keys_within [''subject'', ''rejection_comment_required''] rl
      then Inl (config_error ''The manager rule contains unsupported keys.'')
      else if \<not> subject_supported rl
      then Inl (config_error ''The manager approval subject is unsupported.'')
      else case manager_for (at_tenant ticket) (ticket_requester ticket) db of
        None \<Rightarrow> Inl (config_error ''The approval subject has no active manager.'')
      | Some m \<Rightarrow> Inr ([m], db))"

definition resolve :: "approval_ticket \<Rightarrow> approval_definition \<Rightarrow> uuid list db_op" where
  "resolve ticket d =
     (case ad_rule d of
        PDict rl \<Rightarrow>
          if ad_mode d \<in> {''ANY_ONE_APPROVER'', ''ALL_APPROVERS''} then resolve_listed ticket rl
          else if ad_mode d = ''MANAGER_APPROVAL'' then resolve_manager ticket rl
          else raise (config_error ''The published approval mode is not supported.'')
      | _ \<Rightarrow> raise (config_error ''Approver rule must be an object.''))"

definition request ::
  "service_env \<Rightarrow> uuid \<Rightarrow> uuid \<Rightarrow> string \<Rightarrow> uuid \<Rightarrow> string \<Rightarrow> string \<Rightarrow> uuid db_op" where
  "request env tenant ticket code actor corr req =
     bindS (getS (ticket_for_approval tenant ticket)) (\<lambda>found.
     bindS (liftS (of_option (config_error ''Approval ticket was not found.'') found)) (\<lambda>tk.
     bindS (getS (published_definition (env_now env) tenant (at_project tk) code)) (\<lambda>published.
     bindS (liftS (of_option (config_error
       ''No effective published approval definition matches the workflow action.'') published)) (\<lambda>d.
     bindS (resolve tk d) (\<lambda>ids.
     if \<not> ad_self_approval d \<and> ticket_requester tk \<in> set ids
     then raise (config_error ''The approval definition resolves the requester as an approver.'')
     else create_approval env tk d ids actor corr req)))))"

subsection \<open>The service\<close>

definition terminal_status :: "string \<Rightarrow> nat \<Rightarrow> nat \<Rightarrow> nat \<Rightarrow> app_error + string option" where
  "terminal_status mode n approved rejected =
     (if mode \<in> {''ANY_ONE_APPROVER'', ''MANAGER_APPROVAL''}
      then Inr (if 0 < approved then Some ''APPROVED''
                else if rejected = n then Some ''REJECTED'' else None)
      else if mode = ''ALL_APPROVERS''
      then Inr (if 0 < rejected then Some ''REJECTED''
                else if approved = n then Some ''APPROVED'' else None)
      else Inl (config_error ''The approval mode is not supported.''))"

definition stored_code :: "decision \<Rightarrow> string" where
  "stored_code c = (case c of APPROVE \<Rightarrow> ''APPROVED'' | REJECT \<Rightarrow> ''REJECTED'')"

definition command_text :: "decision \<Rightarrow> string" where
  "command_text c = (case c of APPROVE \<Rightarrow> ''APPROVE'' | REJECT \<Rightarrow> ''REJECT'')"

definition clean_comment :: "string option \<Rightarrow> string option" where
  "clean_comment c = (case c of None \<Rightarrow> None
     | Some s \<Rightarrow> if py_strip s = [] then None else Some (py_strip s))"

definition decision_document :: "uuid \<Rightarrow> decision_command \<Rightarrow> pydict" where
  "decision_document approval cmd =
     [(''approval_id'', uuid_val approval), (''decision'', PStr (command_text (cmd_decision cmd))),
      (''comment'', (case clean_comment (cmd_comment cmd) of None \<Rightarrow> PNone | Some s \<Rightarrow> PStr s)),
      (''expected_version'', PInt (cmd_expected_version cmd))]"

definition comment_required :: "pyval \<Rightarrow> bool" where
  "comment_required rl =
     (case rl of PDict d \<Rightarrow> dget d ''rejection_comment_required'' = Some (PBool True) | _ \<Rightarrow> False)"

text \<open>The checks that \<open>decide\<close> makes of the locked approval, in their order.\<close>

definition decision_guard :: "locked_approval \<Rightarrow> uuid \<Rightarrow> decision_command \<Rightarrow> app_error + unit" where
  "decision_guard la user cmd =
     (if la_status la \<noteq> ''PENDING'' then Inl (ConflictError ''Approval is no longer pending.'')
      else if la_row_version la \<noteq> cmd_expected_version cmd
      then Inl (ConcurrencyError ''Approval row version is stale.'')
      else if la_decision la \<noteq> None
      then Inl (ConflictError ''The approver has already decided this approval.'')
      else if \<not> la_self_approval la \<and> la_requester la = user then Inl AuthorizationError
      else if cmd_decision cmd = REJECT \<and> comment_required (la_rule la)
           \<and> clean_comment (cmd_comment cmd) = None
      then Inl (ValidationError ''A rejection comment is required.'')
      else Inr ())"

definition tally_with :: "locked_approval \<Rightarrow> decision \<Rightarrow> nat \<times> nat \<times> nat \<Rightarrow> app_error + string option" where
  "tally_with la c counts = (case counts of (n, approved, rejected) \<Rightarrow>
     terminal_status (la_mode la) n (approved + (if c = APPROVE then 1 else 0))
       (rejected + (if c = REJECT then 1 else 0)))"

definition follow_outcome ::
  "locked_approval \<Rightarrow> string option \<Rightarrow> uuid \<Rightarrow> string \<Rightarrow> string \<Rightarrow> unit db_op" where
  "follow_outcome la terminal user corr req =
     (case terminal of
        None \<Rightarrow> ret ()
      | Some status \<Rightarrow>
          (case (if status = ''APPROVED'' then la_approved_transition la
                 else la_rejected_transition la) of
             None \<Rightarrow> raise (config_error ''The terminal approval outcome has no workflow transition.'')
           | Some transition \<Rightarrow> continue_workflow la transition user corr req))"

definition settle_decision ::
  "service_env \<Rightarrow> locked_approval \<Rightarrow> uuid \<Rightarrow> decision_command \<Rightarrow> string \<Rightarrow> string \<Rightarrow> int db_op" where
  "settle_decision env la user cmd corr req =
     bindS (getS (decision_counts (la_id la))) (\<lambda>counts.
     bindS (liftS (tally_with la (cmd_decision cmd) counts)) (\<lambda>terminal.
     bindS (record_decision env la user (stored_code (cmd_decision cmd))
       (clean_comment (cmd_comment cmd)) terminal corr req) (\<lambda>version.
     bindS (follow_outcome la terminal user corr req) (\<lambda>_.
     ret version))))"

datatype decide_outcome = Replayed approval_view | Decided

text \<open>
  The first unit of work of \<open>decide\<close>. An expired approval is committed as such before the error is
  raised, so that branch returns its error as a value.
\<close>

definition decide_body ::
  "service_env \<Rightarrow> request_context \<Rightarrow> uuid \<Rightarrow> uuid \<Rightarrow> uuid \<Rightarrow> decision_command \<Rightarrow> string
     \<Rightarrow> (app_error + decide_outcome) db_op" where
  "decide_body env ctx tenant user approval cmd key =
     bindS (claim_checked tenant user ''APPROVAL_DECISION'' key
       (env_digest env (decision_document approval cmd))) (\<lambda>idem.
     if idem_status idem = ''COMPLETED''
     then bindS (getS (view_for_user tenant approval user)) (\<lambda>w.
          case w of None \<Rightarrow> raise NotFoundError | Some w \<Rightarrow> ret (Inr (Replayed w)))
     else
       bindS (getS (lock_for_decision tenant approval user)) (\<lambda>locked.
       bindS (liftS (of_option NotFoundError locked)) (\<lambda>la.
       bindS (expire_if_due env la user (correlation_id ctx) (request_id ctx)) (\<lambda>expired.
       if expired then ret (Inl (ConflictError ''Approval has expired.''))
       else
         bindS (liftS (decision_guard la user cmd)) (\<lambda>_.
         bindS (settle_decision env la user cmd (correlation_id ctx) (request_id ctx)) (\<lambda>version.
         bindS (complete_idempotency (idem_id idem) approval
           [(''approval_id'', uuid_val approval), (''row_version'', PInt version)]) (\<lambda>_.
         ret (Inr Decided))))))))"

text \<open>\<open>ApprovalDecisionResponse\<close>: the view that \<open>_item\<close> copies, and whether it is a replay.\<close>

definition decide ::
  "service_env \<Rightarrow> request_context \<Rightarrow> uuid \<Rightarrow> decision_command \<Rightarrow> string \<Rightarrow> helpdesk_db
     \<Rightarrow> (app_error + approval_view \<times> bool) \<times> helpdesk_db" where
  "decide env ctx approval cmd key db =
     (if \<not> is_allowed ctx APPROVAL_DECIDE None then (Inl AuthorizationError, db)
      else case identity_of ctx of
        Inl e \<Rightarrow> (Inl e, db)
      | Inr (tenant, user) \<Rightarrow>
          (case run_uow (decide_body env ctx tenant user approval cmd key) db of
             (Inl e, db') \<Rightarrow> (Inl e, db')
           | (Inr (Replayed w), db') \<Rightarrow> (Inr (w, True), db')
           | (Inr Decided, db') \<Rightarrow>
               (case view_for_user tenant approval user db' of
                  None \<Rightarrow> (Inl NotFoundError, db')
                | Some w \<Rightarrow> (Inr (w, False), db'))))"

definition mine :: "request_context \<Rightarrow> helpdesk_db \<Rightarrow> app_error + approval_view list" where
  "mine ctx db =
     (if \<not> is_allowed ctx APPROVAL_READ_ASSIGNED None then Inl AuthorizationError
      else rbind (identity_of ctx) (\<lambda>(tenant, user). Inr (list_for_user tenant user db)))"

end
