(* ===== verification/Workflow.thy ===== *)
theory Workflow
  imports Approvals Idempotency
begin

text \<open>
  Workflow execution: the statements of \<open>workflows/repository.py\<close>, \<open>add_public_comment\<close> of
  \<open>tickets/repository.py\<close>, and \<open>workflows/service.py\<close>: the transitions a ticket may take, the
  validation of their guards, validators and actions, and the transition itself with its comment,
  events and approval requests.
\<close>

subsection \<open>Records\<close>

text \<open>\<open>wt_columns\<close> are the five nullable columns a transition may write.\<close>

record workflow_ticket =
  wt_id :: uuid
  wt_tenant :: uuid
  wt_key :: string
  wt_project :: uuid
  wt_work_type :: string
  wt_version :: uuid
  wt_version_status :: string
  wt_status :: uuid
  wt_status_code :: string
  wt_row_version :: int
  wt_summary :: string
  wt_description :: "string option"
  wt_group :: "uuid option"
  wt_assignee :: "uuid option"
  wt_columns :: "string \<Rightarrow> pyval"

record workflow_transition =
  wx_id :: uuid
  wx_version :: uuid
  wx_code :: string
  wx_name :: string
  wx_from :: uuid
  wx_from_code :: string
  wx_to :: uuid
  wx_to_code :: string
  wx_to_name :: string
  wx_condition :: pyval
  wx_validators :: pyval
  wx_actions :: pyval

record transition_command =
  tc_code :: string
  tc_row_version :: int
  tc_updates :: pydict
  tc_comment :: "string option"

subsection \<open>Queries\<close>

definition workflow_ticket_of :: "helpdesk_db \<Rightarrow> ticket_row \<Rightarrow> workflow_ticket option" where
  "workflow_ticket_of db t = map_option
     (\<lambda>st. \<lparr>wt_id = t_id t, wt_tenant = t_tenant t, wt_key = t_key t, wt_project = t_project t,
       wt_work_type = t_work_type_code t, wt_version = t_workflow_version t,
       wt_version_status = version_status db (t_workflow_version t), wt_status = t_status t,
       wt_status_code = st_code st, wt_row_version = t_row_version t, wt_summary = t_summary t,
       wt_description = t_description t, wt_group = t_group t, wt_assignee = t_assignee t,
       wt_columns = t_columns t\<rparr>)
     (find (\<lambda>st. st_id st = t_status t) (statuses db))"

definition workflow_ticket_query ::
  "request_context \<Rightarrow> uuid \<Rightarrow> string \<Rightarrow> helpdesk_db \<Rightarrow> workflow_ticket option" where
  "workflow_ticket_query ctx tenant key db =
     (case visible_ticket ctx tenant key db of None \<Rightarrow> None | Some t \<Rightarrow> workflow_ticket_of db t)"

text \<open>The two joins on the statuses of the transition's own workflow version.\<close>

definition status_of_version :: "helpdesk_db \<Rightarrow> uuid \<Rightarrow> uuid \<Rightarrow> status_row option" where
  "status_of_version db version status =
     find (\<lambda>st. st_id st = status \<and> st_version st = version) (statuses db)"

definition transition_of :: "helpdesk_db \<Rightarrow> transition_row \<Rightarrow> workflow_transition option" where
  "transition_of db tr =
     (case (status_of_version db (tr_version tr) (tr_from tr),
            status_of_version db (tr_version tr) (tr_to tr)) of
        (Some f, Some g) \<Rightarrow> Some \<lparr>wx_id = tr_id tr, wx_version = tr_version tr, wx_code = tr_code tr,
          wx_name = tr_name tr, wx_from = tr_from tr, wx_from_code = st_code f, wx_to = tr_to tr,
          wx_to_code = st_code g, wx_to_name = st_name g, wx_condition = tr_condition tr,
          wx_validators = tr_validators tr, wx_actions = tr_actions tr\<rparr>
      | _ \<Rightarrow> None)"

definition leaves_from :: "uuid \<Rightarrow> uuid \<Rightarrow> transition_row \<Rightarrow> bool" where
  "leaves_from version status tr \<longleftrightarrow> tr_version tr = version \<and> tr_from tr = status \<and> tr_active tr"

definition transition_query ::
  "uuid \<Rightarrow> uuid \<Rightarrow> string \<Rightarrow> helpdesk_db \<Rightarrow> workflow_transition option" where
  "transition_query version status code db =
     (case List.map_filter (transition_of db)
        (filter (\<lambda>tr. leaves_from version status tr \<and> tr_code tr = code) (transition_rows db)) of
        [] \<Rightarrow> None | x # _ \<Rightarrow> Some x)"

definition available_query :: "uuid \<Rightarrow> uuid \<Rightarrow> helpdesk_db \<Rightarrow> workflow_transition list" where
  "available_query version status db = List.map_filter (transition_of db)
     (sort_key (\<lambda>tr. (tr_order tr, tr_code tr))
       (filter (leaves_from version status) (transition_rows db)))"

subsection \<open>Writes\<close>

definition insert_comment :: "instant \<Rightarrow> uuid \<Rightarrow> uuid \<Rightarrow> string \<Rightarrow> uuid db_op" where
  "insert_comment now ticket author body =
     bindS draw_uuid (\<lambda>i. bindS (modS (\<lambda>db. db\<lparr>comments := comments db @
       [\<lparr>c_id = i, c_ticket = ticket, c_author = author, c_body = body, c_visibility = ''PUBLIC'', c_created = now,
         c_channel = ''PORTAL''\<rparr>]\<rparr>)) (\<lambda>_. ret i))"

definition comment_message :: "uuid \<Rightarrow> uuid \<Rightarrow> uuid \<Rightarrow> pydict" where
  "comment_message ticket comment actor =
     [(''ticket_id'', uuid_val ticket), (''comment_id'', uuid_val comment),
      (''actor_user_id'', uuid_val actor), (''visibility'', PStr ''PUBLIC'')]"

definition add_public_comment ::
  "instant \<Rightarrow> uuid \<Rightarrow> uuid \<Rightarrow> uuid \<Rightarrow> string \<Rightarrow> string \<Rightarrow> string \<Rightarrow> string \<Rightarrow> uuid db_op" where
  "add_public_comment now tenant ticket actor body corr req sla_event =
     (if sla_event \<notin> {''AGENT_PUBLIC_RESPONSE_ADDED'', ''CUSTOMER_COMMENT_ADDED''}
      then raise (UncaughtError ''ValueError'')
      else
        bindS (insert_comment now ticket actor body) (\<lambda>comment.
        bindS (insert_event tenant ticket ''PUBLIC_COMMENT_ADDED'' ''USER'' actor
          [(''comment_id'', uuid_val comment), (''visibility'', PStr ''PUBLIC''),
           (''source_channel'', PStr ''PORTAL''), (''correlation_id'', PStr corr),
           (''request_id'', PStr req)]) (\<lambda>_.
        bindS (insert_audit tenant actor ''TICKET_PUBLIC_COMMENT_ADDED'' ''TICKET_COMMENT'' comment
          [(''ticket_id'', uuid_val ticket), (''visibility'', PStr ''PUBLIC'')] corr req) (\<lambda>_.
        bindS (forS (\<lambda>type. insert_outbox True tenant ''TICKET'' ticket type
            (comment_message ticket comment actor)
            (Some (''comment:'' @ uuid_str comment @ '':'' @ type)))
          [sla_event, ''NOTIFY_'' @ sla_event]) (\<lambda>_.
        ret comment)))))"

definition transition_columns :: "string list" where
  "transition_columns = [''resolution_code'', ''resolution_summary'', ''first_response_at'',
     ''resolved_at'', ''closed_at'']"

definition write_columns :: "pydict \<Rightarrow> (string \<Rightarrow> pyval) \<Rightarrow> string \<Rightarrow> pyval" where
  "write_columns updates old = (\<lambda>c. case dget updates c of None \<Rightarrow> old c | Some v \<Rightarrow> v)"

definition apply_transition ::
  "workflow_ticket \<Rightarrow> workflow_transition \<Rightarrow> pydict \<Rightarrow> int option db_op" where
  "apply_transition wt wx updates =
     (if \<not> keys_within transition_columns updates then raise (UncaughtError ''ValueError'')
      else update_ticket
        (\<lambda>t. t_id t = wt_id wt \<and> t_workflow_version t = wt_version wt \<and> t_status t = wt_status wt
           \<and> t_row_version t = wt_row_version wt)
        (\<lambda>t. t\<lparr>t_status := wx_to wx, t_columns := write_columns updates (t_columns t)\<rparr>))"

definition transition_payload ::
  "workflow_ticket \<Rightarrow> workflow_transition \<Rightarrow> int \<Rightarrow> string \<Rightarrow> string \<Rightarrow> pydict" where
  "transition_payload wt wx version corr req =
     [(''ticket_key'', PStr (wt_key wt)), (''transition_id'', uuid_val (wx_id wx)),
      (''transition_code'', PStr (wx_code wx)), (''workflow_version_id'', uuid_val (wt_version wt)),
      (''from_status'', PStr (wx_from_code wx)), (''to_status'', PStr (wx_to_code wx)),
      (''synchronous_actions'', wx_actions wx), (''old_row_version'', PInt (wt_row_version wt)),
      (''new_row_version'', PInt version), (''correlation_id'', PStr corr), (''request_id'', PStr req)]"

definition record_transition ::
  "workflow_ticket \<Rightarrow> workflow_transition \<Rightarrow> uuid \<Rightarrow> int \<Rightarrow> string \<Rightarrow> string \<Rightarrow> unit db_op" where
  "record_transition wt wx actor version corr req =
     (let payload = transition_payload wt wx version corr req in
      bindS (insert_event (wt_tenant wt) (wt_id wt) ''WORKFLOW_TRANSITION_EXECUTED'' ''AGENT'' actor
        payload) (\<lambda>_.
      bindS (insert_outbox False (wt_tenant wt) ''TICKET'' (wt_id wt) ''TICKET_WORKFLOW_TRANSITIONED''
        payload None) (\<lambda>_.
      bindS (insert_outbox True (wt_tenant wt) ''TICKET'' (wt_id wt) ''NOTIFY_STATUS_CHANGED'' payload
        (Some (''notify-status:'' @ uuid_str (wx_id wx) @ '':'' @ uuid_str (wt_id wt) @ '':''
           @ int_str version))) (\<lambda>_.
      insert_audit (wt_tenant wt) actor ''TICKET_WORKFLOW_TRANSITIONED'' ''TICKET'' (wt_id wt)
        payload corr req))))"

subsection \<open>Validation\<close>

text \<open>Case mapping; only comparison with ASCII words uses it, which no other character maps into.\<close>

definition ascii_upper :: "char \<Rightarrow> char" where
  "ascii_upper c = (let n = (of_char c :: nat) in if 97 \<le> n \<and> n \<le> 122 then char_of (n - 32) else c)"

definition ascii_lower :: "char \<Rightarrow> char" where
  "ascii_lower c = (let n = (of_char c :: nat) in if 65 \<le> n \<and> n \<le> 90 then char_of (n + 32) else c)"

definition upper :: "string \<Rightarrow> string" where "upper s = map ascii_upper s"
definition lower :: "string \<Rightarrow> string" where "lower s = map ascii_lower s"

definition editable_fields :: "string list" where
  "editable_fields = [''resolution_code'', ''resolution_summary'']"

definition timestamp_fields :: "string list" where
  "timestamp_fields = [''first_response_at'', ''resolved_at'', ''closed_at'']"

definition clearable_fields :: "string list" where
  "clearable_fields = editable_fields @ timestamp_fields"

datatype check_error = BadRule | Escaped app_error

definition config_failure :: "string \<Rightarrow> check_error \<Rightarrow> app_error" where
  "config_failure msg e = (case e of BadRule \<Rightarrow> WorkflowConfigurationError msg | Escaped a \<Rightarrow> a)"

definition guard_failure :: "rule_error \<Rightarrow> check_error" where
  "guard_failure e = (case e of InvalidRule \<Rightarrow> BadRule
     | RuleTypeError \<Rightarrow> Escaped (UncaughtError ''TypeError''))"

text \<open>\<open>action.get("type", "").upper()\<close> on a dict: the attribute lookup fails on what is no string.\<close>

definition action_type :: "pydict \<Rightarrow> app_error + string" where
  "action_type d = (case dget d ''type'' of None \<Rightarrow> Inr [] | Some (PStr s) \<Rightarrow> Inr (upper s)
     | Some _ \<Rightarrow> Inl (UncaughtError ''AttributeError''))"

fun any_continuation :: "pyval list \<Rightarrow> app_error + bool" where
  "any_continuation [] = Inr False"
| "any_continuation (PDict d # xs) =
     rbind (action_type d) (\<lambda>ty. if ty = ''APPROVAL_CONTINUATION'' then Inr True else any_continuation xs)"
| "any_continuation (_ # xs) = any_continuation xs"

definition is_approval_continuation :: "pyval \<Rightarrow> app_error + bool" where
  "is_approval_continuation actions =
     (case actions of PList xs \<Rightarrow> any_continuation xs | _ \<Rightarrow> Inr False)"

fun approval_codes :: "pyval list \<Rightarrow> app_error + string list" where
  "approval_codes [] = Inr []"
| "approval_codes (PDict d # xs) =
     rbind (action_type d) (\<lambda>ty. rbind (approval_codes xs) (\<lambda>codes.
       Inr (case dget d ''approval_code'' of
          Some (PStr c) \<Rightarrow> if ty = ''CREATE_APPROVAL'' then c # codes else codes
        | _ \<Rightarrow> codes)))"
| "approval_codes (_ # xs) = approval_codes xs"

definition approval_requests :: "pyval \<Rightarrow> app_error + string list" where
  "approval_requests actions = (case actions of PList xs \<Rightarrow> approval_codes xs | _ \<Rightarrow> Inr [])"

definition opt_val :: "('a \<Rightarrow> pyval) \<Rightarrow> 'a option \<Rightarrow> pyval" where
  "opt_val f x = (case x of None \<Rightarrow> PNone | Some y \<Rightarrow> f y)"

text \<open>\<open>asdict(ticket)\<close> updated with the requested fields.\<close>

definition ticket_dict :: "workflow_ticket \<Rightarrow> pydict" where
  "ticket_dict wt = [(''ticket_id'', PUuid (wt_id wt)), (''tenant_id'', PUuid (wt_tenant wt)),
     (''ticket_key'', PStr (wt_key wt)), (''project_id'', PUuid (wt_project wt)),
     (''work_type_code'', PStr (wt_work_type wt)), (''workflow_version_id'', PUuid (wt_version wt)),
     (''workflow_version_status'', PStr (wt_version_status wt)), (''status_id'', PUuid (wt_status wt)),
     (''status_code'', PStr (wt_status_code wt)), (''row_version'', PInt (wt_row_version wt)),
     (''summary'', PStr (wt_summary wt)), (''description'', opt_val PStr (wt_description wt)),
     (''resolution_code'', wt_columns wt ''resolution_code''),
     (''resolution_summary'', wt_columns wt ''resolution_summary''),
     (''assignment_group_id'', opt_val PUuid (wt_group wt)),
     (''assignee_user_id'', opt_val PUuid (wt_assignee wt)),
     (''first_response_at'', wt_columns wt ''first_response_at''),
     (''resolved_at'', wt_columns wt ''resolved_at''), (''closed_at'', wt_columns wt ''closed_at'')]"

definition dict_update :: "pydict \<Rightarrow> pydict \<Rightarrow> pydict" where
  "dict_update d updates = foldl (\<lambda>acc (k, v). AList.update k v acc) d updates"

definition workflow_values :: "workflow_ticket \<Rightarrow> pydict \<Rightarrow> pydict" where
  "workflow_values wt updates = dict_update (ticket_dict wt) updates"

definition valid_code :: "helpdesk_db \<Rightarrow> pyval \<Rightarrow> bool" where
  "valid_code db v = (case v of PNone \<Rightarrow> True | PStr c \<Rightarrow> c \<in> set (resolution_codes db) | _ \<Rightarrow> False)"

definition valid_summary :: "pyval \<Rightarrow> bool" where
  "valid_summary v = (case v of PNone \<Rightarrow> True | PStr s \<Rightarrow> length s \<le> 20000 | _ \<Rightarrow> False)"

definition validate_update_values :: "helpdesk_db \<Rightarrow> pydict \<Rightarrow> app_error + unit" where
  "validate_update_values db updates =
     (if (case dget updates ''resolution_code'' of None \<Rightarrow> False | Some v \<Rightarrow> \<not> valid_code db v)
      then Inl (ValidationError ''Resolution code is invalid.'')
      else if \<not> valid_summary (dget_none updates ''resolution_summary'')
      then Inl (ValidationError ''Resolution summary is invalid.'')
      else Inr ())"

text \<open>One validator: its field, or what is wrong with its syntax.\<close>

definition required_field :: "pyval \<Rightarrow> check_error + string" where
  "required_field v =
     (case v of
        PDict d \<Rightarrow>
          if dkeys d \<noteq> set [''type'', ''field''] then Inl BadRule
          else (case (dget_none d ''type'', dget_none d ''field'') of
                  (PStr ty, PStr f) \<Rightarrow> if lower ty = ''required_field'' then Inr f else Inl BadRule
                | _ \<Rightarrow> Inl BadRule)
      | _ \<Rightarrow> Inl BadRule)"

definition validate_required :: "pyval \<Rightarrow> pydict \<Rightarrow> check_error + unit" where
  "validate_required validators env =
     (if is_empty_doc validators then Inr ()
      else case validators of
        PList vs \<Rightarrow> rbind (map_result required_field vs) (\<lambda>fields.
          if list_ex (\<lambda>f. is_blank (dget_none env f)) fields
          then Inl (Escaped (ValidationError ''Required transition fields are missing.''))
          else Inr ())
      | _ \<Rightarrow> Inl BadRule)"

text \<open>
  \<open>field in frozenset\<close>: a list or dict is unhashable. The clauses of \<open>_apply_actions\<close> are tried in
  order and stop at the first that decides.
\<close>

definition field_in :: "string list \<Rightarrow> pyval \<Rightarrow> check_error + bool" where
  "field_in names v = (case v of PStr f \<Rightarrow> Inr (f \<in> set names)
     | PList _ \<Rightarrow> Inl (Escaped (UncaughtError ''TypeError''))
     | PDict _ \<Rightarrow> Inl (Escaped (UncaughtError ''TypeError''))
     | _ \<Rightarrow> Inr False)"

definition action_applies :: "bool \<Rightarrow> string list \<Rightarrow> pyval \<Rightarrow> check_error + bool" where
  "action_applies named names field = (if named then field_in names field else Inr False)"

definition no_change_action :: "string \<Rightarrow> pydict \<Rightarrow> bool" where
  "no_change_action ty d \<longleftrightarrow>
     (ty = ''CREATE_APPROVAL'' \<and> dkeys d = set [''type'', ''approval_code'']
        \<and> is_str (dget_none d ''approval_code''))
     \<or> (ty = ''APPROVAL_CONTINUATION'' \<and> dkeys d = set [''type''])"

definition apply_action :: "instant \<Rightarrow> pydict \<Rightarrow> pydict \<Rightarrow> check_error + pydict" where
  "apply_action now d updates =
     (case dget d ''type'' of
        Some (PStr s) \<Rightarrow>
          let ty = upper s; field = dget_none d ''field'' in
          rbind (action_applies (ty = ''SET_TIMESTAMP'') timestamp_fields field) (\<lambda>stamp.
          if stamp then Inr (AList.update (the_str field) (PTime now) updates)
          else rbind (action_applies (ty = ''CLEAR_FIELD'') clearable_fields field) (\<lambda>clear.
          if clear then Inr (AList.update (the_str field) PNone updates)
          else rbind (action_applies (ty = ''SET_FIELD'') editable_fields field) (\<lambda>editable.
          if editable \<and> ''value'' \<in> dkeys d
          then Inr (AList.update (the_str field) (dget_none d ''value'') updates)
          else if no_change_action ty d then Inr updates
          else Inl BadRule)))
      | _ \<Rightarrow> Inl BadRule)"

fun apply_actions_list :: "instant \<Rightarrow> pyval list \<Rightarrow> pydict \<Rightarrow> check_error + pydict" where
  "apply_actions_list now [] updates = Inr updates"
| "apply_actions_list now (PDict d # xs) updates =
     rbind (apply_action now d updates) (apply_actions_list now xs)"
| "apply_actions_list now (_ # xs) updates = Inl BadRule"

definition apply_actions :: "instant \<Rightarrow> pyval \<Rightarrow> pydict \<Rightarrow> check_error + pydict" where
  "apply_actions now actions updates =
     (if is_empty_doc actions then Inr updates
      else case actions of PList xs \<Rightarrow> apply_actions_list now xs updates | _ \<Rightarrow> Inl BadRule)"

definition guard_holds :: "pyval \<Rightarrow> pydict \<Rightarrow> check_error + bool" where
  "guard_holds condition env = map_error guard_failure (evaluate condition env)"

definition validated_updates ::
  "instant \<Rightarrow> helpdesk_db \<Rightarrow> workflow_ticket \<Rightarrow> workflow_transition \<Rightarrow> pydict \<Rightarrow> app_error + pydict" where
  "validated_updates now db wt wx requested =
     (if \<not> keys_within editable_fields requested
      then Inl (ValidationError ''The transition contains unsupported field updates.'')
      else rbind (validate_update_values db requested) (\<lambda>_.
        let env = workflow_values wt requested in
        rbind (map_error (config_failure ''The workflow contains unsupported deterministic configuration.'')
          (rbind (guard_holds (wx_condition wx) env) (\<lambda>holds.
           if \<not> holds
           then Inl (Escaped (InvalidTransitionError ''The transition guard conditions are not satisfied.''))
           else rbind (validate_required (wx_validators wx) env) (\<lambda>_.
             apply_actions now (wx_actions wx) requested)))) (\<lambda>updates.
        rbind (validate_update_values db updates) (\<lambda>_. Inr updates))))"

subsection \<open>The service\<close>

record available_transition =
  avl_code :: string
  avl_name :: string
  avl_to :: string
  avl_to_name :: string

record available_list =
  al_key :: string
  al_row_version :: int
  al_status :: string
  al_transitions :: "available_transition list"

definition executable_version :: "workflow_ticket \<Rightarrow> bool" where
  "executable_version wt \<longleftrightarrow> wt_version_status wt \<in> {''PUBLISHED'', ''RETIRED''}"

definition not_executable :: app_error where
  "not_executable =
     WorkflowConfigurationError ''The ticket does not reference an executable workflow version.''"

definition offered :: "pydict \<Rightarrow> workflow_transition \<Rightarrow> app_error + bool" where
  "offered env wx = rbind (is_approval_continuation (wx_actions wx)) (\<lambda>continuation.
     if continuation then Inr False
     else map_error (config_failure ''The workflow contains an invalid deterministic guard.'')
       (guard_holds (wx_condition wx) env))"

fun offered_list :: "pydict \<Rightarrow> workflow_transition list \<Rightarrow> app_error + available_transition list" where
  "offered_list env [] = Inr []"
| "offered_list env (wx # wxs) = rbind (offered env wx) (\<lambda>ok. rbind (offered_list env wxs) (\<lambda>rest.
     Inr (if ok then \<lparr>avl_code = wx_code wx, avl_name = wx_name wx, avl_to = wx_to_code wx,
       avl_to_name = wx_to_name wx\<rparr> # rest else rest)))"

definition available :: "request_context \<Rightarrow> string \<Rightarrow> helpdesk_db \<Rightarrow> app_error + available_list" where
  "available ctx key db =
     (if \<not> is_allowed ctx TICKET_TRANSITION None then Inl AuthorizationError
      else rbind (identity_of ctx) (\<lambda>(tenant, _).
        rbind (of_option NotFoundError (workflow_ticket_query ctx tenant key db)) (\<lambda>wt.
        if \<not> executable_version wt then Inl not_executable
        else rbind (offered_list (workflow_values wt [])
            (available_query (wt_version wt) (wt_status wt) db)) (\<lambda>ts.
          Inr \<lparr>al_key = wt_key wt, al_row_version = wt_row_version wt, al_status = wt_status_code wt,
            al_transitions = ts\<rparr>))))"

text \<open>\<open>command.comment.strip() if command.comment else None\<close>.\<close>

definition transition_comment :: "transition_command \<Rightarrow> string option" where
  "transition_comment cmd = (case tc_comment cmd of None \<Rightarrow> None
     | Some s \<Rightarrow> if s = [] then None else Some (py_strip s))"

definition transition_document :: "string \<Rightarrow> transition_command \<Rightarrow> pydict" where
  "transition_document key cmd = [(''ticket_key'', PStr key), (''transition_code'', PStr (tc_code cmd)),
     (''row_version'', PInt (tc_row_version cmd)), (''field_updates'', PDict (tc_updates cmd)),
     (''comment'', opt_val PStr (transition_comment cmd))]"

text \<open>The ticket under its lock, the transition it may take, and the validated column updates.\<close>

definition select_transition ::
  "request_context \<Rightarrow> uuid \<Rightarrow> string \<Rightarrow> transition_command \<Rightarrow> helpdesk_db
     \<Rightarrow> app_error + workflow_ticket \<times> workflow_transition" where
  "select_transition ctx tenant key cmd db =
     rbind (of_option (ConcurrencyError ''Ticket changed while the transition was acquiring its lock.'')
       (workflow_ticket_query ctx tenant key db)) (\<lambda>wt.
     if wt_row_version wt \<noteq> tc_row_version cmd
     then Inl (ConcurrencyError ''Ticket row version is stale.'')
     else if \<not> executable_version wt then Inl not_executable
     else rbind (of_option (InvalidTransitionError
         ''The transition is not allowed from the ticket's current status.'')
         (transition_query (wt_version wt) (wt_status wt) (tc_code cmd) db)) (\<lambda>wx.
       rbind (is_approval_continuation (wx_actions wx)) (\<lambda>continuation.
       if continuation
       then Inl (InvalidTransitionError ''The transition can only be executed by a completed approval.'')
       else Inr (wt, wx))))"

definition comment_first :: "instant \<Rightarrow> workflow_ticket \<Rightarrow> uuid \<Rightarrow> uuid \<Rightarrow> string option \<Rightarrow> string \<Rightarrow> string \<Rightarrow> unit db_op" where
  "comment_first now wt tenant user comment corr req =
     (case comment of
        Some (c # cs) \<Rightarrow> bindS (add_public_comment now tenant (wt_id wt) user (c # cs) corr req
          ''AGENT_PUBLIC_RESPONSE_ADDED'') (\<lambda>_. ret ())
      | _ \<Rightarrow> ret ())"

definition transition_work ::
  "service_env \<Rightarrow> request_context \<Rightarrow> uuid \<Rightarrow> uuid \<Rightarrow> string \<Rightarrow> transition_command
     \<Rightarrow> (bool \<times> uuid \<times> pydict) db_op" where
  "transition_work env ctx tenant user key cmd =
     (let corr = correlation_id ctx; req = request_id ctx in
      bindS (getS (select_transition ctx tenant key cmd)) (\<lambda>selected.
      bindS (liftS selected) (\<lambda>(wt, wx).
      bindS (getS (\<lambda>db. validated_updates (env_wall env) db wt wx (tc_updates cmd))) (\<lambda>checked.
      bindS (liftS checked) (\<lambda>updates.
      bindS (comment_first (env_now env) wt tenant user (transition_comment cmd) corr req) (\<lambda>_.
      bindS (apply_transition wt wx updates) (\<lambda>applied.
      bindS (liftS (of_option (ConcurrencyError ''Ticket changed while the transition was executing.'')
        applied)) (\<lambda>version.
      bindS (record_transition wt wx user version corr req) (\<lambda>_.
      bindS (liftS (approval_requests (wx_actions wx))) (\<lambda>codes.
      bindS (forS (\<lambda>code. bindS (request env tenant (wt_id wt) code user corr req) (\<lambda>_. ret ())) codes) (\<lambda>_.
      ret (False, wt_id wt, [(''ticket_key'', PStr (wt_key wt)),
        (''transition_code'', PStr (wx_code wx)), (''row_version'', PInt version)]))))))))))))"

text \<open>The unit of work: the answer is whether it was a replay.\<close>

definition execute_body ::
  "service_env \<Rightarrow> request_context \<Rightarrow> uuid \<Rightarrow> uuid \<Rightarrow> string \<Rightarrow> transition_command \<Rightarrow> string \<Rightarrow> bool db_op" where
  "execute_body env ctx tenant user key cmd ikey =
     bindS (getS (workflow_ticket_query ctx tenant key)) (\<lambda>found.
     bindS (liftS (of_option NotFoundError found)) (\<lambda>_.
     idempotent_call tenant user ''TICKET_TRANSITION'' ikey
       (env_digest env (transition_document key cmd)) (\<lambda>_. ret True)
       (transition_work env ctx tenant user key cmd)))"

record transition_response =
  rsp_ticket :: ticket_row
  rsp_code :: string
  rsp_replayed :: bool

definition execute ::
  "service_env \<Rightarrow> request_context \<Rightarrow> string \<Rightarrow> transition_command \<Rightarrow> string \<Rightarrow> helpdesk_db
     \<Rightarrow> (app_error + transition_response) \<times> helpdesk_db" where
  "execute env ctx key cmd ikey db =
     (if \<not> is_allowed ctx TICKET_TRANSITION None then (Inl AuthorizationError, db)
      else case identity_of ctx of
        Inl e \<Rightarrow> (Inl e, db)
      | Inr (tenant, user) \<Rightarrow>
          (case execute_body env ctx tenant user key cmd ikey db of
             Inl e \<Rightarrow> (Inl e, db)
           | Inr (replayed, db') \<Rightarrow>
               (rbind (analyst_ticket ctx key db') (\<lambda>t.
                  Inr \<lparr>rsp_ticket = t, rsp_code = tc_code cmd, rsp_replayed = replayed\<rparr>), db')))"

end
