(* ===== verification/ApprovalLaws.thy ===== *)
theory ApprovalLaws
  imports Approvals Frames
begin

text \<open>
  What the approval operations keep: the invariant that ties the status of every approval to the
  decisions recorded for it, and the history relation along which closed approvals and recorded
  decisions never change. Operations outside the approval tables are framed away first.
\<close>

subsection \<open>Operations that leave the approval tables alone\<close>

lemma record_fact_frame [inv_intros]: "keeps approval_frame (record_fact te ti ac ap ty pa co rq)"
  unfolding record_fact_def by (intro fr.keeps_bindS inv_intros)

lemma continue_workflow_frame [inv_intros]: "keeps approval_frame (continue_workflow la tr ac co rq)"
  unfolding continue_workflow_def
  by (auto simp: Let_def split: option.splits
      intro!: inv_intros fr.keeps_bindS fr.keeps_raise fr.keeps_getS)

lemma follow_outcome_frame [inv_intros]: "keeps approval_frame (follow_outcome la te us co rq)"
  unfolding follow_outcome_def
  by (auto split: option.splits intro!: inv_intros fr.keeps_raise fr.keeps_ret)

subsection \<open>The invariant\<close>

definition outcome_of :: "string \<Rightarrow> string option" where
  "outcome_of status = (if status \<in> {''APPROVED'', ''REJECTED''} then Some status else None)"

definition tally :: "string \<Rightarrow> approver_row list \<Rightarrow> app_error + string option" where
  "tally mode rows = terminal_status mode (length rows)
     (count_rows (\<lambda>v. av_decision v = Some ''APPROVED'') rows)
     (count_rows (\<lambda>v. av_decision v = Some ''REJECTED'') rows)"

definition approval_statuses :: "string list" where
  "approval_statuses = [''PENDING'', ''APPROVED'', ''REJECTED'', ''CANCELLED'', ''EXPIRED'']"

definition approval_ok :: "helpdesk_db \<Rightarrow> approval_row \<Rightarrow> bool" where
  "approval_ok db a \<longleftrightarrow> ap_status a \<in> set approval_statuses
     \<and> approver_rows (ap_id a) db \<noteq> []
     \<and> distinct (map av_user (approver_rows (ap_id a) db))
     \<and> (case definition_version (ap_version a) db of None \<Rightarrow> False
        | Some d \<Rightarrow> ad_id d = ap_definition a
            \<and> tally (ad_mode d) (approver_rows (ap_id a) db) = Inr (outcome_of (ap_status a)))"

definition approval_inv :: "helpdesk_db \<Rightarrow> bool" where
  "approval_inv db \<longleftrightarrow>
     distinct (map (ad_version \<circ> adr_definition) (approval_definitions db))
     \<and> distinct (map ap_id (approvals db))
     \<and> (\<forall>v\<in>set (approvers db). av_approval v \<in> ap_id ` set (approvals db))
     \<and> (\<forall>a\<in>set (approvals db). approval_ok db a)"

definition approver_le :: "approver_row \<Rightarrow> approver_row \<Rightarrow> bool" where
  "approver_le v w \<longleftrightarrow> av_approval w = av_approval v \<and> av_user w = av_user v
     \<and> av_sequence w = av_sequence v \<and> (av_decision v \<noteq> None \<longrightarrow> w = v)"

definition approval_le :: "approval_row \<Rightarrow> approval_row \<Rightarrow> bool" where
  "approval_le a b \<longleftrightarrow> ap_id b = ap_id a \<and> ap_ticket b = ap_ticket a \<and> ap_tenant b = ap_tenant a
     \<and> ap_definition b = ap_definition a \<and> ap_version b = ap_version a
     \<and> ap_row_version a \<le> ap_row_version b \<and> (ap_status a \<noteq> ''PENDING'' \<longrightarrow> b = a)"

text \<open>A table whose rows only move along \<open>R\<close> and whose new rows, at the end, satisfy \<open>P\<close>.\<close>

definition grows :: "('a \<Rightarrow> 'a \<Rightarrow> bool) \<Rightarrow> ('a \<Rightarrow> bool) \<Rightarrow> 'a list \<Rightarrow> 'a list \<Rightarrow> bool" where
  "grows R P xs ys \<longleftrightarrow> (\<exists>zs rest. ys = zs @ rest \<and> list_all2 R xs zs \<and> (\<forall>w\<in>set rest. P w))"

lemma growsI: "list_all2 R xs zs \<Longrightarrow> (\<And>w. w \<in> set rest \<Longrightarrow> P w) \<Longrightarrow> grows R P xs (zs @ rest)"
  by (auto simp: grows_def)

lemma grows_refl: "(\<And>x. R x x) \<Longrightarrow> grows R P xs xs"
  using growsI [of R xs xs "[]" P] by (simp add: list_all2_same)

lemma grows_trans:
  assumes xy: "grows R P xs ys" and yz: "grows R Q ys zs"
    and R: "\<And>x y z. R x y \<Longrightarrow> R y z \<Longrightarrow> R x z"
    and P: "\<And>x y. P x \<Longrightarrow> R x y \<Longrightarrow> P' y" and Q: "\<And>x. Q x \<Longrightarrow> P' x"
  shows "grows R P' xs zs"
proof -
  from xy obtain ys1 ys2 where ys: "ys = ys1 @ ys2" "list_all2 R xs ys1" "\<forall>w\<in>set ys2. P w"
    by (auto simp: grows_def)
  from yz ys(1) obtain zs' rest where zs: "zs = zs' @ rest" "list_all2 R (ys1 @ ys2) zs'"
    "\<forall>w\<in>set rest. Q w"
    by (auto simp: grows_def)
  from zs(2) obtain zs1 zs2 where split: "zs' = zs1 @ zs2" "list_all2 R ys1 zs1" "list_all2 R ys2 zs2"
    by (auto simp: list_all2_append1)
  have "list_all2 R xs zs1" by (rule list_all2_trans [OF R ys(2) split(2)])
  moreover have "P' w" if w: "w \<in> set zs2" for w
  proof -
    from w split(3) obtain y where "y \<in> set ys2" "R y w"
      by (auto elim: list_all2_right)
    with ys(3) P show ?thesis by blast
  qed
  then have "\<forall>w\<in>set (zs2 @ rest). P' w" using zs(3) Q by auto
  ultimately show ?thesis using growsI [of R xs zs1 "zs2 @ rest" P'] by (simp add: zs(1) split(1))
qed

lemma grows_map:
  "(\<And>x. x \<in> set xs \<Longrightarrow> R x (f x)) \<Longrightarrow> (\<And>w. w \<in> set rest \<Longrightarrow> P w) \<Longrightarrow> grows R P xs (map f xs @ rest)"
  by (rule growsI) (auto simp: list_all2_conv_all_nth)

definition approval_later :: "helpdesk_db \<Rightarrow> helpdesk_db \<Rightarrow> bool" where
  "approval_later s t \<longleftrightarrow> approval_definitions t = approval_definitions s
     \<and> grows approval_le (\<lambda>_. True) (approvals s) (approvals t)
     \<and> grows approver_le (\<lambda>w. av_approval w \<notin> ap_id ` set (approvals s)) (approvers s) (approvers t)"

lemma approver_le_simps [simp]: "approver_le v v"
  by (simp add: approver_le_def)

lemma approver_le_trans: "approver_le u v \<Longrightarrow> approver_le v w \<Longrightarrow> approver_le u w"
  by (auto simp: approver_le_def)

lemma approval_le_simps [simp]: "approval_le a a"
  by (simp add: approval_le_def)

lemma approval_le_trans: "approval_le a b \<Longrightarrow> approval_le b c \<Longrightarrow> approval_le a c"
  by (auto simp: approval_le_def)

lemma grows_source:
  assumes "grows R P xs ys" "x \<in> set xs"
  obtains y where "y \<in> set ys" "R x y"
proof -
  from assms obtain zs rest where "ys = zs @ rest" "list_all2 R xs zs" by (auto simp: grows_def)
  with assms(2) show thesis using that by (auto elim: list_all2_left)
qed

lemma grows_ids:
  assumes "grows approval_le P xs ys"
  shows "ap_id ` set xs \<subseteq> ap_id ` set ys"
proof
  fix i assume "i \<in> ap_id ` set xs"
  then obtain x where x: "x \<in> set xs" "i = ap_id x" by blast
  from assms x(1) obtain y where "y \<in> set ys" "approval_le x y" by (rule grows_source)
  with x(2) show "i \<in> ap_id ` set ys" by (auto simp: approval_le_def intro!: rev_image_eqI)
qed

lemma approval_later_refl: "approval_later s s"
  by (auto simp: approval_later_def intro!: grows_refl)

lemma approval_later_trans:
  assumes "approval_later s t" "approval_later t u"
  shows "approval_later s u"
  unfolding approval_later_def
proof (intro conjI)
  show "approval_definitions u = approval_definitions s" using assms by (simp add: approval_later_def)
  show "grows approval_le (\<lambda>_. True) (approvals s) (approvals u)"
    using assms unfolding approval_later_def
    by (elim conjE) (rule grows_trans [of approval_le], assumption, assumption, rule approval_le_trans)
  have ids: "ap_id ` set (approvals s) \<subseteq> ap_id ` set (approvals t)"
    using assms by (auto simp: approval_later_def dest: grows_ids)
  show "grows approver_le (\<lambda>w. av_approval w \<notin> ap_id ` set (approvals s)) (approvers s) (approvers u)"
  proof (rule grows_trans [of approver_le])
    show "grows approver_le (\<lambda>w. av_approval w \<notin> ap_id ` set (approvals s)) (approvers s) (approvers t)"
      "grows approver_le (\<lambda>w. av_approval w \<notin> ap_id ` set (approvals t)) (approvers t) (approvers u)"
      using assms by (simp_all add: approval_later_def)
      show "av_approval y \<notin> ap_id ` set (approvals s)"
      if "av_approval x \<notin> ap_id ` set (approvals s)" "approver_le x y" for x y
      using that by (simp add: approver_le_def)
  qed (use ids in \<open>auto intro: approver_le_trans\<close>)
qed

definition approval_step :: "helpdesk_db \<Rightarrow> helpdesk_db \<Rightarrow> bool" where
  "approval_step s t \<longleftrightarrow> (approval_inv s \<longrightarrow> approval_inv t \<and> approval_later s t)"

interpretation ap: history approval_step
  by unfold_locales (auto simp: approval_step_def intro: approval_later_refl approval_later_trans)

subsection \<open>From frames to steps\<close>

lemma approval_inv_frame: "approval_frame s t \<Longrightarrow> approval_inv t = approval_inv s"
  by (simp add: approval_frame_def approval_inv_def approval_ok_def approver_rows_def
      definition_version_def cong: option.case_cong)

lemma frame_step: "approval_frame s t \<Longrightarrow> approval_step s t"
  unfolding approval_step_def
  by (auto simp: approval_inv_frame)
    (simp add: approval_frame_def approval_later_def grows_refl)

lemma keeps_frame_step: "keeps approval_frame m \<Longrightarrow> keeps approval_step m"
  by (auto simp: keeps_def intro: frame_step)

lemma record_fact_step [inv_intros]: "keeps approval_step (record_fact te ti ac ap ty pa co rq)"
  by (rule keeps_frame_step) (rule record_fact_frame)

subsection \<open>Opening an approval\<close>

definition blank_approver :: "uuid \<Rightarrow> nat \<times> uuid \<Rightarrow> approver_row" where
  "blank_approver approval entry = \<lparr>av_approval = approval, av_user = snd entry,
     av_sequence = fst entry, av_decision = None, av_comment = None, av_decided_at = None\<rparr>"

lemma blank_approver_simps [simp]:
  "av_approval (blank_approver a e) = a" "av_user (blank_approver a e) = snd e"
  "av_decision (blank_approver a e) = None"
  by (simp_all add: blank_approver_def)

lemma insert_approvers_effect:
  assumes "forS (insert_approver approval) es db = Inr (u, db')"
  shows "db' = db\<lparr>approvers := approvers db @ map (blank_approver approval) es\<rparr>
    \<and> distinct (map snd es)
    \<and> (\<forall>v\<in>set (approvers db). av_approval v = approval \<longrightarrow> av_user v \<notin> snd ` set es)"
  using assms
proof (induction es arbitrary: db)
  case (Cons e es)
  from Cons.prems obtain db1 where one: "insert_approver approval e db = Inr ((), db1)"
    and rest: "forS (insert_approver approval) es db1 = Inr (u, db')"
    by (auto elim: bindS_E)
  from one have db1: "db1 = db\<lparr>approvers := approvers db @ [blank_approver approval e]\<rparr>"
    and new: "\<forall>v\<in>set (approvers db). av_approval v = approval \<longrightarrow> av_user v \<noteq> snd e"
    by (auto simp: insert_approver_def blank_approver_def split: if_splits)
  from Cons.IH [OF rest] new show ?case by (auto simp: db1)
qed simp

lemma approver_rows_append:
  "approver_rows a (db\<lparr>approvers := approvers db @ rows\<rparr>)
     = approver_rows a db @ filter (\<lambda>v. av_approval v = a) rows"
  by (simp add: approver_rows_def)

lemma filter_blank:
  "filter (\<lambda>v. av_approval v = a) (map (blank_approver b) es) = (if a = b then map (blank_approver b) es else [])"
  by (induction es) auto

lemma tally_blank:
  assumes "es \<noteq> []" "mode \<in> {''ANY_ONE_APPROVER'', ''ALL_APPROVERS'', ''MANAGER_APPROVAL''}"
  shows "tally mode (map (blank_approver a) es) = Inr None"
  using assms by (auto simp: tally_def terminal_status_def count_rows_def filter_map comp_def)

lemma published_definition_version:
  assumes inv: "approval_inv db" and d: "published_definition now tenant project code db = Some d"
  shows "definition_version (ad_version d) db = Some d"
proof -
  from d obtain r rs where "sort_key (\<lambda>r. - adr_number r)
      (filter (is_published now tenant project code) (approval_definitions db)) = r # rs"
    and dr: "d = adr_definition r"
    by (auto simp: published_definition_def split: list.splits)
  then have "r \<in> set (sort_key (\<lambda>r. - adr_number r)
      (filter (is_published now tenant project code) (approval_definitions db)))" by simp
  then have "r \<in> set (approval_definitions db)" by simp
  with inv find_unique [of "ad_version \<circ> adr_definition" "approval_definitions db" r] show ?thesis
    by (simp add: definition_version_def approval_inv_def dr comp_def)
qed

lemma definition_version_frame:
  "approval_definitions t = approval_definitions s \<Longrightarrow> definition_version v t = definition_version v s"
  by (simp add: definition_version_def)

lemma approval_ok_frame:
  assumes "approval_ok s a" "approver_rows (ap_id a) t = approver_rows (ap_id a) s"
    and "approval_definitions t = approval_definitions s"
  shows "approval_ok t a"
  using assms by (simp add: approval_ok_def definition_version_frame [OF assms(3)] cong: option.case_cong)

text \<open>A new pending approval with undecided approvers, put beside the others.\<close>

lemma open_approval_step:
  assumes inv: "approval_inv s" and new: "ap_id a \<notin> ap_id ` set (approvals s)"
    and a: "ap_status a = ''PENDING''"
    and d: "definition_version (ap_version a) s = Some d" "ad_id d = ap_definition a"
    and mode: "ad_mode d \<in> {''ANY_ONE_APPROVER'', ''ALL_APPROVERS'', ''MANAGER_APPROVAL''}"
    and es: "es \<noteq> []" "distinct (map snd es)"
    and t: "approvals t = approvals s @ [a]"
      "approvers t = approvers s @ map (blank_approver (ap_id a)) es"
      "approval_definitions t = approval_definitions s"
  shows "approval_inv t \<and> approval_later s t"
proof
  have "av_approval v \<noteq> ap_id a" if "v \<in> set (approvers s)" for v
    using inv new that unfolding approval_inv_def by metis
  then have none: "approver_rows (ap_id a) s = []" by (simp add: approver_rows_def filter_empty_conv)
  have rows: "approver_rows i t = approver_rows i s @
      (if i = ap_id a then map (blank_approver (ap_id a)) es else [])" for i
    by (simp add: approver_rows_def t(2) filter_blank)
  have "approval_ok t b" if b: "b \<in> set (approvals s)" for b
  proof (rule approval_ok_frame)
    show "approval_ok s b" using inv b by (simp add: approval_inv_def)
    show "approver_rows (ap_id b) t = approver_rows (ap_id b) s" using new b by (auto simp: rows image_iff)
  qed (rule t(3))
  moreover have "approval_ok t a"
    using es a d tally_blank [OF es(1) mode]
    by (simp add: approval_ok_def rows none outcome_of_def approval_statuses_def
        definition_version_frame [OF t(3)] comp_def)
  ultimately show "approval_inv t"
    using inv new by (auto simp: approval_inv_def t)
  have "grows approver_le (\<lambda>w. av_approval w \<notin> ap_id ` set (approvals s)) (approvers s) (approvers t)"
    unfolding t(2)
  proof (rule growsI)
    fix w assume "w \<in> set (map (blank_approver (ap_id a)) es)"
    then have "av_approval w = ap_id a" by auto
    with new show "av_approval w \<notin> ap_id ` set (approvals s)" by simp
  qed (simp add: list_all2_same)
  moreover have "grows approval_le (\<lambda>_. True) (approvals s) (approvals t)"
    unfolding t(1) by (rule growsI) (simp_all add: list_all2_same)
  ultimately show "approval_later s t" by (simp add: approval_later_def t(3))
qed

lemma resolve_modes:
  assumes "resolve tk d db = Inr (ids, db')"
  shows "ad_mode d \<in> {''ANY_ONE_APPROVER'', ''ALL_APPROVERS'', ''MANAGER_APPROVAL''}
    \<and> ids \<noteq> [] \<and> db' = db"
  using assms
  by (auto simp: resolve_def resolve_listed_def resolve_manager_def distinct_first_def Let_def
      rbind_Inr_iff split: pyval.splits if_splits option.splits list.splits)

lemma distinct_first_set [simp]: "set (distinct_first xs) = set xs" "distinct (distinct_first xs)"
  by (simp_all add: distinct_first_def)

lemma create_approval_step:
  assumes run: "create_approval env tk d ids actor corr req s = Inr (r, t)" and inv: "approval_inv s"
    and d: "definition_version (ad_version d) s = Some d"
    and mode: "ad_mode d \<in> {''ANY_ONE_APPROVER'', ''ALL_APPROVERS'', ''MANAGER_APPROVAL''}"
    and ids: "ids \<noteq> []"
  shows "approval_inv t \<and> approval_later s t"
proof -
  from run obtain i s1 a s2 s3 where draw: "draw_uuid s = Inr (i, s1)"
    and ins: "insert_approval a s1 = Inr ((), s2)" "ap_id a = i" "ap_status a = ''PENDING''"
      "ap_version a = ad_version d" "ad_id d = ap_definition a"
    and rows: "forS (insert_approver i) (enumerate 1 ids) s2 = Inr ((), s3)"
    and fact: "record_fact (at_tenant tk) (at_ticket tk) actor i ''APPROVAL_REQUESTED''
      (requested_payload i tk d ids) corr req s3 = Inr ((), t)"
    unfolding create_approval_def by (elim bindS_E) (auto intro: that)
  from ins(1) have new: "ap_id a \<notin> ap_id ` set (approvals s1)"
    and s2: "s2 = s1\<lparr>approvals := approvals s1 @ [a]\<rparr>"
    by (auto simp: insert_approval_def split: if_splits)
  from insert_approvers_effect [OF rows]
  have s3: "s3 = s2\<lparr>approvers := approvers s2 @ map (blank_approver i) (enumerate 1 ids)\<rparr>"
    and es: "distinct (map snd (enumerate 1 ids))" by simp_all
  have f1: "approval_frame s s1" and f2: "approval_frame s3 t"
    by (rule keepsD [OF draw_uuid_frames(1) draw], rule keepsD [OF record_fact_frame fact])
  have f1': "approvals s1 = approvals s" "approvers s1 = approvers s"
    "approval_definitions s1 = approval_definitions s" using f1 by (simp_all add: approval_frame_def)
  have ap: "ap_id a \<notin> ap_id ` set (approvals s)" using new by (simp add: f1')
  have ver: "definition_version (ap_version a) s = Some d" by (simp add: ins d)
  have ne: "enumerate 1 ids \<noteq> []" using ids by (cases ids) simp_all
  show ?thesis
  proof (rule open_approval_step [OF inv ap ins(3) ver ins(5) mode ne es])
    show "approvals t = approvals s @ [a]"
      "approvers t = approvers s @ map (blank_approver (ap_id a)) (enumerate 1 ids)"
      "approval_definitions t = approval_definitions s"
      using f2 by (simp_all add: approval_frame_def s3 s2 f1' ins(2))
  qed
qed

lemma request_step [inv_intros]: "keeps approval_step (request env tenant ticket code actor corr req)"
proof
  fix s r t assume run: "request env tenant ticket code actor corr req s = Inr (r, t)"
  show "approval_step s t"
    unfolding approval_step_def
  proof
    assume inv: "approval_inv s"
    from run obtain tk d ids s1 where
      d: "published_definition (env_now env) tenant (at_project tk) code s = Some d"
      and res: "resolve tk d s = Inr (ids, s1)"
      and cr: "create_approval env tk d ids actor corr req s1 = Inr (r, t)"
      unfolding request_def by (elim bindS_E) (auto split: if_splits intro: that)
    note m = resolve_modes [OF res]
    with cr have cr': "create_approval env tk d ids actor corr req s = Inr (r, t)" by simp
    from m create_approval_step [OF cr' inv published_definition_version [OF inv d]]
    show "approval_inv t \<and> approval_later s t" by blast
  qed
qed

subsection \<open>Closing approvals without a decision\<close>

lemma update_approvals_effect:
  assumes "update_approvals p f s = Inr (rows, t)"
  shows "t = s\<lparr>approvals := map (\<lambda>a. if p a then f a else a) (approvals s)\<rparr>
    \<and> rows = map f (filter p (approvals s))"
  using assms by (auto simp: update_approvals_def split: if_splits)

lemma closed_row_simps [simp]:
  "ap_id (closed_row now st a) = ap_id a" "ap_version (closed_row now st a) = ap_version a"
  "ap_ticket (closed_row now st a) = ap_ticket a" "ap_tenant (closed_row now st a) = ap_tenant a"
  "ap_definition (closed_row now st a) = ap_definition a"
  "ap_row_version (closed_row now st a) = ap_row_version a + 1"
  "ap_status (closed_row now st a) = (case st of None \<Rightarrow> ap_status a | Some c \<Rightarrow> c)"
  by (simp_all add: closed_row_def)

lemma closed_row_le: "ap_status a = ''PENDING'' \<Longrightarrow> approval_le a (closed_row now st a)"
  by (simp add: approval_le_def)

lemma map_ids: "(\<And>a. ap_id (f a) = ap_id a) \<Longrightarrow> map ap_id (map (\<lambda>a. if p a then f a else a) xs) = map ap_id xs"
  by (induction xs) auto

text \<open>Approval rows replaced in place, the rest of the tables as the step lemma's premises say.\<close>

lemma replace_approvals_step:
  assumes inv: "approval_inv s"
    and ids: "\<And>a. ap_id (f a) = ap_id a"
    and pending: "\<And>a. a \<in> set (approvals s) \<Longrightarrow> p a \<Longrightarrow> approval_le a (f a)"
    and ok: "\<And>a. a \<in> set (approvals s) \<Longrightarrow> approval_ok s a \<Longrightarrow> approval_ok t (if p a then f a else a)"
    and t: "approvals t = map (\<lambda>a. if p a then f a else a) (approvals s)"
      "approvers t = map g (approvers s)" "approval_definitions t = approval_definitions s"
    and g: "\<And>v. approver_le v (g v)"
  shows "approval_inv t \<and> approval_later s t"
proof
  have same: "map ap_id (approvals t) = map ap_id (approvals s)" unfolding t(1) by (rule map_ids [OF ids])
  then have ids_same: "ap_id ` set (approvals t) = ap_id ` set (approvals s)" by (metis image_set)
  have "av_approval (g v) = av_approval v" for v using g [of v] by (simp add: approver_le_def)
  then have "\<forall>v\<in>set (approvers t). av_approval v \<in> ap_id ` set (approvals t)"
    using inv unfolding ids_same t(2) approval_inv_def by simp
  moreover have "approval_ok t (if p a then f a else a)" if "a \<in> set (approvals s)" for a
    using ok [OF that] inv that by (simp add: approval_inv_def)
  then have "\<forall>a\<in>set (approvals t). approval_ok t a" unfolding t(1) by (simp only: set_map ball_simps) blast
  ultimately show "approval_inv t"
    using inv same by (simp add: approval_inv_def t(3))
  have "grows approval_le (\<lambda>_. True) (approvals s) (approvals t)"
    unfolding t(1) using grows_map [of "approvals s" approval_le _ "[]"] pending by simp
  moreover have "grows approver_le (\<lambda>w. av_approval w \<notin> ap_id ` set (approvals s)) (approvers s) (approvers t)"
    unfolding t(2) using grows_map [of "approvers s" approver_le g "[]"] g by simp
  ultimately show "approval_later s t" by (simp add: approval_later_def t(3))
qed

lemma close_step:
  assumes run: "update_approvals p (closed_row now (Some status)) s = Inr (rows, t)"
    and p: "\<And>a. p a \<Longrightarrow> ap_status a = ''PENDING''" and status: "status \<in> {''EXPIRED'', ''CANCELLED''}"
  shows "approval_step s t"
  unfolding approval_step_def
proof
  assume inv: "approval_inv s"
  note t = update_approvals_effect [OF run, THEN conjunct1]
  show "approval_inv t \<and> approval_later s t"
  proof (rule replace_approvals_step [OF inv, where g = "\<lambda>v. v"])
    fix a assume ok: "approval_ok s a"
    have st: "status \<in> set approval_statuses" "outcome_of status = None" "outcome_of ''PENDING'' = None"
      using status by (auto simp: approval_statuses_def outcome_of_def)
    from ok show "approval_ok t (if p a then closed_row now (Some status) a else a)"
      by (auto simp: approval_ok_def t approver_rows_def definition_version_def st p
          cong: option.case_cong)
  qed (use p in \<open>simp_all add: t closed_row_le\<close>)
qed

lemma expire_step [inv_intros]: "keeps approval_step (expire_if_due env la actor corr req)"
proof
  fix s r t assume run: "expire_if_due env la actor corr req s = Inr (r, t)"
  show "approval_step s t"
  proof (cases "case la_expires_at la of None \<Rightarrow> True | Some e \<Rightarrow> env_wall env < e")
    case True
    with run show ?thesis by (simp add: expire_if_due_def ap.refl)
  next
    case False
    from run obtain rows s1 where
      up: "update_approvals (\<lambda>a. ap_id a = la_id la \<and> ap_status a = ''PENDING'')
        (closed_row (env_now env) (Some ''EXPIRED'')) s = Inr (rows, s1)"
      and rest: "(if rows = [] then ret False
        else bindS (record_fact (la_tenant la) (la_ticket la) actor (la_id la) ''APPROVAL_EXPIRED''
               [(''approval_id'', uuid_val (la_id la))] corr req) (\<lambda>_. ret True)) s1 = Inr (r, t)"
      unfolding expire_if_due_def if_not_P [OF False] by (rule bindS_E)
    have "approval_step s s1" by (rule close_step [OF up]) auto
    moreover have "approval_step s1 t"
      using rest by (auto elim!: bindS_E split: if_splits intro: ap.refl dest: keepsD [OF record_fact_step])
    ultimately show ?thesis by (rule ap.trans)
  qed
qed

lemma map_unhit: "filter p xs = [] \<Longrightarrow> map (\<lambda>x. if p x then f x else x) xs = xs"
  by (induction xs) (auto split: if_splits)

lemma expire_not_due: "expire_if_due env la actor corr req s = Inr (False, t) \<Longrightarrow> t = s"
  by (auto simp: expire_if_due_def map_unhit split: if_splits elim!: bindS_E dest!: update_approvals_effect)

lemma cancel_step [inv_intros]: "keeps approval_step (cancel_pending env tenant ticket actor corr req)"
proof
  fix s r t assume "cancel_pending env tenant ticket actor corr req s = Inr (r, t)"
  then obtain rows s1 where
    up: "update_approvals (\<lambda>a. ap_tenant a = tenant \<and> ap_ticket a = ticket \<and> ap_status a = ''PENDING'')
      (closed_row (env_now env) (Some ''CANCELLED'')) s = Inr (rows, s1)"
    and rest: "bindS (forS (\<lambda>a. record_fact tenant ticket actor (ap_id a) ''APPROVAL_CANCELLED''
       [(''approval_id'', uuid_val (ap_id a))] corr req) rows) (\<lambda>_. ret (length rows)) s1 = Inr (r, t)"
    unfolding cancel_pending_def by (rule bindS_E)
  have "approval_step s s1" by (rule close_step [OF up]) auto
  moreover have "keeps approval_step (bindS (forS (\<lambda>a. record_fact tenant ticket actor (ap_id a)
       ''APPROVAL_CANCELLED'' [(''approval_id'', uuid_val (ap_id a))] corr req) rows) (\<lambda>_. ret (length rows)))"
    by (intro ap.keeps_bindS ap.keeps_forS ap.keeps_ret record_fact_step)
  then have "approval_step s1 t" using rest by (rule keepsD)
  ultimately show "approval_step s t" by (rule ap.trans)
qed

subsection \<open>Recording a decision\<close>

lemma lock_facts:
  assumes "lock_for_decision tenant i user s = Some la"
  obtains a v d tk where "a \<in> set (approvals s)" "ap_id a = i" "ap_tenant a = tenant"
    "v \<in> set (approver_rows i s)" "av_user v = user" "la_decision la = av_decision v"
    "definition_version (ap_version a) s = Some d" "la_mode la = ad_mode d" "la_rule la = ad_rule d"
    "la_id la = i" "la_status la = ap_status a" "la_row_version la = ap_row_version a"
    "la_tenant la = tenant" "la_ticket la = ap_ticket a" "la_expires_at la = ap_expires_at a"
    "la_self_approval la = ad_self_approval d"
    "la_approved_transition la = ad_approved_transition d"
    "la_rejected_transition la = ad_rejected_transition d" "la_approver la = user"
    "tk \<in> set (tickets s)" "t_id tk = ap_ticket a"
    "la_requester la = requested_for_or_reporter (t_requested_for tk) (t_reporter tk)"
  using assms unfolding lock_for_decision_def
  by (auto split: option.splits dest!: find_Some_in)

text \<open>What one decision does to the rows of its approval.\<close>

lemma decide_row_simps [simp]:
  "av_approval (decide_row now i user code c v) = av_approval v"
  "av_user (decide_row now i user code c v) = av_user v"
  by (simp_all add: decide_row_def)

lemma decide_row_le: "approver_le v (decide_row now i user code c v)"
  by (simp add: decide_row_def approver_le_def)

lemma approver_rows_decided:
  "approvers t = map (decide_row now i user code c) (approvers s)
    \<Longrightarrow> approver_rows j t = map (decide_row now i user code c) (approver_rows j s)"
  by (simp add: approver_rows_def filter_map comp_def)

lemma decide_other_rows:
  "(\<And>v. v \<in> set rows \<Longrightarrow> av_approval v \<noteq> i) \<Longrightarrow> map (decide_row now i user code c) rows = rows"
  by (induction rows) (auto simp: decide_row_def)

definition undecided :: "uuid \<Rightarrow> uuid \<Rightarrow> approver_row list \<Rightarrow> bool" where
  "undecided i user rows \<longleftrightarrow> (\<exists>v\<in>set rows. av_approval v = i \<and> av_user v = user \<and> av_decision v = None)"

lemma count_rows_simps [simp]:
  "count_rows p [] = 0" "count_rows p (x # xs) = (if p x then 1 else 0) + count_rows p xs"
  by (simp_all add: count_rows_def)

lemma count_decided:
  assumes "distinct (map av_user rows)"
  shows "count_rows (\<lambda>v. av_decision v = Some k) (map (decide_row now i user code c) rows)
    = count_rows (\<lambda>v. av_decision v = Some k) rows + (if k = code \<and> undecided i user rows then 1 else 0)"
  using assms
proof (induction rows)
  case (Cons v rows)
  have later: "undecided i user rows \<Longrightarrow> av_user v \<noteq> user"
    using Cons.prems by (auto simp: undecided_def)
  show ?case
  proof (cases "av_approval v = i \<and> av_user v = user \<and> av_decision v = None")
    case True
    with later have "\<not> undecided i user rows" by blast
    moreover from True have "undecided i user (v # rows)" by (simp add: undecided_def)
    moreover note True
    ultimately show ?thesis using Cons by (simp add: decide_row_def)
  next
    case False
    then have "decide_row now i user code c v = v" by (auto simp: decide_row_def)
    moreover from False have "undecided i user (v # rows) = undecided i user rows"
      by (auto simp: undecided_def)
    ultimately show ?thesis using Cons by simp
  qed
qed (simp add: undecided_def)

lemma tally_after:
  assumes "distinct (map av_user (approver_rows i s))" "undecided i user (approver_rows i s)"
  shows "tally (la_mode la) (map (decide_row now i user (stored_code k) c) (approver_rows i s))
    = tally_with la k (decision_counts i s)"
  using assms
  by (cases k) (simp_all add: tally_def tally_with_def decision_counts_def Let_def count_decided
      stored_code_def)

lemma terminal_outcome:
  "terminal_status mode n a r = Inr (Some st) \<Longrightarrow> st \<in> {''APPROVED'', ''REJECTED''}"
  by (auto simp: terminal_status_def split: if_splits)

lemma tally_with_outcome: "tally_with la k counts = Inr (Some st) \<Longrightarrow> st \<in> {''APPROVED'', ''REJECTED''}"
  by (auto simp: tally_with_def dest!: terminal_outcome split: prod.splits)

lemma record_decision_effect:
  assumes "record_decision env la user code c terminal corr req s = Inr (version, t)"
  obtains s1 where "approval_frame s1 t"
    "s1 = s\<lparr>decisions := decisions s @ [\<lparr>dc_approval = la_id la, dc_user = user, dc_code = code, dc_comment = c\<rparr>],
        approvers := map (decide_row (env_now env) (la_id la) user code c) (approvers s),
        approvals := map (\<lambda>a. if ap_id a = la_id la \<and> ap_row_version a = la_row_version la
          then closed_row (env_now env) terminal a else a) (approvals s)\<rparr>"
    "version = la_row_version la + 1"
    "\<forall>d\<in>set (decisions s). \<not> (dc_approval d = la_id la \<and> dc_user d = user)"
proof -
  let ?hit = "\<lambda>a. ap_id a = la_id la \<and> ap_row_version a = la_row_version la"
  from assms obtain s1 s2 s3 rows where
    ins: "insert_decision (la_id la) user code c s = Inr ((), s1)"
    and s2: "s2 = s1\<lparr>approvers := map (decide_row (env_now env) (la_id la) user code c) (approvers s1)\<rparr>"
    and up: "update_approvals ?hit (closed_row (env_now env) terminal) s2 = Inr (rows, s3)"
    and rest: "(case rows of [] \<Rightarrow> raise (UncaughtError ''NoResultFound'')
     | a # _ \<Rightarrow> bindS (record_fact (la_tenant la) (la_ticket la) user (la_id la) ''APPROVAL_DECIDED''
           (decided_payload la user code c terminal (ap_row_version a)) corr req) (\<lambda>_.
         ret (ap_row_version a))) s3 = Inr (version, t)"
    unfolding record_decision_def by (elim bindS_E) (auto intro: that)
  note s3 = update_approvals_effect [OF up]
  from rest obtain a as where rows: "rows = a # as" by (cases rows) auto
  from s3 rows have "a \<in> set (map (closed_row (env_now env) terminal) (filter ?hit (approvals s2)))"
    by (metis list.set_intros(1))
  then have version: "ap_row_version a = la_row_version la + 1" by auto
  from rest rows have "approval_frame s3 t" "version = ap_row_version a"
    by (auto elim!: bindS_E dest: keepsD [OF record_fact_frame])
  moreover from ins have "s1 = s\<lparr>decisions := decisions s @
      [\<lparr>dc_approval = la_id la, dc_user = user, dc_code = code, dc_comment = c\<rparr>]\<rparr>"
    "\<forall>d\<in>set (decisions s). \<not> (dc_approval d = la_id la \<and> dc_user d = user)"
    by (auto simp: insert_decision_def split: if_splits)
  ultimately show thesis using that [of s3] s3 version by (simp add: s2)
qed

lemma unique_approval:
  "approval_inv s \<Longrightarrow> a \<in> set (approvals s) \<Longrightarrow> b \<in> set (approvals s) \<Longrightarrow> ap_id a = ap_id b \<Longrightarrow> a = b"
  by (auto simp: approval_inv_def distinct_map dest: inj_onD)

lemma follow_outcome_frameD:
  "follow_outcome la terminal user corr req s = Inr (u, t) \<Longrightarrow> approval_frame s t"
  by (rule keepsD [OF follow_outcome_frame])

lemma settle_step:
  assumes lock: "lock_for_decision tenant i user s = Some la"
    and open_: "la_status la = ''PENDING''" "la_decision la = None"
    and run: "settle_decision env la user cmd corr req s = Inr (version, t)"
  shows "approval_step s t"
  unfolding approval_step_def
proof
  assume inv: "approval_inv s"
  from run obtain terminal s2 where
    tw: "tally_with la (cmd_decision cmd) (decision_counts (la_id la) s) = Inr terminal"
    and rec: "record_decision env la user (stored_code (cmd_decision cmd))
      (clean_comment (cmd_comment cmd)) terminal corr req s = Inr (version, s2)"
    and fol: "follow_outcome la terminal user corr req s2 = Inr ((), t)"
    unfolding settle_decision_def by (elim bindS_E) (auto intro: that)
  from lock obtain a v d where a: "a \<in> set (approvals s)" "ap_id a = i"
    and v: "v \<in> set (approver_rows i s)" "av_user v = user" "av_decision v = None"
    and d: "definition_version (ap_version a) s = Some d" "la_mode la = ad_mode d"
    and la: "la_id la = i" "la_row_version la = ap_row_version a" "ap_status a = ''PENDING''"
    using open_ by (elim lock_facts) auto
  let ?code = "stored_code (cmd_decision cmd)" and ?c = "clean_comment (cmd_comment cmd)"
  let ?g = "decide_row (env_now env) i user ?code ?c"
  from rec obtain s1 where f1: "approval_frame s1 s2"
    and s1: "approvers s1 = map ?g (approvers s)" "approval_definitions s1 = approval_definitions s"
      "approvals s1 = map (\<lambda>b. if ap_id b = i \<and> ap_row_version b = ap_row_version a
        then closed_row (env_now env) terminal b else b) (approvals s)"
    by (elim record_decision_effect) (auto simp: la intro: that)
  have ok: "approval_ok s a" using inv a by (simp add: approval_inv_def)
  have und: "undecided i user (approver_rows i s)"
    using v by (auto simp: undecided_def approver_rows_def)
  have new: "tally (ad_mode d) (map ?g (approver_rows i s)) = Inr terminal"
    using tally_after [of i s user la "env_now env" "cmd_decision cmd" ?c] ok und tw a
    by (simp add: approval_ok_def la d)
  have "approval_inv s1 \<and> approval_later s s1"
  proof (rule replace_approvals_step [OF inv, where g = ?g])
    fix b assume b: "b \<in> set (approvals s)" and okb: "approval_ok s b"
    let ?b = "if ap_id b = i \<and> ap_row_version b = ap_row_version a
        then closed_row (env_now env) terminal b else b"
    show "approval_ok s1 ?b"
    proof (cases "ap_id b = i")
      case True
      with unique_approval [OF inv a(1) b] a have "b = a" by simp
      have "case terminal of None \<Rightarrow> True | Some st \<Rightarrow> st \<in> {''APPROVED'', ''REJECTED''}"
        by (cases terminal) (use tally_with_outcome [of la _ _] tw in auto)
      moreover have "outcome_of ''PENDING'' = None" by (simp add: outcome_of_def)
      ultimately show ?thesis
        using ok new
        by (auto simp: \<open>b = a\<close> approval_ok_def a la d approver_rows_decided [OF s1(1)] comp_def
            definition_version_frame [OF s1(2)] outcome_of_def approval_statuses_def split: option.splits)
    next
      case False
      have "approver_rows (ap_id b) s1 = approver_rows (ap_id b) s"
        unfolding approver_rows_decided [OF s1(1)]
        by (rule decide_other_rows) (use False in \<open>auto simp: approver_rows_def\<close>)
      from approval_ok_frame [OF okb this s1(2)] False show ?thesis by simp
    qed
  next
    fix b assume b: "b \<in> set (approvals s)" "ap_id b = i \<and> ap_row_version b = ap_row_version a"
    with unique_approval [OF inv a(1) b(1)] a(2) have "a = b" by simp
    with la(3) show "approval_le b (closed_row (env_now env) terminal b)" by (simp add: closed_row_le)
  qed (simp_all add: s1 decide_row_le)
  moreover have "approval_step s1 t"
    using frame_step [OF f1] frame_step [OF follow_outcome_frameD [OF fol]] by (rule ap.trans)
  ultimately show "approval_inv t \<and> approval_later s t"
    using approval_later_trans by (auto simp: approval_step_def)
qed

lemma decide_body_step:
  assumes run: "decide_body env ctx tenant user i cmd key s = Inr (r, t)"
  shows "approval_step s t"
proof -
  from run obtain idem s1 where cl: "claim_checked tenant user ''APPROVAL_DECISION'' key
      (env_digest env (decision_document i cmd)) s = Inr (idem, s1)"
    and rest: "(if idem_status idem = ''COMPLETED''
     then bindS (getS (view_for_user tenant i user)) (\<lambda>w.
          case w of None \<Rightarrow> raise NotFoundError | Some w \<Rightarrow> ret (Inr (Replayed w)))
     else bindS (getS (lock_for_decision tenant i user)) (\<lambda>locked.
       bindS (liftS (of_option NotFoundError locked)) (\<lambda>la.
       bindS (expire_if_due env la user (correlation_id ctx) (request_id ctx)) (\<lambda>expired.
       if expired then ret (Inl (ConflictError ''Approval has expired.''))
       else bindS (liftS (decision_guard la user cmd)) (\<lambda>_.
         bindS (settle_decision env la user cmd (correlation_id ctx) (request_id ctx)) (\<lambda>version.
         bindS (complete_idempotency (idem_id idem) i
           [(''approval_id'', uuid_val i), (''row_version'', PInt version)]) (\<lambda>_.
         ret (Inr Decided)))))))) s1 = Inr (r, t)"
    unfolding decide_body_def by (rule bindS_E)
  have "approval_step s s1" by (rule frame_step) (rule keepsD [OF claim_frames(1) cl])
  moreover have "approval_step s1 t"
  proof (cases "idem_status idem = ''COMPLETED''")
    case True
    with rest show ?thesis by (auto split: option.splits intro: ap.refl)
  next
    case False
    with rest obtain la expired s2 where lock: "lock_for_decision tenant i user s1 = Some la"
      and ex: "expire_if_due env la user (correlation_id ctx) (request_id ctx) s1 = Inr (expired, s2)"
      and rest: "(if expired then ret (Inl (ConflictError ''Approval has expired.''))
       else bindS (liftS (decision_guard la user cmd)) (\<lambda>_.
         bindS (settle_decision env la user cmd (correlation_id ctx) (request_id ctx)) (\<lambda>version.
         bindS (complete_idempotency (idem_id idem) i
           [(''approval_id'', uuid_val i), (''row_version'', PInt version)]) (\<lambda>_.
         ret (Inr Decided))))) s2 = Inr (r, t)"
      by (auto simp: bind_liftS_iff elim: bindS_E)
    have s12: "approval_step s1 s2" by (rule keepsD [OF expire_step ex])
    show ?thesis
    proof (cases expired)
      case True
      with rest s12 show ?thesis by simp
    next
      case False
      have s2: "s2 = s1" using ex False by (auto dest: expire_not_due)
      from rest False obtain version s3 where guard: "decision_guard la user cmd = Inr ()"
        and settle: "settle_decision env la user cmd (correlation_id ctx) (request_id ctx) s1 = Inr (version, s3)"
        and fin: "complete_idempotency (idem_id idem) i
           [(''approval_id'', uuid_val i), (''row_version'', PInt version)] s3 = Inr ((), t)"
        by (auto simp: bind_liftS_iff s2 elim!: bindS_E)
      have "approval_step s1 s3" using guard
        by (intro settle_step [OF lock _ _ settle]) (auto simp: decision_guard_def split: if_splits)
      moreover have "approval_step s3 t" by (rule frame_step) (rule keepsD [OF complete_frames(1) fin])
      ultimately show ?thesis by (rule ap.trans)
    qed
  qed
  ultimately show ?thesis by (rule ap.trans)
qed

end
