(* ===== verification/WorkflowSpec.thy ===== *)
theory WorkflowSpec
  imports Workflow ApprovalLaws Demo
begin

text \<open>
  What the workflow service promises: a transition is executed only along an active transition of the
  ticket's pinned version whose guard holds and whose required fields are filled, it writes the
  status, the version and the columns it may write and nothing else, errors leave no trace, and a
  repeated command is answered without effect.
\<close>

subsection \<open>Frames\<close>

lemma record_fact_frames [inv_intros]:
  "keeps ticket_frame (record_fact te ti ac ap ty pa co rq)" "keeps idem_frame (record_fact te ti ac ap ty pa co rq)"
  unfolding record_fact_def by (intro tf.keeps_bindS idf.keeps_bindS inv_intros)+

lemma create_approval_frames:
  "keeps ticket_frame (create_approval env tk d ids ac co rq)" "keeps idem_frame (create_approval env tk d ids ac co rq)"
proof -
  have "keeps ticket_frame (insert_approval a)" "keeps idem_frame (insert_approval a)"
    "keeps ticket_frame (insert_approver i e)" "keeps idem_frame (insert_approver i e)" for a i e
    by (auto simp: keeps_def frame_defs insert_approval_def insert_approver_def split: if_splits)
  note ins = this
  show "keeps ticket_frame (create_approval env tk d ids ac co rq)"
    "keeps idem_frame (create_approval env tk d ids ac co rq)"
    unfolding create_approval_def
    by (intro tf.keeps_bindS tf.keeps_forS tf.keeps_ret idf.keeps_bindS idf.keeps_forS idf.keeps_ret ins inv_intros)+
qed

lemma resolve_frames: "keeps ticket_frame (resolve tk d)" "keeps idem_frame (resolve tk d)"
  by (auto simp: keeps_def dest!: resolve_modes intro: tf.refl idf.refl)

lemma request_frames [inv_intros]:
  "keeps ticket_frame (request env te ti code ac co rq)" "keeps idem_frame (request env te ti code ac co rq)"
  unfolding request_def
  by (intro tf.keeps_bindS tf.keeps_getS tf.keeps_liftS tf.keeps_if tf.keeps_raise
      idf.keeps_bindS idf.keeps_getS idf.keeps_liftS idf.keeps_if idf.keeps_raise
      resolve_frames create_approval_frames)+

lemma insert_comment_frames: "keeps ticket_frame (insert_comment now ti au b)" "keeps idem_frame (insert_comment now ti au b)"
  by (auto simp: keeps_def frame_defs insert_comment_def draw_uuid_def elim!: bindS_E)

lemma add_public_comment_frames [inv_intros]:
  "keeps ticket_frame (add_public_comment now te ti ac b co rq e)" "keeps idem_frame (add_public_comment now te ti ac b co rq e)"
  unfolding add_public_comment_def
  by (intro tf.keeps_if tf.keeps_raise tf.keeps_bindS tf.keeps_forS tf.keeps_ret
      idf.keeps_if idf.keeps_raise idf.keeps_bindS idf.keeps_forS idf.keeps_ret insert_comment_frames inv_intros)+

lemma comment_first_frames [inv_intros]:
  "keeps ticket_frame (comment_first now wt te us c co rq)" "keeps idem_frame (comment_first now wt te us c co rq)"
  unfolding comment_first_def
  by (auto split: option.splits list.splits
      intro!: tf.keeps_bindS tf.keeps_ret idf.keeps_bindS idf.keeps_ret add_public_comment_frames)

lemma record_transition_frames [inv_intros]:
  "keeps ticket_frame (record_transition wt wx ac v co rq)" "keeps idem_frame (record_transition wt wx ac v co rq)"
  unfolding record_transition_def Let_def by (intro tf.keeps_bindS idf.keeps_bindS inv_intros)+

lemma apply_transition_idem [inv_intros]: "keeps idem_frame (apply_transition wt wx u)"
  unfolding apply_transition_def by (intro idf.keeps_if idf.keeps_raise inv_intros)

lemma transition_work_idem: "keeps idem_frame (transition_work env ctx te us key cmd)"
  unfolding transition_work_def Let_def
  by (auto split: prod.splits intro!: idf.keeps_bindS idf.keeps_getS idf.keeps_liftS idf.keeps_ret
      idf.keeps_forS comment_first_frames apply_transition_idem record_transition_frames request_frames)

interpretation tw: idempotent_use_case "transition_work env ctx tenant user key cmd"
  for env ctx tenant user key cmd
  by unfold_locales (rule transition_work_idem)

subsection \<open>Validation\<close>

lemma keys_within_iff: "keys_within ks d \<longleftrightarrow> dkeys d \<subseteq> set ks"
  by (auto simp: keys_within_def list_all_iff dkeys_def)

lemma field_in_str: "field_in names v = Inr True \<Longrightarrow> is_str v \<and> the_str v \<in> set names"
  by (auto simp: field_in_def split: pyval.splits)

lemma column_lists: "set editable_fields \<subseteq> set transition_columns" "set timestamp_fields \<subseteq> set transition_columns"
  "set clearable_fields \<subseteq> set transition_columns"
  by (auto simp: editable_fields_def timestamp_fields_def clearable_fields_def transition_columns_def)

text \<open>A column that actions write keeps its requested value, is stamped, cleared, or set to a constant.\<close>

definition action_value :: "instant \<Rightarrow> pyval list \<Rightarrow> pydict \<Rightarrow> string \<Rightarrow> pyval \<Rightarrow> bool" where
  "action_value now xs requested c v \<longleftrightarrow> dget requested c = Some v \<or> v = PTime now \<or> v = PNone
     \<or> (\<exists>d. PDict d \<in> set xs \<and> dget d ''field'' = Some (PStr c) \<and> dget d ''value'' = Some v
          \<and> c \<in> set editable_fields)"

lemma apply_action_cases:
  assumes "apply_action now d updates = Inr u"
  obtains "u = updates"
    | c v where "u = AList.update c v updates" "c \<in> set transition_columns" "v = PTime now \<or> v = PNone
        \<or> (dget d ''field'' = Some (PStr c) \<and> dget d ''value'' = Some v \<and> c \<in> set editable_fields)"
proof -
  from assms obtain s where ty: "dget d ''type'' = Some (PStr s)"
    by (auto simp: apply_action_def split: option.splits pyval.splits)
  let ?f = "dget_none d ''field''"
  have field: "dget d ''field'' = Some (PStr (the_str ?f))" if "is_str ?f"
    using that by (auto simp: dget_none_def is_str_iff split: option.splits)
  from assms ty consider (stamp) "field_in timestamp_fields ?f = Inr True" "u = AList.update (the_str ?f) (PTime now) updates"
    | (clear) "field_in clearable_fields ?f = Inr True" "u = AList.update (the_str ?f) PNone updates"
    | (setf) "field_in editable_fields ?f = Inr True" "''value'' \<in> dkeys d"
        "u = AList.update (the_str ?f) (dget_none d ''value'') updates"
    | (same) "u = updates"
    by (auto simp: apply_action_def action_applies_def Let_def rbind_Inr_iff split: if_splits)
  then show thesis
  proof cases
    case setf
    with field_in_str [OF setf(1)] have "dget d ''value'' = Some (dget_none d ''value'')"
      by (auto simp: dkeys_iff dget_none_def)
    with setf field_in_str [OF setf(1)] field column_lists(1) show thesis
      by (intro that(2) [OF setf(3)]) auto
  qed (use that column_lists field_in_str in blast)+
qed

lemma apply_actions_list_sound:
  assumes "apply_actions_list now xs updates = Inr u" "dkeys updates \<subseteq> set transition_columns"
  shows "dkeys u \<subseteq> set transition_columns \<and> (\<forall>c v. dget u c = Some v \<longrightarrow> action_value now xs updates c v)"
  using assms
proof (induction now xs updates arbitrary: u rule: apply_actions_list.induct)
  case (2 now d xs updates)
  from "2.prems"(1) obtain m where m: "apply_action now d updates = Inr m" "apply_actions_list now xs m = Inr u"
    by (auto simp: rbind_Inr_iff)
  from m(1) have keys: "dkeys m \<subseteq> set transition_columns"
    and vals: "\<forall>c v. dget m c = Some v \<longrightarrow> action_value now (PDict d # xs) updates c v"
    using "2.prems"(2)
    by (cases rule: apply_action_cases; auto simp: action_value_def update_conv' split: if_splits)+
  from "2.IH" [OF m(2) keys] show ?case
  proof (elim conjE, intro conjI allI impI)
    fix c v assume u: "\<forall>c v. dget u c = Some v \<longrightarrow> action_value now xs m c v" "dget u c = Some v"
    then have "action_value now xs m c v" by blast
    then show "action_value now (PDict d # xs) updates c v"
      using vals by (auto simp: action_value_def)
  qed
qed (auto simp: action_value_def)

lemma apply_actions_sound:
  assumes "apply_actions now actions updates = Inr u" "dkeys updates \<subseteq> set transition_columns"
  shows "dkeys u \<subseteq> set transition_columns
    \<and> (\<forall>c v. dget u c = Some v \<longrightarrow> action_value now (case actions of PList xs \<Rightarrow> xs | _ \<Rightarrow> []) updates c v)"
proof (cases "is_empty_doc actions")
  case True
  with assms show ?thesis by (simp add: apply_actions_def action_value_def)
next
  case False
  with assms(1) obtain xs where "actions = PList xs" "apply_actions_list now xs updates = Inr u"
    by (auto simp: apply_actions_def split: pyval.splits)
  with apply_actions_list_sound assms(2) show ?thesis by simp
qed

lemma validate_required_sound:
  assumes "validate_required validators env = Inr ()" "validators = PList vs" "v \<in> set vs"
  shows "\<exists>f. required_field v = Inr f \<and> \<not> is_blank (dget_none env f)"
proof -
  from assms obtain fields where m: "map_result required_field vs = Inr fields"
    and ok: "\<forall>f\<in>set fields. \<not> is_blank (dget_none env f)"
    by (auto simp: validate_required_def is_empty_doc_def rbind_Inr_iff list_ex_iff split: if_splits)
  from m assms(3) obtain f where "f \<in> set fields" "required_field v = Inr f"
    by (auto simp: map_result_Inr_iff elim: list_all2_left)
  with ok show ?thesis by blast
qed

lemma validated_run:
  assumes "validated_updates now db wt wx requested = Inr updates"
  obtains "keys_within editable_fields requested"
    "evaluate (wx_condition wx) (workflow_values wt requested) = Inr True"
    "validate_required (wx_validators wx) (workflow_values wt requested) = Inr ()"
    "apply_actions now (wx_actions wx) requested = Inr updates"
    "validate_update_values db requested = Inr ()" "validate_update_values db updates = Inr ()"
  using assms
  by (auto simp: validated_updates_def guard_holds_def Let_def rbind_Inr_iff split: if_splits)

text \<open>C21: what validation lets through: the guard holds of the ticket with the requested fields, every
  required field has a value, only the five transition columns are written, each with the requested
  value, the time, nothing, or the constant an action sets, and the resolution code is a known one.\<close>

theorem validated_updates_sound:
  assumes "validated_updates now db wt wx requested = Inr updates"
  shows "evaluate (wx_condition wx) (workflow_values wt requested) = Inr True
    \<and> (\<forall>vs. \<forall>v\<in>set vs. wx_validators wx = PList vs \<longrightarrow>
         (\<exists>f. required_field v = Inr f \<and> \<not> is_blank (dget_none (workflow_values wt requested) f)))
    \<and> dkeys updates \<subseteq> set transition_columns
    \<and> (\<forall>c v. dget updates c = Some v \<longrightarrow>
         action_value now (case wx_actions wx of PList xs \<Rightarrow> xs | _ \<Rightarrow> []) requested c v)
    \<and> (\<forall>v. dget updates ''resolution_code'' = Some v \<longrightarrow> valid_code db v)"
proof -
  from assms show ?thesis
  proof (rule validated_run)
    assume k: "keys_within editable_fields requested"
      and g: "evaluate (wx_condition wx) (workflow_values wt requested) = Inr True"
      and r: "validate_required (wx_validators wx) (workflow_values wt requested) = Inr ()"
      and a: "apply_actions now (wx_actions wx) requested = Inr updates"
      and c: "validate_update_values db updates = Inr ()"
    have "dkeys requested \<subseteq> set transition_columns"
      using k column_lists(1) by (auto simp: keys_within_iff)
    note apply_actions_sound [OF a this]
    moreover have "\<forall>v. dget updates ''resolution_code'' = Some v \<longrightarrow> valid_code db v"
      using c by (auto simp: validate_update_values_def split: if_splits)
    moreover have "\<forall>vs. \<forall>v\<in>set vs. wx_validators wx = PList vs \<longrightarrow>
         (\<exists>f. required_field v = Inr f \<and> \<not> is_blank (dget_none (workflow_values wt requested) f))"
      using validate_required_sound [OF r] by blast
    ultimately show ?thesis using g by blast
  qed
qed

subsection \<open>Execution\<close>

lemma workflow_ticket_facts:
  assumes "workflow_ticket_query ctx tenant key db = Some wt"
  obtains t where "t \<in> set (tickets db)" "visible_to ctx tenant key t" "workflow_ticket_of db t = Some wt"
    "wt_id wt = t_id t" "wt_tenant wt = t_tenant t" "wt_key wt = t_key t"
    "wt_version wt = t_workflow_version t" "wt_status wt = t_status t" "wt_row_version wt = t_row_version t"
    "visible_ticket ctx tenant key db = Some t" "wt_columns wt = t_columns t"
proof -
  from assms obtain t where t: "visible_ticket ctx tenant key db = Some t" "workflow_ticket_of db t = Some wt"
    by (auto simp: workflow_ticket_query_def split: option.splits)
  from find_Some_in [OF t(1) [unfolded visible_ticket_def]] t show thesis
    by (intro that [of t]) (auto simp: workflow_ticket_of_def)
qed

lemma transition_query_facts:
  assumes "transition_query version status code db = Some wx"
  obtains tr where "tr \<in> set (transition_rows db)" "leaves_from version status tr" "tr_code tr = code"
    "transition_of db tr = Some wx"
proof -
  from assms obtain rest where "List.map_filter (transition_of db)
      (filter (\<lambda>tr. leaves_from version status tr \<and> tr_code tr = code) (transition_rows db)) = wx # rest"
    by (auto simp: transition_query_def split: list.splits)
  then have "wx \<in> set (List.map_filter (transition_of db)
      (filter (\<lambda>tr. leaves_from version status tr \<and> tr_code tr = code) (transition_rows db)))" by simp
  with that show thesis by (auto simp: List.map_filter_def)
qed

lemma transition_of_facts:
  assumes "transition_of db tr = Some wx"
  shows "wx_id wx = tr_id tr" "wx_code wx = tr_code tr" "wx_to wx = tr_to tr" "wx_actions wx = tr_actions tr"
    "wx_condition wx = tr_condition tr" "wx_validators wx = tr_validators tr"
    "\<exists>st\<in>set (statuses db). st_id st = tr_to tr \<and> st_version st = tr_version tr"
  using assms
  by (auto simp: transition_of_def status_of_version_def dest!: find_Some_in split: option.splits)

text \<open>The whole effect on the ticket table.\<close>

definition same_version :: "ticket_row \<Rightarrow> ticket_row \<Rightarrow> bool" where
  "same_version t x \<longleftrightarrow> t_id x = t_id t \<and> t_workflow_version x = t_workflow_version t
     \<and> t_status x = t_status t \<and> t_row_version x = t_row_version t"

definition transitioned :: "transition_row \<Rightarrow> pydict \<Rightarrow> ticket_row \<Rightarrow> ticket_row" where
  "transitioned tr updates x = x\<lparr>t_status := tr_to tr, t_columns := write_columns updates (t_columns x),
     t_row_version := t_row_version x + 1\<rparr>"

lemma work_effect:
  assumes "transition_work env ctx tenant user key cmd s = Inr ((a, res, payload), t)"
  obtains x wt tr wx updates where "\<not> a" "x \<in> set (tickets s)" "visible_ticket ctx tenant key s = Some x"
    "t_row_version x = tc_row_version cmd" "workflow_ticket_of s x = Some wt"
    "version_status s (t_workflow_version x) \<in> {''PUBLISHED'', ''RETIRED''}"
    "tr \<in> set (transition_rows s)" "leaves_from (t_workflow_version x) (t_status x) tr"
    "tr_code tr = tc_code cmd" "transition_of s tr = Some wx"
    "is_approval_continuation (tr_actions tr) = Inr False"
    "validated_updates (env_wall env) s wt wx (tc_updates cmd) = Inr updates"
    "tickets t = map (\<lambda>y. if same_version x y then transitioned tr updates y else y) (tickets s)"
    "config_frame s t" "assignment_history t = assignment_history s"
proof -
  from assms obtain wt wx updates s1 version s2 s3 s4 u codes where
    a: "\<not> a" and sel: "select_transition ctx tenant key cmd s = Inr (wt, wx)"
    and val: "validated_updates (env_wall env) s wt wx (tc_updates cmd) = Inr updates"
    and com: "comment_first (env_now env) wt tenant user (transition_comment cmd) (correlation_id ctx) (request_id ctx) s = Inr ((), s1)"
    and app: "apply_transition wt wx updates s1 = Inr (Some version, s2)"
    and rec: "record_transition wt wx user version (correlation_id ctx) (request_id ctx) s2 = Inr (u, s3)"
    and req: "forS (\<lambda>code. bindS (request env tenant (wt_id wt) code user (correlation_id ctx) (request_id ctx))
      (\<lambda>_. ret ())) codes s3 = Inr ((), s4)" and t: "t = s4"
    unfolding transition_work_def Let_def
    by (auto simp: bind_liftS_iff elim!: bindS_E)
  from sel have q: "workflow_ticket_query ctx tenant key s = Some wt" "wt_row_version wt = tc_row_version cmd"
    "executable_version wt" "transition_query (wt_version wt) (wt_status wt) (tc_code cmd) s = Some wx"
    "is_approval_continuation (wx_actions wx) = Inr False"
    by (auto simp: select_transition_def rbind_Inr_iff split: if_splits)
  from q(1) obtain x where x: "x \<in> set (tickets s)" "visible_ticket ctx tenant key s = Some x"
    "workflow_ticket_of s x = Some wt" "wt_id wt = t_id x" "wt_version wt = t_workflow_version x"
    "wt_status wt = t_status x" "wt_row_version wt = t_row_version x"
    by (rule workflow_ticket_facts) blast
  from q(4) obtain tr where tr: "tr \<in> set (transition_rows s)"
    "leaves_from (t_workflow_version x) (t_status x) tr" "tr_code tr = tc_code cmd" "transition_of s tr = Some wx"
    unfolding x(5,6) by (rule transition_query_facts)
  have f1: "ticket_frame s s1" by (rule keepsD [OF comment_first_frames(1) com])
  have f3: "ticket_frame s2 s3" by (rule keepsD [OF record_transition_frames(1) rec])
  have "keeps ticket_frame (forS (\<lambda>code. bindS (request env tenant (wt_id wt) code user (correlation_id ctx)
      (request_id ctx)) (\<lambda>_. ret ())) codes)"
    by (intro tf.keeps_forS tf.keeps_bindS tf.keeps_ret request_frames)
  from keepsD [OF this req] f3 have f4: "ticket_frame s2 t" unfolding t by (blast intro: tf.trans)
  from app have up: "update_ticket (\<lambda>t. t_id t = wt_id wt \<and> t_workflow_version t = wt_version wt
        \<and> t_status t = wt_status wt \<and> t_row_version t = wt_row_version wt)
      (\<lambda>t. t\<lparr>t_status := wx_to wx, t_columns := write_columns updates (t_columns t)\<rparr>) s1 = Inr (Some version, s2)"
    by (auto simp: apply_transition_def split: if_splits)
  note e = update_ticket_effect [OF up, THEN conjunct1]
  have "tickets s2 = map (\<lambda>y. if same_version x y then transitioned tr updates y else y) (tickets s)"
    using f1 transition_of_facts(3) [OF tr(4)]
    by (simp add: e ticket_frame_def same_version_def transitioned_def bump_def x)
  moreover have "config_frame s t" "assignment_history t = assignment_history s" "tickets t = tickets s2"
    using f1 f4 by (auto simp: ticket_frame_def config_frame_def e)
  moreover have "version_status s (t_workflow_version x) \<in> {''PUBLISHED'', ''RETIRED''}"
    using q(3) x(3) by (auto simp: executable_version_def workflow_ticket_of_def)
  ultimately show thesis
    using a x q tr val transition_of_facts(4) [OF tr(4)] by (intro that [of x wt tr wx updates]) simp_all
qed

text \<open>Whoever may transition tickets may read the one just moved, so the answer cannot fail.\<close>

lemma transition_roles_read: "list_all (\<lambda>r. TICKET_ANALYST_READ \<in> set (role_grants r)) (granting_roles TICKET_TRANSITION)"
  by code_simp

lemmas transition_reads = implied_permission [OF transition_roles_read, simplified]

lemma execute_cases:
  assumes "execute env ctx key cmd ikey db = (r, db')"
  obtains (failed) e where "r = Inl e" "db' = db"
    | (ran) tenant user wt replayed where "is_allowed ctx TICKET_TRANSITION None"
        "identity_of ctx = Inr (tenant, user)"
        "workflow_ticket_query ctx tenant key db = Some wt"
        "idempotent_call tenant user ''TICKET_TRANSITION'' ikey (env_digest env (transition_document key cmd))
          (\<lambda>_. ret True) (transition_work env ctx tenant user key cmd) db = Inr (replayed, db')"
        "r = rbind (analyst_ticket ctx key db') (\<lambda>t.
           Inr \<lparr>rsp_ticket = t, rsp_code = tc_code cmd, rsp_replayed = replayed\<rparr>)"
proof (cases "is_allowed ctx TICKET_TRANSITION None")
  case False
  with assms failed show thesis by (auto simp: execute_def)
next
  case allowed: True
  show thesis
  proof (cases "identity_of ctx")
    case (Inl e)
    with assms allowed failed show thesis by (auto simp: execute_def)
  next
    case (Inr p)
    obtain tenant user where p: "p = (tenant, user)" by (cases p)
    show thesis
    proof (cases "execute_body env ctx tenant user key cmd ikey db")
      case (Inl e)
      with assms allowed Inr p failed show thesis by (auto simp: execute_def)
    next
      case b: (Inr qt)
      obtain replayed t where qt: "qt = (replayed, t)" by (cases qt)
      from b obtain wt where wt: "workflow_ticket_query ctx tenant key db = Some wt"
        and call: "idempotent_call tenant user ''TICKET_TRANSITION'' ikey (env_digest env (transition_document key cmd))
          (\<lambda>_. ret True) (transition_work env ctx tenant user key cmd) db = Inr (replayed, t)"
        by (auto simp: execute_body_def bind_liftS_iff qt)
      from assms allowed Inr p b qt have "t = db'" "r = rbind (analyst_ticket ctx key db') (\<lambda>t.
           Inr \<lparr>rsp_ticket = t, rsp_code = tc_code cmd, rsp_replayed = replayed\<rparr>)"
        by (auto simp: execute_def)
      with ran [OF allowed Inr [unfolded p] wt] call show thesis by blast
    qed
  qed
qed

lemma same_version_visible:
  "visible_to ctx tenant key (if same_version x y then transitioned tr u y else y) = visible_to ctx tenant key y"
  by (simp add: visible_to_def transitioned_def)

text \<open>A call that gets through leaves the ticket visible to its caller.\<close>

lemma call_visible:
  assumes q: "workflow_ticket_query ctx tenant key db = Some wt"
    and call: "idempotent_call tenant user ''TICKET_TRANSITION'' ikey h
      (\<lambda>_. ret True) (transition_work env ctx tenant user key cmd) db = Inr (replayed, db')"
  shows "workflow_ticket_query ctx tenant key db' \<noteq> None"
proof (cases "is_completed tenant ''TICKET_TRANSITION'' ikey db")
  case True
  from call obtain r where cl: "claim_checked tenant user ''TICKET_TRANSITION'' ikey h db = Inr (r, db')"
    unfolding idempotent_call_def by (rule bindS_E) (use True in \<open>auto dest: claim_status\<close>)
  then have "ticket_frame db db'" by (rule keepsD [OF claim_frames(2)])
  with q show ?thesis
    by (auto simp: workflow_ticket_query_def visible_ticket_def workflow_ticket_of_def
        ticket_frame_def config_frame_def split: option.splits)
next
  case False
  from idempotent_call_fresh [OF call False] obtain r s1 res payload s2 where
    cl: "claim_checked tenant user ''TICKET_TRANSITION'' ikey h db = Inr (r, s1)"
    and w: "transition_work env ctx tenant user key cmd s1 = Inr ((replayed, res, payload), s2)"
    and fin: "complete_idempotency (idem_id r) res payload s2 = Inr ((), db')" .
  from w obtain x tr wx updates wt' where x: "visible_ticket ctx tenant key s1 = Some x" "workflow_ticket_of s1 x = Some wt'"
    and t: "tickets s2 = map (\<lambda>y. if same_version x y then transitioned tr updates y else y) (tickets s1)"
    and tr: "transition_of s1 tr = Some wx" and cf: "config_frame s1 s2"
    by (rule work_effect) (rule that)
  have f: "tickets db' = tickets s2" "statuses db' = statuses s1"
    using keepsD [OF complete_frames(2) fin] cf by (simp_all add: ticket_frame_def config_frame_def)
  have vis: "visible_ticket ctx tenant key db'
      = map_option (\<lambda>y. if same_version x y then transitioned tr updates y else y) (visible_ticket ctx tenant key s1)"
    unfolding visible_ticket_def f t by (simp add: find_map same_version_visible)
  from transition_of_facts(7) [OF tr] have "find (\<lambda>st. st_id st = tr_to tr) (statuses s1) \<noteq> None"
    by (auto simp: find_None_iff)
  with vis x show ?thesis
    by (auto simp: workflow_ticket_query_def workflow_ticket_of_def f transitioned_def same_version_def)
qed

text \<open>C22: a transition that fails, for whatever reason and at whatever point, leaves no trace.\<close>

theorem execute_error_atomic:
  assumes "execute env ctx key cmd ikey db = (Inl e, db')"
  shows "db' = db"
  using assms
proof (cases rule: execute_cases)
  case (ran tenant user wt replayed)
  from call_visible [OF ran(3,4)] obtain t where "visible_ticket ctx tenant key db' = Some t"
    by (auto simp: workflow_ticket_query_def split: option.splits)
  moreover have "identity_or AuthorizationError ctx = Inr (tenant, user)"
    using ran(2) by (auto simp: identity_or_def split: option.splits)
  ultimately have "analyst_ticket ctx key db' = Inr t"
    using transition_reads [OF ran(1)] by (simp add: analyst_ticket_def)
  with ran(5) show ?thesis by simp
qed simp

text \<open>C16: a transition that is executed and not replayed was asked for at the ticket's current version,
  leads from its current status along an active transition of its pinned executable workflow version,
  passed validation, and changes in the whole ticket table only that ticket: its status, the validated
  columns, and the version by one.\<close>

theorem execute_moves:
  assumes "execute env ctx key cmd ikey db = (Inr r, db')" "\<not> rsp_replayed r"
  shows "\<exists>tenant user x wt tr wx updates. identity_of ctx = Inr (tenant, user)
    \<and> visible_ticket ctx tenant key db = Some x \<and> x \<in> set (tickets db)
    \<and> t_row_version x = tc_row_version cmd \<and> workflow_ticket_of db x = Some wt
    \<and> version_status db (t_workflow_version x) \<in> {''PUBLISHED'', ''RETIRED''}
    \<and> tr \<in> set (transition_rows db) \<and> leaves_from (t_workflow_version x) (t_status x) tr
    \<and> tr_code tr = tc_code cmd \<and> transition_of db tr = Some wx
    \<and> is_approval_continuation (tr_actions tr) = Inr False
    \<and> validated_updates (env_wall env) db wt wx (tc_updates cmd) = Inr updates
    \<and> tickets db' = map (\<lambda>y. if same_version x y then transitioned tr updates y else y) (tickets db)"
  using assms(1)
proof (cases rule: execute_cases)
  case (ran tenant user wt0 replayed)
  from ran(5) [symmetric] assms(2) have "\<not> replayed" by (auto simp: rbind_Inr_iff)
  then have fresh: "\<not> is_completed tenant ''TICKET_TRANSITION'' ikey db"
    using ran(4) by (auto simp: idempotent_call_def elim!: bindS_E dest: claim_status)
  from idempotent_call_fresh [OF ran(4) fresh] obtain i s1 res payload s2 where
    cl: "claim_checked tenant user ''TICKET_TRANSITION'' ikey (env_digest env (transition_document key cmd)) db = Inr (i, s1)"
    and w: "transition_work env ctx tenant user key cmd s1 = Inr ((replayed, res, payload), s2)"
    and fin: "complete_idempotency (idem_id i) res payload s2 = Inr ((), db')" .
  from keepsD [OF claim_frames(2) cl] have f: "tickets s1 = tickets db" "transition_rows s1 = transition_rows db"
    "statuses s1 = statuses db" "version_status s1 = version_status db" "resolution_codes s1 = resolution_codes db"
    by (simp_all add: ticket_frame_def config_frame_def)
  have reads: "visible_ticket ctx tenant key s1 = visible_ticket ctx tenant key db"
    "workflow_ticket_of s1 = workflow_ticket_of db" "transition_of s1 = transition_of db"
    "validated_updates now s1 = validated_updates now db" for now
    by (auto simp: fun_eq_iff visible_ticket_def workflow_ticket_of_def transition_of_def status_of_version_def
        validated_updates_def validate_update_values_def valid_code_def f cong: option.case_cong pyval.case_cong)
  have "tickets db' = tickets s2" using keepsD [OF complete_frames(2) fin] by (simp add: ticket_frame_def)
  with w ran(2) show ?thesis
    by (elim work_effect) (unfold reads f, intro exI conjI, assumption+, simp)
qed simp

lemma identity_again: "identity_of ctx = Inr p \<Longrightarrow> identity_or e ctx = Inr p"
  by (auto simp: identity_or_def split: option.splits)

lemma visible_answer:
  assumes "is_allowed ctx TICKET_TRANSITION None" "identity_of ctx = Inr (tenant, user)"
    "workflow_ticket_query ctx tenant key db \<noteq> None"
  obtains t where "analyst_ticket ctx key db = Inr t"
proof -
  from assms(3) obtain t where "visible_ticket ctx tenant key db = Some t"
    by (auto simp: workflow_ticket_query_def split: option.splits)
  with assms(2) transition_reads [OF assms(1)] show thesis
    by (intro that) (simp add: analyst_ticket_def identity_again [OF assms(2)])
qed

text \<open>A transition sent again under its key is answered as a replay and changes nothing.\<close>

lemma execute_replay:
  assumes "execute env ctx key cmd ikey db = (Inr r, db')" "\<not> rsp_replayed r"
    and "env_digest env' = env_digest env"
  shows "\<exists>r'. execute env' ctx key cmd ikey db' = (Inr r', db') \<and> rsp_replayed r'"
  using assms(1)
proof (cases rule: execute_cases)
  case (ran tenant user wt0 replayed)
  from ran(5) [symmetric] assms(2) have "\<not> replayed" by (auto simp: rbind_Inr_iff)
  then have fresh: "\<not> is_completed tenant ''TICKET_TRANSITION'' ikey db"
    using ran(4) by (auto simp: idempotent_call_def elim!: bindS_E dest: claim_status)
  obtain rec where again: "\<And>(again :: idempotency_row \<Rightarrow> bool db_op) later. idempotent_call tenant user ''TICKET_TRANSITION'' ikey
      (env_digest env (transition_document key cmd)) again later db' = again rec db'"
    by (rule tw.repeated [OF ran(4) fresh]) (rule that)
  have q: "workflow_ticket_query ctx tenant key db' \<noteq> None" by (rule call_visible [OF ran(3,4)])
  then obtain wt where "workflow_ticket_query ctx tenant key db' = Some wt" by blast
  then have body: "execute_body env' ctx tenant user key cmd ikey db' = Inr (True, db')"
    by (simp add: execute_body_def assms(3) again)
  obtain t where "analyst_ticket ctx key db' = Inr t" by (rule visible_answer [OF ran(1,2) q])
  with body ran(1,2) show ?thesis by (simp add: execute_def)
qed simp

subsection \<open>What is offered\<close>

lemma offered_list_codes:
  assumes "offered_list env wxs = Inr ts"
  shows "avl_code ` set ts = {wx_code wx |wx. wx \<in> set wxs \<and> offered env wx = Inr True}"
  using assms
proof (induction wxs arbitrary: ts)
  case (Cons wx wxs)
  then obtain ok rest where "offered env wx = Inr ok" "offered_list env wxs = Inr rest"
    "ts = (if ok then \<lparr>avl_code = wx_code wx, avl_name = wx_name wx, avl_to = wx_to_code wx,
       avl_to_name = wx_to_name wx\<rparr> # rest else rest)"
    by (auto simp: rbind_Inr_iff)
  with Cons.IH show ?case by auto
qed auto

lemma offered_iff: "offered env wx = Inr True \<longleftrightarrow>
    is_approval_continuation (wx_actions wx) = Inr False \<and> evaluate (wx_condition wx) env = Inr True"
  by (auto simp: offered_def guard_holds_def rbind_Inr_iff split: if_splits)

lemma map_filter_set: "set (List.map_filter f xs) = {y. \<exists>x\<in>set xs. f x = Some y}"
  by (induction xs) (auto simp: List.map_filter_simps split: option.splits)

lemma available_query_set:
  "set (available_query version status db)
    = {wx. \<exists>tr\<in>set (transition_rows db). leaves_from version status tr \<and> transition_of db tr = Some wx}"
  by (auto simp: available_query_def map_filter_set)

text \<open>The list of available transitions holds exactly the transitions that leave from the ticket's
  current status, belong to no approval, and have a guard that holds of the ticket as it is.\<close>

lemma available_exact:
  assumes "available ctx key db = Inr l"
  shows "\<exists>tenant x wt. ctx_tenant_id ctx = Some tenant
    \<and> visible_ticket ctx tenant key db = Some x \<and> workflow_ticket_of db x = Some wt
    \<and> al_row_version l = t_row_version x
    \<and> avl_code ` set (al_transitions l) = {tr_code tr |tr wx. tr \<in> set (transition_rows db)
        \<and> leaves_from (t_workflow_version x) (t_status x) tr \<and> transition_of db tr = Some wx
        \<and> is_approval_continuation (tr_actions tr) = Inr False
        \<and> evaluate (tr_condition tr) (workflow_values wt []) = Inr True}"
proof -
  from assms obtain tenant wt ts where te: "ctx_tenant_id ctx = Some tenant"
    and q: "workflow_ticket_query ctx tenant key db = Some wt"
    and ts: "offered_list (workflow_values wt []) (available_query (wt_version wt) (wt_status wt) db) = Inr ts"
    and l: "l = \<lparr>al_key = wt_key wt, al_row_version = wt_row_version wt, al_status = wt_status_code wt,
            al_transitions = ts\<rparr>"
    by (auto simp: available_def identity_or_def rbind_Inr_iff split: if_splits option.splits)
  from q obtain x where x: "visible_ticket ctx tenant key db = Some x" "workflow_ticket_of db x = Some wt"
    "wt_version wt = t_workflow_version x" "wt_status wt = t_status x" "wt_row_version wt = t_row_version x"
    by (rule workflow_ticket_facts) blast
  have "avl_code ` set ts = {tr_code tr |tr wx. tr \<in> set (transition_rows db)
        \<and> leaves_from (t_workflow_version x) (t_status x) tr \<and> transition_of db tr = Some wx
        \<and> is_approval_continuation (tr_actions tr) = Inr False
        \<and> evaluate (tr_condition tr) (workflow_values wt []) = Inr True}"
    unfolding offered_list_codes [OF ts] available_query_set offered_iff x(3,4)
    by (auto simp: transition_of_facts) (metis transition_of_facts(2,4,5))+
  with te x l show ?thesis by auto
qed

subsection \<open>The properties at work\<close>

lemmas workflow_evaluation = shared_steps execute_def execute_body_def idempotent_call_def
  workflow_ticket_query_def workflow_ticket_of_def transition_work_def select_transition_def
  executable_version_def transition_query_def leaves_from_def transition_of_def status_of_version_def
  is_approval_continuation_def action_type_def validated_updates_def validate_update_values_def
  valid_code_def valid_summary_def keys_within_def guard_holds_def validate_required_def required_field_def
  apply_actions_def apply_action_def action_applies_def field_in_def no_change_action_def
  editable_fields_def timestamp_fields_def clearable_fields_def transition_columns_def
  workflow_values_def dict_update_def ticket_dict_def dget_none_def is_empty_doc_def is_blank_def
  transition_comment_def comment_first_def apply_transition_def record_transition_def approval_requests_def
  lower_def upper_def ascii_lower_def ascii_upper_def

lemmas request_evaluation = request_def ticket_for_approval_def published_definition_def
  is_published_def in_force_def resolve_def resolve_manager_def keys_within_def subject_supported_def
  ticket_requester_def requested_for_or_reporter_def manager_for_def create_approval_def
  insert_approval_def insert_approver_def record_fact_def

definition ask :: "int \<Rightarrow> transition_command" where
  "ask version = \<lparr>tc_code = ''ASK'', tc_row_version = version, tc_updates = [], tc_comment = None\<rparr>"

abbreviation agent_context :: request_context where
  "agent_context \<equiv> demo_context 7 ''AGENT''"

lemma agent_allowed: "is_allowed agent_context TICKET_TRANSITION None"
  "is_allowed agent_context TICKET_ANALYST_READ None" "\<not> is_allowed agent_context TICKET_READ_ALL None"
  by code_simp+

lemma demo_executes:
  "\<exists>r db'. execute demo_env agent_context ''HR-2'' (ask 4) ''k'' demo_db = (Inr r, db') \<and> \<not> rsp_replayed r"
  by (simp add: workflow_evaluation request_evaluation agent_allowed demo_data demo_env_def ask_def)

theorem execute_moves_witness:
  "\<exists>r db' x tr updates. execute demo_env agent_context ''HR-2'' (ask 4) ''k'' demo_db = (Inr r, db')
    \<and> t_row_version x = 4 \<and> tr_code tr = ''ASK''
    \<and> tickets db' = map (\<lambda>y. if same_version x y then transitioned tr updates y else y) (tickets demo_db)"
proof -
  obtain r db' where run: "execute demo_env agent_context ''HR-2'' (ask 4) ''k'' demo_db = (Inr r, db')"
    and fresh: "\<not> rsp_replayed r" using demo_executes by blast
  have "tc_row_version (ask 4) = 4" "tc_code (ask 4) = ''ASK''" by (simp_all add: ask_def)
  with execute_moves [OF run fresh] run show ?thesis by metis
qed

lemma execute_replay_witness:
  "\<exists>r db'. execute demo_env agent_context ''HR-2'' (ask 4) ''k'' db' = (Inr r, db') \<and> rsp_replayed r"
proof -
  obtain r db' where run: "execute demo_env agent_context ''HR-2'' (ask 4) ''k'' demo_db = (Inr r, db')"
    and fresh: "\<not> rsp_replayed r" using demo_executes by blast
  from execute_replay [OF run fresh refl] show ?thesis by blast
qed

theorem execute_error_atomic_witness:
  "execute demo_env agent_context ''HR-2'' (ask 3) ''k'' demo_db
     = (Inl (ConcurrencyError ''Ticket row version is stale.''), demo_db)"
proof -
  have "fst (execute demo_env agent_context ''HR-2'' (ask 3) ''k'' demo_db)
      = Inl (ConcurrencyError ''Ticket row version is stale.'')"
    by (simp add: workflow_evaluation agent_allowed demo_data demo_env_def ask_def)
  then obtain db' where run: "execute demo_env agent_context ''HR-2'' (ask 3) ''k'' demo_db
      = (Inl (ConcurrencyError ''Ticket row version is stale.''), db')"
    by (cases "execute demo_env agent_context ''HR-2'' (ask 3) ''k'' demo_db") simp
  from execute_error_atomic [OF this] run show ?thesis by simp
qed

lemma available_exact_witness:
  "\<exists>l. available agent_context ''HR-2'' demo_db = Inr l \<and> al_row_version l = 4"
proof -
  obtain l where run: "available agent_context ''HR-2'' demo_db = Inr l"
    by (rule that [of "\<lparr>al_key = ''HR-2'', al_row_version = 4, al_status = ''NEW'',
        al_transitions = [\<lparr>avl_code = ''ASK'', avl_name = ''ASK'', avl_to = ''WAITING'', avl_to_name = ''WAITING''\<rparr>]\<rparr>"])
      (simp add: workflow_evaluation available_def available_query_def offered_def agent_allowed demo_data)
  from available_exact [OF run] obtain x where "visible_ticket agent_context 9 ''HR-2'' demo_db = Some x"
    "al_row_version l = t_row_version x" by auto
  with run show ?thesis by (auto simp: shared_steps agent_allowed demo_data)
qed

definition demo_asked :: workflow_transition where
  "demo_asked = \<lparr>wx_id = 33, wx_version = 20, wx_code = ''ASK'', wx_name = ''ASK'', wx_from = 21,
     wx_from_code = ''NEW'', wx_to = 24, wx_to_code = ''WAITING'', wx_to_name = ''WAITING'',
     wx_condition = PDict [], wx_validators = PList [PDict [(''type'', PStr ''required_field''), (''field'', PStr ''summary'')]],
     wx_actions = PList [PDict [(''type'', PStr ''SET_TIMESTAMP''), (''field'', PStr ''first_response_at'')]]\<rparr>"

theorem validated_updates_sound_witness:
  "\<exists>wt. workflow_ticket_of demo_db (demo_ticket 2 ''HR-2'' 21) = Some wt
    \<and> validated_updates 5 demo_db wt demo_asked [] = Inr [(''first_response_at'', PTime 5)]
    \<and> action_value 5 [PDict [(''type'', PStr ''SET_TIMESTAMP''), (''field'', PStr ''first_response_at'')]] []
        ''first_response_at'' (PTime 5)"
proof -
  obtain wt where wt: "workflow_ticket_of demo_db (demo_ticket 2 ''HR-2'' 21) = Some wt"
    by (simp add: workflow_ticket_of_def demo_data)
  then have run: "validated_updates 5 demo_db wt demo_asked [] = Inr [(''first_response_at'', PTime 5)]"
    by (auto simp: workflow_evaluation demo_asked_def demo_data)
  from validated_updates_sound [OF run] wt run show ?thesis by (auto simp: demo_asked_def)
qed

end
