(* ===== verification/ApprovalSpec.thy ===== *)
theory ApprovalSpec
  imports ApprovalLaws Idempotency Demo
begin

text \<open>
  What the approval service promises, over runs of its use cases: closed approvals and recorded
  decisions are final and every status is the tally of its decisions; a decision is recorded once,
  by an approver who may decide, and moves the ticket exactly when it settles the approval; errors
  leave no trace; a replayed call changes nothing.
\<close>

subsection \<open>Runs of use cases\<close>

datatype approval_call =
    RequestCall service_env uuid uuid string uuid string string
  | DecideCall service_env request_context uuid decision_command string
  | CancelCall service_env uuid uuid uuid string string

definition in_uow :: "'a db_op \<Rightarrow> helpdesk_db \<Rightarrow> helpdesk_db" where
  "in_uow body db = (case body db of Inl _ \<Rightarrow> db | Inr (_, db') \<Rightarrow> db')"

fun run_call :: "approval_call \<Rightarrow> helpdesk_db \<Rightarrow> helpdesk_db" where
  "run_call (RequestCall env tenant ticket code actor corr req) =
     in_uow (request env tenant ticket code actor corr req)"
| "run_call (DecideCall env ctx i cmd key) = (\<lambda>db. snd (decide env ctx i cmd key db))"
| "run_call (CancelCall env tenant ticket actor corr req) =
     in_uow (cancel_pending env tenant ticket actor corr req)"

definition run_calls :: "approval_call list \<Rightarrow> helpdesk_db \<Rightarrow> helpdesk_db" where
  "run_calls calls db = foldl (\<lambda>db c. run_call c db) db calls"

lemma in_uow_step: "keeps approval_step m \<Longrightarrow> approval_step s (in_uow m s)"
  by (auto simp: in_uow_def intro: ap.refl dest: keepsD split: sum.splits)

lemma decide_cases:
  assumes "decide env ctx i cmd key s = (r, t)"
  obtains (refused) e where "r = Inl e" "t = s"
    | (body) tenant user q where "is_allowed ctx APPROVAL_DECIDE None" "identity_of ctx = Inr (tenant, user)"
        "decide_body env ctx tenant user i cmd key s = Inr (q, t)"
        "r = (case q of Inl e \<Rightarrow> Inl e | Inr (Replayed w) \<Rightarrow> Inr (w, True)
          | Inr Decided \<Rightarrow> (case view_for_user tenant i user t of None \<Rightarrow> Inl NotFoundError
              | Some w \<Rightarrow> Inr (w, False)))"
proof (cases "is_allowed ctx APPROVAL_DECIDE None")
  case False
  with assms refused show thesis by (auto simp: decide_def)
next
  case allowed: True
  show thesis
  proof (cases "identity_of ctx")
    case (Inl e)
    with assms allowed refused show thesis by (auto simp: decide_def)
  next
    case (Inr p)
    obtain tenant user where p: "p = (tenant, user)" by (cases p)
    show thesis
    proof (cases "decide_body env ctx tenant user i cmd key s")
      case (Inl e)
      with assms allowed Inr p refused show thesis by (auto simp: decide_def run_uow_def)
    next
      case b: (Inr qt)
      obtain q t' where qt: "qt = (q, t')" by (cases qt)
      have "t = t'" "r = (case q of Inl e \<Rightarrow> Inl e | Inr (Replayed w) \<Rightarrow> Inr (w, True)
          | Inr Decided \<Rightarrow> (case view_for_user tenant i user t' of None \<Rightarrow> Inl NotFoundError
              | Some w \<Rightarrow> Inr (w, False)))"
        using assms allowed Inr p b qt
        by (auto simp: decide_def run_uow_def split: sum.splits decide_outcome.splits option.splits)
      note t = this
      show thesis
      proof (rule body [OF allowed Inr [unfolded p]])
        show "decide_body env ctx tenant user i cmd key s = Inr (q, t)" using b qt t(1) by simp
      next
        show "r = (case q of Inl e \<Rightarrow> Inl e | Inr (Replayed w) \<Rightarrow> Inr (w, True)
          | Inr Decided \<Rightarrow> (case view_for_user tenant i user t of None \<Rightarrow> Inl NotFoundError
              | Some w \<Rightarrow> Inr (w, False)))"
          unfolding t(1) by (rule t(2))
      qed
    qed
  qed
qed

lemma run_call_step: "approval_step s (run_call c s)"
proof (cases c)
  case (DecideCall env ctx i cmd key)
  obtain r t where run: "decide env ctx i cmd key s = (r, t)" by fastforce
  then have t: "run_call c s = t" by (simp add: DecideCall)
  from run show ?thesis unfolding t
    by (cases rule: decide_cases) (auto intro: ap.refl decide_body_step)
qed (auto intro!: in_uow_step request_step cancel_step)

lemma run_calls_step: "approval_step s (run_calls calls s)"
proof (induction calls arbitrary: s)
  case (Cons c cs)
  have "run_calls (c # cs) s = run_calls cs (run_call c s)" by (simp add: run_calls_def)
  with ap.trans [OF run_call_step Cons.IH] show ?case by simp
qed (simp add: run_calls_def ap.refl)

text \<open>C14: along any sequence of requests, decisions and cancellations, the status of every approval
  is the tally of the decisions recorded for it, approvers are never added to an open approval, and
  closed approvals and recorded decisions stay as they are.\<close>

theorem approval_history:
  assumes "approval_inv db"
  shows "approval_inv (run_calls calls db) \<and> approval_later db (run_calls calls db)"
  using run_calls_step assms unfolding approval_step_def by blast

subsection \<open>A deciding call in detail\<close>

definition selected_transition :: "locked_approval \<Rightarrow> string \<Rightarrow> uuid option" where
  "selected_transition la status =
     (if status = ''APPROVED'' then la_approved_transition la else la_rejected_transition la)"

lemma follow_outcome_None: "follow_outcome la None user corr req s = Inr (u, t) \<Longrightarrow> t = s"
  by (simp add: follow_outcome_def)

lemma continue_workflow_effect:
  assumes "continue_workflow la transition actor corr req s = Inr (u, t)"
  obtains tr where "continuation_transition transition s = Some tr"
    "\<exists>x\<in>set (tickets s). continues la tr x"
    "tickets t = map (\<lambda>x. if continues la tr x then bump (\<lambda>x. x\<lparr>t_status := tr_to tr\<rparr>) x else x) (tickets s)"
proof -
  from assms obtain tr version s1 where tr: "continuation_transition transition s = Some tr"
    and up: "update_ticket (continues la tr) (\<lambda>t. t\<lparr>t_status := tr_to tr\<rparr>) s = Inr (Some version, s1)"
    and rest: "(let payload = continuation_payload la tr version corr req in
             bindS (insert_event (la_tenant la) (la_ticket la) ''WORKFLOW_TRANSITION_EXECUTED'' ''USER''
               actor payload) (\<lambda>_.
             bindS (insert_outbox False (la_tenant la) ''TICKET'' (la_ticket la)
               ''TICKET_WORKFLOW_TRANSITIONED'' payload
               (Some (''approval-workflow:'' @ uuid_str (la_id la)))) (\<lambda>_.
             insert_audit (la_tenant la) actor ''TICKET_WORKFLOW_TRANSITIONED'' ''TICKET''
               (la_ticket la) payload corr req))) s1 = Inr (u, t)"
    unfolding continue_workflow_def
    by (auto elim!: bindS_E split: option.splits)
  from up have "\<exists>x\<in>set (tickets s). continues la tr x"
    "tickets s1 = map (\<lambda>x. if continues la tr x then bump (\<lambda>x. x\<lparr>t_status := tr_to tr\<rparr>) x else x) (tickets s)"
    by (auto simp: update_ticket_def dest: find_Some_in split: option.splits)
  moreover have "tickets t = tickets s1"
    using rest by (auto simp: Let_def insert_event_def insert_outbox_def insert_audit_def
        elim!: bindS_E split: if_splits)
  ultimately show thesis using that [OF tr] by simp
qed

lemma settle_run:
  assumes "settle_decision env la user cmd corr req s = Inr (version, t)"
  obtains terminal s2 where
    "tally_with la (cmd_decision cmd) (decision_counts (la_id la) s) = Inr terminal"
    "record_decision env la user (stored_code (cmd_decision cmd))
      (clean_comment (cmd_comment cmd)) terminal corr req s = Inr (version, s2)"
    "follow_outcome la terminal user corr req s2 = Inr ((), t)"
  using assms unfolding settle_decision_def by (elim bindS_E) (auto intro: that)

lemma record_fact_ticket: "keeps ticket_frame (record_fact te ti ac ap ty pa co rq)"
  unfolding record_fact_def by (intro tf.keeps_bindS inv_intros)

lemma record_fact_idem: "keeps idem_frame (record_fact te ti ac ap ty pa co rq)"
  unfolding record_fact_def by (intro idf.keeps_bindS inv_intros)

lemma approval_writes:
  "keeps ticket_frame (insert_decision i u k c)" "keeps idem_frame (insert_decision i u k c)"
  "keeps ticket_frame (update_approvals p f)" "keeps idem_frame (update_approvals p f)"
  "keeps ticket_frame (modS (\<lambda>db. db\<lparr>approvers := g db\<rparr>))"
  "keeps idem_frame (modS (\<lambda>db. db\<lparr>approvers := g db\<rparr>))"
  by (auto simp: keeps_def frame_defs insert_decision_def update_approvals_def split: if_splits)

lemma record_decision_frames:
  "keeps ticket_frame (record_decision env la user code c terminal corr req)"
  "keeps idem_frame (record_decision env la user code c terminal corr req)"
  unfolding record_decision_def
  by (auto intro!: tf.keeps_bindS tf.keeps_raise tf.keeps_ret record_fact_ticket
      idf.keeps_bindS idf.keeps_raise idf.keeps_ret record_fact_idem approval_writes split: list.splits)

lemma record_decision_ticket:
  "record_decision env la user code c terminal corr req s = Inr (version, t) \<Longrightarrow> ticket_frame s t"
  by (rule keepsD [OF record_decision_frames(1)])

definition carries :: "approval_row \<Rightarrow> transition_row \<Rightarrow> ticket_row \<Rightarrow> bool" where
  "carries a tr x \<longleftrightarrow> t_id x = ap_ticket a \<and> t_tenant x = ap_tenant a
     \<and> tr_version tr = t_workflow_version x \<and> tr_from tr = t_status x"

text \<open>What becomes of the ticket when the approval is settled with a status, or left open.\<close>

definition ticket_effect :: "approval_row \<Rightarrow> approval_definition \<Rightarrow> string \<Rightarrow> helpdesk_db \<Rightarrow> helpdesk_db \<Rightarrow> bool" where
  "ticket_effect a d status s t \<longleftrightarrow>
     (if status = ''PENDING'' then tickets t = tickets s
      else \<exists>tr\<in>set (transition_rows s).
        Some (tr_id tr) = (if status = ''APPROVED'' then ad_approved_transition d else ad_rejected_transition d)
        \<and> tr_active tr \<and> has_continuation (tr_actions tr) \<and> (\<exists>x\<in>set (tickets s). carries a tr x)
        \<and> tickets t = map (\<lambda>x. if carries a tr x
            then x\<lparr>t_status := tr_to tr, t_row_version := t_row_version x + 1\<rparr> else x) (tickets s))"

lemma ticket_effect_frame:
  "ticket_frame s s' \<Longrightarrow> tickets t' = tickets t \<Longrightarrow> ticket_effect a d st s' t = ticket_effect a d st s t'"
  by (simp add: ticket_effect_def ticket_frame_def config_frame_def)

lemma settle_effect:
  assumes inv: "approval_inv s" and lock: "lock_for_decision tenant i user s = Some la"
    and guard: "decision_guard la user cmd = Inr ()"
    and run: "settle_decision env la user cmd corr req s = Inr (version, t)"
  obtains a b d tk where "a \<in> set (approvals s)" "ap_id a = i" "ap_tenant a = tenant"
    "ap_status a = ''PENDING''" "ap_row_version a = cmd_expected_version cmd"
    "definition_version (ap_version a) s = Some d"
    "undecided i user (approver_rows i s)"
    "tk \<in> set (tickets s)" "t_id tk = ap_ticket a"
    "ad_self_approval d \<or> requested_for_or_reporter (t_requested_for tk) (t_reporter tk) \<noteq> user"
    "b \<in> set (approvals t)" "ap_id b = i" "ap_row_version b = ap_row_version a + 1"
    "approver_rows i t = map (decide_row (env_now env) i user (stored_code (cmd_decision cmd))
      (clean_comment (cmd_comment cmd))) (approver_rows i s)"
    "ap_status b \<in> {''PENDING'', ''APPROVED'', ''REJECTED''}"
    "ticket_effect a d (ap_status b) s t" "version = ap_row_version b"
    "\<forall>c\<in>set (decisions s). \<not> (dc_approval c = i \<and> dc_user c = user)"
proof -
  from lock obtain a v d tk where a: "a \<in> set (approvals s)" "ap_id a = i" "ap_tenant a = tenant"
    and v: "v \<in> set (approver_rows i s)" "av_user v = user" "la_decision la = av_decision v"
    and d: "definition_version (ap_version a) s = Some d"
    and la: "la_id la = i" "la_status la = ap_status a" "la_row_version la = ap_row_version a"
      "la_tenant la = tenant" "la_ticket la = ap_ticket a" "la_self_approval la = ad_self_approval d"
      "la_approved_transition la = ad_approved_transition d"
      "la_rejected_transition la = ad_rejected_transition d"
    and tk: "tk \<in> set (tickets s)" "t_id tk = ap_ticket a"
      "la_requester la = requested_for_or_reporter (t_requested_for tk) (t_reporter tk)"
    by (rule lock_facts) auto
  from guard have g: "ap_status a = ''PENDING''" "ap_row_version a = cmd_expected_version cmd"
    "av_decision v = None" "ad_self_approval d \<or> la_requester la \<noteq> user"
    by (auto simp: decision_guard_def la v(3) split: if_splits)
  have und: "undecided i user (approver_rows i s)"
    using v g by (auto simp: undecided_def approver_rows_def)
  from run obtain terminal s2 where
    tw: "tally_with la (cmd_decision cmd) (decision_counts (la_id la) s) = Inr terminal"
    and rec: "record_decision env la user (stored_code (cmd_decision cmd))
      (clean_comment (cmd_comment cmd)) terminal corr req s = Inr (version, s2)"
    and fol: "follow_outcome la terminal user corr req s2 = Inr ((), t)" by (rule settle_run)
  from rec obtain s1 where f1: "approval_frame s1 s2" and s1: "s1 = s\<lparr>
        decisions := decisions s @ [\<lparr>dc_approval = i, dc_user = user,
          dc_code = stored_code (cmd_decision cmd), dc_comment = clean_comment (cmd_comment cmd)\<rparr>],
        approvers := map (decide_row (env_now env) i user (stored_code (cmd_decision cmd))
          (clean_comment (cmd_comment cmd))) (approvers s),
        approvals := map (\<lambda>x. if ap_id x = i \<and> ap_row_version x = ap_row_version a
          then closed_row (env_now env) terminal x else x) (approvals s)\<rparr>"
    and version: "version = ap_row_version a + 1"
    and fresh: "\<forall>c\<in>set (decisions s). \<not> (dc_approval c = i \<and> dc_user c = user)"
    by (rule record_decision_effect) (simp add: la)
  have f2: "approval_frame s1 t" using f1 follow_outcome_frameD [OF fol] by (rule fr.trans)
  let ?b = "closed_row (env_now env) terminal a"
  have b: "?b \<in> set (approvals t)"
    using f2 a by (force simp: approval_frame_def s1)
  have rows: "approver_rows i t = map (decide_row (env_now env) i user (stored_code (cmd_decision cmd))
      (clean_comment (cmd_comment cmd))) (approver_rows i s)"
    using f2 by (intro approver_rows_decided) (simp add: approval_frame_def s1)
  have st: "ap_status ?b \<in> {''PENDING'', ''APPROVED'', ''REJECTED''}"
    using tally_with_outcome [of la "cmd_decision cmd"] tw g(1) by (cases terminal) auto
  have tf: "tickets s2 = tickets s" "transition_rows s2 = transition_rows s"
    using record_decision_ticket [OF rec] by (simp_all add: ticket_frame_def config_frame_def)
  have mv: "continues la tr x \<longleftrightarrow> carries a tr x" for tr x
    by (simp add: continues_def carries_def la a(3))
  have "ticket_effect a d (ap_status ?b) s t"
  proof (cases terminal)
    case None
    with fol tf g(1) show ?thesis by (auto simp: ticket_effect_def dest!: follow_outcome_None)
  next
    case (Some status)
    with tw have status: "status \<in> {''APPROVED'', ''REJECTED''}" using tally_with_outcome by blast
    from fol Some obtain transition where
      sel: "(if status = ''APPROVED'' then la_approved_transition la else la_rejected_transition la) = Some transition"
      and go: "continue_workflow la transition user corr req s2 = Inr ((), t)"
      by (auto simp: follow_outcome_def simp del: if_split split: option.splits)
    from sel have sel: "Some transition
        = (if status = ''APPROVED'' then ad_approved_transition d else ad_rejected_transition d)"
      by (simp add: la split: if_splits)
    from go obtain tr where tr: "continuation_transition transition s2 = Some tr"
      and hit: "\<exists>x\<in>set (tickets s2). continues la tr x"
      and tt: "tickets t = map (\<lambda>x. if continues la tr x then bump (\<lambda>x. x\<lparr>t_status := tr_to tr\<rparr>) x else x) (tickets s2)"
      by (rule continue_workflow_effect)
    from find_Some_in [OF tr [unfolded continuation_transition_def]]
    have "tr \<in> set (transition_rows s)" "tr_id tr = transition" "tr_active tr" "has_continuation (tr_actions tr)"
      by (simp_all add: tf)
    with hit tt sel status show ?thesis
      by (auto simp: ticket_effect_def Some tf mv bump_def intro!: bexI [of _ tr])
  qed
  with a d g und tk b rows st version fresh show thesis
    by (intro that [of a d tk ?b]) simp_all
qed

lemma decided_run:
  assumes "decide_body env ctx tenant user i cmd key s = Inr (Inr Decided, t)"
  obtains idem s1 la version s3 where
    "claim_checked tenant user ''APPROVAL_DECISION'' key
      (env_digest env (decision_document i cmd)) s = Inr (idem, s1)"
    "idem_status idem \<noteq> ''COMPLETED''" "lock_for_decision tenant i user s1 = Some la"
    "expire_if_due env la user (correlation_id ctx) (request_id ctx) s1 = Inr (False, s1)"
    "decision_guard la user cmd = Inr ()"
    "settle_decision env la user cmd (correlation_id ctx) (request_id ctx) s1 = Inr (version, s3)"
    "complete_idempotency (idem_id idem) i
      [(''approval_id'', uuid_val i), (''row_version'', PInt version)] s3 = Inr ((), t)"
proof -
  from assms obtain idem s1 where cl: "claim_checked tenant user ''APPROVAL_DECISION'' key
      (env_digest env (decision_document i cmd)) s = Inr (idem, s1)"
    and new: "idem_status idem \<noteq> ''COMPLETED''"
    and rest: "bindS (getS (lock_for_decision tenant i user)) (\<lambda>locked.
       bindS (liftS (of_option NotFoundError locked)) (\<lambda>la.
       bindS (expire_if_due env la user (correlation_id ctx) (request_id ctx)) (\<lambda>expired.
       if expired then ret (Inl (ConflictError ''Approval has expired.''))
       else bindS (liftS (decision_guard la user cmd)) (\<lambda>_.
         bindS (settle_decision env la user cmd (correlation_id ctx) (request_id ctx)) (\<lambda>version.
         bindS (complete_idempotency (idem_id idem) i
           [(''approval_id'', uuid_val i), (''row_version'', PInt version)]) (\<lambda>_.
         ret (Inr Decided))))))) s1 = Inr (Inr Decided, t)"
    unfolding decide_body_def by (rule bindS_E) (auto split: if_splits option.splits)
  from rest obtain la s2 where lock: "lock_for_decision tenant i user s1 = Some la"
    and ex: "expire_if_due env la user (correlation_id ctx) (request_id ctx) s1 = Inr (False, s2)"
    and rest: "bindS (liftS (decision_guard la user cmd)) (\<lambda>_.
         bindS (settle_decision env la user cmd (correlation_id ctx) (request_id ctx)) (\<lambda>version.
         bindS (complete_idempotency (idem_id idem) i
           [(''approval_id'', uuid_val i), (''row_version'', PInt version)]) (\<lambda>_.
         ret (Inr Decided)))) s2 = Inr (Inr Decided, t)"
    by (auto simp: bind_liftS_iff elim!: bindS_E split: if_splits)
  have s2: "s2 = s1" using ex by (rule expire_not_due)
  from rest show thesis
    using that [OF cl new lock ex [unfolded s2]] by (auto simp: bind_liftS_iff s2 elim!: bindS_E)
qed

lemma claim_ticket: "claim_checked te us opn k h s = Inr (r, t) \<Longrightarrow> ticket_frame s t"
  by (rule keepsD [OF claim_frames(2)])

lemma complete_effect: "complete_idempotency r i p s = Inr (u, t)
  \<Longrightarrow> approval_frame s t \<and> ticket_frame s t"
  using keepsD [OF complete_frames(1)] keepsD [OF complete_frames(2)] by blast

lemma approval_frame_reads:
  assumes "approval_frame s t"
  shows "approvals t = approvals s" "approver_rows i t = approver_rows i s"
    "definition_version v t = definition_version v s"
  using assms by (simp_all add: approval_frame_def approver_rows_def definition_version_def)

lemma decide_fresh:
  assumes "decide env ctx i cmd key s = (Inr (w, False), t)"
  obtains tenant user where "identity_of ctx = Inr (tenant, user)"
    "decide_body env ctx tenant user i cmd key s = Inr (Inr Decided, t)"
    "view_for_user tenant i user t = Some w"
  using assms
  by (cases rule: decide_cases) (auto split: sum.splits decide_outcome.splits option.splits)

text \<open>C15: a decision that is not a replay comes from a listed approver who had not decided, may
  decide, and named the current version of a pending approval; it decides exactly that approver's row
  and raises the version by one; the ticket moves, by one version and along the active continuation
  transition that the definition selects, exactly when the approval is settled.\<close>

theorem decision_settles:
  assumes "approval_inv db" "decide env ctx i cmd key db = (Inr (w, False), db')"
  shows "\<exists>tenant user a b d tk. identity_of ctx = Inr (tenant, user)
    \<and> a \<in> set (approvals db) \<and> ap_id a = i \<and> ap_tenant a = tenant \<and> ap_status a = ''PENDING''
    \<and> ap_row_version a = cmd_expected_version cmd
    \<and> definition_version (ap_version a) db = Some d
    \<and> tk \<in> set (tickets db) \<and> t_id tk = ap_ticket a
    \<and> (ad_self_approval d \<or> requested_for_or_reporter (t_requested_for tk) (t_reporter tk) \<noteq> user)
    \<and> undecided i user (approver_rows i db)
    \<and> approver_rows i db' = map (decide_row (env_now env) i user (stored_code (cmd_decision cmd))
        (clean_comment (cmd_comment cmd))) (approver_rows i db)
    \<and> b \<in> set (approvals db') \<and> ap_id b = i \<and> ap_row_version b = ap_row_version a + 1
    \<and> ap_status b \<in> {''PENDING'', ''APPROVED'', ''REJECTED''}
    \<and> ticket_effect a d (ap_status b) db db'"
proof -
  from assms(2) obtain tenant user where who: "identity_of ctx = Inr (tenant, user)"
    and body: "decide_body env ctx tenant user i cmd key db = Inr (Inr Decided, db')" by (rule decide_fresh)
  from body obtain idem s1 la version s3 where
    cl: "claim_checked tenant user ''APPROVAL_DECISION'' key
      (env_digest env (decision_document i cmd)) db = Inr (idem, s1)"
    and lock: "lock_for_decision tenant i user s1 = Some la"
    and guard: "decision_guard la user cmd = Inr ()"
    and settle: "settle_decision env la user cmd (correlation_id ctx) (request_id ctx) s1 = Inr (version, s3)"
    and fin: "complete_idempotency (idem_id idem) i
      [(''approval_id'', uuid_val i), (''row_version'', PInt version)] s3 = Inr ((), db')"
    by (rule decided_run)
  have f1: "approval_frame db s1" by (rule keepsD [OF claim_frames(1) cl])
  have t1: "ticket_frame db s1" by (rule claim_ticket [OF cl])
  have f3: "approval_frame s3 db'" "ticket_frame s3 db'" using complete_effect [OF fin] by simp_all
  have inv: "approval_inv s1" using assms(1) approval_inv_frame [OF f1] by simp
  note r1 = approval_frame_reads [OF f1] and r3 = approval_frame_reads [OF f3(1)]
  have te: "ticket_effect a d st s1 s3 = ticket_effect a d st db db'" for a d st
    by (rule ticket_effect_frame [OF t1]) (use f3(2) in \<open>simp add: ticket_frame_def config_frame_def\<close>)
  have tk: "tickets s1 = tickets db" using t1 by (simp add: ticket_frame_def config_frame_def)
  from inv lock guard settle show ?thesis
    by (rule settle_effect) (use who in \<open>unfold r1 r3 te tk, intro exI conjI, assumption+\<close>)
qed

subsection \<open>Errors\<close>

lemma view_exists:
  assumes inv: "approval_inv s" and a: "a \<in> set (approvals s)" "ap_id a = i" "ap_tenant a = tenant"
    and v: "v \<in> set (approver_rows i s)" "av_user v = user"
    and tk: "x \<in> set (tickets s)" "t_id x = ap_ticket a"
  shows "view_for_user tenant i user s \<noteq> None"
proof -
  from inv a(1) have "approval_ok s a" by (simp add: approval_inv_def)
  then obtain d where d: "definition_version (ap_version a) s = Some d" "ad_id d = ap_definition a"
    by (auto simp: approval_ok_def split: option.splits)
  from d(1) obtain r where r: "r \<in> set (approval_definitions s)" "adr_definition r = d"
    by (auto simp: definition_version_def dest: find_Some_in)
  have "find (\<lambda>t. t_id t = ap_ticket a) (tickets s) \<noteq> None" using tk by (auto simp: find_None_iff)
  moreover have "find (\<lambda>r. ad_id (adr_definition r) = ap_definition a) (approval_definitions s) \<noteq> None"
    using r d(2) by (auto simp: find_None_iff)
  ultimately obtain w where w: "view_of s a v = Some w" "vw_approval w = i"
    using d(1) a(2) by (auto simp: view_of_def)
  have "w \<in> set (views_for_user tenant user s)"
    using a v w(1) by (force simp: views_for_user_def map_filter_def)
  with w(2) show ?thesis by (auto simp: view_for_user_def find_None_iff)
qed

lemma ticket_effect_ids:
  assumes "ticket_effect a d st s t" "x \<in> set (tickets s)"
  obtains y where "y \<in> set (tickets t)" "t_id y = t_id x"
proof (cases "st = ''PENDING''")
  case True
  with assms that show thesis by (auto simp: ticket_effect_def)
next
  case False
  with assms(1) obtain tr where t: "tickets t = map (\<lambda>x. if carries a tr x
            then x\<lparr>t_status := tr_to tr, t_row_version := t_row_version x + 1\<rparr> else x) (tickets s)"
    by (auto simp: ticket_effect_def)
  let ?f = "\<lambda>x. if carries a tr x then x\<lparr>t_status := tr_to tr, t_row_version := t_row_version x + 1\<rparr> else x"
  have "?f x \<in> set (tickets t)" using assms(2) unfolding t by (auto simp del: if_split)
  moreover have "t_id (?f x) = t_id x" by simp
  ultimately show thesis by (rule that)
qed

lemma decided_view:
  assumes inv: "approval_inv s" and body: "decide_body env ctx tenant user i cmd key s = Inr (Inr Decided, t)"
  shows "view_for_user tenant i user t \<noteq> None"
proof -
  from body obtain idem s1 la version s3 where
    cl: "claim_checked tenant user ''APPROVAL_DECISION'' key
      (env_digest env (decision_document i cmd)) s = Inr (idem, s1)"
    and lock: "lock_for_decision tenant i user s1 = Some la"
    and guard: "decision_guard la user cmd = Inr ()"
    and settle: "settle_decision env la user cmd (correlation_id ctx) (request_id ctx) s1 = Inr (version, s3)"
    and fin: "complete_idempotency (idem_id idem) i
      [(''approval_id'', uuid_val i), (''row_version'', PInt version)] s3 = Inr ((), t)"
    by (rule decided_run)
  have inv1: "approval_inv s1"
    using inv approval_inv_frame [OF keepsD [OF claim_frames(1) cl]] by simp
  from inv1 settle_step [OF lock _ _ settle] guard have inv3: "approval_inv s3 \<and> approval_later s1 s3"
    by (auto simp: approval_step_def decision_guard_def split: if_splits)
  have f3: "approval_frame s3 t" "tickets t = tickets s3"
    using complete_effect [OF fin] by (simp_all add: ticket_frame_def config_frame_def)
  from inv1 lock guard settle obtain a d tk where
    a: "a \<in> set (approvals s1)" "ap_id a = i" "ap_tenant a = tenant"
    and tk: "tk \<in> set (tickets s1)" "t_id tk = ap_ticket a"
    and und: "undecided i user (approver_rows i s1)"
    and rows: "approver_rows i s3 = map (decide_row (env_now env) i user (stored_code (cmd_decision cmd))
      (clean_comment (cmd_comment cmd))) (approver_rows i s1)"
    and te: "\<exists>st. ticket_effect a d st s1 s3"
    by (rule settle_effect) blast
  from inv3 a(1) obtain b where b: "b \<in> set (approvals s3)" "approval_le a b"
    unfolding approval_later_def by (blast elim: grows_source)
  from und obtain v where v: "v \<in> set (approver_rows i s1)" "av_user v = user" by (auto simp: undecided_def)
  from te tk(1) obtain y where y: "y \<in> set (tickets s3)" "t_id y = t_id tk"
    by (blast elim: ticket_effect_ids)
  show ?thesis
  proof (rule view_exists)
    show "approval_inv t" using inv3 approval_inv_frame [OF f3(1)] by simp
    show "b \<in> set (approvals t)" using b f3 by (simp add: approval_frame_def)
    show "ap_id b = i" "ap_tenant b = tenant" using b a by (simp_all add: approval_le_def)
    show "decide_row (env_now env) i user (stored_code (cmd_decision cmd)) (clean_comment (cmd_comment cmd)) v
        \<in> set (approver_rows i t)"
      using v unfolding approval_frame_reads(2) [OF f3(1)] rows by simp
    show "y \<in> set (tickets t)" "t_id y = ap_ticket b" using y tk b f3 by (simp_all add: approval_le_def)
  qed (simp add: v)
qed

lemma expired_effect:
  assumes "expire_if_due env la actor corr req s = Inr (True, t)"
  shows "ticket_frame s t \<and> approvers t = approvers s
    \<and> approvals t = map (\<lambda>a. if ap_id a = la_id la \<and> ap_status a = ''PENDING''
        then closed_row (env_now env) (Some ''EXPIRED'') a else a) (approvals s)
    \<and> (\<exists>e. la_expires_at la = Some e \<and> e \<le> env_wall env)
    \<and> (\<exists>a\<in>set (approvals s). ap_id a = la_id la \<and> ap_status a = ''PENDING'')"
proof -
  let ?p = "\<lambda>a. ap_id a = la_id la \<and> ap_status a = ''PENDING''"
  from assms obtain e rows s1 where e: "la_expires_at la = Some e" "e \<le> env_wall env"
    and up: "update_approvals ?p (closed_row (env_now env) (Some ''EXPIRED'')) s = Inr (rows, s1)"
    and hit: "rows \<noteq> []"
    and fact: "record_fact (la_tenant la) (la_ticket la) actor (la_id la) ''APPROVAL_EXPIRED''
       [(''approval_id'', uuid_val (la_id la))] corr req s1 = Inr ((), t)"
    by (auto simp: expire_if_due_def elim!: bindS_E split: if_splits option.splits)
  note s1 = update_approvals_effect [OF up]
  from s1 hit have "filter ?p (approvals s) \<noteq> []" by auto
  then have "\<exists>a\<in>set (approvals s). ?p a" by (auto simp: filter_empty_conv)
  moreover have "ticket_frame s s1" using s1 by (simp add: ticket_frame_def config_frame_def)
  moreover have "ticket_frame s1 t" by (rule keepsD [OF record_fact_ticket fact])
  moreover have "approval_frame s1 t" by (rule keepsD [OF record_fact_frame fact])
  ultimately show ?thesis using e s1 by (auto simp: approval_frame_def intro: tf.trans)
qed

text \<open>A failed decision leaves no trace, whatever it failed on and however far it had come; the
  one exception is an overdue approval, which is closed as expired without a decision or a move.\<close>

lemma decide_error_atomic:
  assumes "approval_inv db" "decide env ctx i cmd key db = (Inl e, db')"
  shows "db' = db \<or>
    (e = ConflictError ''Approval has expired.'' \<and> tickets db' = tickets db \<and> approvers db' = approvers db
     \<and> (\<exists>a\<in>set (approvals db). ap_id a = i \<and> ap_status a = ''PENDING''
          \<and> (\<exists>t. ap_expires_at a = Some t \<and> t \<le> env_wall env))
     \<and> approvals db' = map (\<lambda>a. if ap_id a = i \<and> ap_status a = ''PENDING''
          then closed_row (env_now env) (Some ''EXPIRED'') a else a) (approvals db))"
  using assms(2)
proof (cases rule: decide_cases)
  case (body tenant user q)
  from body(4) consider (expired) e' where "q = Inl e'" "e = e'" | (lost) "q = Inr Decided"
      "view_for_user tenant i user db' = None"
    by (cases q) (auto split: decide_outcome.splits option.splits)
  then show ?thesis
  proof cases
    case lost
    with decided_view [OF assms(1)] body(3) show ?thesis by blast
  next
    case expired
    from body(3) obtain idem s1 la where cl: "claim_checked tenant user ''APPROVAL_DECISION'' key
      (env_digest env (decision_document i cmd)) db = Inr (idem, s1)"
      and lock: "lock_for_decision tenant i user s1 = Some la"
      and ex: "expire_if_due env la user (correlation_id ctx) (request_id ctx) s1 = Inr (True, db')"
      and e': "e = ConflictError ''Approval has expired.''"
      unfolding expired decide_body_def
      by (auto simp: bind_liftS_iff elim!: bindS_E split: if_splits option.splits)
    have f1: "approval_frame db s1" by (rule keepsD [OF claim_frames(1) cl])
    have t1: "ticket_frame db s1" by (rule claim_ticket [OF cl])
    from lock obtain a where a: "a \<in> set (approvals s1)" "ap_id a = i" "la_id la = i"
      "la_expires_at la = ap_expires_at a" by (rule lock_facts)
    have inv: "approval_inv s1" using assms(1) approval_inv_frame [OF f1] by simp
    note x = expired_effect [OF ex, unfolded a(3)]
    from x obtain c where "c \<in> set (approvals s1)" "ap_id c = i" "ap_status c = ''PENDING''" by blast
    with unique_approval [OF inv a(1), of c] a have "ap_status a = ''PENDING''" by simp
    with x a f1 t1 e' show ?thesis by (auto simp: approval_frame_def ticket_frame_def config_frame_def)
  qed
qed simp

subsection \<open>Replays\<close>

lemma settle_idem: "keeps idem_frame (settle_decision env la user cmd corr req)"
proof -
  have "keeps idem_frame (continue_workflow la tr user corr req)" for tr
    unfolding continue_workflow_def
    by (auto simp: Let_def split: option.splits
        intro!: idf.keeps_bindS idf.keeps_raise idf.keeps_getS inv_intros)
  then have "keeps idem_frame (follow_outcome la terminal user corr req)" for terminal
    unfolding follow_outcome_def by (auto split: option.splits intro!: idf.keeps_raise idf.keeps_ret)
  then show ?thesis
    unfolding settle_decision_def
    by (intro idf.keeps_bindS idf.keeps_getS idf.keeps_liftS idf.keeps_ret record_decision_frames)
qed

text \<open>C23: a decision sent again under its key, at any later time, is answered from the stored state and
  changes nothing.\<close>

theorem decide_replay:
  assumes "decide env ctx i cmd key db = (Inr (w, False), db')" "env_digest env' = env_digest env"
  shows "decide env' ctx i cmd key db' = (Inr (w, True), db')"
proof -
  from assms(1) obtain tenant user where who: "identity_of ctx = Inr (tenant, user)"
    and body: "decide_body env ctx tenant user i cmd key db = Inr (Inr Decided, db')"
    and view: "view_for_user tenant i user db' = Some w" by (rule decide_fresh)
  have allowed: "is_allowed ctx APPROVAL_DECIDE None"
    using assms(1) by (auto simp: decide_def split: if_splits)
  let ?h = "env_digest env (decision_document i cmd)"
  from body obtain idem s1 la version s3 where
    cl: "claim_checked tenant user ''APPROVAL_DECISION'' key ?h db = Inr (idem, s1)"
    and settle: "settle_decision env la user cmd (correlation_id ctx) (request_id ctx) s1 = Inr (version, s3)"
    and fin: "complete_idempotency (idem_id idem) i
      [(''approval_id'', uuid_val i), (''row_version'', PInt version)] s3 = Inr ((), db')"
    by (rule decided_run)
  note c = claim_result [OF cl]
  have "idempotency s3 = idempotency s1"
    using keepsD [OF settle_idem settle] by (simp add: idem_frame_def)
  with c have "find (same_request tenant ''APPROVAL_DECISION'' key) (idempotency s3) = Some idem" by simp
  note stored = completed_request [OF this fin]
  have "claim_checked tenant user ''APPROVAL_DECISION'' key ?h db' = Inr (idem\<lparr>idem_status := ''COMPLETED'',
      idem_result := Some i, idem_payload := [(''approval_id'', uuid_val i), (''row_version'', PInt version)]\<rparr>, db')"
    by (rule claim_known [OF stored]) (use c in simp_all)
  then have "decide_body env' ctx tenant user i cmd key db' = Inr (Inr (Replayed w), db')"
    by (simp add: decide_body_def assms(2) view)
  then show ?thesis by (simp add: decide_def allowed who run_uow_def)
qed

subsection \<open>Requests\<close>

text \<open>C24: an opened approval is pending, asks exactly the users its definition resolves to, all of them
  undecided, and never the requester unless the definition allows that.\<close>

theorem request_opens:
  assumes "approval_inv db" "request env tenant ticket code actor corr req db = Inr (i, db')"
  shows "\<exists>tk d ids a. ticket_for_approval tenant ticket db = Some tk
    \<and> published_definition (env_now env) tenant (at_project tk) code db = Some d
    \<and> resolve tk d db = Inr (ids, db) \<and> distinct ids
    \<and> a \<in> set (approvals db') \<and> ap_id a = i \<and> ap_status a = ''PENDING'' \<and> ap_version a = ad_version d
    \<and> approver_rows i db = [] \<and> approver_rows i db' = map (blank_approver i) (enumerate 1 ids)
    \<and> (ad_self_approval d \<or> ticket_requester tk \<notin> set ids)"
proof -
  from assms(2) obtain tk d ids s0 where
    tk: "ticket_for_approval tenant ticket db = Some tk"
    and d: "published_definition (env_now env) tenant (at_project tk) code db = Some d"
    and res: "resolve tk d db = Inr (ids, s0)"
    and self: "ad_self_approval d \<or> ticket_requester tk \<notin> set ids"
    and cr: "create_approval env tk d ids actor corr req s0 = Inr (i, db')"
    unfolding request_def by (elim bindS_E) (auto split: if_splits intro: that)
  have s0: "s0 = db" using resolve_modes [OF res] by simp
  from cr obtain j s1 a s2 s3 where draw: "draw_uuid db = Inr (j, s1)"
    and ins: "insert_approval a s1 = Inr ((), s2)" "ap_id a = j" "ap_status a = ''PENDING''"
      "ap_version a = ad_version d"
    and rows: "forS (insert_approver j) (enumerate 1 ids) s2 = Inr ((), s3)"
    and fact: "record_fact (at_tenant tk) (at_ticket tk) actor j ''APPROVAL_REQUESTED''
      (requested_payload j tk d ids) corr req s3 = Inr ((), db')" and ij: "i = j"
    unfolding create_approval_def s0 by (elim bindS_E) (auto intro: that)
  have f1: "approval_frame db s1" and f2: "approval_frame s3 db'"
    by (rule keepsD [OF draw_uuid_frames(1) draw], rule keepsD [OF record_fact_frame fact])
  from ins have s2: "s2 = s1\<lparr>approvals := approvals s1 @ [a]\<rparr>" and new: "j \<notin> ap_id ` set (approvals s1)"
    by (auto simp: insert_approval_def split: if_splits)
  note e = insert_approvers_effect [OF rows]
  have s3: "approvals db' = approvals db @ [a]"
    "approvers db' = approvers db @ map (blank_approver j) (enumerate 1 ids)"
    using f1 f2 e by (simp_all add: approval_frame_def s2)
  have "av_approval v \<noteq> j" if "v \<in> set (approvers db)" for v
    using assms(1) new f1 that unfolding approval_inv_def approval_frame_def by metis
  then have none: "approver_rows j db = []" by (simp add: approver_rows_def filter_empty_conv)
  have "approver_rows j db' = approver_rows j db @ map (blank_approver j) (enumerate 1 ids)"
    by (simp add: approver_rows_def s3 filter_blank)
  with none have "approver_rows j db' = map (blank_approver j) (enumerate 1 ids)" by simp
  with tk d res self e none ins s0 ij show ?thesis
    by (intro exI [of _ tk] exI [of _ d] exI [of _ ids] exI [of _ a] conjI) (simp_all add: s3)
qed

text \<open>C26: when the ticket has been moved off the status its continuation transition leaves from, no
  decision that would settle the approval can be made any more: it fails, and the approval stays
  pending until it expires.\<close>

theorem moved_ticket_blocks_decision:
  assumes "lock_for_decision tenant i user s = Some la" "decision_guard la user cmd = Inr ()"
    and "tally_with la (cmd_decision cmd) (decision_counts i s) = Inr (Some status)"
    and "selected_transition la status = Some transition"
    and "\<And>tr x. tr \<in> set (transition_rows s) \<Longrightarrow> tr_id tr = transition \<Longrightarrow> x \<in> set (tickets s) \<Longrightarrow> t_id x = la_ticket la
      \<Longrightarrow> tr_from tr \<noteq> t_status x"
  shows "\<exists>e. settle_decision env la user cmd corr req s = Inl e"
proof (rule ccontr)
  assume "\<not> ?thesis"
  then obtain version t where run: "settle_decision env la user cmd corr req s = Inr (version, t)"
    by (cases "settle_decision env la user cmd corr req s") auto
  have la: "la_id la = i" using assms(1) by (rule lock_facts)
  from run obtain s2 where
    rec: "record_decision env la user (stored_code (cmd_decision cmd))
      (clean_comment (cmd_comment cmd)) (Some status) corr req s = Inr (version, s2)"
    and fol: "follow_outcome la (Some status) user corr req s2 = Inr ((), t)"
    by (rule settle_run) (use assms(3) la in simp)
  have tf: "tickets s2 = tickets s" "transition_rows s2 = transition_rows s"
    using record_decision_ticket [OF rec] by (simp_all add: ticket_frame_def config_frame_def)
  from fol assms(4) have "continue_workflow la transition user corr req s2 = Inr ((), t)"
    by (simp add: follow_outcome_def selected_transition_def)
  then obtain tr x where "continuation_transition transition s2 = Some tr"
    "x \<in> set (tickets s2)" "continues la tr x" by (elim continue_workflow_effect) blast
  with assms(5) [of tr x] show False
    by (auto simp: tf continuation_transition_def continues_def dest!: find_Some_in)
qed

subsection \<open>The properties at work\<close>

lemmas approval_evaluation = shared_steps decide_def decide_body_def lock_for_decision_def approver_rows_def
  definition_version_def requested_for_or_reporter_def expire_if_due_def decision_guard_def
  settle_decision_def decision_counts_def count_rows_def tally_with_def terminal_status_def
  record_decision_def insert_decision_def decide_row_def update_approvals_def completion_check_def
  closed_row_def record_fact_def follow_outcome_def continue_workflow_def continuation_transition_def
  has_continuation_def is_continuation_action_def continues_def comment_required_def clean_comment_def
  view_for_user_def views_for_user_def view_of_def stored_code_def

definition approve :: decision_command where
  "approve = \<lparr>cmd_decision = APPROVE, cmd_comment = None, cmd_expected_version = 1\<rparr>"

abbreviation approver_context :: request_context where
  "approver_context \<equiv> demo_context 6 ''APPROVER''"

lemma approver_allowed: "is_allowed approver_context APPROVAL_DECIDE None" by code_simp

lemma demo_inv: "approval_inv demo_db" by code_simp

lemma demo_decides:
  obtains w db' where "decide demo_env approver_context 50 approve ''k'' demo_db = (Inr (w, False), db')"
proof -
  have "\<exists>w db'. decide demo_env approver_context 50 approve ''k'' demo_db = (Inr (w, False), db')"
    by (simp add: approval_evaluation approver_allowed demo_data demo_env_def approve_def)
  with that show thesis by blast
qed

theorem approval_history_witness:
  "approval_inv (run_calls [CancelCall demo_env 9 1 7 ''corr'' ''req'', DecideCall demo_env approver_context 50 approve ''k'']
     demo_db)"
  using approval_history [OF demo_inv] by simp

theorem decision_settles_witness:
  "\<exists>w db'. decide demo_env approver_context 50 approve ''k'' demo_db = (Inr (w, False), db')
    \<and> (\<exists>b\<in>set (approvals db'). ap_id b = 50 \<and> ap_status b \<in> {''PENDING'', ''APPROVED'', ''REJECTED''})"
proof -
  obtain w db' where run: "decide demo_env approver_context 50 approve ''k'' demo_db = (Inr (w, False), db')"
    by (rule demo_decides)
  from decision_settles [OF demo_inv run] run show ?thesis by blast
qed

definition late_env :: service_env where
  "late_env = demo_env\<lparr>env_now := 3600000000, env_wall := 3600000000\<rparr>"

lemma decide_error_atomic_witness:
  "\<exists>db'. decide late_env approver_context 50 approve ''k'' demo_db
      = (Inl (ConflictError ''Approval has expired.''), db') \<and> tickets db' = tickets demo_db"
proof -
  have "\<exists>db'. decide late_env approver_context 50 approve ''k'' demo_db
      = (Inl (ConflictError ''Approval has expired.''), db')"
    by (simp add: approval_evaluation approver_allowed demo_data demo_env_def late_env_def approve_def)
  then obtain db' where run: "decide late_env approver_context 50 approve ''k'' demo_db
      = (Inl (ConflictError ''Approval has expired.''), db')" by blast
  from decide_error_atomic [OF demo_inv run] run show ?thesis by auto
qed

theorem decide_replay_witness:
  "\<exists>w db'. decide late_env approver_context 50 approve ''k'' db' = (Inr (w, True), db')"
proof -
  obtain w db' where run: "decide demo_env approver_context 50 approve ''k'' demo_db = (Inr (w, False), db')"
    by (rule demo_decides)
  have "env_digest late_env = env_digest demo_env" by (simp add: late_env_def)
  from decide_replay [OF run this] show ?thesis by blast
qed

lemma demo_request:
  "\<exists>db'. request demo_env 9 2 ''CHANGE'' 7 ''corr'' ''req'' demo_db = Inr (1000, db')"
  by (simp add: approval_evaluation request_def ticket_for_approval_def published_definition_def
      is_published_def in_force_def resolve_def resolve_manager_def keys_within_def subject_supported_def
      ticket_requester_def manager_for_def create_approval_def insert_approval_def insert_approver_def
      demo_data demo_env_def)

theorem request_opens_witness:
  "\<exists>db' ids. request demo_env 9 2 ''CHANGE'' 7 ''corr'' ''req'' demo_db = Inr (1000, db')
    \<and> approver_rows 1000 db' = map (blank_approver 1000) (enumerate 1 ids)"
proof -
  obtain db' where run: "request demo_env 9 2 ''CHANGE'' 7 ''corr'' ''req'' demo_db = Inr (1000, db')"
    using demo_request by blast
  from request_opens [OF demo_inv run] run show ?thesis by blast
qed

text \<open>The agent moved the waiting ticket on by hand.\<close>

definition moved_db :: helpdesk_db where
  "moved_db = demo_db\<lparr>tickets := [demo_ticket 1 ''HR-1'' 22]\<rparr>"

theorem moved_ticket_blocks_decision_witness:
  "\<exists>la e. lock_for_decision 9 50 6 moved_db = Some la
    \<and> settle_decision demo_env la 6 approve ''corr'' ''req'' moved_db = Inl e"
proof -
  have "\<exists>la. lock_for_decision 9 50 6 moved_db = Some la \<and> decision_guard la 6 approve = Inr ()
      \<and> tally_with la (cmd_decision approve) (decision_counts 50 moved_db) = Inr (Some ''APPROVED'')
      \<and> selected_transition la ''APPROVED'' = Some 31 \<and> la_ticket la = 1"
    by (simp add: approval_evaluation selected_transition_def moved_db_def approve_def demo_data)
  then obtain la where la: "lock_for_decision 9 50 6 moved_db = Some la" "decision_guard la 6 approve = Inr ()"
    "tally_with la (cmd_decision approve) (decision_counts 50 moved_db) = Inr (Some ''APPROVED'')"
    "selected_transition la ''APPROVED'' = Some 31" "la_ticket la = 1" by blast
  have "tr_from tr \<noteq> t_status x" if "tr \<in> set (transition_rows moved_db)" "tr_id tr = 31"
      "x \<in> set (tickets moved_db)" for tr x
    using that by (auto simp: moved_db_def demo_data)
  from moved_ticket_blocks_decision [OF la(1-4) this] la(1) show ?thesis by blast
qed

end
