(* ===== verification/Helpdesk.thy ===== *)
theory Helpdesk
  imports SlaWorker RoutingSpec WorkflowSpec ApprovalSpec
begin

text \<open>
  The services over the one database they share: any interleaving of transitions, decisions, routings
  and manual assignments, each of them one transaction, and what approvals tell the SLA engine.
\<close>

subsection \<open>Calls as steps\<close>

inductive helpdesk_step :: "helpdesk_db \<Rightarrow> helpdesk_db \<Rightarrow> bool" where
  transition: "execute env ctx key cmd ikey s = (r, t) \<Longrightarrow> helpdesk_step s t"
| decision: "decide env ctx approval dcmd ikey s = (d, t) \<Longrightarrow> helpdesk_step s t"
| routing: "route env ctx key version ikey s = (a, t) \<Longrightarrow> helpdesk_step s t"
| assignment: "assign_manual env ctx key mcmd ikey s = (a, t) \<Longrightarrow> helpdesk_step s t"

inductive_cases helpdesk_stepE: "helpdesk_step s t"

subsection \<open>Tickets over time\<close>

definition status_in :: "helpdesk_db \<Rightarrow> uuid \<Rightarrow> uuid \<Rightarrow> bool" where
  "status_in db version status \<longleftrightarrow> (\<exists>st\<in>set (statuses db). st_id st = status \<and> st_version st = version)"

text \<open>Every ticket is in a status of the workflow version it was opened under, and transitions end in one.\<close>

definition pinned :: "helpdesk_db \<Rightarrow> bool" where
  "pinned db \<longleftrightarrow> (\<forall>tr\<in>set (transition_rows db). status_in db (tr_version tr) (tr_to tr))
     \<and> (\<forall>x\<in>set (tickets db). status_in db (t_workflow_version x) (t_status x))"

definition ticket_le :: "ticket_row \<Rightarrow> ticket_row \<Rightarrow> bool" where
  "ticket_le x y \<longleftrightarrow> t_id y = t_id x \<and> t_tenant y = t_tenant x \<and> t_key y = t_key x
     \<and> t_project y = t_project x \<and> t_workflow_version y = t_workflow_version x
     \<and> t_reporter y = t_reporter x \<and> t_row_version x \<le> t_row_version y
     \<and> (t_row_version y = t_row_version x \<longrightarrow> y = x)"

lemma ticket_le_refl [simp]: "ticket_le x x"
  by (simp add: ticket_le_def)

lemma ticket_le_trans: "ticket_le x y \<Longrightarrow> ticket_le y z \<Longrightarrow> ticket_le x z"
  by (auto simp: ticket_le_def)

definition ticket_later :: "helpdesk_db \<Rightarrow> helpdesk_db \<Rightarrow> bool" where
  "ticket_later s t \<longleftrightarrow> config_frame s t \<and> (pinned s \<longrightarrow> pinned t)
     \<and> list_all2 ticket_le (tickets s) (tickets t)"

interpretation tl: history ticket_later
proof
  show "ticket_later s s" for s by (simp add: ticket_later_def cf.refl list_all2_same)
  show "ticket_later s u" if "ticket_later s t" "ticket_later t u" for s t u
    using that list_all2_trans [of ticket_le ticket_le ticket_le, OF ticket_le_trans]
    by (auto simp: ticket_later_def intro: cf.trans)
qed

lemma status_in_frame: "config_frame s t \<Longrightarrow> status_in t v st = status_in s v st"
  by (simp add: status_in_def config_frame_def)

lemma frame_later: "config_frame s t \<Longrightarrow> tickets t = tickets s \<Longrightarrow> ticket_later s t"
proof -
  assume c: "config_frame s t" and t: "tickets t = tickets s"
  then have "transition_rows t = transition_rows s" by (simp add: config_frame_def)
  with c t have "pinned t = pinned s" by (simp only: pinned_def status_in_frame [OF c])
  with c t show ?thesis by (simp add: ticket_later_def list_all2_same)
qed

lemma keeps_later: "keeps ticket_frame m \<Longrightarrow> keeps ticket_later m"
  by (auto simp: keeps_def ticket_frame_def intro: frame_later)

lemma map_later:
  assumes "config_frame s t" "tickets t = map (\<lambda>x. if p x then f x else x) (tickets s)"
    and "\<And>x. x \<in> set (tickets s) \<Longrightarrow> p x \<Longrightarrow> ticket_le x (f x)
      \<and> (pinned s \<longrightarrow> status_in s (t_workflow_version x) (t_status (f x)))"
  shows "ticket_later s t"
proof -
  have "list_all2 ticket_le (tickets s) (tickets t)"
    unfolding assms(2) list_all2_map2 using assms(3) by (auto simp: list_all2_same)
  moreover have "pinned t" if pin: "pinned s"
    unfolding pinned_def
  proof (intro conjI ballI)
    fix tr assume "tr \<in> set (transition_rows t)"
    then have "tr \<in> set (transition_rows s)" using assms(1) by (simp add: config_frame_def)
    with pin show "status_in t (tr_version tr) (tr_to tr)"
      unfolding status_in_frame [OF assms(1)] by (simp add: pinned_def)
  next
    fix y assume "y \<in> set (tickets t)"
    then obtain x where x: "x \<in> set (tickets s)" "y = (if p x then f x else x)"
      by (auto simp: assms(2))
    with assms(3) [OF x(1)] pin show "status_in t (t_workflow_version y) (t_status y)"
      unfolding status_in_frame [OF assms(1)] by (auto simp: pinned_def ticket_le_def)
  qed
  ultimately show ?thesis using assms(1) by (simp add: ticket_later_def)
qed

subsection \<open>Each use case\<close>

lemma transition_work_later: "keeps ticket_later (transition_work env ctx te us key cmd)"
proof
  fix s y t assume run: "transition_work env ctx te us key cmd s = Inr (y, t)"
  obtain a res payload where y: "y = (a, res, payload)" by (cases y) auto
  from run [unfolded y] show "ticket_later s t"
  proof (rule work_effect)
    fix x wt tr wx updates
    assume tr: "tr \<in> set (transition_rows s)" "leaves_from (t_workflow_version x) (t_status x) tr"
      "transition_of s tr = Some wx"
      and t: "tickets t = map (\<lambda>y. if same_version x y then transitioned tr updates y else y) (tickets s)"
      and c: "config_frame s t"
    from transition_of_facts(7) [OF tr(3)] tr(2) have "status_in s (t_workflow_version x) (tr_to tr)"
      by (auto simp: status_in_def leaves_from_def)
    with c t show ?thesis
      by (intro map_later [OF c t]) (simp add: ticket_le_def transitioned_def same_version_def)
  qed
qed

lemma assign_later: "keeps ticket_later (assign rt g code who)"
  unfolding assign_def
proof (intro tl.keeps_bindS tl.keeps_ret)
  let ?p = "\<lambda>t. t_id t = rt_id rt \<and> t_row_version t = rt_row_version rt \<and> t_group t = rt_group rt
    \<and> t_assignee t = rt_assignee rt"
  show "keeps ticket_later (update_ticket ?p (\<lambda>t. t\<lparr>t_group := Some g, t_assignee := who\<rparr>))"
  proof
    fix s r t assume up: "update_ticket ?p (\<lambda>t. t\<lparr>t_group := Some g, t_assignee := who\<rparr>) s = Inr (r, t)"
    then show "ticket_later s t"
    proof (cases r)
      case None
      with up show ?thesis by (auto simp: update_ticket_def tl.refl split: option.splits)
    next
      case (Some v)
      from update_ticket_effect [OF up [unfolded Some]]
      have t: "t = s\<lparr>tickets := map (\<lambda>x. if ?p x then bump (\<lambda>t. t\<lparr>t_group := Some g, t_assignee := who\<rparr>) x else x)
        (tickets s)\<rparr>" ..
      show ?thesis
        by (rule map_later [where p = ?p and f = "bump (\<lambda>t. t\<lparr>t_group := Some g, t_assignee := who\<rparr>)"])
          (simp_all add: t config_frame_def ticket_le_def bump_def pinned_def)
    qed
  qed
qed

lemma record_assignment_later: "keeps ticket_later (record_assignment rt res actor reason co rq rl fb tc)"
proof
  fix s y t assume run: "record_assignment rt res actor reason co rq rl fb tc s = Inr (y, t)"
  from record_assignment_effect [OF run] show "ticket_later s t" by (auto intro: frame_later)
qed

lemma assignment_works_later:
  "keeps ticket_later (route_work env ctx te us key version)"
  "keeps ticket_later (manual_work ctx te us key cmd)"
  unfolding route_work_def manual_work_def
  by (auto split: prod.splits intro!: tl.keeps_bindS tl.keeps_getS tl.keeps_liftS tl.keeps_ret assign_later
      record_assignment_later)

lemma continue_workflow_later: "keeps ticket_later (continue_workflow la transition actor co rq)"
proof
  fix s y t assume run: "continue_workflow la transition actor co rq s = Inr (y, t)"
  then have c: "config_frame s t"
    unfolding continue_workflow_def
    by (auto simp: Let_def insert_event_def insert_outbox_def insert_audit_def update_ticket_def config_frame_def
        elim!: bindS_E split: option.splits if_splits)
  from run show "ticket_later s t"
  proof (rule continue_workflow_effect)
    fix tr assume tr: "continuation_transition transition s = Some tr"
      and t: "tickets t = map (\<lambda>x. if continues la tr x then bump (\<lambda>x. x\<lparr>t_status := tr_to tr\<rparr>) x else x) (tickets s)"
    from tr have "tr \<in> set (transition_rows s)"
      unfolding continuation_transition_def by (blast dest: find_Some_in)
    then show ?thesis
      by (intro map_later [OF c t]) (auto simp: ticket_le_def bump_def continues_def pinned_def)
  qed
qed

lemma follow_outcome_later: "keeps ticket_later (follow_outcome la terminal user co rq)"
  unfolding follow_outcome_def
  by (auto split: option.splits intro: tl.keeps_ret tl.keeps_raise continue_workflow_later)

lemmas later_writes = approval_writes(3) [THEN keeps_later] record_fact_ticket [THEN keeps_later]
  claim_frames(2) [THEN keeps_later] complete_frames(2) [THEN keeps_later]
  record_decision_frames(1) [THEN keeps_later]

lemma expire_later: "keeps ticket_later (expire_if_due env la actor co rq)"
  unfolding expire_if_due_def
  by (auto intro!: tl.keeps_ret tl.keeps_bindS later_writes)

lemma decide_body_later: "keeps ticket_later (decide_body env ctx te us i cmd key)"
  unfolding decide_body_def settle_decision_def
  by (auto split: option.splits
      intro!: tl.keeps_bindS tl.keeps_getS tl.keeps_liftS tl.keeps_ret tl.keeps_raise follow_outcome_later
        expire_later later_writes)

subsection \<open>Each call\<close>

lemma keeps_idempotent_call:
  assumes h: "history R" and claim: "\<And>te us opn k h. keeps R (claim_checked te us opn k h)"
    and complete: "\<And>r a p. keeps R (complete_idempotency r a p)"
    and work: "keeps R work" and again: "\<And>r. keeps R (again r)"
  shows "keeps R (idempotent_call tenant user opn key hash again work)"
  unfolding idempotent_call_def
  by (auto split: prod.splits intro!: history.keeps_bindS [OF h] history.keeps_ret [OF h] claim complete work again)

lemmas call_keeps =
  keeps_idempotent_call [OF tl.history_axioms claim_frames(2) [THEN keeps_later] complete_frames(2) [THEN keeps_later]]
  keeps_idempotent_call [OF ap.history_axioms claim_frames(1) [THEN keeps_frame_step] complete_frames(1) [THEN keeps_frame_step]]

lemma update_ticket_step: "keeps approval_step (update_ticket p f)"
  by (rule keeps_frame_step) (rule update_ticket_frames(1))

lemma record_transition_step: "keeps approval_step (record_transition wt wx ac v co rq)"
  unfolding record_transition_def Let_def by (intro keeps_frame_step fr.keeps_bindS inv_intros)

lemma comment_first_step: "keeps approval_step (comment_first now wt te us c co rq)"
proof -
  have "keeps approval_frame (insert_comment now ti au b)" for now ti au b
    by (auto simp: keeps_def frame_defs insert_comment_def draw_uuid_def elim!: bindS_E)
  then have "keeps approval_frame (add_public_comment now te ti ac b co rq e)" for now te ti ac b e
    unfolding add_public_comment_def
    by (intro fr.keeps_if fr.keeps_raise fr.keeps_bindS fr.keeps_forS fr.keeps_ret inv_intros)
  then show ?thesis
    unfolding comment_first_def
    by (auto split: option.splits list.splits intro!: keeps_frame_step fr.keeps_bindS fr.keeps_ret)
qed

lemma apply_transition_step: "keeps approval_step (apply_transition wt wx u)"
  unfolding apply_transition_def by (intro ap.keeps_if ap.keeps_raise update_ticket_step)

lemma transition_work_step: "keeps approval_step (transition_work env ctx te us key cmd)"
  unfolding transition_work_def Let_def
  by (auto split: prod.splits intro!: ap.keeps_bindS ap.keeps_getS ap.keeps_liftS ap.keeps_ret
      ap.keeps_forS comment_first_step apply_transition_step record_transition_step request_step)

lemma assignment_works_step:
  "keeps approval_step (route_work env ctx te us key version)"
  "keeps approval_step (manual_work ctx te us key cmd)"
proof -
  have h: "keeps approval_frame (record_history rt res r rl ac)" for rt res r rl ac
    by (auto simp: keeps_def frame_defs record_history_def)
  have "keeps approval_step (record_assignment rt res ac r co rq rl fb tc)" for rt res ac r rl fb tc co rq
    unfolding record_assignment_def Let_def by (intro keeps_frame_step fr.keeps_bindS fr.keeps_whenS h inv_intros)
  moreover have "keeps approval_step (assign rt g code who)" for rt g code who
    unfolding assign_def by (intro ap.keeps_bindS ap.keeps_ret update_ticket_step)
  ultimately show "keeps approval_step (route_work env ctx te us key version)"
    "keeps approval_step (manual_work ctx te us key cmd)"
    unfolding route_work_def manual_work_def
    by (auto split: prod.splits intro!: ap.keeps_bindS ap.keeps_getS ap.keeps_liftS ap.keeps_ret)
qed

definition helpdesk_later :: "helpdesk_db \<Rightarrow> helpdesk_db \<Rightarrow> bool" where
  "helpdesk_later s t \<longleftrightarrow> ticket_later s t \<and> approval_step s t"

interpretation hl: history helpdesk_later
  by unfold_locales (auto simp: helpdesk_later_def intro: tl.refl tl.trans ap.refl ap.trans)

lemma keeps_both: "keeps ticket_later m \<Longrightarrow> keeps approval_step m \<Longrightarrow> keeps helpdesk_later m"
  by (auto simp: keeps_def helpdesk_later_def)

lemma answered_later:
  assumes "keeps ticket_later work" "keeps approval_step work"
    and "answered ctx key (assignment_body ctx te us key opn ikey h work) s = (r, t)"
  shows "helpdesk_later s t"
proof -
  have "keeps helpdesk_later (assignment_body ctx te us key opn ikey h work)"
    unfolding assignment_body_def
    by (intro keeps_both tl.keeps_bindS tl.keeps_getS tl.keeps_liftS ap.keeps_bindS ap.keeps_getS ap.keeps_liftS
        call_keeps assms tl.keeps_ret ap.keeps_ret)
  with assms(3) show ?thesis
    by (auto simp: answered_def keeps_def intro: hl.refl split: sum.splits)
qed

lemma step_later: "helpdesk_step s t \<Longrightarrow> helpdesk_later s t"
proof (induction rule: helpdesk_step.induct)
  case (transition env ctx key cmd ikey s r t)
  then show ?case
  proof (cases rule: execute_cases)
    case (ran tenant user wt replayed)
    have "keeps helpdesk_later (idempotent_call tenant user ''TICKET_TRANSITION'' ikey
        (env_digest env (transition_document key cmd)) (\<lambda>_. ret True) (transition_work env ctx tenant user key cmd))"
      by (intro keeps_both call_keeps transition_work_later transition_work_step tl.keeps_ret ap.keeps_ret)
    with ran(4) show ?thesis by (auto simp: keeps_def)
  qed (simp add: hl.refl)
next
  case (decision env ctx approval dcmd ikey s d t)
  then show ?case
  proof (cases rule: decide_cases)
    case (body tenant user q)
    with keepsD [OF decide_body_later body(3)] decide_body_step [OF body(3)] show ?thesis
      by (simp add: helpdesk_later_def)
  qed (simp add: hl.refl)
next
  case (routing env ctx key version ikey s a t)
  then show ?case
    by (auto simp: route_def hl.refl split: if_splits sum.splits
        elim!: answered_later [OF assignment_works_later(1) assignment_works_step(1)])
next
  case (assignment env ctx key mcmd ikey s a t)
  then show ?case
    by (auto simp: assign_manual_def hl.refl split: if_splits sum.splits
        elim!: answered_later [OF assignment_works_later(2) assignment_works_step(2)])
qed

lemma steps_later: "helpdesk_step\<^sup>*\<^sup>* s t \<Longrightarrow> helpdesk_later s t"
  by (induction rule: rtranclp_induct) (auto intro: hl.refl hl.trans step_later)

text \<open>C1: over any interleaving of transitions, decisions, routings and manual assignments, successful or
  not, no ticket is lost or changes its identity or its workflow version, every change of a ticket
  raises its version, tickets stay in statuses of their workflow version, and the approvals keep
  their invariant: statuses are tallies and what is closed or decided stays as it is.\<close>

theorem helpdesk_history:
  assumes "helpdesk_step\<^sup>*\<^sup>* s t" "pinned s" "approval_inv s"
  shows "pinned t \<and> approval_inv t \<and> approval_later s t \<and> list_all2 ticket_le (tickets s) (tickets t)"
  using steps_later [OF assms(1)] assms(2,3) by (simp add: helpdesk_later_def ticket_later_def approval_step_def)

subsection \<open>What the SLA engine hears of an approval\<close>

lemma continue_workflow_message:
  assumes "continue_workflow la transition actor corr req s = Inr (u, t)"
  obtains tr version where "outbox_events t = outbox_events s @ [\<lparr>ob_tenant = la_tenant la,
      ob_aggregate_type = ''TICKET'', ob_aggregate = la_ticket la, ob_type = ''TICKET_WORKFLOW_TRANSITIONED'',
      ob_payload = continuation_payload la tr version corr req,
      ob_key = Some (''approval-workflow:'' @ uuid_str (la_id la))\<rparr>]"
  using assms unfolding continue_workflow_def
  by (auto simp: Let_def insert_event_def insert_outbox_def insert_audit_def update_ticket_def
      elim!: bindS_E split: option.splits if_splits)

lemma continuation_payload_lacks: "dget (continuation_payload la tr version corr req) ''from_status'' = None"
  by (simp add: continuation_payload_def)

text \<open>The message of an agent's transition names both statuses.\<close>

lemma transition_payload_names:
  "required_string (transition_payload wt wx version corr req) ''from_status''
     = (if wx_from_code wx = [] then Inl (SlaConfigurationError ''SLA input is missing from_status.'')
        else Inr (wx_from_code wx))"
  "required_string (transition_payload wt wx version corr req) ''to_status''
     = (if wx_to_code wx = [] then Inl (SlaConfigurationError ''SLA input is missing to_status.'')
        else Inr (wx_to_code wx))"
  by (simp_all add: required_string_def transition_payload_def dget_none_def)

text \<open>C25: when the outcome of an approval moves the ticket, the message it puts on the outbox for the SLA
  engine is one the engine refuses: it carries status identifiers where the engine reads codes, so
  the clocks of a ticket that an approval resolves keep running.\<close>

theorem approval_outcome_unreadable:
  assumes "continue_workflow la transition actor corr req s = Inr (u, t)"
  shows "\<exists>m. outbox_events t = outbox_events s @ [m] \<and> ob_type m = ''TICKET_WORKFLOW_TRANSITIONED''
    \<and> (\<forall>env ev db. in_event_type ev = ob_type m \<longrightarrow> in_payload ev = ob_payload m
         \<longrightarrow> ticket_query (in_tenant_id ev) (in_ticket_id ev) db \<noteq> None
         \<longrightarrow> process env ev db = Inl (SlaConfigurationError ''SLA input is missing from_status.''))"
proof -
  from assms obtain tr version where m: "outbox_events t = outbox_events s @ [\<lparr>ob_tenant = la_tenant la,
      ob_aggregate_type = ''TICKET'', ob_aggregate = la_ticket la, ob_type = ''TICKET_WORKFLOW_TRANSITIONED'',
      ob_payload = continuation_payload la tr version corr req,
      ob_key = Some (''approval-workflow:'' @ uuid_str (la_id la))\<rparr>]"
    (is "_ = _ @ [?m]") by (rule continue_workflow_message)
  have "process env ev db = Inl (SlaConfigurationError ''SLA input is missing from_status.'')"
    if "in_event_type ev = ''TICKET_WORKFLOW_TRANSITIONED''"
      "in_payload ev = continuation_payload la tr version corr req"
      "ticket_query (in_tenant_id ev) (in_ticket_id ev) db \<noteq> None" for env ev db
    using that by (auto simp: process_def supported_input_events_def transition_slas_def required_string_def
        dget_none_def continuation_payload_lacks bindS_def liftS_def)
  with m show ?thesis by (intro exI [of _ ?m]) simp
qed

subsection \<open>The properties at work\<close>

lemma demo_pinned: "pinned demo_db"
  by (simp add: pinned_def status_in_def demo_data)

theorem helpdesk_history_witness:
  "\<exists>t. helpdesk_step\<^sup>*\<^sup>* demo_db t \<and> list_all2 ticket_le (tickets demo_db) (tickets t)"
proof -
  obtain a t where "route demo_env manager_context ''HR-2'' 4 ''k'' demo_db = (a, t)" by fastforce
  then have "helpdesk_step demo_db t" by (rule helpdesk_step.routing)
  moreover obtain d u where "decide demo_env approver_context 50 approve ''j'' t = (d, u)" by fastforce
  then have "helpdesk_step t u" by (rule helpdesk_step.decision)
  ultimately have "helpdesk_step\<^sup>*\<^sup>* demo_db u" by simp
  from helpdesk_history [OF this demo_pinned demo_inv] this show ?thesis by blast
qed

theorem approval_outcome_unreadable_witness:
  "\<exists>la u t m. continue_workflow la 31 6 ''corr'' ''req'' demo_db = Inr (u, t)
    \<and> outbox_events t = [m] \<and> ob_type m = ''TICKET_WORKFLOW_TRANSITIONED''"
proof -
  obtain la where "lock_for_decision 9 50 6 demo_db = Some la" "la_ticket la = 1" "la_tenant la = 9" "la_id la = 50"
    "la_ticket_key la = ''HR-1''"
    by (simp add: approval_evaluation demo_data)
  then obtain u t where run: "continue_workflow la 31 6 ''corr'' ''req'' demo_db = Inr (u, t)"
    by (auto simp: approval_evaluation demo_data)
  have "outbox_events demo_db = []" by (simp add: demo_db_def)
  with approval_outcome_unreadable [OF run] run show ?thesis by auto
qed

end
