(* ===== verification/Literals.thy ===== *)
theory Literals
  imports Prelude
begin

text \<open>
  The decimal literals that number fields rely on: \<open>Decimal\<close> of a text, \<open>normalize\<close> and \<open>str\<close> in the
  default context, with the proof that reading a printed decimal gives it back.
\<close>

subsection \<open>Digits\<close>

definition digit_value :: "char \<Rightarrow> nat option" where
  "digit_value c = (let n = (of_char c :: nat) in if 48 \<le> n \<and> n \<le> 57 then Some (n - 48) else None)"

definition is_digit :: "char \<Rightarrow> bool" where
  "is_digit c \<longleftrightarrow> digit_value c \<noteq> None"

definition digits_value :: "string \<Rightarrow> nat" where
  "digits_value s = foldl (\<lambda>n c. 10 * n + (case digit_value c of None \<Rightarrow> 0 | Some d \<Rightarrow> d)) 0 s"

text \<open>\<open>%0kd\<close>\<close>

primrec padded :: "nat \<Rightarrow> nat \<Rightarrow> string" where
  "padded 0 n = []"
| "padded (Suc k) n = padded k (n div 10) @ [dec_digit n]"

text \<open>Exactly \<open>k\<close> digits, and what follows them.\<close>

definition take_digits :: "nat \<Rightarrow> string \<Rightarrow> (nat \<times> string) option" where
  "take_digits k s = (let ds = take k s in
     if length ds = k \<and> list_all is_digit ds then Some (digits_value ds, drop k s) else None)"

subsection \<open>Decimals\<close>

datatype decimal = Finite (negative: bool) (coefficient: nat) (scale: int) | Infinite bool | NotANumber

definition span_digits :: "string \<Rightarrow> string \<times> string" where
  "span_digits s = (takeWhile is_digit s, dropWhile is_digit s)"

text \<open>The exponent part at the end of the text: \<open>E\<close>, a sign, digits.\<close>

definition read_exponent :: "string \<Rightarrow> int option" where
  "read_exponent s = (case s of
       [] \<Rightarrow> Some 0
     | c # r \<Rightarrow>
       if c \<notin> set ''eE'' then None
       else let (sign, ds) = (case r of [] \<Rightarrow> (1, []) | x # xs \<Rightarrow>
              if x = CHR ''-'' then (- 1, xs) else if x = CHR ''+'' then (1, xs) else (1, r)) in
         if ds \<noteq> [] \<and> list_all is_digit ds then Some (sign * int (digits_value ds)) else None)"

definition digit_count :: "nat \<Rightarrow> nat" where
  "digit_count n = length (nat_str n)"

text \<open>The limits of exact conversion; beyond them reading is an \<open>InvalidOperation\<close>.\<close>

definition in_exact_range :: "nat \<Rightarrow> int \<Rightarrow> bool" where
  "in_exact_range c e \<longleftrightarrow> - 1999999999999999997 \<le> e
     \<and> e + (if c = 0 then 0 else int (digit_count c) - 1) \<le> 999999999999999999"

definition read_number :: "bool \<Rightarrow> string \<Rightarrow> decimal option" where
  "read_number neg s =
     (let (whole, r) = span_digits s;
          (frac, r') = (case r of [] \<Rightarrow> ([], []) | c # cs \<Rightarrow> if c = CHR ''.'' then span_digits cs else ([], r)) in
      if whole = [] \<and> frac = [] then None
      else case read_exponent r' of None \<Rightarrow> None
        | Some e \<Rightarrow> let c = digits_value (whole @ frac); e' = e - int (length frac) in
            if in_exact_range c e' then Some (Finite neg c e') else None)"

definition lower_ascii :: "string \<Rightarrow> string" where
  "lower_ascii s = map (\<lambda>c. let n = (of_char c :: nat) in if 65 \<le> n \<and> n \<le> 90 then char_of (n + 32) else c) s"

definition read_decimal :: "string \<Rightarrow> decimal option" where
  "read_decimal text =
     (let s = filter (\<lambda>c. c \<noteq> CHR ''_'') (py_strip text);
          (neg, r) = (case s of [] \<Rightarrow> (False, []) | c # cs \<Rightarrow>
            if c = CHR ''-'' then (True, cs) else if c = CHR ''+'' then (False, cs) else (False, s));
          w = lower_ascii r in
      if w = ''inf'' \<or> w = ''infinity'' then Some (Infinite neg)
      else if starts_with ''nan'' w \<and> list_all is_digit (drop 3 w)
           \<or> starts_with ''snan'' w \<and> list_all is_digit (drop 4 w) then Some NotANumber
      else read_number neg r)"

text \<open>
  \<open>normalize\<close> in the default context: 28 digits, half to even, exponents up to 999999. Overflow is
  trapped and is no \<open>ValueError\<close>; underflow is not trapped. Trailing zeros go.
\<close>

definition half_even :: "nat \<Rightarrow> nat \<Rightarrow> nat" where
  "half_even c k = (if digit_count c < k then 0
     else let b = 10 ^ k; q = c div b; r = c mod b in
       if 2 * r < b then q else if b < 2 * r then q + 1 else if even q then q else q + 1)"

function strip_zeros :: "nat \<Rightarrow> int \<Rightarrow> nat \<times> int" where
  "strip_zeros c e = (if c = 0 then (0, 0) else if c mod 10 = 0 then strip_zeros (c div 10) (e + 1) else (c, e))"
  by auto
termination by (relation "measure fst") auto

declare strip_zeros.simps [simp del]

definition normalized :: "bool \<Rightarrow> nat \<Rightarrow> int \<Rightarrow> decimal option" where
  "normalized neg c e =
     (let k = max (digit_count c - 28) (nat (- 1000026 - e));
          (c', e') = strip_zeros (half_even c k) (e + int k) in
      if c' \<noteq> 0 \<and> 999999 < e' + int (digit_count c') - 1 then None else Some (Finite neg c' e'))"

definition signed_int_str :: "int \<Rightarrow> string" where
  "signed_int_str i = (if i < 0 then int_str i else ''+'' @ int_str i)"

definition decimal_str :: "bool \<Rightarrow> nat \<Rightarrow> int \<Rightarrow> string" where
  "decimal_str neg c e =
     (let ds = nat_str c; n = int (length ds); left = e + n;
          point = (if e \<le> 0 \<and> - 6 < left then left else 1);
          body = (if point \<le> 0 then ''0.'' @ replicate (nat (- point)) (CHR ''0'') @ ds
                  else if n \<le> point then ds @ replicate (nat (point - n)) (CHR ''0'')
                  else take (nat point) ds @ ''.'' @ drop (nat point) ds) in
      (if neg then ''-'' else []) @ body @ (if left = point then [] else ''E'' @ signed_int_str (left - point)))"

definition decimal_value :: "bool \<Rightarrow> nat \<Rightarrow> int \<Rightarrow> rat" where
  "decimal_value neg c e = (let q = of_nat c * (if 0 \<le> e then 10 ^ nat e else 1 / 10 ^ nat (- e)) in
     if neg then - q else q)"


subsection \<open>Digits are read back\<close>

lemma digit_value_dec_digit [simp]: "digit_value (dec_digit n) = Some (n mod 10)"
proof -
  have "list_all (\<lambda>m. digit_value (''0123456789'' ! m) = Some m) [0..<10]"
    by (simp add: digit_value_def upt_rec)
  moreover have "n mod 10 \<in> set [0..<10]" by simp
  ultimately show ?thesis by (simp add: dec_digit_def list_all_iff)
qed

lemma is_digit_dec_digit [simp]: "is_digit (dec_digit n)"
  by (simp add: is_digit_def)

lemma digits_value_Nil [simp]: "digits_value [] = 0"
  by (simp add: digits_value_def)

lemma digits_value_snoc [simp]:
  "digits_value (s @ [c]) = 10 * digits_value s + (case digit_value c of None \<Rightarrow> 0 | Some d \<Rightarrow> d)"
  by (simp add: digits_value_def)

lemma digits_value_append: "digits_value (s @ t) = digits_value s * 10 ^ length t + digits_value t"
proof (induction t rule: rev_induct)
  case (snoc c t)
  have "digits_value (s @ t @ [c]) = digits_value ((s @ t) @ [c])" by simp
  then show ?case unfolding digits_value_snoc snoc.IH by (simp add: algebra_simps)
qed simp

lemma length_padded [simp]: "length (padded k n) = k"
  by (induction k arbitrary: n) simp_all

lemma padded_digits: "list_all is_digit (padded k n)"
  by (induction k arbitrary: n) (simp_all add: list_all_append)

lemma digits_value_padded [simp]: "digits_value (padded k n) = n mod 10 ^ k"
proof (induction k arbitrary: n)
  case (Suc k)
  then show ?case using mod_mult2_eq [of n 10 "10 ^ k"] by simp
qed simp

lemma take_digits_padded [simp]: "take_digits k (padded k n @ r) = Some (n mod 10 ^ k, r)"
  by (simp add: take_digits_def padded_digits)

lemma take_digits_padded_all [simp]: "take_digits k (padded k n) = Some (n mod 10 ^ k, [])"
  using take_digits_padded [of k n "[]"] by simp

lemma nat_str_digits: "list_all is_digit (nat_str n)"
  by (induction n rule: nat_str.induct) (subst nat_str.simps, simp add: list_all_append)

lemma nat_str_nonempty [simp]: "nat_str n \<noteq> []"
  by (subst nat_str.simps) simp

lemma digits_value_nat_str [simp]: "digits_value (nat_str n) = n"
proof (induction n rule: nat_str.induct)
  case (1 n)
  then show ?case by (subst nat_str.simps) (auto simp: digits_value_def)
qed

lemma nat_str_steps:
  "n < 10 \<Longrightarrow> nat_str n = [dec_digit n]"
  "10 \<le> n \<Longrightarrow> nat_str n = nat_str (n div 10) @ [dec_digit n]"
  by (simp_all add: nat_str.simps [of n])

lemma digit_count_pos: "0 < digit_count n"
  by (simp add: digit_count_def)

lemma digit_plain:
  assumes "is_digit c"
  shows "\<not> py_isspace c" "c \<noteq> CHR ''_''" "c \<noteq> CHR ''-''" "c \<noteq> CHR ''+''" "c \<noteq> CHR ''.''" "c \<noteq> CHR ''e''" "c \<noteq> CHR ''E''"
  using assms by (auto simp: is_digit_def digit_value_def py_isspace_def Let_def split: if_splits)

lemma span_digits_append:
  "list_all is_digit s \<Longrightarrow> (\<And>c r'. r = c # r' \<Longrightarrow> \<not> is_digit c) \<Longrightarrow> span_digits (s @ r) = (s, r)"
  by (cases r) (auto simp: span_digits_def list_all_iff)

lemma digits_value_zeros: "digits_value (replicate k (CHR ''0'') @ s) = digits_value s"
proof -
  have "digit_value (CHR ''0'') = Some 0" by (simp add: digit_value_def)
  then have "digits_value (replicate k (CHR ''0'')) = 0"
    by (induction k) (simp_all flip: replicate_append_same)
  then show ?thesis by (simp add: digits_value_append)
qed

lemma digits_value_zero: "digits_value (CHR ''0'' # s) = digits_value s"
  using digits_value_zeros [of 1 s] by simp

subsection \<open>Reading what \<open>str\<close> prints\<close>

lemma not_digit_E: "\<not> is_digit (CHR ''E'')" "\<not> is_digit (CHR ''.'')" "\<not> is_digit (CHR ''-'')" "\<not> is_digit (CHR ''+'')"
  by (simp_all add: is_digit_def digit_value_def)

lemma zero_digit: "is_digit (CHR ''0'')"
  by (simp add: is_digit_def digit_value_def)

lemma read_exponent_str: "read_exponent (CHR ''E'' # signed_int_str x) = Some x"
proof (cases "x < 0")
  case True
  then show ?thesis
    by (simp add: read_exponent_def signed_int_str_def int_str_def nat_str_digits)
next
  case False
  then show ?thesis
    by (simp add: read_exponent_def signed_int_str_def int_str_def nat_str_digits)
qed

lemma read_number_parts:
  assumes "list_all is_digit w" "list_all is_digit f" "w \<noteq> []"
    and "read_exponent x = Some e" "\<And>c r. x = c # r \<Longrightarrow> c = CHR ''E''"
    and "in_exact_range (digits_value (w @ f)) (e - int (length f))"
  shows "read_number neg (w @ (if f = [] then [] else CHR ''.'' # f) @ x)
    = Some (Finite neg (digits_value (w @ f)) (e - int (length f)))"
proof -
  have stop: "\<not> is_digit c" if "x = c # r" for c r using assms(5) [OF that] not_digit_E by simp
  show ?thesis
  proof (cases "f = []")
    case True
    then have "span_digits (w @ (if f = [] then [] else CHR ''.'' # f) @ x) = (w, x)"
      using span_digits_append [OF assms(1), of x] stop by simp
    moreover have "(case x of [] \<Rightarrow> ([], []) | c # cs \<Rightarrow> if c = CHR ''.'' then span_digits cs else ([], x)) = ([], x)"
      using assms(5) by (auto split: list.splits)
    ultimately show ?thesis using assms True by (simp add: read_number_def)
  next
    case False
    then have "span_digits (w @ (if f = [] then [] else CHR ''.'' # f) @ x) = (w, CHR ''.'' # f @ x)"
      using span_digits_append [OF assms(1), of "CHR ''.'' # f @ x"] not_digit_E by simp
    moreover have "span_digits (f @ x) = (f, x)" using span_digits_append [OF assms(2), of x] stop by simp
    ultimately show ?thesis using assms False by (simp add: read_number_def)
  qed
qed

lemma decimal_body:
  obtains w f x xe where "decimal_str neg c e = (if neg then ''-'' else []) @ w @ (if f = [] then [] else CHR ''.'' # f) @ x"
    "list_all is_digit w" "list_all is_digit f" "w \<noteq> []" "digits_value (w @ f) = c"
    "read_exponent x = Some xe" "\<And>y r. x = y # r \<Longrightarrow> y = CHR ''E''" "xe - int (length f) = e"
    "x = [] \<or> (\<exists>i. x = CHR ''E'' # signed_int_str i)"
proof -
  define n where "n = int (digit_count c)"
  define ds where "ds = nat_str c"
  have ds: "list_all is_digit ds" "ds \<noteq> []" "digits_value ds = c" "n = int (length ds)" "0 < length ds"
    using digit_count_pos by (simp_all add: ds_def nat_str_digits n_def digit_count_def)
  define left where "left = e + n"
  define point where "point = (if e \<le> 0 \<and> - 6 < left then left else 1)"
  have str: "decimal_str neg c e = (if neg then ''-'' else [])
      @ (if point \<le> 0 then ''0.'' @ replicate (nat (- point)) (CHR ''0'') @ ds
         else if n \<le> point then ds @ replicate (nat (point - n)) (CHR ''0'')
         else take (nat point) ds @ ''.'' @ drop (nat point) ds)
      @ (if left = point then [] else ''E'' @ signed_int_str (left - point))"
    unfolding decimal_str_def Let_def point_def left_def n_def digit_count_def ds_def by simp
  consider (small) "point \<le> 0" | (whole) "0 < point" "n \<le> point" | (split) "0 < point" "point < n" by linarith
  then show thesis
  proof cases
    case small
    then have "left = point" by (auto simp: point_def split: if_splits)
    with small ds str show thesis
      by (intro that [of "''0''" "replicate (nat (- point)) (CHR ''0'') @ ds" "[]" 0])
        (auto simp: zero_digit digits_value_zero digits_value_zeros read_exponent_def left_def list_all_iff)
  next
    case whole
    have "nat (point - n) = 0"
    proof (cases "e \<le> 0 \<and> - 6 < left")
      case True
      then show ?thesis by (simp add: point_def left_def)
    next
      case False
      then have "point = 1" by (auto simp: point_def)
      with ds(4,5) show ?thesis by (cases ds) auto
    qed
    with whole ds str show thesis
      by (intro that [of ds "[]" "if left = point then [] else ''E'' @ signed_int_str (left - point)" "left - point"])
        (auto simp: read_exponent_str left_def read_exponent_def [of "[]"] split: if_splits)
  next
    case split
    have "drop (nat point) ds \<noteq> []" "take (nat point) ds \<noteq> []" using split ds(2,4) by auto
    moreover have "list_all is_digit (take (nat point) ds)" "list_all is_digit (drop (nat point) ds)"
      using ds(1) by (auto simp: list_all_iff dest: in_set_takeD in_set_dropD)
    moreover have "length (drop (nat point) ds) = length ds - nat point" by simp
    ultimately show thesis using split ds str
      by (intro that [of "take (nat point) ds" "drop (nat point) ds"
            "if left = point then [] else ''E'' @ signed_int_str (left - point)" "left - point"])
        (auto simp: read_exponent_str left_def read_exponent_def [of "[]"] split: if_splits)
  qed
qed

lemma strip_solid:
  assumes "s \<noteq> []" "\<not> py_isspace (hd s)" "\<not> py_isspace (last s)"
  shows "py_strip s = s"
proof -
  have "dropWhile py_isspace s = s" using assms(1,2) by (cases s) simp_all
  moreover have "dropWhile py_isspace (rev s) = rev s"
    using assms(1,3) by (cases "rev s") (auto simp: last_rev)
  ultimately show ?thesis by (simp add: py_strip_def)
qed

definition decimal_char :: "char \<Rightarrow> bool" where
  "decimal_char c \<longleftrightarrow> is_digit c \<or> c \<in> set ''-+.E''"

lemma decimal_char_plain: "decimal_char c \<Longrightarrow> \<not> py_isspace c \<and> c \<noteq> CHR ''_''"
  by (auto simp: decimal_char_def py_isspace_def is_digit_def digit_value_def Let_def split: if_splits)

lemma digit_first_word:
  assumes "is_digit c"
  shows "lower_ascii (c # s) \<noteq> ''inf''" "lower_ascii (c # s) \<noteq> ''infinity''"
    "\<not> starts_with ''nan'' (lower_ascii (c # s))" "\<not> starts_with ''snan'' (lower_ascii (c # s))"
proof -
  have "hd (lower_ascii (c # s)) = c"
    using assms by (auto simp: lower_ascii_def is_digit_def digit_value_def Let_def split: if_splits)
  moreover have "c \<noteq> CHR ''i''" "c \<noteq> CHR ''n''" "c \<noteq> CHR ''s''"
    using assms by (auto simp: is_digit_def digit_value_def)
  ultimately show "lower_ascii (c # s) \<noteq> ''inf''" "lower_ascii (c # s) \<noteq> ''infinity''"
    "\<not> starts_with ''nan'' (lower_ascii (c # s))" "\<not> starts_with ''snan'' (lower_ascii (c # s))"
    by (auto simp: starts_with_def lower_ascii_def)
qed

lemma signed_int_chars: "c \<in> set (signed_int_str i) \<Longrightarrow> decimal_char c"
  using nat_str_digits [of "nat i"] nat_str_digits [of "nat (- i)"]
  by (auto simp: signed_int_str_def int_str_def decimal_char_def list_all_iff split: if_splits)

lemma read_decimal_str:
  assumes "in_exact_range c e"
  shows "read_decimal (decimal_str neg c e) = Some (Finite neg c e)"
proof -
  obtain w f x xe where parts:
    "decimal_str neg c e = (if neg then ''-'' else []) @ w @ (if f = [] then [] else CHR ''.'' # f) @ x"
    "list_all is_digit w" "list_all is_digit f" "w \<noteq> []" "digits_value (w @ f) = c"
    "read_exponent x = Some xe" "\<And>y r. x = y # r \<Longrightarrow> y = CHR ''E''" "xe - int (length f) = e"
    "x = [] \<or> (\<exists>i. x = CHR ''E'' # signed_int_str i)"
    by (rule decimal_body [of neg c e]) (rule that)
  define body where "body = w @ (if f = [] then [] else CHR ''.'' # f) @ x"
  obtain d ws where w: "w = d # ws" "is_digit d" using parts(2,4) by (cases w) auto
  have "list_all decimal_char x"
    using parts(9) by (auto simp: list_all_iff signed_int_chars) (simp add: decimal_char_def)
  then have chars: "list_all decimal_char (decimal_str neg c e)"
    using parts(2,3) by (auto simp: parts(1) list_all_iff decimal_char_def)
  have solid: "\<not> py_isspace y \<and> y \<noteq> CHR ''_''" if "y \<in> set (decimal_str neg c e)" for y
    using chars that by (auto simp: list_all_iff decimal_char_plain)
  have "decimal_str neg c e \<noteq> []" using parts(1,4) by simp
  then have "py_strip (decimal_str neg c e) = decimal_str neg c e"
    using solid by (intro strip_solid) simp_all
  moreover have "filter (\<lambda>c. c \<noteq> CHR ''_'') (decimal_str neg c e) = decimal_str neg c e"
    using solid by (simp add: filter_id_conv)
  moreover have "decimal_str neg c e = (if neg then ''-'' else []) @ body" by (simp add: parts(1) body_def)
  moreover have "body = d # ws @ (if f = [] then [] else CHR ''.'' # f) @ x" by (simp add: body_def w)
  moreover have "d \<noteq> CHR ''-''" "d \<noteq> CHR ''+''" using w(2) digit_plain by auto
  moreover have "read_number neg body = Some (Finite neg c e)"
    unfolding body_def using read_number_parts [OF parts(2,3,4,6,7)] assms parts(5,8) by simp
  ultimately show ?thesis
    using digit_first_word [OF w(2)] by (auto simp: read_decimal_def Let_def)
qed

subsection \<open>Normal forms\<close>

lemma strip_zeros_shape:
  "strip_zeros c e = (c', e') \<Longrightarrow> c' = 0 \<and> e' = 0 \<or> c' mod 10 \<noteq> 0 \<and> c' \<le> c \<and> e \<le> e'"
proof (induction c e rule: strip_zeros.induct)
  case (1 c e)
  show ?case
  proof (cases "c \<noteq> 0 \<and> c mod 10 = 0")
    case True
    with 1 have "c' = 0 \<and> e' = 0 \<or> c' mod 10 \<noteq> 0 \<and> c' \<le> c div 10 \<and> e + 1 \<le> e'"
      using strip_zeros.simps [of c e] by simp
    then show ?thesis by linarith
  next
    case False
    with 1 show ?thesis using strip_zeros.simps [of c e] by (auto split: if_splits)
  qed
qed

lemma strip_zeros_fixed: "c \<noteq> 0 \<Longrightarrow> c mod 10 \<noteq> 0 \<Longrightarrow> strip_zeros c e = (c, e)" "strip_zeros 0 e = (0, 0)"
  by (subst strip_zeros.simps, simp)+

lemma digit_count_Suc: "10 \<le> n \<Longrightarrow> digit_count n = Suc (digit_count (n div 10))"
  by (simp add: digit_count_def nat_str.simps [of n])

lemma digit_count_small: "n < 10 \<Longrightarrow> digit_count n = 1"
  by (simp add: digit_count_def nat_str.simps [of n])

lemma digit_count_le: "n < 10 ^ Suc k \<Longrightarrow> digit_count n \<le> Suc k"
proof (induction k arbitrary: n)
  case (Suc k)
  show ?case
  proof (cases "n < 10")
    case False
    have "n div 10 < 10 ^ Suc k" using Suc.prems by (simp add: div_less_iff_less_mult mult.commute)
    with Suc.IH False show ?thesis by (simp add: digit_count_Suc)
  qed (simp add: digit_count_small)
qed (simp add: digit_count_small)

lemma less_digit_count: "n < 10 ^ digit_count n"
proof (induction n rule: less_induct)
  case (less n)
  show ?case
  proof (cases "n < 10")
    case False
    have "n div 10 < 10 ^ digit_count (n div 10)" using False by (intro less) simp
    then have "n < 10 * 10 ^ digit_count (n div 10)" by (simp add: div_less_iff_less_mult mult.commute)
    with False show ?thesis by (simp add: digit_count_Suc)
  qed (simp add: digit_count_small)
qed

lemma half_even_bound:
  assumes "digit_count c - 28 \<le> k"
  shows "half_even c k \<le> 10 ^ 28"
proof -
  have "c < 10 ^ digit_count c" by (rule less_digit_count)
  also have "(10 :: nat) ^ digit_count c \<le> 10 ^ (28 + k)" using assms by (intro power_increasing) simp_all
  finally have "c div 10 ^ k < 10 ^ 28" by (simp add: div_less_iff_less_mult power_add mult.commute)
  then show ?thesis by (auto simp: half_even_def Let_def)
qed

definition normal :: "nat \<Rightarrow> int \<Rightarrow> bool" where
  "normal c e \<longleftrightarrow> (if c = 0 then e = 0
     else c mod 10 \<noteq> 0 \<and> digit_count c \<le> 28 \<and> - 1000026 \<le> e \<and> e + int (digit_count c) - 1 \<le> 999999)"

lemma normalized_normal:
  assumes "normalized neg c e = Some d"
  obtains c' e' where "d = Finite neg c' e'" "normal c' e'"
proof -
  define k where "k = max (digit_count c - 28) (nat (- 1000026 - e))"
  obtain c' e' where strip: "strip_zeros (half_even c k) (e + int k) = (c', e')" by fastforce
  with assms have d: "d = Finite neg c' e'" "c' = 0 \<or> e' + int (digit_count c') - 1 \<le> 999999"
    by (auto simp: normalized_def k_def [symmetric] split: if_splits)
  have "normal c' e'"
  proof (cases "c' = 0")
    case True
    with strip_zeros_shape [OF strip] show ?thesis by (auto simp: normal_def)
  next
    case False
    with strip_zeros_shape [OF strip] have c: "c' mod 10 \<noteq> 0" "c' \<le> half_even c k" "e + int k \<le> e'" by auto
    have "half_even c k \<le> 10 ^ 28" by (intro half_even_bound) (simp add: k_def)
    with c have "c' \<le> 10 ^ 28" by simp
    moreover have "c' \<noteq> 10 ^ 28" using c(1) by auto
    ultimately have "c' < 10 ^ Suc 27" by simp
    then have "digit_count c' \<le> 28" using digit_count_le [of c' 27] by simp
    moreover have "- 1000026 \<le> e + int k" by (simp add: k_def)
    ultimately show ?thesis using c d(2) False by (simp add: normal_def)
  qed
  with d(1) that show thesis by blast
qed

lemma normal_normalized:
  assumes "normal c e"
  shows "normalized neg c e = Some (Finite neg c e)"
proof -
  have k: "max (digit_count c - 28) (nat (- 1000026 - e)) = 0"
    using assms digit_count_small [of 0] by (auto simp: normal_def split: if_splits)
  have "half_even c 0 = c" by (simp add: half_even_def)
  with assms show ?thesis
    by (auto simp: normalized_def k normal_def strip_zeros_fixed split: if_splits)
qed

lemma normal_exact: "normal c e \<Longrightarrow> in_exact_range c e"
  by (auto simp: normal_def in_exact_range_def split: if_splits)

lemma read_normal: "normal c e \<Longrightarrow> read_decimal (decimal_str neg c e) = Some (Finite neg c e)"
  by (simp add: read_decimal_str normal_exact)


subsection \<open>The canonical text of a UUID is read back\<close>

lemma hex_value_hex_digit [simp]: "hex_value (hex_digit n) = Some (int (n mod 16))"
proof -
  have "list_all (\<lambda>m. hex_value (''0123456789abcdef'' ! m) = Some (int m)) [0..<16]"
    by (simp add: hex_value_def upt_rec)
  moreover have "n mod 16 \<in> set [0..<16]" by simp
  ultimately show ?thesis by (simp add: hex_digit_def list_all_iff)
qed

lemma hex_char:
  assumes "hex_value c \<noteq> None"
  shows "\<not> py_isspace c" "c \<notin> set ''-+_xX{}u:''"
proof -
  have "(of_char c :: int) = int (of_char c)" by (rule of_nat_of_char [symmetric])
  with assms show "\<not> py_isspace c"
    unfolding hex_value_def py_isspace_def Let_def by (auto split: if_splits)
  show "c \<notin> set ''-+_xX{}u:''" using assms by (auto simp: hex_value_def)
qed

lemma hex_fixed_chars: "c \<in> set (hex_fixed k n) \<Longrightarrow> hex_value c \<noteq> None"
  by (induction k arbitrary: n) auto

lemma hex_digits_fixed:
  "hex_digits b acc (hex_fixed k n @ r) = hex_digits (b \<or> 0 < k) (acc * 16 ^ k + int (n mod 16 ^ k)) r"
proof (induction k arbitrary: n r)
  case (Suc k)
  have "hex_digit n \<noteq> CHR ''_''" using hex_value_hex_digit [of n] hex_char(2) [of "hex_digit n"] by auto
  moreover have "int (n mod 16 ^ Suc k) = 16 * int (n div 16 mod 16 ^ k) + int (n mod 16)"
    using mod_mult2_eq [of n 16 "16 ^ k"] by simp
  ultimately show ?case by (simp add: Suc.IH algebra_simps)
qed simp

lemma starts_with_set: "starts_with p s \<Longrightarrow> set p \<subseteq> set s"
  by (metis set_take_subset starts_with_def)

lemma remove_all_absent: "\<not> set p \<subseteq> set s \<Longrightarrow> remove_all p s = s"
proof (induction s)
  case (Cons c s)
  then have "\<not> starts_with p (c # s)" "remove_all p s = s" using starts_with_set [of p "c # s"] by auto
  then show ?case using remove_all.simps [of p "c # s"] by (simp split: if_splits)
qed (simp add: remove_all.simps [of p "[]"])

lemma remove_dashes: "remove_all ''-'' s = filter (\<lambda>c. c \<noteq> CHR ''-'') s"
proof (induction s)
  case (Cons c s)
  then show ?case using remove_all.simps [of "''-''" "c # s"] by (auto simp: starts_with_def)
qed (simp add: remove_all.simps)

lemma strip_chars_absent: "set cs \<inter> set s = {} \<Longrightarrow> strip_chars cs s = s"
proof -
  assume "set cs \<inter> set s = {}"
  then have "dropWhile (\<lambda>c. c \<in> set cs) t = t" if "set t \<subseteq> set s" for t
    using that by (cases t) auto
  then show ?thesis by (simp add: strip_chars_def)
qed

lemma uuid_of_uuid_str [simp]: "uuid_of_text (uuid_str u) = Some u"
proof -
  define h where "h = hex_fixed 32 (unat u)"
  have h: "length h = 32" "\<And>c. c \<in> set h \<Longrightarrow> hex_value c \<noteq> None"
    by (simp_all only: h_def length_hex_fixed hex_fixed_chars not_False_eq_True)
  have dashed: "uuid_str u = take 8 h @ ''-'' @ take 4 (drop 8 h) @ ''-'' @ take 4 (drop 12 h) @ ''-''
       @ take 4 (drop 16 h) @ ''-'' @ drop 20 h"
    by (simp only: uuid_str_def Let_def h_def)
  have solid: "set h \<inter> set ''-+_xX{}u:'' = {}" using h(2) hex_char(2) by blast
  have "set (uuid_str u) \<subseteq> insert (CHR ''-'') (set h)"
    unfolding dashed by (auto dest: in_set_takeD in_set_dropD)
  with solid have chars: "c \<in> set (uuid_str u) \<Longrightarrow> c \<notin> set ''{}u:''" for c by fastforce
  then have plain: "remove_all ''urn:'' (uuid_str u) = uuid_str u" "remove_all ''uuid:'' (uuid_str u) = uuid_str u"
    "strip_chars ''{}'' (uuid_str u) = uuid_str u"
    using chars [of "CHR ''u''"] chars [of "CHR ''{''"] chars [of "CHR ''}''"]
    by (auto intro!: remove_all_absent strip_chars_absent)
  have keep: "filter (\<lambda>c. c \<noteq> CHR ''-'') x = x" if "set x \<subseteq> set h" for x
    using that solid by (intro filter_True) fastforce
  have "remove_all ''-'' (uuid_str u) = take 8 h @ take 4 (drop 8 h) @ take 4 (drop 12 h) @ take 4 (drop 16 h) @ drop 20 h"
    unfolding dashed remove_dashes
    by (simp add: keep set_take_subset order_trans [OF set_take_subset set_drop_subset] set_drop_subset)
  then have bare: "remove_all ''-'' (uuid_str u) = h" using dashed_split [OF h(1)] by simp
  have "h \<noteq> []" using h(1) by auto
  then have "py_strip h = h" by (intro strip_solid) (simp_all add: h(2) hex_char(1))
  moreover have "\<not> starts_with ''-'' h" "\<not> starts_with ''+'' h" "\<not> starts_with ''0x'' h" "\<not> starts_with ''0X'' h"
    using starts_with_set [of "''-''" h] starts_with_set [of "''+''" h] starts_with_set [of "''0x''" h]
      starts_with_set [of "''0X''" h] solid by auto
  moreover have "hex_digits False 0 h = Some (int (unat u))"
  proof -
    have "unat u < 2 ^ LENGTH(128)" by (rule unsigned_less)
    then have "unat u mod 16 ^ 32 = unat u" by simp
    then show ?thesis using hex_digits_fixed [of False 0 32 "unat u" "[]"] by (simp add: h_def)
  qed
  ultimately have "int16 h = Some (int (unat u))" by (simp add: int16_def hex_body_def)
  moreover have "int (unat u) < 2 ^ 128" using uint_bounded [of u] by simp
  ultimately show ?thesis by (simp add: uuid_of_text_def plain bare h(1))
qed

end
