(* ===== verification/IsoTime.thy ===== *)
theory IsoTime
  imports Literals
begin

text \<open>
  ISO 8601 dates and datetimes as \<open>date.fromisoformat\<close>, \<open>datetime.fromisoformat\<close> and \<open>isoformat\<close> read
  and print them in CPython: the scanners run over the UTF-8 bytes of the text and accept calendar
  and week dates, with or without separators, any separator character before the time, and every
  shape of clock and offset that CPython accepts.
\<close>

subsection \<open>The proleptic Gregorian calendar\<close>

type_synonym civil_date = "nat \<times> nat \<times> nat"

definition leap :: "nat \<Rightarrow> bool" where
  "leap y \<longleftrightarrow> y mod 4 = 0 \<and> (y mod 100 \<noteq> 0 \<or> y mod 400 = 0)"

definition days_in_month :: "nat \<Rightarrow> nat \<Rightarrow> nat" where
  "days_in_month y m = (if m = 2 then if leap y then 29 else 28
     else if m = 4 \<or> m = 6 \<or> m = 9 \<or> m = 11 then 30 else 31)"

definition days_before_year :: "nat \<Rightarrow> nat" where
  "days_before_year y = 365 * (y - 1) + (y - 1) div 4 - (y - 1) div 100 + (y - 1) div 400"

primrec days_before_month :: "nat \<Rightarrow> nat \<Rightarrow> nat" where
  "days_before_month y 0 = 0"
| "days_before_month y (Suc m) = days_before_month y m + (if m = 0 then 0 else days_in_month y m)"

definition ordinal :: "civil_date \<Rightarrow> nat" where
  "ordinal t = (case t of (y, m, d) \<Rightarrow> days_before_year y + days_before_month y m + d)"

definition valid_date :: "civil_date \<Rightarrow> bool" where
  "valid_date t \<longleftrightarrow> (case t of (y, m, d) \<Rightarrow>
     1 \<le> y \<and> y \<le> 9999 \<and> 1 \<le> m \<and> m \<le> 12 \<and> 1 \<le> d \<and> d \<le> days_in_month y m)"

lemma days_before_Suc:
  assumes "1 \<le> y"
  shows "days_before_year (Suc y) = days_before_year y + (if leap y then 366 else 365)"
proof -
  obtain k where y: "y = Suc k" using assms by (cases y) auto
  define a b c where "a = k div 4" and "b = k div 100" and "c = k div 400"
  define a' b' c' where "a' = Suc k div 4" and "b' = Suc k div 100" and "c' = Suc k div 400"
  have ge: "b \<le> a" "b' \<le> a'" by (simp_all add: a_def b_def a'_def b'_def div_le_mono2)
  have step: "Suc k div n = k div n + (if Suc k mod n = 0 then 1 else 0)" if "1 < n" for n
    using that by (simp add: div_Suc)
  have steps: "a' = a + (if Suc k mod 4 = 0 then 1 else 0)" "b' = b + (if Suc k mod 100 = 0 then 1 else 0)"
    "c' = c + (if Suc k mod 400 = 0 then 1 else 0)"
    unfolding a_def b_def c_def a'_def b'_def c'_def by (intro step, simp)+
  have mods: "Suc k mod 100 = 0 \<Longrightarrow> Suc k mod 4 = 0" "Suc k mod 400 = 0 \<Longrightarrow> Suc k mod 100 = 0" by presburger+
  have sums: "days_before_year y = 365 * k + a - b + c" "days_before_year (Suc y) = 365 * Suc k + a' - b' + c'"
    by (simp_all only: days_before_year_def y diff_Suc_1 a_def b_def c_def a'_def b'_def c'_def)
  have leap: "leap y \<longleftrightarrow> Suc k mod 4 = 0 \<and> (Suc k mod 100 \<noteq> 0 \<or> Suc k mod 400 = 0)" by (simp only: leap_def y)
  consider "Suc k mod 4 \<noteq> 0" "Suc k mod 100 \<noteq> 0" "Suc k mod 400 \<noteq> 0"
    | "Suc k mod 4 = 0" "Suc k mod 100 \<noteq> 0" "Suc k mod 400 \<noteq> 0"
    | "Suc k mod 4 = 0" "Suc k mod 100 = 0" "Suc k mod 400 \<noteq> 0"
    | "Suc k mod 4 = 0" "Suc k mod 100 = 0" "Suc k mod 400 = 0"
    using mods by metis
  then show ?thesis
    by cases (use ge steps leap sums in simp_all)
qed

text \<open>The date of a day number: the last year, and in it the last month, that starts before it.\<close>

function year_from :: "nat \<Rightarrow> nat \<Rightarrow> nat" where
  "year_from y n = (if y = 0 then year_from 1 n else if n \<le> days_before_year (Suc y) then y else year_from (Suc y) n)"
  by auto
termination
  by (relation "measure (\<lambda>(y, n). (if y = 0 then 1 else 0) + Suc n - days_before_year y)")
    (auto simp: days_before_Suc, auto simp: days_before_year_def)

function month_from :: "nat \<Rightarrow> nat \<Rightarrow> nat \<Rightarrow> nat \<times> nat" where
  "month_from y m r = (if 12 \<le> m \<or> r \<le> days_in_month y m then (m, r) else month_from y (Suc m) (r - days_in_month y m))"
  by auto
termination by (relation "measure (\<lambda>(y, m, r). 12 - m)") auto

declare year_from.simps [simp del] month_from.simps [simp del]

definition civil :: "nat \<Rightarrow> civil_date" where
  "civil n = (let y = year_from (n div 366 + 1) n; (m, d) = month_from y 1 (n - days_before_year y) in (y, m, d))"

lemma year_from_bounds:
  "1 \<le> y \<Longrightarrow> days_before_year y < n \<Longrightarrow>
     1 \<le> year_from y n \<and> days_before_year (year_from y n) < n \<and> n \<le> days_before_year (Suc (year_from y n))"
proof (induction y n rule: year_from.induct)
  case (1 y n)
  show ?case
  proof (cases "n \<le> days_before_year (Suc y)")
    case True
    with 1 show ?thesis using year_from.simps [of y n] by simp
  next
    case False
    then have "year_from y n = year_from (Suc y) n" using 1 year_from.simps [of y n] by simp
    moreover have "days_before_year (Suc y) < n" using False by simp
    ultimately show ?thesis using 1 False by simp
  qed
qed

lemma month_from_bounds:
  assumes "1 \<le> m" "m \<le> 12" "1 \<le> r" "days_before_month y m + r \<le> days_before_month y 12 + days_in_month y 12"
    "month_from y m r = (k, d)"
  shows "1 \<le> k \<and> k \<le> 12 \<and> 1 \<le> d \<and> d \<le> days_in_month y k \<and> days_before_month y k + d = days_before_month y m + r"
  using assms
proof (induction y m r rule: month_from.induct)
  case (1 y m r)
  show ?case
  proof (cases "12 \<le> m \<or> r \<le> days_in_month y m")
    case True
    with 1 show ?thesis using month_from.simps [of y m r] by auto
  next
    case False
    then have "month_from y m r = month_from y (Suc m) (r - days_in_month y m)"
      using month_from.simps [of y m r] by simp
    moreover have "1 \<le> r - days_in_month y m" "days_in_month y m \<le> r" "Suc m \<le> 12" using False by linarith+
    ultimately show ?thesis using 1 False by simp
  qed
qed

lemma year_length:
  "days_before_month y 12 + days_in_month y 12 = (if leap y then 366 else 365)"
  by (simp add: eval_nat_numeral days_in_month_def)

lemma civil_ordinal:
  assumes "1 \<le> n"
  shows "ordinal (civil n) = n" "fst (civil n) \<le> 9999 \<Longrightarrow> valid_date (civil n)"
    "days_before_year (fst (civil n)) < n"
proof -
  define k where "k = n div 366"
  have "366 * k \<le> n" by (simp add: k_def)
  have "k div 4 + k div 400 \<le> k" by linarith
  then have "days_before_year (Suc k) < n"
    using assms \<open>366 * k \<le> n\<close> by (cases "k = 0") (auto simp: days_before_year_def)
  define y where "y = year_from (Suc k) n"
  have y: "1 \<le> y" "days_before_year y < n" "n \<le> days_before_year (Suc y)"
    using year_from_bounds [of "Suc k" n] \<open>days_before_year (Suc k) < n\<close> by (simp_all add: y_def)
  obtain m d where md: "month_from y 1 (n - days_before_year y) = (m, d)" by fastforce
  have "1 \<le> m \<and> m \<le> 12 \<and> 1 \<le> d \<and> d \<le> days_in_month y m
      \<and> days_before_month y m + d = days_before_month y 1 + (n - days_before_year y)"
    using month_from_bounds [of 1 "n - days_before_year y" y m d] y md
    by (auto simp: year_length days_before_Suc split: if_splits)
  moreover have "civil n = (y, m, d)" by (simp add: civil_def y_def [symmetric] k_def [symmetric] md [unfolded One_nat_def])
  ultimately show "ordinal (civil n) = n" "fst (civil n) \<le> 9999 \<Longrightarrow> valid_date (civil n)"
    "days_before_year (fst (civil n)) < n"
    using y by (auto simp: ordinal_def valid_date_def)
qed


subsection \<open>Scanning dates\<close>

definition utf8 :: "string \<Rightarrow> string" where
  "utf8 s = concat (map (\<lambda>c. let n = (of_char c :: nat) in
     if n < 128 then [c] else [char_of (192 + n div 64), char_of (128 + n mod 64)]) s)"

definition eat :: "char \<Rightarrow> string \<Rightarrow> string option" where
  "eat c s = (case s of [] \<Rightarrow> None | d # r \<Rightarrow> if d = c then Some r else None)"

text \<open>The date of a weekday; weeks start on Monday, week 1 holds the first Thursday.\<close>

definition week_date :: "nat \<Rightarrow> nat \<Rightarrow> nat \<Rightarrow> civil_date option" where
  "week_date y w d =
     (let first = ordinal (y, 1, 1); weekday = (first + 6) mod 7;
          long = (weekday = 3 \<or> weekday = 2 \<and> leap y);
          monday = first - weekday + (if 3 < weekday then 7 else 0) in
      if y < 1 \<or> w < 1 \<or> 53 < w \<or> w = 53 \<and> \<not> long \<or> d < 1 \<or> 7 < d then None
      else Some (civil (monday + (w - 1) * 7 + (d - 1))))"

text \<open>\<open>parse_isoformat_date\<close>: the first \<open>len\<close> bytes hold the date.\<close>

definition scan_date :: "nat \<Rightarrow> string \<Rightarrow> civil_date option" where
  "scan_date len s =
     Option.bind (take_digits 4 s) (\<lambda>(y, p).
     let dashed = starts_with ''-'' p; p' = (if dashed then drop 1 p else p) in
     if starts_with ''W'' p' then
       Option.bind (take_digits 2 (drop 1 p')) (\<lambda>(w, q).
       if length s - length q < len then
         Option.bind (if dashed then eat (CHR ''-'') q else Some q) (\<lambda>q'.
         Option.bind (take_digits 1 q') (\<lambda>(d, _). week_date y w d))
       else week_date y w 1)
     else
       Option.bind (take_digits 2 p') (\<lambda>(m, q).
       Option.bind (if dashed then eat (CHR ''-'') q else Some q) (\<lambda>q'.
       map_option (\<lambda>(d, _). (y, m, d)) (take_digits 2 q'))))"

definition read_date :: "string \<Rightarrow> civil_date option" where
  "read_date text = (let s = utf8 text in
     if length s = 7 \<or> length s = 8 \<or> length s = 10
     then Option.bind (scan_date (length s) s) (\<lambda>t. if valid_date t then Some t else None)
     else None)"

definition date_str :: "civil_date \<Rightarrow> string" where
  "date_str t = (case t of (y, m, d) \<Rightarrow> padded 4 y @ ''-'' @ padded 2 m @ ''-'' @ padded 2 d)"

subsection \<open>Scanning clocks and offsets\<close>

text \<open>
  \<open>parse_hh_mm_ss_ff\<close>: up to three components of two digits, with or without colons, then a
  fraction. The scanner reports what follows: either that it is through, and whether characters are
  left over, or the text of the fraction.
\<close>

fun scan_parts :: "nat \<Rightarrow> bool option \<Rightarrow> string \<Rightarrow> (nat list \<times> (bool + string)) option" where
  "scan_parts 0 colon s = Some ([], Inr s)"
| "scan_parts (Suc k) colon s =
     Option.bind (take_digits 2 s) (\<lambda>(v, p).
     let colon' = (case colon of None \<Rightarrow> starts_with '':'' p | Some b \<Rightarrow> b) in
     if length p \<le> 1 then Some ([v], Inl (p \<noteq> [] \<and> p \<noteq> [char_of (0 :: nat)]))
     else if colon' \<and> hd p = CHR '':'' then map_option (apfst ((#) v)) (scan_parts k (Some colon') (tl p))
     else if hd p = CHR ''.'' \<or> hd p = CHR '','' then Some ([v], Inr (tl p))
     else if \<not> colon' then map_option (apfst ((#) v)) (scan_parts k (Some colon') p)
     else None)"

record clock =
  ck_hour :: nat
  ck_minute :: nat
  ck_second :: nat
  ck_micro :: nat

definition clock_of :: "nat list \<Rightarrow> nat \<Rightarrow> clock" where
  "clock_of vs us = (let part = (\<lambda>i. if i < length vs then vs ! i else 0) in
     \<lparr>ck_hour = part 0, ck_minute = part 1, ck_second = part 2, ck_micro = us\<rparr>)"

definition scan_clock :: "string \<Rightarrow> (clock \<times> bool) option" where
  "scan_clock s = Option.bind (scan_parts 3 None s) (\<lambda>(vs, rest).
     case rest of
       Inl left \<Rightarrow> Some (clock_of vs 0, left)
     | Inr f \<Rightarrow> let k = min 6 (length f) in
         Option.bind (take_digits k f) (\<lambda>(us, r).
         let r' = dropWhile is_digit r in
         Some (clock_of vs (us * 10 ^ (6 - k)), r' \<noteq> [] \<and> hd r' \<noteq> char_of (0 :: nat))))"

definition clock_micros :: "clock \<Rightarrow> int" where
  "clock_micros c = (int (ck_hour c) * 3600 + int (ck_minute c) * 60 + int (ck_second c)) * 1000000 + int (ck_micro c)"

text \<open>The offset in microseconds; a whole-second part of zero makes it UTC.\<close>

definition scan_offset :: "bool \<Rightarrow> string \<Rightarrow> int option" where
  "scan_offset neg s = Option.bind (scan_clock s) (\<lambda>(c, left).
     let off = clock_micros c; seconds = off - int (ck_micro c) in
     if left then None
     else if seconds = 0 then Some 0
     else if off < 86400 * 1000000 then Some (if neg then - off else off) else None)"

text \<open>\<open>parse_isoformat_time\<close>: the clock ends at the first sign or \<open>Z\<close>.\<close>

definition scan_time :: "string \<Rightarrow> (clock \<times> int option) option" where
  "scan_time s =
     (let zone = dropWhile (\<lambda>c. c \<notin> set ''+-Z'') s in
      Option.bind (scan_clock (takeWhile (\<lambda>c. c \<notin> set ''+-Z'') s)) (\<lambda>(c, left).
      if zone = [] then if left then None else Some (c, None)
      else if hd zone = CHR ''Z'' then
        if tl zone = [] \<or> hd (tl zone) = char_of (0 :: nat) then Some (c, Some 0) else None
      else map_option (\<lambda>off. (c, Some off)) (scan_offset (hd zone = CHR ''-'') (tl zone))))"

definition separator_at :: "string \<Rightarrow> nat option" where
  "separator_at s =
     (let n = length s; sees = (\<lambda>i c. i < n \<and> s ! i = c) in
      if n = 7 then Some 7
      else if sees 4 (CHR ''-'') then
        if \<not> sees 5 (CHR ''W'') then Some 10
        else if \<not> sees 8 (CHR ''-'') then Some 8
        else if n = 9 then None
        else Some (if 10 < n \<and> is_digit (s ! 10) then 8 else 10)
      else if sees 4 (CHR ''W'') then
        let pos = 7 + length (takeWhile is_digit (drop 7 s)) in
        Some (if pos < 9 then pos else if even pos then 7 else 8)
      else Some 8)"

record stamp =
  stamp_date :: civil_date
  stamp_clock :: clock
  stamp_offset :: "int option"

definition valid_clock :: "clock \<Rightarrow> bool" where
  "valid_clock c \<longleftrightarrow> ck_hour c < 24 \<and> ck_minute c < 60 \<and> ck_second c < 60 \<and> ck_micro c < 1000000"

definition read_stamp :: "string \<Rightarrow> stamp option" where
  "read_stamp text =
     (let s = utf8 text in
      Option.bind (separator_at s) (\<lambda>p.
      Option.bind (scan_date p s) (\<lambda>t.
      let r = drop p s; time = drop (if r \<noteq> [] \<and> 128 \<le> (of_char (hd r) :: nat) then 2 else 1) r in
      Option.bind (if r = [] then Some (clock_of [] 0, None) else scan_time time) (\<lambda>(c, z).
      if valid_date t \<and> valid_clock c then Some \<lparr>stamp_date = t, stamp_clock = c, stamp_offset = z\<rparr>
      else None))))"

subsection \<open>Printing\<close>

definition clock_str :: "clock \<Rightarrow> string" where
  "clock_str c = padded 2 (ck_hour c) @ '':'' @ padded 2 (ck_minute c) @ '':'' @ padded 2 (ck_second c)
     @ (if ck_micro c = 0 then [] else ''.'' @ padded 6 (ck_micro c))"

definition clock_of_micros :: "int \<Rightarrow> clock" where
  "clock_of_micros i = \<lparr>ck_hour = nat (i div 3600000000), ck_minute = nat (i div 60000000 mod 60),
     ck_second = nat (i div 1000000 mod 60), ck_micro = nat (i mod 1000000)\<rparr>"

definition offset_str :: "int \<Rightarrow> string" where
  "offset_str i = (let c = clock_of_micros \<bar>i\<bar> in
     (if i < 0 then ''-'' else ''+'') @ (if ck_second c = 0 \<and> ck_micro c = 0
       then padded 2 (ck_hour c) @ '':'' @ padded 2 (ck_minute c) else clock_str c))"

definition stamp_str :: "stamp \<Rightarrow> string" where
  "stamp_str st = date_str (stamp_date st) @ ''T'' @ clock_str (stamp_clock st)
     @ (case stamp_offset st of None \<Rightarrow> [] | Some i \<Rightarrow> offset_str i)"

text \<open>Aware datetimes are instants; a UTC datetime prints the instant with a zero offset.\<close>

definition instant_of :: "stamp \<Rightarrow> instant" where
  "instant_of st = (int (ordinal (stamp_date st)) - 719163) * 86400000000
     + clock_micros (stamp_clock st) - (case stamp_offset st of None \<Rightarrow> 0 | Some i \<Rightarrow> i)"

definition utc_stamp :: "instant \<Rightarrow> stamp" where
  "utc_stamp t = \<lparr>stamp_date = civil (nat (t div 86400000000 + 719163)),
     stamp_clock = clock_of_micros (t mod 86400000000), stamp_offset = Some 0\<rparr>"


subsection \<open>What is printed is read back\<close>

definition ascii :: "string \<Rightarrow> bool" where
  "ascii s \<longleftrightarrow> (\<forall>c\<in>set s. (of_char c :: nat) < 128)"

lemma ascii_simps [simp]:
  "ascii []" "ascii (c # s) \<longleftrightarrow> (of_char c :: nat) < 128 \<and> ascii s" "ascii (s @ t) \<longleftrightarrow> ascii s \<and> ascii t"
  by (auto simp: ascii_def)

lemma utf8_ascii: "ascii s \<Longrightarrow> utf8 s = s"
  by (induction s) (simp_all add: utf8_def)

lemma digit_ascii: "is_digit c \<Longrightarrow> (of_char c :: nat) < 128"
  by (auto simp: is_digit_def digit_value_def Let_def split: if_splits)

lemma padded_ascii [simp]: "ascii (padded k n)"
  using padded_digits [of k n] by (auto simp: ascii_def list_all_iff digit_ascii)

lemma dec_digit_char: "\<not> is_digit c \<Longrightarrow> dec_digit n \<noteq> c"
  using is_digit_dec_digit by metis

lemma padded_two: "padded 2 n @ r = dec_digit (n div 10) # dec_digit n # r"
  by (simp add: numeral_2_eq_2)

lemma not_digit_chars: "\<not> is_digit (CHR '':'')" "\<not> is_digit (CHR ''W'')" "\<not> is_digit (CHR ''Z'')" "\<not> is_digit (CHR '','')"
  by (simp_all add: is_digit_def digit_value_def)

lemma scan_date_printed:
  assumes "valid_date t"
  shows "scan_date n (date_str t @ r) = Some t"
proof -
  obtain y m d where t: "t = (y, m, d)" by (cases t)
  with assms have bounds: "y < 10 ^ 4" "m < 10 ^ 2" "d < 10 ^ 2"
    by (auto simp: valid_date_def days_in_month_def split: if_splits)
  have "\<not> starts_with ''W'' (padded 2 m @ q)" for q
    by (simp add: padded_two starts_with_def dec_digit_char not_digit_chars)
  moreover have "take_digits 2 (padded 2 m @ q) = Some (m, q)" "take_digits 2 (padded 2 d @ q) = Some (d, q)"
      "take_digits 4 (padded 4 y @ q) = Some (y, q)" for q
    using bounds by (simp_all add: mod_less)
  ultimately show ?thesis
    by (simp add: scan_date_def date_str_def t eat_def starts_with_def)
qed

lemma date_str_ascii [simp]: "ascii (date_str t)"
  by (cases t) (simp add: date_str_def)

lemma length_date_str [simp]: "length (date_str t) = 10"
  by (cases t) (simp add: date_str_def)

lemma read_date_str:
  assumes "valid_date t"
  shows "read_date (date_str t) = Some t"
  using scan_date_printed [OF assms, of 10 "[]"] assms by (simp add: read_date_def utf8_ascii)

lemma scan_parts_two:
  assumes "n < 100" "0 < k"
  shows "scan_parts k colon (padded 2 n @ p) =
     (let colon' = (case colon of None \<Rightarrow> starts_with '':'' p | Some b \<Rightarrow> b) in
     if length p \<le> 1 then Some ([n], Inl (p \<noteq> [] \<and> p \<noteq> [char_of (0 :: nat)]))
     else if colon' \<and> hd p = CHR '':'' then map_option (apfst ((#) n)) (scan_parts (k - 1) (Some colon') (tl p))
     else if hd p = CHR ''.'' \<or> hd p = CHR '','' then Some ([n], Inr (tl p))
     else if \<not> colon' then map_option (apfst ((#) n)) (scan_parts (k - 1) (Some colon') p)
     else None)"
proof -
  have "take_digits 2 (padded 2 n @ p) = Some (n, p)" using assms by (simp add: mod_less)
  then show ?thesis using assms(2) by (cases k) (simp_all add: Let_def)
qed

declare scan_parts.simps [simp del]

lemma scan_clock_str:
  assumes "ck_hour c < 100" "ck_minute c < 100" "ck_second c < 100" "ck_micro c < 1000000"
  shows "scan_clock (clock_str c) = Some (c, False)"
    "scan_clock (padded 2 (ck_hour c) @ '':'' @ padded 2 (ck_minute c)) = Some (c\<lparr>ck_second := 0, ck_micro := 0\<rparr>, False)"
proof -
  have colon: "starts_with '':'' (CHR '':'' # s)" for s by (simp add: starts_with_def)
  have two: "length (padded 2 n @ s) > 1" for n s by simp
  have last: "scan_parts 1 b (padded 2 (ck_second c)) = Some ([ck_second c], Inl False)" for b
    using scan_parts_two [OF assms(3), of 1 b "[]"] by (simp add: Let_def)
  have mid: "scan_parts 2 (Some True) (padded 2 (ck_minute c)) = Some ([ck_minute c], Inl False)"
    using scan_parts_two [OF assms(2), of 2 "Some True" "[]"] by simp
  have frac: "scan_parts 1 b (padded 2 (ck_second c) @ CHR ''.'' # f) = Some ([ck_second c], Inr f)" if "f \<noteq> []" for b f
    using scan_parts_two [OF assms(3), of 1 b "CHR ''.'' # f"] that by (cases f) (simp_all add: Let_def starts_with_def split: option.splits)
  have three: "scan_parts 3 None (padded 2 (ck_hour c) @ CHR '':'' # padded 2 (ck_minute c) @ s) =
      map_option (apfst ((#) (ck_hour c))) (scan_parts 2 (Some True) (padded 2 (ck_minute c) @ s))" for s
    using scan_parts_two [OF assms(1), of 3 None "CHR '':'' # padded 2 (ck_minute c) @ s"]
    by (simp add: colon Let_def)
  have next2: "scan_parts 2 (Some True) (padded 2 (ck_minute c) @ CHR '':'' # padded 2 (ck_second c) @ s) =
      map_option (apfst ((#) (ck_minute c))) (scan_parts 1 (Some True) (padded 2 (ck_second c) @ s))" for s
    using scan_parts_two [OF assms(2), of 2 "Some True" "CHR '':'' # padded 2 (ck_second c) @ s"]
    by simp
  show "scan_clock (clock_str c) = Some (c, False)"
  proof (cases "ck_micro c = 0")
    case True
    then show ?thesis using next2 [of "[]"]
      by (simp add: scan_clock_def clock_str_def three last [unfolded One_nat_def] clock_of_def)
  next
    case False
    have six: "padded 6 (ck_micro c) \<noteq> []" using length_padded [of 6 "ck_micro c"] by (metis length_0_conv zero_neq_numeral)
    have "take_digits 6 (padded 6 (ck_micro c)) = Some (ck_micro c, [])" using assms(4) by (simp add: mod_less)
    with False show ?thesis
      by (simp add: scan_clock_def clock_str_def three next2 frac [unfolded One_nat_def, OF six] clock_of_def)
  qed
  show "scan_clock (padded 2 (ck_hour c) @ '':'' @ padded 2 (ck_minute c)) = Some (c\<lparr>ck_second := 0, ck_micro := 0\<rparr>, False)"
    using three [of "[]"] by (simp add: scan_clock_def mid clock_of_def)
qed

definition offset_ok :: "int \<Rightarrow> bool" where
  "offset_ok i \<longleftrightarrow> (i = 0 \<or> 1000000 \<le> \<bar>i\<bar>) \<and> \<bar>i\<bar> < 86400000000"

lemma clock_of_micros:
  assumes "0 \<le> i" "i < 86400000000"
  shows "valid_clock (clock_of_micros i)" "clock_micros (clock_of_micros i) = i"
proof -
  have "i div 3600000000 < 24" "0 \<le> i div 3600000000" using assms by (simp_all add: div_less_iff_less_mult)
  then show "valid_clock (clock_of_micros i)" using assms by (auto simp: valid_clock_def clock_of_micros_def nat_less_iff)
  define q where "q = i div 1000000"
  define m where "m = q div 60"
  have parts: "i div 60000000 = m" "i div 3600000000 = m div 60"
    by (simp_all add: m_def q_def zdiv_zmult2_eq [symmetric])
  have "q = 60 * m + q mod 60" "m = 60 * (m div 60) + m mod 60" by (simp_all add: m_def)
  then have q: "m div 60 * 3600 + m mod 60 * 60 + q mod 60 = q" by linarith
  have "0 \<le> m div 60" using assms by (simp add: parts(2) [symmetric])
  then have "clock_micros (clock_of_micros i) = ((m div 60) * 3600 + (m mod 60) * 60 + q mod 60) * 1000000 + i mod 1000000"
    by (simp add: clock_micros_def clock_of_micros_def parts q_def [symmetric])
  also have "\<dots> = q * 1000000 + i mod 1000000" by (simp only: q)
  also have "\<dots> = i" by (simp add: q_def)
  finally show "clock_micros (clock_of_micros i) = i" .
qed

lemma scan_offset_str:
  assumes "offset_ok i"
  shows "scan_offset (i < 0) (tl (offset_str i)) = Some i"
proof -
  define c where "c = clock_of_micros \<bar>i\<bar>"
  have c: "valid_clock c" "clock_micros c = \<bar>i\<bar>"
    using assms clock_of_micros [of "\<bar>i\<bar>"] by (simp_all add: offset_ok_def c_def)
  then have small: "ck_hour c < 100" "ck_minute c < 100" "ck_second c < 100" "ck_micro c < 1000000"
    by (simp_all add: valid_clock_def)
  have whole: "i = 0" if "clock_micros c = int (ck_micro c)"
    using assms that c by (auto simp: offset_ok_def valid_clock_def)
  have scan: "scan_clock (tl (offset_str i)) = Some (c, False)"
  proof (cases "ck_second c = 0 \<and> ck_micro c = 0")
    case True
    then have "c\<lparr>ck_second := 0, ck_micro := 0\<rparr> = c" by (cases c) simp
    with True show ?thesis
      by (simp add: offset_str_def c_def [symmetric] Let_def scan_clock_str(2) [OF small, simplified])
  next
    case False
    then show ?thesis by (auto simp: offset_str_def c_def [symmetric] Let_def scan_clock_str(1) [OF small])
  qed
  have "clock_micros c < 86400 * 1000000" using assms c(2) by (simp add: offset_ok_def)
  with whole c(2) show ?thesis by (auto simp: scan_offset_def scan Let_def)
qed

lemma clock_str_chars: "c \<in> set (clock_str k) \<Longrightarrow> c \<notin> set ''+-Z''"
  using padded_digits [of 2 "ck_hour k"] padded_digits [of 2 "ck_minute k"] padded_digits [of 2 "ck_second k"] padded_digits [of 6 "ck_micro k"]
  by (auto simp: clock_str_def list_all_iff is_digit_def digit_value_def split: if_splits)

lemma scan_time_str:
  assumes "valid_clock c" "offset_ok i"
  shows "scan_time (clock_str c @ offset_str i) = Some (c, Some i)"
proof -
  obtain sign rest where off: "offset_str i = sign # rest" "sign = (if i < 0 then CHR ''-'' else CHR ''+'')"
    by (rule that [of "if i < 0 then CHR ''-'' else CHR ''+''" "tl (offset_str i)"]) (simp_all add: offset_str_def Let_def)
  then have stop: "\<not> sign \<notin> set ''+-Z''" by simp
  have "takeWhile (\<lambda>c. c \<notin> set ''+-Z'') (clock_str c @ sign # rest) = clock_str c"
    "dropWhile (\<lambda>c. c \<notin> set ''+-Z'') (clock_str c @ sign # rest) = sign # rest"
    using clock_str_chars stop by (auto simp: takeWhile_append2 dropWhile_append2)
  moreover have "scan_clock (clock_str c) = Some (c, False)"
    using assms(1) by (intro scan_clock_str) (simp_all add: valid_clock_def)
  moreover have "scan_offset (sign = CHR ''-'') rest = Some i"
    using scan_offset_str [OF assms(2)] off by (cases "i < 0") simp_all
  moreover have "sign \<noteq> CHR ''Z''" by (simp add: off(2))
  ultimately show ?thesis by (simp only: scan_time_def off(1) Let_def bind.bind_lunit split if_False list.simps list.sel) simp
qed

lemma clock_str_ascii [simp]: "ascii (clock_str c)"
  by (simp add: clock_str_def)

lemma offset_str_ascii [simp]: "ascii (offset_str i)"
  by (simp add: offset_str_def Let_def)

lemma separator_printed: "separator_at (date_str t @ CHR ''T'' # r) = Some 10"
proof -
  obtain y m d where t: "t = (y, m, d)" by (cases t)
  have "(padded 4 y @ CHR ''-'' # q) ! 4 = CHR ''-''" for q by (simp add: nth_append)
  moreover have "(padded 4 y @ CHR ''-'' # padded 2 m @ q) ! 5 = dec_digit (m div 10)" for q
    by (simp add: nth_append padded_two)
  ultimately show ?thesis
    by (simp add: separator_at_def date_str_def t Let_def dec_digit_char not_digit_chars)
qed

lemma read_stamp_str:
  assumes "valid_date (stamp_date st)" "valid_clock (stamp_clock st)" "stamp_offset st = Some i" "offset_ok i"
  shows "read_stamp (stamp_str st) = Some st"
proof -
  have bytes: "utf8 (stamp_str st) = date_str (stamp_date st) @ CHR ''T'' # clock_str (stamp_clock st) @ offset_str i"
    by (simp add: utf8_ascii stamp_str_def assms(3))
  have "drop 10 (date_str (stamp_date st) @ CHR ''T'' # s) = CHR ''T'' # s" for s by simp
  with assms show ?thesis
    by (simp add: read_stamp_def bytes separator_printed scan_date_printed scan_time_str Let_def)
qed

lemma utc_stamp:
  assumes "- 719162 * 86400000000 \<le> t"
  shows "instant_of (utc_stamp t) = t"
    "fst (stamp_date (utc_stamp t)) \<le> 9999 \<Longrightarrow> read_stamp (stamp_str (utc_stamp t)) = Some (utc_stamp t)"
proof -
  define n where "n = nat (t div 86400000000 + 719163)"
  have "- 719162 \<le> t div 86400000000" using assms zdiv_mono1 [OF assms, of 86400000000] by simp
  then have n: "1 \<le> n" "int n = t div 86400000000 + 719163" by (simp_all add: n_def)
  have c: "valid_clock (clock_of_micros (t mod 86400000000))"
    "clock_micros (clock_of_micros (t mod 86400000000)) = t mod 86400000000"
    by (intro clock_of_micros; simp)+
  show "instant_of (utc_stamp t) = t"
    using civil_ordinal(1) [OF n(1)] n(2) mult_div_mod_eq [of 86400000000 t]
    by (simp add: instant_of_def utc_stamp_def c n_def [symmetric])
  show "read_stamp (stamp_str (utc_stamp t)) = Some (utc_stamp t)" if "fst (stamp_date (utc_stamp t)) \<le> 9999"
    using that civil_ordinal(2) [OF n(1)] c(1)
    by (intro read_stamp_str [where i = 0]) (simp_all add: utc_stamp_def n_def [symmetric] offset_ok_def)
qed

end
