(* ===== verification/PyText.thy ===== *)
theory PyText
  imports PyValue IsoTime
begin

text \<open>
  The texts Python makes of values: \<open>str\<close>, \<open>repr\<close> and \<open>json.dumps\<close>. The shortest decimal text of a
  float is a parameter.
\<close>

type_synonym float_text = "rat \<Rightarrow> string"

subsection \<open>\<open>repr\<close> and \<open>str\<close>\<close>

definition repr_char :: "char \<Rightarrow> char \<Rightarrow> string" where
  "repr_char quote c = (let n = (of_char c :: nat) in
     if c = quote \<or> n = 92 then [char_of (92 :: nat), c]
     else if n = 9 then char_of (92 :: nat) # ''t''
     else if n = 10 then char_of (92 :: nat) # ''n''
     else if n = 13 then char_of (92 :: nat) # ''r''
     else if n < 32 \<or> 127 \<le> n \<and> n \<le> 160 \<or> n = 173 then char_of (92 :: nat) # ''x'' @ hex_fixed 2 n
     else [c])"

definition repr_str :: "string \<Rightarrow> string" where
  "repr_str s = (let single = char_of (39 :: nat); double = char_of (34 :: nat);
       quote = (if single \<in> set s \<and> double \<notin> set s then double else single) in
     quote # concat (map (repr_char quote) s) @ [quote])"

definition time_repr :: "instant \<Rightarrow> string" where
  "time_repr t = (let st = utc_stamp t; c = stamp_clock st in
     case stamp_date st of (y, m, d) \<Rightarrow>
       ''datetime.datetime('' @ py_join '', '' (map nat_str ([y, m, d, ck_hour c, ck_minute c]
         @ (if ck_micro c \<noteq> 0 then [ck_second c, ck_micro c] else if ck_second c \<noteq> 0 then [ck_second c] else [])))
       @ '', tzinfo=datetime.timezone.utc)'')"

fun repr_of :: "float_text \<Rightarrow> pyval \<Rightarrow> string"
  and repr_list :: "float_text \<Rightarrow> pyval list \<Rightarrow> string list"
  and repr_items :: "float_text \<Rightarrow> pydict \<Rightarrow> string list" where
  "repr_of fr PNone = ''None''"
| "repr_of fr (PBool b) = (if b then ''True'' else ''False'')"
| "repr_of fr (PInt i) = int_str i"
| "repr_of fr (PFloat q) = fr q"
| "repr_of fr (PStr s) = repr_str s"
| "repr_of fr (PUuid u) = ''UUID('' @ repr_str (uuid_str u) @ '')''"
| "repr_of fr (PTime t) = time_repr t"
| "repr_of fr (PList xs) = ''['' @ py_join '', '' (repr_list fr xs) @ '']''"
| "repr_of fr (PDict d) = ''{'' @ py_join '', '' (repr_items fr d) @ ''}''"
| "repr_list fr [] = []"
| "repr_list fr (x # xs) = repr_of fr x # repr_list fr xs"
| "repr_items fr [] = []"
| "repr_items fr ((k, v) # d) = (repr_str k @ '': '' @ repr_of fr v) # repr_items fr d"

definition str_of :: "float_text \<Rightarrow> pyval \<Rightarrow> string" where
  "str_of fr v = (case v of PStr s \<Rightarrow> s | PUuid u \<Rightarrow> uuid_str u
     | PTime t \<Rightarrow> (let st = utc_stamp t in date_str (stamp_date st) @ '' '' @ clock_str (stamp_clock st) @ ''+00:00'')
     | _ \<Rightarrow> repr_of fr v)"

subsection \<open>\<open>json.dumps\<close> with compact separators\<close>

definition json_char :: "char \<Rightarrow> string" where
  "json_char c = (let n = (of_char c :: nat) in
     if n = 34 \<or> n = 92 then [char_of (92 :: nat), c]
     else if n = 8 then char_of (92 :: nat) # ''b''
     else if n = 9 then char_of (92 :: nat) # ''t''
     else if n = 10 then char_of (92 :: nat) # ''n''
     else if n = 12 then char_of (92 :: nat) # ''f''
     else if n = 13 then char_of (92 :: nat) # ''r''
     else if n < 32 \<or> 126 < n then char_of (92 :: nat) # ''u'' @ hex_fixed 4 n
     else [c])"

definition json_string :: "string \<Rightarrow> string" where
  "json_string s = char_of (34 :: nat) # concat (map json_char s) @ [char_of (34 :: nat)]"

text \<open>\<^const>\<open>None\<close> stands for the \<open>TypeError\<close> that values without a JSON form raise.\<close>

definition both :: "'a option \<Rightarrow> 'b option \<Rightarrow> ('a \<Rightarrow> 'b \<Rightarrow> 'c) \<Rightarrow> 'c option" where
  "both a b f = Option.bind a (\<lambda>x. map_option (f x) b)"

fun json_text :: "float_text \<Rightarrow> pyval \<Rightarrow> string option"
  and json_list :: "float_text \<Rightarrow> pyval list \<Rightarrow> string list option"
  and json_items :: "float_text \<Rightarrow> pydict \<Rightarrow> string list option" where
  "json_text fr PNone = Some ''null''"
| "json_text fr (PBool b) = Some (if b then ''true'' else ''false'')"
| "json_text fr (PInt i) = Some (int_str i)"
| "json_text fr (PFloat q) = Some (fr q)"
| "json_text fr (PStr s) = Some (json_string s)"
| "json_text fr (PUuid u) = None"
| "json_text fr (PTime t) = None"
| "json_text fr (PList xs) = map_option (\<lambda>ts. ''['' @ py_join '','' ts @ '']'') (json_list fr xs)"
| "json_text fr (PDict d) = map_option (\<lambda>ts. ''{'' @ py_join '','' ts @ ''}'') (json_items fr d)"
| "json_list fr [] = Some []"
| "json_list fr (x # xs) = both (json_text fr x) (json_list fr xs) (#)"
| "json_items fr [] = Some []"
| "json_items fr ((k, v) # d) =
     both (json_text fr v) (json_items fr d) (\<lambda>t ts. (json_string k @ '':'' @ t) # ts)"

lemma str_of_PStr [simp]: "str_of fr (PStr s) = s"
  by (simp add: str_of_def)

end
