(* ===== verification/Forms.thy ===== *)
theory Forms
  imports PyText
begin

text \<open>
  \<open>catalog/rules.py\<close>, the conditions under which a form field applies, and \<open>tickets/validation.py\<close>,
  which checks the values of a request form and brings them into their stored form.
\<close>

subsection \<open>Conditional rules\<close>

record condition_predicate =
  cp_field :: string
  cp_operator :: string
  cp_value :: pyval

datatype conditional_rule = AllOf "condition_predicate list" | AnyOf "condition_predicate list"

definition is_letter :: "char \<Rightarrow> bool" where
  "is_letter c = (let n = (of_char c :: nat) in 65 \<le> n \<and> n \<le> 90 \<or> 97 \<le> n \<and> n \<le> 122)"

text \<open>\<open>^[A-Za-z][A-Za-z0-9_]{0,99}$\<close>\<close>

definition field_name :: "string \<Rightarrow> bool" where
  "field_name s = (case s of [] \<Rightarrow> False | c # r \<Rightarrow> is_letter c \<and> length r \<le> 99
     \<and> list_all (\<lambda>d. is_letter d \<or> is_digit d \<or> d = CHR ''_'') r)"

definition set_operator :: "string \<Rightarrow> bool" where
  "set_operator opr \<longleftrightarrow> opr = ''in'' \<or> opr = ''not_in''"

definition empty_operator :: "string \<Rightarrow> bool" where
  "empty_operator opr \<longleftrightarrow> opr = ''is_empty'' \<or> opr = ''is_not_empty''"

definition condition_operators :: "string list" where
  "condition_operators = [''equals'', ''not_equals'', ''in'', ''not_in'', ''is_empty'', ''is_not_empty'']"

definition is_scalar :: "pyval \<Rightarrow> bool" where
  "is_scalar v = (case v of PStr _ \<Rightarrow> True | PInt _ \<Rightarrow> True | PFloat _ \<Rightarrow> True | PBool _ \<Rightarrow> True
     | PNone \<Rightarrow> True | _ \<Rightarrow> False)"

definition operator_value_ok :: "string \<Rightarrow> pyval \<Rightarrow> bool" where
  "operator_value_ok opr v \<longleftrightarrow>
     (if set_operator opr then (case v of PList xs \<Rightarrow> xs \<noteq> [] \<and> length xs \<le> 100 | _ \<Rightarrow> False)
      else if empty_operator opr then v = PNone
      else \<not> (case v of PList _ \<Rightarrow> True | _ \<Rightarrow> False))"

definition parse_predicate :: "pyval \<Rightarrow> condition_predicate option" where
  "parse_predicate v = (case v of
       PDict d \<Rightarrow>
         (case (dget d ''field'', dget d ''operator'') of
            (Some (PStr f), Some (PStr opr)) \<Rightarrow>
              let x = dget_none d ''value'';
                  typed = (is_scalar x \<or> (case x of PList xs \<Rightarrow> list_all is_scalar xs | _ \<Rightarrow> False)) in
              if dkeys d \<subseteq> {''field'', ''operator'', ''value''} \<and> field_name f
                \<and> opr \<in> set condition_operators \<and> typed \<and> operator_value_ok opr x
              then Some \<lparr>cp_field = f, cp_operator = opr, cp_value = x\<rparr> else None
          | _ \<Rightarrow> None)
     | _ \<Rightarrow> None)"

fun parse_predicates :: "pyval list \<Rightarrow> condition_predicate list option" where
  "parse_predicates [] = Some []"
| "parse_predicates (v # vs) = both (parse_predicate v) (parse_predicates vs) (#)"

text \<open>One of the two optional groups: absent, or its predicates.\<close>

definition parse_rule_group :: "pyval \<Rightarrow> condition_predicate list option option" where
  "parse_rule_group v = (case v of
       PNone \<Rightarrow> Some None
     | PList xs \<Rightarrow> if length xs \<le> 20 then map_option Some (parse_predicates xs) else None
     | _ \<Rightarrow> None)"

text \<open>\<open>Inl\<close> stands for pydantic's \<open>ValidationError\<close>, \<open>Inr None\<close> for no rule.\<close>

definition parse_conditional_rule :: "pyval \<Rightarrow> unit + conditional_rule option" where
  "parse_conditional_rule v =
     (if v = PNone \<or> v = PDict [] then Inr None
      else case v of
        PDict d \<Rightarrow>
          if \<not> dkeys d \<subseteq> {''all'', ''any''} then Inl ()
          else (case (parse_rule_group (dget_none d ''all''), parse_rule_group (dget_none d ''any'')) of
              (Some (Some ps), Some None) \<Rightarrow> if ps = [] then Inl () else Inr (Some (AllOf ps))
            | (Some None, Some (Some ps)) \<Rightarrow> if ps = [] then Inl () else Inr (Some (AnyOf ps))
            | _ \<Rightarrow> Inl ())
      | _ \<Rightarrow> Inl ())"

definition predicate_matches :: "condition_predicate \<Rightarrow> pyval \<Rightarrow> bool" where
  "predicate_matches p actual =
     (if cp_operator p = ''is_empty'' then is_blank actual
      else if cp_operator p = ''is_not_empty'' then \<not> is_blank actual
      else if cp_operator p = ''equals'' then py_eq actual (cp_value p)
      else if cp_operator p = ''not_equals'' then \<not> py_eq actual (cp_value p)
      else (case cp_value p of PList xs \<Rightarrow> py_in actual xs | _ \<Rightarrow> False) = (cp_operator p = ''in''))"

definition condition_applies :: "pyval \<Rightarrow> pydict \<Rightarrow> unit + bool" where
  "condition_applies condition raw = rbind (parse_conditional_rule condition) (\<lambda>r.
     Inr (case r of
         None \<Rightarrow> True
       | Some (AllOf ps) \<Rightarrow> list_all (\<lambda>p. predicate_matches p (dget_none raw (cp_field p))) ps
       | Some (AnyOf ps) \<Rightarrow> list_ex (\<lambda>p. predicate_matches p (dget_none raw (cp_field p))) ps))"

subsection \<open>Form fields\<close>

text \<open>A row of the form query: one per field and option, one for a field without options.\<close>

record form_field =
  ff_field :: uuid
  ff_code :: string
  ff_name :: string
  ff_type :: string
  ff_label :: "string option"
  ff_help :: "string option"
  ff_order :: int
  ff_required :: bool
  ff_default :: pyval
  ff_validation :: pyval
  ff_condition :: pyval
  ff_option :: "uuid option"
  ff_option_code :: "string option"
  ff_option_label :: "string option"
  ff_option_order :: "int option"

record custom_input =
  in_code :: string
  in_value :: pyval

text \<open>The messages per field, and the failures no handler expects.\<close>

type_synonym field_errors = "(string \<times> string list) list"

datatype form_failure = Invalid field_errors | Escaping string

definition add_error :: "string \<Rightarrow> string \<Rightarrow> field_errors \<Rightarrow> field_errors" where
  "add_error k m es = (case map_of es k of None \<Rightarrow> es @ [(k, [m])] | Some ms \<Rightarrow> AList.update k (ms @ [m]) es)"

definition error_key :: "string \<Rightarrow> string" where
  "error_key code = ''custom_fields.'' @ code"

definition first_codes :: "string list \<Rightarrow> string list" where
  "first_codes cs = rev (remdups (rev cs))"

definition field_codes :: "form_field list \<Rightarrow> string list" where
  "field_codes records = first_codes (map ff_code records)"

definition field_rows :: "form_field list \<Rightarrow> string \<Rightarrow> form_field list" where
  "field_rows records code = filter (\<lambda>r. ff_code r = code) records"

definition options_of :: "form_field list \<Rightarrow> string list" where
  "options_of rows = List.map_filter ff_option_code rows"

subsection \<open>Normal forms of values\<close>

definition references :: "string list" where
  "references = [''USER'', ''GROUP'', ''SERVICE'', ''MODULE'', ''ASSET'']"

definition str_items :: "pyval list \<Rightarrow> string list option" where
  "str_items xs = (if list_all (\<lambda>v. case v of PStr _ \<Rightarrow> True | _ \<Rightarrow> False) xs
     then Some (map (\<lambda>v. case v of PStr s \<Rightarrow> s | _ \<Rightarrow> []) xs) else None)"

definition replace_z :: "string \<Rightarrow> string" where
  "replace_z s = concat (map (\<lambda>c. if c = CHR ''Z'' then ''+00:00'' else [c]) s)"

definition normalize_number :: "float_text \<Rightarrow> pyval \<Rightarrow> form_failure + string + pyval" where
  "normalize_number fr v = (case v of
       PBool _ \<Rightarrow> Inr (Inl ''Value must be a number.'')
     | _ \<Rightarrow> (case read_decimal (str_of fr v) of
           None \<Rightarrow> Inr (Inl ''Value must be a number.'')
         | Some (Finite neg c e) \<Rightarrow>
             (case normalized neg c e of
                Some (Finite neg' c' e') \<Rightarrow> Inr (Inr (PStr (decimal_str neg' c' e')))
              | _ \<Rightarrow> Inl (Escaping ''Overflow''))
         | Some _ \<Rightarrow> Inr (Inl ''Value must be a finite number.'')))"

definition normalize_boolean :: "pyval \<Rightarrow> string + pyval" where
  "normalize_boolean v = (case v of
       PBool b \<Rightarrow> Inr v
     | PStr s \<Rightarrow> if lower_ascii s = ''true'' then Inr (PBool True)
         else if lower_ascii s = ''false'' then Inr (PBool False) else Inl ''Value must be a boolean.''
     | _ \<Rightarrow> Inl ''Value must be a boolean.'')"

definition normalize_text :: "bool \<Rightarrow> pyval \<Rightarrow> string + pyval" where
  "normalize_text long v = (case v of PStr s \<Rightarrow> Inr (PStr (if long then py_strip s else collapse s))
     | _ \<Rightarrow> Inl ''Value must be text.'')"

definition normalize_date :: "float_text \<Rightarrow> pyval \<Rightarrow> string + pyval" where
  "normalize_date fr v = (case read_date (str_of fr v) of
       None \<Rightarrow> Inl ''Value must be an ISO 8601 date.'' | Some t \<Rightarrow> Inr (PStr (date_str t)))"

definition normalize_stamp :: "float_text \<Rightarrow> pyval \<Rightarrow> string + pyval" where
  "normalize_stamp fr v = (case read_stamp (replace_z (str_of fr v)) of
       None \<Rightarrow> Inl ''Value must be an ISO 8601 datetime.''
     | Some st \<Rightarrow> if stamp_offset st = None then Inl ''Datetime must include a timezone.''
         else Inr (PStr (stamp_str st)))"

definition normalize_reference :: "float_text \<Rightarrow> pyval \<Rightarrow> string + pyval" where
  "normalize_reference fr v = (case uuid_of_text (str_of fr v) of
       None \<Rightarrow> Inl ''Value must be a UUID reference.'' | Some u \<Rightarrow> Inr (PStr (uuid_str u)))"

definition normalize_choice :: "string list \<Rightarrow> pyval \<Rightarrow> string + pyval" where
  "normalize_choice options v = (case v of
       PStr s \<Rightarrow> if s \<in> set options then Inr v else Inl ''Value is not an active option.''
     | _ \<Rightarrow> Inl ''Value is not an active option.'')"

definition normalize_choices :: "string list \<Rightarrow> pyval \<Rightarrow> string + pyval" where
  "normalize_choices options v = (case v of
       PList xs \<Rightarrow> (case str_items xs of
           None \<Rightarrow> Inl ''Value must be a list of options.''
         | Some ss \<Rightarrow> let unique = sort (remdups ss) in
             if length unique \<noteq> length xs then Inl ''Option values must not be duplicated.''
             else if \<not> set unique \<subseteq> set options then Inl ''Value contains an inactive or unknown option.''
             else Inr (PList (map PStr unique)))
     | _ \<Rightarrow> Inl ''Value must be a list of options.'')"

definition normalize_object :: "float_text \<Rightarrow> pyval \<Rightarrow> form_failure + string + pyval" where
  "normalize_object fr v = (case v of
       PDict d \<Rightarrow> (case json_text fr v of
           None \<Rightarrow> Inl (Escaping ''TypeError'')
         | Some t \<Rightarrow> Inr (if 20000 < length t then Inl ''Value is too large.'' else Inr v))
     | _ \<Rightarrow> Inr (Inl ''Value must be an object.''))"

text \<open>\<open>_normalize\<close>: the outer error escapes, the inner one is the message of a \<open>ValueError\<close>.\<close>

definition normalize_value ::
  "float_text \<Rightarrow> form_field list \<Rightarrow> string \<Rightarrow> pyval \<Rightarrow> form_failure + string + pyval" where
  "normalize_value fr rows type v =
     (if type = ''TEXT'' then Inr (normalize_text False v)
      else if type = ''LONG_TEXT'' then Inr (normalize_text True v)
      else if type = ''NUMBER'' then normalize_number fr v
      else if type = ''BOOLEAN'' then Inr (normalize_boolean v)
      else if type = ''DATE'' then Inr (normalize_date fr v)
      else if type = ''TIMESTAMP'' then Inr (normalize_stamp fr v)
      else if type \<in> set references then Inr (normalize_reference fr v)
      else if type = ''SINGLE_SELECT'' then Inr (normalize_choice (options_of rows) v)
      else if type = ''MULTI_SELECT'' then Inr (normalize_choices (options_of rows) v)
      else if type = ''JSON_OBJECT'' then normalize_object fr v
      else Inr (Inl ''Field type is not supported for ticket submission.''))"

subsection \<open>Bounds\<close>

definition validation_of :: "form_field \<Rightarrow> pydict" where
  "validation_of f = (case ff_validation f of PDict d \<Rightarrow> d | _ \<Rightarrow> [])"

text \<open>\<open>isinstance(value, int)\<close>, which booleans satisfy.\<close>

definition int_bound :: "form_field \<Rightarrow> string \<Rightarrow> int option" where
  "int_bound f k = (case dget_none (validation_of f) k of PInt i \<Rightarrow> Some i
     | PBool b \<Rightarrow> Some (if b then 1 else 0) | _ \<Rightarrow> None)"

definition length_of :: "pyval \<Rightarrow> int option" where
  "length_of v = (case v of PStr s \<Rightarrow> Some (int (length s)) | PList xs \<Rightarrow> Some (int (length xs)) | _ \<Rightarrow> None)"

definition items_of :: "pyval \<Rightarrow> int option" where
  "items_of v = (case v of PList xs \<Rightarrow> Some (int (length xs)) | _ \<Rightarrow> None)"

definition out_of_bound :: "(int \<Rightarrow> int \<Rightarrow> bool) \<Rightarrow> int option \<Rightarrow> int option \<Rightarrow> bool" where
  "out_of_bound beyond n bound \<longleftrightarrow> (case (n, bound) of (Some k, Some b) \<Rightarrow> beyond k b | _ \<Rightarrow> False)"

definition size_errors :: "float_text \<Rightarrow> form_field \<Rightarrow> pyval \<Rightarrow> string list" where
  "size_errors fr f v =
     (let shown = (\<lambda>k. str_of fr (dget_none (validation_of f) k)) in
      (if out_of_bound (<) (length_of v) (int_bound f ''minimum_length'')
       then [''Value must contain at least '' @ shown ''minimum_length'' @ '' characters.''] else [])
    @ (if out_of_bound (>) (length_of v) (int_bound f ''maximum_length'')
       then [''Value must contain at most '' @ shown ''maximum_length'' @ '' characters.''] else [])
    @ (if out_of_bound (<) (items_of v) (int_bound f ''minimum_items'')
       then [''Select at least '' @ shown ''minimum_items'' @ '' options.''] else [])
    @ (if out_of_bound (>) (items_of v) (int_bound f ''maximum_items'')
       then [''Select at most '' @ shown ''maximum_items'' @ '' options.''] else []))"

definition decimal_less :: "decimal \<Rightarrow> decimal \<Rightarrow> bool" where
  "decimal_less a b = (case (a, b) of
       (Finite n c e, Finite n' c' e') \<Rightarrow> decimal_value n c e < decimal_value n' c' e'
     | (Finite _ _ _, Infinite neg) \<Rightarrow> \<not> neg
     | (Infinite neg, Finite _ _ _) \<Rightarrow> neg
     | (Infinite neg, Infinite neg') \<Rightarrow> neg \<and> \<not> neg'
     | _ \<Rightarrow> False)"

text \<open>A text that is no number, and comparing with NaN, are \<open>InvalidOperation\<close>, which nothing catches.\<close>

definition decimal_of :: "string \<Rightarrow> form_failure + decimal" where
  "decimal_of s = (case read_decimal s of None \<Rightarrow> Inl (Escaping ''InvalidOperation'') | Some d \<Rightarrow> Inr d)"

definition compared :: "(decimal \<Rightarrow> bool) \<Rightarrow> decimal \<Rightarrow> form_failure + bool" where
  "compared p d = (if d = NotANumber then Inl (Escaping ''InvalidOperation'') else Inr (p d))"

definition limit_errors ::
  "float_text \<Rightarrow> pyval \<Rightarrow> (decimal \<Rightarrow> bool) \<Rightarrow> string \<Rightarrow> form_failure + string list" where
  "limit_errors fr bound beyond label =
     (if bound = PNone then Inr []
      else rbind (decimal_of (str_of fr bound)) (\<lambda>d. rbind (compared beyond d) (\<lambda>b.
        Inr (if b then [''Value must be at '' @ label @ '' '' @ str_of fr bound @ ''.''] else []))))"

definition number_errors :: "float_text \<Rightarrow> form_field \<Rightarrow> pyval \<Rightarrow> form_failure + string list" where
  "number_errors fr f v = rbind (decimal_of (str_of fr v)) (\<lambda>n.
     rbind (limit_errors fr (dget_none (validation_of f) ''minimum'') (\<lambda>d. decimal_less n d) ''least'') (\<lambda>es.
     rbind (limit_errors fr (dget_none (validation_of f) ''maximum'') (\<lambda>d. decimal_less d n) ''most'') (\<lambda>es'.
     Inr (es @ es'))))"

definition bound_errors :: "float_text \<Rightarrow> form_field \<Rightarrow> pyval \<Rightarrow> form_failure + string list" where
  "bound_errors fr f v =
     (if ff_type f = ''NUMBER'' then rbind (number_errors fr f v) (\<lambda>es. Inr (size_errors fr f v @ es))
      else Inr (size_errors fr f v))"

subsection \<open>Validation of a form\<close>

definition add_errors :: "string \<Rightarrow> string list \<Rightarrow> field_errors \<Rightarrow> field_errors" where
  "add_errors k ms es = foldl (\<lambda>es m. add_error k m es) es ms"

fun collect_inputs :: "custom_input list \<Rightarrow> pydict \<Rightarrow> field_errors \<Rightarrow> pydict \<times> field_errors" where
  "collect_inputs [] raw es = (raw, es)"
| "collect_inputs (i # is) raw es =
     (if in_code i \<in> dkeys raw
      then collect_inputs is raw (add_error (error_key (in_code i)) ''Field must be supplied only once.'' es)
      else collect_inputs is (raw @ [(in_code i, in_value i)]) es)"

text \<open>
  What a field contributes: nothing when it does not apply, otherwise its value, and messages. The
  first row of a field carries its settings.
\<close>

definition check_field ::
  "float_text \<Rightarrow> bool \<Rightarrow> pydict \<Rightarrow> form_field list \<Rightarrow> form_failure + (pyval option \<times> string list)" where
  "check_field fr full raw rows =
     (let f = hd rows; v = dget_none raw (ff_code f) in
      rbind (map_error (\<lambda>_. Escaping ''pydantic ValidationError'') (condition_applies (ff_condition f) raw)) (\<lambda>active.
      if \<not> active then
        Inr (None, if ff_code f \<in> dkeys raw \<and> \<not> is_blank v
          then [''Field is not applicable for the supplied values.''] else [])
      else if is_blank v then
        Inr (Some PNone, if ff_required f \<and> full then [''Field is required.''] else [])
      else rbind (normalize_value fr rows (ff_type f) v) (\<lambda>r.
        case r of
          Inl m \<Rightarrow> Inr (None, [m])
        | Inr w \<Rightarrow> rbind (bound_errors fr f w) (\<lambda>ms. Inr (Some w, ms)))))"

fun check_fields ::
  "float_text \<Rightarrow> bool \<Rightarrow> form_field list \<Rightarrow> pydict \<Rightarrow> string list \<Rightarrow> field_errors \<Rightarrow> pydict
    \<Rightarrow> form_failure + field_errors \<times> pydict" where
  "check_fields fr full records raw [] es out = Inr (es, out)"
| "check_fields fr full records raw (code # codes) es out =
     rbind (check_field fr full raw (field_rows records code)) (\<lambda>(w, ms).
     check_fields fr full records raw codes (add_errors (error_key code) ms es)
       (case w of None \<Rightarrow> out | Some x \<Rightarrow> out @ [(code, x)]))"

definition unknown_errors :: "form_field list \<Rightarrow> pydict \<Rightarrow> field_errors \<Rightarrow> field_errors" where
  "unknown_errors records raw es = foldl (\<lambda>es c. add_error (error_key c) ''Unknown field.'' es) es
     (filter (\<lambda>c. c \<notin> set (field_codes records)) (map fst raw))"

definition validate_and_normalize ::
  "float_text \<Rightarrow> form_field list \<Rightarrow> custom_input list \<Rightarrow> bool \<Rightarrow> form_failure + pydict" where
  "validate_and_normalize fr records supplied full =
     (let (raw, es) = collect_inputs supplied [] [] in
      rbind (check_fields fr full records raw (field_codes records) (unknown_errors records raw es) [])
        (\<lambda>(es', out). if es' = [] then Inr out else Inl (Invalid es')))"

definition stored_inputs :: "pydict \<Rightarrow> custom_input list" where
  "stored_inputs d = map (\<lambda>(k, v). \<lparr>in_code = k, in_value = v\<rparr>) d"

end
