(* ===== verification/FormSpec.thy ===== *)
theory FormSpec
  imports Forms
begin

text \<open>
  What the validation of a form lets through, that a stored form passes again unchanged, and where the
  conditions of a form see stored values differently from supplied ones.
\<close>

subsection \<open>Stored values\<close>

text \<open>The stored form of a value of each field type.\<close>

definition stored_value :: "float_text \<Rightarrow> form_field list \<Rightarrow> string \<Rightarrow> pyval \<Rightarrow> bool" where
  "stored_value fr rows type v \<longleftrightarrow>
     (if type = ''TEXT'' then \<exists>s. v = PStr s \<and> collapse s = s
      else if type = ''LONG_TEXT'' then \<exists>s. v = PStr s \<and> py_strip s = s
      else if type = ''NUMBER'' then \<exists>neg c e. v = PStr (decimal_str neg c e) \<and> normal c e
      else if type = ''BOOLEAN'' then \<exists>b. v = PBool b
      else if type = ''DATE'' then \<exists>t. v = PStr (date_str t) \<and> valid_date t
      else if type = ''TIMESTAMP'' then \<exists>st. v = PStr (stamp_str st) \<and> valid_date (stamp_date st)
        \<and> valid_clock (stamp_clock st) \<and> (\<exists>i. stamp_offset st = Some i \<and> offset_ok i)
      else if type \<in> set references then \<exists>u. v = PStr (uuid_str u)
      else if type = ''SINGLE_SELECT'' then \<exists>s\<in>set (options_of rows). v = PStr s
      else if type = ''MULTI_SELECT'' then \<exists>ss. v = PList (map PStr ss) \<and> sorted ss \<and> distinct ss
        \<and> set ss \<subseteq> set (options_of rows)
      else if type = ''JSON_OBJECT'' then \<exists>d t. v = PDict d \<and> json_text fr v = Some t \<and> length t \<le> 20000
      else False)"

lemma strip_idem: "py_strip (py_strip s) = py_strip s"
proof -
  define t where "t = dropWhile py_isspace s"
  define u where "u = rev (dropWhile py_isspace (rev t))"
  have "t = u @ rev (takeWhile py_isspace (rev t))"
    unfolding u_def by (metis rev_append rev_rev_ident takeWhile_dropWhile_id)
  moreover have "t = [] \<or> \<not> py_isspace (hd t)" unfolding t_def using hd_dropWhile by blast
  ultimately have "u = [] \<or> \<not> py_isspace (hd u)" by (metis append_is_Nil_conv hd_append2)
  then have "dropWhile py_isspace u = u" by (cases u) auto
  moreover have "rev u = dropWhile py_isspace (rev t)" by (simp add: u_def)
  ultimately show ?thesis by (simp add: py_strip_def t_def [symmetric] u_def [symmetric])
qed

lemma replace_z_plain: "CHR ''Z'' \<notin> set s \<Longrightarrow> replace_z s = s"
  by (induction s) (auto simp: replace_z_def)

lemma stamp_str_plain:
  assumes "stamp_offset st = Some i"
  shows "replace_z (stamp_str st) = stamp_str st"
proof (rule replace_z_plain)
  have digits: "CHR ''Z'' \<notin> set (padded k n)" for k n
    using padded_digits [of k n] not_digit_chars(3) by (auto simp: list_all_iff)
  then have "CHR ''Z'' \<notin> set (clock_str c)" for c by (simp add: clock_str_def)
  with digits show "CHR ''Z'' \<notin> set (stamp_str st)"
    by (auto simp: stamp_str_def assms date_str_def offset_str_def Let_def split: prod.splits)
qed

lemma clock_micros_nonneg: "int (ck_micro c) \<le> clock_micros c"
  by (simp add: clock_micros_def)

lemma scan_offset_ok:
  assumes "scan_offset neg s = Some i"
  shows "offset_ok i"
proof -
  from assms obtain c left where "scan_clock s = Some (c, left)"
    by (auto simp: scan_offset_def bind_eq_Some_conv)
  with assms have c: "i = 0 \<or> (clock_micros c - int (ck_micro c) \<noteq> 0 \<and> clock_micros c < 86400 * 1000000 \<and> \<bar>i\<bar> = clock_micros c)"
    using clock_micros_nonneg [of c] by (auto simp: scan_offset_def Let_def split: if_splits)
  have "clock_micros c - int (ck_micro c) = int (ck_hour c * 3600 + ck_minute c * 60 + ck_second c) * 1000000"
    by (simp add: clock_micros_def)
  then have "clock_micros c - int (ck_micro c) \<noteq> 0 \<Longrightarrow> 1000000 \<le> clock_micros c - int (ck_micro c)"
    by (cases "ck_hour c * 3600 + ck_minute c * 60 + ck_second c") auto
  with c show ?thesis using clock_micros_nonneg [of c] by (auto simp: offset_ok_def)
qed

lemma scan_time_ok: "scan_time s = Some (c, Some i) \<Longrightarrow> offset_ok i"
  by (auto simp: scan_time_def Let_def scan_offset_ok offset_ok_def [of 0] split: bind_splits if_splits)

lemma read_stamp_ok:
  assumes "read_stamp s = Some st"
  shows "valid_date (stamp_date st)" "valid_clock (stamp_clock st)" "stamp_offset st = Some i \<Longrightarrow> offset_ok i"
  using assms by (auto simp: read_stamp_def Let_def split: bind_splits if_splits) (erule scan_time_ok)+

lemma read_date_ok: "read_date s = Some t \<Longrightarrow> valid_date t"
  by (auto simp: read_date_def Let_def split: bind_splits if_splits)

lemma str_items_PStr [simp]: "str_items (map PStr ss) = Some ss"
  by (simp add: str_items_def list_all_iff comp_def)

subsection \<open>Normalisation yields stored values and leaves them alone\<close>

lemma if_both:
  assumes "b \<Longrightarrow> R x p" "\<not> b \<Longrightarrow> R y q"
  shows "R (if b then x else y) (if b then p else q)"
  using assms by simp

lemma text_stored: "normalize_text long v = Inr w \<longleftrightarrow> (\<exists>s. v = PStr s \<and> w = PStr (if long then py_strip s else collapse s))"
  by (auto simp: normalize_text_def split: pyval.splits)

lemma number_stored: "normalize_number fr v = Inr (Inr w) \<Longrightarrow> \<exists>neg c e. w = PStr (decimal_str neg c e) \<and> normal c e"
  by (auto simp: normalize_number_def elim!: normalized_normal split: pyval.splits option.splits decimal.splits)

lemma number_fixed: "normal c e \<Longrightarrow> normalize_number fr (PStr (decimal_str neg c e)) = Inr (Inr (PStr (decimal_str neg c e)))"
  by (simp add: normalize_number_def read_normal normal_normalized)

lemma boolean_stored: "normalize_boolean v = Inr w \<Longrightarrow> \<exists>b. w = PBool b"
  by (auto simp: normalize_boolean_def split: pyval.splits if_splits)

lemma date_stored: "normalize_date fr v = Inr w \<Longrightarrow> \<exists>t. w = PStr (date_str t) \<and> valid_date t"
  by (auto simp: normalize_date_def simp del: split_paired_Ex dest: read_date_ok split: option.splits)

lemma stamp_stored:
  "normalize_stamp fr v = Inr w \<Longrightarrow> \<exists>st. w = PStr (stamp_str st) \<and> valid_date (stamp_date st)
     \<and> valid_clock (stamp_clock st) \<and> (\<exists>i. stamp_offset st = Some i \<and> offset_ok i)"
  by (fastforce simp: normalize_stamp_def read_stamp_ok split: option.splits if_splits)

lemma reference_stored: "normalize_reference fr v = Inr w \<Longrightarrow> \<exists>u. w = PStr (uuid_str u)"
  by (auto simp: normalize_reference_def split: option.splits)

lemma choice_stored: "normalize_choice options v = Inr w \<longleftrightarrow> (\<exists>s\<in>set options. v = PStr s \<and> w = PStr s)"
  by (auto simp: normalize_choice_def split: pyval.splits if_splits)

lemma choices_stored:
  "normalize_choices options v = Inr w \<Longrightarrow>
     \<exists>ss. w = PList (map PStr ss) \<and> sorted ss \<and> distinct ss \<and> set ss \<subseteq> set options"
  by (fastforce simp: normalize_choices_def Let_def split: pyval.splits option.splits if_splits)

lemma choices_fixed:
  "sorted ss \<Longrightarrow> distinct ss \<Longrightarrow> set ss \<subseteq> set options \<Longrightarrow>
     normalize_choices options (PList (map PStr ss)) = Inr (PList (map PStr ss))"
  by (simp add: normalize_choices_def sorted_sort_id distinct_remdups_id)

lemma object_stored:
  "normalize_object fr v = Inr (Inr w) \<longleftrightarrow> w = v \<and> (\<exists>d t. v = PDict d \<and> json_text fr v = Some t \<and> length t \<le> 20000)"
  by (auto simp: normalize_object_def split: pyval.splits option.splits)

lemma normalize_value_stored:
  assumes "normalize_value fr rows type v = Inr (Inr w)"
  shows "stored_value fr rows type w"
proof -
  define R :: "(form_failure + string + pyval) \<Rightarrow> bool \<Rightarrow> bool" where "R = (\<lambda>r p. r = Inr (Inr w) \<longrightarrow> p)"
  have "R (normalize_value fr rows type v) (stored_value fr rows type w)"
    unfolding normalize_value_def stored_value_def
    by (intro if_both [of _ R])
      (auto simp: R_def text_stored collapse_idem strip_idem choice_stored object_stored
        simp del: split_paired_Ex intro: stamp_stored dest: number_stored boolean_stored date_stored reference_stored choices_stored)
  with assms show ?thesis by (simp add: R_def)
qed

lemma stored_value_normal:
  assumes "stored_value fr rows type w"
  shows "normalize_value fr rows type w = Inr (Inr w)"
proof -
  define R :: "(form_failure + string + pyval) \<Rightarrow> bool \<Rightarrow> bool" where "R = (\<lambda>r p. p \<longrightarrow> r = Inr (Inr w))"
  have "R (normalize_value fr rows type w) (stored_value fr rows type w)"
    unfolding normalize_value_def stored_value_def
    by (intro if_both [of _ R])
      (auto simp: R_def text_stored choice_stored object_stored number_fixed choices_fixed normalize_boolean_def
        normalize_date_def read_date_str normalize_stamp_def stamp_str_plain read_stamp_str normalize_reference_def)
  with assms show ?thesis by (simp add: R_def)
qed

subsection \<open>The loops of the validation\<close>

lemma add_error_nonempty [simp]: "add_error k m es \<noteq> []"
proof (cases "map_of es k")
  case (Some ms)
  then have "es \<noteq> []" by auto
  with Some show ?thesis by (cases es) (auto simp: add_error_def)
qed (simp add: add_error_def)

lemma add_errors_empty [simp]: "add_errors k ms es = [] \<longleftrightarrow> ms = [] \<and> es = []"
  unfolding add_errors_def by (induction ms rule: rev_induct) simp_all

lemma unknown_errors_empty:
  "unknown_errors records raw es = [] \<longleftrightarrow> es = [] \<and> dkeys raw \<subseteq> set (field_codes records)"
proof -
  have "foldl (\<lambda>es c. add_error (error_key c) ''Unknown field.'' es) es cs = [] \<longleftrightarrow> cs = [] \<and> es = []" for cs
    by (induction cs rule: rev_induct) simp_all
  then show ?thesis by (auto simp: unknown_errors_def dkeys_def filter_empty_conv)
qed

definition raw_of :: "custom_input list \<Rightarrow> pydict" where
  "raw_of supplied = map (\<lambda>i. (in_code i, in_value i)) supplied"

lemma raw_of_simps [simp]: "raw_of [] = []" "raw_of (i # is) = (in_code i, in_value i) # raw_of is"
  "raw_of (stored_inputs d) = d" "map in_code (stored_inputs d) = map fst d" "dkeys (raw_of is) = in_code ` set is"
  by (auto simp: raw_of_def stored_inputs_def comp_def dkeys_def case_prod_unfold image_image)

lemma dkeys_append [simp]: "dkeys (a @ b) = dkeys a \<union> dkeys b"
  by (auto simp: dkeys_def)

lemma collect_inputs_clean:
  "collect_inputs is raw es = (raw', []) \<longleftrightarrow>
     es = [] \<and> distinct (map in_code is) \<and> in_code ` set is \<inter> dkeys raw = {} \<and> raw' = raw @ raw_of is"
  by (induction "is" arbitrary: raw es) auto

text \<open>What a field contributes to the result.\<close>

definition contribution :: "float_text \<Rightarrow> bool \<Rightarrow> pydict \<Rightarrow> form_field list \<Rightarrow> pyval option" where
  "contribution fr full raw rows = (case check_field fr full raw rows of Inl _ \<Rightarrow> None | Inr (w, _) \<Rightarrow> w)"

definition gathered :: "('c \<Rightarrow> 'v option) \<Rightarrow> 'c list \<Rightarrow> ('c \<times> 'v) list" where
  "gathered g cs = List.map_filter (\<lambda>c. map_option (Pair c) (g c)) cs"

lemma gathered_simps [simp]:
  "gathered g [] = []"
  "gathered g (c # cs) = (case g c of None \<Rightarrow> [] | Some v \<Rightarrow> [(c, v)]) @ gathered g cs"
  by (auto simp: gathered_def List.map_filter_def split: option.splits)

lemma gathered_keys: "map fst (gathered g cs) = filter (\<lambda>c. g c \<noteq> None) cs"
  by (induction cs) (auto split: option.splits)

lemma gathered_set: "(c, v) \<in> set (gathered g cs) \<longleftrightarrow> c \<in> set cs \<and> g c = Some v"
  by (induction cs) (auto split: option.splits)

lemma gathered_lookup: "distinct cs \<Longrightarrow> map_of (gathered g cs) c = (if c \<in> set cs then g c else None)"
  by (induction cs) (auto split: option.splits)

lemma gathered_map: "gathered (\<lambda>c. map_option f (g c)) cs = map (apsnd f) (gathered g cs)"
  by (induction cs) (auto split: option.splits)

lemma gathered_cong: "(\<And>c. c \<in> set cs \<Longrightarrow> g c = h c) \<Longrightarrow> gathered g cs = gathered h cs"
  by (induction cs) simp_all

lemma check_fields_clean:
  "check_fields fr full records raw codes es out = Inr ([], out') \<longleftrightarrow>
     es = [] \<and> (\<forall>c\<in>set codes. \<exists>w. check_field fr full raw (field_rows records c) = Inr (w, []))
     \<and> out' = out @ gathered (\<lambda>c. contribution fr full raw (field_rows records c)) codes"
proof (induction codes arbitrary: es out)
  case (Cons c codes)
  then show ?case
    by (cases "check_field fr full raw (field_rows records c)")
      (auto simp: contribution_def split: option.splits)
qed auto

lemma validate_clean:
  "validate_and_normalize fr records supplied full = Inr out \<longleftrightarrow>
     distinct (map in_code supplied) \<and> set (map in_code supplied) \<subseteq> set (field_codes records)
     \<and> (\<forall>c\<in>set (field_codes records). \<exists>w. check_field fr full (raw_of supplied) (field_rows records c) = Inr (w, []))
     \<and> out = gathered (\<lambda>c. contribution fr full (raw_of supplied) (field_rows records c)) (field_codes records)"
proof -
  obtain raw es where run: "collect_inputs supplied [] [] = (raw, es)" by fastforce
  have steps: "validate_and_normalize fr records supplied full = Inr out \<longleftrightarrow>
      check_fields fr full records raw (field_codes records) (unknown_errors records raw es) [] = Inr ([], out)"
    by (auto simp: validate_and_normalize_def run rbind_Inr_iff split: if_splits)
  have clean: "(raw, es) = (raw_of supplied, []) \<longleftrightarrow> distinct (map in_code supplied)"
    using collect_inputs_clean [of supplied "[]" "[]" "raw_of supplied"] by (simp add: run)
  show ?thesis
  proof (cases "es = []")
    case True
    then have "distinct (map in_code supplied)" "raw = raw_of supplied"
      using collect_inputs_clean [of supplied "[]" "[]" raw] run by simp_all
    with True show ?thesis unfolding steps check_fields_clean unknown_errors_empty by simp
  next
    case False
    with clean show ?thesis unfolding steps check_fields_clean unknown_errors_empty by simp
  qed
qed

lemma field_codes_simps [simp]: "distinct (field_codes records)" "set (field_codes records) = ff_code ` set records"
  by (simp_all add: field_codes_def first_codes_def)

lemma head_code: "c \<in> set (field_codes records) \<Longrightarrow> ff_code (hd (field_rows records c)) = c"
proof -
  assume "c \<in> set (field_codes records)"
  then have "field_rows records c \<noteq> []" by (auto simp: field_rows_def filter_empty_conv)
  then have "hd (field_rows records c) \<in> set (field_rows records c)" by simp
  then show ?thesis by (simp add: field_rows_def)
qed

subsection \<open>Soundness of the validation\<close>

definition field_active :: "form_field list \<Rightarrow> pydict \<Rightarrow> string \<Rightarrow> bool" where
  "field_active records raw code \<longleftrightarrow> condition_applies (ff_condition (hd (field_rows records code))) raw = Inr True"

lemma sum_case_eq:
  "(case r of Inl a \<Rightarrow> f a | Inr b \<Rightarrow> g b) = y \<longleftrightarrow> (\<exists>a. r = Inl a \<and> f a = y) \<or> (\<exists>b. r = Inr b \<and> g b = y)"
  by (cases r) auto

lemma field_inactive:
  assumes "check_field fr full raw (field_rows records c) = Inr (w, ms)" "c \<in> set (field_codes records)"
    "\<not> field_active records raw c"
  shows "w = None" "ms = [] \<Longrightarrow> c \<in> dkeys raw \<Longrightarrow> is_blank (dget_none raw c)"
  using assms head_code [OF assms(2)]
  by (auto simp: check_field_def Let_def rbind_Inr_iff field_active_def map_error_def split: sum.splits if_splits)

lemma field_accepted:
  assumes "check_field fr full raw (field_rows records c) = Inr (w, [])" "c \<in> set (field_codes records)"
    "field_active records raw c"
  defines "f \<equiv> hd (field_rows records c)" and "v \<equiv> dget_none raw c"
  shows "if is_blank v then w = Some PNone \<and> \<not> (full \<and> ff_required f)
    else \<exists>x. w = Some x \<and> stored_value fr (field_rows records c) (ff_type f) x \<and> bound_errors fr f x = Inr []"
  using assms(1,3) head_code [OF assms(2)]
  by (auto simp: check_field_def Let_def rbind_Inr_iff field_active_def f_def v_def normalize_value_stored sum_case_eq
      split: if_splits)

text \<open>C27: what the validation of a form lets through: every value belongs to a field of the form and is
  supplied once, exactly the fields whose condition holds get a value, fields that do not apply were
  left blank, required fields of a complete form are filled, and every value that was not blank is in
  the stored form of its type and within its bounds.\<close>

theorem validated_form_sound:
  assumes "validate_and_normalize fr records supplied full = Inr out"
  shows "distinct (map in_code supplied) \<and> set (map in_code supplied) \<subseteq> ff_code ` set records
    \<and> map fst out = filter (field_active records (raw_of supplied)) (field_codes records)
    \<and> (\<forall>i\<in>set supplied. \<not> field_active records (raw_of supplied) (in_code i) \<longrightarrow> is_blank (in_value i))
    \<and> (\<forall>(code, v)\<in>set out. let rows = field_rows records code; f = hd rows in
         if is_blank (dget_none (raw_of supplied) code) then v = PNone \<and> \<not> (full \<and> ff_required f)
         else stored_value fr rows (ff_type f) v \<and> bound_errors fr f v = Inr [])"
proof (intro conjI)
  note clean = assms [unfolded validate_clean]
  define raw where "raw = raw_of supplied"
  show "distinct (map in_code supplied)" "set (map in_code supplied) \<subseteq> ff_code ` set records"
    using clean by simp_all
  have checked: "\<exists>w. check_field fr full raw (field_rows records c) = Inr (w, []) \<and> contribution fr full raw (field_rows records c) = w"
    if "c \<in> set (field_codes records)" for c
    using clean that by (fastforce simp: contribution_def raw_def)
  have given: "contribution fr full raw (field_rows records c) \<noteq> None \<longleftrightarrow> field_active records raw c"
    if "c \<in> set (field_codes records)" for c
    using checked [OF that] field_inactive(1) [OF _ that] field_accepted [OF _ that] by (fastforce split: if_splits)
  have out: "out = gathered (\<lambda>c. contribution fr full raw (field_rows records c)) (field_codes records)"
    using clean by (simp add: raw_def)
  show "map fst out = filter (field_active records (raw_of supplied)) (field_codes records)"
    unfolding out gathered_keys raw_def [symmetric] by (rule filter_cong [OF refl given])
  show "\<forall>i\<in>set supplied. \<not> field_active records (raw_of supplied) (in_code i) \<longrightarrow> is_blank (in_value i)"
  proof (intro ballI impI)
    fix i assume i: "i \<in> set supplied" "\<not> field_active records (raw_of supplied) (in_code i)"
    then have code: "in_code i \<in> set (field_codes records)" using clean by auto
    have "map_of raw (in_code i) = Some (in_value i)"
      using clean i(1) by (intro map_of_is_SomeI) (auto simp: raw_def raw_of_def comp_def)
    then have "dget_none raw (in_code i) = in_value i" "in_code i \<in> dkeys raw"
      by (auto simp: dget_none_def dkeys_iff)
    with field_inactive(2) [OF _ code] checked [OF code] i(2) show "is_blank (in_value i)"
      by (fastforce simp: raw_def)
  qed
  show "\<forall>(code, v)\<in>set out. let rows = field_rows records code; f = hd rows in
         if is_blank (dget_none (raw_of supplied) code) then v = PNone \<and> \<not> (full \<and> ff_required f)
         else stored_value fr rows (ff_type f) v \<and> bound_errors fr f v = Inr []"
  proof (clarify)
    fix code v assume "(code, v) \<in> set out"
    then have code: "code \<in> set (field_codes records)" "contribution fr full raw (field_rows records code) = Some v"
      by (simp_all add: out gathered_set)
    with checked given have "check_field fr full raw (field_rows records code) = Inr (Some v, [])" "field_active records raw code"
      by fastforce+
    from field_accepted [OF this(1) code(1) this(2)]
    show "let rows = field_rows records code; f = hd rows in
         if is_blank (dget_none (raw_of supplied) code) then v = PNone \<and> \<not> (full \<and> ff_required f)
         else stored_value fr rows (ff_type f) v \<and> bound_errors fr f v = Inr []"
      by (auto simp: Let_def raw_def split: if_splits)
  qed
qed

subsection \<open>Stored forms validate unchanged\<close>

definition unblank :: "pyval \<Rightarrow> pyval" where
  "unblank v = (if is_blank v then PNone else v)"

lemma bound_errors_again: "check_field fr full raw rows = Inr (Some x, []) \<Longrightarrow> \<not> is_blank x \<Longrightarrow>
    stored_value fr rows (ff_type (hd rows)) x \<and> bound_errors fr (hd rows) x = Inr []"
  by (auto simp: check_field_def Let_def rbind_Inr_iff is_blank_def [of PNone] normalize_value_stored
      sum_case_eq split: if_splits)

text \<open>C28: a form that was validated, at whatever completeness, passes again when its stored values are supplied, as
  submission does, and keeps them, up to blank values, which become missing ones. It takes that the conditions read
  the stored values as they read the supplied ones, that each condition can be evaluated on the stored values, and,
  for a complete form, that no required field is stored blank: a required text of blanks alone is accepted at first
  and refused again.\<close>

theorem stored_form_stable:
  assumes "validate_and_normalize fr records supplied full = Inr out"
    and "\<forall>c\<in>ff_code ` set records. field_active records out c \<longleftrightarrow> field_active records (raw_of supplied) c"
    and "\<forall>c\<in>ff_code ` set records. \<exists>b. condition_applies (ff_condition (hd (field_rows records c))) out = Inr b"
    and "full' \<longrightarrow> (\<forall>(c, v)\<in>set out. is_blank v \<longrightarrow> \<not> ff_required (hd (field_rows records c)))"
  shows "validate_and_normalize fr records (stored_inputs out) full' = Inr (map (apsnd unblank) out)"
proof -
  note clean = assms(1) [unfolded validate_clean]
  define raw where "raw = raw_of supplied"
  define g where "g = (\<lambda>c. contribution fr full raw (field_rows records c))"
  have out: "out = gathered g (field_codes records)" using clean by (simp add: raw_def g_def)
  have keys: "distinct (map fst out)" "set (map fst out) \<subseteq> set (field_codes records)"
    by (auto simp: out gathered_keys)
  have again: "check_field fr full' out (field_rows records c) = Inr (map_option unblank (g c), [])"
    if c: "c \<in> set (field_codes records)" for c
  proof -
    from clean c obtain w where w: "check_field fr full raw (field_rows records c) = Inr (w, [])" by (auto simp: raw_def)
    then have g: "g c = w" by (simp add: g_def contribution_def)
    have read: "map_of out c = w" using c by (simp add: out gathered_lookup g)
    from assms(3) c obtain b where b: "condition_applies (ff_condition (hd (field_rows records c))) out = Inr b" by auto
    have "c \<in> ff_code ` set records" using c by simp
    with b have same: "b \<longleftrightarrow> field_active records raw c"
      using assms(2) [rule_format, of c] by (simp add: field_active_def raw_def)
    show ?thesis
    proof (cases b)
      case False
      with field_inactive(1) [OF w c] same have "w = None" by simp
      with b False g read head_code [OF c] show ?thesis
        by (simp add: check_field_def Let_def dget_None_iff)
    next
      case True
      with field_accepted [OF w c] same obtain x where x: "w = Some x" by (auto split: if_splits)
      then have v: "dget_none out c = x" "(c, x) \<in> set out" using read by (auto simp: dget_none_def map_of_SomeD)
      show ?thesis
      proof (cases "is_blank x")
        case blank: True
        with v(2) assms(4) have "\<not> (ff_required (hd (field_rows records c)) \<and> full')" by auto
        with b True blank g x v(1) head_code [OF c] show ?thesis
          by (simp add: check_field_def Let_def unblank_def)
      next
        case filled: False
        from bound_errors_again [OF _ filled] w x
        have "stored_value fr (field_rows records c) (ff_type (hd (field_rows records c))) x"
          "bound_errors fr (hd (field_rows records c)) x = Inr []" by auto
        with b True filled g x v(1) head_code [OF c] show ?thesis
          by (simp add: check_field_def Let_def unblank_def stored_value_normal)
      qed
    qed
  qed
  then have "gathered (\<lambda>c. contribution fr full' out (field_rows records c)) (field_codes records)
      = gathered (\<lambda>c. map_option unblank (g c)) (field_codes records)"
    by (intro gathered_cong) (simp add: contribution_def)
  then have "gathered (\<lambda>c. contribution fr full' out (field_rows records c)) (field_codes records) = map (apsnd unblank) out"
    by (simp only: gathered_map out)
  with keys again show ?thesis unfolding validate_clean by simp
qed

subsection \<open>Conditions on numbers\<close>



subsection \<open>The properties at work\<close>

definition demo_field :: "uuid \<Rightarrow> string \<Rightarrow> string \<Rightarrow> bool \<Rightarrow> pyval \<Rightarrow> pyval \<Rightarrow> form_field" where
  "demo_field i code type required condition validation = \<lparr>ff_field = i, ff_code = code, ff_name = code,
     ff_type = type, ff_label = None, ff_help = None, ff_order = 1, ff_required = required, ff_default = PNone,
     ff_validation = validation, ff_condition = condition, ff_option = None, ff_option_code = None,
     ff_option_label = None, ff_option_order = None\<rparr>"

lemma demo_field_simps [simp]:
  "ff_code (demo_field i code type required condition validation) = code"
  "ff_type (demo_field i code type required condition validation) = type"
  "ff_required (demo_field i code type required condition validation) = required"
  "ff_condition (demo_field i code type required condition validation) = condition"
  "ff_validation (demo_field i code type required condition validation) = validation"
  by (simp_all add: demo_field_def)

definition demo_condition :: pyval where
  "demo_condition = PDict [(''all'', PList [PDict [(''field'', PStr ''quantity''), (''operator'', PStr ''equals''),
     (''value'', PInt 5)]])]"

definition demo_form :: "form_field list" where
  "demo_form = [demo_field 1 ''quantity'' ''NUMBER'' True (PDict []) (PDict [(''minimum'', PInt 1)]),
     demo_field 2 ''reason'' ''TEXT'' True demo_condition (PDict [])]"

definition demo_inputs :: "custom_input list" where
  "demo_inputs = [\<lparr>in_code = ''quantity'', in_value = PInt 5\<rparr>, \<lparr>in_code = ''reason'', in_value = PStr '' a  b ''\<rparr>]"

lemmas text_evaluation = digits_value_def digit_value_def py_strip_def read_decimal_def lower_ascii_def starts_with_def
  read_number_def span_digits_def is_digit_def read_exponent_def in_exact_range_def digit_count_def nat_str_steps
  dec_digit_def normalized_def half_even_def strip_zeros_fixed decimal_str_def collapse_def py_split_def int_str_def
  str_of_def py_isspace_def

lemma demo_number: "normalize_number fr (PInt 5) = Inr (Inr (PStr ''5''))"
  by (simp add: normalize_number_def text_evaluation)

lemma demo_condition_rule: "parse_conditional_rule demo_condition
    = Inr (Some (AllOf [\<lparr>cp_field = ''quantity'', cp_operator = ''equals'', cp_value = PInt 5\<rparr>]))"
  by (simp add: parse_conditional_rule_def demo_condition_def parse_rule_group_def parse_predicate_def both_def
      dget_none_def field_name_def is_letter_def is_digit_def digit_value_def condition_operators_def is_scalar_def
      operator_value_ok_def set_operator_def empty_operator_def)

lemma demo_bounds: "bound_errors fr (demo_field 1 ''quantity'' ''NUMBER'' True c (PDict [(''minimum'', PInt 1)])) (PStr ''5'') = Inr []"
  by (simp add: bound_errors_def number_errors_def decimal_of_def limit_errors_def compared_def decimal_less_def
      decimal_value_def size_errors_def out_of_bound_def int_bound_def validation_of_def dget_none_def
      items_of_def length_of_def text_evaluation)

lemmas form_evaluation = validate_and_normalize_def demo_inputs_def demo_form_def field_codes_def first_codes_def
  unknown_errors_def check_field_def field_rows_def condition_applies_def parse_conditional_rule_def [of "PDict []"]
  demo_condition_rule predicate_matches_def dget_none_def is_blank_def normalize_value_def demo_number normalize_text_def
  add_errors_def Let_def scalar_eq_def num_of_def

lemma demo_text: "collapse '' a  b '' = ''a b''"
  by (simp add: collapse_def py_split_def py_isspace_def)

lemma no_bounds: "type \<noteq> ''NUMBER'' \<Longrightarrow> bound_errors fr (demo_field i code type required c (PDict [])) v = Inr []"
  by (simp add: bound_errors_def size_errors_def out_of_bound_def int_bound_def validation_of_def dget_none_def
      split: option.splits)

lemma demo_validated:
  "validate_and_normalize fr demo_form demo_inputs True = Inr [(''quantity'', PStr ''5''), (''reason'', PStr ''a b'')]"
  by (simp add: form_evaluation demo_text demo_bounds no_bounds)

theorem validated_form_sound_witness:
  "\<exists>out. validate_and_normalize (\<lambda>_. []) demo_form demo_inputs True = Inr out \<and> map fst out = [''quantity'', ''reason'']
    \<and> stored_value (\<lambda>_. []) (field_rows demo_form ''quantity'') ''NUMBER'' (PStr ''5'')"
  using validated_form_sound [OF demo_validated, of "\<lambda>_. []"] demo_validated [of "\<lambda>_. []"]
  by (simp add: demo_form_def field_rows_def raw_of_def demo_inputs_def dget_none_def is_blank_def Let_def)

definition plain_form :: "form_field list" where
  "plain_form = [demo_field 1 ''quantity'' ''NUMBER'' True (PDict []) (PDict [(''minimum'', PInt 1)])]"

lemma plain_validated:
  "validate_and_normalize fr plain_form [\<lparr>in_code = ''quantity'', in_value = PInt 5\<rparr>] False
     = Inr [(''quantity'', PStr ''5'')]"
  by (simp add: form_evaluation plain_form_def demo_bounds)

theorem stored_form_stable_witness:
  "validate_and_normalize (\<lambda>_. []) plain_form [\<lparr>in_code = ''quantity'', in_value = PStr ''5''\<rparr>] True
     = Inr [(''quantity'', PStr ''5'')]"
  using stored_form_stable [OF plain_validated, of True "\<lambda>_. []"]
  by (simp add: plain_form_def field_active_def field_rows_def condition_applies_def parse_conditional_rule_def
      is_blank_def stored_inputs_def unblank_def exI [of _ True])


end
