(* ===== verification/Catalog.thy ===== *)
theory Catalog
  imports FormSpec HelpdeskDb "HOL-Library.Product_Lexorder"
begin

text \<open>
  \<open>catalog/repository.py\<close> and \<open>catalog/service.py\<close>: the published configuration that employees see and
  that drafts are bound to. Every query is read-only. Text is ordered by code points.
\<close>

subsection \<open>Tables\<close>

record project_row =
  pj_id :: uuid
  pj_tenant :: uuid
  pj_key :: string
  pj_name :: string
  pj_description :: "string option"
  pj_timezone :: string
  pj_active :: bool

record service_node_row =
  sn_id :: uuid
  sn_tenant :: uuid
  sn_parent :: "uuid option"
  sn_code :: string
  sn_name :: string
  sn_type :: string
  sn_order :: int
  sn_criticality :: "string option"
  sn_classification :: string
  sn_active :: bool

record work_type_row =
  wy_id :: uuid
  wy_tenant :: "uuid option"
  wy_code :: string
  wy_name :: string
  wy_active :: bool

record request_type_row =
  rq_id :: uuid
  rq_tenant :: uuid
  rq_project :: uuid
  rq_work_type :: uuid
  rq_workflow :: uuid
  rq_code :: string
  rq_name :: string
  rq_description :: "string option"
  rq_group :: "string option"
  rq_order :: int
  rq_visible :: bool
  rq_active :: bool

record request_version_row =
  rv_id :: uuid
  rv_type :: uuid
  rv_number :: int
  rv_status :: string
  rv_published :: "instant option"
  rv_retired :: "instant option"
  rv_start :: "instant option"
  rv_end :: "instant option"

record custom_field_row =
  cf_id :: uuid
  cf_tenant :: uuid
  cf_code :: string
  cf_name :: string
  cf_type :: string
  cf_validation :: pyval
  cf_active :: bool

record field_option_row =
  fo_id :: uuid
  fo_field :: uuid
  fo_code :: string
  fo_label :: string
  fo_order :: int
  fo_active :: bool

record layout_row =
  ly_version :: uuid
  ly_field :: uuid
  ly_label :: "string option"
  ly_help :: "string option"
  ly_order :: int
  ly_required :: bool
  ly_hidden :: bool
  ly_default :: pyval
  ly_condition :: pyval

record environment_row =
  en_id :: uuid
  en_tenant :: uuid
  en_code :: string
  en_name :: string
  en_node :: "uuid option"
  en_active :: bool

record catalogue_db =
  cat_tenants :: "(uuid \<times> bool) list"
  cat_projects :: "project_row list"
  cat_nodes :: "service_node_row list"
  cat_work_types :: "work_type_row list"
  cat_request_types :: "request_type_row list"
  cat_versions :: "request_version_row list"
  cat_fields :: "custom_field_row list"
  cat_options :: "field_option_row list"
  cat_layouts :: "layout_row list"
  cat_environments :: "environment_row list"

subsection \<open>Queries\<close>

definition tenant_active :: "uuid \<Rightarrow> catalogue_db \<Rightarrow> bool" where
  "tenant_active tenant db \<longleftrightarrow> (tenant, True) \<in> set (cat_tenants db)"

definition page :: "nat \<Rightarrow> nat \<Rightarrow> 'a list \<Rightarrow> 'a list" where
  "page limit offset xs = take limit (drop offset xs)"

definition visible_project :: "uuid \<Rightarrow> catalogue_db \<Rightarrow> project_row \<Rightarrow> bool" where
  "visible_project tenant db p \<longleftrightarrow> pj_tenant p = tenant \<and> pj_active p \<and> tenant_active tenant db"

definition projects_query :: "uuid \<Rightarrow> nat \<Rightarrow> nat \<Rightarrow> catalogue_db \<Rightarrow> project_row list" where
  "projects_query tenant limit offset db = page limit offset
     (sort_key (\<lambda>p. (pj_key p, pj_id p)) (filter (visible_project tenant db) (cat_projects db)))"

definition project_query :: "uuid \<Rightarrow> uuid \<Rightarrow> catalogue_db \<Rightarrow> project_row option" where
  "project_query tenant i db = find (\<lambda>p. visible_project tenant db p \<and> pj_id p = i) (cat_projects db)"

definition node_exists :: "uuid \<Rightarrow> uuid \<Rightarrow> catalogue_db \<Rightarrow> bool" where
  "node_exists tenant i db \<longleftrightarrow> (\<exists>n\<in>set (cat_nodes db). sn_tenant n = tenant \<and> sn_id n = i \<and> sn_active n)"

definition nodes_query :: "uuid \<Rightarrow> uuid option \<Rightarrow> nat \<Rightarrow> nat \<Rightarrow> catalogue_db \<Rightarrow> service_node_row list" where
  "nodes_query tenant parent limit offset db = page limit offset
     (sort_key (\<lambda>n. (sn_order n, sn_name n, sn_id n))
       (filter (\<lambda>n. sn_tenant n = tenant \<and> sn_active n \<and> sn_parent n = parent) (cat_nodes db)))"

text \<open>
  The effective versions of a request type, latest first (\<open>NULLS LAST\<close>): the query keeps the first and
  reports how many there are.
\<close>

definition effective_version :: "instant \<Rightarrow> request_version_row \<Rightarrow> bool" where
  "effective_version now v \<longleftrightarrow> rv_status v = ''PUBLISHED''
     \<and> (case rv_published v of None \<Rightarrow> False | Some p \<Rightarrow> p \<le> now)
     \<and> rv_retired v = None \<and> in_force (rv_start v) (rv_end v) now"

definition version_rank :: "request_version_row \<Rightarrow> int \<times> int \<times> int \<times> uuid" where
  "version_rank v = (case rv_start v of None \<Rightarrow> (1, 0, - rv_number v, rv_id v)
     | Some s \<Rightarrow> (0, - s, - rv_number v, rv_id v))"

definition effective_versions :: "uuid \<Rightarrow> instant \<Rightarrow> catalogue_db \<Rightarrow> request_version_row list" where
  "effective_versions rt now db = sort_key version_rank
     (filter (\<lambda>v. rv_type v = rt \<and> effective_version now v) (cat_versions db))"

record request_type_version =
  ver_id :: uuid
  ver_number :: int
  ver_start :: "instant option"
  ver_end :: "instant option"
  ver_count :: nat

record request_type_summary =
  rs_id :: uuid
  rs_project :: uuid
  rs_code :: string
  rs_name :: string
  rs_description :: "string option"
  rs_group :: "string option"
  rs_order :: int
  rs_work_type :: "string \<times> string"
  rs_version :: request_type_version

definition visible_request_type :: "uuid \<Rightarrow> catalogue_db \<Rightarrow> request_type_row \<Rightarrow> bool" where
  "visible_request_type tenant db r \<longleftrightarrow> rq_tenant r = tenant \<and> rq_active r \<and> rq_visible r
     \<and> (\<exists>p\<in>set (cat_projects db). pj_id p = rq_project r \<and> visible_project tenant db p)"

definition summary_of :: "uuid \<Rightarrow> instant \<Rightarrow> catalogue_db \<Rightarrow> request_type_row \<Rightarrow> request_type_summary option" where
  "summary_of tenant now db r =
     (case (effective_versions (rq_id r) now db, find (\<lambda>w. wy_id w = rq_work_type r) (cat_work_types db)) of
        (v # vs, Some w) \<Rightarrow>
          if visible_request_type tenant db r \<and> wy_active w \<and> (wy_tenant w = None \<or> wy_tenant w = Some tenant)
          then Some \<lparr>rs_id = rq_id r, rs_project = rq_project r, rs_code = rq_code r, rs_name = rq_name r,
            rs_description = rq_description r, rs_group = rq_group r, rs_order = rq_order r,
            rs_work_type = (wy_code w, wy_name w),
            rs_version = \<lparr>ver_id = rv_id v, ver_number = rv_number v, ver_start = rv_start v,
              ver_end = rv_end v, ver_count = length (v # vs)\<rparr>\<rparr>
          else None
      | _ \<Rightarrow> None)"

definition request_types_query ::
  "uuid \<Rightarrow> uuid \<Rightarrow> instant \<Rightarrow> nat \<Rightarrow> nat \<Rightarrow> catalogue_db \<Rightarrow> request_type_summary list" where
  "request_types_query tenant project now limit offset db = page limit offset
     (sort_key (\<lambda>s. (rs_order s, rs_name s, rs_id s))
       (List.map_filter (summary_of tenant now db)
         (filter (\<lambda>r. rq_project r = project) (cat_request_types db))))"

definition request_type_query :: "uuid \<Rightarrow> uuid \<Rightarrow> instant \<Rightarrow> catalogue_db \<Rightarrow> request_type_summary option" where
  "request_type_query tenant i now db =
     Option.bind (find (\<lambda>r. rq_id r = i) (cat_request_types db)) (summary_of tenant now db)"

definition request_type_exists :: "uuid \<Rightarrow> uuid \<Rightarrow> catalogue_db \<Rightarrow> bool" where
  "request_type_exists tenant i db \<longleftrightarrow>
     (\<exists>r\<in>set (cat_request_types db). rq_id r = i \<and> visible_request_type tenant db r)"

text \<open>The rows of a form: one per visible field and active option.\<close>

definition form_row :: "layout_row \<Rightarrow> custom_field_row \<Rightarrow> field_option_row option \<Rightarrow> form_field" where
  "form_row l f opt = \<lparr>ff_field = cf_id f, ff_code = cf_code f, ff_name = cf_name f, ff_type = cf_type f,
     ff_label = ly_label l, ff_help = ly_help l, ff_order = ly_order l, ff_required = ly_required l,
     ff_default = ly_default l, ff_validation = cf_validation f, ff_condition = ly_condition l,
     ff_option = map_option fo_id opt, ff_option_code = map_option fo_code opt,
     ff_option_label = map_option fo_label opt, ff_option_order = map_option fo_order opt\<rparr>"

definition options_query :: "uuid \<Rightarrow> catalogue_db \<Rightarrow> field_option_row option list" where
  "options_query field db = (let opts = filter (\<lambda>x. fo_field x = field \<and> fo_active x) (cat_options db) in
     if opts = [] then [None] else map Some opts)"

definition layout_rows :: "uuid \<Rightarrow> catalogue_db \<Rightarrow> layout_row \<Rightarrow> form_field list" where
  "layout_rows tenant db l =
     (case find (\<lambda>f. cf_id f = ly_field l \<and> cf_tenant f = tenant \<and> cf_active f) (cat_fields db) of
        None \<Rightarrow> [] | Some f \<Rightarrow> map (form_row l f) (options_query (cf_id f) db))"

definition option_key :: "'a \<Rightarrow> 'a option \<Rightarrow> nat \<times> 'a" where
  "option_key d v = (case v of None \<Rightarrow> (1, d) | Some x \<Rightarrow> (0, x))"

definition form_key :: "form_field \<Rightarrow> int \<times> string \<times> uuid \<times> (nat \<times> int) \<times> (nat \<times> string) \<times> (nat \<times> uuid)" where
  "form_key r = (ff_order r, ff_code r, ff_field r, option_key 0 (ff_option_order r),
     option_key [] (ff_option_label r), option_key 0 (ff_option r))"

definition form_fields_query :: "uuid \<Rightarrow> uuid \<Rightarrow> catalogue_db \<Rightarrow> form_field list" where
  "form_fields_query tenant version db = sort_key form_key
     (concat (map (layout_rows tenant db)
       (filter (\<lambda>l. ly_version l = version \<and> \<not> ly_hidden l) (cat_layouts db))))"

definition environments_query :: "uuid \<Rightarrow> uuid option \<Rightarrow> catalogue_db \<Rightarrow> environment_row list" where
  "environments_query tenant node db = sort_key (\<lambda>e. (en_name e, en_id e))
     (filter (\<lambda>e. en_tenant e = tenant \<and> en_active e \<and> (node = None \<or> en_node e = node)) (cat_environments db))"

record request_binding =
  rb_type :: uuid
  rb_version :: uuid
  rb_project :: uuid
  rb_work_type :: uuid
  rb_workflow :: uuid
  rb_status :: string
  rb_active :: bool
  rb_visible :: bool

definition binding_query :: "uuid \<Rightarrow> uuid \<Rightarrow> uuid \<Rightarrow> catalogue_db \<Rightarrow> request_binding option" where
  "binding_query tenant rt version db =
     (case (find (\<lambda>r. rq_id r = rt \<and> rq_tenant r = tenant) (cat_request_types db),
            find (\<lambda>v. rv_id v = version \<and> rv_type v = rt) (cat_versions db)) of
        (Some r, Some v) \<Rightarrow> Some \<lparr>rb_type = rt, rb_version = version, rb_project = rq_project r,
          rb_work_type = rq_work_type r, rb_workflow = rq_workflow r, rb_status = rv_status v,
          rb_active = rq_active r, rb_visible = rq_visible r\<rparr>
      | _ \<Rightarrow> None)"

subsection \<open>The catalogue service\<close>

definition configuration_conflict :: app_error where
  "configuration_conflict = ConflictError ''Published catalogue configuration is inconsistent.''"

definition tenant_of :: "request_context \<Rightarrow> app_error + uuid" where
  "tenant_of ctx = of_option AuthorizationError (ctx_tenant_id ctx)"

definition allow :: "request_context \<Rightarrow> permission \<Rightarrow> authorization_resource option \<Rightarrow> app_error + unit" where
  "allow ctx p resource = require (is_allowed ctx p resource) AuthorizationError"

definition tenant_resource :: "uuid option \<Rightarrow> uuid option \<Rightarrow> authorization_resource" where
  "tenant_resource tenant project = \<lparr>res_tenant_id = tenant, res_service_project_id = project,
     res_owner_user_id = None, res_reporter_user_id = None, res_requested_for_user_id = None,
     res_participant_user_ids = [], res_support_group_id = None, res_business_unit_id = None,
     res_security_classification = None, res_environment_code = None, res_tool_code = None\<rparr>"

definition list_projects :: "request_context \<Rightarrow> nat \<Rightarrow> nat \<Rightarrow> catalogue_db \<Rightarrow> app_error + project_row list" where
  "list_projects ctx limit offset db = rbind (tenant_of ctx) (\<lambda>tenant.
     rbind (allow ctx CATALOG_PROJECT_LIST None) (\<lambda>_. Inr (projects_query tenant limit offset db)))"

definition get_project :: "request_context \<Rightarrow> uuid \<Rightarrow> catalogue_db \<Rightarrow> app_error + project_row" where
  "get_project ctx i db = rbind (tenant_of ctx) (\<lambda>tenant.
     rbind (allow ctx CATALOG_PROJECT_LIST None) (\<lambda>_.
     rbind (of_option NotFoundError (project_query tenant i db)) (\<lambda>p.
     rbind (allow ctx CATALOG_PROJECT_LIST (Some (tenant_resource (Some tenant) (Some (pj_id p))))) (\<lambda>_.
     Inr p))))"

definition list_services ::
  "request_context \<Rightarrow> uuid \<Rightarrow> uuid option \<Rightarrow> nat \<Rightarrow> nat \<Rightarrow> catalogue_db \<Rightarrow> app_error + service_node_row list" where
  "list_services ctx project parent limit offset db = rbind (tenant_of ctx) (\<lambda>tenant.
     rbind (allow ctx CATALOG_SERVICE_READ None) (\<lambda>_.
     rbind (get_project ctx project db) (\<lambda>_.
     rbind (case parent of None \<Rightarrow> Inr () | Some n \<Rightarrow> require (node_exists tenant n db) NotFoundError) (\<lambda>_.
     Inr (nodes_query tenant parent limit offset db)))))"

definition ensure_unambiguous :: "request_type_summary list \<Rightarrow> app_error + unit" where
  "ensure_unambiguous rows = require (list_all (\<lambda>r. ver_count (rs_version r) = 1) rows) configuration_conflict"

definition evaluation_time :: "service_env \<Rightarrow> instant option \<Rightarrow> instant" where
  "evaluation_time env at_time = (case at_time of None \<Rightarrow> env_wall env | Some t \<Rightarrow> t)"

definition list_request_types ::
  "service_env \<Rightarrow> request_context \<Rightarrow> uuid \<Rightarrow> nat \<Rightarrow> nat \<Rightarrow> instant option \<Rightarrow> catalogue_db
    \<Rightarrow> app_error + instant \<times> request_type_summary list" where
  "list_request_types env ctx project limit offset at_time db = rbind (tenant_of ctx) (\<lambda>tenant.
     rbind (allow ctx CATALOG_REQUEST_TYPE_LIST None) (\<lambda>_.
     rbind (get_project ctx project db) (\<lambda>_.
     let now = evaluation_time env at_time; rows = request_types_query tenant project now limit offset db in
     rbind (ensure_unambiguous rows) (\<lambda>_. Inr (now, rows)))))"

definition get_request_type ::
  "service_env \<Rightarrow> request_context \<Rightarrow> uuid \<Rightarrow> instant option \<Rightarrow> catalogue_db
    \<Rightarrow> app_error + instant \<times> request_type_summary" where
  "get_request_type env ctx i at_time db = rbind (tenant_of ctx) (\<lambda>tenant.
     rbind (allow ctx CATALOG_REQUEST_TYPE_LIST None) (\<lambda>_.
     let now = evaluation_time env at_time in
     case request_type_query tenant i now db of
       None \<Rightarrow> Inl (if request_type_exists tenant i db then configuration_conflict else NotFoundError)
     | Some r \<Rightarrow> rbind (ensure_unambiguous [r]) (\<lambda>_. Inr (now, r))))"

subsection \<open>Rendering a form\<close>

text \<open>Pydantic's coercions to \<open>int\<close> and to a finite \<open>Decimal\<close> are parameters.\<close>

record coercions =
  lax_int :: "pyval \<Rightarrow> int option"
  lax_decimal :: "pyval \<Rightarrow> rat option"

record field_validation =
  fv_min_length :: "int option"
  fv_max_length :: "int option"
  fv_minimum :: "rat option"
  fv_maximum :: "rat option"
  fv_min_items :: "int option"
  fv_max_items :: "int option"
  fv_pattern :: "string option"

definition optional_entry :: "(pyval \<Rightarrow> 'a option) \<Rightarrow> ('a \<Rightarrow> bool) \<Rightarrow> pydict \<Rightarrow> string \<Rightarrow> 'a option option" where
  "optional_entry f ok d k = (let v = dget_none d k in
     if v = PNone then Some None
     else case f v of None \<Rightarrow> None | Some x \<Rightarrow> if ok x then Some (Some x) else None)"

definition text_value :: "pyval \<Rightarrow> string option" where
  "text_value v = (case v of PStr s \<Rightarrow> Some s | _ \<Rightarrow> None)"

definition ordered :: "'a::linorder option \<Rightarrow> 'a option \<Rightarrow> bool" where
  "ordered a b \<longleftrightarrow> (case (a, b) of (Some x, Some y) \<Rightarrow> x \<le> y | _ \<Rightarrow> True)"

definition validation_keys :: "string list" where
  "validation_keys = [''minimum_length'', ''maximum_length'', ''minimum'', ''maximum'', ''minimum_items'',
     ''maximum_items'', ''pattern'']"

definition field_validation_of :: "coercions \<Rightarrow> pyval \<Rightarrow> field_validation option" where
  "field_validation_of co v = (case v of
       PDict d \<Rightarrow>
         if \<not> dkeys d \<subseteq> set validation_keys then None else
         Option.bind (optional_entry (lax_int co) (\<lambda>i. 0 \<le> i) d ''minimum_length'') (\<lambda>a.
         Option.bind (optional_entry (lax_int co) (\<lambda>i. 1 \<le> i) d ''maximum_length'') (\<lambda>b.
         Option.bind (optional_entry (lax_decimal co) (\<lambda>_. True) d ''minimum'') (\<lambda>lo.
         Option.bind (optional_entry (lax_decimal co) (\<lambda>_. True) d ''maximum'') (\<lambda>hi.
         Option.bind (optional_entry (lax_int co) (\<lambda>i. 0 \<le> i) d ''minimum_items'') (\<lambda>m.
         Option.bind (optional_entry (lax_int co) (\<lambda>i. 1 \<le> i) d ''maximum_items'') (\<lambda>n.
         Option.bind (optional_entry text_value (\<lambda>s. length s \<le> 256) d ''pattern'') (\<lambda>p.
         if ordered a b \<and> ordered lo hi \<and> ordered m n
         then Some \<lparr>fv_min_length = a, fv_max_length = b, fv_minimum = lo, fv_maximum = hi,
           fv_min_items = m, fv_max_items = n, fv_pattern = p\<rparr>
         else None)))))))
     | _ \<Rightarrow> None)"

definition catalogue_field_types :: "string list" where
  "catalogue_field_types = [''TEXT'', ''LONG_TEXT'', ''NUMBER'', ''DATE'', ''TIMESTAMP'', ''BOOLEAN'',
     ''SINGLE_SELECT'', ''MULTI_SELECT'', ''USER'', ''GROUP'', ''SERVICE'', ''MODULE'', ''ASSET'', ''JSON_OBJECT'']"

record field_option =
  op_id :: uuid
  op_value :: "string option"
  op_label :: "string option"
  op_order :: "int option"

record form_field_response =
  fp_field :: uuid
  fp_code :: string
  fp_type :: string
  fp_label :: string
  fp_description :: "string option"
  fp_required :: bool
  fp_order :: int
  fp_default :: pyval
  fp_validation :: field_validation
  fp_condition :: "conditional_rule option"
  fp_options :: "field_option list"

text \<open>\<open>itertools.groupby\<close>: runs of rows with the same key.\<close>

function runs :: "('a \<Rightarrow> 'k) \<Rightarrow> 'a list \<Rightarrow> 'a list list" where
  "runs k [] = []"
| "runs k (x # xs) = (x # takeWhile (\<lambda>y. k y = k x) xs) # runs k (dropWhile (\<lambda>y. k y = k x) xs)"
  by pat_completeness auto
termination by (relation "measure (\<lambda>(k, xs). length xs)") (auto simp: le_imp_less_Suc length_dropWhile_le)

definition field_option_of :: "form_field \<Rightarrow> field_option option" where
  "field_option_of r = map_option (\<lambda>i. \<lparr>op_id = i, op_value = ff_option_code r, op_label = ff_option_label r,
     op_order = ff_option_order r\<rparr>) (ff_option r)"

definition shown_label :: "form_field \<Rightarrow> string" where
  "shown_label r = (case ff_label r of None \<Rightarrow> ff_name r | Some l \<Rightarrow> if l = [] then ff_name r else l)"

definition field_response :: "coercions \<Rightarrow> form_field list \<Rightarrow> unit + form_field_response" where
  "field_response co rows = (let r = hd rows in
     rbind (of_option () (field_validation_of co (ff_validation r))) (\<lambda>v.
     rbind (parse_conditional_rule (ff_condition r)) (\<lambda>c.
     rbind (require (ff_type r \<in> set catalogue_field_types) ()) (\<lambda>_.
     Inr \<lparr>fp_field = ff_field r, fp_code = ff_code r, fp_type = ff_type r, fp_label = shown_label r,
       fp_description = ff_help r, fp_required = ff_required r, fp_order = ff_order r,
       fp_default = ff_default r, fp_validation = v, fp_condition = c,
       fp_options = List.map_filter field_option_of rows\<rparr>))))"

definition form_responses :: "coercions \<Rightarrow> form_field list \<Rightarrow> unit + form_field_response list" where
  "form_responses co records = map_result (field_response co) (runs ff_field records)"

record request_form =
  fm_request_type :: request_type_summary
  fm_evaluated :: instant
  fm_project :: project_row
  fm_fields :: "form_field_response list"

definition form ::
  "coercions \<Rightarrow> service_env \<Rightarrow> request_context \<Rightarrow> uuid \<Rightarrow> instant option \<Rightarrow> catalogue_db \<Rightarrow> app_error + request_form" where
  "form co env ctx i at_time db = rbind (tenant_of ctx) (\<lambda>tenant.
     rbind (allow ctx CATALOG_FORM_READ None) (\<lambda>_.
     rbind (get_request_type env ctx i at_time db) (\<lambda>(now, rt).
     rbind (get_project ctx (rs_project rt) db) (\<lambda>p.
     rbind (map_error (\<lambda>_. configuration_conflict)
       (form_responses co (form_fields_query tenant (ver_id (rs_version rt)) db))) (\<lambda>fields.
     Inr \<lparr>fm_request_type = rt, fm_evaluated = now, fm_project = p, fm_fields = fields\<rparr>)))))"

end
