(* ===== verification/Desk.thy ===== *)
theory Desk
  imports Catalog Workflow PyText
begin

text \<open>
  The tables of drafts and submitted tickets, and the statements of \<open>tickets/repository.py\<close> with the
  constraints and triggers they meet. The tables shared with the case services and the published catalogue
  are parts of the state. JSON objects keep the order in which they were written; the wall-clock column
  \<open>updated_at\<close> of tickets and the time of the creation event, which is that of the ticket, are left out.
\<close>

subsection \<open>Tables\<close>

record draft_row =
  dr_id :: uuid
  dr_tenant :: uuid
  dr_owner :: uuid
  dr_requested_for :: "uuid option"
  dr_project :: uuid
  dr_node :: "uuid option"
  dr_type :: uuid
  dr_version :: uuid
  dr_work_type :: uuid
  dr_environment :: "uuid option"
  dr_summary :: string
  dr_description :: "string option"
  dr_custom :: pydict
  dr_impact :: "string option"
  dr_urgency :: "string option"
  dr_priority :: "string option"
  dr_matrix :: "uuid option"
  dr_status :: string
  dr_ticket :: "uuid option"
  dr_created :: instant
  dr_updated :: instant
  dr_row_version :: int
  dr_expires :: "instant option"
  dr_conversation :: "uuid option"

record matrix_row =
  mx_id :: uuid
  mx_tenant :: "uuid option"
  mx_project :: "uuid option"
  mx_node :: "uuid option"
  mx_impact :: string
  mx_urgency :: string
  mx_priority :: string
  mx_order :: int
  mx_from :: instant
  mx_to :: "instant option"
  mx_status :: string

record workflow_version_row =
  wv_id :: uuid
  wv_workflow :: uuid
  wv_status :: string
  wv_published :: "instant option"
  wv_from :: "instant option"
  wv_to :: "instant option"

text \<open>A row of \<open>itsm.ticket_custom_value\<close> has at most one of its typed columns set.\<close>

datatype custom_value =
    NoValue
  | TextValue string
  | NumberValue decimal
  | DateValue civil_date
  | StampValue stamp
  | BoolValue bool
  | UserValue uuid
  | GroupValue uuid
  | ServiceValue uuid
  | OptionValue uuid
  | JsonValue pyval

record custom_value_row =
  cv_ticket :: uuid
  cv_field :: uuid
  cv_value :: custom_value

record watch_row =
  wa_id :: uuid
  wa_tenant :: uuid
  wa_owner :: uuid
  wa_ticket :: uuid
  wa_at :: instant

record ticket_sla_row =
  ts_ticket :: uuid
  ts_code :: string
  ts_state :: string
  ts_target :: "instant option"
  ts_remaining :: "int option"
  ts_paused :: "instant option"
  ts_breached :: "instant option"
  ts_completed :: "instant option"

text \<open>
  \<open>conversations\<close> pairs a conversation with its user, \<open>initial_statuses\<close> a workflow version with each status
  that is marked initial. \<open>active_codes\<close> holds the active impacts, urgencies and priorities, \<open>next_number\<close>
  the counters that number the tickets of a project.
\<close>

record desk_db =
  desk_case :: helpdesk_db
  desk_catalogue :: catalogue_db
  drafts :: "draft_row list"
  conversations :: "(uuid \<times> uuid) list"
  priority_matrix :: "matrix_row list"
  active_codes :: "string list \<times> string list \<times> string list"
  workflow_versions :: "workflow_version_row list"
  initial_statuses :: "(uuid \<times> uuid) list"
  next_number :: "uuid \<Rightarrow> int option"
  custom_rows :: "custom_value_row list"
  watchlist :: "watch_row list"
  sla_rows :: "ticket_sla_row list"

type_synonym 'a desk_op = "(desk_db, app_error, 'a) op"

text \<open>The SHA-256 digest of a text, the shortest text of a float, and the zone of the database session.\<close>

record desk_env = service_env +
  env_text_digest :: "string \<Rightarrow> string"
  env_float :: float_text
  env_local :: "stamp \<Rightarrow> instant"

definition on_case :: "'a db_op \<Rightarrow> 'a desk_op" where
  "on_case m db = (case m (desk_case db) of Inl e \<Rightarrow> Inl e | Inr (x, c) \<Rightarrow> Inr (x, db\<lparr>desk_case := c\<rparr>))"

subsection \<open>Drafts\<close>

definition draft_query :: "uuid \<Rightarrow> uuid \<Rightarrow> desk_db \<Rightarrow> draft_row option" where
  "draft_query tenant i db = find (\<lambda>d. dr_tenant d = tenant \<and> dr_id d = i) (drafts db)"

definition draft_for_conversation :: "uuid \<Rightarrow> uuid \<Rightarrow> uuid \<Rightarrow> desk_db \<Rightarrow> draft_row option" where
  "draft_for_conversation tenant user conversation db =
     (if (conversation, user) \<in> set (conversations db)
      then find (\<lambda>d. dr_tenant d = tenant \<and> dr_owner d = user \<and> dr_conversation d = Some conversation) (drafts db)
      else None)"

text \<open>\<open>INSERT INTO itsm.ticket_draft\<close>: one draft per conversation, and the conversation must exist.\<close>

definition insert_draft :: "draft_row \<Rightarrow> draft_row desk_op" where
  "insert_draft d = bindS (on_case draw_uuid) (\<lambda>i db.
     let row = d\<lparr>dr_id := i\<rparr> in
     if i \<in> dr_id ` set (drafts db) then Inl (IntegrityError ''ticket_draft_pkey'') else
     case dr_conversation d of
       None \<Rightarrow> Inr (row, db\<lparr>drafts := drafts db @ [row]\<rparr>)
     | Some c \<Rightarrow>
         if c \<notin> fst ` set (conversations db) then Inl (IntegrityError ''ticket_draft_source_conversation_id_fkey'')
         else if \<exists>x\<in>set (drafts db). dr_conversation x = Some c
         then Inl (IntegrityError ''ticket_draft_source_conversation_ux'')
         else Inr (row, db\<lparr>drafts := drafts db @ [row]\<rparr>))"

text \<open>The trigger of an update: a submitted draft is immutable, any other gets the next version.\<close>

definition touched :: "instant \<Rightarrow> (draft_row \<Rightarrow> draft_row) \<Rightarrow> draft_row \<Rightarrow> draft_row" where
  "touched now f d = (f d)\<lparr>dr_updated := now, dr_row_version := dr_row_version d + 1\<rparr>"

definition update_drafts ::
  "instant \<Rightarrow> (draft_row \<Rightarrow> bool) \<Rightarrow> (draft_row \<Rightarrow> draft_row) \<Rightarrow> draft_row option desk_op" where
  "update_drafts now p f db =
     (if \<exists>d\<in>set (drafts db). p d \<and> dr_status d = ''SUBMITTED''
      then Inl (IntegrityError ''Submitted ticket drafts are immutable'')
      else Inr (map_option (touched now f) (find p (drafts db)),
        db\<lparr>drafts := map (\<lambda>d. if p d then touched now f d else d) (drafts db)\<rparr>))"

definition open_at :: "uuid \<Rightarrow> int \<Rightarrow> draft_row \<Rightarrow> bool" where
  "open_at i version d \<longleftrightarrow> dr_id d = i \<and> dr_row_version d = version
     \<and> dr_status d \<in> {''DRAFT'', ''READY_FOR_REVIEW''}"

record draft_values =
  dv_requested_for :: "uuid option"
  dv_node :: "uuid option"
  dv_environment :: "uuid option"
  dv_summary :: string
  dv_description :: "string option"
  dv_custom :: pydict
  dv_impact :: string
  dv_urgency :: string
  dv_priority :: "string \<times> uuid"

definition write_draft :: "instant \<Rightarrow> uuid \<Rightarrow> int \<Rightarrow> draft_values \<Rightarrow> draft_row option desk_op" where
  "write_draft now i version v = update_drafts now (open_at i version) (\<lambda>d. d\<lparr>
     dr_requested_for := dv_requested_for v, dr_node := dv_node v, dr_environment := dv_environment v,
     dr_summary := dv_summary v, dr_description := dv_description v, dr_custom := dv_custom v,
     dr_impact := Some (dv_impact v), dr_urgency := Some (dv_urgency v),
     dr_priority := Some (fst (dv_priority v)), dr_matrix := Some (snd (dv_priority v)),
     dr_status := ''DRAFT''\<rparr>)"

definition set_ready :: "instant \<Rightarrow> uuid \<Rightarrow> int \<Rightarrow> string \<times> uuid \<Rightarrow> draft_row option desk_op" where
  "set_ready now i version priority = update_drafts now (open_at i version) (\<lambda>d. d\<lparr>
     dr_status := ''READY_FOR_REVIEW'', dr_priority := Some (fst priority), dr_matrix := Some (snd priority)\<rparr>)"

definition cancel_row :: "instant \<Rightarrow> uuid \<Rightarrow> int \<Rightarrow> draft_row option desk_op" where
  "cancel_row now i version = update_drafts now (open_at i version) (\<lambda>d. d\<lparr>dr_status := ''CANCELLED''\<rparr>)"

definition audit_draft :: "draft_row \<Rightarrow> string \<Rightarrow> string \<Rightarrow> request_context \<Rightarrow> uuid option \<Rightarrow> unit desk_op" where
  "audit_draft d action outcome ctx actor = on_case (modS (\<lambda>db. db\<lparr>audit_events := audit_events db @
     [\<lparr>au_tenant = dr_tenant d, au_actor = (case actor of None \<Rightarrow> dr_owner d | Some u \<Rightarrow> u), au_action = action,
       au_resource_type = ''TICKET_DRAFT'', au_resource = dr_id d, au_summary = [],
       au_correlation = correlation_id ctx, au_request = request_id ctx, au_outcome = outcome\<rparr>]\<rparr>))"

subsection \<open>References and priority\<close>

definition user_exists :: "uuid \<Rightarrow> uuid \<Rightarrow> desk_db \<Rightarrow> bool" where
  "user_exists tenant user db \<longleftrightarrow>
     (\<exists>u\<in>set (users (desk_case db)). u_tenant u = tenant \<and> u_id u = user \<and> u_active u)"

definition environment_exists :: "uuid \<Rightarrow> uuid \<Rightarrow> uuid option \<Rightarrow> desk_db \<Rightarrow> bool" where
  "environment_exists tenant i node db \<longleftrightarrow> (\<exists>e\<in>set (cat_environments (desk_catalogue db)).
     en_tenant e = tenant \<and> en_id e = i \<and> en_active e \<and> (node = None \<or> en_node e = node))"

definition matrix_candidate ::
  "instant \<Rightarrow> uuid \<Rightarrow> uuid \<Rightarrow> uuid option \<Rightarrow> string \<Rightarrow> string \<Rightarrow> desk_db \<Rightarrow> matrix_row \<Rightarrow> bool" where
  "matrix_candidate now tenant project node impact urgency db m \<longleftrightarrow>
     (case active_codes db of (impacts, urgencies, priorities) \<Rightarrow>
        mx_impact m = impact \<and> mx_urgency m = urgency \<and> impact \<in> set impacts \<and> urgency \<in> set urgencies
        \<and> mx_priority m \<in> set priorities)
     \<and> mx_status m = ''APPROVED'' \<and> in_force (Some (mx_from m)) (mx_to m) now
     \<and> (mx_tenant m = None \<or> mx_tenant m = Some tenant) \<and> (mx_project m = None \<or> mx_project m = Some project)
     \<and> (mx_node m = None \<or> mx_node m = node)"

definition matrix_specificity :: "matrix_row \<Rightarrow> int" where
  "matrix_specificity m = (if mx_node m \<noteq> None then 3 else if mx_project m \<noteq> None then 2
     else if mx_tenant m \<noteq> None then 1 else 0)"

definition matrix_rank :: "matrix_row \<Rightarrow> int \<times> int" where
  "matrix_rank m = (- matrix_specificity m, mx_order m)"

text \<open>The rows of rank one; more than one is an overlap, which raises.\<close>

definition priority_query ::
  "instant \<Rightarrow> uuid \<Rightarrow> uuid \<Rightarrow> uuid option \<Rightarrow> string \<Rightarrow> string \<Rightarrow> desk_db
     \<Rightarrow> unit + (string \<times> uuid) option" where
  "priority_query now tenant project node impact urgency db =
     (let candidates = filter (matrix_candidate now tenant project node impact urgency db) (priority_matrix db) in
      case filter (\<lambda>m. list_all (\<lambda>x. matrix_rank m \<le> matrix_rank x) candidates) candidates of
        [] \<Rightarrow> Inr None
      | [m] \<Rightarrow> Inr (Some (mx_priority m, mx_id m))
      | _ \<Rightarrow> Inl ())"

definition workflow_initial :: "instant \<Rightarrow> uuid \<Rightarrow> desk_db \<Rightarrow> (uuid \<times> uuid) option" where
  "workflow_initial now workflow db =
     (let versions = filter (\<lambda>v. wv_workflow v = workflow \<and> wv_status v = ''PUBLISHED''
        \<and> (case wv_published v of None \<Rightarrow> False | Some p \<Rightarrow> p \<le> now)
        \<and> in_force (wv_from v) (wv_to v) now) (workflow_versions db) in
      case filter (\<lambda>(v, _). v \<in> wv_id ` set versions) (initial_statuses db) of
        [(v, s)] \<Rightarrow> if length versions = 1 then Some (v, s) else None
      | _ \<Rightarrow> None)"


subsection \<open>Submission\<close>

text \<open>
  The insert into \<open>itsm.ticket\<close> with its triggers: the next number of the project makes the key, version one,
  and a \<open>TICKET_CREATED\<close> event.
\<close>

definition optional :: "('a \<Rightarrow> pyval) \<Rightarrow> 'a option \<Rightarrow> pyval" where
  "optional f v = (case v of None \<Rightarrow> PNone | Some x \<Rightarrow> f x)"

definition created_payload :: "ticket_row \<Rightarrow> string \<Rightarrow> request_context \<Rightarrow> pydict" where
  "created_payload t channel ctx = [(''ticket_key'', PStr (t_key t)), (''project_id'', uuid_val (t_project t)),
     (''request_type_id'', uuid_val (t_request_type t)), (''request_type_version_id'', uuid_val (t_request_version t)),
     (''workflow_version_id'', uuid_val (t_workflow_version t)), (''initial_status_id'', uuid_val (t_status t)),
     (''priority_code'', PStr (t_priority_code t)), (''source_channel'', PStr channel),
     (''correlation_id'', PStr (correlation_id ctx)), (''request_id'', PStr (request_id ctx))]"

definition opened_ticket :: "desk_env \<Rightarrow> draft_row \<Rightarrow> string \<times> uuid \<Rightarrow> uuid \<times> uuid \<Rightarrow> desk_db \<Rightarrow> uuid \<Rightarrow> string \<Rightarrow> string \<Rightarrow> ticket_row" where
  "opened_ticket env d priority workflow db i code key = \<lparr>t_id = i, t_tenant = dr_tenant d, t_key = key,
     t_project = dr_project d, t_project_code = code, t_node = dr_node d,
     t_environment_code = map_option en_code (Option.bind (dr_environment d)
       (\<lambda>e. find (\<lambda>x. en_id x = e) (cat_environments (desk_catalogue db)))),
     t_work_type_code = (case find (\<lambda>w. wy_id w = dr_work_type d) (cat_work_types (desk_catalogue db)) of
       None \<Rightarrow> [] | Some w \<Rightarrow> wy_code w),
     t_priority_code = fst priority, t_workflow_version = fst workflow, t_status = snd workflow, t_row_version = 1,
     t_summary = dr_summary d, t_description = dr_description d, t_reporter = dr_owner d,
     t_requested_for = dr_requested_for d, t_group = None, t_assignee = None, t_columns = (\<lambda>_. PNone), t_custom = [],
     t_work_type = dr_work_type d, t_request_type = dr_type d, t_request_version = dr_version d,
     t_environment = dr_environment d, t_impact = dr_impact d, t_urgency = dr_urgency d,
     t_matrix = Some (snd priority), t_conversation = dr_conversation d, t_created = env_now env\<rparr>"

definition create_ticket ::
  "desk_env \<Rightarrow> request_context \<Rightarrow> draft_row \<Rightarrow> string \<times> uuid \<Rightarrow> uuid \<times> uuid \<Rightarrow> ticket_row desk_op" where
  "create_ticket env ctx d priority workflow = bindS (on_case draw_uuid) (\<lambda>i db.
     case find (\<lambda>p. pj_id p = dr_project d) (cat_projects (desk_catalogue db)) of
       None \<Rightarrow> Inl (IntegrityError ''Unknown service project'')
     | Some p \<Rightarrow>
         let n = (case next_number db (dr_project d) of None \<Rightarrow> 1 | Some n \<Rightarrow> n);
             t = opened_ticket env d priority workflow db i (pj_key p) (pj_key p @ ''-'' @ int_str n) in
         if i \<in> t_id ` set (tickets (desk_case db)) then Inl (IntegrityError ''ticket_pkey'')
         else if \<exists>x\<in>set (tickets (desk_case db)). t_tenant x = t_tenant t \<and> t_key x = t_key t
         then Inl (IntegrityError ''ticket_tenant_id_ticket_key_key'')
         else bindS (on_case (modS (\<lambda>c. c\<lparr>tickets := tickets c @ [t]\<rparr>))) (\<lambda>_.
              bindS (on_case (insert_event (t_tenant t) i ''TICKET_CREATED''
                (if dr_conversation d = None then ''USER'' else ''AI'') (dr_owner d)
                (created_payload t (if dr_conversation d = None then ''PORTAL'' else ''CHAT'') ctx))) (\<lambda>_.
              ret t)) (db\<lparr>next_number := (next_number db)(dr_project d := Some (n + 1))\<rparr>))"

text \<open>
  The typed column of a normalized value. \<open>one()\<close> raises when the form version does not hold the field
  exactly once; the conversions of \<open>Decimal\<close>, \<open>date\<close>, \<open>datetime\<close> and \<open>UUID\<close> raise on text they cannot read.
\<close>

definition option_id :: "catalogue_db \<Rightarrow> uuid \<Rightarrow> string \<Rightarrow> uuid option" where
  "option_id cat field code = map_option fo_id
     (find (\<lambda>x. fo_field x = field \<and> fo_code x = code \<and> fo_active x) (cat_options cat))"

definition truthy :: "pyval \<Rightarrow> bool" where
  "truthy v = (case v of PNone \<Rightarrow> False | PBool b \<Rightarrow> b | PInt i \<Rightarrow> i \<noteq> 0 | PFloat q \<Rightarrow> q \<noteq> 0 | PStr s \<Rightarrow> s \<noteq> []
     | PList xs \<Rightarrow> xs \<noteq> [] | PDict d \<Rightarrow> d \<noteq> [] | _ \<Rightarrow> True)"

definition read_or :: "string \<Rightarrow> 'a option \<Rightarrow> app_error + 'a" where
  "read_or e v = of_option (UncaughtError e) v"

definition typed_value :: "float_text \<Rightarrow> catalogue_db \<Rightarrow> custom_field_row \<Rightarrow> pyval \<Rightarrow> app_error + custom_value" where
  "typed_value fr cat f v =
     (let s = str_of fr v; type = cf_type f in
      if type \<in> {''TEXT'', ''LONG_TEXT''} then Inr (TextValue s)
      else if type = ''NUMBER'' then rbind (read_or ''InvalidOperation'' (read_decimal s)) (\<lambda>x. Inr (NumberValue x))
      else if type = ''DATE'' then rbind (read_or ''ValueError'' (read_date s)) (\<lambda>x. Inr (DateValue x))
      else if type = ''TIMESTAMP'' then rbind (read_or ''ValueError'' (read_stamp s)) (\<lambda>x. Inr (StampValue x))
      else if type = ''BOOLEAN'' then Inr (BoolValue (truthy v))
      else if type = ''USER'' then rbind (read_or ''ValueError'' (uuid_of_text s)) (\<lambda>x. Inr (UserValue x))
      else if type = ''GROUP'' then rbind (read_or ''ValueError'' (uuid_of_text s)) (\<lambda>x. Inr (GroupValue x))
      else if type \<in> {''SERVICE'', ''MODULE''} then rbind (read_or ''ValueError'' (uuid_of_text s)) (\<lambda>x. Inr (ServiceValue x))
      else if type = ''SINGLE_SELECT'' then
        Inr (case option_id cat (cf_id f) s of None \<Rightarrow> NoValue | Some i \<Rightarrow> OptionValue i)
      else Inr (JsonValue v))"

text \<open>The foreign keys of the typed columns.\<close>

definition value_refers :: "custom_value \<Rightarrow> desk_db \<Rightarrow> bool" where
  "value_refers v db = (case v of
       UserValue i \<Rightarrow> i \<in> u_id ` set (users (desk_case db))
     | GroupValue i \<Rightarrow> i \<in> g_id ` set (groups (desk_case db))
     | ServiceValue i \<Rightarrow> i \<in> sn_id ` set (cat_nodes (desk_catalogue db))
     | _ \<Rightarrow> True)"

definition definitions_of :: "catalogue_db \<Rightarrow> uuid \<Rightarrow> string \<Rightarrow> custom_field_row list" where
  "definitions_of cat version code = concat (map (\<lambda>l. filter (\<lambda>f. cf_id f = ly_field l \<and> cf_code f = code) (cat_fields cat))
     (filter (\<lambda>l. ly_version l = version) (cat_layouts cat)))"

definition persist_one :: "float_text \<Rightarrow> uuid \<Rightarrow> uuid \<Rightarrow> string \<times> pyval \<Rightarrow> unit desk_op" where
  "persist_one fr ticket version item db =
     (if snd item = PNone then Inr ((), db) else
      case definitions_of (desk_catalogue db) version (fst item) of
        [f] \<Rightarrow> (case typed_value fr (desk_catalogue db) f (snd item) of
            Inl e \<Rightarrow> Inl e
          | Inr v \<Rightarrow>
              if \<not> value_refers v db then Inl (IntegrityError ''ticket_custom_value'')
              else if \<exists>r\<in>set (custom_rows db). cv_ticket r = ticket \<and> cv_field r = cf_id f
              then Inl (IntegrityError ''ticket_custom_value_pkey'')
              else Inr ((), db\<lparr>custom_rows := custom_rows db @
                [\<lparr>cv_ticket = ticket, cv_field = cf_id f, cv_value = v\<rparr>]\<rparr>))
      | [] \<Rightarrow> Inl (UncaughtError ''NoResultFound'')
      | _ \<Rightarrow> Inl (UncaughtError ''MultipleResultsFound''))"

definition persist_custom_values :: "float_text \<Rightarrow> uuid \<Rightarrow> uuid \<Rightarrow> pydict \<Rightarrow> unit desk_op" where
  "persist_custom_values fr ticket version d = forS (persist_one fr ticket version) d"

definition creation_events :: "string list" where
  "creation_events = [''ROUTE_TICKET'', ''START_SLA'', ''NOTIFY_TICKET_CREATED'']"

definition finish_submission ::
  "instant \<Rightarrow> draft_row \<Rightarrow> ticket_row \<Rightarrow> idempotency_row \<Rightarrow> unit desk_op" where
  "finish_submission now d t idem =
     bindS (update_drafts now (\<lambda>x. dr_id x = dr_id d) (\<lambda>x. x\<lparr>dr_status := ''SUBMITTED'', dr_ticket := Some (t_id t)\<rparr>)) (\<lambda>_.
     bindS (on_case (forS (\<lambda>type. insert_outbox False (dr_tenant d) ''TICKET'' (t_id t) type
       [(''ticket_id'', uuid_val (t_id t)), (''ticket_key'', PStr (t_key t)), (''processing'', PStr ''PENDING'')] None)
       creation_events)) (\<lambda>_.
     on_case (complete_idempotency (idem_id idem) (t_id t) [(''id'', uuid_val (t_id t)), (''key'', PStr (t_key t))])))"

subsection \<open>Views of tickets\<close>

record ticket_view =
  tv_ticket :: ticket_row
  tv_project :: "string \<times> string"
  tv_type :: "string \<times> string"
  tv_service :: "string option"
  tv_environment :: "string option"
  tv_work_type :: string
  tv_status :: "string \<times> string"
  tv_reporter :: string
  tv_requested_for :: "string option"

definition user_name :: "uuid \<Rightarrow> desk_db \<Rightarrow> string option" where
  "user_name i db = map_option u_name (find (\<lambda>u. u_id u = i) (users (desk_case db)))"

text \<open>\<open>_TICKET_SELECT\<close>: inner joins drop a ticket without its partner, outer joins leave a gap.\<close>

definition view_of_ticket :: "desk_db \<Rightarrow> ticket_row \<Rightarrow> ticket_view option" where
  "view_of_ticket db t = (let cat = desk_catalogue db in
     case (find (\<lambda>p. pj_id p = t_project t) (cat_projects cat),
           find (\<lambda>r. rq_id r = t_request_type t) (cat_request_types cat),
           find (\<lambda>w. wy_id w = t_work_type t) (cat_work_types cat),
           find (\<lambda>s. st_id s = t_status t) (statuses (desk_case db)), user_name (t_reporter t) db) of
       (Some p, Some r, Some w, Some s, Some reporter) \<Rightarrow> Some \<lparr>tv_ticket = t,
         tv_project = (pj_key p, pj_name p), tv_type = (rq_code r, rq_name r),
         tv_service = map_option sn_name (Option.bind (t_node t) (\<lambda>n. find (\<lambda>x. sn_id x = n) (cat_nodes cat))),
         tv_environment = map_option en_name (Option.bind (t_environment t)
           (\<lambda>e. find (\<lambda>x. en_id x = e) (cat_environments cat))),
         tv_work_type = wy_code w,
         tv_status = (st_code s, case st_visible_name s of None \<Rightarrow> st_name s | Some n \<Rightarrow> n),
         tv_reporter = reporter,
         tv_requested_for = Option.bind (t_requested_for t) (\<lambda>u. user_name u db)\<rparr>
     | _ \<Rightarrow> None)"

definition views_where :: "(ticket_row \<Rightarrow> bool) \<Rightarrow> desk_db \<Rightarrow> ticket_view list" where
  "views_where p db = List.map_filter (view_of_ticket db) (filter p (tickets (desk_case db)))"

text \<open>\<open>one_or_none()\<close>: keys and identifiers are unique in a tenant.\<close>

definition first_row :: "'a list \<Rightarrow> 'a option" where
  "first_row xs = (case xs of [] \<Rightarrow> None | x # _ \<Rightarrow> Some x)"

definition concerns :: "uuid \<Rightarrow> uuid \<Rightarrow> ticket_row \<Rightarrow> bool" where
  "concerns tenant user t \<longleftrightarrow> t_tenant t = tenant \<and> (t_reporter t = user \<or> t_requested_for t = Some user)"

definition ticket_by_key :: "uuid \<Rightarrow> uuid \<Rightarrow> string \<Rightarrow> desk_db \<Rightarrow> ticket_view option" where
  "ticket_by_key tenant user key db = first_row (views_where (\<lambda>t. concerns tenant user t \<and> t_key t = key) db)"

definition ticket_by_id :: "uuid \<Rightarrow> uuid \<Rightarrow> uuid \<Rightarrow> desk_db \<Rightarrow> ticket_view option" where
  "ticket_by_id tenant user i db = first_row (views_where (\<lambda>t. concerns tenant user t \<and> t_id t = i) db)"

text \<open>Keyset pages, newest first.\<close>

definition before :: "(instant \<times> uuid) option \<Rightarrow> instant \<times> uuid \<Rightarrow> bool" where
  "before position k \<longleftrightarrow> (case position of None \<Rightarrow> True | Some p \<Rightarrow> k < p)"

definition newest :: "('a \<Rightarrow> instant \<times> uuid) \<Rightarrow> nat \<Rightarrow> (instant \<times> uuid) option \<Rightarrow> 'a list \<Rightarrow> 'a list" where
  "newest key limit position rows = take limit (rev (sort_key key (filter (\<lambda>r. before position (key r)) rows)))"

definition view_key :: "ticket_view \<Rightarrow> instant \<times> uuid" where
  "view_key v = (t_created (tv_ticket v), t_id (tv_ticket v))"

definition tickets_query ::
  "uuid \<Rightarrow> uuid \<Rightarrow> nat \<Rightarrow> (instant \<times> uuid) option \<Rightarrow> desk_db \<Rightarrow> ticket_view list" where
  "tickets_query tenant user limit position db = newest view_key limit position (views_where (concerns tenant user) db)"

definition in_reach :: "uuid \<Rightarrow> uuid list \<Rightarrow> bool \<Rightarrow> ticket_row \<Rightarrow> bool" where
  "in_reach tenant group_ids include_all t \<longleftrightarrow> t_tenant t = tenant
     \<and> (include_all \<or> (case t_group t of None \<Rightarrow> True | Some g \<Rightarrow> g \<in> set group_ids))"

definition analyst_by_key :: "uuid \<Rightarrow> uuid list \<Rightarrow> bool \<Rightarrow> string \<Rightarrow> desk_db \<Rightarrow> ticket_view option" where
  "analyst_by_key tenant group_ids include_all key db =
     first_row (views_where (\<lambda>t. in_reach tenant group_ids include_all t \<and> t_key t = key) db)"

definition analyst_query ::
  "uuid \<Rightarrow> uuid list \<Rightarrow> bool \<Rightarrow> nat \<Rightarrow> (instant \<times> uuid) option \<Rightarrow> desk_db \<Rightarrow> ticket_view list" where
  "analyst_query tenant group_ids include_all limit position db =
     newest view_key limit position (views_where (in_reach tenant group_ids include_all) db)"


record analyst_extras =
  ax_impact :: "string option"
  ax_urgency :: "string option"
  ax_group :: "uuid option"
  ax_group_name :: "string option"
  ax_assignee :: "uuid option"
  ax_assignee_name :: "string option"

definition extras_of :: "desk_db \<Rightarrow> ticket_row \<Rightarrow> analyst_extras" where
  "extras_of db t = \<lparr>ax_impact = t_impact t, ax_urgency = t_urgency t, ax_group = t_group t,
     ax_group_name = map_option g_name (Option.bind (t_group t)
       (\<lambda>g. find (\<lambda>x. g_id x = g) (groups (desk_case db)))),
     ax_assignee = t_assignee t, ax_assignee_name = Option.bind (t_assignee t) (\<lambda>u. user_name u db)\<rparr>"

definition sla_rows_of :: "uuid \<Rightarrow> desk_db \<Rightarrow> ticket_sla_row list" where
  "sla_rows_of ticket db = sort_key (\<lambda>r. (option_key 0 (ts_target r), ts_code r))
     (filter (\<lambda>r. ts_ticket r = ticket) (sla_rows db))"

subsection \<open>The watch list\<close>

definition watches :: "uuid \<Rightarrow> uuid \<Rightarrow> uuid \<Rightarrow> watch_row \<Rightarrow> bool" where
  "watches tenant owner ticket w \<longleftrightarrow> wa_tenant w = tenant \<and> wa_owner w = owner \<and> wa_ticket w = ticket"

definition ticket_watched :: "uuid \<Rightarrow> uuid \<Rightarrow> uuid \<Rightarrow> desk_db \<Rightarrow> bool" where
  "ticket_watched tenant owner ticket db \<longleftrightarrow> list_ex (watches tenant owner ticket) (watchlist db)"

text \<open>\<open>ON CONFLICT DO NOTHING\<close>, then the time of the row there was or is now.\<close>

definition insert_watch :: "instant \<Rightarrow> uuid \<Rightarrow> uuid \<Rightarrow> uuid \<Rightarrow> instant desk_op" where
  "insert_watch now tenant owner ticket db =
     (case find (watches tenant owner ticket) (watchlist db) of
        Some w \<Rightarrow> Inr (wa_at w, db)
      | None \<Rightarrow> bindS (on_case draw_uuid) (\<lambda>i db. Inr (now, db\<lparr>watchlist := watchlist db @
          [\<lparr>wa_id = i, wa_tenant = tenant, wa_owner = owner, wa_ticket = ticket, wa_at = now\<rparr>]\<rparr>)) db)"

definition delete_watch :: "uuid \<Rightarrow> uuid \<Rightarrow> uuid \<Rightarrow> unit desk_op" where
  "delete_watch tenant owner ticket = modS (\<lambda>db. db\<lparr>watchlist := filter (\<lambda>w. \<not> watches tenant owner ticket w) (watchlist db)\<rparr>)"

record watched_view =
  wv_row :: watch_row
  wv_view :: ticket_view

definition watch_key :: "watched_view \<Rightarrow> instant \<times> uuid" where
  "watch_key w = (wa_at (wv_row w), wa_id (wv_row w))"

definition watched_query ::
  "uuid \<Rightarrow> uuid \<Rightarrow> uuid list \<Rightarrow> bool \<Rightarrow> nat \<Rightarrow> (instant \<times> uuid) option \<Rightarrow> desk_db \<Rightarrow> watched_view list" where
  "watched_query tenant owner group_ids include_all limit position db =
     newest watch_key limit position (List.map_filter (\<lambda>w.
       map_option (\<lambda>v. \<lparr>wv_row = w, wv_view = v\<rparr>)
         (first_row (views_where (\<lambda>t. in_reach tenant group_ids include_all t \<and> t_id t = wa_ticket w) db)))
       (filter (\<lambda>w. wa_tenant w = tenant \<and> wa_owner w = owner) (watchlist db)))"

subsection \<open>Comments\<close>

record public_comment =
  pc_id :: uuid
  pc_author :: uuid
  pc_author_name :: string
  pc_body :: string
  pc_created :: instant

definition public_comments :: "uuid \<Rightarrow> desk_db \<Rightarrow> public_comment list" where
  "public_comments ticket db = List.map_filter
     (\<lambda>c. map_option (\<lambda>n. \<lparr>pc_id = c_id c, pc_author = c_author c, pc_author_name = n, pc_body = c_body c,
        pc_created = c_created c\<rparr>) (user_name (c_author c) db))
     (sort_key (\<lambda>c. (c_created c, c_id c))
       (filter (\<lambda>c. c_ticket c = ticket \<and> c_visibility c = ''PUBLIC'') (comments (desk_case db))))"

end
