(* ===== verification/Cursors.thy ===== *)
theory Cursors
  imports IsoTime
begin

text \<open>
  The opaque cursors of \<open>tickets/service.py\<close>: \<open>base64.urlsafe_b64encode\<close> without its padding over an ISO
  instant and an identifier, and the lenient decoder of the standard library that reads them back. Bytes and
  characters up to 255 share the type \<^typ>\<open>char\<close>; a cursor whose bytes decode to other characters is
  refused.
\<close>

subsection \<open>Base 64\<close>

definition b64_char :: "nat \<Rightarrow> char" where
  "b64_char n = char_of (if n < 26 then n + 65 else if n < 52 then n + 71 else if n < 62 then n - 4
     else if n = 62 then 45 else 95)"

abbreviation byte :: "char \<Rightarrow> nat" where
  "byte c \<equiv> of_char c"

text \<open>Encoding by three bytes; the padding that \<open>rstrip\<close> removes is not written.\<close>

fun b64_encode :: "string \<Rightarrow> string" where
  "b64_encode (a # b # c # s) = b64_char (byte a div 4) # b64_char (byte a mod 4 * 16 + byte b div 16)
     # b64_char (byte b mod 16 * 4 + byte c div 64) # b64_char (byte c mod 64) # b64_encode s"
| "b64_encode [a, b] = [b64_char (byte a div 4), b64_char (byte a mod 4 * 16 + byte b div 16),
     b64_char (byte b mod 16 * 4)]"
| "b64_encode [a] = [b64_char (byte a div 4), b64_char (byte a mod 4 * 16)]"
| "b64_encode [] = []"

text \<open>
  \<open>binascii.a2b_base64\<close> after \<open>-\<close> and \<open>_\<close> were translated: characters outside the alphabet are skipped,
  a pad at the end of a group ends the input. \<open>quad\<close> is the position in the group of four, \<open>left\<close> the bits
  that are left over, \<open>pads\<close> the pads seen since the last character.
\<close>

definition b64_value :: "char \<Rightarrow> nat option" where
  "b64_value c = (let n = byte c in
     if 65 \<le> n \<and> n \<le> 90 then Some (n - 65)
     else if 97 \<le> n \<and> n \<le> 122 then Some (n - 71)
     else if 48 \<le> n \<and> n \<le> 57 then Some (n + 4)
     else if n = 45 \<or> n = 43 then Some 62
     else if n = 95 \<or> n = 47 then Some 63 else None)"

fun b64_scan :: "nat \<Rightarrow> nat \<Rightarrow> nat \<Rightarrow> string \<Rightarrow> string option" where
  "b64_scan quad left pads [] = (if quad = 0 then Some [] else None)"
| "b64_scan quad left pads (c # s) =
     (if c = CHR ''='' then
        if 2 \<le> quad then if 4 \<le> quad + pads + 1 then Some [] else b64_scan quad left (pads + 1) s
        else b64_scan quad left pads s
      else case b64_value c of
        None \<Rightarrow> b64_scan quad left pads s
      | Some v \<Rightarrow>
          if quad = 0 then b64_scan 1 v 0 s
          else if quad = 1 then map_option ((#) (char_of (left * 4 + v div 16))) (b64_scan 2 (v mod 16) 0 s)
          else if quad = 2 then map_option ((#) (char_of (left * 16 + v div 4))) (b64_scan 3 (v mod 4) 0 s)
          else map_option ((#) (char_of (left * 64 + v))) (b64_scan 0 0 0 s))"

text \<open>Text that is not ASCII is refused before it is decoded.\<close>

definition b64_decode :: "string \<Rightarrow> string option" where
  "b64_decode s = (if ascii s then b64_scan 0 0 0 s else None)"

definition pad_to_four :: "string \<Rightarrow> string" where
  "pad_to_four s = s @ replicate (nat (- int (length s) mod 4)) (CHR ''='')"

text \<open>\<open>bytes.decode()\<close>.\<close>

fun utf8_decode :: "string \<Rightarrow> string option" where
  "utf8_decode [] = Some []"
| "utf8_decode (c # s) =
     (if byte c < 128 then map_option ((#) c) (utf8_decode s)
      else if byte c = 194 \<or> byte c = 195 then
        (case s of [] \<Rightarrow> None
         | d # s' \<Rightarrow> if 128 \<le> byte d \<and> byte d < 192
             then map_option ((#) (char_of ((byte c - 192) * 64 + (byte d - 128)))) (utf8_decode s') else None)
      else None)"

subsection \<open>Cursors\<close>

definition split_bar :: "string \<Rightarrow> (string \<times> string) option" where
  "split_bar s = (case dropWhile (\<lambda>c. c \<noteq> CHR ''|'') s of [] \<Rightarrow> None
     | _ # r \<Rightarrow> Some (takeWhile (\<lambda>c. c \<noteq> CHR ''|'') s, r))"

definition cursor_text :: "instant \<Rightarrow> uuid \<Rightarrow> string" where
  "cursor_text t i = stamp_str (utc_stamp t) @ ''|'' @ uuid_str i"

definition encode_cursor :: "instant \<Rightarrow> uuid \<Rightarrow> string" where
  "encode_cursor t i = b64_encode (utf8 (cursor_text t i))"

definition encode_watch_cursor :: "instant \<Rightarrow> uuid \<Rightarrow> string" where
  "encode_watch_cursor t i = b64_encode (utf8 (''watchlist|'' @ cursor_text t i))"

definition read_position :: "string \<Rightarrow> (stamp \<times> uuid) option" where
  "read_position s = Option.bind (split_bar s) (\<lambda>(timestamp, identifier).
     Option.bind (read_stamp timestamp) (\<lambda>st. map_option (Pair st) (uuid_of_text identifier)))"

definition decoded_text :: "string \<Rightarrow> string option" where
  "decoded_text value = Option.bind (b64_decode (pad_to_four value)) utf8_decode"

definition decode_cursor :: "string \<Rightarrow> (stamp \<times> uuid) option" where
  "decode_cursor value = Option.bind (decoded_text value) read_position"

definition decode_watch_cursor :: "string \<Rightarrow> (stamp \<times> uuid) option" where
  "decode_watch_cursor value = Option.bind (decoded_text value) (\<lambda>s.
     Option.bind (split_bar s) (\<lambda>(scope, r).
     Option.bind (split_bar r) (\<lambda>_. if scope = ''watchlist'' then read_position r else None)))"


subsection \<open>Round trips\<close>

lemma b64_char_read [simp]:
  assumes "n < 64"
  shows "b64_value (b64_char n) = Some n" "b64_char n \<noteq> CHR ''=''" "byte (b64_char n) < 128"
proof -
  have code: "byte (b64_char n) = (if n < 26 then n + 65 else if n < 52 then n + 71 else if n < 62 then n - 4
     else if n = 62 then 45 else 95)"
    using assms by (simp add: b64_char_def)
  show "b64_value (b64_char n) = Some n" using assms by (auto simp: b64_value_def code Let_def)
  show "byte (b64_char n) < 128" using assms by (auto simp: code)
  have "byte (b64_char n) \<noteq> 61" using assms by (auto simp: code)
  then show "b64_char n \<noteq> CHR ''=''" by auto
qed

lemma bits1 [simp]:
  assumes "x < (256::nat)"
  shows "x div 4 < 64" "x mod 64 < 64" "x mod 4 * 16 < 64" "x mod 16 * 4 < 64"
    "x div 4 * 4 + (x mod 4 * 16) div 16 = x"
  using assms mod_less_divisor [of 4 x] mod_less_divisor [of 16 x] by simp_all

lemma bits2 [simp]:
  assumes "x < 256" "y < (256::nat)"
  shows "x mod 4 * 16 + y div 16 < 64" "x mod 16 * 4 + y div 64 < 64"
proof -
  have "y div 16 < 16" "y div 64 < 4" "x mod 4 < 4" "x mod 16 < 16" using assms by simp_all
  then show "x mod 4 * 16 + y div 16 < 64" "x mod 16 * 4 + y div 64 < 64" by linarith+
qed

lemma byte_parts [simp]:
  "byte c div 16 div 16 = 0" "byte c div 16 mod 16 = byte c div 16" "byte c div 64 div 4 = 0"
  "byte c div 64 mod 4 = byte c div 64"
proof -
  have "byte c div 16 < 16" "byte c div 64 < 4" by (simp_all add: less_mult_imp_div_less)
  then show "byte c div 16 div 16 = 0" "byte c div 16 mod 16 = byte c div 16" "byte c div 64 div 4 = 0"
    "byte c div 64 mod 4 = byte c div 64" by simp_all
qed

lemma scan_char:
  assumes "v < 64"
  shows "b64_scan 0 l p (b64_char v # s) = b64_scan 1 v 0 s"
    "b64_scan 1 l p (b64_char v # s) = map_option ((#) (char_of (l * 4 + v div 16))) (b64_scan 2 (v mod 16) 0 s)"
    "b64_scan 2 l p (b64_char v # s) = map_option ((#) (char_of (l * 16 + v div 4))) (b64_scan 3 (v mod 4) 0 s)"
    "b64_scan 3 l p (b64_char v # s) = map_option ((#) (char_of (l * 64 + v))) (b64_scan 0 0 0 s)"
  using assms by simp_all

lemma scan_pads: "b64_scan 2 l 0 ''=='' = Some []" "b64_scan 3 l 0 ''='' = Some []"
  by simp_all

lemma pad_length: "nat (- int (length (b64_encode (a # b # c # s))) mod 4) = nat (- int (length (b64_encode s)) mod 4)"
proof -
  have "- int (length (b64_encode (a # b # c # s))) = - int (length (b64_encode s)) + (-1) * 4" by simp
  then show ?thesis by (simp only: mod_mult_self1)
qed

lemma b64_round:
  "b64_scan 0 0 0 (b64_encode bs @ replicate (nat (- int (length (b64_encode bs)) mod 4)) (CHR ''='')) = Some bs"
proof (induction bs rule: b64_encode.induct)
  case (1 a b c s)
  have "b64_scan 0 0 0 (b64_encode (a # b # c # s) @ r) = map_option (\<lambda>s. a # b # c # s) (b64_scan 0 0 0 (b64_encode s @ r))" for r
    by (simp add: scan_char scan_char(2) [unfolded One_nat_def] option.map_comp comp_def del: b64_scan.simps)
  with 1 show ?case unfolding pad_length by simp
next
  case (2 a b)
  have "replicate (nat (- int (length (b64_encode [a, b])) mod 4)) (CHR ''='') = ''=''" by simp
  then show ?case by (simp add: scan_char scan_char(2) [unfolded One_nat_def] scan_pads del: b64_scan.simps)
next
  case (3 a)
  have "replicate (nat (- int (length (b64_encode [a])) mod 4)) (CHR ''='') = ''==''" by (simp add: numeral_2_eq_2)
  then show ?case by (simp add: scan_char scan_char(2) [unfolded One_nat_def] scan_pads del: b64_scan.simps)
qed simp

lemma b64_encode_ascii [simp]: "ascii (b64_encode bs)"
  by (induction bs rule: b64_encode.induct) simp_all


lemma utf8_decode_ascii: "ascii s \<Longrightarrow> utf8_decode s = Some s"
  by (induction s) simp_all

lemma hex_fixed_ascii [simp]: "ascii (hex_fixed k n)"
proof -
  have "byte c < 128" if "hex_value c \<noteq> None" for c
  proof -
    have "(of_char c :: int) = int (byte c)" by (rule of_nat_of_char [symmetric])
    with that show ?thesis by (auto simp: hex_value_def Let_def split: if_splits)
  qed
  then show ?thesis using hex_fixed_chars [of _ k n] by (auto simp: ascii_def)
qed

lemma ascii_parts [simp]: "ascii s \<Longrightarrow> ascii (take n s)" "ascii s \<Longrightarrow> ascii (drop n s)"
  by (auto simp: ascii_def dest: in_set_takeD in_set_dropD)

lemma uuid_str_ascii [simp]: "ascii (uuid_str u)"
  by (simp add: uuid_str_def Let_def del: take_append drop_append)

text \<open>The instants that Python's datetimes can hold: the years 1 to 9999.\<close>

definition datetime_range :: "instant \<Rightarrow> bool" where
  "datetime_range t \<longleftrightarrow> - 62135596800000000 \<le> t \<and> t < 253402300800000000"

lemma days_before_mono: "1 \<le> y \<Longrightarrow> y \<le> z \<Longrightarrow> days_before_year y \<le> days_before_year z"
proof (induction z)
  case (Suc z)
  then show ?case by (cases "y = Suc z") (auto simp: days_before_Suc)
qed simp

lemma datetime_year:
  assumes "datetime_range t"
  shows "fst (stamp_date (utc_stamp t)) \<le> 9999"
proof (rule ccontr)
  define n where "n = nat (t div 86400000000 + 719163)"
  have d: "- 719162 \<le> t div 86400000000" "t div 86400000000 \<le> 2932896"
    using assms unfolding datetime_range_def by linarith+
  then have n: "1 \<le> n" "n \<le> 3652059" by (simp_all add: n_def)
  assume "\<not> fst (stamp_date (utc_stamp t)) \<le> 9999"
  then have "10000 \<le> fst (civil n)" by (simp add: utc_stamp_def n_def)
  then have "days_before_year 10000 \<le> days_before_year (fst (civil n))" by (intro days_before_mono) simp_all
  moreover have "days_before_year 10000 = 3652059" by (simp add: days_before_year_def)
  ultimately show False using civil_ordinal(3) [OF n(1)] n(2) by simp
qed

lemma stamp_str_chars: "c \<in> set (stamp_str (utc_stamp t)) \<Longrightarrow> c \<noteq> CHR ''|''"
proof -
  have digits: "CHR ''|'' \<notin> set (padded k n)" for k n
    using padded_digits [of k n] by (auto simp: list_all_iff is_digit_def digit_value_def)
  then have "CHR ''|'' \<notin> set (clock_str k)" for k by (simp add: clock_str_def)
  with digits have "CHR ''|'' \<notin> set (stamp_str (utc_stamp t))"
    by (auto simp: stamp_str_def utc_stamp_def date_str_def offset_str_def Let_def split: prod.splits)
  then show "c \<in> set (stamp_str (utc_stamp t)) \<Longrightarrow> c \<noteq> CHR ''|''" by auto
qed

lemma split_bar_append: "CHR ''|'' \<notin> set s \<Longrightarrow> split_bar (s @ CHR ''|'' # r) = Some (s, r)"
proof -
  assume "CHR ''|'' \<notin> set s"
  then have "dropWhile (\<lambda>c. c \<noteq> CHR ''|'') (s @ CHR ''|'' # r) = CHR ''|'' # r"
    "takeWhile (\<lambda>c. c \<noteq> CHR ''|'') (s @ CHR ''|'' # r) = s"
    by (induction s) auto
  then show ?thesis by (simp add: split_bar_def)
qed

lemma cursor_text_ascii: "ascii (cursor_text t i)"
  by (simp add: cursor_text_def stamp_str_def utc_stamp_def)

lemma decoded_encoded: "ascii s \<Longrightarrow> decoded_text (b64_encode (utf8 s)) = Some s"
proof -
  have pads: "ascii (replicate n (CHR ''=''))" for n by (induction n) simp_all
  assume "ascii s"
  with b64_round [of s] pads show ?thesis
    by (simp add: decoded_text_def b64_decode_def pad_to_four_def utf8_ascii utf8_decode_ascii)
qed

lemma read_cursor_text:
  assumes "datetime_range t"
  shows "read_position (cursor_text t i) = Some (utc_stamp t, i)"
proof -
  have "- 719162 * 86400000000 \<le> t" using assms by (simp add: datetime_range_def)
  from utc_stamp(2) [OF this datetime_year [OF assms]]
  have "read_stamp (stamp_str (utc_stamp t)) = Some (utc_stamp t)" .
  moreover have "split_bar (cursor_text t i) = Some (stamp_str (utc_stamp t), uuid_str i)"
    using split_bar_append [of "stamp_str (utc_stamp t)" "uuid_str i"] stamp_str_chars [of _ t]
    by (auto simp: cursor_text_def)
  ultimately show ?thesis by (simp add: read_position_def)
qed

lemma decode_encode_cursor: "datetime_range t \<Longrightarrow> decode_cursor (encode_cursor t i) = Some (utc_stamp t, i)"
  by (simp add: decode_cursor_def encode_cursor_def decoded_encoded cursor_text_ascii read_cursor_text)

lemma decode_encode_watch_cursor:
  assumes "datetime_range t"
  shows "decode_watch_cursor (encode_watch_cursor t i) = Some (utc_stamp t, i)"
proof -
  have "ascii (''watchlist|'' @ cursor_text t i)" using cursor_text_ascii [of t i] by simp
  then have "decoded_text (encode_watch_cursor t i) = Some (''watchlist|'' @ cursor_text t i)"
    by (simp only: encode_watch_cursor_def decoded_encoded)
  moreover have "split_bar (''watchlist|'' @ cursor_text t i) = Some (''watchlist'', cursor_text t i)"
    using split_bar_append [of "''watchlist''" "cursor_text t i"] by simp
  moreover have "split_bar (cursor_text t i) \<noteq> None"
    using read_cursor_text [OF assms, of i] by (cases "split_bar (cursor_text t i)") (auto simp: read_position_def)
  ultimately show ?thesis by (auto simp: decode_watch_cursor_def read_cursor_text [OF assms])
qed

lemma utc_position: "datetime_range t \<Longrightarrow> instant_of (utc_stamp t) = t"
  by (rule utc_stamp(1)) (simp add: datetime_range_def)

end
