(* ===== verification/Tickets.thy ===== *)
theory Tickets
  imports Desk Cursors
begin

text \<open>
  \<open>tickets/service.py\<close>: drafts, their submission as tickets, and what employees and analysts see of
  tickets. A use case is one or more units of work; errors that are raised after a commit keep its writes.
  Metrics and logging are left out.
\<close>

subsection \<open>Requests\<close>

record draft_command =
  dc_type :: uuid
  dc_node :: "uuid option"
  dc_environment :: "uuid option"
  dc_requested_for :: "uuid option"
  dc_summary :: string
  dc_description :: "string option"
  dc_impact :: string
  dc_urgency :: string
  dc_custom :: "custom_input list"

text \<open>In a patch the outer option tells whether the request sets the property at all.\<close>

record draft_patch =
  pt_requested_for :: "uuid option option"
  pt_node :: "uuid option option"
  pt_environment :: "uuid option option"
  pt_summary :: "string option"
  pt_description :: "string option option"
  pt_impact :: "string option"
  pt_urgency :: "string option"
  pt_custom :: "custom_input list option"
  pt_row_version :: int

definition given :: "'a option \<Rightarrow> 'a \<Rightarrow> 'a" where
  "given v d = (case v of None \<Rightarrow> d | Some x \<Rightarrow> x)"

text \<open>\<open>_identity\<close> and \<open>_authorize\<close>.\<close>

definition permitted :: "request_context \<Rightarrow> permission \<Rightarrow> app_error + unit" where
  "permitted ctx p = allow ctx p (Some (tenant_resource (ctx_tenant_id ctx) None))"

definition caller :: "request_context \<Rightarrow> permission \<Rightarrow> app_error + uuid \<times> uuid" where
  "caller ctx p = rbind (identity_or AuthorizationError ctx) (\<lambda>who. rbind (permitted ctx p) (\<lambda>_. Inr who))"

definition ticket_configuration_error :: app_error where
  "ticket_configuration_error = ConflictError ''Ticket configuration is missing or ambiguous.''"

definition stale_draft :: app_error where
  "stale_draft = ConcurrencyError ''Draft row version is stale.''"

definition clean_summary :: "string \<Rightarrow> string" where
  "clean_summary s = collapse s"

definition clean_description :: "string option \<Rightarrow> string option" where
  "clean_description v = (let s = (case v of None \<Rightarrow> [] | Some s \<Rightarrow> py_strip s) in if s = [] then None else Some s)"

subsection \<open>Form values of a draft\<close>

definition reserved_codes :: "form_field list \<Rightarrow> string set" where
  "reserved_codes frows = set (field_codes frows) \<inter> {''summary'', ''description''}"

definition form_inputs ::
  "string \<Rightarrow> string option \<Rightarrow> custom_input list \<Rightarrow> form_field list \<Rightarrow> app_error + custom_input list" where
  "form_inputs summary description supplied frows = (let reserved = reserved_codes frows in
     if list_ex (\<lambda>i. in_code i \<in> reserved) supplied
     then Inl (ValidationError ''Reserved fields must use their top-level properties.'')
     else Inr (supplied
       @ (if ''summary'' \<in> reserved then [\<lparr>in_code = ''summary'', in_value = PStr summary\<rparr>] else [])
       @ (if ''description'' \<in> reserved
          then [\<lparr>in_code = ''description'', in_value = optional PStr description\<rparr>] else [])))"

definition stored_custom_inputs :: "pydict \<Rightarrow> custom_input list" where
  "stored_custom_inputs d = stored_inputs (filter (\<lambda>(k, _). k \<notin> {''summary'', ''description''}) d)"

definition form_error :: "form_failure \<Rightarrow> app_error" where
  "form_error e = (case e of Invalid es \<Rightarrow> InvalidFields ''The draft does not match its request form.'' es
     | Escaping m \<Rightarrow> UncaughtError m)"

definition validated :: "desk_env \<Rightarrow> form_field list \<Rightarrow> custom_input list \<Rightarrow> bool \<Rightarrow> app_error + pydict" where
  "validated env frows inputs full = map_error form_error (validate_and_normalize (env_float env) frows inputs full)"

definition field_type :: "form_field list \<Rightarrow> string \<Rightarrow> string option" where
  "field_type frows code = map_option ff_type (find (\<lambda>f. ff_code f = code) (rev frows))"

text \<open>References to users and service nodes must exist; references to groups are not looked up.\<close>

definition reference_message ::
  "desk_env \<Rightarrow> uuid \<Rightarrow> form_field list \<Rightarrow> desk_db \<Rightarrow> string \<times> pyval \<Rightarrow> app_error + string option" where
  "reference_message env tenant frows db item =
     (let type = field_type frows (fst item); target = uuid_of_text (str_of (env_float env) (snd item)) in
      if snd item = PNone then Inr None
      else if type = Some ''USER'' then rbind (read_or ''ValueError'' target) (\<lambda>i.
        Inr (if user_exists tenant i db then None else Some ''User reference is unavailable.''))
      else if type \<in> {Some ''SERVICE'', Some ''MODULE''} then rbind (read_or ''ValueError'' target) (\<lambda>i.
        Inr (if node_exists tenant i (desk_catalogue db) then None else Some ''Service reference is unavailable.''))
      else Inr None)"

definition check_references :: "desk_env \<Rightarrow> uuid \<Rightarrow> form_field list \<Rightarrow> pydict \<Rightarrow> desk_db \<Rightarrow> app_error + unit" where
  "check_references env tenant frows d db =
     rbind (map_result (\<lambda>item. rbind (reference_message env tenant frows db item)
       (\<lambda>m. Inr (map_option (\<lambda>m. (''custom_fields.'' @ fst item, [m])) m))) d) (\<lambda>ms.
     let errors = List.map_filter id ms in
     if errors = [] then Inr () else Inl (InvalidFields ''The draft contains unavailable references.'' errors))"

definition priority_of ::
  "desk_env \<Rightarrow> uuid \<Rightarrow> uuid \<Rightarrow> uuid option \<Rightarrow> string \<Rightarrow> string \<Rightarrow> desk_db \<Rightarrow> app_error + string \<times> uuid" where
  "priority_of env tenant project node impact urgency db =
     rbind (map_error (\<lambda>_. ticket_configuration_error)
       (priority_query (env_now env) tenant project node impact urgency db)) (\<lambda>found.
     of_option ticket_configuration_error found)"

text \<open>The form of a draft: validation, references and priority, in the order of every use case.\<close>

definition settle_form ::
  "desk_env \<Rightarrow> uuid \<Rightarrow> uuid \<Rightarrow> uuid option \<Rightarrow> string \<Rightarrow> string \<Rightarrow> form_field list \<Rightarrow> pydict \<Rightarrow> desk_db
     \<Rightarrow> app_error + string \<times> uuid" where
  "settle_form env tenant project node impact urgency frows d db =
     rbind (check_references env tenant frows d db) (\<lambda>_. priority_of env tenant project node impact urgency db)"

subsection \<open>Drafts\<close>

record draft_view =
  dw_draft :: draft_row
  dw_fields :: "(string \<times> string \<times> pyval) list"
  dw_ticket_key :: "string option"

definition view_of_draft :: "draft_row \<Rightarrow> form_field list \<Rightarrow> string option \<Rightarrow> draft_view" where
  "view_of_draft d frows key = \<lparr>dw_draft = d,
     dw_fields = map (\<lambda>(k, v). (k, given (field_type frows k) ''UNKNOWN'', v)) (sort_key fst (dr_custom d)),
     dw_ticket_key = key\<rparr>"

text \<open>\<open>_require_owned\<close>: a draft of somebody else is reported as missing, after the attempt was recorded.\<close>

definition owned ::
  "request_context \<Rightarrow> uuid \<Rightarrow> draft_row option \<Rightarrow> (draft_row \<Rightarrow> (app_error + 'a) desk_op) \<Rightarrow> (app_error + 'a) desk_op" where
  "owned ctx user found use = (case found of
       None \<Rightarrow> raise NotFoundError
     | Some d \<Rightarrow>
         if dr_owner d = user then use d
         else bindS (audit_draft d ''TICKET_DRAFT_ACCESS_DENIED'' ''DENIED'' ctx (Some user)) (\<lambda>_. ret (Inl NotFoundError)))"

definition on_own_draft ::
  "request_context \<Rightarrow> permission \<Rightarrow> uuid \<Rightarrow> (uuid \<Rightarrow> uuid \<Rightarrow> draft_row \<Rightarrow> (app_error + 'a) desk_op) \<Rightarrow> desk_db
     \<Rightarrow> (app_error + 'a) \<times> desk_db" where
  "on_own_draft ctx p i work db = (case caller ctx p of
       Inl e \<Rightarrow> (Inl e, db)
     | Inr (tenant, user) \<Rightarrow> run_uow (bindS (getS (draft_query tenant i)) (\<lambda>found.
         owned ctx user found (work tenant user))) db)"

definition requested_for_ok :: "request_context \<Rightarrow> uuid \<Rightarrow> uuid \<Rightarrow> uuid option \<Rightarrow> app_error \<Rightarrow> desk_db \<Rightarrow> app_error + unit" where
  "requested_for_ok ctx tenant user target e db = (case target of
       None \<Rightarrow> Inr ()
     | Some u \<Rightarrow> if u = user then Inr ()
         else rbind (permitted ctx TICKET_REQUEST_FOR_OTHER) (\<lambda>_. require (user_exists tenant u db) e))"

definition node_ok :: "uuid \<Rightarrow> uuid option \<Rightarrow> app_error \<Rightarrow> desk_db \<Rightarrow> app_error + unit" where
  "node_ok tenant node e db = (case node of None \<Rightarrow> Inr ()
     | Some n \<Rightarrow> require (node_exists tenant n (desk_catalogue db)) e)"

definition environment_ok :: "uuid \<Rightarrow> uuid option \<Rightarrow> uuid option \<Rightarrow> app_error \<Rightarrow> desk_db \<Rightarrow> app_error + unit" where
  "environment_ok tenant environment node e db = (case environment of None \<Rightarrow> Inr ()
     | Some i \<Rightarrow> require (environment_exists tenant i node db) e)"

definition validate_command :: "request_context \<Rightarrow> uuid \<Rightarrow> uuid \<Rightarrow> draft_command \<Rightarrow> desk_db \<Rightarrow> app_error + unit" where
  "validate_command ctx tenant user cmd db =
     rbind (requested_for_ok ctx tenant user (dc_requested_for cmd) (ValidationError ''Requested-for user is invalid.'') db) (\<lambda>_.
     rbind (node_ok tenant (dc_node cmd) (ValidationError ''Service is invalid.'') db) (\<lambda>_.
     environment_ok tenant (dc_environment cmd) (dc_node cmd) (ValidationError ''Environment is invalid.'') db))"

text \<open>The configuration a new draft is bound to: the one effective version of the request type.\<close>

definition bound_type :: "desk_env \<Rightarrow> uuid \<Rightarrow> uuid \<Rightarrow> desk_db \<Rightarrow> app_error + request_type_summary \<times> request_binding" where
  "bound_type env tenant i db = (let cat = desk_catalogue db in
     case request_type_query tenant i (env_wall env) cat of
       None \<Rightarrow> Inl NotFoundError
     | Some s \<Rightarrow> if ver_count (rs_version s) \<noteq> 1 then Inl NotFoundError
         else rbind (of_option (UncaughtError ''AssertionError'') (binding_query tenant i (ver_id (rs_version s)) cat))
           (\<lambda>b. Inr (s, b)))"

definition new_draft ::
  "desk_env \<Rightarrow> uuid \<Rightarrow> uuid \<Rightarrow> draft_command \<Rightarrow> uuid option \<Rightarrow> request_type_summary \<Rightarrow> request_binding \<Rightarrow> pydict
     \<Rightarrow> string \<times> uuid \<Rightarrow> draft_row" where
  "new_draft env tenant user cmd conversation s b d priority = \<lparr>dr_id = 0, dr_tenant = tenant, dr_owner = user,
     dr_requested_for = dc_requested_for cmd, dr_project = rs_project s, dr_node = dc_node cmd, dr_type = dc_type cmd,
     dr_version = ver_id (rs_version s), dr_work_type = rb_work_type b, dr_environment = dc_environment cmd,
     dr_summary = clean_summary (dc_summary cmd), dr_description = clean_description (dc_description cmd),
     dr_custom = d, dr_impact = Some (dc_impact cmd), dr_urgency = Some (dc_urgency cmd),
     dr_priority = Some (fst priority), dr_matrix = Some (snd priority), dr_status = ''DRAFT'', dr_ticket = None,
     dr_created = env_now env, dr_updated = env_now env, dr_row_version = 1,
     dr_expires = Some (env_wall env + 30 * 86400000000), dr_conversation = conversation\<rparr>"

definition create_new :: "desk_env \<Rightarrow> request_context \<Rightarrow> uuid \<Rightarrow> uuid \<Rightarrow> draft_command \<Rightarrow> uuid option \<Rightarrow> draft_view desk_op" where
  "create_new env ctx tenant user cmd conversation =
     bindS (getS (bound_type env tenant (dc_type cmd))) (\<lambda>bound.
     bindS (liftS bound) (\<lambda>(s, b).
     bindS (getS (validate_command ctx tenant user cmd)) (\<lambda>checked.
     bindS (liftS checked) (\<lambda>_.
     bindS (getS (\<lambda>db. form_fields_query tenant (ver_id (rs_version s)) (desk_catalogue db))) (\<lambda>frows.
     bindS (liftS (form_inputs (dc_summary cmd) (dc_description cmd) (dc_custom cmd) frows)) (\<lambda>inputs.
     bindS (liftS (validated env frows inputs False)) (\<lambda>d.
     bindS (getS (settle_form env tenant (rs_project s) (dc_node cmd) (dc_impact cmd) (dc_urgency cmd) frows d)) (\<lambda>settled.
     bindS (liftS settled) (\<lambda>priority.
     bindS (insert_draft (new_draft env tenant user cmd conversation s b d priority)) (\<lambda>row.
     bindS (audit_draft row ''TICKET_DRAFT_CREATED'' ''SUCCESS'' ctx None) (\<lambda>_.
     ret (view_of_draft row frows None))))))))))))"

definition create_body ::
  "desk_env \<Rightarrow> request_context \<Rightarrow> uuid \<Rightarrow> uuid \<Rightarrow> draft_command \<Rightarrow> uuid option \<Rightarrow> draft_view desk_op" where
  "create_body env ctx tenant user cmd conversation =
     bindS (getS (\<lambda>db. Option.bind conversation (\<lambda>c. draft_for_conversation tenant user c db))) (\<lambda>existing.
     case existing of
       Some d \<Rightarrow> bindS (getS (\<lambda>db. form_fields_query tenant (dr_version d) (desk_catalogue db))) (\<lambda>frows.
         ret (view_of_draft d frows None))
     | None \<Rightarrow> create_new env ctx tenant user cmd conversation)"


definition create_draft ::
  "desk_env \<Rightarrow> request_context \<Rightarrow> draft_command \<Rightarrow> uuid option \<Rightarrow> desk_db \<Rightarrow> (app_error + draft_view) \<times> desk_db" where
  "create_draft env ctx cmd conversation db = (case caller ctx TICKET_DRAFT_CREATE of
       Inl e \<Rightarrow> (Inl e, db)
     | Inr (tenant, user) \<Rightarrow> run_uow (bindS (create_body env ctx tenant user cmd conversation) (\<lambda>w. ret (Inr w))) db)"

definition get_draft :: "request_context \<Rightarrow> uuid \<Rightarrow> desk_db \<Rightarrow> (app_error + draft_view) \<times> desk_db" where
  "get_draft ctx i = on_own_draft ctx TICKET_DRAFT_READ_OWN i (\<lambda>tenant user d.
     bindS (getS (\<lambda>db. form_fields_query tenant (dr_version d) (desk_catalogue db))) (\<lambda>frows.
     bindS (getS (\<lambda>db. Option.bind (dr_ticket d) (\<lambda>t. ticket_by_id tenant user t db))) (\<lambda>t.
     ret (Inr (view_of_draft d frows (map_option (\<lambda>v. t_key (tv_ticket v)) t))))))"

text \<open>An edit: the values of the patch over those of the draft.\<close>

definition patched :: "draft_patch \<Rightarrow> draft_row \<Rightarrow> pydict \<Rightarrow> string \<times> uuid \<Rightarrow> string \<Rightarrow> string \<Rightarrow> draft_values" where
  "patched p d values priority impact urgency = \<lparr>
     dv_requested_for = given (pt_requested_for p) (dr_requested_for d), dv_node = given (pt_node p) (dr_node d),
     dv_environment = given (pt_environment p) (dr_environment d),
     dv_summary = clean_summary (given (pt_summary p) (dr_summary d)),
     dv_description = clean_description (given (pt_description p) (dr_description d)),
     dv_custom = values, dv_impact = impact, dv_urgency = urgency, dv_priority = priority\<rparr>"

definition check_patch :: "request_context \<Rightarrow> uuid \<Rightarrow> uuid \<Rightarrow> draft_patch \<Rightarrow> draft_row \<Rightarrow> desk_db \<Rightarrow> app_error + unit" where
  "check_patch ctx tenant user p d db = (let node = given (pt_node p) (dr_node d) in
     rbind (requested_for_ok ctx tenant user (given (pt_requested_for p) (dr_requested_for d))
       (InvalidFields ''Requested-for user is invalid.'' [(''requested_for_user_id'', [''User is unavailable.''])]) db) (\<lambda>_.
     rbind (node_ok tenant node
       (InvalidFields ''Service is invalid.'' [(''service_node_id'', [''Service is unavailable.''])]) db) (\<lambda>_.
     environment_ok tenant (given (pt_environment p) (dr_environment d)) node
       (InvalidFields ''Environment is invalid.'' [(''application_environment_id'', [''Environment is unavailable.''])]) db)))"

definition editable :: "draft_row \<Rightarrow> draft_patch \<Rightarrow> app_error + unit" where
  "editable d p = (if dr_status d \<notin> {''DRAFT'', ''READY_FOR_REVIEW''}
     then Inl (ConflictError ''Draft can no longer be edited.'')
     else require (dr_row_version d = pt_row_version p) stale_draft)"

definition code_or :: "string option \<Rightarrow> string option \<Rightarrow> app_error + string" where
  "code_or new old = of_option (UncaughtError ''AssertionError'') (case new of None \<Rightarrow> old | Some c \<Rightarrow> if c = [] then old else Some c)"

definition update_work ::
  "desk_env \<Rightarrow> request_context \<Rightarrow> uuid \<Rightarrow> uuid \<Rightarrow> draft_row \<Rightarrow> draft_patch \<Rightarrow> (app_error + draft_view) desk_op" where
  "update_work env ctx tenant user d p =
     bindS (liftS (editable d p)) (\<lambda>_.
     bindS (getS (check_patch ctx tenant user p d)) (\<lambda>checked.
     bindS (liftS checked) (\<lambda>_.
     bindS (getS (\<lambda>db. form_fields_query tenant (dr_version d) (desk_catalogue db))) (\<lambda>frows.
     bindS (liftS (form_inputs (given (pt_summary p) (dr_summary d)) (given (pt_description p) (dr_description d))
       (given (pt_custom p) (stored_custom_inputs (dr_custom d))) frows)) (\<lambda>inputs.
     bindS (liftS (validated env frows inputs False)) (\<lambda>values.
     bindS (getS (check_references env tenant frows values)) (\<lambda>refs.
     bindS (liftS refs) (\<lambda>_.
     bindS (liftS (code_or (pt_impact p) (dr_impact d))) (\<lambda>impact.
     bindS (liftS (code_or (pt_urgency p) (dr_urgency d))) (\<lambda>urgency.
     bindS (getS (priority_of env tenant (dr_project d) (given (pt_node p) (dr_node d)) impact urgency)) (\<lambda>found.
     bindS (liftS found) (\<lambda>priority.
     bindS (write_draft (env_wall env) (dr_id d) (pt_row_version p) (patched p d values priority impact urgency)) (\<lambda>written.
     bindS (liftS (of_option stale_draft written)) (\<lambda>row.
     bindS (audit_draft row ''TICKET_DRAFT_UPDATED'' ''SUCCESS'' ctx None) (\<lambda>_.
     ret (Inr (view_of_draft row frows None)))))))))))))))))"

definition validate_work ::
  "desk_env \<Rightarrow> request_context \<Rightarrow> uuid \<Rightarrow> draft_row \<Rightarrow> int \<Rightarrow> (app_error + draft_view) desk_op" where
  "validate_work env ctx tenant d version =
     bindS (liftS (require (dr_row_version d = version) stale_draft)) (\<lambda>_.
     bindS (getS (\<lambda>db. form_fields_query tenant (dr_version d) (desk_catalogue db))) (\<lambda>frows.
     case validated env frows (stored_inputs (dr_custom d)) True of
       Inl (InvalidFields m es) \<Rightarrow>
         bindS (audit_draft d ''TICKET_DRAFT_VALIDATION_FAILED'' ''FAILED'' ctx None) (\<lambda>_. ret (Inl (InvalidFields m es)))
     | Inl e \<Rightarrow> raise e
     | Inr values \<Rightarrow>
         bindS (getS (settle_form env tenant (dr_project d) (dr_node d) (given (dr_impact d) []) (given (dr_urgency d) [])
           frows values)) (\<lambda>settled.
         bindS (liftS settled) (\<lambda>priority.
         bindS (set_ready (env_wall env) (dr_id d) version priority) (\<lambda>ready.
         bindS (liftS (of_option (UncaughtError ''AssertionError'') ready)) (\<lambda>row.
         bindS (audit_draft row ''TICKET_DRAFT_VALIDATED'' ''SUCCESS'' ctx None) (\<lambda>_.
         ret (Inr (view_of_draft row frows None)))))))))"

definition cancel_work :: "desk_env \<Rightarrow> request_context \<Rightarrow> draft_row \<Rightarrow> int \<Rightarrow> (app_error + unit) desk_op" where
  "cancel_work env ctx d version =
     bindS (liftS (require (dr_row_version d = version) stale_draft)) (\<lambda>_.
     bindS (cancel_row (env_wall env) (dr_id d) version) (\<lambda>cancelled.
     bindS (liftS (of_option (ConflictError ''Draft can no longer be cancelled.'') cancelled)) (\<lambda>row.
     bindS (audit_draft row ''TICKET_DRAFT_CANCELLED'' ''SUCCESS'' ctx None) (\<lambda>_.
     ret (Inr ())))))"

definition update_draft :: "desk_env \<Rightarrow> request_context \<Rightarrow> uuid \<Rightarrow> draft_patch \<Rightarrow> desk_db \<Rightarrow> (app_error + draft_view) \<times> desk_db" where
  "update_draft env ctx i p = on_own_draft ctx TICKET_DRAFT_UPDATE_OWN i (\<lambda>tenant user d. update_work env ctx tenant user d p)"

definition validate_draft :: "desk_env \<Rightarrow> request_context \<Rightarrow> uuid \<Rightarrow> int \<Rightarrow> desk_db \<Rightarrow> (app_error + draft_view) \<times> desk_db" where
  "validate_draft env ctx i version =
     on_own_draft ctx TICKET_DRAFT_UPDATE_OWN i (\<lambda>tenant _ d. validate_work env ctx tenant d version)"

definition cancel_draft :: "desk_env \<Rightarrow> request_context \<Rightarrow> uuid \<Rightarrow> int \<Rightarrow> desk_db \<Rightarrow> (app_error + unit) \<times> desk_db" where
  "cancel_draft env ctx i version =
     on_own_draft ctx TICKET_DRAFT_UPDATE_OWN i (\<lambda>_ _ d. cancel_work env ctx d version)"


subsection \<open>Submission\<close>

type_synonym ticket_answer = "ticket_view \<times> public_comment list"

definition answer_of :: "ticket_view \<Rightarrow> desk_db \<Rightarrow> ticket_answer" where
  "answer_of v db = (v, public_comments (t_id (tv_ticket v)) db)"

definition get_ticket :: "request_context \<Rightarrow> string \<Rightarrow> desk_db \<Rightarrow> app_error + ticket_answer" where
  "get_ticket ctx key db = rbind (caller ctx TICKET_READ_OWN) (\<lambda>(tenant, user).
     rbind (of_option NotFoundError (ticket_by_key tenant user key db)) (\<lambda>v. Inr (answer_of v db)))"

datatype submission = SubmittedBefore ticket_answer | SubmittedNow string

definition submission_digest :: "desk_env \<Rightarrow> uuid \<Rightarrow> int \<Rightarrow> string" where
  "submission_digest env i version = env_text_digest env (uuid_str i @ '':'' @ int_str version)"

definition submittable :: "draft_row option \<Rightarrow> uuid \<Rightarrow> int \<Rightarrow> app_error + draft_row" where
  "submittable found user version = (case found of
       None \<Rightarrow> Inl NotFoundError
     | Some d \<Rightarrow>
         if dr_owner d \<noteq> user then Inl NotFoundError
         else if dr_row_version d \<noteq> version then Inl stale_draft
         else if dr_status d \<notin> {''DRAFT'', ''READY_FOR_REVIEW''} then Inl (ConflictError ''Draft is not submittable.'')
         else Inr d)"

definition submission_binding :: "uuid \<Rightarrow> draft_row \<Rightarrow> desk_db \<Rightarrow> app_error + request_binding" where
  "submission_binding tenant d db = (case binding_query tenant (dr_type d) (dr_version d) (desk_catalogue db) of
       None \<Rightarrow> Inl ticket_configuration_error
     | Some b \<Rightarrow> if rb_status b \<in> {''PUBLISHED'', ''RETIRED''} then Inr b else Inl ticket_configuration_error)"

definition submit_work ::
  "desk_env \<Rightarrow> request_context \<Rightarrow> uuid \<Rightarrow> uuid \<Rightarrow> uuid \<Rightarrow> int \<Rightarrow> idempotency_row \<Rightarrow> string desk_op" where
  "submit_work env ctx tenant user i version idem =
     bindS (getS (\<lambda>db. submittable (draft_query tenant i db) user version)) (\<lambda>found.
     bindS (liftS found) (\<lambda>d.
     bindS (getS (submission_binding tenant d)) (\<lambda>bound.
     bindS (liftS bound) (\<lambda>b.
     bindS (getS (\<lambda>db. form_fields_query tenant (dr_version d) (desk_catalogue db))) (\<lambda>frows.
     bindS (liftS (validated env frows (stored_inputs (dr_custom d)) True)) (\<lambda>values.
     bindS (getS (settle_form env tenant (dr_project d) (dr_node d) (given (dr_impact d) []) (given (dr_urgency d) [])
       frows values)) (\<lambda>settled.
     bindS (liftS settled) (\<lambda>priority.
     bindS (getS (workflow_initial (env_now env) (rb_workflow b))) (\<lambda>initial.
     bindS (liftS (of_option ticket_configuration_error initial)) (\<lambda>workflow.
     bindS (create_ticket env ctx d priority workflow) (\<lambda>t.
     bindS (persist_custom_values (env_float env) (t_id t) (dr_version d) values) (\<lambda>_.
     bindS (finish_submission (env_wall env) d t idem) (\<lambda>_.
     bindS (audit_draft d ''TICKET_SUBMITTED'' ''SUCCESS'' ctx None) (\<lambda>_.
     ret (t_key t)))))))))))))))"

definition submit_replay ::
  "request_context \<Rightarrow> uuid \<Rightarrow> uuid \<Rightarrow> uuid \<Rightarrow> idempotency_row \<Rightarrow> ticket_answer desk_op" where
  "submit_replay ctx tenant user i idem =
     bindS (liftS (of_option (UncaughtError ''TypeError'') (idem_result idem))) (\<lambda>ticket.
     bindS (getS (ticket_by_id tenant user ticket)) (\<lambda>found.
     bindS (liftS (of_option ticket_configuration_error found)) (\<lambda>v.
     bindS (getS (draft_query tenant i)) (\<lambda>draft.
     bindS (case draft of None \<Rightarrow> ret ()
       | Some d \<Rightarrow> audit_draft d ''TICKET_SUBMISSION_REPLAYED'' ''SUCCESS'' ctx None) (\<lambda>_.
     getS (answer_of v))))))"

definition submit_body ::
  "desk_env \<Rightarrow> request_context \<Rightarrow> uuid \<Rightarrow> uuid \<Rightarrow> uuid \<Rightarrow> int \<Rightarrow> string \<Rightarrow> (app_error + submission) desk_op" where
  "submit_body env ctx tenant user i version key =
     (let digest = submission_digest env i version in
      bindS (on_case (claim_idempotency tenant user ''TICKET_DRAFT_SUBMIT'' key digest)) (\<lambda>idem.
      if idem_hash idem \<noteq> digest \<or> idem_principal idem \<noteq> uuid_str user then
        bindS (getS (draft_query tenant i)) (\<lambda>conflicted.
        case conflicted of
          None \<Rightarrow> raise IdempotencyConflict
        | Some d \<Rightarrow> if dr_owner d \<noteq> user then raise IdempotencyConflict
            else bindS (audit_draft d ''TICKET_SUBMISSION_IDEMPOTENCY_CONFLICT'' ''FAILED'' ctx None)
              (\<lambda>_. ret (Inl IdempotencyConflict)))
      else if idem_status idem = ''COMPLETED''
      then bindS (submit_replay ctx tenant user i idem) (\<lambda>a. ret (Inr (SubmittedBefore a)))
      else bindS (submit_work env ctx tenant user i version idem) (\<lambda>k. ret (Inr (SubmittedNow k)))))"

text \<open>Three units of work: who may see the draft, the submission, and the ticket that came of it.\<close>

definition submit ::
  "desk_env \<Rightarrow> request_context \<Rightarrow> uuid \<Rightarrow> int \<Rightarrow> string \<Rightarrow> desk_db \<Rightarrow> (app_error + ticket_answer \<times> bool) \<times> desk_db" where
  "submit env ctx i version key db =
     (case on_own_draft ctx TICKET_SUBMIT i (\<lambda>tenant user _. ret (Inr (tenant, user))) db of
        (Inl e, db1) \<Rightarrow> (Inl e, db1)
      | (Inr (tenant, user), db1) \<Rightarrow>
          (case run_uow (submit_body env ctx tenant user i version key) db1 of
             (Inl e, db2) \<Rightarrow> (Inl e, db2)
           | (Inr (SubmittedBefore a), db2) \<Rightarrow> (Inr (a, True), db2)
           | (Inr (SubmittedNow k), db2) \<Rightarrow> (rbind (get_ticket ctx k db2) (\<lambda>a. Inr (a, False)), db2)))"

subsection \<open>Lists\<close>

definition invalid_cursor :: app_error where
  "invalid_cursor = InvalidFields ''Pagination cursor is invalid.'' [(''cursor'', [''Invalid cursor.''])]"

text \<open>A position without an offset is in the zone of the database session.\<close>

definition position_of ::
  "desk_env \<Rightarrow> (string \<Rightarrow> (stamp \<times> uuid) option) \<Rightarrow> string option \<Rightarrow> app_error + (instant \<times> uuid) option" where
  "position_of env decode cursor = (case cursor of
       None \<Rightarrow> Inr None
     | Some c \<Rightarrow> rbind (of_option invalid_cursor (decode c)) (\<lambda>(st, i).
         Inr (Some (if stamp_offset st = None then env_local env st else instant_of st, i))))"

text \<open>One row more than asked for tells whether there is a next page.\<close>

definition paged :: "('a \<Rightarrow> string) \<Rightarrow> nat \<Rightarrow> 'a list \<Rightarrow> 'a list \<times> string option" where
  "paged encode limit found = (let rows = take limit found in
     (rows, if limit < length found \<and> rows \<noteq> [] then Some (encode (last rows)) else None))"

definition cursor_of_view :: "ticket_view \<Rightarrow> string" where
  "cursor_of_view v = encode_cursor (fst (view_key v)) (snd (view_key v))"

definition my_tickets ::
  "desk_env \<Rightarrow> request_context \<Rightarrow> nat \<Rightarrow> string option \<Rightarrow> desk_db \<Rightarrow> app_error + ticket_answer list \<times> string option" where
  "my_tickets env ctx limit cursor db = rbind (caller ctx TICKET_READ_OWN) (\<lambda>(tenant, user).
     rbind (position_of env decode_cursor cursor) (\<lambda>position.
     let (rows, next_cursor) = paged cursor_of_view limit (tickets_query tenant user (limit + 1) position db) in
     Inr (map (\<lambda>v. answer_of v db) rows, next_cursor)))"

definition reads_all :: "request_context \<Rightarrow> bool" where
  "reads_all ctx \<longleftrightarrow> is_allowed ctx TICKET_READ_ALL None"

definition analyst_tickets ::
  "desk_env \<Rightarrow> request_context \<Rightarrow> nat \<Rightarrow> string option \<Rightarrow> desk_db \<Rightarrow> app_error + ticket_answer list \<times> string option" where
  "analyst_tickets env ctx limit cursor db = rbind (caller ctx TICKET_ANALYST_READ) (\<lambda>(tenant, _).
     rbind (position_of env decode_cursor cursor) (\<lambda>position.
     let (rows, next_cursor) = paged cursor_of_view limit
       (analyst_query tenant (support_group_ids ctx) (reads_all ctx) (limit + 1) position db) in
     Inr (map (\<lambda>v. answer_of v db) rows, next_cursor)))"

subsection \<open>Analysts\<close>

record analyst_answer =
  an_ticket :: ticket_answer
  an_extras :: analyst_extras
  an_watched :: bool
  an_slas :: "ticket_sla_row list"

definition analyst_view :: "request_context \<Rightarrow> string \<Rightarrow> desk_db \<Rightarrow> app_error + analyst_answer" where
  "analyst_view ctx key db = rbind (caller ctx TICKET_ANALYST_READ) (\<lambda>(tenant, user).
     rbind (of_option NotFoundError (analyst_by_key tenant (support_group_ids ctx) (reads_all ctx) key db)) (\<lambda>v.
     let t = tv_ticket v in
     Inr \<lparr>an_ticket = answer_of v db, an_extras = extras_of db t, an_watched = ticket_watched tenant user (t_id t) db,
       an_slas = sla_rows_of (t_id t) db\<rparr>))"

definition watch_ticket :: "desk_env \<Rightarrow> request_context \<Rightarrow> string \<Rightarrow> desk_db \<Rightarrow> (app_error + instant) \<times> desk_db" where
  "watch_ticket env ctx key db = (case caller ctx TICKET_ANALYST_READ of
       Inl e \<Rightarrow> (Inl e, db)
     | Inr (tenant, user) \<Rightarrow> run_uow (
         bindS (getS (analyst_by_key tenant (support_group_ids ctx) (reads_all ctx) key)) (\<lambda>found.
         bindS (liftS (of_option NotFoundError found)) (\<lambda>v.
         bindS (insert_watch (env_now env) tenant user (t_id (tv_ticket v))) (\<lambda>at_time. ret (Inr at_time))))) db)"

definition unwatch_ticket :: "request_context \<Rightarrow> string \<Rightarrow> desk_db \<Rightarrow> (app_error + unit) \<times> desk_db" where
  "unwatch_ticket ctx key db = (case caller ctx TICKET_ANALYST_READ of
       Inl e \<Rightarrow> (Inl e, db)
     | Inr (tenant, user) \<Rightarrow> run_uow (
         bindS (getS (analyst_by_key tenant (support_group_ids ctx) (reads_all ctx) key)) (\<lambda>found.
         bindS (liftS (of_option NotFoundError found)) (\<lambda>v.
         bindS (delete_watch tenant user (t_id (tv_ticket v))) (\<lambda>_. ret (Inr ()))))) db)"

definition watched_tickets ::
  "desk_env \<Rightarrow> request_context \<Rightarrow> nat \<Rightarrow> string option \<Rightarrow> desk_db \<Rightarrow> app_error + watched_view list \<times> string option" where
  "watched_tickets env ctx limit cursor db = rbind (caller ctx TICKET_ANALYST_READ) (\<lambda>(tenant, user).
     rbind (position_of env decode_watch_cursor cursor) (\<lambda>position.
     Inr (paged (\<lambda>w. encode_watch_cursor (fst (watch_key w)) (snd (watch_key w))) limit
       (watched_query tenant user (support_group_ids ctx) (reads_all ctx) (limit + 1) position db))))"

subsection \<open>Public comments\<close>

definition commentable :: "request_context \<Rightarrow> uuid \<Rightarrow> uuid \<Rightarrow> string \<Rightarrow> desk_db \<Rightarrow> app_error + ticket_view" where
  "commentable ctx tenant user key db = (case ticket_by_key tenant user key db of
       Some v \<Rightarrow> Inr v
     | None \<Rightarrow> if \<not> is_allowed ctx TICKET_ANALYST_READ None then Inl NotFoundError
         else of_option NotFoundError (analyst_by_key tenant (support_group_ids ctx) (reads_all ctx) key db))"

datatype comment_answer = ForCustomer ticket_answer | ForAnalyst analyst_answer

datatype commented = CommentedBefore ticket_answer | CommentedNow

definition comment_event :: "request_context \<Rightarrow> string" where
  "comment_event ctx = (if is_allowed ctx TICKET_ANALYST_READ None
     then ''AGENT_PUBLIC_RESPONSE_ADDED'' else ''CUSTOMER_COMMENT_ADDED'')"

definition comment_body ::
  "desk_env \<Rightarrow> request_context \<Rightarrow> uuid \<Rightarrow> uuid \<Rightarrow> string \<Rightarrow> string \<Rightarrow> string \<Rightarrow> commented desk_op" where
  "comment_body env ctx tenant user key text ikey =
     bindS (getS (commentable ctx tenant user key)) (\<lambda>found.
     bindS (liftS found) (\<lambda>v.
     let t = t_id (tv_ticket v) in
     bindS (on_case (claim_checked tenant user ''TICKET_PUBLIC_COMMENT_CREATE'' ikey
       (env_text_digest env (key @ '':'' @ text)))) (\<lambda>idem.
     if idem_status idem = ''COMPLETED'' then bindS (getS (answer_of v)) (\<lambda>a. ret (CommentedBefore a))
     else
       bindS (on_case (add_public_comment (env_now env) tenant t user text (correlation_id ctx) (request_id ctx)
         (comment_event ctx))) (\<lambda>comment.
       bindS (on_case (complete_idempotency (idem_id idem) comment
         [(''comment_id'', uuid_val comment), (''ticket_key'', PStr key)])) (\<lambda>_.
       ret CommentedNow)))))"

definition ticket_for_context :: "request_context \<Rightarrow> string \<Rightarrow> desk_db \<Rightarrow> app_error + comment_answer" where
  "ticket_for_context ctx key db = (if is_allowed ctx TICKET_ANALYST_READ None
     then rbind (analyst_view ctx key db) (\<lambda>a. Inr (ForAnalyst a))
     else rbind (get_ticket ctx key db) (\<lambda>a. Inr (ForCustomer a)))"

definition add_comment ::
  "desk_env \<Rightarrow> request_context \<Rightarrow> string \<Rightarrow> string \<Rightarrow> string \<Rightarrow> desk_db \<Rightarrow> (app_error + comment_answer \<times> bool) \<times> desk_db" where
  "add_comment env ctx key body ikey db = (case caller ctx TICKET_COMMENT_PUBLIC of
       Inl e \<Rightarrow> (Inl e, db)
     | Inr (tenant, user) \<Rightarrow>
         if py_strip body = []
         then (Inl (InvalidFields ''Comment body is required.'' [(''body'', [''Enter a public comment.''])]), db)
         else case run_uow (bindS (comment_body env ctx tenant user key (py_strip body) ikey) (\<lambda>c. ret (Inr c))) db of
           (Inl e, db1) \<Rightarrow> (Inl e, db1)
         | (Inr (CommentedBefore a), db1) \<Rightarrow> (Inr (ForCustomer a, True), db1)
         | (Inr CommentedNow, db1) \<Rightarrow> (rbind (ticket_for_context ctx key db1) (\<lambda>a. Inr (a, False)), db1))"

end
