(* ===== verification/CatalogSpec.thy ===== *)
theory CatalogSpec
  imports Catalog Demo "HOL-Library.Multiset"
begin

text \<open>
  What the catalogue answers: the one effective version of a request type or an error that says why
  there is none, and a form with exactly the visible fields of that version.
\<close>

subsection \<open>Runs of a grouped list\<close>

lemma run_ends:
  "zs = [] \<or> k (hd zs) \<noteq> c \<Longrightarrow> takeWhile (\<lambda>y. k y = c) zs = [] \<and> dropWhile (\<lambda>y. k y = c) zs = zs"
  by (cases zs) auto

lemma runs_concat:
  "[] \<notin> set gs \<Longrightarrow> \<forall>g\<in>set gs. \<forall>y\<in>set g. k y = k (hd g) \<Longrightarrow> distinct (map (\<lambda>g. k (hd g)) gs)
    \<Longrightarrow> runs k (concat gs) = gs"
proof (induction gs)
  case (Cons g gs)
  then obtain x ys where g: "g = x # ys" by (cases g) auto
  have same: "\<forall>y\<in>set ys. k y = k x"
  proof
    fix y assume "y \<in> set ys"
    with Cons.prems(2) have "k y = k (hd (x # ys))" unfolding g by (meson list.set_intros)
    then show "k y = k x" by (simp only: list.sel)
  qed
  have stop: "concat gs = [] \<or> k (hd (concat gs)) \<noteq> k x"
    using Cons.prems(1,3) unfolding g by (cases gs) auto
  have ends: "takeWhile (\<lambda>y. k y = k x) (concat gs) = []" "dropWhile (\<lambda>y. k y = k x) (concat gs) = concat gs"
    using run_ends [where k = k, OF stop] by simp_all
  have "takeWhile (\<lambda>y. k y = k x) (ys @ concat gs) = ys @ takeWhile (\<lambda>y. k y = k x) (concat gs)"
    by (rule takeWhile_append2) (rule bspec [OF same])
  moreover have "dropWhile (\<lambda>y. k y = k x) (ys @ concat gs) = dropWhile (\<lambda>y. k y = k x) (concat gs)"
    by (rule dropWhile_append2) (rule bspec [OF same])
  moreover have "runs k (concat gs) = gs"
  proof (rule Cons.IH)
    show "[] \<notin> set gs" using Cons.prems(1) by (meson list.set_intros(2))
    show "\<forall>g\<in>set gs. \<forall>y\<in>set g. k y = k (hd g)" using Cons.prems(2) by (meson list.set_intros(2))
    show "distinct (map (\<lambda>g. k (hd g)) gs)" using Cons.prems(3) by (simp only: list.map distinct.simps)
  qed
  ultimately show ?case by (simp add: g ends)
qed simp

lemma sorted_groups:
  assumes "sorted_wrt (\<lambda>a b. \<forall>x\<in>set (g a). \<forall>y\<in>set (g b). k x \<le> k y) as"
    and "\<And>a. a \<in> set as \<Longrightarrow> sorted (map k (g a))"
  shows "sorted (map k (concat (map g as)))"
  using assms by (induction as) (auto simp: sorted_append)

lemma mset_concat_map_cong:
  "mset xs = mset ys \<Longrightarrow> mset (concat (map g xs)) = mset (concat (map g ys))"
proof -
  assume "mset xs = mset ys"
  then have "sum_mset (image_mset (\<lambda>x. mset (g x)) (mset xs)) = sum_mset (image_mset (\<lambda>x. mset (g x)) (mset ys))"
    by (simp only:)
  then show ?thesis by (simp add: mset_concat comp_def sum_mset_sum_list [symmetric])
qed

subsection \<open>The fields of a version\<close>

text \<open>The unique keys of the catalogue tables.\<close>

definition catalogue_keys :: "catalogue_db \<Rightarrow> bool" where
  "catalogue_keys db \<longleftrightarrow> distinct (map (\<lambda>l. (ly_version l, ly_field l)) (cat_layouts db))
     \<and> distinct (map fo_id (cat_options db))"

definition active_field :: "uuid \<Rightarrow> catalogue_db \<Rightarrow> layout_row \<Rightarrow> custom_field_row option" where
  "active_field tenant db l = find (\<lambda>f. cf_id f = ly_field l \<and> cf_tenant f = tenant \<and> cf_active f) (cat_fields db)"

definition shown_order :: "layout_row \<times> custom_field_row \<Rightarrow> int \<times> string \<times> uuid" where
  "shown_order lf = (ly_order (fst lf), cf_code (snd lf), cf_id (snd lf))"

text \<open>The visible layout rows of a version with their active fields, in display order.\<close>

definition shown_fields :: "uuid \<Rightarrow> uuid \<Rightarrow> catalogue_db \<Rightarrow> (layout_row \<times> custom_field_row) list" where
  "shown_fields tenant version db = sort_key shown_order
     (List.map_filter (\<lambda>l. map_option (Pair l) (active_field tenant db l))
       (filter (\<lambda>l. ly_version l = version \<and> \<not> ly_hidden l) (cat_layouts db)))"

definition active_options :: "uuid \<Rightarrow> catalogue_db \<Rightarrow> field_option_row list" where
  "active_options field db = sort_key (\<lambda>x. (fo_order x, fo_label x, fo_id x))
     (filter (\<lambda>x. fo_field x = field \<and> fo_active x) (cat_options db))"

definition field_group :: "catalogue_db \<Rightarrow> layout_row \<times> custom_field_row \<Rightarrow> form_field list" where
  "field_group db lf = (let opts = active_options (cf_id (snd lf)) db in
     map (form_row (fst lf) (snd lf)) (if opts = [] then [None] else map Some opts))"

lemma active_fieldD: "active_field tenant db l = Some f \<Longrightarrow>
    f \<in> set (cat_fields db) \<and> cf_id f = ly_field l \<and> cf_tenant f = tenant \<and> cf_active f"
  unfolding active_field_def by (drule find_Some_in) simp

lemma set_map_filter: "set (List.map_filter f xs) = {y. \<exists>x\<in>set xs. f x = Some y}"
  by (induction xs) (auto simp: map_filter_simps split: option.splits)

lemma shown_fields_iff:
  "(l, f) \<in> set (shown_fields tenant version db) \<longleftrightarrow>
     l \<in> set (cat_layouts db) \<and> ly_version l = version \<and> \<not> ly_hidden l \<and> active_field tenant db l = Some f"
  by (auto simp: shown_fields_def set_map_filter)

lemma distinct_map_filter:
  assumes "distinct (map key xs)" "\<And>x y. f x = Some y \<Longrightarrow> key' y = key x"
  shows "distinct (map key' (List.map_filter f xs))"
  using assms(1)
proof (induction xs)
  case (Cons x xs)
  have "key' ` set (List.map_filter f xs) \<subseteq> key ` set xs"
    using assms(2) by (force simp: set_map_filter)
  with Cons assms(2) show ?case by (auto simp: map_filter_simps split: option.splits)
qed (simp add: map_filter_simps)

lemma shown_distinct:
  assumes "catalogue_keys db"
  shows "distinct (map (\<lambda>lf. cf_id (snd lf)) (shown_fields tenant version db))"
proof -
  let ?L = "filter (\<lambda>l. ly_version l = version \<and> \<not> ly_hidden l) (cat_layouts db)"
  let ?pairs = "List.map_filter (\<lambda>l. map_option (Pair l) (active_field tenant db l)) ?L"
  from assms have "distinct (map (\<lambda>l. (ly_version l, ly_field l)) ?L)"
    unfolding catalogue_keys_def by (simp add: distinct_map_filter distinct_map inj_on_def)
  then have "distinct (map ly_field ?L)" by (auto simp: distinct_map inj_on_def)
  then have "distinct (map (\<lambda>lf. cf_id (snd lf)) ?pairs)"
    by (rule distinct_map_filter) (auto dest: active_fieldD)
  moreover have "mset (map (\<lambda>lf. cf_id (snd lf)) (shown_fields tenant version db))
      = mset (map (\<lambda>lf. cf_id (snd lf)) ?pairs)"
    by (simp add: shown_fields_def)
  ultimately show ?thesis using mset_eq_imp_distinct_iff by blast
qed

lemma shown_strict:
  assumes "catalogue_keys db"
  shows "sorted_wrt (\<lambda>a b. shown_order a < shown_order b) (shown_fields tenant version db)"
proof -
  let ?S = "shown_fields tenant version db"
  have "distinct (map shown_order ?S)"
    using shown_distinct [OF assms] by (auto simp: distinct_map inj_on_def shown_order_def)
  moreover have "sorted (map shown_order ?S)" by (simp add: shown_fields_def)
  ultimately have "sorted_wrt (<) (map shown_order ?S)" by (simp add: strict_sorted_iff)
  then show ?thesis by (simp add: sorted_wrt_map)
qed

subsection \<open>The query returns the fields group by group\<close>

lemma group_mset: "mset (field_group db (l, f)) = mset (map (form_row l f) (options_query (cf_id f) db))"
proof -
  let ?A = "filter (\<lambda>x. fo_field x = cf_id f \<and> fo_active x) (cat_options db)"
  have m: "mset (active_options (cf_id f) db) = mset ?A" by (simp add: active_options_def)
  then have e: "active_options (cf_id f) db = [] \<longleftrightarrow> ?A = []"
    by (metis mset_zero_iff)
  show ?thesis
  proof (cases "?A = []")
    case True
    with e show ?thesis by (simp add: field_group_def options_query_def Let_def)
  next
    case False
    with e have "field_group db (l, f) = map (form_row l f \<circ> Some) (active_options (cf_id f) db)"
      by (simp add: field_group_def Let_def)
    with False m show ?thesis by (simp add: options_query_def Let_def)
  qed
qed

lemma query_mset:
  "mset (form_fields_query tenant version db) = mset (concat (map (field_group db) (shown_fields tenant version db)))"
proof -
  let ?L = "filter (\<lambda>l. ly_version l = version \<and> \<not> ly_hidden l) (cat_layouts db)"
  have "mset (concat (map (layout_rows tenant db) ls))
      = mset (concat (map (field_group db) (List.map_filter (\<lambda>l. map_option (Pair l) (active_field tenant db l)) ls)))"
    for ls
    by (induction ls)
      (auto simp: map_filter_simps layout_rows_def active_field_def group_mset split: option.splits)
  also have "\<dots> ?L = mset (concat (map (field_group db) (shown_fields tenant version db)))"
    by (rule mset_concat_map_cong) (simp add: shown_fields_def)
  finally show ?thesis by (simp add: form_fields_query_def)
qed

lemma field_group_row:
  "r \<in> set (field_group db (l, f)) \<Longrightarrow>
    \<exists>opt. r = form_row l f opt \<and> (\<forall>x. opt = Some x \<longrightarrow> x \<in> set (cat_options db))"
  by (auto simp: field_group_def active_options_def Let_def split: if_splits)

lemma form_key_order:
  "shown_order (l, f) < shown_order (l', f') \<Longrightarrow> form_key (form_row l f a) \<le> form_key (form_row l' f' b)"
  by (auto simp: shown_order_def form_key_def form_row_def less_prod_def less_eq_prod_def)

lemma form_key_option:
  "(fo_order x, fo_label x, fo_id x) \<le> (fo_order y, fo_label y, fo_id y) \<Longrightarrow>
    form_key (form_row l f (Some x)) \<le> form_key (form_row l f (Some y))"
  by (auto simp: form_key_def form_row_def option_key_def less_prod_def less_eq_prod_def)

lemma group_sorted: "sorted (map form_key (field_group db (l, f)))"
proof -
  have "sorted (map (\<lambda>x. (fo_order x, fo_label x, fo_id x)) (active_options (cf_id f) db))"
    by (simp add: active_options_def)
  then have "sorted (map (\<lambda>x. form_key (form_row l f (Some x))) (active_options (cf_id f) db))"
    unfolding sorted_map by (rule sorted_wrt_mono_rel [rotated]) (rule form_key_option)
  then show ?thesis by (simp add: field_group_def Let_def comp_def)
qed

lemma option_key_inj: "option_key d x = option_key d y \<longleftrightarrow> x = y"
  by (auto simp: option_key_def split: option.splits)

lemma form_rows_inj:
  assumes "catalogue_keys db"
  shows "inj_on form_key (set (concat (map (field_group db) (shown_fields tenant version db))))"
proof (rule inj_onI)
  fix r q assume "r \<in> set (concat (map (field_group db) (shown_fields tenant version db)))"
    "q \<in> set (concat (map (field_group db) (shown_fields tenant version db)))"
    and key: "form_key r = form_key q"
  then obtain l f l' f' where rows: "(l, f) \<in> set (shown_fields tenant version db)" "r \<in> set (field_group db (l, f))"
    "(l', f') \<in> set (shown_fields tenant version db)" "q \<in> set (field_group db (l', f'))" by auto
  from field_group_row [OF rows(2)] obtain a where a: "r = form_row l f a"
    "\<forall>x. a = Some x \<longrightarrow> x \<in> set (cat_options db)" by blast
  from field_group_row [OF rows(4)] obtain b where b: "q = form_row l' f' b"
    "\<forall>x. b = Some x \<longrightarrow> x \<in> set (cat_options db)" by blast
  from key have opt: "map_option fo_id a = map_option fo_id b"
    by (simp add: a(1) b(1) form_key_def form_row_def option_key_inj)
  from key have cid: "cf_id f = cf_id f'"
    by (simp add: a(1) b(1) form_key_def form_row_def option_key_inj)
  have "inj_on (\<lambda>lf. cf_id (snd lf)) (set (shown_fields tenant version db))"
    using shown_distinct [OF assms] by (simp add: distinct_map)
  from inj_onD [OF this _ rows(1) rows(3)] cid have same: "(l, f) = (l', f')" by simp
  have "inj_on fo_id (set (cat_options db))"
    using assms by (simp add: catalogue_keys_def distinct_map)
  with opt a(2) b(2) have "a = b"
    by (auto simp: map_option_case inj_on_def split: option.splits)
  with same show "r = q" by (simp add: a(1) b(1))
qed

lemma form_query_groups:
  assumes "catalogue_keys db"
  shows "form_fields_query tenant version db = concat (map (field_group db) (shown_fields tenant version db))"
proof -
  let ?G = "concat (map (field_group db) (shown_fields tenant version db))"
  let ?Q = "concat (map (layout_rows tenant db) (filter (\<lambda>l. ly_version l = version \<and> \<not> ly_hidden l) (cat_layouts db)))"
  have "sorted_wrt (\<lambda>a b. \<forall>x\<in>set (field_group db a). \<forall>y\<in>set (field_group db b). form_key x \<le> form_key y)
      (shown_fields tenant version db)"
    using shown_strict [OF assms]
  proof (rule sorted_wrt_mono_rel [rotated])
    fix a b assume o: "shown_order a < shown_order b"
    obtain l f l' f' where ab: "a = (l, f)" "b = (l', f')" by (cases a, cases b)
    with o show "\<forall>x\<in>set (field_group db a). \<forall>y\<in>set (field_group db b). form_key x \<le> form_key y"
      using form_key_order by (metis field_group_row)
  qed
  then have sorted: "sorted (map form_key ?G)"
    by (rule sorted_groups) (metis group_sorted surj_pair)
  have m: "mset ?Q = mset ?G" using query_mset [of tenant version db] by (simp add: form_fields_query_def)
  have "inj_on form_key (set ?Q)" using form_rows_inj [OF assms] mset_eq_setD [OF m] by metis
  from sort_key_inj_key_eq [OF m this sorted] show ?thesis by (simp add: form_fields_query_def)
qed

lemma group_shape: "field_group db (l, f) \<noteq> [] \<and> (\<forall>r\<in>set (field_group db (l, f)). ff_field r = cf_id f)"
  by (auto simp: field_group_def Let_def form_row_def)

lemma form_runs:
  assumes "catalogue_keys db"
  shows "runs ff_field (form_fields_query tenant version db) = map (field_group db) (shown_fields tenant version db)"
proof -
  have hd: "ff_field (hd (field_group db lf)) = cf_id (snd lf)" for lf
    using group_shape [of db "fst lf" "snd lf"] by simp
  show ?thesis
    unfolding form_query_groups [OF assms]
  proof (rule runs_concat)
    show "[] \<notin> set (map (field_group db) (shown_fields tenant version db))"
    proof
      assume "[] \<in> set (map (field_group db) (shown_fields tenant version db))"
      then obtain lf where "[] = field_group db lf" by auto
      with group_shape [of db "fst lf" "snd lf"] show False by simp
    qed
    show "\<forall>g\<in>set (map (field_group db) (shown_fields tenant version db)). \<forall>y\<in>set g. ff_field y = ff_field (hd g)"
      using group_shape [of db] hd by auto
    show "distinct (map (\<lambda>g. ff_field (hd g)) (map (field_group db) (shown_fields tenant version db)))"
      using shown_distinct [OF assms] by (simp add: comp_def hd)
  qed
qed


subsection \<open>What the service answers\<close>

definition option_entry :: "field_option_row \<Rightarrow> field_option" where
  "option_entry x = \<lparr>op_id = fo_id x, op_value = Some (fo_code x), op_label = Some (fo_label x),
     op_order = Some (fo_order x)\<rparr>"

definition shows_field :: "coercions \<Rightarrow> catalogue_db \<Rightarrow> layout_row \<times> custom_field_row \<Rightarrow> form_field_response \<Rightarrow> bool" where
  "shows_field co db lf p \<longleftrightarrow> (let l = fst lf; f = snd lf in
     fp_field p = cf_id f \<and> fp_code p = cf_code f \<and> fp_type p = cf_type f \<and> fp_order p = ly_order l
     \<and> fp_required p = ly_required l \<and> fp_default p = ly_default l
     \<and> field_validation_of co (cf_validation f) = Some (fp_validation p)
     \<and> parse_conditional_rule (ly_condition l) = Inr (fp_condition p)
     \<and> fp_options p = map option_entry (active_options (cf_id f) db))"

lemma group_options: "List.map_filter field_option_of (field_group db (l, f)) = map option_entry (active_options (cf_id f) db)"
proof -
  have "List.map_filter field_option_of (map (form_row l f) (map Some os)) = map option_entry os" for os
    by (induction os) (simp_all add: map_filter_simps field_option_of_def form_row_def option_entry_def)
  then show ?thesis by (simp add: field_group_def Let_def map_filter_simps field_option_of_def form_row_def)
qed

lemma group_response:
  assumes "field_response co (field_group db lf) = Inr p"
  shows "shows_field co db lf p"
proof -
  obtain l f where lf: "lf = (l, f)" by (cases lf)
  obtain opt where "hd (field_group db (l, f)) = form_row l f opt"
    using field_group_row group_shape by (metis list.set_sel(1))
  with assms show ?thesis
    unfolding field_response_def lf Let_def group_options
    by (auto simp: form_row_def shows_field_def rbind_Inr_iff of_option_iff require_iff)
qed

lemma one_effective_version:
  assumes "get_request_type env ctx i at_time db = Inr (now, s)"
  obtains tenant r v where "ctx_tenant_id ctx = Some tenant" "r \<in> set (cat_request_types db)"
    "visible_request_type tenant db r" "rq_id r = i" "rs_project s = rq_project r" "rs_id s = i"
    "now = evaluation_time env at_time" "ver_id (rs_version s) = rv_id v"
    "filter (\<lambda>v. rv_type v = i \<and> effective_version now v) (cat_versions db) = [v]"
proof -
  from assms obtain tenant where ctx: "ctx_tenant_id ctx = Some tenant"
    and q: "request_type_query tenant i now db = Some s" "ver_count (rs_version s) = 1"
    and now: "now = evaluation_time env at_time"
    by (auto simp: get_request_type_def tenant_of_def allow_def ensure_unambiguous_def Let_def
        rbind_Inr_iff of_option_iff require_iff split: option.splits)
  from q(1) obtain r where r: "find (\<lambda>r. rq_id r = i) (cat_request_types db) = Some r"
    "summary_of tenant now db r = Some s" by (auto simp: request_type_query_def bind_eq_Some_conv)
  from find_Some_in [OF r(1)] have ri: "r \<in> set (cat_request_types db)" "rq_id r = i" by simp_all
  from r(2) obtain v vs where vs: "effective_versions (rq_id r) now db = v # vs"
    and s: "visible_request_type tenant db r" "rs_project s = rq_project r" "rs_id s = rq_id r"
    "ver_id (rs_version s) = rv_id v" "ver_count (rs_version s) = length (v # vs)"
    by (auto simp: summary_of_def split: list.splits option.splits if_splits)
  let ?E = "filter (\<lambda>v. rv_type v = i \<and> effective_version now v) (cat_versions db)"
  from q(2) s(5) vs ri have "sort_key version_rank ?E = [v]" by (simp add: effective_versions_def)
  then have one: "sort_key version_rank ?E = [v]" .
  have "length ?E = Suc 0" using arg_cong [where f = length, OF one] by simp
  then obtain w where w: "?E = [w]" by (auto simp: length_Suc_conv)
  with one have "?E = [v]" by simp
  with ctx ri s now show thesis by (intro that [of tenant r v]) simp_all
qed


text \<open>C30: a form shows the one effective version of a request type its caller may see: one entry per
  visible field of that version that is active in the caller's tenant, in display order, with the
  field's own flags, rules and default and exactly its active options in their order. Grouping the
  joined rows neither splits nor merges fields.\<close>

theorem form_faithful:
  assumes "catalogue_keys db" "form co env ctx i at_time db = Inr f"
  shows "\<exists>tenant v. ctx_tenant_id ctx = Some tenant
    \<and> filter (\<lambda>v. rv_type v = i \<and> effective_version (evaluation_time env at_time) v) (cat_versions db) = [v]
    \<and> (\<exists>r\<in>set (cat_request_types db). rq_id r = i \<and> visible_request_type tenant db r
        \<and> pj_id (fm_project f) = rq_project r)
    \<and> list_all2 (shows_field co db) (shown_fields tenant (rv_id v) db) (fm_fields f)"
proof -
  from assms(2) obtain tenant0 s p fields where ctx0: "ctx_tenant_id ctx = Some tenant0"
    and rt: "get_request_type env ctx i at_time db = Inr (fm_evaluated f, s)"
    and pj: "get_project ctx (rs_project s) db = Inr (fm_project f)"
    and fields: "form_responses co (form_fields_query tenant0 (ver_id (rs_version s)) db) = Inr (fm_fields f)"
    unfolding form_def by (auto simp: rbind_Inr_iff tenant_of_def)
  from rt obtain tenant r v where ctx: "ctx_tenant_id ctx = Some tenant"
    and r: "r \<in> set (cat_request_types db)" "visible_request_type tenant db r" "rq_id r = i" "rs_project s = rq_project r"
    and now: "fm_evaluated f = evaluation_time env at_time" and v: "ver_id (rs_version s) = rv_id v"
    "filter (\<lambda>v. rv_type v = i \<and> effective_version (fm_evaluated f) v) (cat_versions db) = [v]"
    by (rule one_effective_version)
  from pj r(4) have "pj_id (fm_project f) = rq_project r"
    unfolding get_project_def by (auto simp: rbind_Inr_iff project_query_def dest: find_Some_in)
  moreover from fields ctx ctx0 v(1) have "map_result (field_response co)
      (map (field_group db) (shown_fields tenant (rv_id v) db)) = Inr (fm_fields f)"
    by (simp add: form_responses_def form_runs [OF assms(1)])
  then have "list_all2 (shows_field co db) (shown_fields tenant (rv_id v) db) (fm_fields f)"
    unfolding map_result_Inr_iff
    by (auto simp: list_all2_map1 elim!: list_all2_mono intro: group_response)
  ultimately show ?thesis using ctx r v(2) now by auto
qed


subsection \<open>A small catalogue\<close>

definition shop_field :: "uuid \<Rightarrow> string \<Rightarrow> string \<Rightarrow> custom_field_row" where
  "shop_field i code type = \<lparr>cf_id = i, cf_tenant = 9, cf_code = code, cf_name = code, cf_type = type,
     cf_validation = PDict [], cf_active = True\<rparr>"

definition demo_layout :: "uuid \<Rightarrow> int \<Rightarrow> bool \<Rightarrow> layout_row" where
  "demo_layout field ord needed = \<lparr>ly_version = 81, ly_field = field, ly_label = None, ly_help = None,
     ly_order = ord, ly_required = needed, ly_hidden = False, ly_default = PNone, ly_condition = PDict []\<rparr>"

definition demo_option :: "uuid \<Rightarrow> string \<Rightarrow> int \<Rightarrow> field_option_row" where
  "demo_option i code ord = \<lparr>fo_id = i, fo_field = 82, fo_code = code, fo_label = code, fo_order = ord,
     fo_active = True\<rparr>"

definition demo_catalogue :: catalogue_db where
  "demo_catalogue = \<lparr>cat_tenants = [(9, True)],
     cat_projects = [\<lparr>pj_id = 8, pj_tenant = 9, pj_key = ''HR'', pj_name = ''People'', pj_description = None,
       pj_timezone = ''UTC'', pj_active = True\<rparr>],
     cat_nodes = [], cat_work_types = [\<lparr>wy_id = 90, wy_tenant = None, wy_code = ''REQUEST'', wy_name = ''Request'',
       wy_active = True\<rparr>],
     cat_request_types = [\<lparr>rq_id = 80, rq_tenant = 9, rq_project = 8, rq_work_type = 90, rq_workflow = 19,
       rq_code = ''ACCESS'', rq_name = ''Access'', rq_description = None, rq_group = None, rq_order = 0,
       rq_visible = True, rq_active = True\<rparr>],
     cat_versions = [\<lparr>rv_id = 81, rv_type = 80, rv_number = 1, rv_status = ''PUBLISHED'', rv_published = Some 0,
       rv_retired = None, rv_start = None, rv_end = None\<rparr>],
     cat_fields = [shop_field 82 ''cause'' ''SINGLE_SELECT'', shop_field 83 ''note'' ''TEXT''],
     cat_options = [demo_option 85 ''OLD'' 2, demo_option 84 ''NEW'' 1],
     cat_layouts = [demo_layout 82 2 True, demo_layout 83 1 False], cat_environments = []\<rparr>"

lemmas catalogue_data = demo_catalogue_def shop_field_def demo_layout_def demo_option_def

lemma demo_catalogue_keys: "catalogue_keys demo_catalogue"
  by (simp add: catalogue_keys_def catalogue_data)

lemma demo_customer_reads [simp]:
  "p \<in> {CATALOG_PROJECT_LIST, CATALOG_REQUEST_TYPE_LIST, CATALOG_FORM_READ} \<Longrightarrow>
    r = None \<or> r = Some (tenant_resource (Some 9) q) \<Longrightarrow> is_allowed (demo_context u ''CUSTOMER'') p r"
  by (auto simp: is_allowed_iff is_authenticated_def demo_context_def tenant_resource_def role_grants_def
      role_permissions_def grant_to_def initial_role_codes_def base_permissions_def catalogue_read_def)

definition demo_coercions :: coercions where
  "demo_coercions = \<lparr>lax_int = (\<lambda>v. case v of PInt i \<Rightarrow> Some i | _ \<Rightarrow> None), lax_decimal = (\<lambda>_. None)\<rparr>"

lemma demo_form_rows:
  "form_fields_query 9 81 demo_catalogue = [form_row (demo_layout 83 1 False) (shop_field 83 ''note'' ''TEXT'') None,
     form_row (demo_layout 82 2 True) (shop_field 82 ''cause'' ''SINGLE_SELECT'') (Some (demo_option 84 ''NEW'' 1)),
     form_row (demo_layout 82 2 True) (shop_field 82 ''cause'' ''SINGLE_SELECT'') (Some (demo_option 85 ''OLD'' 2))]"
  by (simp add: form_fields_query_def layout_rows_def catalogue_data options_query_def form_row_def form_key_def
      less_eq_prod_def less_prod_def option_key_def Let_def)

lemma demo_form_answer: "\<exists>f. form demo_coercions demo_env (demo_context 2 ''CUSTOMER'') 80 None demo_catalogue = Inr f"
proof -
  have rt: "get_request_type demo_env (demo_context 2 ''CUSTOMER'') 80 None demo_catalogue =
    Inr (1000000, \<lparr>rs_id = 80, rs_project = 8, rs_code = ''ACCESS'', rs_name = ''Access'', rs_description = None,
      rs_group = None, rs_order = 0, rs_work_type = (''REQUEST'', ''Request''),
      rs_version = \<lparr>ver_id = 81, ver_number = 1, ver_start = None, ver_end = None, ver_count = 1\<rparr>\<rparr>)"
    by (simp add: get_request_type_def tenant_of_def allow_def evaluation_time_def demo_env_def
        request_type_query_def catalogue_data summary_of_def effective_versions_def effective_version_def in_force_def
        visible_request_type_def visible_project_def tenant_active_def ensure_unambiguous_def)
  have pj: "get_project (demo_context 2 ''CUSTOMER'') 8 demo_catalogue = Inr (hd (cat_projects demo_catalogue))"
    by (simp add: get_project_def tenant_of_def allow_def project_query_def visible_project_def tenant_active_def
        catalogue_data)
  have "\<exists>fs. form_responses demo_coercions (form_fields_query 9 81 demo_catalogue) = Inr fs"
    unfolding demo_form_rows
    by (simp add: form_responses_def field_response_def form_row_def shop_field_def demo_layout_def demo_option_def
        field_validation_of_def optional_entry_def parse_conditional_rule_def catalogue_field_types_def Let_def dget_none_def ordered_def)
  with rt pj show ?thesis by (auto simp: form_def tenant_of_def allow_def)
qed

theorem form_faithful_witness:
  "\<exists>f. form demo_coercions demo_env (demo_context 2 ''CUSTOMER'') 80 None demo_catalogue = Inr f
     \<and> list_all2 (shows_field demo_coercions demo_catalogue) (shown_fields 9 81 demo_catalogue) (fm_fields f)"
proof -
  from demo_form_answer obtain f where f: "form demo_coercions demo_env (demo_context 2 ''CUSTOMER'') 80 None demo_catalogue = Inr f" ..
  from form_faithful [OF demo_catalogue_keys f] f show ?thesis
    by (auto simp: demo_catalogue_def effective_version_def in_force_def demo_env_def evaluation_time_def)
qed

end
