(* ===== verification/TicketPages.thy ===== *)
theory TicketPages
  imports Tickets CatalogSpec "HOL-Library.Multiset"
begin

text \<open>
  Keyset pagination: a client that follows the cursors of a list it does not change sees every row once,
  newest first, and comes to an end.
\<close>

subsection \<open>The rows behind a position\<close>

lemma newest_filter:
  "newest key n position rows = take n (filter (\<lambda>r. before position (key r)) (rev (sort_key key rows)))"
  by (simp add: newest_def filter_sort [symmetric] rev_filter)

lemma descending:
  assumes "distinct (map key rows)"
  shows "sorted_wrt (\<lambda>a b. key b < key a) (rev (sort_key key rows))"
proof -
  have "distinct (map key (sort_key key rows))"
    using assms by (simp add: distinct_map)
  then have "sorted_wrt (<) (map key (sort_key key rows))" by (simp add: strict_sorted_iff)
  then show ?thesis by (simp add: sorted_wrt_map sorted_wrt_rev)
qed

lemma behind:
  assumes "sorted_wrt (\<lambda>a b. key b < key a) (xs @ y # ys)"
  shows "filter (\<lambda>r. before (Some (key y)) (key r)) (xs @ y # ys) = ys"
proof -
  have "filter (\<lambda>r. before (Some (key y)) (key r)) xs = []"
    using assms by (auto simp: filter_empty_conv before_def sorted_wrt_append dest: less_asym)
  moreover have "filter (\<lambda>r. before (Some (key y)) (key r)) ys = ys"
    using assms by (auto simp: filter_id_conv before_def sorted_wrt_append)
  ultimately show ?thesis by (simp add: before_def)
qed

subsection \<open>Following the cursors\<close>

text \<open>\<open>None\<close>: the client still holds a cursor after \<open>n\<close> pages.\<close>

fun walk_pages ::
  "(string option \<Rightarrow> app_error + 'a list \<times> string option) \<Rightarrow> nat \<Rightarrow> string option \<Rightarrow> (app_error + 'a list) option" where
  "walk_pages f 0 cursor = None"
| "walk_pages f (Suc n) cursor = (case f cursor of
       Inl e \<Rightarrow> Some (Inl e)
     | Inr (rows, None) \<Rightarrow> Some (Inr rows)
     | Inr (rows, Some c) \<Rightarrow> map_option (\<lambda>rest. rbind rest (\<lambda>later. Inr (rows @ later))) (walk_pages f n (Some c)))"

text \<open>
  The contract of a paged list: the request \<open>q\<close> has rows with distinct keys, and a page at a cursor is cut
  from the rows behind the position that the cursor stands for.
\<close>

locale keyset_pages =
  fixes ready :: "'q \<Rightarrow> bool"
    and rows_of :: "'q \<Rightarrow> 'a list"
    and key :: "'a \<Rightarrow> instant \<times> uuid"
    and encode :: "'a \<Rightarrow> string"
    and render :: "'q \<Rightarrow> 'a \<Rightarrow> 'b"
    and list_page :: "'q \<Rightarrow> nat \<Rightarrow> string option \<Rightarrow> app_error + 'b list \<times> string option"
  assumes keys: "ready q \<Longrightarrow> distinct (map key (rows_of q))"
    and first_page: "ready q \<Longrightarrow> paged encode limit (newest key (limit + 1) None (rows_of q)) = (found, next_cursor)
      \<Longrightarrow> list_page q limit None = Inr (map (render q) found, next_cursor)"
    and next_page: "ready q \<Longrightarrow> r \<in> set (rows_of q)
      \<Longrightarrow> paged encode limit (newest key (limit + 1) (Some (key r)) (rows_of q)) = (found, next_cursor)
      \<Longrightarrow> list_page q limit (Some (encode r)) = Inr (map (render q) found, next_cursor)"
begin

definition all_rows :: "'q \<Rightarrow> 'a list" where
  "all_rows q = rev (sort_key key (rows_of q))"

lemma page_rest:
  assumes "0 < limit" "paged encode limit (take (limit + 1) zs) = (found, next_cursor)"
  obtains "next_cursor = None" "found = zs"
    | y xs ys where "next_cursor = Some (encode y)" "zs = xs @ y # ys" "found = xs @ [y]"
proof (cases "length zs \<le> limit")
  case True
  with assms(2) show ?thesis by (intro that(1)) (auto simp: paged_def Let_def)
next
  case False
  with assms have f: "found = take limit zs" "next_cursor = Some (encode (last found))" "found \<noteq> []"
    by (auto simp: paged_def Let_def min_def split: if_splits)
  from f(3) have split: "found = butlast found @ [last found]" by simp
  moreover have "zs = found @ drop limit zs" using f(1) by simp
  ultimately have "zs = butlast found @ last found # drop limit zs"
    by (metis append.assoc append_Cons append_Nil)
  from that(2) [OF f(2) this split] show ?thesis .
qed

lemma walk_from:
  assumes "ready q" "0 < limit"
  shows "all_rows q = ps @ y # zs \<Longrightarrow> length zs < n
    \<Longrightarrow> walk_pages (list_page q limit) n (Some (encode y)) = Some (Inr (map (render q) zs))"
proof (induction n arbitrary: ps y zs)
  case (Suc n)
  have "y \<in> set (rows_of q)"
  proof -
    have "y \<in> set (all_rows q)" by (simp add: Suc.prems(1))
    then show ?thesis by (simp add: all_rows_def)
  qed
  have "sorted_wrt (\<lambda>a b. key b < key a) (ps @ y # zs)"
    using descending [OF keys [OF assms(1)]] Suc.prems(1) by (simp add: all_rows_def)
  from behind [OF this] have cut: "newest key (limit + 1) (Some (key y)) (rows_of q) = take (limit + 1) zs"
    unfolding newest_filter all_rows_def [symmetric] Suc.prems(1) by (simp only:)
  obtain found next_cursor where p: "paged encode limit (take (limit + 1) zs) = (found, next_cursor)" by fastforce
  from next_page [OF assms(1) \<open>y \<in> set (rows_of q)\<close>] p cut
  have page: "list_page q limit (Some (encode y)) = Inr (map (render q) found, next_cursor)" by simp
  from assms(2) p show ?case
  proof (cases rule: page_rest)
    case 1
    then show ?thesis by (simp add: page)
  next
    case (2 x xs ys)
    from 2(2) Suc.prems have "all_rows q = (ps @ y # xs) @ x # ys" "length ys < n" by simp_all
    from Suc.IH [OF this] 2 show ?thesis by (simp add: page)
  qed
qed simp

lemma walk_complete:
  assumes "ready q" "0 < limit" "length (rows_of q) < n"
  shows "walk_pages (list_page q limit) n None = Some (Inr (map (render q) (all_rows q)))"
proof -
  obtain m where n: "n = Suc m" using assms(3) by (cases n) auto
  have cut: "newest key (limit + 1) None (rows_of q) = take (limit + 1) (all_rows q)"
    by (simp add: newest_filter before_def all_rows_def)
  obtain found next_cursor where p: "paged encode limit (take (limit + 1) (all_rows q)) = (found, next_cursor)" by fastforce
  from first_page [OF assms(1)] p cut
  have page: "list_page q limit None = Inr (map (render q) found, next_cursor)" by simp
  from assms(2) p show ?thesis
  proof (cases rule: page_rest)
    case 1
    then show ?thesis by (simp add: page n)
  next
    case (2 x xs ys)
    have "length (all_rows q) = length (rows_of q)" by (simp add: all_rows_def)
    then have "length ys < m" using assms(3) n 2(2) by simp
    from walk_from [OF assms(1,2) 2(2) this] 2 show ?thesis by (simp add: page n)
  qed
qed

end


subsection \<open>The lists of the ticket service\<close>

record ticket_listing =
  tl_env :: desk_env
  tl_context :: request_context
  tl_tenant :: uuid
  tl_user :: uuid
  tl_db :: desk_db

definition stored_times :: "desk_db \<Rightarrow> bool" where
  "stored_times db \<longleftrightarrow> distinct (map t_id (tickets (desk_case db)))
     \<and> (\<forall>t\<in>set (tickets (desk_case db)). datetime_range (t_created t))"

definition lists_own :: "ticket_listing \<Rightarrow> bool" where
  "lists_own q \<longleftrightarrow> caller (tl_context q) TICKET_READ_OWN = Inr (tl_tenant q, tl_user q) \<and> stored_times (tl_db q)"

definition lists_reachable :: "ticket_listing \<Rightarrow> bool" where
  "lists_reachable q \<longleftrightarrow> caller (tl_context q) TICKET_ANALYST_READ = Inr (tl_tenant q, tl_user q) \<and> stored_times (tl_db q)"

definition own_rows :: "ticket_listing \<Rightarrow> ticket_view list" where
  "own_rows q = views_where (concerns (tl_tenant q) (tl_user q)) (tl_db q)"

definition reachable_rows :: "ticket_listing \<Rightarrow> ticket_view list" where
  "reachable_rows q = views_where (in_reach (tl_tenant q) (support_group_ids (tl_context q)) (reads_all (tl_context q))) (tl_db q)"

lemma view_of_same: "view_of_ticket db t = Some v \<Longrightarrow> tv_ticket v = t"
  by (auto simp: view_of_ticket_def Let_def split: option.splits)

lemma views_where_tickets: "map tv_ticket (views_where p db) = filter (\<lambda>t. view_of_ticket db t \<noteq> None) (filter p (tickets (desk_case db)))"
proof -
  have "map tv_ticket (List.map_filter (view_of_ticket db) ts) = filter (\<lambda>t. view_of_ticket db t \<noteq> None) ts" for ts
    by (induction ts) (auto simp: map_filter_simps dest: view_of_same split: option.splits)
  then show ?thesis by (simp only: views_where_def)
qed

lemma views_keys:
  assumes "stored_times db"
  shows "distinct (map view_key (views_where p db))" "v \<in> set (views_where p db) \<Longrightarrow> datetime_range (fst (view_key v))"
proof -
  have "distinct (map t_id (map tv_ticket (views_where p db)))"
    unfolding views_where_tickets using assms by (simp add: stored_times_def distinct_map inj_on_def)
  then show "distinct (map view_key (views_where p db))"
    by (auto simp: distinct_map inj_on_def view_key_def)
  assume "v \<in> set (views_where p db)"
  then have "tv_ticket v \<in> set (map tv_ticket (views_where p db))" by simp
  then have "tv_ticket v \<in> set (tickets (desk_case db))" unfolding views_where_tickets by simp
  with assms show "datetime_range (fst (view_key v))" by (simp add: stored_times_def view_key_def)
qed

lemma cursor_position:
  "datetime_range (fst (view_key v)) \<Longrightarrow> position_of env decode_cursor (Some (cursor_of_view v)) = Inr (Some (view_key v))"
proof -
  assume r: "datetime_range (fst (view_key v))"
  obtain t i where k: "view_key v = (t, i)" by fastforce
  with r have "datetime_range t" by simp
  from decode_encode_cursor [OF this] utc_position [OF this] this
  have "position_of env decode_cursor (Some (encode_cursor t i)) = Inr (Some (t, i))"
    by (simp add: position_of_def utc_stamp_def Let_def)
  then show ?thesis by (simp add: cursor_of_view_def k)
qed

lemma position_None [simp]: "position_of env decode None = Inr None"
  by (simp add: position_of_def)

interpretation own_list: keyset_pages lists_own own_rows view_key cursor_of_view "\<lambda>q v. answer_of v (tl_db q)"
    "\<lambda>q limit cursor. my_tickets (tl_env q) (tl_context q) limit cursor (tl_db q)"
  by unfold_locales
    (auto simp: lists_own_def own_rows_def my_tickets_def tickets_query_def views_keys cursor_position)

interpretation reachable_list: keyset_pages lists_reachable reachable_rows view_key cursor_of_view "\<lambda>q v. answer_of v (tl_db q)"
    "\<lambda>q limit cursor. analyst_tickets (tl_env q) (tl_context q) limit cursor (tl_db q)"
  by unfold_locales
    (auto simp: lists_reachable_def reachable_rows_def analyst_tickets_def analyst_query_def views_keys cursor_position)

text \<open>C5: an employee who follows the cursors of \<open>my_tickets\<close> with any page size gets a page without a cursor after
  at most one page more than there are tickets, and has then seen every ticket reported by or requested for them
  exactly once, newest first. Tickets have distinct identifiers and creation times in the range of a date.\<close>

theorem my_tickets_walk:
  assumes "caller ctx TICKET_READ_OWN = Inr (tenant, user)" "stored_times db" "0 < limit"
    and "length (tickets (desk_case db)) < n"
  shows "walk_pages (\<lambda>cursor. my_tickets env ctx limit cursor db) n None
    = Some (Inr (map (\<lambda>v. answer_of v db) (rev (sort_key view_key (views_where (concerns tenant user) db)))))"
proof -
  let ?q = "\<lparr>tl_env = env, tl_context = ctx, tl_tenant = tenant, tl_user = user, tl_db = db\<rparr>"
  have "length (views_where (concerns tenant user) db) = length (map tv_ticket (views_where (concerns tenant user) db))"
    by simp
  also have "\<dots> \<le> length (tickets (desk_case db))"
    unfolding views_where_tickets filter_filter by (rule length_filter_le)
  finally have "length (own_rows ?q) < n" using assms(4) by (simp add: own_rows_def)
  moreover have "lists_own ?q" using assms(1,2) by (simp add: lists_own_def)
  ultimately show ?thesis
    using own_list.walk_complete [of ?q limit n] assms(3) by (simp add: own_list.all_rows_def own_rows_def)
qed


subsection \<open>A small list\<close>

definition demo_desk :: "helpdesk_db \<Rightarrow> catalogue_db \<Rightarrow> desk_db" where
  "demo_desk db cat = \<lparr>desk_case = db, desk_catalogue = cat, drafts = [], conversations = [(70, 2)],
     priority_matrix = [\<lparr>mx_id = 95, mx_tenant = None, mx_project = None, mx_node = None, mx_impact = ''LOW'',
       mx_urgency = ''LOW'', mx_priority = ''P3'', mx_order = 100, mx_from = 0, mx_to = None, mx_status = ''APPROVED''\<rparr>],
     active_codes = ([''LOW''], [''LOW''], [''P2'', ''P3'']),
     workflow_versions = [\<lparr>wv_id = 20, wv_workflow = 19, wv_status = ''PUBLISHED'', wv_published = Some 0,
       wv_from = None, wv_to = None\<rparr>],
     initial_statuses = [(20, 21)], next_number = (\<lambda>_. Some 3), custom_rows = [], watchlist = [], sla_rows = []\<rparr>"

definition demo_desk_env :: desk_env where
  "demo_desk_env = \<lparr>env_now = 1000000, env_wall = 1000000, env_digest = (\<lambda>_. ''digest''),
     env_text_digest = id, env_float = (\<lambda>_. ''0''), env_local = instant_of\<rparr>"

lemma demo_customer_tickets [simp]:
  "p \<in> {TICKET_DRAFT_CREATE, TICKET_DRAFT_UPDATE_OWN, TICKET_SUBMIT, TICKET_READ_OWN, TICKET_COMMENT_PUBLIC} \<Longrightarrow>
    caller (demo_context u ''CUSTOMER'') p = Inr (9, u)"
  by (auto simp: caller_def permitted_def allow_def identity_or_def tenant_resource_def is_allowed_iff is_authenticated_def
      demo_context_def role_grants_def role_permissions_def grant_to_def initial_role_codes_def base_permissions_def)

theorem my_tickets_walk_witness:
  "walk_pages (\<lambda>cursor. my_tickets demo_desk_env (demo_context 2 ''CUSTOMER'') 1 cursor (demo_desk demo_db demo_catalogue)) 3 None
    = Some (Inr (map (\<lambda>v. answer_of v (demo_desk demo_db demo_catalogue))
        (rev (sort_key view_key (views_where (concerns 9 2) (demo_desk demo_db demo_catalogue))))))
   \<and> length (views_where (concerns 9 2) (demo_desk demo_db demo_catalogue)) = 2"
proof (intro conjI my_tickets_walk)
  show "caller (demo_context 2 ''CUSTOMER'') TICKET_READ_OWN = Inr (9, 2)" by simp
  show "stored_times (demo_desk demo_db demo_catalogue)"
    by (simp add: stored_times_def demo_desk_def demo_db_def demo_ticket_def datetime_range_def)
  show "length (tickets (desk_case (demo_desk demo_db demo_catalogue))) < 3" by (simp add: demo_desk_def demo_db_def)
  show "length (views_where (concerns 9 2) (demo_desk demo_db demo_catalogue)) = 2"
    by (simp add: views_where_def concerns_def demo_desk_def demo_db_def demo_ticket_def view_of_ticket_def
        demo_catalogue_def demo_status_def user_name_def demo_user_def List.map_filter_def)
qed simp

end
