(* ===== verification/TicketLaws.thy ===== *)
theory TicketLaws
  imports Helpdesk TicketPages
begin

text \<open>
  What the statements of the ticket service do to drafts and tickets, and the relation along which the
  desk moves: drafts keep their identity, closed drafts stay as they are, tickets are only opened.
\<close>

subsection \<open>Growth of tables\<close>

definition extends :: "('a \<Rightarrow> 'a \<Rightarrow> bool) \<Rightarrow> 'a list \<Rightarrow> 'a list \<Rightarrow> bool" where
  "extends R xs ys \<longleftrightarrow> (\<exists>zs ws. ys = zs @ ws \<and> list_all2 R xs zs)"

lemma extends_refl: "(\<And>x. R x x) \<Longrightarrow> extends R xs xs"
  unfolding extends_def by (rule exI [of _ xs]) (simp add: list_all2_same)

lemma extends_append: "(\<And>x. R x x) \<Longrightarrow> extends R xs (xs @ ys)"
  unfolding extends_def by (rule exI [of _ xs]) (simp add: list_all2_same)

lemma extends_trans:
  assumes "\<And>x y z. R x y \<Longrightarrow> R y z \<Longrightarrow> R x z" "extends R xs ys" "extends R ys zs"
  shows "extends R xs zs"
proof -
  from assms(2,3) obtain a b c d where ys: "ys = a @ b" "list_all2 R xs a" and zs: "zs = c @ d" "list_all2 R (a @ b) c"
    by (auto simp: extends_def)
  from zs(2) obtain c1 c2 where c: "c = c1 @ c2" "list_all2 R a c1" by (auto simp: list_all2_append1)
  from list_all2_trans [of R R R, OF assms(1) ys(2) c(2)] zs(1) c(1) show ?thesis
    unfolding extends_def by (intro exI [of _ c1] exI [of _ "c2 @ d"]) simp
qed

lemma extends_map:
  "(\<And>x. x \<in> set xs \<Longrightarrow> R x (f x)) \<Longrightarrow> extends R xs (map f xs)"
  unfolding extends_def by (intro exI [of _ "map f xs"] exI [of _ "[]"]) (auto simp: list_all2_map2 list_all2_same)

lemma extends_all2: "list_all2 R xs ys \<Longrightarrow> extends R xs ys"
  unfolding extends_def by (intro exI [of _ ys] exI [of _ "[]"]) simp

subsection \<open>The invariant and the relation\<close>

definition draft_identity :: "draft_row \<Rightarrow> _" where
  "draft_identity d = (dr_id d, dr_tenant d, dr_owner d, dr_project d, dr_type d, dr_version d, dr_work_type d,
     dr_created d, dr_expires d, dr_conversation d)"

definition closed_draft :: "draft_row \<Rightarrow> bool" where
  "closed_draft d \<longleftrightarrow> dr_status d = ''SUBMITTED'' \<or> dr_status d = ''CANCELLED''"

definition draft_le :: "draft_row \<Rightarrow> draft_row \<Rightarrow> bool" where
  "draft_le x y \<longleftrightarrow> draft_identity y = draft_identity x \<and> dr_row_version x \<le> dr_row_version y
     \<and> (dr_row_version y = dr_row_version x \<longrightarrow> y = x) \<and> (closed_draft x \<longrightarrow> y = x)"

lemma draft_le_refl [simp]: "draft_le x x"
  by (simp add: draft_le_def)

lemma draft_le_trans: "draft_le x y \<Longrightarrow> draft_le y z \<Longrightarrow> draft_le x z"
  by (auto simp: draft_le_def)

text \<open>A submitted draft has its own ticket, opened in its tenant and project for its owner; an open one has none.\<close>

definition ticket_of_draft :: "draft_row \<Rightarrow> ticket_row \<Rightarrow> bool" where
  "ticket_of_draft d t \<longleftrightarrow> dr_ticket d = Some (t_id t) \<and> t_tenant t = dr_tenant d \<and> t_reporter t = dr_owner d
     \<and> t_project t = dr_project d"

definition desk_ok :: "desk_db \<Rightarrow> bool" where
  "desk_ok db \<longleftrightarrow> distinct (map dr_id (drafts db)) \<and> distinct (map t_id (tickets (desk_case db)))
     \<and> distinct (List.map_filter dr_ticket (drafts db)) \<and> distinct (List.map_filter dr_conversation (drafts db))
     \<and> (\<forall>d\<in>set (drafts db). dr_status d = ''SUBMITTED'' \<longleftrightarrow> dr_ticket d \<noteq> None)
     \<and> (\<forall>d\<in>set (drafts db). dr_ticket d \<noteq> None \<longrightarrow> (\<exists>t\<in>set (tickets (desk_case db)). ticket_of_draft d t))"

definition desk_later :: "desk_db \<Rightarrow> desk_db \<Rightarrow> bool" where
  "desk_later s t \<longleftrightarrow> (desk_ok s \<longrightarrow> desk_ok t \<and> extends draft_le (drafts s) (drafts t)
     \<and> extends ticket_le (tickets (desk_case s)) (tickets (desk_case t)))"

interpretation dl: history desk_later
proof
  show "desk_later s s" for s by (simp add: desk_later_def extends_refl)
  show "desk_later s u" if "desk_later s t" "desk_later t u" for s t u
    using that extends_trans [of draft_le "drafts s" "drafts t" "drafts u"]
      extends_trans [of ticket_le "tickets (desk_case s)" "tickets (desk_case t)" "tickets (desk_case u)"]
    unfolding desk_later_def by (simp add: draft_le_trans ticket_le_trans)
qed

text \<open>Steps of the other services on the tables they share with the desk.\<close>

lemma case_later:
  assumes "list_all2 ticket_le (tickets (desk_case s)) (tickets c)"
  shows "desk_later s (s\<lparr>desk_case := c\<rparr>)"
proof -
  let ?old = "tickets (desk_case s)"
  have ids: "map t_id (tickets c) = map t_id ?old"
    using assms by (induction rule: list_all2_induct) (simp_all add: ticket_le_def)
  have "\<exists>t\<in>set (tickets c). ticket_of_draft d t" if "t \<in> set ?old" "ticket_of_draft d t" for d t
  proof -
    from list_all2_left [OF assms that(1)] obtain u where "u \<in> set (tickets c)" "ticket_le t u" .
    with that(2) show ?thesis by (intro bexI [of _ u]) (simp_all add: ticket_of_draft_def ticket_le_def)
  qed
  then show ?thesis
    using extends_all2 [OF assms] by (auto simp: desk_later_def desk_ok_def ids extends_refl)
qed

lemma on_case_later: "keeps ticket_later m \<Longrightarrow> keeps desk_later (on_case m)"
  by (auto simp: keeps_def on_case_def ticket_later_def intro: case_later split: sum.splits)

lemma on_case_frame: "keeps ticket_frame m \<Longrightarrow> keeps desk_later (on_case m)"
  by (intro on_case_later keeps_later)

lemma case_modS: "(\<And>c. ticket_frame c (g c)) \<Longrightarrow> keeps desk_later (on_case (modS g))"
  by (rule on_case_frame) (auto simp: keeps_def)

lemma audit_draft_later [inv_intros]: "keeps desk_later (audit_draft d a oc ctx u)"
  unfolding audit_draft_def by (rule case_modS) (simp add: ticket_frame_def config_frame_def)

lemma other_tables_later:
  "drafts t = drafts s \<Longrightarrow> tickets (desk_case t) = tickets (desk_case s) \<Longrightarrow> desk_later s t"
  by (simp add: desk_later_def desk_ok_def extends_refl)

subsection \<open>Statements on drafts\<close>

lemma map_filter_append: "List.map_filter f (xs @ ys) = List.map_filter f xs @ List.map_filter f ys"
  by (induction xs) (simp_all add: map_filter_simps split: option.splits)

lemma map_filter_map: "(\<And>x. x \<in> set xs \<Longrightarrow> f (g x) = f x) \<Longrightarrow> List.map_filter f (map g xs) = List.map_filter f xs"
  by (induction xs) (simp_all add: map_filter_simps split: option.splits)

lemma insert_draft_effect:
  assumes "insert_draft d s = Inr (row, t)"
  obtains i n where "row = d\<lparr>dr_id := i\<rparr>" "i \<notin> dr_id ` set (drafts s)"
    "\<forall>c. dr_conversation d = Some c \<longrightarrow> (\<forall>x\<in>set (drafts s). dr_conversation x \<noteq> Some c)"
    "t = s\<lparr>desk_case := (desk_case s)\<lparr>drawn := n\<rparr>, drafts := drafts s @ [row]\<rparr>"
  using assms
  by (auto simp: insert_draft_def on_case_def draw_uuid_def Let_def elim!: bindS_E split: if_splits option.splits)

lemma insert_draft_later:
  assumes "dr_ticket d = None" "dr_status d \<noteq> ''SUBMITTED''"
  shows "keeps desk_later (insert_draft d)"
proof
  fix s row t assume "insert_draft d s = Inr (row, t)"
  then show "desk_later s t"
  proof (rule insert_draft_effect)
    fix i n assume row: "row = d\<lparr>dr_id := i\<rparr>" "i \<notin> dr_id ` set (drafts s)"
      and c: "\<forall>c. dr_conversation d = Some c \<longrightarrow> (\<forall>x\<in>set (drafts s). dr_conversation x \<noteq> Some c)"
      and t: "t = s\<lparr>desk_case := (desk_case s)\<lparr>drawn := n\<rparr>, drafts := drafts s @ [row]\<rparr>"
    have "c \<notin> set (List.map_filter dr_conversation (drafts s))" if "dr_conversation d = Some c" for c
      using c that by (auto simp: set_map_filter)
    with row t assms show ?thesis
      by (auto simp: desk_later_def desk_ok_def map_filter_append map_filter_simps extends_append extends_refl
          split: option.splits)
  qed
qed

lemma update_drafts_effect:
  assumes "update_drafts now p f s = Inr (r, t)"
  shows "t = s\<lparr>drafts := map (\<lambda>d. if p d then touched now f d else d) (drafts s)\<rparr>"
    "r = map_option (touched now f) (find p (drafts s))"
    "\<forall>d\<in>set (drafts s). p d \<longrightarrow> dr_status d \<noteq> ''SUBMITTED''"
  using assms by (auto simp: update_drafts_def split: if_splits)

lemma touched_le:
  assumes "draft_identity (f d) = draft_identity d" "\<not> closed_draft d"
  shows "draft_le d (touched now f d)"
  using assms by (auto simp: draft_le_def touched_def draft_identity_def)

lemma edit_later:
  assumes "\<And>d. p d \<Longrightarrow> \<not> closed_draft d"
    and "\<And>d. draft_identity (f d) = draft_identity d \<and> dr_ticket (f d) = dr_ticket d \<and> dr_status (f d) \<noteq> ''SUBMITTED''"
  shows "keeps desk_later (update_drafts now p f)"
proof
  fix s r t assume run: "update_drafts now p f s = Inr (r, t)"
  define g where "g d = (if p d then touched now f d else d)" for d
  have up: "t = s\<lparr>drafts := map g (drafts s)\<rparr>" "\<forall>d\<in>set (drafts s). p d \<longrightarrow> dr_status d \<noteq> ''SUBMITTED''"
    using update_drafts_effect [OF run] by (simp_all add: g_def)
  have same: "dr_id (g d) = dr_id d" "dr_ticket (g d) = dr_ticket d" "dr_conversation (g d) = dr_conversation d"
    "dr_tenant (g d) = dr_tenant d" "dr_owner (g d) = dr_owner d" "dr_project (g d) = dr_project d" for d
    using assms(2) [of d] by (simp_all add: g_def touched_def draft_identity_def)
  have status: "dr_status (g d) = ''SUBMITTED'' \<longleftrightarrow> dr_status d = ''SUBMITTED''" if "d \<in> set (drafts s)" for d
    using that up(2) assms(2) [of d] by (auto simp: g_def touched_def)
  have le: "draft_le d (g d)" for d using assms touched_le [of f d now] by (simp add: g_def)
  have "ticket_of_draft (g d) = ticket_of_draft d" for d unfolding ticket_of_draft_def by (simp only: same)
  then have "desk_ok t" if "desk_ok s"
    using that status by (simp add: desk_ok_def up(1) comp_def same map_filter_map)
  with le show "desk_later s t" by (simp add: desk_later_def up(1) extends_refl extends_map)
qed

lemma open_not_closed: "open_at i v d \<Longrightarrow> \<not> closed_draft d"
  by (auto simp: open_at_def closed_draft_def)

lemma draft_edits_later [inv_intros]:
  "keeps desk_later (write_draft now i v values)" "keeps desk_later (set_ready now i v pr)"
  "keeps desk_later (cancel_row now i v)"
  unfolding write_draft_def set_ready_def cancel_row_def
  by (rule edit_later; simp add: open_not_closed draft_identity_def)+

subsection \<open>Units of work on drafts\<close>

lemma owned_later: "(\<And>d. keeps desk_later (use d)) \<Longrightarrow> keeps desk_later (owned ctx user found use)"
  unfolding owned_def
  by (auto split: option.splits intro!: dl.keeps_raise dl.keeps_bindS dl.keeps_ret audit_draft_later)

lemma run_later: "keeps desk_later m \<Longrightarrow> run_uow m s = (r, t) \<Longrightarrow> desk_later s t"
  by (auto elim!: run_uow_cases intro: dl.refl dest: keepsD)

lemma on_own_draft_later:
  assumes "\<And>tenant user d. keeps desk_later (work tenant user d)" "on_own_draft ctx p i work s = (r, t)"
  shows "desk_later s t"
  using assms(2) unfolding on_own_draft_def
  by (auto intro: dl.refl split: sum.splits
      elim!: run_later [rotated] intro!: dl.keeps_bindS dl.keeps_getS owned_later assms(1))

lemmas desk_intros = dl.keeps_bindS dl.keeps_getS dl.keeps_liftS dl.keeps_ret dl.keeps_raise

lemma draft_works_later:
  "keeps desk_later (create_new env ctx te us cmd conv)" "keeps desk_later (create_body env ctx te us cmd conv)"
  "keeps desk_later (update_work env ctx te us d p)" "keeps desk_later (validate_work env ctx te d v)"
  "keeps desk_later (cancel_work env ctx d v)"
proof -
  have new: "dr_ticket (new_draft env te us cmd conv sm b x pr) = None"
    "dr_status (new_draft env te us cmd conv sm b x pr) \<noteq> ''SUBMITTED''" for sm b x pr
    by (simp_all add: new_draft_def)
  show create: "keeps desk_later (create_new env ctx te us cmd conv)"
    unfolding create_new_def
    by (auto split: prod.splits intro!: desk_intros insert_draft_later new audit_draft_later)
  then show "keeps desk_later (create_body env ctx te us cmd conv)"
    unfolding create_body_def by (auto split: option.splits intro!: desk_intros)
  show "keeps desk_later (update_work env ctx te us d p)"
    unfolding update_work_def by (intro desk_intros draft_edits_later audit_draft_later)
  show "keeps desk_later (validate_work env ctx te d v)"
    unfolding validate_work_def
    by (auto split: sum.splits app_error.splits intro!: desk_intros draft_edits_later audit_draft_later)
  show "keeps desk_later (cancel_work env ctx d v)"
    unfolding cancel_work_def by (intro desk_intros draft_edits_later audit_draft_later)
qed


subsection \<open>The statements of a submission\<close>

lemma on_case_Inr: "on_case m s = Inr (x, t) \<longleftrightarrow> (\<exists>c. m (desk_case s) = Inr (x, c) \<and> t = s\<lparr>desk_case := c\<rparr>)"
  by (auto simp: on_case_def split: sum.splits)

definition ticket_number :: "uuid \<Rightarrow> desk_db \<Rightarrow> int" where
  "ticket_number project db = (case next_number db project of None \<Rightarrow> 1 | Some n \<Rightarrow> n)"

lemma opened_ticket_cong: "desk_catalogue s = desk_catalogue t \<Longrightarrow> opened_ticket env d pr flow s = opened_ticket env d pr flow t"
  by (intro ext) (simp add: opened_ticket_def)

lemma opened_ticket_fields [simp]:
  "t_id (opened_ticket env d pr flow s i code key) = i" "t_tenant (opened_ticket env d pr flow s i code key) = dr_tenant d"
  "t_key (opened_ticket env d pr flow s i code key) = key" "t_reporter (opened_ticket env d pr flow s i code key) = dr_owner d"
  "t_project (opened_ticket env d pr flow s i code key) = dr_project d"
  "t_row_version (opened_ticket env d pr flow s i code key) = 1"
  "t_summary (opened_ticket env d pr flow s i code key) = dr_summary d"
  by (simp_all add: opened_ticket_def)

lemma create_ticket_effect:
  assumes "create_ticket env ctx d pr flow s = Inr (t, u)"
  obtains p e n where "find (\<lambda>p. pj_id p = dr_project d) (cat_projects (desk_catalogue s)) = Some p"
    "t = opened_ticket env d pr flow s (t_id t) (pj_key p) (pj_key p @ ''-'' @ int_str (ticket_number (dr_project d) s))"
    "t_id t \<notin> t_id ` set (tickets (desk_case s))"
    "\<forall>x\<in>set (tickets (desk_case s)). \<not> (t_tenant x = t_tenant t \<and> t_key x = t_key t)"
    "ev_type e = ''TICKET_CREATED''" "ev_ticket e = t_id t" "ev_tenant e = dr_tenant d" "ev_actor e = dr_owner d"
    "u = s\<lparr>desk_case := (desk_case s)\<lparr>tickets := tickets (desk_case s) @ [t],
       ticket_events := ticket_events (desk_case s) @ [e], drawn := n\<rparr>,
       next_number := (next_number s)(dr_project d := Some (ticket_number (dr_project d) s + 1))\<rparr>"
proof -
  let ?i = "fresh_id (desk_case s) (drawn (desk_case s))"
  let ?s = "s\<lparr>desk_case := (desk_case s)\<lparr>drawn := drawn (desk_case s) + 1\<rparr>\<rparr>"
  have draw: "on_case draw_uuid s = Inr (?i, ?s)" by (simp add: on_case_def draw_uuid_def)
  have cong: "opened_ticket env d pr flow ?s = opened_ticket env d pr flow s" by (rule opened_ticket_cong) simp
  note run = assms [unfolded create_ticket_def bindS_eval(1) [of "on_case draw_uuid", OF draw] cong]
  then obtain p where p: "find (\<lambda>p. pj_id p = dr_project d) (cat_projects (desk_catalogue s)) = Some p"
    by (auto split: option.splits)
  let ?n = "ticket_number (dr_project d) s"
  let ?t = "opened_ticket env d pr flow s ?i (pj_key p) (pj_key p @ ''-'' @ int_str ?n)"
  have e: "on_case (modS g) x = Inr ((), x\<lparr>desk_case := g (desk_case x)\<rparr>)" for g x by (simp add: on_case_def)
  from run p have unique: "?i \<notin> t_id ` set (tickets (desk_case s))"
    "\<not> (\<exists>x\<in>set (tickets (desk_case s)). t_tenant x = t_tenant ?t \<and> t_key x = t_key ?t)"
    and t: "t = ?t" and u: "u = s\<lparr>desk_case := (desk_case s)\<lparr>tickets := tickets (desk_case s) @ [?t],
       ticket_events := ticket_events (desk_case s) @ [\<lparr>ev_tenant = dr_tenant d, ev_ticket = ?i, ev_type = ''TICKET_CREATED'',
         ev_actor_type = (if dr_conversation d = None then ''USER'' else ''AI''), ev_actor = dr_owner d,
         ev_data = created_payload ?t (if dr_conversation d = None then ''PORTAL'' else ''CHAT'') ctx\<rparr>],
       drawn := drawn (desk_case s) + 1\<rparr>,
       next_number := (next_number s)(dr_project d := Some (?n + 1))\<rparr>"
    by (auto simp: Let_def ticket_number_def [symmetric] e insert_event_def bindS_def split: if_splits)
  show thesis
    by (rule that [OF p, where e = "\<lparr>ev_tenant = dr_tenant d, ev_ticket = ?i, ev_type = ''TICKET_CREATED'',
         ev_actor_type = (if dr_conversation d = None then ''USER'' else ''AI''), ev_actor = dr_owner d,
         ev_data = created_payload ?t (if dr_conversation d = None then ''PORTAL'' else ''CHAT'') ctx\<rparr>"
         and n = "drawn (desk_case s) + 1"])
      (use unique t u in auto)
qed

definition stored_as :: "float_text \<Rightarrow> desk_db \<Rightarrow> uuid \<Rightarrow> uuid \<Rightarrow> string \<times> pyval \<Rightarrow> custom_value_row \<Rightarrow> bool" where
  "stored_as fr db ticket version item r \<longleftrightarrow> cv_ticket r = ticket
     \<and> (\<exists>f. definitions_of (desk_catalogue db) version (fst item) = [f] \<and> cv_field r = cf_id f
          \<and> typed_value fr (desk_catalogue db) f (snd item) = Inr (cv_value r) \<and> value_refers (cv_value r) db)"

lemma persist_effect:
  assumes "persist_custom_values fr ticket version vs s = Inr (x, u)"
  obtains rows where "u = s\<lparr>custom_rows := custom_rows s @ rows\<rparr>"
    "list_all2 (stored_as fr s ticket version) (filter (\<lambda>item. snd item \<noteq> PNone) vs) rows"
proof -
  have "\<exists>rows. u = s\<lparr>custom_rows := custom_rows s @ rows\<rparr>
      \<and> list_all2 (stored_as fr s ticket version) (filter (\<lambda>item. snd item \<noteq> PNone) vs) rows"
    using assms unfolding persist_custom_values_def
  proof (induction vs arbitrary: s)
    case (Cons item vs)
    then obtain y m where one: "persist_one fr ticket version item s = Inr (y, m)"
      and rest: "forS (persist_one fr ticket version) vs m = Inr (x, u)" by (auto elim!: bindS_E)
    from Cons.IH [OF rest] obtain rows where rows: "u = m\<lparr>custom_rows := custom_rows m @ rows\<rparr>"
      "list_all2 (stored_as fr m ticket version) (filter (\<lambda>item. snd item \<noteq> PNone) vs) rows" by blast
    show ?case
    proof (cases "snd item = PNone")
      case True
      with one rows show ?thesis by (auto simp: persist_one_def)
    next
      case False
      with one obtain f v where f: "definitions_of (desk_catalogue s) version (fst item) = [f]"
        "typed_value fr (desk_catalogue s) f (snd item) = Inr v" "value_refers v s"
        and m: "m = s\<lparr>custom_rows := custom_rows s @ [\<lparr>cv_ticket = ticket, cv_field = cf_id f, cv_value = v\<rparr>]\<rparr>"
        by (auto simp: persist_one_def split: list.splits sum.splits if_splits)
      define r where "r = \<lparr>cv_ticket = ticket, cv_field = cf_id f, cv_value = v\<rparr>"
      with f m have r: "stored_as fr s ticket version item r" "m = s\<lparr>custom_rows := custom_rows s @ [r]\<rparr>"
        by (simp_all add: stored_as_def)
      have "stored_as fr m ticket version = stored_as fr s ticket version"
        by (intro ext) (simp add: stored_as_def r(2) value_refers_def cong: custom_value.case_cong)
      with r rows False show ?thesis by (intro exI [of _ "r # rows"]) simp
    qed
  qed (auto intro: exI [of _ "[]"])
  with that show thesis by blast
qed

definition creation_message :: "uuid \<Rightarrow> ticket_row \<Rightarrow> string \<Rightarrow> outbox_row" where
  "creation_message tenant t type = \<lparr>ob_tenant = tenant, ob_aggregate_type = ''TICKET'', ob_aggregate = t_id t, ob_type = type,
     ob_payload = [(''ticket_id'', uuid_val (t_id t)), (''ticket_key'', PStr (t_key t)), (''processing'', PStr ''PENDING'')],
     ob_key = None\<rparr>"

definition submitted_row :: "instant \<Rightarrow> uuid \<Rightarrow> draft_row \<Rightarrow> draft_row" where
  "submitted_row now ticket = touched now (\<lambda>x. x\<lparr>dr_status := ''SUBMITTED'', dr_ticket := Some ticket\<rparr>)"

definition completed_record :: "uuid \<Rightarrow> ticket_row \<Rightarrow> idempotency_row \<Rightarrow> idempotency_row" where
  "completed_record record t = (\<lambda>r. if idem_id r = record then r\<lparr>idem_status := ''COMPLETED'',
     idem_result := Some (t_id t), idem_payload := [(''id'', uuid_val (t_id t)), (''key'', PStr (t_key t))]\<rparr> else r)"

lemma finish_effect:
  assumes "finish_submission now d t idem s = Inr (x, u)"
  shows "\<forall>y\<in>set (drafts s). dr_id y = dr_id d \<longrightarrow> dr_status y \<noteq> ''SUBMITTED''"
    "u = s\<lparr>drafts := map (\<lambda>y. if dr_id y = dr_id d then submitted_row now (t_id t) y else y) (drafts s),
      desk_case := (desk_case s)\<lparr>outbox_events := outbox_events (desk_case s) @ map (creation_message (dr_tenant d) t) creation_events,
        idempotency := map (completed_record (idem_id idem) t) (idempotency (desk_case s))\<rparr>\<rparr>"
proof -
  let ?p = "\<lambda>x. dr_id x = dr_id d"
  from assms obtain r m where up: "update_drafts now ?p (\<lambda>x. x\<lparr>dr_status := ''SUBMITTED'', dr_ticket := Some (t_id t)\<rparr>) s
      = Inr (r, m)"
    and u: "u = m\<lparr>desk_case := (desk_case m)\<lparr>outbox_events := outbox_events (desk_case m)
        @ map (creation_message (dr_tenant d) t) creation_events,
        idempotency := map (completed_record (idem_id idem) t) (idempotency (desk_case m))\<rparr>\<rparr>"
    by (auto simp: finish_submission_def creation_events_def creation_message_def completed_record_def on_case_Inr
        insert_outbox_def outbox_conflict_def complete_idempotency_def elim!: bindS_E)
  from update_drafts_effect [OF up] u show "\<forall>y\<in>set (drafts s). dr_id y = dr_id d \<longrightarrow> dr_status y \<noteq> ''SUBMITTED''"
    "u = s\<lparr>drafts := map (\<lambda>y. if dr_id y = dr_id d then submitted_row now (t_id t) y else y) (drafts s),
      desk_case := (desk_case s)\<lparr>outbox_events := outbox_events (desk_case s) @ map (creation_message (dr_tenant d) t) creation_events,
        idempotency := map (completed_record (idem_id idem) t) (idempotency (desk_case s))\<rparr>\<rparr>"
    by (simp_all add: submitted_row_def)
qed


lemma case_queries [simp]:
  "priority_query now te pr no im ur (s\<lparr>desk_case := c\<rparr>) = priority_query now te pr no im ur s"
  "workflow_initial now w (s\<lparr>desk_case := c\<rparr>) = workflow_initial now w s"
  "draft_query te i (s\<lparr>desk_case := c\<rparr>) = draft_query te i s"
proof -
  have "matrix_candidate now te pr no im ur (s\<lparr>desk_case := c\<rparr>) = matrix_candidate now te pr no im ur s"
    by (intro ext) (simp add: matrix_candidate_def)
  then show "priority_query now te pr no im ur (s\<lparr>desk_case := c\<rparr>) = priority_query now te pr no im ur s"
    by (simp add: priority_query_def)
qed (simp_all add: workflow_initial_def draft_query_def)

text \<open>All that a submission writes, as one update of the state.\<close>

definition submission_audit :: "draft_row \<Rightarrow> string \<Rightarrow> request_context \<Rightarrow> audit_row" where
  "submission_audit d action ctx = \<lparr>au_tenant = dr_tenant d, au_actor = dr_owner d, au_action = action,
     au_resource_type = ''TICKET_DRAFT'', au_resource = dr_id d, au_summary = [], au_correlation = correlation_id ctx,
     au_request = request_id ctx, au_outcome = ''SUCCESS''\<rparr>"

lemma audit_own: "audit_draft d action ''SUCCESS'' ctx None s = Inr ((), s\<lparr>desk_case := (desk_case s)\<lparr>audit_events :=
    audit_events (desk_case s) @ [submission_audit d action ctx]\<rparr>\<rparr>)"
  by (simp add: audit_draft_def on_case_def submission_audit_def)

definition submitted_db ::
  "instant \<Rightarrow> request_context \<Rightarrow> draft_row \<Rightarrow> ticket_row \<Rightarrow> ticket_event_row \<Rightarrow> custom_value_row list \<Rightarrow> nat \<Rightarrow> idempotency_row
     \<Rightarrow> desk_db \<Rightarrow> desk_db" where
  "submitted_db now ctx d t e rows n idem s = s\<lparr>
     next_number := (next_number s)(dr_project d := Some (ticket_number (dr_project d) s + 1)),
     custom_rows := custom_rows s @ rows,
     drafts := map (\<lambda>y. if dr_id y = dr_id d then submitted_row now (t_id t) y else y) (drafts s),
     desk_case := (desk_case s)\<lparr>tickets := tickets (desk_case s) @ [t], ticket_events := ticket_events (desk_case s) @ [e],
       drawn := n, outbox_events := outbox_events (desk_case s) @ map (creation_message (dr_tenant d) t) creation_events,
       idempotency := map (completed_record (idem_id idem) t) (idempotency (desk_case s)),
       audit_events := audit_events (desk_case s) @ [submission_audit d ''TICKET_SUBMITTED'' ctx]\<rparr>\<rparr>"

lemma submit_work_effect:
  assumes "submit_work env ctx tenant user i version idem s = Inr (k, u)"
  obtains d vals priority flow p t e rows n where
    "submittable (draft_query tenant i s) user version = Inr d"
    "validated env (form_fields_query tenant (dr_version d) (desk_catalogue s)) (stored_inputs (dr_custom d)) True = Inr vals"
    "find (\<lambda>p. pj_id p = dr_project d) (cat_projects (desk_catalogue s)) = Some p"
    "priority_of env tenant (dr_project d) (dr_node d) (given (dr_impact d) []) (given (dr_urgency d) []) s = Inr priority"
    "t = opened_ticket env d priority flow s (t_id t) (pj_key p) (pj_key p @ ''-'' @ int_str (ticket_number (dr_project d) s))"
    "t_id t \<notin> t_id ` set (tickets (desk_case s))"
    "\<forall>x\<in>set (tickets (desk_case s)). \<not> (t_tenant x = t_tenant t \<and> t_key x = t_key t)"
    "ev_type e = ''TICKET_CREATED''" "ev_ticket e = t_id t"
    "list_all2 (stored_as (env_float env) s (t_id t) (dr_version d)) (filter (\<lambda>item. snd item \<noteq> PNone) vals) rows"
    "k = t_key t" "u = submitted_db (env_wall env) ctx d t e rows n idem s"
proof -
  from assms obtain d b vals priority flow t s1 s2 s3 where d: "submittable (draft_query tenant i s) user version = Inr d"
    and vals: "validated env (form_fields_query tenant (dr_version d) (desk_catalogue s)) (stored_inputs (dr_custom d)) True = Inr vals"
    and settled: "settle_form env tenant (dr_project d) (dr_node d) (given (dr_impact d) []) (given (dr_urgency d) [])
       (form_fields_query tenant (dr_version d) (desk_catalogue s)) vals s = Inr priority"
    and create: "create_ticket env ctx d priority flow s = Inr (t, s1)"
    and persist: "persist_custom_values (env_float env) (t_id t) (dr_version d) vals s1 = Inr ((), s2)"
    and finish: "finish_submission (env_wall env) d t idem s2 = Inr ((), s3)"
    and last: "audit_draft d ''TICKET_SUBMITTED'' ''SUCCESS'' ctx None s3 = Inr ((), u)" and k: "k = t_key t"
    by (auto simp: submit_work_def bind_liftS_iff bindS_Inr_iff)
  from settled have priority: "priority_of env tenant (dr_project d) (dr_node d) (given (dr_impact d) []) (given (dr_urgency d) []) s = Inr priority"
    by (auto simp: settle_form_def rbind_Inr_iff)
  from create obtain p e n where p: "find (\<lambda>p. pj_id p = dr_project d) (cat_projects (desk_catalogue s)) = Some p"
    and t: "t = opened_ticket env d priority flow s (t_id t) (pj_key p) (pj_key p @ ''-'' @ int_str (ticket_number (dr_project d) s))"
    and fresh: "t_id t \<notin> t_id ` set (tickets (desk_case s))"
      "\<forall>x\<in>set (tickets (desk_case s)). \<not> (t_tenant x = t_tenant t \<and> t_key x = t_key t)"
    and e: "ev_type e = ''TICKET_CREATED''" "ev_ticket e = t_id t"
    and s1: "s1 = s\<lparr>desk_case := (desk_case s)\<lparr>tickets := tickets (desk_case s) @ [t],
       ticket_events := ticket_events (desk_case s) @ [e], drawn := n\<rparr>,
       next_number := (next_number s)(dr_project d := Some (ticket_number (dr_project d) s + 1))\<rparr>"
    by (rule create_ticket_effect)
  from persist obtain rows where s2: "s2 = s1\<lparr>custom_rows := custom_rows s1 @ rows\<rparr>"
    and rows: "list_all2 (stored_as (env_float env) s1 (t_id t) (dr_version d)) (filter (\<lambda>item. snd item \<noteq> PNone) vals) rows"
    by (rule persist_effect)
  have "stored_as (env_float env) s1 = stored_as (env_float env) s"
    by (intro ext) (simp add: stored_as_def value_refers_def s1 cong: custom_value.case_cong)
  with rows have rows: "list_all2 (stored_as (env_float env) s (t_id t) (dr_version d)) (filter (\<lambda>item. snd item \<noteq> PNone) vals) rows"
    by simp
  have "u = submitted_db (env_wall env) ctx d t e rows n idem s"
    using last finish_effect(2) [OF finish] by (auto simp: audit_own submitted_db_def s1 s2)
  from that [OF d vals p priority t fresh e rows k this] show thesis .
qed


lemma submittable_facts:
  assumes "submittable found user version = Inr d"
  shows "found = Some d" "dr_owner d = user" "dr_row_version d = version" "dr_status d \<in> {''DRAFT'', ''READY_FOR_REVIEW''}"
  using assms by (auto simp: submittable_def split: option.splits if_splits)

lemma distinct_id_eq: "distinct (map f xs) \<Longrightarrow> x \<in> set xs \<Longrightarrow> y \<in> set xs \<Longrightarrow> f x = f y \<Longrightarrow> x = y"
  by (simp add: distinct_map inj_on_def)

lemma map_filter_update:
  assumes "distinct (map k xs)" "d \<in> set xs" "f d = None" "distinct (List.map_filter f xs)" "c \<notin> set (List.map_filter f xs)"
    and "\<And>x. x \<in> set xs \<Longrightarrow> f (g x) = (if k x = k d then Some c else f x)"
  shows "distinct (List.map_filter f (map g xs))"
proof -
  from split_list [OF assms(2)] obtain ys zs where xs: "xs = ys @ d # zs" by blast
  have "k d \<notin> k ` (set ys \<union> set zs)" using assms(1) by (auto simp: xs)
  then have "k x \<noteq> k d" if "x \<in> set ys \<union> set zs" for x using that by (metis image_eqI)
  then have "List.map_filter f (map g ys) = List.map_filter f ys" "List.map_filter f (map g zs) = List.map_filter f zs"
    using assms(6) by (auto intro!: map_filter_map simp: xs)
  moreover have "f (g d) = Some c" using assms(2,6) by simp
  ultimately show ?thesis using assms(3,4,5) by (auto simp: xs map_filter_append map_filter_simps)
qed

lemma submitted_later:
  assumes sub: "submittable (draft_query tenant i s) user version = Inr d"
    and t: "t = opened_ticket env d priority flow s0 j code key" "t_id t \<notin> t_id ` set (tickets (desk_case s))"
  shows "desk_later s (submitted_db now ctx d t e rows n idem s)"
proof -
  let ?u = "submitted_db now ctx d t e rows n idem s"
  define g where "g y = (if dr_id y = dr_id d then submitted_row now (t_id t) y else y)" for y
  have d: "d \<in> set (drafts s)" "dr_status d \<in> {''DRAFT'', ''READY_FOR_REVIEW''}"
    using submittable_facts [OF sub] by (auto simp: draft_query_def dest: find_Some_in)
  have u: "drafts ?u = map g (drafts s)" "tickets (desk_case ?u) = tickets (desk_case s) @ [t]"
    by (simp_all add: submitted_db_def g_def)
  have same: "dr_id (g y) = dr_id y" "dr_conversation (g y) = dr_conversation y" for y
    by (simp_all add: g_def submitted_row_def touched_def)
  have result: "desk_ok ?u \<and> extends draft_le (drafts s) (drafts ?u)" if ok: "desk_ok s"
  proof -
    have one: "y = d" if "y \<in> set (drafts s)" "dr_id y = dr_id d" for y
      using ok d(1) that by (auto simp: desk_ok_def intro: distinct_id_eq)
    have none: "dr_ticket d = None" using ok d by (auto simp: desk_ok_def)
    have "t_id t \<notin> set (List.map_filter dr_ticket (drafts s))"
    proof
      assume "t_id t \<in> set (List.map_filter dr_ticket (drafts s))"
      then obtain y where y: "y \<in> set (drafts s)" "dr_ticket y = Some (t_id t)" by (auto simp: set_map_filter)
      with ok obtain x where "x \<in> set (tickets (desk_case s))" "ticket_of_draft y x" by (auto simp: desk_ok_def)
      with y(2) t(2) show False by (simp add: ticket_of_draft_def)
    qed
    with ok d(1) none have "distinct (List.map_filter dr_ticket (map g (drafts s)))"
      by (intro map_filter_update [where k = dr_id and d = d and c = "t_id t"])
        (auto simp: desk_ok_def g_def submitted_row_def touched_def)
    moreover have "(dr_status (g y) = ''SUBMITTED'') = (dr_ticket (g y) \<noteq> None)" if "y \<in> set (drafts s)" for y
      using ok that by (simp add: desk_ok_def g_def submitted_row_def touched_def)
    moreover have "\<exists>x\<in>set (tickets (desk_case s) @ [t]). ticket_of_draft (g y) x"
      if "y \<in> set (drafts s)" "dr_ticket (g y) \<noteq> None" for y
    proof (cases "dr_id y = dr_id d")
      case True
      with one that(1) have "y = d" by blast
      then have "ticket_of_draft (g y) t" by (simp add: ticket_of_draft_def g_def submitted_row_def touched_def t(1))
      then show ?thesis by auto
    next
      case False
      with ok that show ?thesis by (auto simp: desk_ok_def g_def)
    qed
    moreover have "draft_le y (g y)" if "y \<in> set (drafts s)" for y
      using one [OF that] d(2) by (auto simp: g_def submitted_row_def draft_identity_def closed_draft_def intro!: touched_le)
    ultimately show ?thesis
      using ok t(2) unfolding desk_ok_def u by (simp add: same comp_def map_filter_map extends_map)
  qed
  moreover have "extends ticket_le (tickets (desk_case s)) (tickets (desk_case ?u))"
    unfolding u(2) by (rule extends_append) simp
  ultimately show ?thesis by (simp add: desk_later_def)
qed

lemma submit_work_later: "keeps desk_later (submit_work env ctx tenant user i version idem)"
proof
  fix s k u assume "submit_work env ctx tenant user i version idem s = Inr (k, u)"
  then show "desk_later s u"
  proof (rule submit_work_effect)
    fix d vals priority flow p t e rows n
    assume sub: "submittable (draft_query tenant i s) user version = Inr d"
      and t: "t = opened_ticket env d priority flow s (t_id t) (pj_key p) (pj_key p @ ''-'' @ int_str (ticket_number (dr_project d) s))"
        "t_id t \<notin> t_id ` set (tickets (desk_case s))"
      and u: "u = submitted_db (env_wall env) ctx d t e rows n idem s"
    show ?thesis unfolding u by (rule submitted_later [OF sub t])
  qed
qed

end
