(* ===== verification/TicketSpec.thy ===== *)
theory TicketSpec
  imports TicketLaws
begin

text \<open>
  What the ticket service promises: the desk over any interleaving of its use cases with those of the other
  services, what a submission opens, and that repeating one opens nothing.
\<close>

subsection \<open>Each use case\<close>

lemma claim_frame: "keeps ticket_frame (claim_idempotency te us opn k h)"
  by (auto simp: keeps_def frame_defs claim_idempotency_def Let_def split: option.splits)

lemma public_comment_frame: "keeps ticket_frame (add_public_comment now te ti ac b co rq e)"
proof -
  have "keeps ticket_frame (insert_comment now ti au b)" for now ti au b
    by (auto simp: keeps_def frame_defs insert_comment_def draw_uuid_def elim!: bindS_E)
  then show ?thesis
    unfolding add_public_comment_def
    by (intro tf.keeps_if tf.keeps_raise tf.keeps_bindS tf.keeps_forS tf.keeps_ret inv_intros)
qed

lemma submit_body_later: "keeps desk_later (submit_body env ctx tenant user i version key)"
proof -
  have "keeps desk_later (submit_replay ctx tenant user i idem)" for idem
    unfolding submit_replay_def by (auto split: option.splits intro!: desk_intros audit_draft_later)
  then show ?thesis
    unfolding submit_body_def Let_def
    by (auto split: option.splits intro!: desk_intros audit_draft_later submit_work_later on_case_frame claim_frame)
qed

lemma submit_later: "submit env ctx i version key s = (r, t) \<Longrightarrow> desk_later s t"
proof -
  assume run: "submit env ctx i version key s = (r, t)"
  obtain r1 s1 where one: "on_own_draft ctx TICKET_SUBMIT i (\<lambda>tenant user _. ret (Inr (tenant, user))) s = (r1, s1)" by fastforce
  have first: "desk_later s s1" by (rule on_own_draft_later [OF _ one]) (rule dl.keeps_ret)
  show ?thesis
  proof (cases r1)
    case (Inl e)
    with run one first show ?thesis by (auto simp: submit_def)
  next
    case (Inr who)
    obtain tenant user where who: "who = (tenant, user)" by fastforce
    obtain r2 s2 where two: "run_uow (submit_body env ctx tenant user i version key) s1 = (r2, s2)" by fastforce
    have "desk_later s1 s2" by (rule run_later [OF submit_body_later two])
    moreover have "t = s2" using run by (auto simp: submit_def one Inr who two split: sum.splits submission.splits)
    ultimately show ?thesis using first dl.trans by blast
  qed
qed

lemma create_draft_later: "create_draft env ctx cmd conversation s = (r, t) \<Longrightarrow> desk_later s t"
  unfolding create_draft_def
  by (auto intro: dl.refl split: sum.splits elim!: run_later [rotated] intro!: desk_intros draft_works_later)

lemma get_draft_later: "get_draft ctx i s = (r, t) \<Longrightarrow> desk_later s t"
  unfolding get_draft_def by (erule on_own_draft_later [rotated]) (intro desk_intros)

lemma draft_uses_later:
  "update_draft env ctx i p s = (r, t) \<Longrightarrow> desk_later s t"
  "validate_draft env ctx i v s = (r', t) \<Longrightarrow> desk_later s t"
  "cancel_draft env ctx i v s = (r'', t) \<Longrightarrow> desk_later s t"
  unfolding update_draft_def validate_draft_def cancel_draft_def
  by (erule on_own_draft_later [rotated], rule draft_works_later)+

lemma comment_body_later: "keeps desk_later (comment_body env ctx tenant user key body ikey)"
  unfolding comment_body_def Let_def
  by (auto intro!: desk_intros on_case_frame claim_frames complete_frames public_comment_frame)

lemma add_comment_later: "add_comment env ctx key body ikey s = (r, t) \<Longrightarrow> desk_later s t"
proof -
  assume run: "add_comment env ctx key body ikey s = (r, t)"
  show ?thesis
  proof (cases "caller ctx TICKET_COMMENT_PUBLIC")
    case (Inl e)
    with run show ?thesis by (simp add: add_comment_def dl.refl)
  next
    case (Inr who)
    obtain tenant user where who: "who = (tenant, user)" by fastforce
    obtain r1 s1 where one: "run_uow (bindS (comment_body env ctx tenant user key (py_strip body) ikey) (\<lambda>c. ret (Inr c))) s = (r1, s1)"
      by fastforce
    have "desk_later s s1" by (rule run_later [OF _ one]) (intro desk_intros comment_body_later)
    moreover have "t = s \<or> t = s1"
      using run by (auto simp: add_comment_def Inr who one split: if_splits sum.splits commented.splits)
    ultimately show ?thesis using dl.refl by blast
  qed
qed

lemma watch_later:
  "watch_ticket env ctx key s = (r, t) \<Longrightarrow> desk_later s t" "unwatch_ticket ctx key s = (r', t) \<Longrightarrow> desk_later s t"
proof -
  have "keeps desk_later (insert_watch now te ow ti)" "keeps desk_later (delete_watch te ow ti)" for now te ow ti
    by (auto simp: keeps_def insert_watch_def delete_watch_def on_case_def draw_uuid_def split: option.splits
        elim!: bindS_E intro!: other_tables_later)
  then show "watch_ticket env ctx key s = (r, t) \<Longrightarrow> desk_later s t"
    "unwatch_ticket ctx key s = (r', t) \<Longrightarrow> desk_later s t"
    unfolding watch_ticket_def unwatch_ticket_def
    by (auto intro: dl.refl split: sum.splits elim!: run_later [rotated] intro!: desk_intros)
qed

subsection \<open>Any interleaving\<close>

text \<open>
  The steps of the desk: the use cases of the ticket service and, on the tables they share, those of the case
  services.
\<close>

inductive desk_step :: "desk_db \<Rightarrow> desk_db \<Rightarrow> bool" where
  creation: "create_draft env ctx cmd conversation s = (r, t) \<Longrightarrow> desk_step s t"
| reading: "get_draft ctx i s = (r, t) \<Longrightarrow> desk_step s t"
| edit: "update_draft env ctx i p s = (r, t) \<Longrightarrow> desk_step s t"
| validation: "validate_draft env ctx i version s = (r, t) \<Longrightarrow> desk_step s t"
| cancellation: "cancel_draft env ctx i version s = (c, t) \<Longrightarrow> desk_step s t"
| submission: "submit env ctx i version key s = (a, t) \<Longrightarrow> desk_step s t"
| comment: "add_comment env ctx key body ikey s = (b, t) \<Longrightarrow> desk_step s t"
| watch: "watch_ticket env ctx key s = (w, t) \<Longrightarrow> desk_step s t"
| unwatch: "unwatch_ticket ctx key s = (c, t) \<Longrightarrow> desk_step s t"
| case_work: "helpdesk_step (desk_case s) c \<Longrightarrow> desk_step s (s\<lparr>desk_case := c\<rparr>)"

lemma desk_step_later: "desk_step s t \<Longrightarrow> desk_later s t"
proof (induction rule: desk_step.induct)
  case (case_work s c)
  from step_later [OF this] show ?case by (intro case_later) (simp add: helpdesk_later_def ticket_later_def)
qed (auto intro: create_draft_later get_draft_later draft_uses_later submit_later add_comment_later watch_later)

lemma desk_steps_later: "desk_step\<^sup>*\<^sup>* s t \<Longrightarrow> desk_later s t"
  by (induction rule: rtranclp_induct) (auto intro: dl.refl dl.trans desk_step_later)

text \<open>C2: over any interleaving of the use cases on drafts, tickets, comments and watches with transitions,
  decisions, routings and assignments, successful or not, each draft keeps its identity, changes only with a new
  version and stays as it is once it is submitted or cancelled; tickets are opened but never lost; and each
  submitted draft has its own ticket, of its tenant, project and owner, as no other draft has one.\<close>

theorem draft_history:
  assumes "desk_step\<^sup>*\<^sup>* s t" "desk_ok s"
  shows "desk_ok t \<and> extends draft_le (drafts s) (drafts t)
    \<and> extends ticket_le (tickets (desk_case s)) (tickets (desk_case t))"
  using desk_steps_later [OF assms(1)] assms(2) by (simp add: desk_later_def)


subsection \<open>One submission\<close>

lemma caller_same: "caller ctx p = Inr x \<Longrightarrow> caller ctx q = Inr y \<Longrightarrow> x = y"
  by (auto simp: caller_def rbind_Inr_iff)

lemma on_own_draft_Inr:
  assumes "on_own_draft ctx p i work s = (Inr x, t)"
  obtains tenant user d where "caller ctx p = Inr (tenant, user)" "draft_query tenant i s = Some d" "dr_owner d = user"
    "work tenant user d s = Inr (Inr x, t)"
proof -
  from assms obtain tenant user where c: "caller ctx p = Inr (tenant, user)" by (auto simp: on_own_draft_def split: sum.splits)
  with assms have "run_uow (owned ctx user (draft_query tenant i s) (work tenant user)) s = (Inr x, t)"
    by (simp add: on_own_draft_def run_uow_def)
  then have run: "owned ctx user (draft_query tenant i s) (work tenant user) s = Inr (Inr x, t)"
    by (auto elim: run_uow_cases)
  show thesis
  proof (cases "draft_query tenant i s")
    case None
    with run show thesis by (simp add: owned_def raise_def)
  next
    case (Some d)
    with run that [OF c Some] show thesis by (auto simp: owned_def ret_def elim!: bindS_E split: if_splits)
  qed
qed

lemma submit_cases:
  assumes "submit env ctx i version key s = (Inr (a, again), u)"
  obtains tenant user d out where "caller ctx TICKET_SUBMIT = Inr (tenant, user)"
    "draft_query tenant i s = Some d" "dr_owner d = user"
    "submit_body env ctx tenant user i version key s = Inr (Inr out, u)"
    "if again then out = SubmittedBefore a else \<exists>k. out = SubmittedNow k \<and> get_ticket ctx k u = Inr a"
proof -
  obtain r1 s1 where one: "on_own_draft ctx TICKET_SUBMIT i (\<lambda>tenant user _. ret (Inr (tenant, user))) s = (r1, s1)" by fastforce
  with assms obtain tenant user where r1: "r1 = Inr (tenant, user)" by (cases r1) (auto simp: submit_def)
  from one [unfolded r1] obtain te us d where found: "caller ctx TICKET_SUBMIT = Inr (te, us)" "draft_query te i s = Some d"
    "dr_owner d = us" and read: "(ret (Inr (te, us)) :: (app_error + uuid \<times> uuid) desk_op) s = Inr (Inr (tenant, user), s1)" by (rule on_own_draft_Inr)
  from read have s1: "te = tenant" "us = user" "s1 = s" by (simp_all add: ret_def)
  note c = found(1) [unfolded s1(1,2)] and d = found(2,3) [unfolded s1(1,2)]
  obtain r2 s2 where two: "run_uow (submit_body env ctx tenant user i version key) s = (r2, s2)" by fastforce
  from assms have "\<exists>out. r2 = Inr out \<and> s2 = u
      \<and> (if again then out = SubmittedBefore a else \<exists>k. out = SubmittedNow k \<and> get_ticket ctx k u = Inr a)"
    by (auto simp: submit_def one r1 s1 two rbind_Inr_iff split: sum.splits submission.splits)
  then obtain out where "r2 = Inr out" "s2 = u"
    "if again then out = SubmittedBefore a else \<exists>k. out = SubmittedNow k \<and> get_ticket ctx k u = Inr a" by blast
  with two that [OF c d] show thesis by (auto elim: run_uow_cases)
qed

lemma submit_body_fresh:
  assumes "submit_body env ctx tenant user i version key s = Inr (Inr (SubmittedNow k), u)"
  obtains idem c where
    "claim_checked tenant user ''TICKET_DRAFT_SUBMIT'' key (submission_digest env i version) (desk_case s) = Inr (idem, c)"
    "submit_work env ctx tenant user i version idem (s\<lparr>desk_case := c\<rparr>) = Inr (k, u)"
proof -
  let ?h = "submission_digest env i version"
  from assms obtain idem c where claim: "claim_idempotency tenant user ''TICKET_DRAFT_SUBMIT'' key ?h (desk_case s) = Inr (idem, c)"
    and rest: "(if idem_hash idem \<noteq> ?h \<or> idem_principal idem \<noteq> uuid_str user then
        bindS (getS (draft_query tenant i)) (\<lambda>conflicted.
        case conflicted of
          None \<Rightarrow> raise IdempotencyConflict
        | Some d \<Rightarrow> if dr_owner d \<noteq> user then raise IdempotencyConflict
            else bindS (audit_draft d ''TICKET_SUBMISSION_IDEMPOTENCY_CONFLICT'' ''FAILED'' ctx None)
              (\<lambda>_. ret (Inl IdempotencyConflict)))
      else if idem_status idem = ''COMPLETED''
      then bindS (submit_replay ctx tenant user i idem) (\<lambda>a. ret (Inr (SubmittedBefore a)))
      else bindS (submit_work env ctx tenant user i version idem) (\<lambda>k. ret (Inr (SubmittedNow k))))
        (s\<lparr>desk_case := c\<rparr>) = Inr (Inr (SubmittedNow k), u)"
    by (auto simp: submit_body_def Let_def on_case_Inr elim!: bindS_E)
  from rest have "idem_hash idem = ?h" "idem_principal idem = uuid_str user"
    "submit_work env ctx tenant user i version idem (s\<lparr>desk_case := c\<rparr>) = Inr (k, u)"
    by (auto simp: audit_own raise_def elim!: bindS_E split: if_splits option.splits)
  with claim show thesis by (intro that) (auto simp: claim_checked_def)
qed

text \<open>The view of a ticket whose key is taken by no other ticket of the tenant.\<close>

lemma views_where_In: "v \<in> set (views_where p u)
    \<longleftrightarrow> tv_ticket v \<in> set (tickets (desk_case u)) \<and> p (tv_ticket v) \<and> view_of_ticket u (tv_ticket v) = Some v"
proof
  assume "v \<in> set (views_where p u)"
  then obtain t where "t \<in> set (tickets (desk_case u))" "p t" "view_of_ticket u t = Some v"
    by (auto simp: views_where_def set_map_filter)
  with view_of_same [OF this(3)] show "tv_ticket v \<in> set (tickets (desk_case u)) \<and> p (tv_ticket v)
    \<and> view_of_ticket u (tv_ticket v) = Some v" by simp
qed (auto simp: views_where_def set_map_filter)

lemma first_row_In: "first_row xs = Some v \<Longrightarrow> v \<in> set xs"
  by (cases xs) (simp_all add: first_row_def)

lemma first_row_only: "v \<in> set xs \<Longrightarrow> set xs \<subseteq> {v} \<Longrightarrow> first_row xs = Some v"
  by (cases xs) (auto simp: first_row_def)

lemma ticket_by_id_only:
  assumes "view_of_ticket u t = Some v" "t \<in> set (tickets (desk_case u))" "concerns tenant user t"
    and "\<And>x. x \<in> set (tickets (desk_case u)) \<Longrightarrow> t_id x = t_id t \<Longrightarrow> x = t"
  shows "ticket_by_id tenant user (t_id t) u = Some v"
  unfolding ticket_by_id_def
proof (rule first_row_only)
  have "tv_ticket v = t" using view_of_same [OF assms(1)] .
  with assms show "v \<in> set (views_where (\<lambda>x. concerns tenant user x \<and> t_id x = t_id t) u)"
    by (simp add: views_where_In)
  show "set (views_where (\<lambda>x. concerns tenant user x \<and> t_id x = t_id t) u) \<subseteq> {v}"
  proof
    fix x assume "x \<in> set (views_where (\<lambda>x. concerns tenant user x \<and> t_id x = t_id t) u)"
    with assms(4) [of "tv_ticket x"] have "tv_ticket x = t" "view_of_ticket u (tv_ticket x) = Some x"
      by (simp_all add: views_where_In)
    with assms(1) show "x \<in> {v}" by simp
  qed
qed


text \<open>What the tables hold after a submission that was not answered from a record.\<close>

lemma submission_effect:
  assumes "submit env ctx i version key s = (Inr (a, False), u)"
  obtains tenant user d vals p priority flow t e rows n idem c s' where
    "caller ctx TICKET_SUBMIT = Inr (tenant, user)" "draft_query tenant i s = Some d"
    "dr_owner d = user" "dr_row_version d = version" "dr_status d \<in> {''DRAFT'', ''READY_FOR_REVIEW''}"
    "validated env (form_fields_query tenant (dr_version d) (desk_catalogue s)) (stored_inputs (dr_custom d)) True = Inr vals"
    "priority_of env tenant (dr_project d) (dr_node d) (given (dr_impact d) []) (given (dr_urgency d) []) s = Inr priority"
    "find (\<lambda>p. pj_id p = dr_project d) (cat_projects (desk_catalogue s)) = Some p"
    "t = opened_ticket env d priority flow s' (t_id t) (pj_key p) (pj_key p @ ''-'' @ int_str (ticket_number (dr_project d) s))"
    "t_id t \<notin> t_id ` set (tickets (desk_case s))"
    "list_all2 (stored_as (env_float env) s (t_id t) (dr_version d)) (filter (\<lambda>item. snd item \<noteq> PNone) vals) rows"
    "get_ticket ctx (t_key t) u = Inr a"
    "\<forall>x\<in>set (tickets (desk_case s)). \<not> (t_tenant x = t_tenant t \<and> t_key x = t_key t)"
    "claim_checked tenant user ''TICKET_DRAFT_SUBMIT'' key (submission_digest env i version) (desk_case s) = Inr (idem, c)"
    "s' = s\<lparr>desk_case := c\<rparr>" "u = submitted_db (env_wall env) ctx d t e rows n idem s'"
proof -
  from assms obtain tenant user d0 k where c0: "caller ctx TICKET_SUBMIT = Inr (tenant, user)"
    and body: "submit_body env ctx tenant user i version key s = Inr (Inr (SubmittedNow k), u)" and got: "get_ticket ctx k u = Inr a"
    by (rule submit_cases) auto
  from body obtain idem c where claim: "claim_checked tenant user ''TICKET_DRAFT_SUBMIT'' key (submission_digest env i version) (desk_case s) = Inr (idem, c)"
    and work: "submit_work env ctx tenant user i version idem (s\<lparr>desk_case := c\<rparr>) = Inr (k, u)" by (rule submit_body_fresh)
  from claim_tables [OF claim] obtain ids m where c: "c = (desk_case s)\<lparr>idempotency := ids, drawn := m\<rparr>" by blast
  let ?s = "s\<lparr>desk_case := c\<rparr>"
  have same: "stored_as (env_float env) ?s = stored_as (env_float env) s"
    by (intro ext) (simp add: stored_as_def value_refers_def c cong: custom_value.case_cong)
  have draft: "draft_query tenant i ?s = draft_query tenant i s" by simp
  have number: "ticket_number pr ?s = ticket_number pr s" for pr by (simp add: ticket_number_def)
  have prio: "priority_of env te pr no im ur ?s = priority_of env te pr no im ur s" for te pr no im ur
    by (simp add: priority_of_def)
  from work show thesis
  proof (rule submit_work_effect)
    fix d vals priority flow p t e rows n
    assume a: "submittable (draft_query tenant i ?s) user version = Inr d"
      "validated env (form_fields_query tenant (dr_version d) (desk_catalogue ?s)) (stored_inputs (dr_custom d)) True = Inr vals"
      "find (\<lambda>p. pj_id p = dr_project d) (cat_projects (desk_catalogue ?s)) = Some p"
      "priority_of env tenant (dr_project d) (dr_node d) (given (dr_impact d) []) (given (dr_urgency d) []) ?s = Inr priority"
      and t: "t = opened_ticket env d priority flow ?s (t_id t) (pj_key p) (pj_key p @ ''-'' @ int_str (ticket_number (dr_project d) ?s))"
      and fresh: "t_id t \<notin> t_id ` set (tickets (desk_case ?s))"
        "\<forall>x\<in>set (tickets (desk_case ?s)). \<not> (t_tenant x = t_tenant t \<and> t_key x = t_key t)"
      and rows: "list_all2 (stored_as (env_float env) ?s (t_id t) (dr_version d)) (filter (\<lambda>item. snd item \<noteq> PNone) vals) rows"
      and k: "k = t_key t" and u: "u = submitted_db (env_wall env) ctx d t e rows n idem ?s"
    show thesis
    proof (rule that [OF c0 _ _ _ _ _ _ _ t [unfolded number] _ rows [unfolded same] got [unfolded k] _ claim refl u])
    qed (use a(1) [unfolded draft] a(2,3) a(4) [unfolded prio] fresh submittable_facts [OF a(1) [unfolded draft]] in
        \<open>simp_all add: c\<close>)
  qed
qed


lemma submitted_tables [simp]:
  "tickets (desk_case (submitted_db now ctx d t e rows n idem s)) = tickets (desk_case s) @ [t]"
  "drafts (submitted_db now ctx d t e rows n idem s)
    = map (\<lambda>y. if dr_id y = dr_id d then submitted_row now (t_id t) y else y) (drafts s)"
  "custom_rows (submitted_db now ctx d t e rows n idem s) = custom_rows s @ rows"
  "outbox_events (desk_case (submitted_db now ctx d t e rows n idem s))
    = outbox_events (desk_case s) @ map (creation_message (dr_tenant d) t) creation_events"
  "idempotency (desk_case (submitted_db now ctx d t e rows n idem s))
    = map (completed_record (idem_id idem) t) (idempotency (desk_case s))"
  "next_number (submitted_db now ctx d t e rows n idem s)
    = (next_number s)(dr_project d := Some (ticket_number (dr_project d) s + 1))"
  by (simp_all add: submitted_db_def)

lemma draft_query_facts: "draft_query tenant i s = Some d \<Longrightarrow> dr_id d = i \<and> dr_tenant d = tenant"
  by (auto simp: draft_query_def dest: find_Some_in)

lemma get_ticket_view:
  assumes "get_ticket ctx k u = Inr a" "caller ctx p = Inr (tenant, user)"
  obtains v where "ticket_by_key tenant user k u = Some v" "a = answer_of v u"
proof -
  from assms(1) obtain te us v where c: "caller ctx TICKET_READ_OWN = Inr (te, us)"
    and v: "of_option NotFoundError (ticket_by_key te us k u) = Inr v" "a = answer_of v u"
    by (auto simp: get_ticket_def rbind_Inr_iff)
  from caller_same [OF c assms(2)] v show thesis by (intro that) (simp_all add: of_option_def split: option.splits)
qed

text \<open>The answer shows the ticket just opened.\<close>

lemma opened_view:
  assumes "ticket_by_key tenant user (t_key t) u = Some v" "tickets (desk_case u) = ts @ [t]" "t_tenant t = tenant"
    and "\<forall>x\<in>set ts. \<not> (t_tenant x = t_tenant t \<and> t_key x = t_key t)"
  shows "tv_ticket v = t" "view_of_ticket u t = Some v"
proof -
  from assms(1) have "v \<in> set (views_where (\<lambda>x. concerns tenant user x \<and> t_key x = t_key t) u)"
    unfolding ticket_by_key_def by (rule first_row_In)
  then have v: "tv_ticket v \<in> set (tickets (desk_case u))" "t_tenant (tv_ticket v) = tenant" "t_key (tv_ticket v) = t_key t"
    "view_of_ticket u (tv_ticket v) = Some v" by (simp_all add: views_where_In concerns_def)
  with assms(2-4) show "tv_ticket v = t" by auto
  with v(4) show "view_of_ticket u t = Some v" by simp
qed

text \<open>C3: a submission that is not answered from an earlier one was made by the owner of an open draft at the version
  the caller named. It opens exactly one ticket, numbered next in its project, closes that draft and only that
  one, stores one typed value for each answer of the form, tells routing, SLA and notification of the
  ticket, and answers with it.\<close>

theorem submit_opens:
  assumes "submit env ctx i version key s = (Inr (a, False), u)"
  shows "\<exists>tenant user d t p rows vals. caller ctx TICKET_SUBMIT = Inr (tenant, user)
    \<and> draft_query tenant i s = Some d \<and> dr_owner d = user \<and> dr_row_version d = version
    \<and> dr_status d \<in> {''DRAFT'', ''READY_FOR_REVIEW''}
    \<and> tickets (desk_case u) = tickets (desk_case s) @ [t]
    \<and> ticket_of_draft (submitted_row (env_wall env) (t_id t) d) t \<and> t_row_version t = 1 \<and> t_summary t = dr_summary d
    \<and> find (\<lambda>p. pj_id p = dr_project d) (cat_projects (desk_catalogue s)) = Some p
    \<and> t_key t = pj_key p @ ''-'' @ int_str (ticket_number (dr_project d) s)
    \<and> ticket_number (dr_project d) u = ticket_number (dr_project d) s + 1
    \<and> drafts u = map (\<lambda>y. if dr_id y = i then submitted_row (env_wall env) (t_id t) y else y) (drafts s)
    \<and> validated env (form_fields_query tenant (dr_version d) (desk_catalogue s)) (stored_inputs (dr_custom d)) True = Inr vals
    \<and> custom_rows u = custom_rows s @ rows
    \<and> list_all2 (stored_as (env_float env) s (t_id t) (dr_version d)) (filter (\<lambda>item. snd item \<noteq> PNone) vals) rows
    \<and> outbox_events (desk_case u) = outbox_events (desk_case s) @ map (creation_message tenant t) creation_events
    \<and> tv_ticket (fst a) = t"
  using assms
proof (rule submission_effect)
  fix tenant user d vals p priority flow t e rows n idem c s'
  assume c: "caller ctx TICKET_SUBMIT = Inr (tenant, user)" and d: "draft_query tenant i s = Some d"
    "dr_owner d = user" "dr_row_version d = version" "dr_status d \<in> {''DRAFT'', ''READY_FOR_REVIEW''}"
    and vals: "validated env (form_fields_query tenant (dr_version d) (desk_catalogue s)) (stored_inputs (dr_custom d)) True = Inr vals"
    and p: "find (\<lambda>p. pj_id p = dr_project d) (cat_projects (desk_catalogue s)) = Some p"
    and t: "t = opened_ticket env d priority flow s' (t_id t) (pj_key p) (pj_key p @ ''-'' @ int_str (ticket_number (dr_project d) s))"
    and rows: "list_all2 (stored_as (env_float env) s (t_id t) (dr_version d)) (filter (\<lambda>item. snd item \<noteq> PNone) vals) rows"
    and got: "get_ticket ctx (t_key t) u = Inr a"
    and unique: "\<forall>x\<in>set (tickets (desk_case s)). \<not> (t_tenant x = t_tenant t \<and> t_key x = t_key t)"
    and claim: "claim_checked tenant user ''TICKET_DRAFT_SUBMIT'' key (submission_digest env i version) (desk_case s) = Inr (idem, c)"
    and s': "s' = s\<lparr>desk_case := c\<rparr>" and u: "u = submitted_db (env_wall env) ctx d t e rows n idem s'"
  from claim_tables [OF claim] have same: "tickets (desk_case s') = tickets (desk_case s)"
    "outbox_events (desk_case s') = outbox_events (desk_case s)" "custom_rows s' = custom_rows s" "drafts s' = drafts s"
    "next_number s' = next_number s" by (auto simp: s')
  note f = draft_query_facts [OF d(1)]
  have tid: "t_tenant t = tenant" "t_reporter t = user" "t_project t = dr_project d" "t_row_version t = 1" "t_summary t = dr_summary d"
    "t_key t = pj_key p @ ''-'' @ int_str (ticket_number (dr_project d) s)"
    using arg_cong [OF t, of t_tenant] arg_cong [OF t, of t_reporter] arg_cong [OF t, of t_project]
      arg_cong [OF t, of t_row_version] arg_cong [OF t, of t_summary] arg_cong [OF t, of t_key]
    by (simp_all add: f d(2))
  from got c obtain v where v: "ticket_by_key tenant user (t_key t) u = Some v" "a = answer_of v u" by (rule get_ticket_view)
  have "tickets (desk_case u) = tickets (desk_case s) @ [t]" by (simp add: u same)
  from opened_view(1) [OF v(1) this tid(1) unique] have seen: "tv_ticket (fst a) = t" by (simp add: v(2) answer_of_def)
  have own: "ticket_of_draft (submitted_row (env_wall env) (t_id t) d) t"
    by (simp add: ticket_of_draft_def submitted_row_def touched_def tid f d(2))
  have tabs: "tickets (desk_case u) = tickets (desk_case s) @ [t]"
    "drafts u = map (\<lambda>y. if dr_id y = i then submitted_row (env_wall env) (t_id t) y else y) (drafts s)"
    "custom_rows u = custom_rows s @ rows" "ticket_number (dr_project d) u = ticket_number (dr_project d) s + 1"
    "outbox_events (desk_case u) = outbox_events (desk_case s) @ map (creation_message tenant t) creation_events"
    by (simp_all add: u same f ticket_number_def)
  show ?thesis
    by (intro exI conjI) (rule c d own p vals rows seen tid tabs)+
qed


subsection \<open>The same submission again\<close>

lemma view_frame:
  "desk_catalogue w = desk_catalogue u \<Longrightarrow> desk_case w = (desk_case u)\<lparr>audit_events := z\<rparr> \<Longrightarrow> answer_of v w = answer_of v u"
  by (simp add: answer_of_def public_comments_def user_name_def)

text \<open>C4: the same submission again, with the same key and whenever it is made, answers with the same ticket and is
  marked as a repetition; it adds one row to the audit trail and changes nothing else.\<close>

theorem submit_replay_same:
  assumes "submit env ctx i version key s = (Inr (a, False), u)" "env_text_digest env' = env_text_digest env"
  shows "\<exists>row. submit env' ctx i version key u = (Inr (a, True),
      u\<lparr>desk_case := (desk_case u)\<lparr>audit_events := audit_events (desk_case u) @ [row]\<rparr>\<rparr>)
    \<and> au_action row = ''TICKET_SUBMISSION_REPLAYED'' \<and> au_resource row = i"
  using assms(1)
proof (rule submission_effect)
  fix tenant user d p priority flow t e rows n idem c s'
  assume c: "caller ctx TICKET_SUBMIT = Inr (tenant, user)" and d: "draft_query tenant i s = Some d" "dr_owner d = user"
    and t: "t = opened_ticket env d priority flow s' (t_id t) (pj_key p) (pj_key p @ ''-'' @ int_str (ticket_number (dr_project d) s))"
    and fresh: "t_id t \<notin> t_id ` set (tickets (desk_case s))"
    and got: "get_ticket ctx (t_key t) u = Inr a"
    and unique: "\<forall>x\<in>set (tickets (desk_case s)). \<not> (t_tenant x = t_tenant t \<and> t_key x = t_key t)"
    and claim: "claim_checked tenant user ''TICKET_DRAFT_SUBMIT'' key (submission_digest env i version) (desk_case s) = Inr (idem, c)"
    and s': "s' = s\<lparr>desk_case := c\<rparr>" and u: "u = submitted_db (env_wall env) ctx d t e rows n idem s'"
  let ?h = "submission_digest env i version"
  let ?idem = "idem\<lparr>idem_status := ''COMPLETED'', idem_result := Some (t_id t),
    idem_payload := [(''id'', uuid_val (t_id t)), (''key'', PStr (t_key t))]\<rparr>"
  let ?g = "\<lambda>y. if dr_id y = dr_id d then submitted_row (env_wall env) (t_id t) y else y"
  from claim_tables [OF claim] have same: "tickets (desk_case s') = tickets (desk_case s)" "drafts s' = drafts s"
    by (auto simp: s')
  note r = claim_result [OF claim]
  have tid: "t_tenant t = tenant" "t_reporter t = user"
    using arg_cong [OF t, of t_tenant] arg_cong [OF t, of t_reporter] draft_query_facts [OF d(1)] d(2) by simp_all
  have "find (same_request tenant ''TICKET_DRAFT_SUBMIT'' key) (idempotency (desk_case u)) = Some ?idem"
    using completed_request [OF r [THEN conjunct1], where res = "t_id t"
        and payload = "[(''id'', uuid_val (t_id t)), (''key'', PStr (t_key t))]" and u = "()"]
    by (simp add: complete_idempotency_def u s' completed_record_def)
  then have again: "on_case (claim_idempotency tenant user ''TICKET_DRAFT_SUBMIT'' key ?h) u = Inr (?idem, u)"
    by (simp add: claim_idempotency_def on_case_def)
  have "draft_query tenant i u = map_option ?g (draft_query tenant i s)"
    unfolding draft_query_def u submitted_tables same
    by (rule find_map) (simp add: submitted_row_def touched_def)
  then have draft: "draft_query tenant i u = Some (submitted_row (env_wall env) (t_id t) d)" by (simp add: d(1))
  have own: "dr_owner (submitted_row (env_wall env) (t_id t) d) = user" "dr_id (submitted_row (env_wall env) (t_id t) d) = i"
    using draft_query_facts [OF d(1)] by (simp_all add: submitted_row_def touched_def d(2))
  from got c obtain v where v: "ticket_by_key tenant user (t_key t) u = Some v" "a = answer_of v u" by (rule get_ticket_view)
  have ts: "tickets (desk_case u) = tickets (desk_case s) @ [t]" by (simp add: u same)
  have "ticket_by_id tenant user (t_id t) u = Some v"
    by (rule ticket_by_id_only [OF opened_view(2) [OF v(1) ts tid(1) unique]])
      (use fresh tid in \<open>auto simp: ts concerns_def image_iff\<close>)
  then have replay: "submit_replay ctx tenant user i ?idem u = Inr (a, u\<lparr>desk_case := (desk_case u)\<lparr>audit_events :=
      audit_events (desk_case u) @ [submission_audit (submitted_row (env_wall env) (t_id t) d) ''TICKET_SUBMISSION_REPLAYED'' ctx]\<rparr>\<rparr>)"
    by (simp add: submit_replay_def of_option_def draft audit_own v(2) view_frame)
  have "submit_body env' ctx tenant user i version key u = Inr (Inr (SubmittedBefore a), u\<lparr>desk_case := (desk_case u)\<lparr>audit_events :=
      audit_events (desk_case u) @ [submission_audit (submitted_row (env_wall env) (t_id t) d) ''TICKET_SUBMISSION_REPLAYED'' ctx]\<rparr>\<rparr>)"
    using r replay again assms(2) by (simp add: submit_body_def submission_digest_def Let_def)
  then have "submit env' ctx i version key u = (Inr (a, True), u\<lparr>desk_case := (desk_case u)\<lparr>audit_events :=
      audit_events (desk_case u) @ [submission_audit (submitted_row (env_wall env) (t_id t) d) ''TICKET_SUBMISSION_REPLAYED'' ctx]\<rparr>\<rparr>)"
    by (simp add: submit_def on_own_draft_def c draft owned_def own run_uow_def)
  then show ?thesis
    by (intro exI [of _ "submission_audit (submitted_row (env_wall env) (t_id t) d) ''TICKET_SUBMISSION_REPLAYED'' ctx"])
      (simp add: submission_audit_def own)
qed


subsection \<open>A group that does not exist\<close>

text \<open>C13: the check of references passes any well-formed group identifier, but a submission whose form names a group
  that does not exist cannot be stored: the foreign key refuses it.\<close>

theorem unknown_group_refused:
  assumes "(code, PStr ref) \<in> set d" "definitions_of (desk_catalogue s) version code = [f]" "cf_type f = ''GROUP''"
    and "Prelude.uuid_of_text ref = Some g" "g \<notin> g_id ` set (groups (desk_case s))" "field_type frows code = Some ''GROUP''"
  shows "reference_message env tenant frows s (code, PStr ref) = Inr None
    \<and> (\<forall>u. persist_custom_values fr ticket version d s \<noteq> Inr ((), u))"
proof (intro conjI allI notI)
  show "reference_message env tenant frows s (code, PStr ref) = Inr None"
    using assms(6) by (simp add: reference_message_def Let_def)
  fix u assume "persist_custom_values fr ticket version d s = Inr ((), u)"
  then obtain rows where rows: "list_all2 (stored_as fr s ticket version) (filter (\<lambda>item. snd item \<noteq> PNone) d) rows"
    by (rule persist_effect)
  have "(code, PStr ref) \<in> set (filter (\<lambda>item. snd item \<noteq> PNone) d)" using assms(1) by simp
  from list_all2_left [OF rows this] obtain r where "stored_as fr s ticket version (code, PStr ref) r" by blast
  with assms(2-4) have "cv_value r = GroupValue g" "value_refers (cv_value r) s"
    by (auto simp: stored_as_def typed_value_def Let_def read_or_def of_option_def)
  with assms(5) show False by (simp add: value_refers_def)
qed

end
