(* ===== verification/TicketDemo.thy ===== *)
theory TicketDemo
  imports TicketSpec
begin

text \<open>
  A small desk with one open draft: its submission step by step, and the properties of the ticket service applied to it.
\<close>

subsection \<open>The desk\<close>

definition demo_draft :: draft_row where
  "demo_draft = \<lparr>dr_id = 100, dr_tenant = 9, dr_owner = 2, dr_requested_for = None, dr_project = 8, dr_node = None,
     dr_type = 80, dr_version = 81, dr_work_type = 90, dr_environment = None, dr_summary = ''Laptop'', dr_description = None,
     dr_custom = [(''cause'', PStr ''NEW'')], dr_impact = Some ''LOW'', dr_urgency = Some ''LOW'', dr_priority = Some ''P3'',
     dr_matrix = Some 95, dr_status = ''DRAFT'', dr_ticket = None, dr_created = 0, dr_updated = 0, dr_row_version = 1,
     dr_expires = None, dr_conversation = None\<rparr>"

lemma demo_draft_simps [simp]: "dr_owner demo_draft = 2" "dr_row_version demo_draft = 1" "dr_status demo_draft = ''DRAFT''"
  "dr_type demo_draft = 80" "dr_version demo_draft = 81" "dr_project demo_draft = 8" "dr_node demo_draft = None"
  "dr_impact demo_draft = Some ''LOW''" "dr_urgency demo_draft = Some ''LOW''"
  "stored_inputs (dr_custom demo_draft) = [\<lparr>in_code = ''cause'', in_value = PStr ''NEW''\<rparr>]"
  by (simp_all add: demo_draft_def stored_inputs_def)

lemma demo_desk_env_simps [simp]: "env_now demo_desk_env = 1000000" "env_wall demo_desk_env = 1000000"
  by (simp_all add: demo_desk_env_def)

definition demo_draft_desk :: desk_db where
  "demo_draft_desk = (demo_desk demo_db demo_catalogue)\<lparr>drafts := [demo_draft]\<rparr>"




subsection \<open>Its submission\<close>

lemma demo_form_values: "validated demo_desk_env (form_fields_query 9 81 demo_catalogue) [\<lparr>in_code = ''cause'', in_value = PStr ''NEW''\<rparr>] True
    = Inr [(''note'', PNone), (''cause'', PStr ''NEW'')]"
  by code_simp

lemma demo_priority: "priority_query 1000000 9 8 None ''LOW'' ''LOW'' demo_draft_desk = Inr (Some (''P3'', 95))"
  by code_simp

lemma demo_workflow: "workflow_initial 1000000 19 demo_draft_desk = Some (20, 21)"
  by code_simp

lemma demo_binding: "binding_query 9 80 81 demo_catalogue = Some \<lparr>rb_type = 80, rb_version = 81, rb_project = 8,
    rb_work_type = 90, rb_workflow = 19, rb_status = ''PUBLISHED'', rb_active = True, rb_visible = True\<rparr>"
  by code_simp

definition demo_claimed :: desk_db where
  "demo_claimed = (case claim_idempotency 9 2 ''TICKET_DRAFT_SUBMIT'' ''key'' (submission_digest demo_desk_env 100 1)
     (desk_case demo_draft_desk) of Inr (r, c) \<Rightarrow> demo_draft_desk\<lparr>desk_case := c\<rparr>)"

lemma demo_claim: "\<exists>idem. on_case (claim_idempotency 9 2 ''TICKET_DRAFT_SUBMIT'' ''key'' (submission_digest demo_desk_env 100 1))
    demo_draft_desk = Inr (idem, demo_claimed) \<and> idem_hash idem = submission_digest demo_desk_env 100 1
    \<and> idem_principal idem = uuid_str 2 \<and> idem_status idem = ''IN_PROGRESS''"
  by (simp add: demo_claimed_def on_case_def claim_idempotency_def Let_def demo_draft_desk_def demo_desk_def demo_db_def)

lemma demo_claimed_tables: "desk_catalogue demo_claimed = demo_catalogue" "drafts demo_claimed = [demo_draft]"
  "tickets (desk_case demo_claimed) = tickets demo_db" "users (desk_case demo_claimed) = users demo_db" "custom_rows demo_claimed = []"
  "statuses (desk_case demo_claimed) = statuses demo_db" "drawn (desk_case demo_claimed) = drawn demo_db + 1"
  "next_number demo_claimed = (\<lambda>_. Some 3)" "groups (desk_case demo_claimed) = groups demo_db"
  "fresh_id (desk_case demo_claimed) = fresh_id demo_db"
  by (simp_all add: demo_claimed_def claim_idempotency_def Let_def demo_draft_desk_def demo_desk_def demo_db_def)

lemma demo_claimed_queries:
  "priority_query 1000000 9 8 None ''LOW'' ''LOW'' demo_claimed = Inr (Some (''P3'', 95))"
  "workflow_initial 1000000 19 demo_claimed = Some (20, 21)"
proof -
  obtain c where c: "demo_claimed = demo_draft_desk\<lparr>desk_case := c\<rparr>"
    by (simp add: demo_claimed_def claim_idempotency_def Let_def demo_draft_desk_def demo_desk_def demo_db_def)
  show "priority_query 1000000 9 8 None ''LOW'' ''LOW'' demo_claimed = Inr (Some (''P3'', 95))"
    unfolding c case_queries by (rule demo_priority)
  show "workflow_initial 1000000 19 demo_claimed = Some (20, 21)"
    unfolding c case_queries by (rule demo_workflow)
qed

lemma demo_settled: "settle_form demo_desk_env 9 8 None ''LOW'' ''LOW'' (form_fields_query 9 81 demo_catalogue)
    [(''note'', PNone), (''cause'', PStr ''NEW'')] demo_claimed = Inr (''P3'', 95)"
  unfolding demo_form_rows
  by (simp add: settle_form_def check_references_def reference_message_def field_type_def form_row_def
      shop_field_def demo_layout_def demo_option_def priority_of_def demo_claimed_queries demo_desk_env_def of_option_def map_filter_simps)

lemma demo_stored:
  assumes "desk_catalogue s = demo_catalogue" "custom_rows s = []"
  shows "\<exists>u. persist_custom_values fr i 81 [(''note'', PNone), (''cause'', PStr ''NEW'')] s = Inr ((), u)"
  using assms
  by (simp add: persist_custom_values_def persist_one_def definitions_of_def catalogue_data typed_value_def value_refers_def
      option_id_def)


lemma demo_opened: "\<exists>t u. create_ticket demo_desk_env ctx demo_draft (''P3'', 95) (20, 21) demo_claimed = Inr (t, u)"
proof -
  have "int_str 3 = ''3''" by code_simp
  then show ?thesis
    by (simp add: create_ticket_def on_case_def draw_uuid_def Let_def bindS_def insert_event_def demo_claimed_tables
        demo_draft_def demo_catalogue_def demo_db_def demo_ticket_def)
qed

lemma demo_submission:
  "\<exists>a u. submit demo_desk_env (demo_context 2 ''CUSTOMER'') 100 1 ''key'' demo_draft_desk = (Inr (a, False), u)"
proof -
  let ?ctx = "demo_context 2 ''CUSTOMER''" and ?vals = "[(''note'', PNone), (''cause'', PStr ''NEW'')]"
  from demo_claim obtain idem where claim: "on_case (claim_idempotency 9 2 ''TICKET_DRAFT_SUBMIT'' ''key''
      (submission_digest demo_desk_env 100 1)) demo_draft_desk = Inr (idem, demo_claimed)"
    and idem: "idem_hash idem = submission_digest demo_desk_env 100 1" "idem_principal idem = uuid_str 2"
      "idem_status idem = ''IN_PROGRESS''" by blast
  from demo_opened obtain t s1 where create: "create_ticket demo_desk_env ?ctx demo_draft (''P3'', 95) (20, 21) demo_claimed
      = Inr (t, s1)" by blast
  then obtain p e n where "find (\<lambda>p. pj_id p = dr_project demo_draft) (cat_projects (desk_catalogue demo_claimed)) = Some p"
    and t: "t = opened_ticket demo_desk_env demo_draft (''P3'', 95) (20, 21) demo_claimed (t_id t)
        (pj_key p) (pj_key p @ ''-'' @ int_str (ticket_number (dr_project demo_draft) demo_claimed))"
    and "t_id t \<notin> t_id ` set (tickets (desk_case demo_claimed))"
      "\<forall>x\<in>set (tickets (desk_case demo_claimed)). \<not> (t_tenant x = t_tenant t \<and> t_key x = t_key t)"
      "ev_type e = ''TICKET_CREATED''" "ev_ticket e = t_id t" "ev_tenant e = dr_tenant demo_draft" "ev_actor e = dr_owner demo_draft"
    and s1: "s1 = demo_claimed\<lparr>desk_case := (desk_case demo_claimed)\<lparr>tickets := tickets (desk_case demo_claimed) @ [t],
       ticket_events := ticket_events (desk_case demo_claimed) @ [e], drawn := n\<rparr>,
       next_number := (next_number demo_claimed)(dr_project demo_draft
         := Some (ticket_number (dr_project demo_draft) demo_claimed + 1))\<rparr>"
    by (rule create_ticket_effect)
  have "desk_catalogue s1 = demo_catalogue" "custom_rows s1 = []" by (simp_all add: s1 demo_claimed_tables)
  from demo_stored [OF this] obtain s2 where persist:
    "persist_custom_values (env_float demo_desk_env) (t_id t) 81 ?vals s1 = Inr ((), s2)" by blast
  then obtain rows where s2: "s2 = s1\<lparr>custom_rows := custom_rows s1 @ rows\<rparr>" by (rule persist_effect)
  obtain s3 where finish: "finish_submission (env_wall demo_desk_env) demo_draft t idem s2 = Inr ((), s3)"
    by (auto simp: finish_submission_def update_drafts_def s2 s1 demo_claimed_tables demo_draft_def on_case_def
        creation_events_def insert_outbox_def outbox_conflict_def complete_idempotency_def)
  obtain u where u: "audit_draft demo_draft ''TICKET_SUBMITTED'' ''SUCCESS'' ?ctx None s3 = Inr ((), u)"
    using audit_own by blast
  have d: "draft_query 9 100 demo_claimed = Some demo_draft" "draft_query 9 100 demo_draft_desk = Some demo_draft"
    by (simp_all add: draft_query_def demo_claimed_tables demo_draft_desk_def demo_draft_def)
  have "submit_work demo_desk_env ?ctx 9 2 100 1 idem demo_claimed = Inr (t_key t, u)"
    using d(1) create persist finish u
    by (simp add: submit_work_def submittable_def submission_binding_def demo_claimed_tables demo_binding
        demo_form_values demo_settled demo_claimed_queries of_option_def given_def)
  then have body: "submit_body demo_desk_env ?ctx 9 2 100 1 ''key'' demo_draft_desk = Inr (Inr (SubmittedNow (t_key t)), u)"
    using claim idem by (simp add: submit_body_def Let_def)
  from finish_effect(2) [OF finish] u have w: "desk_catalogue u = demo_catalogue" "tickets (desk_case u) = tickets demo_db @ [t]"
    "users (desk_case u) = users demo_db" "statuses (desk_case u) = statuses demo_db"
    by (auto simp: audit_own s2 s1 demo_claimed_tables)
  have "t_project t = 8" "t_request_type t = 80" "t_work_type t = 90" "t_status t = 21" "t_reporter t = 2" "t_tenant t = 9"
    using arg_cong [OF t, of t_project] arg_cong [OF t, of t_request_type] arg_cong [OF t, of t_work_type]
      arg_cong [OF t, of t_status] arg_cong [OF t, of t_reporter] arg_cong [OF t, of t_tenant]
    by (simp_all add: opened_ticket_def demo_draft_def)
  then have "concerns 9 2 t" "\<exists>v. view_of_ticket u t = Some v"
    by (simp_all add: concerns_def view_of_ticket_def w demo_catalogue_def demo_db_def demo_status_def user_name_def demo_user_def)
  then obtain v where "v \<in> set (views_where (\<lambda>x. concerns 9 2 x \<and> t_key x = t_key t) u)"
    by (auto simp: views_where_def set_map_filter w(2))
  then have "ticket_by_key 9 2 (t_key t) u \<noteq> None"
    by (auto simp: ticket_by_key_def first_row_def split: list.splits)
  then obtain v where "ticket_by_key 9 2 (t_key t) u = Some v" by blast
  then have "get_ticket ?ctx (t_key t) u = Inr (answer_of v u)" by (simp add: get_ticket_def of_option_def)
  then have "submit demo_desk_env ?ctx 100 1 ''key'' demo_draft_desk = (Inr (answer_of v u, False), u)"
    by (simp add: submit_def on_own_draft_def owned_def run_uow_def d(2) body)
  then show ?thesis by blast
qed

subsection \<open>The properties at this submission\<close>

theorem draft_history_witness:
  "\<exists>u. desk_step\<^sup>*\<^sup>* demo_draft_desk u \<and> length (tickets (desk_case u)) = 3 \<and> desk_ok u
    \<and> extends draft_le (drafts demo_draft_desk) (drafts u)"
proof -
  from demo_submission obtain a u where sub: "submit demo_desk_env (demo_context 2 ''CUSTOMER'') 100 1 ''key'' demo_draft_desk
      = (Inr (a, False), u)" by blast
  then have steps: "desk_step\<^sup>*\<^sup>* demo_draft_desk u" by (intro r_into_rtranclp desk_step.submission)
  have ok: "desk_ok demo_draft_desk"
    by (simp add: desk_ok_def demo_draft_desk_def demo_desk_def demo_db_def demo_ticket_def demo_draft_def map_filter_simps)
  from sub have "length (tickets (desk_case u)) = 3"
    by (rule submission_effect) (auto dest!: claim_tables simp: demo_draft_desk_def demo_desk_def demo_db_def)
  with steps draft_history [OF steps ok] show ?thesis by blast
qed

theorem submit_opens_witness:
  "\<exists>a u t. submit demo_desk_env (demo_context 2 ''CUSTOMER'') 100 1 ''key'' demo_draft_desk = (Inr (a, False), u)
    \<and> tickets (desk_case u) = tickets demo_db @ [t] \<and> t_key t = ''HR-3'' \<and> tv_ticket (fst a) = t"
proof -
  from demo_submission obtain a u where sub: "submit demo_desk_env (demo_context 2 ''CUSTOMER'') 100 1 ''key'' demo_draft_desk
      = (Inr (a, False), u)" by blast
  have "int_str 3 = ''3''" by code_simp
  with submit_opens [OF sub] have "\<exists>t. tickets (desk_case u) = tickets demo_db @ [t] \<and> t_key t = ''HR-3'' \<and> tv_ticket (fst a) = t"
    by (auto simp: demo_draft_desk_def demo_desk_def demo_catalogue_def ticket_number_def draft_query_def split: if_splits)
  with sub show ?thesis by blast
qed

theorem submit_replay_same_witness:
  "\<exists>a u. submit demo_desk_env (demo_context 2 ''CUSTOMER'') 100 1 ''key'' demo_draft_desk = (Inr (a, False), u)
    \<and> (\<exists>w. submit demo_desk_env (demo_context 2 ''CUSTOMER'') 100 1 ''key'' u = (Inr (a, True), w))"
proof -
  from demo_submission obtain a u where sub: "submit demo_desk_env (demo_context 2 ''CUSTOMER'') 100 1 ''key'' demo_draft_desk
      = (Inr (a, False), u)" by blast
  from submit_replay_same [OF sub refl] sub show ?thesis by blast
qed


theorem unknown_group_refused_witness:
  "persist_custom_values (env_float demo_desk_env) 7 81 [(''team'', PStr (uuid_str 999))] (demo_draft_desk\<lparr>desk_catalogue :=
    demo_catalogue\<lparr>cat_fields := [shop_field 82 ''team'' ''GROUP'']\<rparr>\<rparr>) \<noteq> Inr ((), demo_draft_desk)"
proof -
  let ?s = "demo_draft_desk\<lparr>desk_catalogue := demo_catalogue\<lparr>cat_fields := [shop_field 82 ''team'' ''GROUP'']\<rparr>\<rparr>"
  let ?rows = "[form_row (demo_layout 82 1 True) (shop_field 82 ''team'' ''GROUP'') None]"
  have "definitions_of (desk_catalogue ?s) 81 ''team'' = [shop_field 82 ''team'' ''GROUP'']"
    by (simp add: definitions_of_def demo_catalogue_def demo_layout_def shop_field_def)
  moreover have "Prelude.uuid_of_text (uuid_str 999) = Some 999" by code_simp
  moreover have "999 \<notin> g_id ` set (groups (desk_case ?s))" by (simp add: demo_draft_desk_def demo_desk_def demo_db_def)
  moreover have "field_type ?rows ''team'' = Some ''GROUP''" by (simp add: field_type_def form_row_def shop_field_def)
  moreover have "cf_type (shop_field 82 ''team'' ''GROUP'') = ''GROUP''" by (simp add: shop_field_def)
  ultimately show ?thesis
    using unknown_group_refused [of "''team''" "uuid_str 999" "[(''team'', PStr (uuid_str 999))]" ?s 81
      "shop_field 82 ''team'' ''GROUP''" 999 ?rows] by simp
qed

end
