(* ===== verification/QueueDb.thy ===== *)
theory QueueDb
  imports Tickets
begin

text \<open>
  The tables of \<open>queues/repository.py\<close> and its statements on them: the canned responses and saved filters of
  an analyst, which are rows of the same shape, and the published queue definitions.
\<close>

subsection \<open>Tables\<close>

record 'a personal_row =
  pe_id :: uuid
  pe_tenant :: uuid
  pe_owner :: uuid
  pe_name :: string
  pe_data :: 'a
  pe_order :: int
  pe_version :: int
  pe_created :: instant
  pe_updated :: instant

record filter_choice =
  fc_queue :: uuid
  fc_status :: "string option"
  fc_priority :: "string option"
  fc_search :: "string option"
  fc_group :: "uuid option"
  fc_assignee :: "string option"

record queue_row =
  qr_id :: uuid
  qr_tenant :: uuid
  qr_project :: uuid
  qr_name :: string
  qr_description :: "string option"
  qr_order :: int
  qr_active :: bool

record queue_version_row =
  qv_id :: uuid
  qv_queue :: uuid
  qv_number :: int
  qv_status :: string
  qv_published :: "instant option"
  qv_from :: "instant option"
  qv_to :: "instant option"
  qv_filter :: pyval
  qv_sort :: pyval
  qv_columns :: pyval
  qv_visibility :: string
  qv_group :: "uuid option"

text \<open>
  \<open>sla_targets\<close> holds a ticket, the metric of a definition and a target for each SLA of a ticket;
  \<open>event_times\<close> the time of each row of the ticket event table, by its position.
\<close>

record queue_db =
  queue_desk :: desk_db
  canned :: "string personal_row list"
  saved :: "filter_choice personal_row list"
  queue_rows :: "queue_row list"
  queue_versions :: "queue_version_row list"
  priority_codes :: "string list"
  sla_targets :: "(uuid \<times> string \<times> instant option) list"
  event_times :: "nat \<Rightarrow> instant"

type_synonym 'a queue_op = "(queue_db, app_error, 'a) op"

text \<open>The database's \<open>lower\<close>, and its text search of a query in a document.\<close>

record queue_env = desk_env +
  env_lower :: "string \<Rightarrow> string"
  env_matches :: "string \<Rightarrow> string \<Rightarrow> bool"

definition on_queue_case :: "'a db_op \<Rightarrow> 'a queue_op" where
  "on_queue_case m db = (case on_case m (queue_desk db) of Inl e \<Rightarrow> Inl e
     | Inr (x, d) \<Rightarrow> Inr (x, db\<lparr>queue_desk := d\<rparr>))"

abbreviation queue_case :: "queue_db \<Rightarrow> helpdesk_db" where
  "queue_case db \<equiv> desk_case (queue_desk db)"

subsection \<open>Personal rows\<close>

definition owned_by :: "uuid \<Rightarrow> uuid \<Rightarrow> 'a personal_row \<Rightarrow> bool" where
  "owned_by tenant owner r \<longleftrightarrow> pe_tenant r = tenant \<and> pe_owner r = owner"

definition personal_rows :: "uuid \<Rightarrow> uuid \<Rightarrow> 'a personal_row list \<Rightarrow> 'a personal_row list" where
  "personal_rows tenant owner rows = sort_key (\<lambda>r. (pe_order r, pe_id r)) (filter (owned_by tenant owner) rows)"

definition personal_row_with :: "uuid \<Rightarrow> uuid \<Rightarrow> uuid \<Rightarrow> 'a personal_row list \<Rightarrow> 'a personal_row option" where
  "personal_row_with tenant owner i rows = find (\<lambda>r. owned_by tenant owner r \<and> pe_id r = i) rows"

definition name_taken ::
  "(string \<Rightarrow> string) \<Rightarrow> uuid \<Rightarrow> uuid \<Rightarrow> string \<Rightarrow> uuid option \<Rightarrow> 'a personal_row list \<Rightarrow> bool" where
  "name_taken low tenant owner name excluding rows \<longleftrightarrow> list_ex (\<lambda>r. owned_by tenant owner r
     \<and> low (pe_name r) = low name \<and> (excluding = None \<or> excluding \<noteq> Some (pe_id r))) rows"

definition next_order :: "uuid \<Rightarrow> uuid \<Rightarrow> 'a personal_row list \<Rightarrow> int" where
  "next_order tenant owner rows = (case map pe_order (filter (owned_by tenant owner) rows) of
       [] \<Rightarrow> 0 | n # ns \<Rightarrow> foldr max ns n + 10)"

text \<open>
  A table of personal rows: its rows, how they are rewritten, and the reference that the data of a row breaks,
  if any. The check constraints repeat what the services make sure of and are left out.
\<close>

record 'a shelf =
  sh_rows :: "queue_db \<Rightarrow> 'a personal_row list"
  sh_store :: "('a personal_row list \<Rightarrow> 'a personal_row list) \<Rightarrow> queue_db \<Rightarrow> queue_db"
  sh_broken :: "'a \<Rightarrow> queue_db \<Rightarrow> string option"

text \<open>\<open>INSERT ... ON CONFLICT DO NOTHING\<close> at the end of the owner's list.\<close>

definition insert_personal ::
  "('a, 'm) shelf_scheme \<Rightarrow> queue_env \<Rightarrow> uuid \<Rightarrow> uuid \<Rightarrow> string \<Rightarrow> 'a \<Rightarrow> 'a personal_row option queue_op" where
  "insert_personal sh env tenant owner name data = bindS (on_queue_case draw_uuid) (\<lambda>i db.
     let rows = sh_rows sh db in
     if i \<in> pe_id ` set rows \<or> name_taken (env_lower env) tenant owner name None rows then Inr (None, db)
     else case sh_broken sh data db of
       Some c \<Rightarrow> Inl (IntegrityError c)
     | None \<Rightarrow>
         let row = \<lparr>pe_id = i, pe_tenant = tenant, pe_owner = owner, pe_name = name, pe_data = data,
             pe_order = next_order tenant owner rows, pe_version = 1, pe_created = env_now env,
             pe_updated = env_now env\<rparr>
         in Inr (Some row, sh_store sh (\<lambda>rows. rows @ [row]) db))"

definition at_version :: "uuid \<Rightarrow> uuid \<Rightarrow> uuid \<Rightarrow> int \<Rightarrow> 'a personal_row \<Rightarrow> bool" where
  "at_version tenant owner i version r \<longleftrightarrow> owned_by tenant owner r \<and> pe_id r = i \<and> pe_version r = version"

definition bumped :: "instant \<Rightarrow> 'a personal_row \<Rightarrow> 'a personal_row" where
  "bumped now r = r\<lparr>pe_version := pe_version r + 1, pe_updated := now\<rparr>"

definition edit_where :: "('a \<Rightarrow> bool) \<Rightarrow> ('a \<Rightarrow> 'a) \<Rightarrow> 'a list \<Rightarrow> 'a list" where
  "edit_where p f rows = map (\<lambda>r. if p r then f r else r) rows"

definition update_personal ::
  "('a, 'm) shelf_scheme \<Rightarrow> queue_env \<Rightarrow> uuid \<Rightarrow> uuid \<Rightarrow> uuid \<Rightarrow> int \<Rightarrow> string \<Rightarrow> 'a \<Rightarrow> 'a personal_row option queue_op" where
  "update_personal sh env tenant owner i version name data db =
     (let hit = at_version tenant owner i version; f = (\<lambda>r. bumped (env_now env) r\<lparr>pe_name := name, pe_data := data\<rparr>) in
      case find hit (sh_rows sh db) of
        None \<Rightarrow> Inr (None, db)
      | Some r \<Rightarrow>
          if name_taken (env_lower env) tenant owner name (Some i) (sh_rows sh db) then Inl (IntegrityError ''owner_name_ux'')
          else (case sh_broken sh data db of
              Some c \<Rightarrow> Inl (IntegrityError c)
            | None \<Rightarrow> Inr (Some (f r), sh_store sh (edit_where hit f) db)))"

text \<open>One statement for each item; the number of rows that were changed.\<close>

fun reorder_rows :: "instant \<Rightarrow> uuid \<Rightarrow> uuid \<Rightarrow> (uuid \<times> int \<times> int) list \<Rightarrow> 'a personal_row list
    \<Rightarrow> nat \<times> 'a personal_row list" where
  "reorder_rows now tenant owner [] rows = (0, rows)"
| "reorder_rows now tenant owner ((i, version, order) # items) rows =
     (let hit = at_version tenant owner i version;
          (n, rows1) = reorder_rows now tenant owner items
            (edit_where hit (\<lambda>r. bumped now r\<lparr>pe_order := order\<rparr>) rows)
      in (length (filter hit rows) + n, rows1))"

definition reorder_personal ::
  "('a, 'm) shelf_scheme \<Rightarrow> queue_env \<Rightarrow> uuid \<Rightarrow> uuid \<Rightarrow> (uuid \<times> int \<times> int) list \<Rightarrow> nat queue_op" where
  "reorder_personal sh env tenant owner items db = Inr (fst (reorder_rows (env_now env) tenant owner items (sh_rows sh db)),
     sh_store sh (\<lambda>rows. snd (reorder_rows (env_now env) tenant owner items rows)) db)"

definition delete_personal :: "('a, 'm) shelf_scheme \<Rightarrow> uuid \<Rightarrow> uuid \<Rightarrow> uuid \<Rightarrow> int \<Rightarrow> bool queue_op" where
  "delete_personal sh tenant owner i version db = (let hit = at_version tenant owner i version in
     Inr (list_ex hit (sh_rows sh db), sh_store sh (filter (\<lambda>r. \<not> hit r)) db))"

subsection \<open>Queue definitions\<close>

record queue_definition =
  qd_id :: uuid
  qd_version :: uuid
  qd_tenant :: uuid
  qd_project :: uuid
  qd_project_code :: string
  qd_name :: string
  qd_description :: "string option"
  qd_filter :: pyval
  qd_sort :: pyval
  qd_columns :: pyval
  qd_visibility :: string
  qd_group :: "uuid option"
  qd_order :: int

definition version_effective :: "instant \<Rightarrow> queue_version_row \<Rightarrow> bool" where
  "version_effective now v \<longleftrightarrow> qv_status v = ''PUBLISHED''
     \<and> (case qv_published v of None \<Rightarrow> False | Some p \<Rightarrow> p \<le> now) \<and> in_force (qv_from v) (qv_to v) now"

definition project_of_queue :: "queue_row \<Rightarrow> queue_db \<Rightarrow> project_row option" where
  "project_of_queue q db = find (\<lambda>p. pj_id p = qr_project q \<and> pj_tenant p = qr_tenant q \<and> pj_active p)
     (cat_projects (desk_catalogue (queue_desk db)))"

definition queue_definitions :: "instant \<Rightarrow> uuid \<Rightarrow> uuid option \<Rightarrow> queue_db \<Rightarrow> queue_definition list" where
  "queue_definitions now tenant queue db = map snd (sort_key fst (List.map_filter (\<lambda>(q, v).
     if qr_tenant q = tenant \<and> qr_active q \<and> (queue = None \<or> queue = Some (qr_id q)) \<and> version_effective now v
     then map_option (\<lambda>p. ((qr_order q, qr_name q, qv_number v), \<lparr>qd_id = qr_id q, qd_version = qv_id v,
       qd_tenant = qr_tenant q, qd_project = qr_project q, qd_project_code = pj_key p, qd_name = qr_name q,
       qd_description = qr_description q, qd_filter = qv_filter v, qd_sort = qv_sort v, qd_columns = qv_columns v,
       qd_visibility = qv_visibility v, qd_group = qv_group v, qd_order = qr_order q\<rparr>)) (project_of_queue q db)
     else None) (concat (map (\<lambda>q. map (Pair q) (filter (\<lambda>v. qv_queue v = qr_id q) (queue_versions db))) (queue_rows db)))))"

end
