(* ===== verification/QueueFilter.thy ===== *)
theory QueueFilter
  imports QueueDb
begin

text \<open>
  The filters of published queues: \<open>_compile_filter\<close> of \<open>queues/service.py\<close> turns a JSON document into an SQL
  condition and named parameters. The condition is kept as a tree, its text is that of the code.
\<close>

subsection \<open>Conditions\<close>

datatype queue_field = GroupField | AssigneeField | PriorityField | StatusField | ProjectField

datatype queue_cond =
    CondTrue
  | CondAll "queue_cond list"
  | CondAny "queue_cond list"
  | CondNull queue_field
  | CondNotNull queue_field
  | CondMine
  | CondMyGroups
  | CondEquals queue_field string
  | CondIn queue_field string

definition queue_field_of :: "string \<Rightarrow> queue_field option" where
  "queue_field_of name = map_of [(''assignment_group_id'', GroupField), (''assignee_user_id'', AssigneeField),
     (''priority_code'', PriorityField), (''status_code'', StatusField), (''project_id'', ProjectField)] name"

definition field_sql :: "queue_field \<Rightarrow> string" where
  "field_sql f = (case f of GroupField \<Rightarrow> ''ticket.assignment_group_id'' | AssigneeField \<Rightarrow> ''ticket.assignee_user_id''
     | PriorityField \<Rightarrow> ''ticket.priority_code'' | StatusField \<Rightarrow> ''status.status_code'' | ProjectField \<Rightarrow> ''ticket.project_id'')"

fun cond_sql :: "queue_cond \<Rightarrow> string" where
  "cond_sql CondTrue = ''TRUE''"
| "cond_sql (CondAll cs) = py_join '' AND '' (map (\<lambda>c. ''('' @ cond_sql c @ '')'') cs)"
| "cond_sql (CondAny cs) = py_join '' OR '' (map (\<lambda>c. ''('' @ cond_sql c @ '')'') cs)"
| "cond_sql (CondNull f) = field_sql f @ '' IS NULL''"
| "cond_sql (CondNotNull f) = field_sql f @ '' IS NOT NULL''"
| "cond_sql CondMine = field_sql AssigneeField @ ''=:current_user_id''"
| "cond_sql CondMyGroups = field_sql GroupField @ ''=ANY(CAST(:support_group_ids AS uuid[]))''"
| "cond_sql (CondEquals f p) = ''CAST('' @ field_sql f @ '' AS text)=CAST(:'' @ p @ '' AS text)''"
| "cond_sql (CondIn f p) = ''CAST('' @ field_sql f @ '' AS text)=ANY(CAST(:'' @ p @ '' AS text[]))''"

subsection \<open>Compilation\<close>

definition queue_error :: "string \<Rightarrow> app_error" where
  "queue_error message = ConflictError message"

text \<open>A dictionary whose only key is \<open>all\<close> or \<open>any\<close>.\<close>

definition rule_group :: "pyval \<Rightarrow> (bool \<times> pyval) option" where
  "rule_group v = (case v of PDict [(k, children)] \<Rightarrow>
       if k = ''all'' then Some (True, children) else if k = ''any'' then Some (False, children) else None
     | _ \<Rightarrow> None)"

definition param_name :: "nat \<Rightarrow> string" where
  "param_name n = ''queue_filter_'' @ nat_str n"

definition is_literal :: "pyval \<Rightarrow> bool" where
  "is_literal v \<longleftrightarrow> (case v of PStr _ \<Rightarrow> True | PInt _ \<Rightarrow> True | PBool _ \<Rightarrow> True | _ \<Rightarrow> False)"

definition is_text :: "pyval \<Rightarrow> bool" where
  "is_text v \<longleftrightarrow> (case v of PStr _ \<Rightarrow> True | _ \<Rightarrow> False)"

text \<open>The field of a rule; a list or dictionary cannot be looked up in the table of fields.\<close>

definition rule_field :: "pyval \<Rightarrow> app_error + queue_field" where
  "rule_field v = (let unsupported = queue_error ''A published queue uses an unsupported filter field.'' in
     case v of PList _ \<Rightarrow> Inl (UncaughtError ''TypeError'') | PDict _ \<Rightarrow> Inl (UncaughtError ''TypeError'')
     | PStr s \<Rightarrow> of_option unsupported (queue_field_of s) | _ \<Rightarrow> Inl unsupported)"

definition compile_list :: "queue_field \<Rightarrow> pyval list \<Rightarrow> pyval list \<Rightarrow> app_error + queue_cond \<times> pyval list" where
  "compile_list f xs ps = (if xs = [] \<or> 50 < length xs \<or> \<not> list_all is_text xs
     then Inl (queue_error ''Queue filter lists must contain 1 to 50 strings.'')
     else Inr (CondIn f (param_name (length ps)), ps @ [PList xs]))"

definition compile_rule :: "pyval \<Rightarrow> pyval list \<Rightarrow> app_error + queue_cond \<times> pyval list" where
  "compile_rule v ps = (case v of
       PDict d \<Rightarrow>
         if dget d ''field'' = None \<or> dget d ''operator'' = None
         then Inl (queue_error ''A published queue contains an invalid filter.'')
         else rbind (rule_field (dget_none d ''field'')) (\<lambda>f.
           let operator = dget_none d ''operator''; expected = dget_none d ''value'' in
           if operator = PStr ''is_null'' then Inr (CondNull f, ps)
           else if operator = PStr ''is_not_null'' then Inr (CondNotNull f, ps)
           else if operator = PStr ''equals_context'' \<and> expected = PStr ''user_id'' \<and> f = AssigneeField
           then Inr (CondMine, ps)
           else if operator = PStr ''in_context'' \<and> expected = PStr ''support_group_ids'' \<and> f = GroupField
           then Inr (CondMyGroups, ps)
           else if operator = PStr ''equals'' \<and> is_literal expected
           then Inr (CondEquals f (param_name (length ps)), ps @ [expected])
           else (case expected of
               PList xs \<Rightarrow> if operator = PStr ''in'' then compile_list f xs ps
                 else Inl (queue_error ''A published queue uses an unsupported filter operator.'')
             | _ \<Rightarrow> Inl (queue_error ''A published queue uses an unsupported filter operator.'')))
     | _ \<Rightarrow> Inl (queue_error ''A published queue contains an invalid filter.''))"

lemma rule_group_size [termination_simp]: "rule_group v = Some (b, PList cs) \<Longrightarrow> size_list size cs < size v"
  by (auto simp: rule_group_def split: pyval.splits list.splits if_splits)

text \<open>
  \<open>ps\<close> are the parameters so far; the \<open>n\<close>-th is bound as \<open>queue_filter_n\<close>.
\<close>

function compile_filter :: "nat \<Rightarrow> pyval \<Rightarrow> pyval list \<Rightarrow> app_error + queue_cond \<times> pyval list"
  and compile_filters :: "nat \<Rightarrow> pyval list \<Rightarrow> pyval list \<Rightarrow> app_error + queue_cond list \<times> pyval list" where
  "compile_filter depth v ps =
     (if 5 < depth then Inl (queue_error ''Queue filter nesting is too deep.'')
      else if is_empty_doc v then Inr (CondTrue, ps)
      else case rule_group v of
        Some (every, PList children) \<Rightarrow>
          if children = [] \<or> 20 < length children
          then Inl (queue_error ''Queue filter groups must contain 1 to 20 rules.'')
          else rbind (compile_filters (depth + 1) children ps)
            (\<lambda>(cs, ps). Inr (if every then CondAll cs else CondAny cs, ps))
      | Some _ \<Rightarrow> Inl (queue_error ''Queue filter groups must contain 1 to 20 rules.'')
      | None \<Rightarrow> compile_rule v ps)"
| "compile_filters depth [] ps = Inr ([], ps)"
| "compile_filters depth (v # vs) ps = rbind (compile_filter depth v ps) (\<lambda>(c, ps).
     rbind (compile_filters depth vs ps) (\<lambda>(cs, ps). Inr (c # cs, ps)))"
  by pat_completeness auto
termination
  by (relation "measure (\<lambda>x. case x of Inl (d, v, p) \<Rightarrow> size v | Inr (d, vs, p) \<Rightarrow> size_list size vs)")
    (auto dest: rule_group_size)

subsection \<open>What a condition means to the database\<close>

text \<open>
  Three truth values: \<^const>\<open>None\<close> is \<open>NULL\<close>. \<open>row\<close> gives the columns of a ticket as text, \<open>parameter\<close> the
  value bound to a name, which is cast to text or to a list of texts. Nothing is equal to any of no values.
\<close>

fun sql_all :: "bool option list \<Rightarrow> bool option" where
  "sql_all [] = Some True"
| "sql_all (b # bs) = (case (b, sql_all bs) of (Some False, _) \<Rightarrow> Some False | (_, Some False) \<Rightarrow> Some False
     | (Some True, Some True) \<Rightarrow> Some True | _ \<Rightarrow> None)"

fun sql_any :: "bool option list \<Rightarrow> bool option" where
  "sql_any [] = Some False"
| "sql_any (b # bs) = (case (b, sql_any bs) of (Some True, _) \<Rightarrow> Some True | (_, Some True) \<Rightarrow> Some True
     | (Some False, Some False) \<Rightarrow> Some False | _ \<Rightarrow> None)"

definition texts_of :: "pyval \<Rightarrow> string list" where
  "texts_of v = (case v of PStr s \<Rightarrow> [s] | PInt i \<Rightarrow> [int_str i] | PBool b \<Rightarrow> [if b then ''true'' else ''false'']
     | PList xs \<Rightarrow> concat (map (\<lambda>x. case x of PStr s \<Rightarrow> [s] | _ \<Rightarrow> []) xs) | _ \<Rightarrow> [])"

fun cond_holds :: "(queue_field \<Rightarrow> string option) \<Rightarrow> (string \<Rightarrow> pyval option) \<Rightarrow> uuid \<Rightarrow> uuid list \<Rightarrow> queue_cond \<Rightarrow> bool option" where
  "cond_holds row parameter user group_ids CondTrue = Some True"
| "cond_holds row parameter user group_ids (CondAll cs) = sql_all (map (cond_holds row parameter user group_ids) cs)"
| "cond_holds row parameter user group_ids (CondAny cs) = sql_any (map (cond_holds row parameter user group_ids) cs)"
| "cond_holds row parameter user group_ids (CondNull f) = Some (row f = None)"
| "cond_holds row parameter user group_ids (CondNotNull f) = Some (row f \<noteq> None)"
| "cond_holds row parameter user group_ids CondMine = map_option (\<lambda>s. s = uuid_str user) (row AssigneeField)"
| "cond_holds row parameter user group_ids CondMyGroups = (if group_ids = [] then Some False
     else map_option (\<lambda>s. s \<in> set (map uuid_str group_ids)) (row GroupField))"
| "cond_holds row parameter user group_ids (CondEquals f p) =
     Option.bind (parameter p) (\<lambda>v. map_option (\<lambda>s. s \<in> set (texts_of v)) (row f))"
| "cond_holds row parameter user group_ids (CondIn f p) =
     Option.bind (parameter p) (\<lambda>v. map_option (\<lambda>s. s \<in> set (texts_of v)) (row f))"

text \<open>The \<open>n\<close>-th parameter of a compiled filter is bound to its value.\<close>

definition bound_to :: "pyval list \<Rightarrow> string \<Rightarrow> pyval option" where
  "bound_to ps name = map_of (map (\<lambda>(n, v). (param_name n, v)) (enumerate 0 ps)) name"

end
