(* ===== verification/Shelves.thy ===== *)
theory Shelves
  imports QueueFilter
begin

text \<open>
  The queue definitions an analyst may see and the personal lists of \<open>queues/service.py\<close>. Canned responses
  and saved filters have the same five operations over tables of the same shape, so these are written once
  over a description of the list. Every row stays with the analyst who made it.
\<close>

subsection \<open>Access\<close>

definition queue_caller :: "request_context \<Rightarrow> permission \<Rightarrow> app_error + uuid \<times> uuid" where
  "queue_caller ctx p = rbind (identity_or AuthorizationError ctx) (\<lambda>who.
     if is_allowed ctx p None then Inr who else Inl AuthorizationError)"

text \<open>Two effective versions of one queue are a configuration error of the whole answer.\<close>

definition effective_queues :: "instant \<Rightarrow> uuid \<Rightarrow> uuid option \<Rightarrow> queue_db \<Rightarrow> app_error + queue_definition list" where
  "effective_queues now tenant queue db = (let found = queue_definitions now tenant queue db in
     if distinct (map qd_id found) then Inr found
     else Inl (queue_error ''More than one effective published version exists for a queue.''))"

definition queue_visible :: "request_context \<Rightarrow> queue_definition \<Rightarrow> bool" where
  "queue_visible ctx q \<longleftrightarrow>
     (if qd_visibility q \<in> {''ALL_AGENTS'', ''PROJECT_AGENTS''} then True
      else if qd_visibility q = ''GROUP'' then (case qd_group q of None \<Rightarrow> False | Some g \<Rightarrow> g \<in> set (support_group_ids ctx))
      else False)"

definition the_queue :: "instant \<Rightarrow> request_context \<Rightarrow> uuid \<Rightarrow> uuid \<Rightarrow> queue_db \<Rightarrow> app_error + queue_definition" where
  "the_queue now ctx tenant queue db = rbind (effective_queues now tenant (Some queue) db) (\<lambda>found.
     case found of [q] \<Rightarrow> if queue_visible ctx q then Inr q else Inl NotFoundError | _ \<Rightarrow> Inl NotFoundError)"

definition group_permitted :: "request_context \<Rightarrow> uuid option \<Rightarrow> bool" where
  "group_permitted ctx target \<longleftrightarrow> (case target of None \<Rightarrow> True
     | Some g \<Rightarrow> is_allowed ctx TICKET_READ_ALL None \<or> g \<in> set (support_group_ids ctx))"

subsection \<open>Two lists\<close>

record 'a list_rules = "'a shelf" +
  lr_operation :: string
  lr_result :: string
  lr_values :: "string \<Rightarrow> 'a \<Rightarrow> pydict"
  lr_check :: "uuid \<Rightarrow> 'a \<Rightarrow> queue_db \<Rightarrow> app_error + unit"
  lr_taken :: string
  lr_lost :: string
  lr_stale :: string
  lr_one_stale :: string
  lr_twice :: app_error
  lr_incomplete :: app_error

definition canned_rules :: "string list_rules" where
  "canned_rules = \<lparr>sh_rows = canned, sh_store = canned_update, sh_broken = (\<lambda>_ _. None),
     lr_operation = ''ANALYST_CANNED_RESPONSE_CREATE'', lr_result = ''canned_response_id'',
     lr_values = (\<lambda>name body. [(''name'', PStr name), (''body'', PStr body)]), lr_check = (\<lambda>_ _ _. Inr ()),
     lr_taken = ''A personal canned response with this name already exists.'',
     lr_lost = ''The idempotent canned-response result is unavailable.'',
     lr_stale = ''The canned response changed. Refresh and try again.'',
     lr_one_stale = ''A canned response changed. Refresh and try again.'',
     lr_twice = InvalidFields ''Canned response order contains duplicates.''
       [(''items'', [''Include each canned response once.''])],
     lr_incomplete = InvalidFields ''Canned response order is incomplete.''
       [(''items'', [''Include every personal canned response once.''])]\<rparr>"

definition filter_values :: "string \<Rightarrow> filter_choice \<Rightarrow> pydict" where
  "filter_values name c = [(''name'', PStr name), (''queue_id'', uuid_val (fc_queue c)),
     (''status_code'', optional PStr (fc_status c)), (''priority_code'', optional PStr (fc_priority c)),
     (''search'', optional PStr (fc_search c)), (''assignment_group_id'', optional uuid_val (fc_group c)),
     (''assignee'', optional PStr (fc_assignee c))]"

text \<open>The foreign keys of a saved filter.\<close>

definition broken_reference :: "filter_choice \<Rightarrow> queue_db \<Rightarrow> string option" where
  "broken_reference c db =
     (if fc_queue c \<notin> qr_id ` set (queue_rows db) then Some ''analyst_saved_filter_queue_id_fkey''
      else if \<not> list_all (\<lambda>p. p \<in> set (priority_codes db)) (case fc_priority c of None \<Rightarrow> [] | Some p \<Rightarrow> [p])
      then Some ''analyst_saved_filter_priority_code_fkey''
      else if \<not> list_all (\<lambda>g. g \<in> g_id ` set (groups (queue_case db))) (case fc_group c of None \<Rightarrow> [] | Some g \<Rightarrow> [g])
      then Some ''analyst_saved_filter_assignment_group_id_fkey''
      else None)"

definition check_filter :: "queue_env \<Rightarrow> request_context \<Rightarrow> uuid \<Rightarrow> filter_choice \<Rightarrow> queue_db \<Rightarrow> app_error + unit" where
  "check_filter env ctx tenant c db = rbind (the_queue (env_now env) ctx tenant (fc_queue c) db) (\<lambda>_.
     require (group_permitted ctx (fc_group c)) AuthorizationError)"

definition filter_rules :: "queue_env \<Rightarrow> request_context \<Rightarrow> filter_choice list_rules" where
  "filter_rules env ctx = \<lparr>sh_rows = saved, sh_store = saved_update, sh_broken = broken_reference,
     lr_operation = ''ANALYST_SAVED_FILTER_CREATE'', lr_result = ''saved_filter_id'',
     lr_values = filter_values, lr_check = check_filter env ctx,
     lr_taken = ''A personal saved filter with this name already exists.'',
     lr_lost = ''The idempotent saved-filter result is unavailable.'',
     lr_stale = ''The saved filter changed. Refresh and try again.'',
     lr_one_stale = ''A saved filter changed. Refresh and try again.'',
     lr_twice = InvalidFields ''Saved filter order contains duplicates.''
       [(''items'', [''Include each saved filter once.''])],
     lr_incomplete = InvalidFields ''Saved filter order is incomplete.''
       [(''items'', [''Include every personal saved filter once.''])]\<rparr>"

subsection \<open>The operations of a list\<close>

definition on_list ::
  "request_context \<Rightarrow> app_error + 'v \<Rightarrow> (uuid \<Rightarrow> uuid \<Rightarrow> 'v \<Rightarrow> 'b queue_op) \<Rightarrow> queue_db \<Rightarrow> (app_error + 'b) \<times> queue_db" where
  "on_list ctx checked work db =
     (case rbind (queue_caller ctx TICKET_ANALYST_READ) (\<lambda>who. rbind checked (\<lambda>v. Inr (who, v))) of
        Inl e \<Rightarrow> (Inl e, db)
      | Inr ((tenant, user), v) \<Rightarrow> run_uow (bindS (work tenant user v) (\<lambda>x. ret (Inr x))) db)"

definition list_personal :: "('a, 'm) shelf_scheme \<Rightarrow> request_context \<Rightarrow> queue_db \<Rightarrow> app_error + 'a personal_row list" where
  "list_personal sh ctx db = rbind (queue_caller ctx TICKET_ANALYST_READ) (\<lambda>(tenant, user).
     Inr (personal_rows tenant user (sh_rows sh db)))"

definition get_personal :: "('a, 'm) shelf_scheme \<Rightarrow> request_context \<Rightarrow> uuid \<Rightarrow> queue_db \<Rightarrow> app_error + 'a personal_row" where
  "get_personal sh ctx i db = rbind (queue_caller ctx TICKET_ANALYST_READ) (\<lambda>(tenant, user).
     of_option NotFoundError (personal_row_with tenant user i (sh_rows sh db)))"

definition create_work ::
  "('a, 'm) list_rules_scheme \<Rightarrow> queue_env \<Rightarrow> string \<Rightarrow> uuid \<Rightarrow> uuid \<Rightarrow> string \<times> 'a \<Rightarrow> ('a personal_row \<times> bool) queue_op" where
  "create_work lr env key tenant user v = (case v of (name, data) \<Rightarrow>
     bindS (on_queue_case (claim_checked tenant user (lr_operation lr) key (env_digest env (lr_values lr name data)))) (\<lambda>idem.
     if idem_status idem = ''COMPLETED'' then
       bindS (liftS (of_option (UncaughtError ''TypeError'') (idem_result idem))) (\<lambda>i.
       bindS (getS (\<lambda>db. personal_row_with tenant user i (sh_rows lr db))) (\<lambda>found.
       bindS (liftS (of_option (ConflictError (lr_lost lr)) found)) (\<lambda>row. ret (row, True))))
     else
       bindS (getS (lr_check lr tenant data)) (\<lambda>checked.
       bindS (liftS checked) (\<lambda>_.
       bindS (getS (\<lambda>db. name_taken (env_lower env) tenant user name None (sh_rows lr db))) (\<lambda>taken.
       bindS (liftS (require (\<not> taken) (ConflictError (lr_taken lr)))) (\<lambda>_.
       bindS (insert_personal lr env tenant user name data) (\<lambda>made.
       bindS (liftS (of_option (ConflictError (lr_taken lr)) made)) (\<lambda>row.
       bindS (on_queue_case (complete_idempotency (idem_id idem) (pe_id row) [(lr_result lr, uuid_val (pe_id row))])) (\<lambda>_.
       ret (row, False))))))))))"

definition current_row ::
  "('a, 'm) list_rules_scheme \<Rightarrow> uuid \<Rightarrow> uuid \<Rightarrow> uuid \<Rightarrow> int \<Rightarrow> queue_db \<Rightarrow> app_error + 'a personal_row" where
  "current_row lr tenant user i version db =
     rbind (of_option NotFoundError (personal_row_with tenant user i (sh_rows lr db))) (\<lambda>row.
     if pe_version row \<noteq> version then Inl (ConcurrencyError (lr_stale lr)) else Inr row)"

definition update_work ::
  "('a, 'm) list_rules_scheme \<Rightarrow> queue_env \<Rightarrow> uuid \<Rightarrow> int \<Rightarrow> uuid \<Rightarrow> uuid \<Rightarrow> string \<times> 'a \<Rightarrow> 'a personal_row queue_op" where
  "update_work lr env i version tenant user v = (case v of (name, data) \<Rightarrow>
     bindS (getS (current_row lr tenant user i version)) (\<lambda>current.
     bindS (liftS current) (\<lambda>_.
     bindS (getS (lr_check lr tenant data)) (\<lambda>checked.
     bindS (liftS checked) (\<lambda>_.
     bindS (getS (\<lambda>db. name_taken (env_lower env) tenant user name (Some i) (sh_rows lr db))) (\<lambda>taken.
     bindS (liftS (require (\<not> taken) (ConflictError (lr_taken lr)))) (\<lambda>_.
     bindS (update_personal lr env tenant user i version name data) (\<lambda>updated.
     liftS (of_option (ConcurrencyError (lr_stale lr)) updated)))))))))"

text \<open>An order names every row of the caller once, at its current version.\<close>

definition order_current :: "('a, 'm) list_rules_scheme \<Rightarrow> (uuid \<times> int) list \<Rightarrow> 'a personal_row list \<Rightarrow> app_error + unit" where
  "order_current lr items current =
     (if set (map fst items) \<noteq> set (map pe_id current) then Inl (lr_incomplete lr)
      else if list_ex (\<lambda>(i, version). map_option pe_version (find (\<lambda>r. pe_id r = i) current) \<noteq> Some version) items
      then Inl (ConcurrencyError (lr_one_stale lr))
      else Inr ())"

definition placed :: "(uuid \<times> int) list \<Rightarrow> (uuid \<times> int \<times> int) list" where
  "placed items = map (\<lambda>(index, (i, version)). (i, version, int index * 10)) (enumerate 0 items)"

definition reorder_work ::
  "('a, 'm) list_rules_scheme \<Rightarrow> queue_env \<Rightarrow> uuid \<Rightarrow> uuid \<Rightarrow> (uuid \<times> int) list \<Rightarrow> 'a personal_row list queue_op" where
  "reorder_work lr env tenant user items =
     bindS (getS (\<lambda>db. order_current lr items (personal_rows tenant user (sh_rows lr db)))) (\<lambda>current.
     bindS (liftS current) (\<lambda>_.
     bindS (reorder_personal lr env tenant user (placed items)) (\<lambda>changed.
     bindS (liftS (require (changed = length items) (ConcurrencyError (lr_one_stale lr)))) (\<lambda>_.
     getS (\<lambda>db. personal_rows tenant user (sh_rows lr db))))))"

definition delete_work ::
  "('a, 'm) list_rules_scheme \<Rightarrow> uuid \<Rightarrow> int \<Rightarrow> uuid \<Rightarrow> uuid \<Rightarrow> unit \<Rightarrow> unit queue_op" where
  "delete_work lr i version tenant user _ =
     bindS (getS (current_row lr tenant user i version)) (\<lambda>current.
     bindS (liftS current) (\<lambda>_.
     bindS (delete_personal lr tenant user i version) (\<lambda>gone.
     liftS (require gone (ConcurrencyError (lr_stale lr))))))"

definition in_order :: "('a, 'm) list_rules_scheme \<Rightarrow> (uuid \<times> int) list \<Rightarrow> app_error + (uuid \<times> int) list" where
  "in_order lr items = (if distinct (map fst items) then Inr items else Inl (lr_twice lr))"

subsection \<open>Canned responses\<close>

definition canned_values :: "string \<Rightarrow> string \<Rightarrow> app_error + string \<times> string" where
  "canned_values name body = (let n = collapse name; b = py_strip body;
     errors = (if n = [] then [(''name'', [''Enter a name.''])] else [])
       @ (if b = [] then [(''body'', [''Enter response text.''])] else []) in
     if errors = [] then Inr (n, b) else Inl (InvalidFields ''Canned response fields are required.'' errors))"

definition canned_responses :: "request_context \<Rightarrow> queue_db \<Rightarrow> app_error + string personal_row list" where
  "canned_responses ctx db = list_personal canned_rules ctx db"

definition canned_response :: "request_context \<Rightarrow> uuid \<Rightarrow> queue_db \<Rightarrow> app_error + string personal_row" where
  "canned_response ctx i db = get_personal canned_rules ctx i db"

definition create_canned_response ::
  "queue_env \<Rightarrow> request_context \<Rightarrow> string \<Rightarrow> string \<Rightarrow> string \<Rightarrow> queue_db \<Rightarrow> (app_error + string personal_row \<times> bool) \<times> queue_db" where
  "create_canned_response env ctx name body key =
     on_list ctx (canned_values name body) (create_work canned_rules env key)"

definition update_canned_response ::
  "queue_env \<Rightarrow> request_context \<Rightarrow> uuid \<Rightarrow> string \<Rightarrow> string \<Rightarrow> int \<Rightarrow> queue_db \<Rightarrow> (app_error + string personal_row) \<times> queue_db" where
  "update_canned_response env ctx i name body version =
     on_list ctx (canned_values name body) (update_work canned_rules env i version)"

definition reorder_canned_responses ::
  "queue_env \<Rightarrow> request_context \<Rightarrow> (uuid \<times> int) list \<Rightarrow> queue_db \<Rightarrow> (app_error + string personal_row list) \<times> queue_db" where
  "reorder_canned_responses env ctx items =
     on_list ctx (in_order canned_rules items) (reorder_work canned_rules env)"

definition delete_canned_response ::
  "request_context \<Rightarrow> uuid \<Rightarrow> int \<Rightarrow> queue_db \<Rightarrow> (app_error + unit) \<times> queue_db" where
  "delete_canned_response ctx i version = on_list ctx (Inr ()) (delete_work canned_rules i version)"

subsection \<open>Saved filters\<close>

text \<open>Search text is collapsed and, when there is any, has at least two characters.\<close>

definition clean_search :: "string option \<Rightarrow> app_error + string option" where
  "clean_search search = (case search of None \<Rightarrow> Inr None
     | Some s \<Rightarrow> if s = [] \<or> length (collapse s) < 2
         then Inl (InvalidFields ''Search text is too short.'' [(''search'', [''Enter at least two non-whitespace characters.''])])
         else Inr (Some (collapse s)))"

definition saved_values :: "string \<Rightarrow> filter_choice \<Rightarrow> app_error + string \<times> filter_choice" where
  "saved_values name c = (let n = collapse name in
     if n = [] then Inl (InvalidFields ''Saved filter name is required.'' [(''name'', [''Enter a name.''])])
     else rbind (clean_search (fc_search c)) (\<lambda>search. Inr (n, c\<lparr>fc_search := search\<rparr>)))"

definition saved_filters :: "request_context \<Rightarrow> queue_db \<Rightarrow> app_error + filter_choice personal_row list" where
  "saved_filters ctx db = rbind (queue_caller ctx TICKET_ANALYST_READ) (\<lambda>(tenant, user). Inr (personal_rows tenant user (saved db)))"

definition saved_filter :: "request_context \<Rightarrow> uuid \<Rightarrow> queue_db \<Rightarrow> app_error + filter_choice personal_row" where
  "saved_filter ctx i db = rbind (queue_caller ctx TICKET_ANALYST_READ) (\<lambda>(tenant, user).
     of_option NotFoundError (personal_row_with tenant user i (saved db)))"

definition create_saved_filter ::
  "queue_env \<Rightarrow> request_context \<Rightarrow> string \<Rightarrow> filter_choice \<Rightarrow> string \<Rightarrow> queue_db
     \<Rightarrow> (app_error + filter_choice personal_row \<times> bool) \<times> queue_db" where
  "create_saved_filter env ctx name c key =
     on_list ctx (saved_values name c) (create_work (filter_rules env ctx) env key)"

definition update_saved_filter ::
  "queue_env \<Rightarrow> request_context \<Rightarrow> uuid \<Rightarrow> string \<Rightarrow> filter_choice \<Rightarrow> int \<Rightarrow> queue_db
     \<Rightarrow> (app_error + filter_choice personal_row) \<times> queue_db" where
  "update_saved_filter env ctx i name c version =
     on_list ctx (saved_values name c) (update_work (filter_rules env ctx) env i version)"

definition reorder_saved_filters ::
  "queue_env \<Rightarrow> request_context \<Rightarrow> (uuid \<times> int) list \<Rightarrow> queue_db \<Rightarrow> (app_error + filter_choice personal_row list) \<times> queue_db" where
  "reorder_saved_filters env ctx items =
     on_list ctx (in_order (filter_rules env ctx) items) (reorder_work (filter_rules env ctx) env)"

definition delete_saved_filter ::
  "queue_env \<Rightarrow> request_context \<Rightarrow> uuid \<Rightarrow> int \<Rightarrow> queue_db \<Rightarrow> (app_error + unit) \<times> queue_db" where
  "delete_saved_filter env ctx i version = on_list ctx (Inr ()) (delete_work (filter_rules env ctx) i version)"

end
