(* ===== verification/QueueCursor.thy ===== *)
theory QueueCursor
  imports Cursors PyText
begin

text \<open>
  The cursors of \<open>queues/service.py\<close>: a JSON object with a position and the digest of the query it belongs to,
  in the encoding of the other cursors, and \<open>json.loads\<close> as far as reading such a cursor needs it. Texts
  with characters above 255 and encodings other than UTF-8 are refused.
\<close>

subsection \<open>Reading JSON\<close>

text \<open>Numbers, booleans and the contents of lists are never looked at.\<close>

datatype json = JText string | JNull | JScalar | JList | JObject "(string \<times> json) list"

abbreviation quote_mark :: char where "quote_mark \<equiv> CHR 0x22"
abbreviation backslash :: char where "backslash \<equiv> CHR 0x5C"

definition skip_ws :: "string \<Rightarrow> string" where
  "skip_ws s = dropWhile (\<lambda>c. c \<in> {CHR '' '', CHR 0x09, CHR 0x0A, CHR 0x0D}) s"

definition escape_char :: "char \<Rightarrow> char option" where
  "escape_char c = map_of [(quote_mark, quote_mark), (backslash, backslash), (CHR ''/'', CHR ''/''), (CHR ''b'', CHR 0x08),
     (CHR ''f'', CHR 0x0C), (CHR ''n'', CHR 0x0A), (CHR ''r'', CHR 0x0D), (CHR ''t'', CHR 0x09)] c"

definition unicode_char :: "string \<Rightarrow> char option" where
  "unicode_char h = (case map_result (\<lambda>c. case hex_value c of None \<Rightarrow> Inl () | Some v \<Rightarrow> Inr v) h of
       Inr [a, b, c, d] \<Rightarrow> (let n = ((a * 16 + b) * 16 + c) * 16 + d in if n < 256 then Some (char_of (nat n)) else None)
     | _ \<Rightarrow> None)"

text \<open>A string after its opening quote, and what follows it.\<close>

fun read_json_string :: "string \<Rightarrow> (string \<times> string) option" where
  "read_json_string [] = None"
| "read_json_string (c # s) =
     (if c = quote_mark then Some ([], s)
      else if c = backslash then
        (case s of
           [] \<Rightarrow> None
         | e # s1 \<Rightarrow>
             if e = CHR ''u'' then
               (case s1 of
                  g # h # k # l # s2 \<Rightarrow>
                    (case unicode_char [g, h, k, l] of None \<Rightarrow> None
                     | Some x \<Rightarrow> map_option (apfst ((#) x)) (read_json_string s2))
                | _ \<Rightarrow> None)
             else (case escape_char e of None \<Rightarrow> None
               | Some x \<Rightarrow> map_option (apfst ((#) x)) (read_json_string s1)))
      else if byte c < 32 then None
      else map_option (apfst ((#) c)) (read_json_string s))"

definition skip_digits :: "string \<Rightarrow> string" where
  "skip_digits s = dropWhile is_digit s"

definition starts_digit :: "string \<Rightarrow> bool" where
  "starts_digit s \<longleftrightarrow> (case s of [] \<Rightarrow> False | c # _ \<Rightarrow> is_digit c)"

definition skip_fraction :: "string \<Rightarrow> string" where
  "skip_fraction s = (case s of c # r \<Rightarrow> if c = CHR ''.'' \<and> starts_digit r then skip_digits r else s | [] \<Rightarrow> s)"

definition skip_exponent :: "string \<Rightarrow> string" where
  "skip_exponent s = (case s of
       c # r \<Rightarrow> (let r1 = (case r of d # r' \<Rightarrow> if d = CHR ''+'' \<or> d = CHR ''-'' then r' else r | [] \<Rightarrow> r) in
         if (c = CHR ''e'' \<or> c = CHR ''E'') \<and> starts_digit r1 then skip_digits r1 else s)
     | [] \<Rightarrow> s)"

definition skip_number :: "string \<Rightarrow> string option" where
  "skip_number s = (let r = (case s of c # r \<Rightarrow> if c = CHR ''-'' then r else s | [] \<Rightarrow> s) in
     case r of
       [] \<Rightarrow> None
     | c # r1 \<Rightarrow> if \<not> is_digit c then None
         else Some (skip_exponent (skip_fraction (if c = CHR ''0'' then r1 else skip_digits r1))))"

definition skip_word :: "string \<Rightarrow> string \<Rightarrow> string option" where
  "skip_word w s = (if take (length w) s = w then Some (drop (length w) s) else None)"

definition read_scalar :: "string \<Rightarrow> (json \<times> string) option" where
  "read_scalar s = (case skip_word ''null'' s of Some r \<Rightarrow> Some (JNull, r)
     | None \<Rightarrow> (case List.map_filter (\<lambda>w. skip_word w s) [''true'', ''false'', ''NaN'', ''Infinity'', ''-Infinity''] of
         r # _ \<Rightarrow> Some (JScalar, r) | [] \<Rightarrow> map_option (Pair JScalar) (skip_number s)))"

text \<open>A value, the members of an object after its brace, the elements of a list after its bracket.\<close>

fun read_json :: "nat \<Rightarrow> string \<Rightarrow> (json \<times> string) option"
  and read_members :: "nat \<Rightarrow> string \<Rightarrow> ((string \<times> json) list \<times> string) option"
  and read_elements :: "nat \<Rightarrow> string \<Rightarrow> string option" where
  "read_json 0 s = None"
| "read_json (Suc n) s = (case s of
       [] \<Rightarrow> None
     | c # r \<Rightarrow>
         if c = quote_mark then map_option (apfst JText) (read_json_string r)
         else if c = CHR ''{'' then
           (case skip_ws r of
              [] \<Rightarrow> None
            | d # r1 \<Rightarrow> if d = CHR ''}'' then Some (JObject [], r1)
                else map_option (apfst JObject) (read_members n (d # r1)))
         else if c = CHR ''['' then
           (case skip_ws r of
              [] \<Rightarrow> None
            | d # r1 \<Rightarrow> if d = CHR '']'' then Some (JList, r1) else map_option (Pair JList) (read_elements n (d # r1)))
         else read_scalar s)"
| "read_members 0 s = None"
| "read_members (Suc n) s = (case s of
       [] \<Rightarrow> None
     | c # r \<Rightarrow> if c \<noteq> quote_mark then None else
         Option.bind (read_json_string r) (\<lambda>(k, r1). case skip_ws r1 of
             [] \<Rightarrow> None
           | d # r2 \<Rightarrow> if d \<noteq> CHR '':'' then None else
               Option.bind (read_json n (skip_ws r2)) (\<lambda>(v, r3). case skip_ws r3 of
                   [] \<Rightarrow> None
                 | e # r4 \<Rightarrow>
                     if e = CHR '','' then map_option (apfst ((#) (k, v))) (read_members n (skip_ws r4))
                     else if e = CHR ''}'' then Some ([(k, v)], r4) else None)))"
| "read_elements 0 s = None"
| "read_elements (Suc n) s = Option.bind (read_json n s) (\<lambda>(_, r). case skip_ws r of
       [] \<Rightarrow> None
     | e # r1 \<Rightarrow> if e = CHR '','' then read_elements n (skip_ws r1) else if e = CHR '']'' then Some r1 else None)"

text \<open>Every level of recursion has read a character: the length of the text, and one, bound the depth.\<close>

definition json_loads :: "string \<Rightarrow> json option" where
  "json_loads s = Option.bind (read_json (2 * length s + 2) (skip_ws s)) (\<lambda>(v, r). if skip_ws r = [] then Some v else None)"

subsection \<open>Cursors\<close>

definition member :: "(string \<times> json) list \<Rightarrow> string \<Rightarrow> json option" where
  "member d k = map_of (rev d) k"

definition queue_payload :: "string \<Rightarrow> instant \<Rightarrow> uuid \<Rightarrow> string" where
  "queue_payload scope t i = ''{'' @ py_join '','' (map (\<lambda>(k, v). json_string k @ '':'' @ json_string v)
     [(''created_at'', stamp_str (utc_stamp t)), (''id'', uuid_str i), (''scope'', scope)]) @ ''}''"

definition encode_queue_cursor :: "string \<Rightarrow> instant \<Rightarrow> uuid \<Rightarrow> string" where
  "encode_queue_cursor scope t i = b64_encode (utf8 (queue_payload scope t i))"

text \<open>
  \<open>UUID\<close> raises \<open>AttributeError\<close> on what is neither a text nor \<open>None\<close>, which the handler does not catch;
  every other failure is reported as an invalid cursor, here \<open>Inl None\<close>.
\<close>

definition decode_queue_cursor :: "string \<Rightarrow> string \<Rightarrow> string option + stamp \<times> uuid" where
  "decode_queue_cursor scope value = (case Option.bind (decoded_text value) json_loads of
       Some (JObject d) \<Rightarrow>
         if member d ''scope'' \<noteq> Some (JText scope) then Inl None
         else (case member d ''created_at'' of
           Some (JText s) \<Rightarrow>
             (case read_stamp s of
                None \<Rightarrow> Inl None
              | Some st \<Rightarrow>
                  (case member d ''id'' of
                     None \<Rightarrow> Inl None
                   | Some JNull \<Rightarrow> Inl None
                   | Some (JText u) \<Rightarrow> (case uuid_of_text u of None \<Rightarrow> Inl None | Some i \<Rightarrow> Inr (st, i))
                   | Some _ \<Rightarrow> Inl (Some ''AttributeError'')))
         | _ \<Rightarrow> Inl None)
     | _ \<Rightarrow> Inl None)"

subsection \<open>Round trip\<close>

lemma char_codes: "char_of (92 :: nat) = backslash" "char_of (34 :: nat) = quote_mark"
  "char_of (8 :: nat) = CHR 0x08" "char_of (9 :: nat) = CHR 0x09" "char_of (10 :: nat) = CHR 0x0A"
  "char_of (12 :: nat) = CHR 0x0C" "char_of (13 :: nat) = CHR 0x0D"
  by code_simp+

lemma numeral_4_eq_4: "(4 :: nat) = Suc (Suc (Suc (Suc 0)))"
  by simp

lemma hex_four: "hex_fixed 4 n = [hex_digit (n div 4096), hex_digit (n div 256), hex_digit (n div 16), hex_digit n]"
proof -
  have "n div 16 div 16 = n div 256" "n div 16 div 16 div 16 = n div 4096" by (simp_all add: div_mult2_eq [symmetric])
  then have "hex_fixed (Suc (Suc (Suc (Suc 0)))) n
    = [hex_digit (n div 4096), hex_digit (n div 256), hex_digit (n div 16), hex_digit n]" by simp
  then show ?thesis by (simp only: numeral_4_eq_4)
qed

lemma unicode_char_hex:
  assumes "n < 256"
  shows "unicode_char [hex_digit (n div 4096), hex_digit (n div 256), hex_digit (n div 16), hex_digit n] = Some (char_of n)"
proof -
  have "n div 4096 = 0" "n div 256 = 0" "n div 16 mod 16 = n div 16" using assms by simp_all
  moreover have "int (n div 16) * 16 + int (n mod 16) = int n"
    using div_mult_mod_eq [of n 16] by (metis of_nat_add of_nat_mult of_nat_numeral)
  ultimately show ?thesis using assms by (simp add: unicode_char_def Let_def)
qed

lemma json_char_cases:
  obtains (named) e where "json_char c = [backslash, e]" "e \<noteq> CHR ''u''" "escape_char e = Some c"
    | (coded) "json_char c = backslash # CHR ''u'' # hex_fixed 4 (byte c)"
    | (plain) "json_char c = [c]" "c \<noteq> quote_mark" "c \<noteq> backslash" "32 \<le> byte c" "byte c < 127"
proof -
  define n where "n = byte c"
  have c: "c = char_of n" by (simp add: n_def)
  consider "n = 34" | "n = 92" | "n = 8" | "n = 9" | "n = 10" | "n = 12" | "n = 13"
    | "n \<notin> {34, 92, 8, 9, 10, 12, 13}" "n < 32 \<or> 126 < n" | "n \<notin> {34, 92}" "32 \<le> n" "n \<le> 126" by force
  then show thesis
  proof cases
    case 1
    then have "c = quote_mark" using c char_codes by simp
    then show thesis by (intro named [of quote_mark]) (simp_all add: json_char_def char_codes escape_char_def)
  next
    case 2
    then have "c = backslash" using c char_codes by simp
    then show thesis by (intro named [of backslash]) (simp_all add: json_char_def char_codes escape_char_def)
  next
    case 3
    then have "c = CHR 0x08" using c char_codes by simp
    then show thesis by (intro named [of "CHR ''b''"]) (simp_all add: json_char_def char_codes escape_char_def)
  next
    case 4
    then have "c = CHR 0x09" using c char_codes by simp
    then show thesis by (intro named [of "CHR ''t''"]) (simp_all add: json_char_def char_codes escape_char_def)
  next
    case 5
    then have "c = CHR 0x0A" using c char_codes by simp
    then show thesis by (intro named [of "CHR ''n''"]) (simp_all add: json_char_def char_codes escape_char_def)
  next
    case 6
    then have "c = CHR 0x0C" using c char_codes by simp
    then show thesis by (intro named [of "CHR ''f''"]) (simp_all add: json_char_def char_codes escape_char_def)
  next
    case 7
    then have "c = CHR 0x0D" using c char_codes by simp
    then show thesis by (intro named [of "CHR ''r''"]) (simp_all add: json_char_def char_codes escape_char_def)
  next
    case 8
    then have "json_char c = char_of (92 :: nat) # ''u'' @ hex_fixed 4 n"
      unfolding json_char_def n_def [symmetric] Let_def by auto
    then show thesis by (intro coded) (simp add: char_codes n_def)
  next
    case 9
    then have "json_char c = [c]" "c \<noteq> quote_mark" "c \<noteq> backslash"
      unfolding json_char_def n_def [symmetric] Let_def by (auto simp: n_def)
    with 9 show thesis by (intro plain) (simp_all add: n_def)
  qed
qed

lemma read_json_char:
  "read_json_string (json_char c @ s) = map_option (apfst ((#) c)) (read_json_string s)"
proof (cases c rule: json_char_cases)
  case (named e)
  then show ?thesis by simp
next
  case coded
  have "byte c < 256" by simp
  from unicode_char_hex [OF this] coded show ?thesis by (simp add: hex_four)
next
  case plain
  then show ?thesis by simp
qed

lemma read_json_text: "read_json_string (concat (map json_char s) @ quote_mark # r) = Some (s, r)"
  by (induction s) (simp_all add: read_json_char)

lemma json_string_read: "json_string s = quote_mark # concat (map json_char s) @ [quote_mark]"
  by (simp add: json_string_def char_codes)

lemma json_char_ascii: "ascii (json_char c)"
proof (cases c rule: json_char_cases)
  case (named e)
  then show ?thesis by (auto simp: escape_char_def split: if_splits)
qed (simp_all)

lemma json_string_ascii: "ascii (json_string s)"
  by (induction s) (simp_all add: json_string_read json_char_ascii)

lemma skip_ws_json [simp]: "skip_ws (json_string s @ r) = json_string s @ r"
  by (simp add: json_string_read skip_ws_def)

lemma skip_ws_sign [simp]: "c \<in> set ''{}:,'' \<Longrightarrow> skip_ws (c # r) = c # r"
  by (auto simp: skip_ws_def)

lemma read_json_json [simp]: "read_json (Suc n) (json_string s @ r) = Some (JText s, r)"
  by (simp add: json_string_read read_json_text)

lemma read_member:
  "read_members (Suc (Suc n)) (json_string k @ CHR '':'' # json_string v @ CHR '','' # r)
     = map_option (apfst ((#) (k, JText v))) (read_members (Suc n) (skip_ws r))"
  "read_members (Suc (Suc n)) (json_string k @ CHR '':'' # json_string v @ CHR ''}'' # r) = Some ([(k, JText v)], r)"
  by (simp_all add: json_string_read [of k] read_json_text del: read_json.simps)

lemma loads_payload: "json_loads (queue_payload scope t i) = Some (JObject [(''created_at'', JText (stamp_str (utc_stamp t))),
  (''id'', JText (uuid_str i)), (''scope'', JText scope)])"
proof -
  obtain m where m: "2 * length (queue_payload scope t i) + 2 = Suc (Suc (Suc (Suc (Suc (Suc m)))))"
    by (intro that [of "2 * length (queue_payload scope t i) - 4"]) (simp add: queue_payload_def json_string_def)
  have "queue_payload scope t i = CHR ''{'' # json_string ''created_at'' @ CHR '':'' # json_string (stamp_str (utc_stamp t)) @
    CHR '','' # json_string ''id'' @ CHR '':'' # json_string (uuid_str i) @ CHR '','' # json_string ''scope'' @
    CHR '':'' # json_string scope @ CHR ''}'' # []"
    by (simp add: queue_payload_def)
  moreover have "read_json (Suc n) (CHR ''{'' # json_string k @ r) = map_option (apfst JObject) (read_members n (json_string k @ r))" for n k r
    by (simp add: json_string_read skip_ws_def)
  ultimately have "read_json (2 * length (queue_payload scope t i) + 2) (queue_payload scope t i)
    = Some (JObject [(''created_at'', JText (stamp_str (utc_stamp t))), (''id'', JText (uuid_str i)), (''scope'', JText scope)], [])"
    unfolding m by (simp add: read_member del: read_members.simps read_json.simps)
  moreover have "skip_ws (queue_payload scope t i) = queue_payload scope t i" by (simp add: queue_payload_def skip_ws_def)
  ultimately show ?thesis by (simp add: json_loads_def skip_ws_def)
qed

lemma queue_payload_ascii: "ascii (queue_payload scope t i)"
  by (simp add: queue_payload_def json_string_ascii)

lemma decode_encode_queue_cursor:
  assumes "datetime_range t"
  shows "decode_queue_cursor scope (encode_queue_cursor scope t i) = Inr (utc_stamp t, i)"
proof -
  have "- 719162 * 86400000000 \<le> t" using assms by (simp add: datetime_range_def)
  from utc_stamp(2) [OF this datetime_year [OF assms]]
  have "read_stamp (stamp_str (utc_stamp t)) = Some (utc_stamp t)" .
  then show ?thesis
    by (simp add: decode_queue_cursor_def encode_queue_cursor_def decoded_encoded queue_payload_ascii loads_payload member_def)
qed

lemma other_scope_refused:
  "scope' \<noteq> scope \<Longrightarrow> decode_queue_cursor scope' (encode_queue_cursor scope t i) = Inl None"
  by (simp add: decode_queue_cursor_def encode_queue_cursor_def decoded_encoded queue_payload_ascii loads_payload member_def)

end
