(* ===== verification/Queues.thy ===== *)
theory Queues
  imports Shelves QueueCursor
begin

text \<open>
  \<open>queues/service.py\<close>: the queues of an analyst, the pages of a queue's tickets, the activity timelines of
  employees and analysts, and the comments of analysts.
\<close>

subsection \<open>Queues\<close>

definition sort_supported :: "pyval \<Rightarrow> bool" where
  "sort_supported v \<longleftrightarrow> (case v of PList [PDict d] \<Rightarrow> length d = 2
     \<and> dget d ''field'' = Some (PStr ''created_at'') \<and> dget d ''direction'' = Some (PStr ''DESC'') | _ \<Rightarrow> False)"

definition validate_sort :: "queue_definition \<Rightarrow> app_error + unit" where
  "validate_sort q = require (sort_supported (qd_sort q))
     (queue_error ''Published queues must use the supported stable created-at descending sort.'')"

definition allowed_columns :: "string list" where
  "allowed_columns = [''ticket_key'', ''summary'', ''priority'', ''status'', ''reporter'', ''assignment_group'',
     ''assignee'', ''created_at'', ''updated_at'', ''first_response_sla_target'', ''resolution_sla_target'']"

text \<open>A queue as it is answered: its definition, whose sort has been checked, and its columns.\<close>

definition queue_response :: "queue_definition \<Rightarrow> app_error + queue_definition \<times> string list" where
  "queue_response q = (case qd_columns q of
       PList xs \<Rightarrow>
         if \<not> list_all is_text xs then Inl (queue_error ''A published queue contains invalid columns.'')
         else let columns = concat (map texts_of xs) in
           if xs = [] \<or> 20 < length xs \<or> \<not> list_all (\<lambda>c. c \<in> set allowed_columns) columns
           then Inl (queue_error ''A published queue contains unsupported columns.'')
           else (case qd_sort q of
               PList ss \<Rightarrow> if list_all (\<lambda>s. case s of PDict _ \<Rightarrow> True | _ \<Rightarrow> False) ss then Inr (q, columns)
                 else Inl (queue_error ''A published queue contains an invalid sort.'')
             | _ \<Rightarrow> Inl (queue_error ''A published queue contains an invalid sort.''))
     | _ \<Rightarrow> Inl (queue_error ''A published queue contains invalid columns.''))"

definition list_queues ::
  "queue_env \<Rightarrow> request_context \<Rightarrow> queue_db \<Rightarrow> app_error + (queue_definition \<times> string list) list" where
  "list_queues env ctx db = rbind (queue_caller ctx TICKET_ANALYST_READ) (\<lambda>(tenant, _).
     rbind (effective_queues (env_now env) tenant None db) (\<lambda>found.
     map_result (\<lambda>q. rbind (validate_sort q) (\<lambda>_. rbind (compile_filter 0 (qd_filter q) []) (\<lambda>_. queue_response q)))
       (filter (queue_visible ctx) found)))"

subsection \<open>The tickets of a queue\<close>

record queue_ticket =
  qt_row :: ticket_row
  qt_project_code :: string
  qt_status :: "string \<times> string"
  qt_reporter :: string
  qt_group_name :: "string option"
  qt_assignee_name :: "string option"
  qt_first_response :: "instant option"
  qt_resolution :: "instant option"

definition name_within :: "uuid \<Rightarrow> uuid \<Rightarrow> queue_db \<Rightarrow> string option" where
  "name_within tenant i db = map_option u_name (find (\<lambda>u. u_id u = i \<and> u_tenant u = tenant) (users (queue_case db)))"

text \<open>The earliest target of a metric; a row without a target comes last.\<close>

definition first_target :: "string \<Rightarrow> uuid \<Rightarrow> queue_db \<Rightarrow> instant option" where
  "first_target metric ticket db = (case sort_key id (List.map_filter (\<lambda>(i, m, target).
     if i = ticket \<and> m = metric then target else None) (sla_targets db)) of [] \<Rightarrow> None | t # _ \<Rightarrow> Some t)"

definition queue_ticket_of :: "queue_db \<Rightarrow> ticket_row \<Rightarrow> queue_ticket option" where
  "queue_ticket_of db t =
     (case (find (\<lambda>p. pj_id p = t_project t) (cat_projects (desk_catalogue (queue_desk db))),
           find (\<lambda>s. st_id s = t_status t) (statuses (queue_case db)), name_within (t_tenant t) (t_reporter t) db) of
        (Some p, Some s, Some reporter) \<Rightarrow> Some \<lparr>qt_row = t, qt_project_code = pj_key p,
          qt_status = (st_code s, st_name s), qt_reporter = reporter,
          qt_group_name = map_option g_name (Option.bind (t_group t)
            (\<lambda>i. find (\<lambda>g. g_id g = i \<and> g_tenant g = t_tenant t) (groups (queue_case db)))),
          qt_assignee_name = Option.bind (t_assignee t) (\<lambda>u. name_within (t_tenant t) u db),
          qt_first_response = first_target ''TIME_TO_FIRST_RESPONSE'' (t_id t) db,
          qt_resolution = first_target ''TIME_TO_RESOLUTION'' (t_id t) db\<rparr>
      | _ \<Rightarrow> None)"

definition queue_columns :: "queue_ticket \<Rightarrow> queue_field \<Rightarrow> string option" where
  "queue_columns k f = (case f of
       GroupField \<Rightarrow> map_option uuid_str (t_group (qt_row k)) | AssigneeField \<Rightarrow> map_option uuid_str (t_assignee (qt_row k))
     | PriorityField \<Rightarrow> Some (t_priority_code (qt_row k)) | StatusField \<Rightarrow> Some (fst (qt_status k))
     | ProjectField \<Rightarrow> Some (uuid_str (t_project (qt_row k))))"

text \<open>The conditions of the caller; a column that is \<open>NULL\<close> is equal to nothing.\<close>

definition matches_choice :: "queue_env \<Rightarrow> uuid \<Rightarrow> filter_choice \<Rightarrow> queue_ticket \<Rightarrow> bool" where
  "matches_choice env user c k \<longleftrightarrow>
     (case fc_status c of None \<Rightarrow> True | Some s \<Rightarrow> fst (qt_status k) = s)
     \<and> (case fc_priority c of None \<Rightarrow> True | Some p \<Rightarrow> t_priority_code (qt_row k) = p)
     \<and> (case fc_group c of None \<Rightarrow> True | Some g \<Rightarrow> t_group (qt_row k) = Some g)
     \<and> (case fc_search c of None \<Rightarrow> True
        | Some s \<Rightarrow> env_matches env s (t_key (qt_row k) @ '' '' @ t_summary (qt_row k)))
     \<and> (if fc_assignee c = Some ''me'' then t_assignee (qt_row k) = Some user
        else if fc_assignee c = Some ''unassigned'' then t_assignee (qt_row k) = None else True)"

definition queue_rows_of ::
  "queue_env \<Rightarrow> request_context \<Rightarrow> uuid \<Rightarrow> queue_definition \<Rightarrow> queue_cond \<Rightarrow> pyval list \<Rightarrow> filter_choice \<Rightarrow> queue_db
     \<Rightarrow> queue_ticket list" where
  "queue_rows_of env ctx user q cond ps c db =
     filter (\<lambda>k. cond_holds (queue_columns k) (bound_to ps) user (support_group_ids ctx) cond = Some True
         \<and> matches_choice env user c k)
       (List.map_filter (queue_ticket_of db)
         (filter (\<lambda>t. in_reach (qd_tenant q) (support_group_ids ctx) (reads_all ctx) t \<and> t_project t = qd_project q)
           (tickets (queue_case db))))"

definition queue_key :: "queue_ticket \<Rightarrow> instant \<times> uuid" where
  "queue_key k = (t_created (qt_row k), t_id (qt_row k))"

text \<open>A cursor belongs to the queue and the conditions it was given out for.\<close>

definition queue_scope :: "queue_env \<Rightarrow> filter_choice \<Rightarrow> string" where
  "queue_scope env c = env_digest env [(''queue_id'', uuid_val (fc_queue c)), (''status'', optional PStr (fc_status c)),
     (''priority'', optional PStr (fc_priority c)), (''search'', optional PStr (fc_search c)),
     (''assignment_group_id'', optional uuid_val (fc_group c)), (''assignee'', optional PStr (fc_assignee c))]"

definition queue_position ::
  "queue_env \<Rightarrow> string \<Rightarrow> string option \<Rightarrow> app_error + (instant \<times> uuid) option" where
  "queue_position env scope cursor = (case cursor of
       None \<Rightarrow> Inr None
     | Some s \<Rightarrow> (case decode_queue_cursor scope s of
         Inr (st, i) \<Rightarrow> Inr (Some (if stamp_offset st = None then env_local env st else instant_of st, i))
       | Inl None \<Rightarrow> Inl (InvalidFields ''Pagination cursor is invalid for this queue query.''
           [(''cursor'', [''Invalid or mismatched cursor.''])])
       | Inl (Some escaping) \<Rightarrow> Inl (UncaughtError escaping)))"

definition queue_tickets ::
  "queue_env \<Rightarrow> request_context \<Rightarrow> filter_choice \<Rightarrow> nat \<Rightarrow> string option \<Rightarrow> queue_db
     \<Rightarrow> app_error + queue_ticket list \<times> string option" where
  "queue_tickets env ctx choice limit cursor db =
     rbind (queue_caller ctx TICKET_ANALYST_READ) (\<lambda>(tenant, user).
     rbind (clean_search (fc_search choice)) (\<lambda>search.
     rbind (require (group_permitted ctx (fc_group choice)) AuthorizationError) (\<lambda>_.
     let c = choice\<lparr>fc_search := search\<rparr>; scope = queue_scope env c in
     rbind (queue_position env scope cursor) (\<lambda>position.
     rbind (the_queue (env_now env) ctx tenant (fc_queue c) db) (\<lambda>q.
     rbind (validate_sort q) (\<lambda>_.
     rbind (compile_filter 0 (qd_filter q) []) (\<lambda>(cond, ps).
     if fc_assignee c \<notin> {None, Some ''me'', Some ''unassigned''}
     then Inl (InvalidFields ''Assignee filter is invalid.'' [(''assignee'', [''Use 'me' or 'unassigned'.''])])
     else Inr (paged (\<lambda>k. encode_queue_cursor scope (fst (queue_key k)) (snd (queue_key k))) limit
       (newest queue_key (limit + 1) position (queue_rows_of env ctx user q cond ps c db))))))))))"

definition saved_filter_tickets ::
  "queue_env \<Rightarrow> request_context \<Rightarrow> uuid \<Rightarrow> nat \<Rightarrow> string option \<Rightarrow> queue_db
     \<Rightarrow> app_error + queue_ticket list \<times> string option" where
  "saved_filter_tickets env ctx i limit cursor db =
     rbind (saved_filter ctx i db) (\<lambda>row. queue_tickets env ctx (pe_data row) limit cursor db)"

subsection \<open>Timelines\<close>

record activity =
  ay_id :: string
  ay_type :: string
  ay_class :: string
  ay_actor :: "uuid option"
  ay_actor_name :: "string option"
  ay_body :: "string option"
  ay_details :: pydict
  ay_created :: instant

definition event_class :: "ticket_event_row \<Rightarrow> string" where
  "event_class e = (if ev_type e \<in> {''TICKET_CREATED'', ''STATUS_CHANGED''} then ''PUBLIC''
     else if ev_actor_type e = ''SYSTEM'' then ''SYSTEM'' else ''INTERNAL'')"

text \<open>The identity column numbers the events from one.\<close>

definition event_item :: "queue_db \<Rightarrow> nat \<times> ticket_event_row \<Rightarrow> activity" where
  "event_item db n_e = (case n_e of (n, e) \<Rightarrow> \<lparr>ay_id = ''event:'' @ nat_str (n + 1), ay_type = ev_type e, ay_class = event_class e,
     ay_actor = Some (ev_actor e), ay_actor_name = name_within (ev_tenant e) (ev_actor e) db, ay_body = None,
     ay_details = ev_data e, ay_created = event_times db n\<rparr>)"

definition comment_item :: "uuid \<Rightarrow> queue_db \<Rightarrow> comment_row \<Rightarrow> activity" where
  "comment_item tenant db c = \<lparr>ay_id = ''comment:'' @ uuid_str (c_id c), ay_type = ''COMMENT'', ay_class = c_visibility c,
     ay_actor = Some (c_author c), ay_actor_name = name_within tenant (c_author c) db, ay_body = Some (c_body c),
     ay_details = [(''source_channel'', PStr (c_channel c))], ay_created = c_created c\<rparr>"

definition event_items :: "uuid \<Rightarrow> queue_db \<Rightarrow> ((instant \<times> nat \<times> string) \<times> activity) list" where
  "event_items ticket db = map (\<lambda>(n, e). let a = event_item db (n, e) in ((ay_created a, n + 1, ay_id a), a))
     (filter (\<lambda>(_, e). ev_ticket e = ticket \<and> ev_type e \<notin> {''PUBLIC_COMMENT_ADDED'', ''INTERNAL_COMMENT_ADDED''})
       (enumerate 0 (ticket_events (queue_case db))))"

definition comment_items :: "uuid \<Rightarrow> queue_db \<Rightarrow> ((instant \<times> nat \<times> string) \<times> activity) list" where
  "comment_items ticket db = (case find (\<lambda>t. t_id t = ticket) (tickets (queue_case db)) of
       None \<Rightarrow> []
     | Some t \<Rightarrow> map (\<lambda>c. let a = comment_item (t_tenant t) db c in ((ay_created a, 0, ay_id a), a))
         (filter (\<lambda>c. c_ticket c = ticket \<and> c_visibility c \<in> {''PUBLIC'', ''INTERNAL''}) (comments (queue_case db))))"

definition timeline :: "uuid \<Rightarrow> bool \<Rightarrow> queue_db \<Rightarrow> activity list" where
  "timeline ticket include_internal db = take 500 (map snd (sort_key fst
     (filter (\<lambda>(_, a). include_internal \<or> ay_class a = ''PUBLIC'') (event_items ticket db @ comment_items ticket db))))"

definition customer_timeline :: "request_context \<Rightarrow> string \<Rightarrow> queue_db \<Rightarrow> app_error + activity list" where
  "customer_timeline ctx key db = rbind (queue_caller ctx TICKET_READ_OWN) (\<lambda>(tenant, user).
     rbind (of_option NotFoundError (ticket_by_key tenant user key (queue_desk db))) (\<lambda>v.
     Inr (timeline (t_id (tv_ticket v)) False db)))"

definition analyst_timeline :: "request_context \<Rightarrow> string \<Rightarrow> queue_db \<Rightarrow> app_error + activity list" where
  "analyst_timeline ctx key db = rbind (queue_caller ctx TICKET_ANALYST_READ) (\<lambda>(tenant, _).
     rbind (of_option NotFoundError
       (analyst_by_key tenant (support_group_ids ctx) (reads_all ctx) key (queue_desk db))) (\<lambda>v.
     Inr (timeline (t_id (tv_ticket v)) True db)))"

subsection \<open>Comments of analysts\<close>

definition comment_activity :: "uuid \<Rightarrow> uuid \<Rightarrow> queue_db \<Rightarrow> activity option" where
  "comment_activity tenant i db =
     Option.bind (find (\<lambda>c. c_id c = i \<and> c_visibility c \<in> {''PUBLIC'', ''INTERNAL''}) (comments (queue_case db))) (\<lambda>c.
     map_option (\<lambda>t. comment_item (t_tenant t) db c)
       (find (\<lambda>t. t_id t = c_ticket c \<and> t_tenant t = tenant) (tickets (queue_case db))))"

text \<open>\<open>QueueRepository.add_comment\<close>\<close>

definition write_comment ::
  "instant \<Rightarrow> request_context \<Rightarrow> uuid \<Rightarrow> uuid \<Rightarrow> uuid \<Rightarrow> string \<Rightarrow> string \<Rightarrow> uuid db_op" where
  "write_comment now ctx tenant ticket actor visibility body =
     bindS draw_uuid (\<lambda>i.
     bindS (modS (\<lambda>db. db\<lparr>comments := comments db @ [\<lparr>c_id = i, c_ticket = ticket, c_author = actor, c_body = body,
       c_visibility = visibility, c_created = now, c_channel = ''API''\<rparr>]\<rparr>)) (\<lambda>_.
     bindS (insert_event tenant ticket (visibility @ ''_COMMENT_ADDED'') ''AGENT'' actor
       [(''comment_id'', uuid_val i), (''visibility'', PStr visibility), (''source_channel'', PStr ''API''),
        (''correlation_id'', PStr (correlation_id ctx)), (''request_id'', PStr (request_id ctx))]) (\<lambda>_.
     bindS (insert_audit tenant actor (''TICKET_'' @ visibility @ ''_COMMENT_ADDED'') ''TICKET_COMMENT'' i
       [(''ticket_id'', uuid_val ticket), (''visibility'', PStr visibility)] (correlation_id ctx) (request_id ctx)) (\<lambda>_.
     bindS (whenS (visibility = ''PUBLIC'') (insert_outbox True tenant ''TICKET'' ticket
       ''NOTIFY_AGENT_PUBLIC_RESPONSE_ADDED'' (comment_message ticket i actor)
       (Some (''comment:'' @ uuid_str i @ '':NOTIFY_AGENT_PUBLIC_RESPONSE_ADDED'')))) (\<lambda>_.
     ret i)))))"

definition analyst_comment_work ::
  "queue_env \<Rightarrow> request_context \<Rightarrow> uuid \<Rightarrow> uuid \<Rightarrow> string \<Rightarrow> string \<Rightarrow> string \<Rightarrow> string \<Rightarrow> (activity \<times> bool) queue_op" where
  "analyst_comment_work env ctx tenant user key visibility body ikey =
     bindS (getS (\<lambda>db. analyst_by_key tenant (support_group_ids ctx) (reads_all ctx) key (queue_desk db))) (\<lambda>found.
     bindS (liftS (of_option NotFoundError found)) (\<lambda>v.
     bindS (on_queue_case (claim_checked tenant user (''TICKET_'' @ visibility @ ''_COMMENT_CREATE'') ikey
       (env_digest env [(''ticket_key'', PStr key), (''visibility'', PStr visibility), (''body'', PStr body)]))) (\<lambda>idem.
     if idem_status idem = ''COMPLETED'' then
       bindS (liftS (of_option (UncaughtError ''TypeError'') (idem_result idem))) (\<lambda>i.
       bindS (getS (comment_activity tenant i)) (\<lambda>item.
       bindS (liftS (of_option (ConflictError ''The idempotent comment result is unavailable.'') item)) (\<lambda>a. ret (a, True))))
     else
       bindS (on_queue_case (write_comment (env_now env) ctx tenant (t_id (tv_ticket v)) user visibility body)) (\<lambda>i.
       bindS (on_queue_case (complete_idempotency (idem_id idem) i
         [(''comment_id'', uuid_val i), (''ticket_key'', PStr key)])) (\<lambda>_.
       bindS (getS (comment_activity tenant i)) (\<lambda>item.
       bindS (liftS (of_option (ConflictError ''The created comment is unavailable.'') item)) (\<lambda>a. ret (a, False))))))))"

text \<open>The request schema admits the visibilities \<open>PUBLIC\<close> and \<open>INTERNAL\<close>.\<close>

definition comment_permission :: "string \<Rightarrow> permission" where
  "comment_permission visibility = (if visibility = ''INTERNAL'' then TICKET_COMMENT_INTERNAL else TICKET_COMMENT_PUBLIC)"

definition analyst_comment ::
  "queue_env \<Rightarrow> request_context \<Rightarrow> string \<Rightarrow> string \<Rightarrow> string \<Rightarrow> string \<Rightarrow> queue_db
     \<Rightarrow> (app_error + activity \<times> bool) \<times> queue_db" where
  "analyst_comment env ctx key visibility body ikey db =
     (case rbind (queue_caller ctx TICKET_ANALYST_READ) (\<lambda>who.
         rbind (require (is_allowed ctx (comment_permission visibility) None) AuthorizationError) (\<lambda>_.
         rbind (require (py_strip body \<noteq> [])
           (InvalidFields ''Comment body is required.'' [(''body'', [''Enter a comment.''])])) (\<lambda>_. Inr who))) of
        Inl e \<Rightarrow> (Inl e, db)
      | Inr (tenant, user) \<Rightarrow> run_uow (bindS
          (analyst_comment_work env ctx tenant user key visibility (py_strip body) ikey) (\<lambda>x. ret (Inr x))) db)"

end
