(* ===== verification/FilterSpec.thy ===== *)
theory FilterSpec
  imports QueueFilter
begin

text \<open>
  What the filters of published queues mean: a direct reading of the JSON document, without SQL and without
  parameters, and the proof that the compiled condition has that meaning.
\<close>

subsection \<open>What a filter says\<close>

text \<open>A rule read directly from its document, without parameters.\<close>

definition rule_reads :: "(queue_field \<Rightarrow> string option) \<Rightarrow> uuid \<Rightarrow> uuid list \<Rightarrow> pydict \<Rightarrow> bool option" where
  "rule_reads row user group_ids d =
     (case queue_field_of (case dget_none d ''field'' of PStr s \<Rightarrow> s | _ \<Rightarrow> []) of
        None \<Rightarrow> None
      | Some f \<Rightarrow>
          (case dget_none d ''operator'' of
             PStr op \<Rightarrow>
               if op = ''is_null'' then Some (row f = None)
               else if op = ''is_not_null'' then Some (row f \<noteq> None)
               else if op = ''equals_context'' then map_option (\<lambda>s. s = uuid_str user) (row f)
               else if op = ''in_context'' then (if group_ids = [] then Some False
                 else map_option (\<lambda>s. s \<in> uuid_str ` set group_ids) (row f))
               else map_option (\<lambda>s. s \<in> set (texts_of (dget_none d ''value''))) (row f)
           | _ \<Rightarrow> None))"

function filter_reads :: "(queue_field \<Rightarrow> string option) \<Rightarrow> uuid \<Rightarrow> uuid list \<Rightarrow> pyval \<Rightarrow> bool option"
  and filters_read :: "(queue_field \<Rightarrow> string option) \<Rightarrow> uuid \<Rightarrow> uuid list \<Rightarrow> pyval list \<Rightarrow> bool option list" where
  "filter_reads row user group_ids v =
     (if is_empty_doc v then Some True
      else case rule_group v of
        Some (every, PList children) \<Rightarrow>
          (if every then sql_all else sql_any) (filters_read row user group_ids children)
      | Some _ \<Rightarrow> None
      | None \<Rightarrow> (case v of PDict d \<Rightarrow> rule_reads row user group_ids d | _ \<Rightarrow> None))"
| "filters_read row user group_ids [] = []"
| "filters_read row user group_ids (v # vs) = filter_reads row user group_ids v # filters_read row user group_ids vs"
  by pat_completeness auto
termination
  by (relation "measure (\<lambda>x. case x of Inl (r, u, g, v) \<Rightarrow> size v | Inr (r, u, g, vs) \<Rightarrow> size_list size vs)")
    (auto dest: rule_group_size)

declare filter_reads.simps(1) [simp del] compile_filter.simps [simp del]

lemma param_name_eq [simp]: "param_name m = param_name n \<longleftrightarrow> m = n"
proof
  assume "param_name m = param_name n"
  then have "nat_str m = nat_str n" by (simp add: param_name_def)
  then have "digits_value (nat_str m) = digits_value (nat_str n)" by simp
  then show "m = n" by simp
qed simp

lemma bound_first: "bound_to (ps @ v # rs) (param_name (length ps)) = Some v"
proof -
  have "(length ps, v) \<in> set (enumerate 0 (ps @ v # rs))"
    by (simp add: in_set_enumerate_eq nth_append)
  moreover have "distinct (map fst (map (\<lambda>(n, v). (param_name n, v)) (enumerate 0 (ps @ v # rs))))"
    by (simp add: comp_def case_prod_unfold distinct_map inj_on_def distinct_enumerate)
      (metis (no_types, lifting) in_set_enumerate_eq prod_eq_iff)
  ultimately show ?thesis
    by (auto simp: bound_to_def intro!: map_of_is_SomeI rev_image_eqI)
qed

lemma compile_rule_reads:
  assumes "compile_rule (PDict d) ps = Inr (c, qs)"
  shows "\<exists>ms. qs = ps @ ms \<and> (\<forall>rs. cond_holds row (bound_to (qs @ rs)) user group_ids c = rule_reads row user group_ids d)"
proof -
  from assms obtain s f where s: "dget_none d ''field'' = PStr s" "queue_field_of s = Some f"
    by (auto simp: compile_rule_def rule_field_def Let_def rbind_Inr_iff split: if_splits pyval.splits)
  then have field: "rule_field (dget_none d ''field'') = Inr f" by (simp add: rule_field_def)
  from assms obtain op where op: "dget_none d ''operator'' = PStr op"
    by (auto simp: compile_rule_def field Let_def split: if_splits pyval.splits)
  define e where "e = dget_none d ''value''"
  from assms have run: "(if op = ''is_null'' then Inr (CondNull f, ps)
      else if op = ''is_not_null'' then Inr (CondNotNull f, ps)
      else if op = ''equals_context'' \<and> e = PStr ''user_id'' \<and> f = AssigneeField then Inr (CondMine, ps)
      else if op = ''in_context'' \<and> e = PStr ''support_group_ids'' \<and> f = GroupField then Inr (CondMyGroups, ps)
      else if op = ''equals'' \<and> is_literal e then Inr (CondEquals f (param_name (length ps)), ps @ [e])
      else (case e of PList xs \<Rightarrow> if op = ''in'' then compile_list f xs ps
             else Inl (queue_error ''A published queue uses an unsupported filter operator.'')
           | _ \<Rightarrow> Inl (queue_error ''A published queue uses an unsupported filter operator.''))) = Inr (c, qs)"
    by (auto simp: compile_rule_def field op e_def Let_def cong: pyval.case_cong split: if_splits)
  have reads: "rule_reads row user group_ids d =
      (if op = ''is_null'' then Some (row f = None)
       else if op = ''is_not_null'' then Some (row f \<noteq> None)
       else if op = ''equals_context'' then map_option (\<lambda>s. s = uuid_str user) (row f)
       else if op = ''in_context'' then (if group_ids = [] then Some False
         else map_option (\<lambda>s. s \<in> uuid_str ` set group_ids) (row f))
       else map_option (\<lambda>s. s \<in> set (texts_of e)) (row f))"
    by (simp add: rule_reads_def s op e_def)
  consider "op \<in> {''is_null'', ''is_not_null''}" | "op = ''equals_context''" "e = PStr ''user_id''" "f = AssigneeField"
    | "op = ''in_context''" "e = PStr ''support_group_ids''" "f = GroupField" | "op = ''equals''" "is_literal e"
    | xs where "op = ''in''" "e = PList xs"
    using run by (auto split: if_splits pyval.splits)
  then show ?thesis
  proof cases
    case 1
    with run have "qs = ps" "c = (if op = ''is_null'' then CondNull f else CondNotNull f)" by (auto split: if_splits)
    with 1 show ?thesis by (auto simp: reads)
  next
    case 2
    with run have "qs = ps" "c = CondMine" by simp_all
    with 2 show ?thesis by (simp add: reads)
  next
    case 3
    with run have "qs = ps" "c = CondMyGroups" by simp_all
    with 3 show ?thesis by (simp add: reads)
  next
    case 4
    with run have "c = CondEquals f (param_name (length ps))" "qs = ps @ [e]" by simp_all
    with 4 show ?thesis by (simp add: reads bound_first)
  next
    case 5
    with run have "c = CondIn f (param_name (length ps))" "qs = ps @ [e]" by (simp_all add: compile_list_def split: if_splits)
    with 5 show ?thesis by (simp add: reads bound_first)
  qed
qed

lemma compile_filter_reads:
  "compile_filter depth v ps = Inr (c, qs) \<Longrightarrow>
     \<exists>ms. qs = ps @ ms \<and> (\<forall>rs. cond_holds row (bound_to (qs @ rs)) user group_ids c = filter_reads row user group_ids v)"
  "compile_filters depth vs ps = Inr (cs, qs) \<Longrightarrow>
     \<exists>ms. qs = ps @ ms \<and> (\<forall>rs. map (cond_holds row (bound_to (qs @ rs)) user group_ids) cs = filters_read row user group_ids vs)"
proof (induction depth v ps and depth vs ps arbitrary: c qs and cs qs rule: compile_filter_compile_filters.induct)
  case (1 depth v ps)
  show ?case
  proof (cases "is_empty_doc v")
    case True
    with 1(2) show ?thesis by (simp add: compile_filter.simps [of depth v] filter_reads.simps(1) split: if_splits)
  next
    case nonempty: False
    show ?thesis
    proof (cases "rule_group v")
      case None
      with 1(2) nonempty have run: "compile_rule v ps = Inr (c, qs)"
        by (simp add: compile_filter.simps [of depth v] split: if_splits)
      then obtain d where v: "v = PDict d" by (auto simp: compile_rule_def split: pyval.splits)
      from compile_rule_reads [OF run [unfolded v]] nonempty None show ?thesis
        by (simp add: v filter_reads.simps(1))
    next
      case (Some g)
      obtain every w where "g = (every, w)" by fastforce
      with Some 1(2) nonempty obtain every children cs where g: "rule_group v = Some (every, PList children)"
        and run: "compile_filters (depth + 1) children ps = Inr (cs, qs)" "c = (if every then CondAll cs else CondAny cs)"
        and shallow: "\<not> 5 < depth" "\<not> (children = [] \<or> 20 < length children)"
        by (cases w) (auto simp: compile_filter.simps [of depth v] rbind_Inr_iff split: if_splits)
      from 1(1) [OF shallow(1) nonempty g _ _ shallow(2) run(1)] show ?thesis
        using nonempty by (auto simp: filter_reads.simps(1) [of row user group_ids v] g run(2))
    qed
  qed
next
  case (3 depth v vs ps)
  then obtain c ps1 cs1 where run: "compile_filter depth v ps = Inr (c, ps1)" "compile_filters depth vs ps1 = Inr (cs1, qs)"
    "cs = c # cs1" by (auto simp: rbind_Inr_iff)
  from 3(1) [OF run(1)] obtain ms where ms: "ps1 = ps @ ms"
    "\<And>rs. cond_holds row (bound_to (ps1 @ rs)) user group_ids c = filter_reads row user group_ids v" by blast
  from 3(2) [OF run(2)] obtain ns where ns: "qs = ps1 @ ns"
    "\<And>rs. map (cond_holds row (bound_to (qs @ rs)) user group_ids) cs1 = filters_read row user group_ids vs" by blast
  from ms(2) [of "ns @ _"] have "cond_holds row (bound_to (qs @ rs)) user group_ids c = filter_reads row user group_ids v" for rs
    by (simp add: ns(1))
  with ns ms(1) run(3) show ?case by simp
qed simp

end
