(* ===== verification/ShelfSpec.thy ===== *)
theory ShelfSpec
  imports Shelves "HOL-Library.Multiset"
begin

text \<open>
  Laws of the personal lists: names stay unique, nobody touches the rows of somebody else, every write counts
  the version of its row, and an order that was accepted is the order of the list.
\<close>

subsection \<open>What holds of a list\<close>

definition tidy :: "(string \<Rightarrow> string) \<Rightarrow> 'a personal_row list \<Rightarrow> bool" where
  "tidy low rows \<longleftrightarrow> distinct (map pe_id rows) \<and> (\<forall>r\<in>set rows. \<forall>s\<in>set rows.
     pe_tenant r = pe_tenant s \<and> pe_owner r = pe_owner s \<and> low (pe_name r) = low (pe_name s) \<longrightarrow> r = s)"

definition only_of :: "uuid \<Rightarrow> uuid \<Rightarrow> 'a personal_row list \<Rightarrow> 'a personal_row list \<Rightarrow> bool" where
  "only_of tenant user rows rows' \<longleftrightarrow>
     filter (\<lambda>r. \<not> owned_by tenant user r) rows' = filter (\<lambda>r. \<not> owned_by tenant user r) rows
     \<and> (\<forall>r\<in>set rows. \<forall>r'\<in>set rows'. pe_id r' = pe_id r \<longrightarrow> r' = r \<or> pe_version r < pe_version r')"

lemma only_of_refl: "tidy low rows \<Longrightarrow> only_of tenant user rows rows"
  by (auto simp: tidy_def only_of_def distinct_map dest: inj_onD)

lemma tidy_append:
  assumes "tidy low rows" "pe_id row \<notin> pe_id ` set rows" "owned_by tenant user row"
    and "\<not> name_taken low tenant user (pe_name row) None rows"
  shows "tidy low (rows @ [row])" "only_of tenant user rows (rows @ [row])"
proof -
  from assms(3,4) have "r = row" if "r \<in> set rows" "pe_tenant r = pe_tenant row" "pe_owner r = pe_owner row"
    "low (pe_name r) = low (pe_name row)" for r
    using that by (auto simp: name_taken_def list_ex_iff owned_by_def)
  with assms(1,2) show "tidy low (rows @ [row])" by (auto simp: tidy_def)
  from assms(1-3) show "only_of tenant user rows (rows @ [row])"
    by (auto simp: tidy_def only_of_def distinct_map dest: inj_onD)
qed

lemma tidy_filter:
  assumes "tidy low rows" "\<And>r. r \<in> set rows \<Longrightarrow> \<not> p r \<Longrightarrow> owned_by tenant user r"
  shows "tidy low (filter p rows)" "only_of tenant user rows (filter p rows)"
proof -
  show "tidy low (filter p rows)" using assms(1) by (auto simp: tidy_def distinct_map_filter)
  have "filter (\<lambda>r. \<not> owned_by tenant user r) (filter p rows) = filter (\<lambda>r. \<not> owned_by tenant user r) rows"
    using assms(2) by (auto simp: filter_filter intro!: filter_cong)
  with assms(1) show "only_of tenant user rows (filter p rows)"
    by (auto simp: tidy_def only_of_def distinct_map dest: inj_onD)
qed

text \<open>An edit of the caller's row with identifier \<open>i\<close> that counts its version and leaves its owner.\<close>

lemma edit_where_ids: "(\<And>r. p r \<Longrightarrow> pe_id (f r) = pe_id r) \<Longrightarrow> map pe_id (edit_where p f rows) = map pe_id rows"
  by (simp add: edit_where_def)

lemma edit_only_of:
  assumes "tidy low rows" and p: "\<And>r. p r \<Longrightarrow> owned_by tenant user r"
    and f: "\<And>r. p r \<Longrightarrow> pe_id (f r) = pe_id r \<and> owned_by tenant user (f r) \<and> pe_version r < pe_version (f r)"
  shows "only_of tenant user rows (edit_where p f rows)"
  unfolding only_of_def
proof
  show "filter (\<lambda>r. \<not> owned_by tenant user r) (edit_where p f rows) = filter (\<lambda>r. \<not> owned_by tenant user r) rows"
    using p f by (induction rows) (auto simp: edit_where_def)
  show "\<forall>r\<in>set rows. \<forall>r'\<in>set (edit_where p f rows). pe_id r' = pe_id r \<longrightarrow> r' = r \<or> pe_version r < pe_version r'"
  proof (intro ballI impI)
    fix r r'
    assume r: "r \<in> set rows" "r' \<in> set (edit_where p f rows)" "pe_id r' = pe_id r"
    then obtain s where s: "s \<in> set rows" "r' = (if p s then f s else s)" by (auto simp: edit_where_def)
    with r(3) f have "pe_id s = pe_id r" by (auto split: if_splits)
    with assms(1) r(1) s(1) have "s = r" by (auto simp: tidy_def distinct_map dest: inj_onD)
    with s(2) f show "r' = r \<or> pe_version r < pe_version r'" by auto
  qed
qed

lemma edit_tidy:
  assumes "tidy low rows" and p: "\<And>r. r \<in> set rows \<Longrightarrow> p r \<Longrightarrow> owned_by tenant user r \<and> pe_id r = i"
    and f: "\<And>r. p r \<Longrightarrow> pe_id (f r) = pe_id r \<and> owned_by tenant user (f r)"
    and free: "\<And>r s. r \<in> set rows \<Longrightarrow> p r \<Longrightarrow> s \<in> set rows \<Longrightarrow> owned_by tenant user s \<Longrightarrow> low (pe_name s) = low (pe_name (f r))
      \<Longrightarrow> pe_id s = i"
  shows "tidy low (edit_where p f rows)"
proof -
  have one: "r = s" if "r \<in> set rows" "s \<in> set rows" "pe_id r = pe_id s" for r s
    using assms(1) that by (auto simp: tidy_def distinct_map dest: inj_onD)
  have ids: "distinct (map pe_id (edit_where p f rows))"
    using assms(1) f by (simp add: edit_where_ids tidy_def)
  have "r' = s'" if "r' \<in> set (edit_where p f rows)" "s' \<in> set (edit_where p f rows)" "pe_tenant r' = pe_tenant s'"
    "pe_owner r' = pe_owner s'" "low (pe_name r') = low (pe_name s')" for r' s'
  proof -
    from that(1,2) obtain r s where rs: "r \<in> set rows" "s \<in> set rows" "r' = (if p r then f r else r)" "s' = (if p s then f s else s)"
      by (auto simp: edit_where_def)
    have owned: "owned_by tenant user a \<longleftrightarrow> owned_by tenant user b" if "pe_tenant a = pe_tenant b" "pe_owner a = pe_owner b"
      for a b :: "'a personal_row" using that by (simp add: owned_by_def)
    consider "p r" "p s" | "p r" "\<not> p s" | "\<not> p r" "p s" | "\<not> p r" "\<not> p s" by blast
    then show ?thesis
    proof cases
      case 1
      with p rs one show ?thesis by metis
    next
      case 2
      with that rs f owned have "owned_by tenant user s" by (metis (full_types))
      with 2 that rs free [of r s] p one show ?thesis by (metis (full_types))
    next
      case 3
      with that rs f owned have "owned_by tenant user r" by (metis (full_types))
      with 3 that rs free [of s r] p one show ?thesis by (metis (full_types))
    next
      case 4
      with assms(1) that rs show ?thesis by (auto simp: tidy_def)
    qed
  qed
  with ids show ?thesis by (auto simp: tidy_def)
qed

lemma only_of_trans:
  assumes "only_of tenant user rows rows1" "only_of tenant user rows1 rows2" "map pe_id rows1 = map pe_id rows"
  shows "only_of tenant user rows rows2"
  unfolding only_of_def
proof
  show "filter (\<lambda>r. \<not> owned_by tenant user r) rows2 = filter (\<lambda>r. \<not> owned_by tenant user r) rows"
    using assms(1,2) by (simp add: only_of_def)
  show "\<forall>r\<in>set rows. \<forall>r2\<in>set rows2. pe_id r2 = pe_id r \<longrightarrow> r2 = r \<or> pe_version r < pe_version r2"
  proof (intro ballI impI)
    fix r r2
    assume r: "r \<in> set rows" "r2 \<in> set rows2" "pe_id r2 = pe_id r"
    have "pe_id r \<in> set (map pe_id rows1)" using assms(3) r(1) by simp
    then obtain r1 where "r1 \<in> set rows1" "pe_id r1 = pe_id r" by auto
    with r assms(1,2) have "r1 = r \<or> pe_version r < pe_version r1" "r2 = r1 \<or> pe_version r1 < pe_version r2"
      by (auto simp: only_of_def)
    then show "r2 = r \<or> pe_version r < pe_version r2" by auto
  qed
qed

subsection \<open>Reordering\<close>

lemma reorder_edit:
  assumes "tidy low rows"
  shows "tidy low (edit_where (at_version tenant user i v) (\<lambda>r. bumped now r\<lparr>pe_order := n\<rparr>) rows)"
    and "only_of tenant user rows (edit_where (at_version tenant user i v) (\<lambda>r. bumped now r\<lparr>pe_order := n\<rparr>) rows)"
    and "map pe_id (edit_where (at_version tenant user i v) (\<lambda>r. bumped now r\<lparr>pe_order := n\<rparr>) rows) = map pe_id rows"
proof -
  show "tidy low (edit_where (at_version tenant user i v) (\<lambda>r. bumped now r\<lparr>pe_order := n\<rparr>) rows)"
    by (rule edit_tidy [OF assms, where i = i and tenant = tenant and user = user])
      (use assms in \<open>auto simp: at_version_def bumped_def owned_by_def tidy_def, metis\<close>)
  show "only_of tenant user rows (edit_where (at_version tenant user i v) (\<lambda>r. bumped now r\<lparr>pe_order := n\<rparr>) rows)"
    by (rule edit_only_of [OF assms]) (auto simp: at_version_def bumped_def owned_by_def)
  show "map pe_id (edit_where (at_version tenant user i v) (\<lambda>r. bumped now r\<lparr>pe_order := n\<rparr>) rows) = map pe_id rows"
    by (rule edit_where_ids) (simp add: bumped_def)
qed

lemma reorder_rows_tidy:
  "tidy low rows \<Longrightarrow> tidy low (snd (reorder_rows now tenant user items rows))
     \<and> only_of tenant user rows (snd (reorder_rows now tenant user items rows))
     \<and> map pe_id (snd (reorder_rows now tenant user items rows)) = map pe_id rows"
proof (induction items arbitrary: rows)
  case Nil
  then show ?case by (simp add: only_of_refl)
next
  case (Cons item items)
  obtain i v n where item: "item = (i, v, n)" by (cases item)
  let ?rows1 = "edit_where (at_version tenant user i v) (\<lambda>r. bumped now r\<lparr>pe_order := n\<rparr>) rows"
  let ?rows2 = "snd (reorder_rows now tenant user items ?rows1)"
  from Cons.IH [OF reorder_edit(1) [OF Cons.prems, of tenant user i v n now]] reorder_edit(3) [of low rows tenant user i v n now] Cons.prems
  have "tidy low ?rows2" "only_of tenant user ?rows1 ?rows2" "map pe_id ?rows2 = map pe_id rows" by simp_all
  moreover from only_of_trans [OF reorder_edit(2) [OF Cons.prems] this(2) reorder_edit(3) [OF Cons.prems]]
  have "only_of tenant user rows ?rows2" .
  ultimately show ?case by (simp add: item case_prod_unfold Let_def)
qed

text \<open>The row that an item of an order makes of the caller's row with its identifier.\<close>

definition reordered :: "instant \<Rightarrow> uuid \<Rightarrow> uuid \<Rightarrow> (uuid \<times> int \<times> int) list \<Rightarrow> 'a personal_row \<Rightarrow> 'a personal_row" where
  "reordered now tenant user items r = (case map_of items (pe_id r) of
       None \<Rightarrow> r
     | Some (v, n) \<Rightarrow> if at_version tenant user (pe_id r) v r then bumped now r\<lparr>pe_order := n\<rparr> else r)"

lemma reordered_owner: "owned_by tenant user (reordered now tenant' user' items r) = owned_by tenant user r"
  by (simp add: reordered_def bumped_def owned_by_def split: option.splits prod.splits)

lemma reordered_id [simp]: "pe_id (reordered now tenant user items r) = pe_id r"
  by (simp add: reordered_def bumped_def split: option.splits prod.splits)

lemma reorder_rows_map:
  fixes rows :: "'a personal_row list"
  shows "distinct (map fst items) \<Longrightarrow> snd (reorder_rows now tenant user items rows) = map (reordered now tenant user items) rows"
proof (induction items arbitrary: rows)
  case Nil
  then show ?case by (simp add: reordered_def)
next
  case (Cons item items)
  obtain i v n where item: "item = (i, v, n)" by (cases item)
  have fresh: "map_of items i = None" using Cons.prems item by (simp add: map_of_eq_None_iff)
  have "reordered now tenant user items (if at_version tenant user i v r then bumped now r\<lparr>pe_order := n\<rparr> else r)
    = reordered now tenant user (item # items) r" for r :: "'a personal_row"
    using fresh by (auto simp: reordered_def item at_version_def bumped_def owned_by_def)
  with Cons show ?case by (simp add: item case_prod_unfold Let_def edit_where_def comp_def split del: if_split)
qed

lemma map_enumerate: "map (\<lambda>x. f (snd x)) (enumerate n xs) = map f xs"
  by (induction xs arbitrary: n) simp_all

lemma enumerate_sorted: "sorted (map (\<lambda>(n, i, _). (int n * 10, i :: uuid)) (enumerate k items))"
proof (induction items arbitrary: k)
  case (Cons item items)
  have "k < n" if "(n, x) \<in> set (enumerate (Suc k) items)" for n x
    using that by (simp add: in_set_enumerate_eq)
  then show ?case using Cons by (auto simp: case_prod_unfold)
qed simp

lemma personal_row_own:
  assumes "tidy low rows" "r \<in> set rows" "owned_by tenant user r"
  shows "personal_row_with tenant user (pe_id r) rows = Some r"
proof -
  from assms obtain s where s: "personal_row_with tenant user (pe_id r) rows = Some s"
    by (cases "personal_row_with tenant user (pe_id r) rows") (auto simp: personal_row_with_def find_None_iff)
  then have "s \<in> set rows" "pe_id s = pe_id r" by (auto simp: personal_row_with_def dest: find_Some_in)
  with assms have "s = r" by (auto simp: tidy_def distinct_map dest: inj_onD)
  with s show ?thesis by simp
qed

text \<open>An order that names every row of the caller once, at its version, is the order of the answer.\<close>

lemma reorder_sorted:
  assumes "tidy low rows" "distinct (map fst items)"
    and ids: "set (map fst items) = pe_id ` set (filter (owned_by tenant user) rows)"
    and versions: "\<And>r. r \<in> set rows \<Longrightarrow> owned_by tenant user r \<Longrightarrow> map_of items (pe_id r) = Some (pe_version r)"
  shows "personal_rows tenant user (map (reordered now tenant user (placed items)) rows)
    = map (\<lambda>(n, i, _). bumped now (the (personal_row_with tenant user i rows))\<lparr>pe_order := int n * 10\<rparr>) (enumerate 0 items)"
proof -
  let ?own = "filter (owned_by tenant user) rows"
  let ?new = "map (reordered now tenant user (placed items)) rows"
  define g where "g = (\<lambda>(n, i, _ :: int). bumped now (the (personal_row_with tenant user i rows))\<lparr>pe_order := int n * 10\<rparr>)"
  have one: "personal_row_with tenant user (pe_id r) rows = Some r" if "r \<in> set rows" "owned_by tenant user r" for r
    using personal_row_own [OF assms(1)] that .
  have place: "map_of (placed items) i = Some (v, int n * 10)" if "(n, i, v) \<in> set (enumerate 0 items)" for n i v
  proof (rule map_of_is_SomeI)
    have "map fst (placed items) = map fst items"
      using map_enumerate [of fst 0 items] by (simp add: placed_def comp_def case_prod_unfold)
    with assms(2) show "distinct (map fst (placed items))" by simp
    from that show "(i, v, int n * 10) \<in> set (placed items)" by (force simp: placed_def)
  qed
  have item: "\<exists>r\<in>set ?own. i = pe_id r \<and> v = pe_version r \<and> g (n, i, v) = reordered now tenant user (placed items) r"
    if "(n, i, v) \<in> set (enumerate 0 items)" for n i v
  proof -
    from that have "(i, v) \<in> set items" by (simp add: in_set_enumerate_eq) (metis nth_mem)
    then have v: "map_of items i = Some v" using assms(2) by simp
    from \<open>(i, v) \<in> set items\<close> ids obtain r where r: "r \<in> set ?own" "pe_id r = i" by force
    with versions [of r] v have "pe_version r = v" by simp
    with r place [OF that] one [of r] show ?thesis
      by (intro bexI [of _ r]) (auto simp: g_def reordered_def at_version_def)
  qed
  have new: "filter (owned_by tenant user) ?new = map (reordered now tenant user (placed items)) ?own"
    by (simp add: filter_map comp_def reordered_owner)
  have gid: "pe_id (g x) = fst (snd x)" if "x \<in> set (enumerate 0 items)" for x
  proof -
    obtain n i v where x: "x = (n, i, v)" by (cases x)
    from item [of n i v] that show ?thesis unfolding x by auto
  qed
  have ys: "map pe_id (map g (enumerate 0 items)) = map fst items"
  proof -
    from gid have "map pe_id (map g (enumerate 0 items)) = map (\<lambda>x. fst (snd x)) (enumerate 0 items)" by simp
    also have "\<dots> = map fst items" by (rule map_enumerate)
    finally show ?thesis .
  qed
  have "distinct (map g (enumerate 0 items))" using assms(2) ys by (metis distinct_map)
  moreover have "distinct (map (reordered now tenant user (placed items)) ?own)"
  proof -
    have "map pe_id (map (reordered now tenant user (placed items)) ?own) = map pe_id ?own" by simp
    moreover have "distinct (map pe_id ?own)" using assms(1) by (simp add: tidy_def distinct_map_filter)
    ultimately show ?thesis by (metis distinct_map)
  qed
  moreover have "set (map g (enumerate 0 items)) = set (map (reordered now tenant user (placed items)) ?own)"
  proof
    show "set (map g (enumerate 0 items)) \<subseteq> set (map (reordered now tenant user (placed items)) ?own)"
      using item by fastforce
    show "set (map (reordered now tenant user (placed items)) ?own) \<subseteq> set (map g (enumerate 0 items))"
    proof
      fix x assume "x \<in> set (map (reordered now tenant user (placed items)) ?own)"
      then obtain r where r: "r \<in> set ?own" "x = reordered now tenant user (placed items) r" by auto
      then have "map_of items (pe_id r) = Some (pe_version r)" using versions by simp
      then have "(pe_id r, pe_version r) \<in> set items" by (rule map_of_SomeD)
      then obtain n where n: "n < length items" "items ! n = (pe_id r, pe_version r)" by (auto simp: in_set_conv_nth)
      then have "(n, pe_id r, pe_version r) \<in> set (enumerate 0 items)" by (simp add: in_set_enumerate_eq)
      moreover from item [OF this] r(1) assms(1) have "g (n, pe_id r, pe_version r) = x"
        by (auto simp: r(2) tidy_def distinct_map dest: inj_onD)
      ultimately show "x \<in> set (map g (enumerate 0 items))" by force
    qed
  qed
  ultimately have same: "mset (filter (owned_by tenant user) ?new) = mset (map g (enumerate 0 items))"
    by (simp only: new set_eq_iff_mset_eq_distinct)
  have keys: "map (\<lambda>r. (pe_order r, pe_id r)) (map g (enumerate 0 items))
    = map (\<lambda>(n, i, _). (int n * 10, i)) (enumerate 0 items)"
  proof -
    have "pe_order (g x) = int (fst x) * 10" for x by (simp add: g_def split: prod.splits)
    with gid show ?thesis by (auto simp: case_prod_unfold)
  qed
  have "sorted (map (\<lambda>r. (pe_order r, pe_id r)) (map g (enumerate 0 items)))"
    unfolding keys by (rule enumerate_sorted)
  moreover have "inj_on (\<lambda>r. (pe_order r, pe_id r)) (set (filter (owned_by tenant user) ?new))"
  proof (rule inj_onI)
    fix x y
    assume "x \<in> set (filter (owned_by tenant user) ?new)" "y \<in> set (filter (owned_by tenant user) ?new)"
      "(pe_order x, pe_id x) = (pe_order y, pe_id y)"
    then have "x \<in> set (map g (enumerate 0 items))" "y \<in> set (map g (enumerate 0 items))" "pe_id x = pe_id y"
      unfolding mset_eq_setD [OF same] by simp_all
    moreover have "distinct (map pe_id (map g (enumerate 0 items)))" unfolding ys by (rule assms(2))
    ultimately show "x = y" unfolding distinct_map by (blast dest: inj_onD)
  qed
  ultimately have "sort_key (\<lambda>r. (pe_order r, pe_id r)) (filter (owned_by tenant user) ?new) = map g (enumerate 0 items)"
    using sort_key_inj_key_eq [OF same] by blast
  then show ?thesis by (simp only: personal_rows_def g_def)
qed

subsection \<open>The operations of a list\<close>

text \<open>The contract of a list: its table is a part of the database of its own.\<close>

locale personal_list =
  fixes lr :: "'a list_rules" and other :: "queue_db \<Rightarrow> 'o"
  assumes rows_store: "sh_rows lr (sh_store lr f db) = f (sh_rows lr db)"
    and rows_desk: "sh_rows lr (db\<lparr>queue_desk := d\<rparr>) = sh_rows lr db"
    and other_store: "other (sh_store lr f db) = other db"
    and other_desk: "other (db\<lparr>queue_desk := d\<rparr>) = other db"
begin

lemma case_rows: "on_queue_case m db = Inr (x, db') \<Longrightarrow> sh_rows lr db' = sh_rows lr db \<and> other db' = other db"
  by (auto simp: on_queue_case_def rows_desk other_desk split: sum.splits prod.splits)

definition list_step :: "(string \<Rightarrow> string) \<Rightarrow> uuid \<Rightarrow> uuid \<Rightarrow> queue_db \<Rightarrow> queue_db \<Rightarrow> bool" where
  "list_step low tenant user db db' \<longleftrightarrow> tidy low (sh_rows lr db')
     \<and> only_of tenant user (sh_rows lr db) (sh_rows lr db') \<and> other db' = other db"

lemma list_step_same: "tidy low (sh_rows lr db) \<Longrightarrow> sh_rows lr db' = sh_rows lr db \<Longrightarrow> other db' = other db
    \<Longrightarrow> list_step low tenant user db db'"
  by (simp add: list_step_def only_of_refl)

lemma insert_step:
  assumes "insert_personal lr env tenant user name data db = Inr (made, db')" "tidy (env_lower env) (sh_rows lr db)"
  shows "list_step (env_lower env) tenant user db db'"
proof -
  from assms(1) obtain i db1 where draw: "on_queue_case draw_uuid db = Inr (i, db1)"
    and run: "(let rows = sh_rows lr db1 in
     if i \<in> pe_id ` set rows \<or> name_taken (env_lower env) tenant user name None rows then Inr (None, db1)
     else case sh_broken lr data db1 of Some c \<Rightarrow> Inl (IntegrityError c)
       | None \<Rightarrow> let row = \<lparr>pe_id = i, pe_tenant = tenant, pe_owner = user, pe_name = name, pe_data = data,
             pe_order = next_order tenant user rows, pe_version = 1, pe_created = env_now env,
             pe_updated = env_now env\<rparr>
         in Inr (Some row, sh_store lr (\<lambda>rows. rows @ [row]) db1)) = Inr (made, db')"
    by (auto simp: insert_personal_def bindS_Inr_iff)
  from case_rows [OF draw] run assms(2) show ?thesis
    by (auto simp: Let_def list_step_def rows_store other_store only_of_refl owned_by_def
        intro!: tidy_append split: if_splits option.splits)
qed

lemma create_step:
  assumes "create_work lr env key tenant user v db = Inr (x, db')" "tidy (env_lower env) (sh_rows lr db)"
  shows "list_step (env_lower env) tenant user db db'"
proof -
  obtain name data where v: "v = (name, data)" by fastforce
  from assms(1) obtain idem db1 where claim: "on_queue_case (claim_checked tenant user (lr_operation lr) key
      (env_digest env (lr_values lr name data))) db = Inr (idem, db1)"
    by (auto simp: create_work_def v bindS_Inr_iff)
  show ?thesis
  proof (cases "idem_status idem = ''COMPLETED''")
    case True
    with assms(1) claim have "db' = db1" by (auto simp: create_work_def v bindS_Inr_iff)
    with case_rows [OF claim] assms(2) show ?thesis by (simp add: list_step_same)
  next
    case False
    with assms(1) claim obtain row db2 where made: "insert_personal lr env tenant user name data db1 = Inr (Some row, db2)"
      and fin: "on_queue_case (complete_idempotency (idem_id idem) (pe_id row) [(lr_result lr, uuid_val (pe_id row))]) db2 = Inr ((), db')"
      by (auto simp: create_work_def v bindS_Inr_iff)
    from insert_step [OF made] case_rows [OF claim] case_rows [OF fin] assms(2) show ?thesis
      by (simp add: list_step_def)
  qed
qed

lemma update_step:
  assumes "update_work lr env i version tenant user v db = Inr (x, db')" "tidy (env_lower env) (sh_rows lr db)"
  shows "list_step (env_lower env) tenant user db db'"
proof -
  obtain name data where v: "v = (name, data)" by fastforce
  from assms(1) obtain updated where "update_personal lr env tenant user i version name data db = Inr (updated, db')"
    by (auto simp: update_work_def v bindS_Inr_iff)
  then have cases: "db' = db \<or> \<not> name_taken (env_lower env) tenant user name (Some i) (sh_rows lr db)
      \<and> db' = sh_store lr (edit_where (at_version tenant user i version)
        (\<lambda>r. bumped (env_now env) r\<lparr>pe_name := name, pe_data := data\<rparr>)) db"
    by (auto simp: update_personal_def Let_def split: option.splits if_splits)
  then show ?thesis
  proof
    assume "db' = db"
    with assms(2) show ?thesis by (simp add: list_step_same)
  next
    let ?edit = "edit_where (at_version tenant user i version) (\<lambda>r. bumped (env_now env) r\<lparr>pe_name := name, pe_data := data\<rparr>)"
    assume db': "\<not> name_taken (env_lower env) tenant user name (Some i) (sh_rows lr db) \<and> db' = sh_store lr ?edit db"
    have "tidy (env_lower env) (?edit (sh_rows lr db))"
      by (rule edit_tidy [OF assms(2), where i = i and tenant = tenant and user = user])
        (use db' in \<open>auto simp: at_version_def bumped_def owned_by_def name_taken_def list_ex_iff\<close>)
    moreover have "only_of tenant user (sh_rows lr db) (?edit (sh_rows lr db))"
      by (rule edit_only_of [OF assms(2)]) (auto simp: at_version_def bumped_def owned_by_def)
    ultimately show ?thesis by (simp add: list_step_def db' rows_store other_store)
  qed
qed

lemma reorder_step:
  assumes "reorder_work lr env tenant user items db = Inr (x, db')" "tidy (env_lower env) (sh_rows lr db)"
  shows "list_step (env_lower env) tenant user db db'"
proof -
  from assms(1) have "db' = sh_store lr (\<lambda>rows. snd (reorder_rows (env_now env) tenant user (placed items) rows)) db"
    by (auto simp: reorder_work_def bindS_Inr_iff reorder_personal_def)
  with reorder_rows_tidy [OF assms(2)] show ?thesis by (simp add: list_step_def rows_store other_store)
qed

lemma delete_step:
  assumes "delete_work lr i version tenant user u db = Inr (x, db')" "tidy low (sh_rows lr db)"
  shows "list_step low tenant user db db'"
proof -
  from assms(1) have "db' = sh_store lr (filter (\<lambda>r. \<not> at_version tenant user i version r)) db"
    by (auto simp: delete_work_def bindS_Inr_iff delete_personal_def Let_def)
  with tidy_filter [OF assms(2), of "\<lambda>r. \<not> at_version tenant user i version r" tenant user] show ?thesis
    by (simp add: list_step_def rows_store other_store at_version_def)
qed

lemma on_list_step:
  assumes "on_list ctx checked work db = (r, db')" "tidy low (sh_rows lr db)"
    and "\<And>tenant user v x db'. queue_caller ctx TICKET_ANALYST_READ = Inr (tenant, user) \<Longrightarrow> checked = Inr v
      \<Longrightarrow> work tenant user v db = Inr (x, db') \<Longrightarrow> list_step low tenant user db db'"
  shows "db' = db \<or> (\<exists>tenant user. queue_caller ctx TICKET_ANALYST_READ = Inr (tenant, user) \<and> list_step low tenant user db db')"
  using assms(1,3)
  by (auto simp: on_list_def run_uow_def bindS_def rbind_Inr_iff split: sum.splits prod.splits)

lemma reorder_answer:
  assumes "on_list ctx (in_order lr items) (reorder_work lr env) db = (Inr rows, db')" "tidy low (sh_rows lr db)"
  obtains tenant user where "queue_caller ctx TICKET_ANALYST_READ = Inr (tenant, user)"
    "personal_rows tenant user (sh_rows lr db') = rows"
    "rows = map (\<lambda>(n, i, _). bumped (env_now env) (the (personal_row_with tenant user i (sh_rows lr db)))\<lparr>pe_order := int n * 10\<rparr>)
        (enumerate 0 items)"
    "\<And>i v. (i, v) \<in> set items \<Longrightarrow> \<exists>r. personal_row_with tenant user i (sh_rows lr db) = Some r \<and> pe_id r = i \<and> pe_version r = v"
proof -
  from assms(1) obtain tenant user where who: "queue_caller ctx TICKET_ANALYST_READ = Inr (tenant, user)"
    and twice: "distinct (map fst items)" and run: "reorder_work lr env tenant user items db = Inr (rows, db')"
    by (auto simp: on_list_def run_uow_def rbind_Inr_iff rbind_Inl_iff in_order_def bindS_Inr_iff bindS_Inl_iff
        split: sum.splits prod.splits if_splits)
  let ?old = "sh_rows lr db"
  from run have ok: "order_current lr items (personal_rows tenant user ?old) = Inr ()"
    and db': "db' = sh_store lr (\<lambda>rows. snd (reorder_rows (env_now env) tenant user (placed items) rows)) db"
    and rows: "rows = personal_rows tenant user (sh_rows lr db')"
    by (auto simp: reorder_work_def bindS_Inr_iff reorder_personal_def)
  have own: "set (personal_rows tenant user ?old) = set (filter (owned_by tenant user) ?old)" by (simp add: personal_rows_def)
  from ok have ids: "set (map fst items) = pe_id ` set (filter (owned_by tenant user) ?old)"
    by (simp add: order_current_def own split: if_splits)
  have current: "\<exists>r. personal_row_with tenant user i ?old = Some r \<and> pe_id r = i \<and> pe_version r = v" if "(i, v) \<in> set items" for i v
  proof -
    from ok that have "map_option pe_version (find (\<lambda>x. pe_id x = i) (personal_rows tenant user ?old)) = Some v"
      by (auto simp: order_current_def list_ex_iff split: if_splits)
    then obtain s where s: "find (\<lambda>x. pe_id x = i) (personal_rows tenant user ?old) = Some s" "pe_version s = v" by auto
    from find_Some_in [OF s(1)] own have "s \<in> set ?old" "owned_by tenant user s" "pe_id s = i" by auto
    with personal_row_own [OF assms(2), of s tenant user] s(2) show ?thesis by auto
  qed
  have versions: "map_of items (pe_id r) = Some (pe_version r)" if r: "r \<in> set ?old" "owned_by tenant user r" for r
  proof -
    from ids r have "pe_id r \<in> fst ` set items" by auto
    then obtain v where v: "(pe_id r, v) \<in> set items" by force
    with current [OF v] personal_row_own [OF assms(2) r] twice show ?thesis by auto
  qed
  have "map fst (placed items) = map fst items"
    using map_enumerate [of fst 0 items] by (simp add: placed_def comp_def case_prod_unfold)
  with twice have "distinct (map fst (placed items))" by simp
  with db' have "sh_rows lr db' = map (reordered (env_now env) tenant user (placed items)) ?old"
    by (simp add: rows_store reorder_rows_map)
  with reorder_sorted [OF assms(2) twice ids versions] rows current show thesis by (intro that [OF who]) auto
qed

end

subsection \<open>Canned responses and saved filters\<close>

interpretation canned_list: personal_list canned_rules saved
  by unfold_locales (simp_all add: canned_rules_def)

interpretation filter_list: personal_list "filter_rules env ctx" canned for env ctx
  by unfold_locales (simp_all add: filter_rules_def)

lemma list_rows [simp]: "sh_rows canned_rules = canned" "sh_rows (filter_rules env ctx) = saved"
  by (simp_all add: canned_rules_def filter_rules_def)

text \<open>A request of an analyst that may write to one of the lists.\<close>

inductive list_call :: "queue_env \<Rightarrow> request_context \<Rightarrow> queue_db \<Rightarrow> queue_db \<Rightarrow> bool" for env ctx where
  "create_canned_response env ctx name body key db = (r, db') \<Longrightarrow> list_call env ctx db db'"
| "update_canned_response env ctx i name body version db = (r, db') \<Longrightarrow> list_call env ctx db db'"
| "reorder_canned_responses env ctx items db = (r, db') \<Longrightarrow> list_call env ctx db db'"
| "delete_canned_response ctx i version db = (r, db') \<Longrightarrow> list_call env ctx db db'"
| "create_saved_filter env ctx name c key db = (r, db') \<Longrightarrow> list_call env ctx db db'"
| "update_saved_filter env ctx i name c version db = (r, db') \<Longrightarrow> list_call env ctx db db'"
| "reorder_saved_filters env ctx items db = (r, db') \<Longrightarrow> list_call env ctx db db'"
| "delete_saved_filter env ctx i version db = (r, db') \<Longrightarrow> list_call env ctx db db'"

definition lists_step :: "(string \<Rightarrow> string) \<Rightarrow> uuid \<Rightarrow> uuid \<Rightarrow> queue_db \<Rightarrow> queue_db \<Rightarrow> bool" where
  "lists_step low tenant user db db' \<longleftrightarrow> tidy low (canned db') \<and> tidy low (saved db')
     \<and> only_of tenant user (canned db) (canned db') \<and> only_of tenant user (saved db) (saved db')"

lemma lists_stepI:
  "canned_list.list_step low tenant user db db' \<Longrightarrow> tidy low (saved db) \<Longrightarrow> lists_step low tenant user db db'"
  "filter_list.list_step env ctx low tenant user db db' \<Longrightarrow> tidy low (canned db) \<Longrightarrow> lists_step low tenant user db db'"
  by (simp_all add: lists_step_def canned_list.list_step_def filter_list.list_step_def only_of_refl)

lemma canned_call:
  assumes "on_list ctx checked work db = (r, db')" "tidy low (canned db)" "tidy low (saved db)"
    and "\<And>tenant user v x db'. work tenant user v db = Inr (x, db') \<Longrightarrow> canned_list.list_step low tenant user db db'"
  shows "db' = db \<or> (\<exists>tenant user. queue_caller ctx TICKET_ANALYST_READ = Inr (tenant, user) \<and> lists_step low tenant user db db')"
  using canned_list.on_list_step [OF assms(1), of low] assms(2-4) lists_stepI(1) [OF _ assms(3)] by auto

lemma filter_call:
  assumes "on_list ctx checked work db = (r, db')" "tidy low (canned db)" "tidy low (saved db)"
    and "\<And>tenant user v x db'. work tenant user v db = Inr (x, db') \<Longrightarrow> filter_list.list_step env ctx low tenant user db db'"
  shows "db' = db \<or> (\<exists>tenant user. queue_caller ctx TICKET_ANALYST_READ = Inr (tenant, user) \<and> lists_step low tenant user db db')"
  using filter_list.on_list_step [OF assms(1), of low env ctx] assms(2-4) lists_stepI(2) [OF _ assms(2)] by auto

text \<open>C10: whatever an analyst does with canned responses and saved filters changes rows of theirs only, leaves the
  names of each analyst unique up to case, and counts the version of every row it changes; nobody else writes.\<close>

theorem personal_lists_private:
  assumes "list_call env ctx db db'" "tidy (env_lower env) (canned db)" "tidy (env_lower env) (saved db)"
  shows "db' = db \<or> (\<exists>tenant user. queue_caller ctx TICKET_ANALYST_READ = Inr (tenant, user)
    \<and> lists_step (env_lower env) tenant user db db')"
  using assms(1)
proof cases
  case (1 name body key r)
  show ?thesis
    by (rule canned_call [OF 1 [unfolded create_canned_response_def] assms(2,3)]) (erule canned_list.create_step, simp add: assms)
next
  case (2 i name body version r)
  show ?thesis
    by (rule canned_call [OF 2 [unfolded update_canned_response_def] assms(2,3)]) (erule canned_list.update_step, simp add: assms)
next
  case (3 items r)
  show ?thesis
    by (rule canned_call [OF 3 [unfolded reorder_canned_responses_def] assms(2,3)]) (erule canned_list.reorder_step, simp add: assms)
next
  case (4 i version r)
  show ?thesis
    by (rule canned_call [OF 4 [unfolded delete_canned_response_def] assms(2,3)]) (erule canned_list.delete_step, simp add: assms)
next
  case (5 name c key r)
  show ?thesis
    by (rule filter_call [OF 5 [unfolded create_saved_filter_def] assms(2,3)]) (erule filter_list.create_step, simp add: assms)
next
  case (6 i name c version r)
  show ?thesis
    by (rule filter_call [OF 6 [unfolded update_saved_filter_def] assms(2,3)]) (erule filter_list.update_step, simp add: assms)
next
  case (7 items r)
  show ?thesis
    by (rule filter_call [OF 7 [unfolded reorder_saved_filters_def] assms(2,3)]) (erule filter_list.reorder_step, simp add: assms)
next
  case (8 i version r)
  show ?thesis
    by (rule filter_call [OF 8 [unfolded delete_saved_filter_def] assms(2,3)]) (erule filter_list.delete_step, simp add: assms)
qed

text \<open>C11: an accepted order of the canned responses is the order in which they are listed from then on: the rows
  are those of the request in its order, at the positions 0, 10, 20 and so on, each one version later.\<close>

theorem reorder_is_the_order:
  assumes "reorder_canned_responses env ctx items db = (Inr rows, db')" "tidy (env_lower env) (canned db)"
  shows "canned_responses ctx db' = Inr rows \<and> map pe_id rows = map fst items
    \<and> map pe_version rows = map (\<lambda>(_, version). version + 1) items
    \<and> map pe_order rows = map (\<lambda>n. int n * 10) [0..<length items]"
proof -
  obtain tenant user where who: "queue_caller ctx TICKET_ANALYST_READ = Inr (tenant, user)"
    and answer: "personal_rows tenant user (canned db') = rows"
    and rows: "rows = map (\<lambda>(n, i, _). bumped (env_now env) (the (personal_row_with tenant user i (canned db)))\<lparr>pe_order := int n * 10\<rparr>)
        (enumerate 0 items)"
    and current: "\<And>i v. (i, v) \<in> set items \<Longrightarrow> \<exists>r. personal_row_with tenant user i (canned db) = Some r \<and> pe_id r = i \<and> pe_version r = v"
    by (rule canned_list.reorder_answer [OF assms(1) [unfolded reorder_canned_responses_def], of "env_lower env"])
      (simp_all add: assms(2))
  have item: "\<exists>r. personal_row_with tenant user (fst (snd x)) (canned db) = Some r \<and> pe_id r = fst (snd x) \<and> pe_version r = snd (snd x)"
    if "x \<in> set (enumerate 0 items)" for x
  proof -
    from that have "snd x \<in> set items" by (metis imageI list.set_map map_snd_enumerate)
    with current [of "fst (snd x)" "snd (snd x)"] show ?thesis by simp
  qed
  have "map pe_id rows = map (\<lambda>x. fst (snd x)) (enumerate 0 items)"
    using item by (fastforce simp: rows bumped_def)
  moreover have "map pe_version rows = map (\<lambda>x. snd (snd x) + 1) (enumerate 0 items)"
    using item by (fastforce simp: rows bumped_def)
  moreover have "map pe_order rows = map (\<lambda>n. int n * 10) (map fst (enumerate 0 items))"
    unfolding rows map_map by (rule map_cong [OF refl]) auto
  ultimately show ?thesis
    using map_enumerate [of fst 0 items] map_enumerate [of "\<lambda>y. snd y + 1" 0 items] who answer
    by (simp add: canned_responses_def list_personal_def case_prod_unfold del: map_map)
qed

end
