(* ===== verification/QueueSpec.thy ===== *)
theory QueueSpec
  imports TicketDemo Queues FilterSpec ShelfSpec
begin

text \<open>
  Laws of the queues: what a published filter selects, the pages of a queue, and who sees which comment.
\<close>

subsection \<open>Filters\<close>

text \<open>C6: the SQL condition that a published filter compiles to, with its parameters bound, has the truth value that
  the JSON document says, for every ticket and every analyst.\<close>

theorem compiled_filter_meaning:
  "compile_filter 0 v [] = Inr (c, ps)
     \<Longrightarrow> cond_holds row (bound_to ps) user group_ids c = filter_reads row user group_ids v"
  using compile_filter_reads(1) [of 0 v "[]" c ps row user group_ids] by (metis append_Nil2)

subsection \<open>The pages of a queue\<close>

record queue_listing =
  ql_env :: queue_env
  ql_context :: request_context
  ql_user :: uuid
  ql_queue :: queue_definition
  ql_search :: "string option"
  ql_choice :: filter_choice
  ql_db :: queue_db

text \<open>
  The conditions under which a request for the tickets of a queue has an answer; \<open>search\<close> is the search text
  of the choice after cleaning.
\<close>

definition queue_ready ::
  "queue_env \<Rightarrow> request_context \<Rightarrow> uuid \<Rightarrow> queue_definition \<Rightarrow> string option \<Rightarrow> filter_choice \<Rightarrow> queue_db \<Rightarrow> bool" where
  "queue_ready env ctx user q search c db \<longleftrightarrow> queue_caller ctx TICKET_ANALYST_READ = Inr (qd_tenant q, user)
     \<and> clean_search (fc_search c) = Inr search \<and> group_permitted ctx (fc_group c)
     \<and> the_queue (env_now env) ctx (qd_tenant q) (fc_queue c) db = Inr q \<and> sort_supported (qd_sort q)
     \<and> \<not> isl (compile_filter 0 (qd_filter q) []) \<and> fc_assignee c \<in> {None, Some ''me'', Some ''unassigned''}"

definition listing_ready :: "queue_listing \<Rightarrow> bool" where
  "listing_ready l \<longleftrightarrow> queue_ready (ql_env l) (ql_context l) (ql_user l) (ql_queue l) (ql_search l) (ql_choice l) (ql_db l)
     \<and> stored_times (queue_desk (ql_db l))"

definition listing_choice :: "queue_listing \<Rightarrow> filter_choice" where
  "listing_choice l = (ql_choice l)\<lparr>fc_search := ql_search l\<rparr>"

definition listing_rows :: "queue_listing \<Rightarrow> queue_ticket list" where
  "listing_rows l = (case projr (compile_filter 0 (qd_filter (ql_queue l)) []) of (cond, ps) \<Rightarrow>
     queue_rows_of (ql_env l) (ql_context l) (ql_user l) (ql_queue l) cond ps (listing_choice l) (ql_db l))"

lemma queue_ticket_same: "queue_ticket_of db t = Some k \<Longrightarrow> qt_row k = t"
  by (auto simp: queue_ticket_of_def split: option.splits)

lemma queue_tickets_same: "map qt_row (List.map_filter (queue_ticket_of db) ts) = filter (\<lambda>t. queue_ticket_of db t \<noteq> None) ts"
  by (induction ts) (auto simp: map_filter_simps dest: queue_ticket_same split: option.splits)

lemma queue_rows_from:
  "k \<in> set (queue_rows_of env ctx user q cond ps c db) \<Longrightarrow> qt_row k \<in> set (tickets (queue_case db))"
  "length (queue_rows_of env ctx user q cond ps c db) \<le> length (tickets (queue_case db))"
  "distinct (map t_id (tickets (queue_case db))) \<Longrightarrow> distinct (map queue_key (queue_rows_of env ctx user q cond ps c db))"
proof -
  let ?ts = "filter (\<lambda>t. in_reach (qd_tenant q) (support_group_ids ctx) (reads_all ctx) t \<and> t_project t = qd_project q) (tickets (queue_case db))"
  let ?ks = "List.map_filter (queue_ticket_of db) ?ts"
  note rows = queue_tickets_same [of db ?ts]
  show "k \<in> set (queue_rows_of env ctx user q cond ps c db) \<Longrightarrow> qt_row k \<in> set (tickets (queue_case db))"
    by (auto simp: queue_rows_of_def List.map_filter_def dest: queue_ticket_same)
  have "length ?ks \<le> length (tickets (queue_case db))"
    using arg_cong [OF rows, of length] length_filter_le by (simp del: filter_filter) (meson length_filter_le le_trans)
  then show "length (queue_rows_of env ctx user q cond ps c db) \<le> length (tickets (queue_case db))"
    unfolding queue_rows_of_def by (meson length_filter_le le_trans)
  assume "distinct (map t_id (tickets (queue_case db)))"
  then have "distinct (map t_id (map qt_row ?ks))" unfolding rows by (simp add: distinct_map inj_on_def)
  then have "distinct (map (\<lambda>k. t_id (qt_row k)) ?ks)" by (simp add: comp_def)
  then have "distinct (map (\<lambda>k. t_id (qt_row k)) (queue_rows_of env ctx user q cond ps c db))"
    unfolding queue_rows_of_def by (auto simp: distinct_map inj_on_def)
  then show "distinct (map queue_key (queue_rows_of env ctx user q cond ps c db))"
    by (auto simp: distinct_map inj_on_def queue_key_def)
qed

lemma queue_position_of:
  "datetime_range t \<Longrightarrow> queue_position env scope (Some (encode_queue_cursor scope t i)) = Inr (Some (t, i))"
  using utc_position [of t] by (simp add: queue_position_def decode_encode_queue_cursor) (simp add: utc_stamp_def)

lemma queue_position_None [simp]: "queue_position env scope None = Inr None"
  by (simp add: queue_position_def)

definition listing_page :: "queue_listing \<Rightarrow> nat \<Rightarrow> string option \<Rightarrow> app_error + queue_ticket list \<times> string option" where
  "listing_page l limit cursor = queue_tickets (ql_env l) (ql_context l) (ql_choice l) limit cursor (ql_db l)"

definition listing_cursor :: "queue_listing \<Rightarrow> queue_ticket \<Rightarrow> string" where
  "listing_cursor l k = encode_queue_cursor (queue_scope (ql_env l) (listing_choice l)) (fst (queue_key k)) (snd (queue_key k))"

lemma listing_page_cut:
  assumes "listing_ready l" "queue_position (ql_env l) (queue_scope (ql_env l) (listing_choice l)) cursor = Inr position"
  shows "listing_page l limit cursor = Inr (paged (listing_cursor l) limit (newest queue_key (limit + 1) position (listing_rows l)))"
proof -
  from assms(1) obtain cond ps where "compile_filter 0 (qd_filter (ql_queue l)) [] = Inr (cond, ps)"
    by (cases "compile_filter 0 (qd_filter (ql_queue l)) []") (auto simp: listing_ready_def queue_ready_def)
  with assms show ?thesis
    by (auto simp: listing_page_def listing_ready_def queue_ready_def queue_tickets_def validate_sort_def
        listing_rows_def listing_choice_def listing_cursor_def [abs_def] Let_def)
qed

lemma listing_rows_from:
  "k \<in> set (listing_rows l) \<Longrightarrow> qt_row k \<in> set (tickets (queue_case (ql_db l)))"
  "length (listing_rows l) \<le> length (tickets (queue_case (ql_db l)))"
  "distinct (map t_id (tickets (queue_case (ql_db l)))) \<Longrightarrow> distinct (map queue_key (listing_rows l))"
  by (auto simp: listing_rows_def queue_rows_from split: prod.splits)

lemma listing_position:
  assumes "listing_ready l" "k \<in> set (listing_rows l)"
  shows "queue_position (ql_env l) (queue_scope (ql_env l) (listing_choice l)) (Some (listing_cursor l k)) = Inr (Some (queue_key k))"
proof -
  from assms(2) have "qt_row k \<in> set (tickets (queue_case (ql_db l)))" by (rule listing_rows_from)
  with assms(1) have "datetime_range (t_created (qt_row k))" by (simp add: listing_ready_def stored_times_def)
  then show ?thesis by (simp add: listing_cursor_def queue_key_def queue_position_of)
qed

interpretation queue_list: keyset_pages "\<lambda>_ :: unit. listing_ready l" "\<lambda>_. listing_rows l" queue_key "listing_cursor l" "\<lambda>_ k. k"
    "\<lambda>_. listing_page l" for l
proof
  fix limit found next_cursor
  show "distinct (map queue_key (listing_rows l))" if "listing_ready l"
    using that by (intro listing_rows_from(3)) (simp add: listing_ready_def stored_times_def)
  show "listing_page l limit None = Inr (map (\<lambda>k. k) found, next_cursor)"
    if "listing_ready l" "paged (listing_cursor l) limit (newest queue_key (limit + 1) None (listing_rows l)) = (found, next_cursor)"
    using that by (simp add: listing_page_cut)
  show "listing_page l limit (Some (listing_cursor l r)) = Inr (map (\<lambda>k. k) found, next_cursor)"
    if "listing_ready l" "r \<in> set (listing_rows l)"
      "paged (listing_cursor l) limit (newest queue_key (limit + 1) (Some (queue_key r)) (listing_rows l)) = (found, next_cursor)" for r
    using that by (simp add: listing_page_cut listing_position)
qed

lemma listing_rows_chosen:
  assumes "listing_ready l"
  shows "k \<in> set (listing_rows l) \<longleftrightarrow> qt_row k \<in> set (tickets (queue_case (ql_db l)))
    \<and> queue_ticket_of (ql_db l) (qt_row k) = Some k
    \<and> in_reach (qd_tenant (ql_queue l)) (support_group_ids (ql_context l)) (reads_all (ql_context l)) (qt_row k)
    \<and> t_project (qt_row k) = qd_project (ql_queue l)
    \<and> filter_reads (queue_columns k) (ql_user l) (support_group_ids (ql_context l)) (qd_filter (ql_queue l)) = Some True
    \<and> matches_choice (ql_env l) (ql_user l) (listing_choice l) k"
proof -
  from assms obtain cond ps where run: "compile_filter 0 (qd_filter (ql_queue l)) [] = Inr (cond, ps)"
    by (cases "compile_filter 0 (qd_filter (ql_queue l)) []") (auto simp: listing_ready_def queue_ready_def)
  have "cond_holds (queue_columns k) (bound_to ps) (ql_user l) (support_group_ids (ql_context l)) cond
      = filter_reads (queue_columns k) (ql_user l) (support_group_ids (ql_context l)) (qd_filter (ql_queue l))"
    using compile_filter_reads(1) [OF run, of "queue_columns k" "ql_user l" "support_group_ids (ql_context l)"]
    by (metis append_Nil2)
  moreover have "k \<in> set (List.map_filter (queue_ticket_of db) ts) \<longleftrightarrow> qt_row k \<in> set ts \<and> queue_ticket_of db (qt_row k) = Some k"
    for db ts by (auto simp: set_map_filter dest: queue_ticket_same)
  ultimately show ?thesis by (auto simp only: listing_rows_def run sum.sel prod.case queue_rows_of_def set_filter mem_Collect_eq)
qed

lemma in_reach_iff: "in_reach tenant gs everything t \<longleftrightarrow>
    t_tenant t = tenant \<and> (everything \<or> t_group t = None \<or> t_group t \<in> Some ` set gs)"
  by (cases "t_group t") (auto simp: in_reach_def)

lemma matches_choice_iff:
  assumes "fc_assignee c \<in> {None, Some ''me'', Some ''unassigned''}"
  shows "matches_choice env user (c\<lparr>fc_search := search\<rparr>) k \<longleftrightarrow>
    fc_status c \<in> {None, Some (fst (qt_status k))} \<and> fc_priority c \<in> {None, Some (t_priority_code (qt_row k))}
    \<and> fc_group c \<in> {None, t_group (qt_row k)}
    \<and> (search = None \<or> env_matches env (the search) (t_key (qt_row k) @ '' '' @ t_summary (qt_row k)))
    \<and> (fc_assignee c = None \<or> fc_assignee c = Some ''me'' \<and> t_assignee (qt_row k) = Some user
       \<or> fc_assignee c = Some ''unassigned'' \<and> t_assignee (qt_row k) = None)"
  using assms by (cases "fc_status c"; cases "fc_priority c"; cases "fc_group c"; cases search) (auto simp: matches_choice_def)

text \<open>C7: an analyst who follows the cursors of a queue with any page size gets a page without a cursor after at most
  one page more than there are tickets, and has then seen, each once and newest first, exactly the tickets of the
  queue's project in their reach, of their tenant and unassigned or with one of their groups unless they may read
  all, for which the JSON of the published filter reads true and which have the status, the priority, the group,
  the search text and the assignee that they asked for.\<close>

theorem queue_walk:
  assumes "queue_ready env ctx user q search c db" "stored_times (queue_desk db)" "0 < limit"
    and "length (tickets (queue_case db)) < n"
  shows "\<exists>rows. walk_pages (\<lambda>cursor. queue_tickets env ctx c limit cursor db) n None = Some (Inr rows)
    \<and> sorted_wrt (\<lambda>a b. (t_created (qt_row b), t_id (qt_row b)) < (t_created (qt_row a), t_id (qt_row a))) rows
    \<and> set rows = {k. qt_row k \<in> set (tickets (queue_case db)) \<and> queue_ticket_of db (qt_row k) = Some k
        \<and> t_tenant (qt_row k) = qd_tenant q
        \<and> (reads_all ctx \<or> t_group (qt_row k) = None \<or> t_group (qt_row k) \<in> Some ` set (support_group_ids ctx))
        \<and> t_project (qt_row k) = qd_project q
        \<and> filter_reads (queue_columns k) user (support_group_ids ctx) (qd_filter q) = Some True
        \<and> fc_status c \<in> {None, Some (fst (qt_status k))} \<and> fc_priority c \<in> {None, Some (t_priority_code (qt_row k))}
        \<and> fc_group c \<in> {None, t_group (qt_row k)}
        \<and> (search = None \<or> env_matches env (the search) (t_key (qt_row k) @ '' '' @ t_summary (qt_row k)))
        \<and> (fc_assignee c = None \<or> fc_assignee c = Some ''me'' \<and> t_assignee (qt_row k) = Some user
           \<or> fc_assignee c = Some ''unassigned'' \<and> t_assignee (qt_row k) = None)}"
proof -
  let ?l = "\<lparr>ql_env = env, ql_context = ctx, ql_user = user, ql_queue = q, ql_search = search, ql_choice = c, ql_db = db\<rparr>"
  define rows where "rows = rev (sort_key queue_key (listing_rows ?l))"
  have ready: "listing_ready ?l" using assms(1,2) by (simp add: listing_ready_def)
  have "length (listing_rows ?l) < n" using listing_rows_from(2) [of ?l] assms(4) by simp
  then have "walk_pages (listing_page ?l limit) n None = Some (Inr rows)"
    using queue_list.walk_complete [of ?l limit n, unfolded queue_list.all_rows_def] assms(3) ready by (simp add: rows_def)
  moreover have "listing_page ?l limit = (\<lambda>cursor. queue_tickets env ctx c limit cursor db)"
    by (simp add: listing_page_def fun_eq_iff)
  moreover have "sorted_wrt (\<lambda>a b. queue_key b < queue_key a) rows"
    unfolding rows_def using assms(2) by (intro descending listing_rows_from(3)) (simp add: stored_times_def)
  moreover have "set rows = {k. k \<in> set (listing_rows ?l)}" by (simp add: rows_def)
  moreover have "fc_assignee c \<in> {None, Some ''me'', Some ''unassigned''}" using assms(1) by (simp add: queue_ready_def)
  note chosen = listing_rows_chosen [OF ready, unfolded listing_choice_def queue_listing.simps in_reach_iff
    matches_choice_iff [OF this] conj_assoc]
  ultimately show ?thesis unfolding queue_key_def chosen by (intro exI [of _ rows] conjI) simp_all
qed

subsection \<open>Timelines\<close>

lemma timeline_item:
  assumes "a \<in> set (timeline ticket include_internal db)"
  obtains (event) n e where "n < length (ticket_events (queue_case db))" "ticket_events (queue_case db) ! n = e"
      "ev_ticket e = ticket" "a = event_item db (n, e)" "include_internal \<or> event_class e = ''PUBLIC''"
    | (comment) t c where "t \<in> set (tickets (queue_case db))" "t_id t = ticket" "c \<in> set (comments (queue_case db))"
      "c_ticket c = ticket" "a = comment_item (t_tenant t) db c" "include_internal \<or> c_visibility c = ''PUBLIC''"
proof -
  from assms have "a \<in> snd ` {x \<in> set (event_items ticket db) \<union> set (comment_items ticket db). include_internal \<or> ay_class (snd x) = ''PUBLIC''}"
    by (force simp: timeline_def dest!: in_set_takeD)
  then obtain k where k: "(k, a) \<in> set (event_items ticket db) \<union> set (comment_items ticket db)"
    "include_internal \<or> ay_class a = ''PUBLIC''" by force
  then consider "(k, a) \<in> set (event_items ticket db)" | "(k, a) \<in> set (comment_items ticket db)" by blast
  then show thesis
  proof cases
    case 1
    with k(2) show thesis
      by (auto simp: event_items_def Let_def in_set_enumerate_eq event_item_def intro!: event)
  next
    case 2
    then obtain t where t: "find (\<lambda>t. t_id t = ticket) (tickets (queue_case db)) = Some t"
      by (cases "find (\<lambda>t. t_id t = ticket) (tickets (queue_case db))") (simp_all add: comment_items_def)
    with 2 obtain c where c: "c \<in> set (comments (queue_case db))" "c_ticket c = ticket" "a = comment_item (t_tenant t) db c"
      by (auto simp: comment_items_def Let_def)
    from find_Some_in [OF t] c k(2) show thesis by (intro comment [of t c]) (auto simp: comment_item_def)
  qed
qed

lemma timeline_sorted: "sorted (map ay_created (timeline ticket include_internal db))" "length (timeline ticket include_internal db) \<le> 500"
proof -
  define xs where "xs = filter (\<lambda>(_, a). include_internal \<or> ay_class a = ''PUBLIC'') (event_items ticket db @ comment_items ticket db)"
  have time: "fst (fst x) = ay_created (snd x)" if "x \<in> set xs" for x
    using that by (auto simp: xs_def event_items_def comment_items_def Let_def split: option.splits)
  have "sorted (map fst (sort_key fst xs))" by simp
  then have "sorted (map fst (map fst (sort_key fst xs)))"
    by (auto simp: sorted_map elim!: sorted_wrt_mono_rel [rotated])
  moreover have "map fst (map fst (sort_key fst xs)) = map ay_created (map snd (sort_key fst xs))"
    unfolding map_map by (rule map_cong) (simp_all add: time)
  ultimately have "sorted (map ay_created (map snd (sort_key fst xs)))" by (simp only:)
  then show "sorted (map ay_created (timeline ticket include_internal db))"
    unfolding timeline_def xs_def [symmetric] take_map [symmetric] by (rule sorted_wrt_take)
qed (simp add: timeline_def)

text \<open>C9: what an employee reads of a ticket they reported or that was requested for them is at most five hundred
  items in the order of time, each of them the creation or a change of status of that ticket or one of its public
  comments.\<close>

theorem customer_timeline_public:
  assumes "customer_timeline ctx key db = Inr items"
  shows "\<exists>tenant user t. queue_caller ctx TICKET_READ_OWN = Inr (tenant, user) \<and> t \<in> set (tickets (queue_case db))
    \<and> concerns tenant user t \<and> t_key t = key \<and> length items \<le> 500 \<and> sorted (map ay_created items)
    \<and> (\<forall>a\<in>set items.
         (\<exists>n e. n < length (ticket_events (queue_case db)) \<and> ticket_events (queue_case db) ! n = e \<and> ev_ticket e = t_id t
            \<and> ev_type e \<in> {''TICKET_CREATED'', ''STATUS_CHANGED''} \<and> a = event_item db (n, e))
       \<or> (\<exists>c\<in>set (comments (queue_case db)). c_ticket c = t_id t \<and> c_visibility c = ''PUBLIC''
            \<and> ay_body a = Some (c_body c) \<and> ay_actor a = Some (c_author c)))"
proof -
  from assms obtain tenant user v where who: "queue_caller ctx TICKET_READ_OWN = Inr (tenant, user)"
    and v: "ticket_by_key tenant user key (queue_desk db) = Some v" and items: "items = timeline (t_id (tv_ticket v)) False db"
    by (auto simp: customer_timeline_def rbind_Inr_iff)
  from v have "v \<in> set (views_where (\<lambda>t. concerns tenant user t \<and> t_key t = key) (queue_desk db))"
    by (auto simp: ticket_by_key_def first_row_def split: list.splits)
  then have t: "tv_ticket v \<in> set (tickets (queue_case db))" "concerns tenant user (tv_ticket v)" "t_key (tv_ticket v) = key"
    by (auto simp: views_where_def List.map_filter_def dest: view_of_same)
  have "(\<exists>n e. n < length (ticket_events (queue_case db)) \<and> ticket_events (queue_case db) ! n = e \<and> ev_ticket e = t_id (tv_ticket v)
            \<and> ev_type e \<in> {''TICKET_CREATED'', ''STATUS_CHANGED''} \<and> a = event_item db (n, e))
       \<or> (\<exists>c\<in>set (comments (queue_case db)). c_ticket c = t_id (tv_ticket v) \<and> c_visibility c = ''PUBLIC''
            \<and> ay_body a = Some (c_body c) \<and> ay_actor a = Some (c_author c))" if "a \<in> set items" for a
    using that unfolding items
  proof (cases rule: timeline_item)
    case (event n e)
    then show ?thesis by (intro disjI1 exI [of _ n]) (auto simp: event_class_def split: if_splits)
  next
    case (comment t c)
    then show ?thesis by (intro disjI2 bexI [of _ c]) (auto simp: comment_item_def)
  qed
  with who t show ?thesis
    by (intro exI [of _ tenant] exI [of _ user] exI [of _ "tv_ticket v"]) (simp add: items timeline_sorted)
qed

text \<open>Writes that add internal comments, their events, audit rows and records of requests only.\<close>

definition hidden_case :: "helpdesk_db \<Rightarrow> helpdesk_db \<Rightarrow> bool" where
  "hidden_case c c' \<longleftrightarrow> tickets c' = tickets c \<and> users c' = users c \<and> statuses c' = statuses c \<and> outbox_events c' = outbox_events c
     \<and> (\<exists>cs. comments c' = comments c @ cs \<and> list_all (\<lambda>c. c_visibility c = ''INTERNAL'') cs)
     \<and> (\<exists>es. ticket_events c' = ticket_events c @ es \<and> list_all (\<lambda>e. ev_type e = ''INTERNAL_COMMENT_ADDED'') es)"

definition hidden_writes :: "queue_db \<Rightarrow> queue_db \<Rightarrow> bool" where
  "hidden_writes db db' \<longleftrightarrow> hidden_case (queue_case db) (queue_case db')
     \<and> desk_catalogue (queue_desk db') = desk_catalogue (queue_desk db) \<and> event_times db' = event_times db"

interpretation hidden: history hidden_case
proof
  show "hidden_case c c" for c by (simp add: hidden_case_def)
  show "hidden_case c c'' " if "hidden_case c c'" "hidden_case c' c''" for c c' c''
    using that by (auto simp: hidden_case_def)
qed

interpretation hidden_db: history hidden_writes
  by unfold_locales (auto simp: hidden_writes_def intro: hidden.refl hidden.trans)

lemma hidden_lift: "keeps hidden_case m \<Longrightarrow> keeps hidden_writes (on_queue_case m)"
  by (auto simp: keeps_def on_queue_case_def on_case_def hidden_writes_def split: sum.splits prod.splits)

lemma hidden_steps:
  "keeps hidden_case (write_comment now ctx tenant ticket actor ''INTERNAL'' body)"
  "keeps hidden_case (claim_checked tenant user op k h)"
  "keeps hidden_case (complete_idempotency i r payload)"
proof -
  show "keeps hidden_case (write_comment now ctx tenant ticket actor ''INTERNAL'' body)"
    by (auto simp: keeps_def write_comment_def bindS_Inr_iff draw_uuid_def insert_event_def insert_audit_def whenS_def hidden_case_def)
  show "keeps hidden_case (claim_checked tenant user op k h)"
    by (auto simp: keeps_def claim_checked_def claim_idempotency_def Let_def bindS_Inr_iff hidden_case_def split: option.splits if_splits)
  show "keeps hidden_case (complete_idempotency i r payload)"
    by (auto simp: keeps_def complete_idempotency_def hidden_case_def)
qed

lemma analyst_comment_writes:
  assumes "analyst_comment env ctx key ''INTERNAL'' body ikey db = (r, db')"
  shows "hidden_writes db db'"
proof -
  have work: "keeps hidden_writes (analyst_comment_work env ctx tenant user key ''INTERNAL'' body ikey)" for tenant user body
    unfolding analyst_comment_work_def
    by (intro hidden_db.keeps_bindS hidden_db.keeps_if hidden_db.keeps_getS hidden_db.keeps_liftS hidden_db.keeps_ret
        hidden_lift hidden_steps)
  from assms consider "db' = db" | tenant user body' x
    where "analyst_comment_work env ctx tenant user key ''INTERNAL'' body' ikey db = Inr (x, db')"
    by (auto simp: analyst_comment_def run_uow_def bindS_def split: sum.splits prod.splits)
  then show ?thesis
  proof cases
    case 1
    then show ?thesis by (simp add: hidden_db.refl)
  next
    case 2
    with work show ?thesis by (blast dest: keepsD)
  qed
qed

lemma enumerate_append: "enumerate k (xs @ ys) = enumerate k xs @ enumerate (k + length xs) ys"
  by (induction xs arbitrary: k) simp_all

lemma hidden_timeline:
  assumes "hidden_writes db db'"
  shows "customer_timeline reader ticket_key db' = customer_timeline reader ticket_key db"
proof -
  from assms have same: "tickets (queue_case db') = tickets (queue_case db)" "users (queue_case db') = users (queue_case db)"
    "statuses (queue_case db') = statuses (queue_case db)" "event_times db' = event_times db"
    "desk_catalogue (queue_desk db') = desk_catalogue (queue_desk db)" by (simp_all add: hidden_writes_def hidden_case_def)
  from assms obtain cs es where cs: "comments (queue_case db') = comments (queue_case db) @ cs" "list_all (\<lambda>c. c_visibility c = ''INTERNAL'') cs"
    and es: "ticket_events (queue_case db') = ticket_events (queue_case db) @ es" "list_all (\<lambda>e. ev_type e = ''INTERNAL_COMMENT_ADDED'') es"
    by (auto simp: hidden_writes_def hidden_case_def)
  have names: "name_within tenant i db' = name_within tenant i db" for tenant i by (simp add: name_within_def same)
  have items: "event_item db' = event_item db" "comment_item tenant db' = comment_item tenant db" for tenant
    by (simp_all add: event_item_def comment_item_def names same fun_eq_iff)
  have "filter (\<lambda>(_, e). ev_ticket e = ticket \<and> ev_type e \<notin> {''PUBLIC_COMMENT_ADDED'', ''INTERNAL_COMMENT_ADDED''}) (enumerate k es) = []"
    for ticket k using es(2) by (auto simp: filter_empty_conv list_all_length in_set_enumerate_eq)
  then have events: "event_items ticket db' = event_items ticket db" for ticket
    unfolding event_items_def items by (simp add: es(1) enumerate_append)
  have "filter (\<lambda>(_, a). ay_class a = ''PUBLIC'') (map (\<lambda>c. let a = comment_item tenant db c in ((ay_created a, 0 :: nat, ay_id a), a))
      (filter p cs)) = []" for tenant p
    using cs(2) by (auto simp: filter_empty_conv list_all_iff Let_def comment_item_def)
  then have "filter (\<lambda>(_, a). ay_class a = ''PUBLIC'') (comment_items ticket db')
    = filter (\<lambda>(_, a). ay_class a = ''PUBLIC'') (comment_items ticket db)" for ticket
    unfolding comment_items_def items by (simp add: cs(1) same split: option.split)
  with events have "timeline ticket False db' = timeline ticket False db" for ticket by (simp add: timeline_def)
  moreover have "view_of_ticket (queue_desk db') = view_of_ticket (queue_desk db)"
  proof -
    have "user_name u (queue_desk db') = user_name u (queue_desk db)" for u by (simp add: user_name_def same)
    then show ?thesis by (intro ext) (simp only: view_of_ticket_def same)
  qed
  then have "ticket_by_key tenant user k (queue_desk db') = ticket_by_key tenant user k (queue_desk db)" for tenant user k
    by (simp add: ticket_by_key_def views_where_def same)
  ultimately show ?thesis by (simp add: customer_timeline_def)
qed

lemma hidden_reads:
  assumes "hidden_writes db db'"
  shows "views_where p (queue_desk db') = views_where p (queue_desk db)"
    and "public_comments ticket (queue_desk db') = public_comments ticket (queue_desk db)"
proof -
  from assms have same: "tickets (queue_case db') = tickets (queue_case db)" "users (queue_case db') = users (queue_case db)"
    "statuses (queue_case db') = statuses (queue_case db)"
    "desk_catalogue (queue_desk db') = desk_catalogue (queue_desk db)" by (simp_all add: hidden_writes_def hidden_case_def)
  from assms obtain cs where cs: "comments (queue_case db') = comments (queue_case db) @ cs" "list_all (\<lambda>c. c_visibility c = ''INTERNAL'') cs"
    by (auto simp: hidden_writes_def hidden_case_def)
  have name: "user_name u (queue_desk db') = user_name u (queue_desk db)" for u by (simp add: user_name_def same)
  then have "view_of_ticket (queue_desk db') = view_of_ticket (queue_desk db)"
    by (intro ext) (simp only: view_of_ticket_def same)
  then show "views_where p (queue_desk db') = views_where p (queue_desk db)" by (simp add: views_where_def same)
  have "filter (\<lambda>c. c_ticket c = ticket \<and> c_visibility c = ''PUBLIC'') cs = []"
    using cs(2) by (auto simp: filter_empty_conv list_all_iff)
  then show "public_comments ticket (queue_desk db') = public_comments ticket (queue_desk db)"
    by (simp add: public_comments_def cs(1) name)
qed

text \<open>C8: a comment that an analyst writes as internal changes nothing of what any employee reads, neither the timeline
  of a ticket, nor the ticket with its comments, nor any page of the list of their tickets, and sends no message.\<close>

theorem internal_comment_hidden:
  assumes "analyst_comment env ctx key ''INTERNAL'' body ikey db = (r, db')"
  shows "customer_timeline reader ticket_key db' = customer_timeline reader ticket_key db
    \<and> get_ticket reader ticket_key (queue_desk db') = get_ticket reader ticket_key (queue_desk db)
    \<and> my_tickets denv reader limit cursor (queue_desk db') = my_tickets denv reader limit cursor (queue_desk db)
    \<and> outbox_events (queue_case db') = outbox_events (queue_case db)"
proof -
  from analyst_comment_writes [OF assms] have w: "hidden_writes db db'" .
  then have "outbox_events (queue_case db') = outbox_events (queue_case db)" by (simp add: hidden_writes_def hidden_case_def)
  moreover have "get_ticket reader ticket_key (queue_desk db') = get_ticket reader ticket_key (queue_desk db)"
    by (simp add: get_ticket_def ticket_by_key_def answer_of_def hidden_reads [OF w])
  moreover have "my_tickets denv reader limit cursor (queue_desk db') = my_tickets denv reader limit cursor (queue_desk db)"
    by (simp add: my_tickets_def tickets_query_def answer_of_def hidden_reads [OF w])
  ultimately show ?thesis using hidden_timeline [OF w] by simp
qed

text \<open>Messages that a unit of work adds are announcements of an analyst's response.\<close>

definition announces :: "helpdesk_db \<Rightarrow> helpdesk_db \<Rightarrow> bool" where
  "announces c c' \<longleftrightarrow> (\<exists>ms. outbox_events c' = outbox_events c @ ms
     \<and> list_all (\<lambda>m. ob_type m = ''NOTIFY_AGENT_PUBLIC_RESPONSE_ADDED'') ms)"

definition announces_db :: "queue_db \<Rightarrow> queue_db \<Rightarrow> bool" where
  "announces_db db db' \<longleftrightarrow> announces (queue_case db) (queue_case db')"

interpretation announcing: history announces_db
  by unfold_locales (auto simp: announces_db_def announces_def)

lemma announcing_lift: "keeps announces m \<Longrightarrow> keeps announces_db (on_queue_case m)"
  by (auto simp: keeps_def on_queue_case_def on_case_def announces_db_def split: sum.splits prod.splits)

lemma announcing_steps:
  "keeps announces (write_comment now ctx tenant ticket actor visibility body)"
  "keeps announces (claim_checked tenant user op k h)"
  "keeps announces (complete_idempotency i r payload)"
proof -
  show "keeps announces (write_comment now ctx tenant ticket actor visibility body)"
    by (auto simp: keeps_def write_comment_def bindS_Inr_iff draw_uuid_def insert_event_def insert_audit_def insert_outbox_def
        whenS_def announces_def split: if_splits)
  show "keeps announces (claim_checked tenant user op k h)"
    by (auto simp: keeps_def claim_checked_def claim_idempotency_def Let_def bindS_Inr_iff announces_def split: option.splits if_splits)
  show "keeps announces (complete_idempotency i r payload)"
    by (auto simp: keeps_def complete_idempotency_def announces_def)
qed

text \<open>C12: a comment of an analyst, public or not, puts at most announcements on the outbox. The message that would
  stop the first-response clock is never among them, unlike for a public comment through the ticket service.\<close>

theorem analyst_comment_keeps_clock:
  assumes "analyst_comment env ctx key visibility body ikey db = (r, db')"
  shows "announces (queue_case db) (queue_case db')"
proof -
  have work: "keeps announces_db (analyst_comment_work env ctx tenant user key visibility body ikey)" for tenant user body
    unfolding analyst_comment_work_def
    by (intro announcing.keeps_bindS announcing.keeps_if announcing.keeps_getS announcing.keeps_liftS announcing.keeps_ret
        announcing_lift announcing_steps)
  from assms consider "db' = db" | tenant user body' x
    where "analyst_comment_work env ctx tenant user key visibility body' ikey db = Inr (x, db')"
    by (auto simp: analyst_comment_def run_uow_def bindS_def split: sum.splits prod.splits)
  then show ?thesis
  proof cases
    case 1
    then show ?thesis using announcing.refl by (simp add: announces_db_def)
  next
    case 2
    from keepsD [OF work this] show ?thesis by (simp add: announces_db_def)
  qed
qed

end
