(* ===== verification/QueueDemo.thy ===== *)
theory QueueDemo
  imports QueueSpec
begin

text \<open>
  An analyst with two canned responses and one published queue, at which the properties of the queues are applied.
\<close>

definition demo_canned :: "uuid \<Rightarrow> string \<Rightarrow> int \<Rightarrow> string personal_row" where
  "demo_canned i name order = \<lparr>pe_id = i, pe_tenant = 9, pe_owner = 7, pe_name = name, pe_data = ''Thanks'', pe_order = order,
     pe_version = 1, pe_created = 0, pe_updated = 0\<rparr>"

definition demo_filter :: pyval where
  "demo_filter = PDict [(''all'', PList [
     PDict [(''field'', PStr ''priority_code''), (''operator'', PStr ''equals''), (''value'', PStr ''P2'')],
     PDict [(''any'', PList [PDict [(''field'', PStr ''assignee_user_id''), (''operator'', PStr ''is_null'')],
       PDict [(''field'', PStr ''status_code''), (''operator'', PStr ''in''), (''value'', PList [PStr ''NEW''])]])]])]"

definition demo_sort :: pyval where
  "demo_sort = PList [PDict [(''field'', PStr ''created_at''), (''direction'', PStr ''DESC'')]]"

definition demo_queues :: queue_db where
  "demo_queues = \<lparr>queue_desk = demo_desk demo_db demo_catalogue, canned = [demo_canned 201 ''Hello'' 0, demo_canned 202 ''Bye'' 10],
     saved = [], queue_rows = [\<lparr>qr_id = 300, qr_tenant = 9, qr_project = 8, qr_name = ''All'', qr_description = None, qr_order = 1,
       qr_active = True\<rparr>],
     queue_versions = [\<lparr>qv_id = 301, qv_queue = 300, qv_number = 1, qv_status = ''PUBLISHED'', qv_published = Some 0,
       qv_from = None, qv_to = None, qv_filter = demo_filter, qv_sort = demo_sort,
       qv_columns = PList [PStr ''ticket_key''], qv_visibility = ''ALL_AGENTS'', qv_group = None\<rparr>],
     priority_codes = [''P2''], sla_targets = [], event_times = (\<lambda>_. 0)\<rparr>"

definition demo_queue_env :: queue_env where
  "demo_queue_env = \<lparr>env_now = 1000000, env_wall = 1000000, env_digest = (\<lambda>_. ''digest''), env_text_digest = id,
     env_float = (\<lambda>_. ''0''), env_local = instant_of, env_lower = id, env_matches = (\<lambda>_ _. True)\<rparr>"

definition demo_choice :: filter_choice where
  "demo_choice = \<lparr>fc_queue = 300, fc_status = None, fc_priority = None, fc_search = None, fc_group = None, fc_assignee = None\<rparr>"

lemma demo_queue_env_simps [simp]: "env_now demo_queue_env = 1000000" "env_lower demo_queue_env = id"
  by (simp_all add: demo_queue_env_def)

lemma demo_analyst [simp]:
  "p \<in> {TICKET_ANALYST_READ, TICKET_COMMENT_INTERNAL, TICKET_COMMENT_PUBLIC} \<Longrightarrow> is_allowed (demo_context u ''AGENT'') p None"
  "p = TICKET_ANALYST_READ \<Longrightarrow> queue_caller (demo_context u ''AGENT'') p = Inr (9, u)"
  "queue_caller (demo_context u ''CUSTOMER'') TICKET_READ_OWN = Inr (9, u)"
  by (auto simp: queue_caller_def identity_or_def is_allowed_iff is_authenticated_def
      demo_context_def role_grants_def role_permissions_def grant_to_def initial_role_codes_def base_permissions_def)

subsection \<open>Lists\<close>

definition demo_reordered :: queue_db where
  "demo_reordered = demo_queues\<lparr>canned := [(demo_canned 201 ''Hello'' 10)\<lparr>pe_version := 2, pe_updated := 1000000\<rparr>,
     (demo_canned 202 ''Bye'' 0)\<lparr>pe_version := 2, pe_updated := 1000000\<rparr>]\<rparr>"

lemma demo_tidy: "tidy id (canned demo_queues)" "tidy id (saved demo_queues)"
  by (simp_all add: tidy_def demo_queues_def demo_canned_def)

lemma demo_order: "personal_rows 9 7 (canned demo_queues) = [demo_canned 201 ''Hello'' 0, demo_canned 202 ''Bye'' 10]"
  by (simp add: personal_rows_def owned_by_def demo_queues_def demo_canned_def)

lemma demo_current: "order_current canned_rules [(202, 1), (201, 1)] [demo_canned 201 ''Hello'' 0, demo_canned 202 ''Bye'' 10] = Inr ()"
  by (simp add: order_current_def demo_canned_def insert_commute)

lemma demo_reorder: "\<exists>rows. reorder_canned_responses demo_queue_env (demo_context 7 ''AGENT'') [(202, 1), (201, 1)] demo_queues
    = (Inr rows, demo_reordered)"
  by (simp add: reorder_canned_responses_def on_list_def in_order_def run_uow_def reorder_work_def demo_order demo_current
      bindS_def reorder_personal_def placed_def)
    (simp add: canned_rules_def owned_by_def demo_queues_def demo_canned_def edit_where_def at_version_def bumped_def
      demo_reordered_def)

theorem personal_lists_private_witness:
  "lists_step id 9 7 demo_queues demo_reordered"
proof -
  from demo_reorder obtain rows where "reorder_canned_responses demo_queue_env (demo_context 7 ''AGENT'') [(202, 1), (201, 1)] demo_queues
    = (Inr rows, demo_reordered)" by blast
  then have "list_call demo_queue_env (demo_context 7 ''AGENT'') demo_queues demo_reordered" by (rule list_call.intros)
  from personal_lists_private [OF this] demo_tidy
  have "demo_reordered = demo_queues \<or> lists_step id 9 7 demo_queues demo_reordered" by auto
  moreover have "demo_reordered \<noteq> demo_queues" by (simp add: demo_reordered_def demo_queues_def demo_canned_def)
  ultimately show ?thesis by blast
qed

theorem reorder_is_the_order_witness:
  "\<exists>rows. canned_responses (demo_context 7 ''AGENT'') demo_reordered = Inr rows \<and> map pe_id rows = [202, 201]
     \<and> map pe_order rows = [0, 10]"
proof -
  from demo_reorder obtain rows where "reorder_canned_responses demo_queue_env (demo_context 7 ''AGENT'') [(202, 1), (201, 1)] demo_queues
    = (Inr rows, demo_reordered)" by blast
  from reorder_is_the_order [OF this] demo_tidy(1) show ?thesis by (auto simp: upt_rec)
qed

subsection \<open>The queue\<close>

definition demo_cond :: queue_cond where
  "demo_cond = CondAll [CondEquals PriorityField ''queue_filter_0'', CondAny [CondNull AssigneeField, CondIn StatusField ''queue_filter_1'']]"

lemma demo_compiled: "compile_filter 0 demo_filter [] = Inr (demo_cond, [PStr ''P2'', PList [PStr ''NEW'']])"
  by code_simp

theorem compiled_filter_meaning_witness:
  "cond_holds (\<lambda>f. if f = PriorityField then Some ''P2'' else None) (bound_to [PStr ''P2'', PList [PStr ''NEW'']]) 7 [60] demo_cond
    = filter_reads (\<lambda>f. if f = PriorityField then Some ''P2'' else None) 7 [60] demo_filter"
  by (rule compiled_filter_meaning [OF demo_compiled])

definition demo_queue :: queue_definition where
  "demo_queue = \<lparr>qd_id = 300, qd_version = 301, qd_tenant = 9, qd_project = 8, qd_project_code = ''HR'', qd_name = ''All'',
     qd_description = None, qd_filter = demo_filter, qd_sort = demo_sort, qd_columns = PList [PStr ''ticket_key''],
     qd_visibility = ''ALL_AGENTS'', qd_group = None, qd_order = 1\<rparr>"

lemma demo_the_queue: "the_queue 1000000 (demo_context 7 ''AGENT'') 9 300 demo_queues = Inr demo_queue"
  by code_simp

lemma demo_ready: "queue_ready demo_queue_env (demo_context 7 ''AGENT'') 7 demo_queue None demo_choice demo_queues"
  using demo_the_queue demo_compiled
  by (simp add: queue_ready_def demo_choice_def demo_queue_def clean_search_def group_permitted_def sort_supported_def demo_sort_def)

lemma demo_bound: "bound_to [PStr ''P2'', PList [PStr ''NEW'']] ''queue_filter_0'' = Some (PStr ''P2'')"
  "bound_to [PStr ''P2'', PList [PStr ''NEW'']] ''queue_filter_1'' = Some (PList [PStr ''NEW''])"
  by code_simp+

lemma demo_member: "\<exists>k. queue_ticket_of demo_queues (demo_ticket 1 ''HR-1'' 24) = Some k \<and> qt_row k = demo_ticket 1 ''HR-1'' 24
    \<and> filter_reads (queue_columns k) 7 (support_group_ids (demo_context 7 ''AGENT'')) demo_filter = Some True"
proof -
  have "filter_reads row 7 gs demo_filter = cond_holds row (bound_to [PStr ''P2'', PList [PStr ''NEW'']]) 7 gs demo_cond" for row gs
    using compile_filter_reads(1) [OF demo_compiled, of row 7 gs] by (metis append_Nil2)
  then show ?thesis
    by (simp add: demo_queues_def demo_desk_def demo_db_def demo_ticket_def queue_ticket_of_def name_within_def demo_catalogue_def
        demo_status_def demo_user_def first_target_def demo_cond_def demo_bound queue_columns_def texts_of_def List.map_filter_def)
qed

theorem queue_walk_witness:
  "\<exists>rows. walk_pages (\<lambda>cursor. queue_tickets demo_queue_env (demo_context 7 ''AGENT'') demo_choice 1 cursor demo_queues) 3 None
      = Some (Inr rows) \<and> demo_ticket 1 ''HR-1'' 24 \<in> qt_row ` set rows"
proof -
  have "stored_times (queue_desk demo_queues)" "length (tickets (queue_case demo_queues)) < 3"
    by (simp_all add: demo_queues_def stored_times_def demo_desk_def demo_db_def demo_ticket_def datetime_range_def)
  from queue_walk [OF demo_ready this(1) zero_less_one this(2)] obtain rows where
    rows: "walk_pages (\<lambda>cursor. queue_tickets demo_queue_env (demo_context 7 ''AGENT'') demo_choice 1 cursor demo_queues) 3 None
      = Some (Inr rows)" and chosen: "k \<in> set rows \<longleftrightarrow> qt_row k \<in> set (tickets (queue_case demo_queues))
        \<and> queue_ticket_of demo_queues (qt_row k) = Some k \<and> t_tenant (qt_row k) = 9
        \<and> (reads_all (demo_context 7 ''AGENT'') \<or> t_group (qt_row k) = None
          \<or> t_group (qt_row k) \<in> Some ` set (support_group_ids (demo_context 7 ''AGENT'')))
        \<and> t_project (qt_row k) = 8
        \<and> filter_reads (queue_columns k) 7 (support_group_ids (demo_context 7 ''AGENT'')) demo_filter = Some True" for k
    by (auto simp: demo_queue_def demo_choice_def)
  from demo_member obtain k where "queue_ticket_of demo_queues (demo_ticket 1 ''HR-1'' 24) = Some k" "qt_row k = demo_ticket 1 ''HR-1'' 24"
    "filter_reads (queue_columns k) 7 (support_group_ids (demo_context 7 ''AGENT'')) demo_filter = Some True" by blast
  with chosen [of k] have "k \<in> set rows"
    by (simp add: demo_queues_def demo_desk_def demo_db_def) (simp add: demo_ticket_def)
  with rows \<open>qt_row k = demo_ticket 1 ''HR-1'' 24\<close> show ?thesis by force
qed

subsection \<open>Comments\<close>

definition demo_talk :: queue_db where
  "demo_talk = demo_queues\<lparr>queue_desk := demo_desk (demo_db\<lparr>
     comments := [\<lparr>c_id = 401, c_ticket = 1, c_author = 7, c_body = ''Hello'', c_visibility = ''PUBLIC'', c_created = 5,
         c_channel = ''API''\<rparr>,
       \<lparr>c_id = 402, c_ticket = 1, c_author = 7, c_body = ''Odd'', c_visibility = ''INTERNAL'', c_created = 6, c_channel = ''API''\<rparr>],
     ticket_events := [\<lparr>ev_tenant = 9, ev_ticket = 1, ev_type = ''TICKET_CREATED'', ev_actor_type = ''USER'', ev_actor = 2,
       ev_data = []\<rparr>]\<rparr>) demo_catalogue\<rparr>"

lemma demo_seen: "\<exists>v. ticket_by_key 9 2 ''HR-1'' (queue_desk demo_talk) = Some v \<and> tv_ticket v = demo_ticket 1 ''HR-1'' 24"
  by (simp add: ticket_by_key_def views_where_def concerns_def demo_talk_def demo_desk_def demo_db_def demo_ticket_def first_row_def
      List.map_filter_def view_of_ticket_def demo_catalogue_def demo_status_def user_name_def demo_user_def Let_def)

lemma demo_timeline: "map ay_type (timeline 1 False demo_talk) = [''TICKET_CREATED'', ''COMMENT'']"
  by (simp add: timeline_def event_items_def comment_items_def demo_talk_def demo_desk_def demo_db_def demo_ticket_def
      event_item_def comment_item_def event_class_def demo_queues_def Let_def)

lemma demo_read: "\<exists>items. customer_timeline (demo_context 2 ''CUSTOMER'') ''HR-1'' demo_talk = Inr items \<and> map ay_type items = [''TICKET_CREATED'', ''COMMENT'']"
  using demo_seen demo_timeline by (auto simp: customer_timeline_def demo_ticket_def)

theorem customer_timeline_public_witness:
  "\<exists>items. customer_timeline (demo_context 2 ''CUSTOMER'') ''HR-1'' demo_talk = Inr items \<and> items \<noteq> []
     \<and> length items \<le> 500 \<and> sorted (map ay_created items)"
  using demo_read customer_timeline_public [of "demo_context 2 ''CUSTOMER''" "''HR-1''" demo_talk] by fastforce

lemma demo_internal: "\<exists>a db'. analyst_comment demo_queue_env (demo_context 7 ''AGENT'') ''HR-1'' v '' Look. '' ''k'' demo_queues = (Inr (a, False), db')"
  if "v \<in> {''INTERNAL'', ''PUBLIC''}"
proof -
  obtain w where "analyst_by_key 9 [60] (reads_all (demo_context 7 ''AGENT'')) ''HR-1'' (queue_desk demo_queues) = Some w"
    "tv_ticket w = demo_ticket 1 ''HR-1'' 24"
    by (simp add: analyst_by_key_def views_where_def in_reach_def demo_queues_def demo_desk_def demo_db_def demo_ticket_def first_row_def
      List.map_filter_def view_of_ticket_def demo_catalogue_def demo_status_def user_name_def demo_user_def Let_def)
  moreover have "py_strip '' Look. '' = ''Look.''" by code_simp
  ultimately show ?thesis using that
    by (auto simp: analyst_comment_def comment_permission_def analyst_comment_work_def shared_steps write_comment_def whenS_def
        on_queue_case_def on_case_def comment_activity_def demo_queue_env_def demo_queues_def demo_desk_def demo_db_def demo_ticket_def)
qed

theorem internal_comment_hidden_witness:
  "\<exists>a db'. analyst_comment demo_queue_env (demo_context 7 ''AGENT'') ''HR-1'' ''INTERNAL'' '' Look. '' ''k'' demo_queues = (Inr (a, False), db')
     \<and> customer_timeline (demo_context 2 ''CUSTOMER'') ''HR-1'' db' = customer_timeline (demo_context 2 ''CUSTOMER'') ''HR-1'' demo_queues"
  using demo_internal [of "''INTERNAL''"] internal_comment_hidden [of demo_queue_env "demo_context 7 ''AGENT''" "''HR-1''" "'' Look. ''" "''k''" demo_queues]
  by fastforce

theorem analyst_comment_keeps_clock_witness:
  "\<exists>a db'. analyst_comment demo_queue_env (demo_context 7 ''AGENT'') ''HR-1'' ''PUBLIC'' '' Look. '' ''k'' demo_queues = (Inr (a, False), db')
     \<and> announces (queue_case demo_queues) (queue_case db')"
  using demo_internal [of "''PUBLIC''"] analyst_comment_keeps_clock [of demo_queue_env "demo_context 7 ''AGENT''" "''HR-1''" "''PUBLIC''" "'' Look. ''" "''k''" demo_queues]
  by fastforce

end
