(* ===== verification/AgentMachine.thy ===== *)
theory AgentMachine
  imports Prelude
begin

text \<open>
  \<open>employee_agent/state_machine.py\<close>: the conversation states of the employee helpdesk agent and
  the fail-closed transition table that \<open>advance\<close> consults.
\<close>

datatype agent_state =
    NEW | COLLECTING_INFORMATION | CLASSIFIED | SEARCHING_KNOWLEDGE | SOLUTION_PROPOSED
  | AWAITING_RESOLUTION_CONFIRMATION | RESOLVED_WITHOUT_TICKET | COLLECTING_TICKET_FIELDS
  | TICKET_DRAFT_READY | AWAITING_USER_CONFIRMATION | TICKET_SUBMITTED

datatype agent_error = InvalidAgentTransition agent_state

fun transitions :: "agent_state \<Rightarrow> agent_state list" where
  "transitions NEW = [COLLECTING_INFORMATION]"
| "transitions COLLECTING_INFORMATION = [CLASSIFIED, COLLECTING_TICKET_FIELDS]"
| "transitions CLASSIFIED = [SEARCHING_KNOWLEDGE, COLLECTING_TICKET_FIELDS]"
| "transitions SEARCHING_KNOWLEDGE = [SOLUTION_PROPOSED, COLLECTING_TICKET_FIELDS]"
| "transitions SOLUTION_PROPOSED = [AWAITING_RESOLUTION_CONFIRMATION]"
| "transitions AWAITING_RESOLUTION_CONFIRMATION =
     [COLLECTING_INFORMATION, RESOLVED_WITHOUT_TICKET, COLLECTING_TICKET_FIELDS]"
| "transitions COLLECTING_TICKET_FIELDS = [COLLECTING_TICKET_FIELDS, TICKET_DRAFT_READY]"
| "transitions TICKET_DRAFT_READY = [AWAITING_USER_CONFIRMATION]"
| "transitions AWAITING_USER_CONFIRMATION = [TICKET_SUBMITTED]"
| "transitions RESOLVED_WITHOUT_TICKET = []"
| "transitions TICKET_SUBMITTED = []"

text \<open>\<open>EmployeeAgentStateMachine.advance\<close>: the machine's state is its only field.\<close>

definition advance :: "agent_state \<Rightarrow> agent_state \<Rightarrow> agent_error + agent_state" where
  "advance state target =
     (if target \<notin> set (transitions state) then Inl (InvalidAgentTransition target)
      else Inr target)"

text \<open>A machine driven through a sequence of \<open>advance\<close> calls; the first refusal ends it.\<close>

fun drive :: "agent_state \<Rightarrow> agent_state list \<Rightarrow> agent_error + agent_state" where
  "drive s [] = Inr s"
| "drive s (t # ts) = rbind (advance s t) (\<lambda>s'. drive s' ts)"

inductive agent_path :: "agent_state \<Rightarrow> agent_state list \<Rightarrow> agent_state \<Rightarrow> bool" where
  stay: "agent_path s [] s"
| step: "agent_path s ts u \<Longrightarrow> advance u v = Inr v \<Longrightarrow> agent_path s (ts @ [v]) v"

inductive_cases agent_path_snocE: "agent_path s (ts @ [v]) u"
inductive_cases agent_path_NilE: "agent_path s [] u"

lemma advance_iff: "advance s t = Inr u \<longleftrightarrow> u = t \<and> t \<in> set (transitions s)"
  by (auto simp: advance_def)

lemma drive_append:
  "drive s (ts @ us) = rbind (drive s ts) (\<lambda>u. drive u us)"
  by (induction ts arbitrary: s) (simp_all add: rbind_def split: sum.splits)

lemma drive_path: "drive s ts = Inr u \<longleftrightarrow> agent_path s ts u"
proof (induction ts arbitrary: u rule: rev_induct)
  case Nil
  then show ?case by (auto intro: agent_path.stay elim: agent_path_NilE)
next
  case (snoc t ts)
  show ?case
  proof
    assume "drive s (ts @ [t]) = Inr u"
    then obtain w where "drive s ts = Inr w" "advance w t = Inr u"
      by (auto simp: drive_append rbind_Inr_iff)
    then show "agent_path s (ts @ [t]) u"
      using snoc.IH by (auto simp: advance_iff intro: agent_path.step)
  next
    assume "agent_path s (ts @ [t]) u"
    then show "drive s (ts @ [t]) = Inr u"
      by (rule agent_path_snocE) (auto simp: snoc.IH [symmetric] drive_append advance_iff rbind_Inr_iff)
  qed
qed

lemma before_submitted: "TICKET_SUBMITTED \<in> set (transitions u) \<Longrightarrow> u = AWAITING_USER_CONFIRMATION"
  by (cases u) simp_all

lemma before_confirmation:
  "AWAITING_USER_CONFIRMATION \<in> set (transitions u) \<Longrightarrow> u = TICKET_DRAFT_READY"
  by (cases u) simp_all

lemma before_draft: "TICKET_DRAFT_READY \<in> set (transitions u) \<Longrightarrow> u = COLLECTING_TICKET_FIELDS"
  by (cases u) simp_all

lemma path_last_step:
  assumes "agent_path s ts u" "u \<noteq> s"
  obtains us w where "ts = us @ [u]" "agent_path s us w" "u \<in> set (transitions w)"
  using assms by (cases rule: agent_path.cases) (auto simp: advance_iff)

text \<open>Along the table alone, a path from the first state to a submitted ticket goes through field
  collection, a ready draft and the user's confirmation, in this order and last. The statements of the
  repository write two of these states without the table; EmployeeAgent treats the use cases as they are.\<close>

lemma submission_needs_confirmation:
  assumes "drive NEW ts = Inr TICKET_SUBMITTED"
  shows "\<exists>us. ts = us @ [COLLECTING_TICKET_FIELDS, TICKET_DRAFT_READY,
    AWAITING_USER_CONFIRMATION, TICKET_SUBMITTED]"
proof -
  from assms have "agent_path NEW ts TICKET_SUBMITTED" by (simp add: drive_path)
  then obtain u3 where 3: "ts = u3 @ [TICKET_SUBMITTED]"
      "agent_path NEW u3 AWAITING_USER_CONFIRMATION"
    by (rule path_last_step) (auto dest: before_submitted)
  from 3(2) obtain u2 where 2: "u3 = u2 @ [AWAITING_USER_CONFIRMATION]"
      "agent_path NEW u2 TICKET_DRAFT_READY"
    by (rule path_last_step) (auto dest: before_confirmation)
  from 2(2) obtain u1 where 1: "u2 = u1 @ [TICKET_DRAFT_READY]"
      "agent_path NEW u1 COLLECTING_TICKET_FIELDS"
    by (rule path_last_step) (auto dest: before_draft)
  from 1(2) obtain u0 where "u1 = u0 @ [COLLECTING_TICKET_FIELDS]"
    by (rule path_last_step) auto
  with 1 2 3 show ?thesis by simp
qed

fun way_out :: "agent_state \<Rightarrow> agent_state list" where
  "way_out NEW = [COLLECTING_INFORMATION, COLLECTING_TICKET_FIELDS, TICKET_DRAFT_READY,
     AWAITING_USER_CONFIRMATION, TICKET_SUBMITTED]"
| "way_out SOLUTION_PROPOSED = [AWAITING_RESOLUTION_CONFIRMATION, RESOLVED_WITHOUT_TICKET]"
| "way_out AWAITING_RESOLUTION_CONFIRMATION = [RESOLVED_WITHOUT_TICKET]"
| "way_out COLLECTING_TICKET_FIELDS = [TICKET_DRAFT_READY, AWAITING_USER_CONFIRMATION,
     TICKET_SUBMITTED]"
| "way_out TICKET_DRAFT_READY = [AWAITING_USER_CONFIRMATION, TICKET_SUBMITTED]"
| "way_out AWAITING_USER_CONFIRMATION = [TICKET_SUBMITTED]"
| "way_out RESOLVED_WITHOUT_TICKET = []"
| "way_out TICKET_SUBMITTED = []"
| "way_out s = [COLLECTING_TICKET_FIELDS, TICKET_DRAFT_READY, AWAITING_USER_CONFIRMATION,
     TICKET_SUBMITTED]"

text \<open>No conversation is stuck: from every state some sequence of accepted advances ends in
  one of the two terminal states, and the terminal states accept no advance at all.\<close>

lemma conversations_can_end:
  "(\<exists>u. drive s (way_out s) = Inr u \<and> (u = RESOLVED_WITHOUT_TICKET \<or> u = TICKET_SUBMITTED))
   \<and> advance RESOLVED_WITHOUT_TICKET t = Inl (InvalidAgentTransition t)
   \<and> advance TICKET_SUBMITTED t = Inl (InvalidAgentTransition t)"
  by (cases s) (simp_all add: advance_def)

end
