(* ===== verification/AgentText.thy ===== *)
theory AgentText
  imports IsoTime "HOL-Library.Sublist"
begin

text \<open>
  The text handling of the employee agent: \<open>employee_agent/safety.py\<close> with its patterns, and the helpers of
  \<open>employee_agent/service.py\<close> that bound, chunk and clean text. A pattern is searched by the positions at which a
  match that starts at a given position can end. Letters are compared without case; characters are code points
  below 256, where the typographic apostrophe of the replies is written as the plain one.
\<close>

subsection \<open>Patterns\<close>

datatype pattern =
    Word string
  | OneOf string
  | Blanks nat
  | Anything
  | Edge
  | Maybe pattern
  | Then pattern pattern
  | Either pattern pattern

definition ascii_fold :: "char \<Rightarrow> char" where
  "ascii_fold c = (let n = (of_char c :: nat) in if 65 \<le> n \<and> n \<le> 90 then char_of (n + 32) else c)"

text \<open>\<open>\w\<close> of a text pattern, for code points below 256.\<close>

definition word_char :: "char \<Rightarrow> bool" where
  "word_char c = (let n = (of_char c :: nat) in
     48 \<le> n \<and> n \<le> 57 \<or> 65 \<le> n \<and> n \<le> 90 \<or> n = 95 \<or> 97 \<le> n \<and> n \<le> 122
     \<or> n \<in> {170, 178, 179, 181, 185, 186, 188, 189, 190} \<or> 192 \<le> n \<and> n \<noteq> 215 \<and> n \<noteq> 247)"

definition word_at :: "string \<Rightarrow> nat \<Rightarrow> bool" where
  "word_at s i \<longleftrightarrow> i < length s \<and> word_char (s ! i)"

definition edge_at :: "string \<Rightarrow> nat \<Rightarrow> bool" where
  "edge_at s i \<longleftrightarrow> (0 < i \<and> word_at s (i - 1)) \<noteq> word_at s i"

primrec ends :: "pattern \<Rightarrow> string \<Rightarrow> nat \<Rightarrow> nat list" where
  "ends (Word w) s i = (if map ascii_fold (take (length w) (drop i s)) = w then [i + length w] else [])"
| "ends (OneOf cs) s i = (if i < length s \<and> s ! i \<in> set cs then [i + 1] else [])"
| "ends (Blanks least) s i =
     (let most = length (takeWhile py_isspace (drop i s)) in [i + least..<i + most + 1])"
| "ends Anything s i = [i..<i + length (takeWhile (\<lambda>c. c \<noteq> CHR 0x0A) (drop i s)) + 1]"
| "ends Edge s i = (if edge_at s i then [i] else [])"
| "ends (Maybe p) s i = i # ends p s i"
| "ends (Then p q) s i = concat (map (ends q s) (ends p s i))"
| "ends (Either p q) s i = ends p s i @ ends q s i"

definition found_in :: "string \<Rightarrow> pattern \<Rightarrow> bool" where
  "found_in s p \<longleftrightarrow> list_ex (\<lambda>i. ends p s i \<noteq> []) [0..<length s + 1]"

fun sequence_of :: "pattern list \<Rightarrow> pattern" where
  "sequence_of [p] = p"
| "sequence_of (p # ps) = Then p (sequence_of ps)"
| "sequence_of [] = Word []"

fun one_of :: "string list \<Rightarrow> pattern" where
  "one_of [w] = Word w"
| "one_of (w # ws) = Either (Word w) (one_of ws)"
| "one_of [] = OneOf []"

abbreviation gap :: pattern where
  "gap \<equiv> Blanks 1"

definition injection_patterns :: "pattern list" where
  "injection_patterns =
     [sequence_of [Edge, Word ''ignore'', gap, Maybe (Then (Word ''all'') gap), one_of [''previous'', ''prior'', ''system''],
        gap, Word ''instruction'', Maybe (Word ''s''), Edge],
      sequence_of [Edge, Word ''reveal'', gap, Maybe (Then (Word ''the'') gap), one_of [''system'', ''developer''], gap,
        Word ''prompt'', Edge],
      sequence_of [Edge, one_of [''show'', ''print'', ''return''], gap, Maybe (Then (Word ''your'') gap),
        one_of [''hidden'', ''system''], gap, Word ''instruction'', Maybe (Word ''s''), Edge],
      sequence_of [Edge, Either (sequence_of [Word ''api'', Maybe (OneOf ''_ -''), Word ''key''])
        (one_of [''password'', ''secret'', ''access token'']), Edge, Anything, Edge,
        one_of [''expose'', ''reveal'', ''print'', ''send''], Edge],
      sequence_of [Edge, one_of [''run'', ''execute''], gap, Maybe (Then (Word ''arbitrary'') gap),
        one_of [''sql'', ''shell'', ''powershell'', ''bash'', ''command''], Edge],
      sequence_of [Word ''<'', Blanks 0, Maybe (Word ''/''), Blanks 0,
        one_of [''system'', ''assistant'', ''developer'', ''tool''], Blanks 0, Word ''>'']]"

definition escalation_patterns :: "pattern list" where
  "escalation_patterns =
     [sequence_of [Edge, one_of [''security incident'', ''suspected breach'', ''data breach'', ''ransomware'', ''malware''], Edge],
      sequence_of [Edge, one_of [''payroll'', ''salary'', ''payslip''], Edge],
      sequence_of [Edge, one_of [''financial posting'', ''general ledger'', ''journal posting''], Edge],
      sequence_of [Edge, Either (Then (Word ''production '') (one_of [''outage'', ''down'']))
        (one_of [''system-wide outage'', ''major incident'']), Edge],
      sequence_of [Edge, one_of [''multiple'', ''many'', ''all''], Word '' '', one_of [''users'', ''employees''], Word '' '',
        Maybe (Word ''are ''), one_of [''affected'', ''impacted''], Edge],
      sequence_of [Edge, one_of [''privileged access'', ''administrator access'', ''admin rights''], Edge],
      sequence_of [Edge, Either (sequence_of [Word ''previous '', one_of [''fix'', ''solution''], Word '' failed''])
        (Word ''already tried''), Edge]]"

definition contains_prompt_injection :: "string \<Rightarrow> bool" where
  "contains_prompt_injection s =
     list_ex (found_in (collapse (map (\<lambda>c. if c = CHR 0x00 then CHR '' '' else c) s))) injection_patterns"

definition requires_immediate_escalation :: "string \<Rightarrow> bool" where
  "requires_immediate_escalation s = list_ex (found_in (collapse s)) escalation_patterns"

subsection \<open>The context of a prompt\<close>

record chat_message =
  ch_role :: string
  ch_content :: string

definition safe_context :: "chat_message list \<Rightarrow> chat_message list" where
  "safe_context ms = filter (\<lambda>m. ch_role m \<noteq> ''user'' \<or> \<not> contains_prompt_injection (ch_content m)) ms"

text \<open>\<open>_bounded_context\<close>: newest first, a message that does not fit any more is passed over.\<close>

fun select_messages :: "nat \<Rightarrow> nat \<Rightarrow> chat_message list \<Rightarrow> chat_message list" where
  "select_messages most used [] = []"
| "select_messages most used (m # ms) =
     (if most < used + length (ch_content m) then select_messages most used ms
      else m # select_messages most (used + length (ch_content m)) ms)"

definition bounded_context :: "chat_message list \<Rightarrow> nat \<Rightarrow> chat_message list" where
  "bounded_context ms most = rev (select_messages most 0 (rev ms))"

subsection \<open>Answers\<close>

text \<open>\<open>_CITATION_MARKER.sub("", text)\<close>: the length of a marker \<open>[d]\<close> of one to three digits at the start, or 0.\<close>

definition marker :: "string \<Rightarrow> nat" where
  "marker s = (case s of [] \<Rightarrow> 0 | c # cs \<Rightarrow>
     let n = length (takeWhile is_digit cs) in
     if c = CHR ''['' \<and> 1 \<le> n \<and> n \<le> 3 \<and> n < length cs \<and> cs ! n = CHR '']'' then n + 2 else 0)"

fun strip_markers :: "string \<Rightarrow> string" where
  "strip_markers [] = []"
| "strip_markers (c # cs) =
     (if marker (c # cs) = 0 then c # strip_markers cs
      else strip_markers (drop (marker (c # cs)) (c # cs)))"

definition chunks :: "string \<Rightarrow> nat \<Rightarrow> string list" where
  "chunks s width = map (\<lambda>k. take width (drop (k * width) s)) [0..<(length s + width - 1) div width]"

definition optional_text :: "string option \<Rightarrow> string option" where
  "optional_text v = (let s = (case v of None \<Rightarrow> [] | Some s \<Rightarrow> collapse s) in if s = [] then None else Some s)"

definition last_chars :: "nat \<Rightarrow> string \<Rightarrow> string" where
  "last_chars n s = drop (length s - n) s"

subsection \<open>Laws\<close>

lemma concat_pieces: "concat (map (\<lambda>k. take n (drop (k * n) s)) [0..<m]) = take (m * n) s"
  by (induction m) (simp_all add: take_add [symmetric] add.commute)

lemma concat_chunks: "0 < width \<Longrightarrow> concat (chunks s width) = s"
proof -
  assume "0 < width"
  then have "length s \<le> (length s + width - 1) div width * width"
    using mod_less_divisor [of width "length s + width - 1"] div_mult_mod_eq [of "length s + width - 1" width] by linarith
  then show ?thesis by (simp add: chunks_def concat_pieces)
qed

lemma chunk_length: "c \<in> set (chunks s width) \<Longrightarrow> length c \<le> width"
  by (auto simp: chunks_def)

lemma chunk_nonempty:
  assumes "0 < width" "c \<in> set (chunks s width)"
  shows "c \<noteq> []"
proof -
  from assms(2) obtain k where k: "k < (length s + width - 1) div width" "c = take width (drop (k * width) s)"
    by (auto simp: chunks_def)
  then have "(k + 1) * width \<le> (length s + width - 1) div width * width" by (intro mult_le_mono1) simp
  also have "\<dots> \<le> length s + width - 1" by simp
  finally have "k * width < length s" using assms(1) by simp
  with k assms(1) show ?thesis by simp
qed

lemma select_messages_bound: "used \<le> most \<Longrightarrow>
    used + sum_list (map (length \<circ> ch_content) (select_messages most used ms)) \<le> most"
  by (induction most used ms rule: select_messages.induct) (auto simp: add.assoc)

lemma select_messages_subseq: "subseq (select_messages most used ms) ms"
  by (induction most used ms rule: select_messages.induct) auto

lemma bounded_context_bound: "sum_list (map (length \<circ> ch_content) (bounded_context ms most)) \<le> most"
  using select_messages_bound [of 0 most "rev ms"] by (simp add: bounded_context_def rev_map [symmetric] sum_list_rev)

lemma subseq_rev: "subseq xs ys \<Longrightarrow> subseq (rev xs) (rev ys)"
  by (induction rule: list_emb.induct) (auto intro: list_emb_append_mono)

lemma bounded_context_subseq: "subseq (bounded_context ms most) ms"
  using subseq_rev [OF select_messages_subseq [of most 0 "rev ms"]] by (simp add: bounded_context_def)

lemma safe_context_messages:
  "m \<in> set (safe_context ms) \<Longrightarrow> ch_role m = ''user'' \<Longrightarrow> \<not> contains_prompt_injection (ch_content m)"
  by (auto simp: safe_context_def)

lemma length_last_chars: "length (last_chars n s) \<le> n"
  by (simp add: last_chars_def)

end
