(* ===== verification/Conversations.thy ===== *)
theory Conversations
  imports Tickets AgentMachine AgentText
begin

text \<open>
  The tables of employee conversations and the statements of \<open>employee_agent/repository.py\<close>, on top of the tables
  of the ticket desk. \<open>metadata_json\<close> of a conversation is modelled by the two members the code writes into it,
  and the runs of the AI gateway, which the code only refers to, are left out. An operation runs in one unit of
  work and raises the errors of the repository; the row locks have no effect on a serial run of it.
\<close>

subsection \<open>Values\<close>

definition state_code :: "agent_state \<Rightarrow> string" where
  "state_code s = (case s of
       NEW \<Rightarrow> ''NEW'' | COLLECTING_INFORMATION \<Rightarrow> ''COLLECTING_INFORMATION'' | CLASSIFIED \<Rightarrow> ''CLASSIFIED''
     | SEARCHING_KNOWLEDGE \<Rightarrow> ''SEARCHING_KNOWLEDGE'' | SOLUTION_PROPOSED \<Rightarrow> ''SOLUTION_PROPOSED''
     | AWAITING_RESOLUTION_CONFIRMATION \<Rightarrow> ''AWAITING_RESOLUTION_CONFIRMATION''
     | RESOLVED_WITHOUT_TICKET \<Rightarrow> ''RESOLVED_WITHOUT_TICKET'' | COLLECTING_TICKET_FIELDS \<Rightarrow> ''COLLECTING_TICKET_FIELDS''
     | TICKET_DRAFT_READY \<Rightarrow> ''TICKET_DRAFT_READY'' | AWAITING_USER_CONFIRMATION \<Rightarrow> ''AWAITING_USER_CONFIRMATION''
     | TICKET_SUBMITTED \<Rightarrow> ''TICKET_SUBMITTED'')"

definition agent_states :: "agent_state list" where
  "agent_states = [NEW, COLLECTING_INFORMATION, CLASSIFIED, SEARCHING_KNOWLEDGE, SOLUTION_PROPOSED,
     AWAITING_RESOLUTION_CONFIRMATION, RESOLVED_WITHOUT_TICKET, COLLECTING_TICKET_FIELDS, TICKET_DRAFT_READY,
     AWAITING_USER_CONFIRMATION, TICKET_SUBMITTED]"

datatype turn_outcome = RESOLUTION_PROPOSED | ESCALATION_RECOMMENDED | SAFE_REFUSAL | AI_UNAVAILABLE

record citation =
  ci_label :: string
  ci_title :: string
  ci_source :: string
  ci_uri :: string
  ci_section :: "string option"
  ci_anchor :: "string option"
  ci_page :: "int option"

text \<open>The members of \<open>RetrievalEvidence\<close> and its score components that the agent reads; scores are rationals.\<close>

record evidence =
  re_chunk :: uuid
  re_title :: string
  re_source :: string
  re_uri :: string
  re_section :: "string option"
  re_anchor :: "string option"
  re_page :: "int option"
  re_text :: string
  re_score :: rat
  re_vector :: "rat option"
  re_lexical :: "rat option"
  re_rerank :: "rat option"

record agent_answer =
  an_text :: string
  an_state :: agent_state
  an_outcome :: turn_outcome
  an_citations :: "citation list"
  an_retrieval :: "uuid option"
  an_run :: "uuid option"
  an_evidence :: "evidence list"

record conversation =
  cn_id :: uuid
  cn_state :: agent_state

record started_turn =
  sd_turn :: uuid
  sd_message :: uuid
  sd_messages :: "chat_message list"

subsection \<open>Tables\<close>

record conversation_row =
  co_id :: uuid
  co_tenant :: uuid
  co_type :: string
  co_user :: uuid
  co_status :: string
  co_state :: "string option"
  co_draft :: "uuid option"
  co_ticket :: "uuid option"

record message_row =
  ms_id :: uuid
  ms_conversation :: uuid
  ms_role :: string
  ms_text :: "string option"
  ms_answer :: "(turn_outcome \<times> citation list) option"
  ms_at :: instant

record turn_row =
  tn_id :: uuid
  tn_tenant :: uuid
  tn_conversation :: uuid
  tn_message :: uuid
  tn_answer :: "uuid option"
  tn_run :: "uuid option"
  tn_state :: agent_state
  tn_status :: string
  tn_outcome :: "turn_outcome option"
  tn_retrieval :: "uuid option"
  tn_cancel_requested :: "instant option"
  tn_started :: instant
  tn_completed :: "instant option"
  tn_failure :: "string option"

record feedback_row =
  fb_id :: uuid
  fb_tenant :: uuid
  fb_conversation :: uuid
  fb_run :: "uuid option"
  fb_user :: uuid
  fb_type :: string
  fb_rating :: int
  fb_comment :: "string option"
  fb_resolved :: bool

record evidence_row =
  ee_run :: uuid
  ee_chunk :: uuid
  ee_source :: string
  ee_semantic :: "rat option"
  ee_lexical :: "rat option"
  ee_rerank :: "rat option"
  ee_label :: string
  ee_selected :: bool

record agent_db =
  ag_desk :: desk_db
  conversation_rows :: "conversation_row list"
  message_rows :: "message_row list"
  turn_rows :: "turn_row list"
  feedback_rows :: "feedback_row list"
  evidence_rows :: "evidence_row list"

datatype agent_failure =
    ConversationNotFound | ActiveTurn | ConversationClosed | FeedbackConflict
  | Failure app_error

type_synonym 'a agent_op = "(agent_db, agent_failure, 'a) op"

text \<open>The ticket service sees the conversations as what its drafts refer to.\<close>

definition desk_of :: "agent_db \<Rightarrow> desk_db" where
  "desk_of db = (ag_desk db)\<lparr>conversations := map (\<lambda>c. (co_id c, co_user c)) (conversation_rows db)\<rparr>"

definition on_desk :: "'a desk_op \<Rightarrow> 'a agent_op" where
  "on_desk m db = (case m (desk_of db) of
       Inl e \<Rightarrow> Inl (Failure e)
     | Inr (x, d) \<Rightarrow> Inr (x, db\<lparr>ag_desk := d\<rparr>))"

definition agent_identity :: "request_context \<Rightarrow> agent_failure + uuid \<times> uuid" where
  "agent_identity ctx = (case (ctx_tenant_id ctx, ctx_user_id ctx) of
       (Some tenant, Some user) \<Rightarrow> Inr (tenant, user)
     | _ \<Rightarrow> Inl ConversationNotFound)"

definition as_caller :: "request_context \<Rightarrow> (uuid \<Rightarrow> uuid \<Rightarrow> 'a agent_op) \<Rightarrow> 'a agent_op" where
  "as_caller ctx f = bindS (liftS (agent_identity ctx)) (\<lambda>(tenant, user). f tenant user)"

text \<open>\<open>AgentState(value)\<close>: an unknown or missing name raises.\<close>

definition state_named :: "string option \<Rightarrow> agent_failure + agent_state" where
  "state_named v = of_option (Failure (UncaughtError ''ValueError''))
     (Option.bind v (\<lambda>s. find (\<lambda>x. state_code x = s) agent_states))"

definition current_state :: "conversation_row \<Rightarrow> agent_failure + agent_state" where
  "current_state c = state_named (Some (given (co_state c) ''NEW''))"

definition audit_agent :: "request_context \<Rightarrow> uuid \<Rightarrow> uuid \<Rightarrow> string \<Rightarrow> uuid \<Rightarrow> string \<Rightarrow> unit agent_op" where
  "audit_agent ctx tenant user action resource outcome = on_desk (on_case (modS (\<lambda>db. db\<lparr>audit_events := audit_events db @
     [\<lparr>au_tenant = tenant, au_actor = user, au_action = action, au_resource_type = ''AI_CONVERSATION'',
       au_resource = resource, au_summary = [], au_correlation = correlation_id ctx,
       au_request = request_id ctx, au_outcome = outcome\<rparr>]\<rparr>)))"

definition fresh :: "uuid agent_op" where
  "fresh = on_desk (on_case draw_uuid)"

definition update_conversations ::
  "(conversation_row \<Rightarrow> bool) \<Rightarrow> (conversation_row \<Rightarrow> conversation_row) \<Rightarrow> nat agent_op" where
  "update_conversations p f db = Inr (length (filter p (conversation_rows db)),
     db\<lparr>conversation_rows := map (\<lambda>c. if p c then f c else c) (conversation_rows db)\<rparr>)"

definition update_turns :: "(turn_row \<Rightarrow> bool) \<Rightarrow> (turn_row \<Rightarrow> turn_row) \<Rightarrow> nat agent_op" where
  "update_turns p f db = Inr (length (filter p (turn_rows db)),
     db\<lparr>turn_rows := map (\<lambda>t. if p t then f t else t) (turn_rows db)\<rparr>)"

text \<open>The primary keys, and the index that allows one active turn in a conversation.\<close>

definition insert_conversation :: "conversation_row \<Rightarrow> unit agent_op" where
  "insert_conversation c db =
     (if co_id c \<in> co_id ` set (conversation_rows db) then Inl (Failure (IntegrityError ''conversation_pkey''))
      else Inr ((), db\<lparr>conversation_rows := conversation_rows db @ [c]\<rparr>))"

definition insert_message :: "message_row \<Rightarrow> unit agent_op" where
  "insert_message m db =
     (if ms_id m \<in> ms_id ` set (message_rows db) then Inl (Failure (IntegrityError ''message_pkey''))
      else Inr ((), db\<lparr>message_rows := message_rows db @ [m]\<rparr>))"

definition insert_turn :: "turn_row \<Rightarrow> unit agent_op" where
  "insert_turn t db =
     (if tn_id t \<in> tn_id ` set (turn_rows db) then Inl (Failure (IntegrityError ''conversation_turn_pkey''))
      else if tn_status t = ''ACTIVE''
        \<and> (\<exists>x\<in>set (turn_rows db). tn_conversation x = tn_conversation t \<and> tn_status x = ''ACTIVE'')
      then Inl (Failure (IntegrityError ''conversation_one_active_turn_ux''))
      else Inr ((), db\<lparr>turn_rows := turn_rows db @ [t]\<rparr>))"

subsection \<open>Conversations\<close>

definition owns :: "uuid \<Rightarrow> uuid \<Rightarrow> uuid \<Rightarrow> conversation_row \<Rightarrow> bool" where
  "owns tenant user i c \<longleftrightarrow> co_id c = i \<and> co_tenant c = tenant \<and> co_user c = user"

definition helpdesk_conversation :: "uuid \<Rightarrow> uuid \<Rightarrow> uuid \<Rightarrow> agent_db \<Rightarrow> conversation_row option" where
  "helpdesk_conversation tenant user i db =
     find (\<lambda>c. owns tenant user i c \<and> co_type c = ''EMPLOYEE_HELPDESK'') (conversation_rows db)"

definition open_conversation :: "uuid \<Rightarrow> uuid \<Rightarrow> uuid \<Rightarrow> agent_db \<Rightarrow> conversation_row option" where
  "open_conversation tenant user i db =
     find (\<lambda>c. owns tenant user i c \<and> co_type c = ''EMPLOYEE_HELPDESK'' \<and> co_status c = ''OPEN'') (conversation_rows db)"

definition create_conversation_row :: "request_context \<Rightarrow> conversation agent_op" where
  "create_conversation_row ctx = as_caller ctx (\<lambda>tenant user.
     bindS fresh (\<lambda>i.
     bindS (insert_conversation \<lparr>co_id = i, co_tenant = tenant, co_type = ''EMPLOYEE_HELPDESK'', co_user = user,
       co_status = ''OPEN'', co_state = Some (state_code NEW), co_draft = None, co_ticket = None\<rparr>) (\<lambda>_.
     bindS (audit_agent ctx tenant user ''AI_CONVERSATION_CREATED'' i ''SUCCESS'') (\<lambda>_.
     ret \<lparr>cn_id = i, cn_state = NEW\<rparr>))))"

definition owned_conversation :: "request_context \<Rightarrow> uuid \<Rightarrow> conversation agent_op" where
  "owned_conversation ctx i = as_caller ctx (\<lambda>tenant user.
     bindS (getS (open_conversation tenant user i)) (\<lambda>found.
     bindS (liftS (of_option ConversationNotFound found)) (\<lambda>c.
     bindS (liftS (current_state c)) (\<lambda>s.
     ret \<lparr>cn_id = co_id c, cn_state = s\<rparr>))))"

definition set_state :: "uuid \<Rightarrow> agent_state \<Rightarrow> nat agent_op" where
  "set_state i s = update_conversations (\<lambda>c. co_id c = i) (\<lambda>c. c\<lparr>co_state := Some (state_code s)\<rparr>)"

subsection \<open>Turns\<close>

definition closed_states :: "agent_state set" where
  "closed_states = {RESOLVED_WITHOUT_TICKET, TICKET_SUBMITTED, TICKET_DRAFT_READY, AWAITING_USER_CONFIRMATION}"

definition role_name :: "string \<Rightarrow> string" where
  "role_name r = (if r = ''USER'' then ''user'' else if r = ''ASSISTANT'' then ''assistant'' else ''system'')"

text \<open>\<open>ORDER BY created_at DESC, message_id DESC\<close>.\<close>

definition newest_first :: "message_row list \<Rightarrow> message_row list" where
  "newest_first ms = sort_key (\<lambda>m. (- ms_at m, - uint (ms_id m))) ms"

definition message_history :: "uuid \<Rightarrow> nat \<Rightarrow> agent_db \<Rightarrow> chat_message list" where
  "message_history i limit db =
     map (\<lambda>m. \<lparr>ch_role = role_name (ms_role m), ch_content = given (ms_text m) []\<rparr>)
       (rev (take limit (newest_first
         (filter (\<lambda>m. ms_conversation m = i \<and> ms_text m \<noteq> None) (message_rows db)))))"

definition active_in :: "uuid \<Rightarrow> turn_row \<Rightarrow> bool" where
  "active_in i t \<longleftrightarrow> tn_conversation t = i \<and> tn_status t = ''ACTIVE''"

definition start_turn :: "instant \<Rightarrow> request_context \<Rightarrow> uuid \<Rightarrow> string \<Rightarrow> nat \<Rightarrow> started_turn agent_op" where
  "start_turn now ctx i content limit = as_caller ctx (\<lambda>tenant user.
     bindS (getS (open_conversation tenant user i)) (\<lambda>found.
     bindS (liftS (of_option ConversationNotFound found)) (\<lambda>c.
     bindS (liftS (current_state c)) (\<lambda>current.
     if current \<in> closed_states then raise ConversationClosed else
     bindS (getS (\<lambda>db. list_ex (active_in i) (turn_rows db))) (\<lambda>busy.
     if busy then raise ActiveTurn else
     bindS fresh (\<lambda>message.
     bindS (insert_message \<lparr>ms_id = message, ms_conversation = i, ms_role = ''USER'', ms_text = Some content,
       ms_answer = None, ms_at = now\<rparr>) (\<lambda>_.
     bindS fresh (\<lambda>turn.
     bindS (insert_turn \<lparr>tn_id = turn, tn_tenant = tenant, tn_conversation = i, tn_message = message, tn_answer = None,
       tn_run = None, tn_state = COLLECTING_INFORMATION, tn_status = ''ACTIVE'', tn_outcome = None, tn_retrieval = None,
       tn_cancel_requested = None, tn_started = now, tn_completed = None, tn_failure = None\<rparr>) (\<lambda>_.
     bindS (set_state i COLLECTING_INFORMATION) (\<lambda>_.
     bindS (getS (message_history i limit)) (\<lambda>history.
     ret \<lparr>sd_turn = turn, sd_message = message, sd_messages = history\<rparr>)))))))))))"

definition running_turn :: "uuid \<Rightarrow> uuid \<Rightarrow> uuid \<Rightarrow> turn_row \<Rightarrow> bool" where
  "running_turn tenant i turn t \<longleftrightarrow>
     tn_id t = turn \<and> tn_tenant t = tenant \<and> tn_conversation t = i \<and> tn_status t = ''ACTIVE''"

definition append_evidence :: "uuid \<Rightarrow> evidence \<Rightarrow> unit agent_op" where
  "append_evidence run e = modS (\<lambda>db. db\<lparr>evidence_rows := evidence_rows db @
     [\<lparr>ee_run = run, ee_chunk = re_chunk e,
       ee_source = (if re_source e = ''ORACLE_PUBLIC_DOCUMENTATION'' then ''ORACLE_DOCUMENTATION'' else ''KNOWLEDGE_CHUNK''),
       ee_semantic = re_vector e, ee_lexical = re_lexical e, ee_rerank = re_rerank e,
       ee_label = take 300 (re_title e), ee_selected = True\<rparr>]\<rparr>)"

definition finish_turn :: "instant \<Rightarrow> request_context \<Rightarrow> uuid \<Rightarrow> uuid \<Rightarrow> agent_answer \<Rightarrow> uuid agent_op" where
  "finish_turn now ctx i turn a = as_caller ctx (\<lambda>tenant user.
     bindS (getS (\<lambda>db. list_ex (owns tenant user i) (conversation_rows db))) (\<lambda>exists.
     if \<not> exists then raise ConversationNotFound else
     bindS fresh (\<lambda>message.
     bindS (insert_message \<lparr>ms_id = message, ms_conversation = i, ms_role = ''ASSISTANT'', ms_text = Some (an_text a),
       ms_answer = Some (an_outcome a, an_citations a), ms_at = now\<rparr>) (\<lambda>_.
     bindS (update_turns (running_turn tenant i turn) (\<lambda>t. t\<lparr>tn_answer := Some message, tn_run := an_run a,
       tn_state := an_state a, tn_status := ''COMPLETED'', tn_outcome := Some (an_outcome a),
       tn_retrieval := an_retrieval a, tn_completed := Some now\<rparr>)) (\<lambda>n.
     if n \<noteq> 1 then raise ActiveTurn else
     bindS (update_conversations (owns tenant user i) (\<lambda>c. c\<lparr>co_state := Some (state_code (an_state a))\<rparr>)) (\<lambda>_.
     bindS (case an_run a of None \<Rightarrow> ret () | Some run \<Rightarrow> forS (append_evidence run) (an_evidence a)) (\<lambda>_.
     bindS (audit_agent ctx tenant user ''AI_CONVERSATION_TURN_COMPLETED'' turn ''SUCCESS'') (\<lambda>_.
     ret message))))))))"

text \<open>The join of a running turn with a conversation of the caller.\<close>

definition own_running :: "uuid \<Rightarrow> uuid \<Rightarrow> uuid \<Rightarrow> uuid \<Rightarrow> conversation_row list \<Rightarrow> turn_row \<Rightarrow> bool" where
  "own_running tenant user i turn cs t \<longleftrightarrow> running_turn tenant i turn t
     \<and> list_ex (\<lambda>c. co_id c = tn_conversation t \<and> co_user c = user) cs"

definition cancel_turn :: "instant \<Rightarrow> request_context \<Rightarrow> uuid \<Rightarrow> uuid \<Rightarrow> unit agent_op" where
  "cancel_turn now ctx i turn = as_caller ctx (\<lambda>tenant user.
     bindS (getS conversation_rows) (\<lambda>cs.
     bindS (update_turns (own_running tenant user i turn cs) (\<lambda>t. t\<lparr>tn_status := ''CANCELLED'',
       tn_cancel_requested := Some (given (tn_cancel_requested t) now), tn_completed := Some now,
       tn_failure := Some ''CLIENT_CANCELLED''\<rparr>)) (\<lambda>n.
     if n \<noteq> 1 then raise ConversationNotFound else
     audit_agent ctx tenant user ''AI_CONVERSATION_TURN_CANCELLED'' turn ''SUCCESS'')))"

definition turn_active :: "request_context \<Rightarrow> uuid \<Rightarrow> uuid \<Rightarrow> bool agent_op" where
  "turn_active ctx i turn = as_caller ctx (\<lambda>tenant user.
     getS (\<lambda>db. list_ex (own_running tenant user i turn (conversation_rows db)) (turn_rows db)))"

definition fail_turn :: "instant \<Rightarrow> request_context \<Rightarrow> uuid \<Rightarrow> uuid \<Rightarrow> string \<Rightarrow> unit agent_op" where
  "fail_turn now ctx i turn code = as_caller ctx (\<lambda>tenant user.
     bindS (getS conversation_rows) (\<lambda>cs.
     bindS (update_turns (own_running tenant user i turn cs) (\<lambda>t. t\<lparr>tn_status := ''FAILED'',
       tn_completed := Some now, tn_failure := Some (take 100 code)\<rparr>)) (\<lambda>_.
     audit_agent ctx tenant user ''AI_CONVERSATION_TURN_FAILED'' turn ''FAILED'')))"

subsection \<open>Feedback\<close>

definition feedback_states :: "agent_state set" where
  "feedback_states = {AWAITING_RESOLUTION_CONFIRMATION, COLLECTING_TICKET_FIELDS, AWAITING_USER_CONFIRMATION,
     RESOLVED_WITHOUT_TICKET}"

text \<open>\<open>ORDER BY completed_at DESC NULLS LAST, started_at DESC LIMIT 1\<close>.\<close>

definition latest_run :: "uuid \<Rightarrow> agent_db \<Rightarrow> uuid option" where
  "latest_run i db =
     (case sort_key (\<lambda>t. (tn_completed t = None, - given (tn_completed t) 0, - tn_started t))
        (filter (\<lambda>t. tn_conversation t = i \<and> tn_run t \<noteq> None) (turn_rows db)) of
        [] \<Rightarrow> None
      | t # _ \<Rightarrow> tn_run t)"

definition resolution_outcome :: "uuid \<Rightarrow> uuid \<Rightarrow> feedback_row \<Rightarrow> bool" where
  "resolution_outcome i user f \<longleftrightarrow> fb_conversation f = i \<and> fb_user f = user \<and> fb_type f = ''RESOLUTION_OUTCOME''"

definition rating_of :: "bool \<Rightarrow> int" where
  "rating_of helpful = (if helpful then 5 else 1)"

definition same_feedback :: "bool \<Rightarrow> bool \<Rightarrow> string option \<Rightarrow> feedback_row \<Rightarrow> bool" where
  "same_feedback helpful resolved comment f \<longleftrightarrow>
     fb_rating f = rating_of helpful \<and> fb_comment f = comment \<and> fb_resolved f = resolved"

text \<open>
  \<open>INSERT ... ON CONFLICT DO NOTHING\<close> on the index of resolution outcomes; when a row is there already, the
  feedback must be the same. The identifier of the row is drawn in either case.
\<close>

definition store_outcome ::
  "uuid \<Rightarrow> uuid \<Rightarrow> uuid \<Rightarrow> uuid option \<Rightarrow> bool \<Rightarrow> bool \<Rightarrow> string option \<Rightarrow> unit agent_op" where
  "store_outcome tenant user i run helpful resolved comment = bindS fresh (\<lambda>new db.
     case find (resolution_outcome i user) (feedback_rows db) of
       Some f \<Rightarrow> if same_feedback helpful resolved comment f then Inr ((), db) else Inl FeedbackConflict
     | None \<Rightarrow>
         if new \<in> fb_id ` set (feedback_rows db) then Inl (Failure (IntegrityError ''feedback_pkey''))
         else Inr ((), db\<lparr>feedback_rows := feedback_rows db @
           [\<lparr>fb_id = new, fb_tenant = tenant, fb_conversation = i, fb_run = run, fb_user = user,
             fb_type = ''RESOLUTION_OUTCOME'', fb_rating = rating_of helpful, fb_comment = comment,
             fb_resolved = resolved\<rparr>]\<rparr>))"

definition record_resolution_feedback ::
  "request_context \<Rightarrow> uuid \<Rightarrow> bool \<Rightarrow> bool \<Rightarrow> string option \<Rightarrow> agent_state agent_op" where
  "record_resolution_feedback ctx i helpful resolved comment = as_caller ctx (\<lambda>tenant user.
     bindS (getS (helpdesk_conversation tenant user i)) (\<lambda>found.
     bindS (liftS (of_option ConversationNotFound found)) (\<lambda>c.
     bindS (liftS (current_state c)) (\<lambda>current.
     if current \<notin> feedback_states then raise ConversationClosed
     else if resolved \<and> current = COLLECTING_TICKET_FIELDS then raise ConversationClosed else
     let target = (if resolved then RESOLVED_WITHOUT_TICKET else COLLECTING_TICKET_FIELDS) in
     bindS (getS (latest_run i)) (\<lambda>run.
     bindS (store_outcome tenant user i run helpful resolved comment) (\<lambda>_.
     bindS (set_state i target) (\<lambda>_.
     bindS (audit_agent ctx tenant user ''AI_RESOLUTION_FEEDBACK_RECORDED'' i ''SUCCESS'') (\<lambda>_.
     ret target))))))))"

definition user_message_summary :: "request_context \<Rightarrow> uuid \<Rightarrow> nat \<Rightarrow> string list agent_op" where
  "user_message_summary ctx i limit = as_caller ctx (\<lambda>tenant user.
     getS (\<lambda>db. rev (take limit (map (\<lambda>m. given (ms_text m) []) (newest_first
       (filter (\<lambda>m. ms_conversation m = i \<and> list_ex (owns tenant user i) (conversation_rows db)
         \<and> ms_role m = ''USER'' \<and> ms_text m \<noteq> None) (message_rows db)))))))"

subsection \<open>Drafts and tickets of a conversation\<close>

definition link_draft :: "request_context \<Rightarrow> uuid \<Rightarrow> uuid \<Rightarrow> unit agent_op" where
  "link_draft ctx i draft = as_caller ctx (\<lambda>tenant user.
     bindS (getS (\<lambda>db. drafts (ag_desk db))) (\<lambda>ds.
     bindS (update_conversations (\<lambda>c. owns tenant user i c \<and> list_ex (\<lambda>d. dr_id d = draft \<and> dr_tenant d = tenant
         \<and> dr_owner d = user \<and> dr_conversation d = Some (co_id c)) ds)
       (\<lambda>c. c\<lparr>co_state := Some (state_code AWAITING_USER_CONFIRMATION), co_draft := Some draft\<rparr>)) (\<lambda>n.
     if n \<noteq> 1 then raise ConversationNotFound else
     audit_agent ctx tenant user ''AI_TICKET_DRAFT_LINKED'' i ''SUCCESS'')))"

text \<open>The join of a conversation of the caller with the drafts that came of it.\<close>

definition draft_links :: "uuid \<Rightarrow> uuid \<Rightarrow> uuid \<Rightarrow> agent_db \<Rightarrow> (uuid \<times> string option) list" where
  "draft_links tenant user i db = [(dr_id d, co_state c). c \<leftarrow> filter (owns tenant user i) (conversation_rows db),
     d \<leftarrow> filter (\<lambda>d. dr_conversation d = Some (co_id c) \<and> dr_owner d = user) (drafts (ag_desk db))]"

definition linked_draft :: "request_context \<Rightarrow> uuid \<Rightarrow> (uuid \<times> agent_state) agent_op" where
  "linked_draft ctx i = as_caller ctx (\<lambda>tenant user.
     bindS (getS (draft_links tenant user i)) (\<lambda>found.
     case found of
       [] \<Rightarrow> raise ConversationNotFound
     | [(d, v)] \<Rightarrow> bindS (liftS (state_named v)) (\<lambda>s. ret (d, s))
     | _ \<Rightarrow> raise (Failure (UncaughtError ''MultipleResultsFound''))))"

definition link_ticket :: "request_context \<Rightarrow> uuid \<Rightarrow> uuid \<Rightarrow> uuid \<Rightarrow> unit agent_op" where
  "link_ticket ctx i draft ticket = as_caller ctx (\<lambda>tenant user.
     bindS (getS ag_desk) (\<lambda>desk.
     bindS (update_conversations (\<lambda>c. owns tenant user i c
         \<and> list_ex (\<lambda>d. dr_id d = draft \<and> dr_conversation d = Some (co_id c) \<and> dr_ticket d = Some ticket) (drafts desk)
         \<and> list_ex (\<lambda>t. t_id t = ticket \<and> t_conversation t = Some (co_id c)) (tickets (desk_case desk)))
       (\<lambda>c. c\<lparr>co_state := Some (state_code TICKET_SUBMITTED), co_ticket := Some ticket\<rparr>)) (\<lambda>n.
     if n \<noteq> 1 then raise ConversationNotFound else
     audit_agent ctx tenant user ''AI_CONFIRMED_TICKET_LINKED'' ticket ''SUCCESS'')))"

end
