(* ===== verification/ConversationLaws.thy ===== *)
theory ConversationLaws
  imports Conversations
begin

text \<open>
  What the statements of the conversation repository do to the tables, and the invariant they keep: one active
  turn in a conversation, which then collects information, one recorded outcome, and states that agree with it.
\<close>

subsection \<open>States and callers\<close>

lemma state_code_inj [simp]: "state_code x = state_code y \<longleftrightarrow> x = y"
  by (cases x; cases y) (simp_all add: state_code_def)

lemma in_agent_states [simp]: "s \<in> set agent_states"
  by (cases s) (simp_all add: agent_states_def)

lemma state_named_iff: "state_named (Some v) = Inr s \<longleftrightarrow> v = state_code s"
proof
  assume "state_named (Some v) = Inr s"
  then show "v = state_code s" by (auto simp: state_named_def find_Some_iff)
next
  assume "v = state_code s"
  then show "state_named (Some v) = Inr s" by (cases s) (simp_all add: state_named_def agent_states_def)
qed

lemma state_roundtrip [simp]: "state_named (Some (state_code s)) = Inr s"
  by (simp add: state_named_iff)

lemma state_named_None [simp]: "state_named None = Inl (Failure (UncaughtError ''ValueError''))"
  by (simp add: state_named_def)

lemma state_new: "''NEW'' = state_code x \<longleftrightarrow> x = NEW"
  by (cases x) (simp_all add: state_code_def)

lemma current_state_iff: "current_state c = Inr s \<longleftrightarrow> co_state c = Some (state_code s) \<or> co_state c = None \<and> s = NEW"
  by (cases "co_state c") (auto simp: current_state_def state_named_iff given_def state_new)

lemma as_caller_iff: "as_caller ctx f s = Inr p \<longleftrightarrow>
    (\<exists>tenant user. ctx_tenant_id ctx = Some tenant \<and> ctx_user_id ctx = Some user \<and> f tenant user s = Inr p)"
  by (auto simp: as_caller_def agent_identity_def bindS_def split: option.splits)

lemma as_caller_eval: "ctx_tenant_id ctx = Some tenant \<Longrightarrow> ctx_user_id ctx = Some user \<Longrightarrow>
    as_caller ctx f s = f tenant user s"
  by (simp add: as_caller_def agent_identity_def)

subsection \<open>Effects\<close>

text \<open>Draws and audit rows move none of the tables that the agent reads.\<close>

definition quiet :: "agent_db \<Rightarrow> agent_db \<Rightarrow> bool" where
  "quiet s t \<longleftrightarrow> conversation_rows t = conversation_rows s \<and> turn_rows t = turn_rows s \<and> message_rows t = message_rows s
     \<and> feedback_rows t = feedback_rows s \<and> evidence_rows t = evidence_rows s
     \<and> drafts (ag_desk t) = drafts (ag_desk s) \<and> tickets (desk_case (ag_desk t)) = tickets (desk_case (ag_desk s))"

lemma fresh_quiet: "fresh s = Inr (i, t) \<Longrightarrow> quiet s t"
  by (auto simp: fresh_def on_desk_def on_case_def draw_uuid_def desk_of_def quiet_def)

lemma audit_quiet: "audit_agent ctx tenant user action resource outcome s = Inr (u, t) \<Longrightarrow> quiet s t"
  by (auto simp: audit_agent_def on_desk_def on_case_def desk_of_def quiet_def)

lemma audit_agent_runs: "\<exists>t. audit_agent ctx tenant user action resource outcome s = Inr ((), t)"
  by (simp add: audit_agent_def on_desk_def on_case_def)

lemma fresh_runs: "\<exists>i t. fresh s = Inr (i, t)"
  by (simp add: fresh_def on_desk_def on_case_def draw_uuid_def)

lemma update_conversations_iff: "update_conversations p f s = Inr (n, t) \<longleftrightarrow> n = length (filter p (conversation_rows s))
    \<and> t = s\<lparr>conversation_rows := map (\<lambda>c. if p c then f c else c) (conversation_rows s)\<rparr>"
  by (auto simp: update_conversations_def)

lemma update_turns_iff: "update_turns p f s = Inr (n, t) \<longleftrightarrow> n = length (filter p (turn_rows s))
    \<and> t = s\<lparr>turn_rows := map (\<lambda>x. if p x then f x else x) (turn_rows s)\<rparr>"
  by (auto simp: update_turns_def)

lemma insert_message_iff: "insert_message m s = Inr (u, t) \<longleftrightarrow>
    ms_id m \<notin> ms_id ` set (message_rows s) \<and> t = s\<lparr>message_rows := message_rows s @ [m]\<rparr>"
  by (auto simp: insert_message_def)

lemma insert_conversation_iff: "insert_conversation c s = Inr (u, t) \<longleftrightarrow>
    co_id c \<notin> co_id ` set (conversation_rows s) \<and> t = s\<lparr>conversation_rows := conversation_rows s @ [c]\<rparr>"
  by (auto simp: insert_conversation_def)

lemma insert_turn_iff: "insert_turn x s = Inr (u, t) \<longleftrightarrow> tn_id x \<notin> tn_id ` set (turn_rows s)
    \<and> \<not> (tn_status x = ''ACTIVE'' \<and> (\<exists>y\<in>set (turn_rows s). active_in (tn_conversation x) y))
    \<and> t = s\<lparr>turn_rows := turn_rows s @ [x]\<rparr>"
  by (auto simp: insert_turn_def active_in_def)

lemmas row_iffs = update_conversations_iff update_turns_iff insert_message_iff insert_conversation_iff insert_turn_iff

definition restate :: "(conversation_row \<Rightarrow> bool) \<Rightarrow> agent_state \<Rightarrow> conversation_row list \<Rightarrow> conversation_row list" where
  "restate p x cs = map (\<lambda>c. if p c then c\<lparr>co_state := Some (state_code x)\<rparr> else c) cs"

lemma create_effect:
  assumes "create_conversation_row ctx s = Inr (r, t)"
  obtains tenant user c where "co_id c \<notin> co_id ` set (conversation_rows s)" "co_state c = Some (state_code NEW)"
    "conversation_rows t = conversation_rows s @ [c]" "turn_rows t = turn_rows s" "feedback_rows t = feedback_rows s"
    "co_id c = cn_id r" "co_tenant c = tenant" "co_user c = user" "ctx_tenant_id ctx = Some tenant" "ctx_user_id ctx = Some user"
    "co_type c = ''EMPLOYEE_HELPDESK''" "co_status c = ''OPEN''" "cn_state r = NEW" "co_ticket c = None"
proof -
  from assms obtain tenant user i s1 s2 where ids: "ctx_tenant_id ctx = Some tenant" "ctx_user_id ctx = Some user"
    and f: "fresh s = Inr (i, s1)"
    and ins: "insert_conversation \<lparr>co_id = i, co_tenant = tenant, co_type = ''EMPLOYEE_HELPDESK'', co_user = user,
       co_status = ''OPEN'', co_state = Some (state_code NEW), co_draft = None, co_ticket = None\<rparr> s1 = Inr ((), s2)"
    and a: "audit_agent ctx tenant user ''AI_CONVERSATION_CREATED'' i ''SUCCESS'' s2 = Inr ((), t)"
    and r: "r = \<lparr>cn_id = i, cn_state = NEW\<rparr>"
    by (auto simp: create_conversation_row_def as_caller_iff bindS_Inr_iff)
  from fresh_quiet [OF f] audit_quiet [OF a] ins show thesis
    by (intro that [of "\<lparr>co_id = i, co_tenant = tenant, co_type = ''EMPLOYEE_HELPDESK'', co_user = user,
       co_status = ''OPEN'', co_state = Some (state_code NEW), co_draft = None, co_ticket = None\<rparr>" tenant user])
      (auto simp: quiet_def insert_conversation_iff ids r)
qed

definition new_turn :: "instant \<Rightarrow> uuid \<Rightarrow> uuid \<Rightarrow> started_turn \<Rightarrow> turn_row" where
  "new_turn now tenant i r = \<lparr>tn_id = sd_turn r, tn_tenant = tenant, tn_conversation = i, tn_message = sd_message r,
     tn_answer = None, tn_run = None, tn_state = COLLECTING_INFORMATION, tn_status = ''ACTIVE'', tn_outcome = None,
     tn_retrieval = None, tn_cancel_requested = None, tn_started = now, tn_completed = None, tn_failure = None\<rparr>"

lemma start_turn_effect:
  assumes "start_turn now ctx i content limit s = Inr (r, t)"
  obtains tenant user c x where "ctx_tenant_id ctx = Some tenant" "ctx_user_id ctx = Some user"
    "open_conversation tenant user i s = Some c" "current_state c = Inr x" "x \<notin> closed_states"
    "\<forall>y\<in>set (turn_rows s). \<not> active_in i y" "sd_turn r \<notin> tn_id ` set (turn_rows s)"
    "conversation_rows t = restate (\<lambda>c. co_id c = i) COLLECTING_INFORMATION (conversation_rows s)"
    "turn_rows t = turn_rows s @ [new_turn now tenant i r]"
    "message_rows t = message_rows s @ [\<lparr>ms_id = sd_message r, ms_conversation = i, ms_role = ''USER'', ms_text = Some content,
       ms_answer = None, ms_at = now\<rparr>]"
    "feedback_rows t = feedback_rows s" "sd_messages r = message_history i limit t"
    "sd_message r \<notin> ms_id ` set (message_rows s)"
    "drafts (ag_desk t) = drafts (ag_desk s)" "tickets (desk_case (ag_desk t)) = tickets (desk_case (ag_desk s))"
proof -
  from assms obtain tenant user c x m n s1 s2 s3 where ids: "ctx_tenant_id ctx = Some tenant" "ctx_user_id ctx = Some user"
    and c: "open_conversation tenant user i s = Some c" "current_state c = Inr x" "x \<notin> closed_states"
    and idle: "\<not> list_ex (active_in i) (turn_rows s)"
    and f: "fresh s = Inr (m, s1)"
    and ins: "insert_message \<lparr>ms_id = m, ms_conversation = i, ms_role = ''USER'', ms_text = Some content,
       ms_answer = None, ms_at = now\<rparr> s1 = Inr ((), s2)"
    and g: "fresh s2 = Inr (n, s3)"
    and rest: "bindS (insert_turn (new_turn now tenant i \<lparr>sd_turn = n, sd_message = m, sd_messages = []\<rparr>)) (\<lambda>_.
        bindS (set_state i COLLECTING_INFORMATION) (\<lambda>_. bindS (getS (message_history i limit)) (\<lambda>h.
        ret \<lparr>sd_turn = n, sd_message = m, sd_messages = h\<rparr>))) s3 = Inr (r, t)"
    by (auto simp: start_turn_def as_caller_iff bindS_Inr_iff new_turn_def split: if_splits)
  from fresh_quiet [OF f] fresh_quiet [OF g] ins rest ids c idle show thesis
    by (intro that [of tenant user c x])
      (auto simp: quiet_def insert_message_iff bindS_Inr_iff insert_turn_iff set_state_def update_conversations_iff restate_def
        new_turn_def list_ex_iff)
qed

definition completed :: "instant \<Rightarrow> uuid \<Rightarrow> agent_answer \<Rightarrow> turn_row \<Rightarrow> turn_row" where
  "completed now message a t = t\<lparr>tn_answer := Some message, tn_run := an_run a, tn_state := an_state a,
     tn_status := ''COMPLETED'', tn_outcome := Some (an_outcome a), tn_retrieval := an_retrieval a, tn_completed := Some now\<rparr>"

lemma evidence_effect: "forS (append_evidence run) es s = Inr (u, t) \<Longrightarrow> \<exists>rows. t = s\<lparr>evidence_rows := rows\<rparr>"
proof (induction es arbitrary: s)
  case Nil
  then have "t = s\<lparr>evidence_rows := evidence_rows s\<rparr>" by simp
  then show ?case ..
next
  case (Cons e es)
  then obtain rows where "t = s\<lparr>evidence_rows := rows\<rparr>"
    by (force simp: bindS_Inr_iff append_evidence_def)
  then show ?case ..
qed

lemma finish_turn_effect:
  assumes "finish_turn now ctx i turn a s = Inr (m, t)"
  obtains tenant user where "ctx_tenant_id ctx = Some tenant" "ctx_user_id ctx = Some user"
    "\<exists>c\<in>set (conversation_rows s). owns tenant user i c" "length (filter (running_turn tenant i turn) (turn_rows s)) = 1"
    "conversation_rows t = restate (owns tenant user i) (an_state a) (conversation_rows s)"
    "turn_rows t = map (\<lambda>x. if running_turn tenant i turn x then completed now m a x else x) (turn_rows s)"
    "message_rows t = message_rows s @ [\<lparr>ms_id = m, ms_conversation = i, ms_role = ''ASSISTANT'', ms_text = Some (an_text a),
       ms_answer = Some (an_outcome a, an_citations a), ms_at = now\<rparr>]"
    "feedback_rows t = feedback_rows s"
    "drafts (ag_desk t) = drafts (ag_desk s)" "tickets (desk_case (ag_desk t)) = tickets (desk_case (ag_desk s))"
proof -
  from assms obtain tenant user s1 s2 s3 s4 s5 n k where ids: "ctx_tenant_id ctx = Some tenant" "ctx_user_id ctx = Some user"
    and own: "list_ex (owns tenant user i) (conversation_rows s)"
    and f: "fresh s = Inr (m, s1)"
    and ins: "insert_message \<lparr>ms_id = m, ms_conversation = i, ms_role = ''ASSISTANT'', ms_text = Some (an_text a),
       ms_answer = Some (an_outcome a, an_citations a), ms_at = now\<rparr> s1 = Inr ((), s2)"
    and u: "update_turns (running_turn tenant i turn) (completed now m a) s2 = Inr (n, s3)" "n = 1"
    and v: "update_conversations (owns tenant user i) (\<lambda>c. c\<lparr>co_state := Some (state_code (an_state a))\<rparr>) s3 = Inr (k, s4)"
    and e: "(case an_run a of None \<Rightarrow> ret () | Some run \<Rightarrow> forS (append_evidence run) (an_evidence a)) s4 = Inr ((), s5)"
    and au: "audit_agent ctx tenant user ''AI_CONVERSATION_TURN_COMPLETED'' turn ''SUCCESS'' s5 = Inr ((), t)"
    by (auto simp: finish_turn_def as_caller_iff bindS_Inr_iff completed_def [abs_def] split: if_splits)
  from e have "\<exists>rows. s5 = s4\<lparr>evidence_rows := rows\<rparr>"
    by (cases "an_run a") (auto intro: evidence_effect exI [of _ "evidence_rows s4"])
  with fresh_quiet [OF f] audit_quiet [OF au] ins u v ids own show thesis
    by (intro that [of tenant user]) (auto simp: quiet_def row_iffs restate_def list_ex_iff)
qed

definition cancelled :: "instant \<Rightarrow> turn_row \<Rightarrow> turn_row" where
  "cancelled now t = t\<lparr>tn_status := ''CANCELLED'', tn_cancel_requested := Some (given (tn_cancel_requested t) now),
     tn_completed := Some now, tn_failure := Some ''CLIENT_CANCELLED''\<rparr>"

definition broken :: "instant \<Rightarrow> string \<Rightarrow> turn_row \<Rightarrow> turn_row" where
  "broken now code t = t\<lparr>tn_status := ''FAILED'', tn_completed := Some now, tn_failure := Some (take 100 code)\<rparr>"

lemma cancel_turn_effect:
  assumes "cancel_turn now ctx i turn s = Inr (u, t)"
  obtains tenant user where "ctx_tenant_id ctx = Some tenant" "ctx_user_id ctx = Some user"
    "length (filter (own_running tenant user i turn (conversation_rows s)) (turn_rows s)) = 1"
    "turn_rows t = map (\<lambda>x. if own_running tenant user i turn (conversation_rows s) x then cancelled now x else x) (turn_rows s)"
    "conversation_rows t = conversation_rows s" "feedback_rows t = feedback_rows s" "message_rows t = message_rows s"
    "drafts (ag_desk t) = drafts (ag_desk s)" "tickets (desk_case (ag_desk t)) = tickets (desk_case (ag_desk s))"
proof -
  from assms obtain tenant user s1 n where ids: "ctx_tenant_id ctx = Some tenant" "ctx_user_id ctx = Some user"
    and u: "update_turns (own_running tenant user i turn (conversation_rows s)) (cancelled now) s = Inr (n, s1)" "n = 1"
    and au: "audit_agent ctx tenant user ''AI_CONVERSATION_TURN_CANCELLED'' turn ''SUCCESS'' s1 = Inr ((), t)"
    by (auto simp: cancel_turn_def as_caller_iff bindS_Inr_iff cancelled_def [abs_def] split: if_splits)
  from audit_quiet [OF au] u ids show thesis
    by (intro that [of tenant user]) (auto simp: quiet_def row_iffs)
qed

lemma fail_turn_effect:
  assumes "fail_turn now ctx i turn code s = Inr (u, t)"
  obtains tenant user where "ctx_tenant_id ctx = Some tenant" "ctx_user_id ctx = Some user"
    "turn_rows t = map (\<lambda>x. if own_running tenant user i turn (conversation_rows s) x then broken now code x else x) (turn_rows s)"
    "conversation_rows t = conversation_rows s" "feedback_rows t = feedback_rows s" "message_rows t = message_rows s"
    "drafts (ag_desk t) = drafts (ag_desk s)" "tickets (desk_case (ag_desk t)) = tickets (desk_case (ag_desk s))"
proof -
  from assms obtain tenant user s1 n where ids: "ctx_tenant_id ctx = Some tenant" "ctx_user_id ctx = Some user"
    and u: "update_turns (own_running tenant user i turn (conversation_rows s)) (broken now code) s = Inr (n, s1)"
    and au: "audit_agent ctx tenant user ''AI_CONVERSATION_TURN_FAILED'' turn ''FAILED'' s1 = Inr ((), t)"
    by (auto simp: fail_turn_def as_caller_iff bindS_Inr_iff broken_def [abs_def])
  from audit_quiet [OF au] u ids show thesis
    by (intro that [of tenant user]) (auto simp: quiet_def row_iffs)
qed

lemma store_outcome_effect:
  assumes "store_outcome tenant user i run helpful resolved comment s = Inr (u, t)"
  obtains f where "f \<in> set (feedback_rows t)" "resolution_outcome i user f" "same_feedback helpful resolved comment f"
    "feedback_rows t = feedback_rows s \<or> find (resolution_outcome i user) (feedback_rows s) = None \<and> feedback_rows t = feedback_rows s @ [f]"
    "conversation_rows t = conversation_rows s" "turn_rows t = turn_rows s" "message_rows t = message_rows s"
    "drafts (ag_desk t) = drafts (ag_desk s)" "tickets (desk_case (ag_desk t)) = tickets (desk_case (ag_desk s))"
proof -
  from assms obtain new s1 where f: "fresh s = Inr (new, s1)"
    and r: "(case find (resolution_outcome i user) (feedback_rows s1) of
       Some f \<Rightarrow> if same_feedback helpful resolved comment f then Inr ((), s1) else Inl FeedbackConflict
     | None \<Rightarrow> if new \<in> fb_id ` set (feedback_rows s1) then Inl (Failure (IntegrityError ''feedback_pkey''))
         else Inr ((), s1\<lparr>feedback_rows := feedback_rows s1 @
           [\<lparr>fb_id = new, fb_tenant = tenant, fb_conversation = i, fb_run = run, fb_user = user,
             fb_type = ''RESOLUTION_OUTCOME'', fb_rating = rating_of helpful, fb_comment = comment,
             fb_resolved = resolved\<rparr>]\<rparr>)) = Inr (u, t)"
    by (auto simp: store_outcome_def bindS_Inr_iff)
  from fresh_quiet [OF f] have q: "quiet s s1" .
  show thesis
  proof (cases "find (resolution_outcome i user) (feedback_rows s1)")
    case None
    with r q show thesis
      by (intro that [of "\<lparr>fb_id = new, fb_tenant = tenant, fb_conversation = i, fb_run = run, fb_user = user,
             fb_type = ''RESOLUTION_OUTCOME'', fb_rating = rating_of helpful, fb_comment = comment, fb_resolved = resolved\<rparr>"])
        (auto simp: quiet_def resolution_outcome_def same_feedback_def split: if_splits)
  next
    case (Some f)
    with r q show thesis
      by (intro that [of f]) (auto simp: quiet_def find_Some_iff split: if_splits)
  qed
qed

lemma feedback_effect:
  assumes "record_resolution_feedback ctx i helpful resolved comment s = Inr (target, t)"
  obtains tenant user c x f where "ctx_tenant_id ctx = Some tenant" "ctx_user_id ctx = Some user"
    "helpdesk_conversation tenant user i s = Some c" "current_state c = Inr x" "x \<in> feedback_states"
    "resolved \<Longrightarrow> x \<noteq> COLLECTING_TICKET_FIELDS"
    "target = (if resolved then RESOLVED_WITHOUT_TICKET else COLLECTING_TICKET_FIELDS)"
    "f \<in> set (feedback_rows t)" "resolution_outcome i user f" "same_feedback helpful resolved comment f"
    "feedback_rows t = feedback_rows s \<or> find (resolution_outcome i user) (feedback_rows s) = None \<and> feedback_rows t = feedback_rows s @ [f]"
    "conversation_rows t = restate (\<lambda>c. co_id c = i) target (conversation_rows s)"
    "turn_rows t = turn_rows s" "message_rows t = message_rows s"
    "drafts (ag_desk t) = drafts (ag_desk s)" "tickets (desk_case (ag_desk t)) = tickets (desk_case (ag_desk s))"
proof -
  from assms obtain tenant user c x s1 s2 n where ids: "ctx_tenant_id ctx = Some tenant" "ctx_user_id ctx = Some user"
    and c: "helpdesk_conversation tenant user i s = Some c" "current_state c = Inr x" "x \<in> feedback_states"
      "resolved \<Longrightarrow> x \<noteq> COLLECTING_TICKET_FIELDS"
    and st: "store_outcome tenant user i (latest_run i s) helpful resolved comment s = Inr ((), s1)"
    and up: "set_state i target s1 = Inr (n, s2)"
    and au: "audit_agent ctx tenant user ''AI_RESOLUTION_FEEDBACK_RECORDED'' i ''SUCCESS'' s2 = Inr ((), t)"
    and tg: "target = (if resolved then RESOLVED_WITHOUT_TICKET else COLLECTING_TICKET_FIELDS)"
    by (auto simp: record_resolution_feedback_def as_caller_iff bindS_Inr_iff Let_def split: if_splits)
  from st obtain f where f: "f \<in> set (feedback_rows s1)" "resolution_outcome i user f" "same_feedback helpful resolved comment f"
    "feedback_rows s1 = feedback_rows s \<or> find (resolution_outcome i user) (feedback_rows s) = None \<and> feedback_rows s1 = feedback_rows s @ [f]"
    "conversation_rows s1 = conversation_rows s" "turn_rows s1 = turn_rows s" "message_rows s1 = message_rows s"
    "drafts (ag_desk s1) = drafts (ag_desk s)" "tickets (desk_case (ag_desk s1)) = tickets (desk_case (ag_desk s))"
    by (rule store_outcome_effect)
  from f up audit_quiet [OF au] ids c tg show thesis
    by (intro that [of tenant user c x f]) (auto simp: quiet_def set_state_def row_iffs restate_def)
qed

lemma link_draft_effect:
  assumes "link_draft ctx i draft s = Inr (u, t)"
  obtains tenant user p where "ctx_tenant_id ctx = Some tenant" "ctx_user_id ctx = Some user"
    "\<And>c. p c \<Longrightarrow> owns tenant user i c" "length (filter p (conversation_rows s)) = 1"
    "conversation_rows t = map (\<lambda>c. if p c then c\<lparr>co_state := Some (state_code AWAITING_USER_CONFIRMATION), co_draft := Some draft\<rparr> else c)
       (conversation_rows s)"
    "turn_rows t = turn_rows s" "feedback_rows t = feedback_rows s" "message_rows t = message_rows s"
    "drafts (ag_desk t) = drafts (ag_desk s)" "tickets (desk_case (ag_desk t)) = tickets (desk_case (ag_desk s))"
proof -
  from assms obtain tenant user s1 n where ids: "ctx_tenant_id ctx = Some tenant" "ctx_user_id ctx = Some user"
    and u: "update_conversations (\<lambda>c. owns tenant user i c \<and> list_ex (\<lambda>d. dr_id d = draft \<and> dr_tenant d = tenant
         \<and> dr_owner d = user \<and> dr_conversation d = Some (co_id c)) (drafts (ag_desk s)))
       (\<lambda>c. c\<lparr>co_state := Some (state_code AWAITING_USER_CONFIRMATION), co_draft := Some draft\<rparr>) s = Inr (n, s1)" "n = 1"
    and au: "audit_agent ctx tenant user ''AI_TICKET_DRAFT_LINKED'' i ''SUCCESS'' s1 = Inr ((), t)"
    by (auto simp: link_draft_def as_caller_iff bindS_Inr_iff split: if_splits)
  from audit_quiet [OF au] u ids show thesis
    by (intro that [of tenant user "\<lambda>c. owns tenant user i c \<and> list_ex (\<lambda>d. dr_id d = draft \<and> dr_tenant d = tenant
         \<and> dr_owner d = user \<and> dr_conversation d = Some (co_id c)) (drafts (ag_desk s))"])
      (auto simp: quiet_def row_iffs)
qed

definition ticket_fits :: "desk_db \<Rightarrow> uuid \<Rightarrow> uuid \<Rightarrow> conversation_row \<Rightarrow> bool" where
  "ticket_fits desk draft ticket c \<longleftrightarrow>
     (\<exists>d\<in>set (drafts desk). dr_id d = draft \<and> dr_conversation d = Some (co_id c) \<and> dr_ticket d = Some ticket)
     \<and> (\<exists>x\<in>set (tickets (desk_case desk)). t_id x = ticket \<and> t_conversation x = Some (co_id c))"

lemma link_ticket_effect:
  assumes "link_ticket ctx i draft ticket s = Inr (u, t)"
  obtains tenant user where "ctx_tenant_id ctx = Some tenant" "ctx_user_id ctx = Some user"
    "length (filter (\<lambda>c. owns tenant user i c \<and> ticket_fits (ag_desk s) draft ticket c) (conversation_rows s)) = 1"
    "conversation_rows t = map (\<lambda>c. if owns tenant user i c \<and> ticket_fits (ag_desk s) draft ticket c
       then c\<lparr>co_state := Some (state_code TICKET_SUBMITTED), co_ticket := Some ticket\<rparr> else c) (conversation_rows s)"
    "turn_rows t = turn_rows s" "feedback_rows t = feedback_rows s" "message_rows t = message_rows s"
    "drafts (ag_desk t) = drafts (ag_desk s)" "tickets (desk_case (ag_desk t)) = tickets (desk_case (ag_desk s))"
proof -
  from assms obtain tenant user s1 n where ids: "ctx_tenant_id ctx = Some tenant" "ctx_user_id ctx = Some user"
    and u: "update_conversations (\<lambda>c. owns tenant user i c \<and> ticket_fits (ag_desk s) draft ticket c)
       (\<lambda>c. c\<lparr>co_state := Some (state_code TICKET_SUBMITTED), co_ticket := Some ticket\<rparr>) s = Inr (n, s1)" "n = 1"
    and au: "audit_agent ctx tenant user ''AI_CONFIRMED_TICKET_LINKED'' ticket ''SUCCESS'' s1 = Inr ((), t)"
    by (auto simp: link_ticket_def as_caller_iff bindS_Inr_iff ticket_fits_def list_ex_iff split: if_splits)
  from audit_quiet [OF au] u ids show thesis
    by (intro that [of tenant user]) (auto simp: quiet_def row_iffs)
qed

subsection \<open>The invariant\<close>

definition active :: "turn_row \<Rightarrow> bool" where
  "active t \<longleftrightarrow> tn_status t = ''ACTIVE''"

definition one_active :: "turn_row list \<Rightarrow> bool" where
  "one_active ts \<longleftrightarrow> distinct (map tn_conversation (filter active ts))"

definition active_collects :: "conversation_row list \<Rightarrow> turn_row list \<Rightarrow> bool" where
  "active_collects cs ts \<longleftrightarrow> (\<forall>t\<in>set ts. active t \<longrightarrow>
     (\<forall>c\<in>set cs. co_id c = tn_conversation t \<longrightarrow> co_state c = Some (state_code COLLECTING_INFORMATION)))"

definition is_outcome :: "feedback_row \<Rightarrow> bool" where
  "is_outcome f \<longleftrightarrow> fb_type f = ''RESOLUTION_OUTCOME''"

definition one_outcome :: "feedback_row list \<Rightarrow> bool" where
  "one_outcome fs \<longleftrightarrow> distinct (map (\<lambda>f. (fb_conversation f, fb_user f)) (filter is_outcome fs))"

definition outcome_recorded :: "feedback_row list \<Rightarrow> conversation_row \<Rightarrow> bool \<Rightarrow> bool" where
  "outcome_recorded fs c resolved \<longleftrightarrow> (\<exists>f\<in>set fs. resolution_outcome (co_id c) (co_user c) f \<and> fb_resolved f = resolved)"

definition state_recorded :: "feedback_row list \<Rightarrow> conversation_row \<Rightarrow> bool" where
  "state_recorded fs c \<longleftrightarrow>
     (co_state c = Some (state_code RESOLVED_WITHOUT_TICKET) \<longrightarrow> outcome_recorded fs c True)
     \<and> (co_state c \<in> {Some (state_code AWAITING_USER_CONFIRMATION), Some (state_code TICKET_SUBMITTED)} \<longrightarrow> outcome_recorded fs c False)
     \<and> (co_state c = Some (state_code TICKET_SUBMITTED) \<longrightarrow> co_ticket c \<noteq> None)"

definition conversations_sound :: "agent_db \<Rightarrow> bool" where
  "conversations_sound s \<longleftrightarrow> distinct (map co_id (conversation_rows s)) \<and> distinct (map tn_id (turn_rows s))
     \<and> tn_conversation ` set (turn_rows s) \<subseteq> co_id ` set (conversation_rows s)
     \<and> one_active (turn_rows s) \<and> active_collects (conversation_rows s) (turn_rows s)
     \<and> one_outcome (feedback_rows s) \<and> (\<forall>c\<in>set (conversation_rows s). state_recorded (feedback_rows s) c)"

lemma sound_same_tables: "conversations_sound s \<Longrightarrow> conversation_rows t = conversation_rows s \<Longrightarrow> turn_rows t = turn_rows s
    \<Longrightarrow> feedback_rows t = feedback_rows s \<Longrightarrow> conversations_sound t"
  by (simp add: conversations_sound_def)

lemma map_update: "(\<And>x. g (f x) = g x) \<Longrightarrow> map g (map (\<lambda>x. if p x then f x else x) xs) = map g xs"
  by (induction xs) auto

lemma image_update: "(\<And>x. g (f x) = g x) \<Longrightarrow> g ` set (map (\<lambda>x. if p x then f x else x) xs) = g ` set xs"
  by (induction xs) auto

lemma restate_ids [simp]: "map co_id (restate p x cs) = map co_id cs"
  unfolding restate_def by (rule map_update) simp

lemma restate_id_set [simp]: "co_id ` set (restate p x cs) = co_id ` set cs"
  unfolding restate_def by (rule image_update) simp

lemma in_restate: "c \<in> set (restate p x cs) \<longleftrightarrow>
    (\<exists>d\<in>set cs. c = (if p d then d\<lparr>co_state := Some (state_code x)\<rparr> else d))"
  by (auto simp: restate_def)

lemma same_id: "distinct (map f xs) \<Longrightarrow> x \<in> set xs \<Longrightarrow> y \<in> set xs \<Longrightarrow> f x = f y \<Longrightarrow> x = y"
  by (auto simp: distinct_map inj_on_def)

text \<open>Ending turns keeps the facts about active ones.\<close>

lemma filter_ended:
  assumes "\<And>x. \<not> active (f x)"
  shows "filter active (map (\<lambda>x. if p x then f x else x) ts) = filter (\<lambda>x. active x \<and> \<not> p x) ts"
  using assms by (induction ts) auto

lemma one_active_ended:
  assumes "one_active ts" "\<And>x. \<not> active (f x)"
  shows "one_active (map (\<lambda>x. if p x then f x else x) ts)"
proof -
  have rest: "filter active (map (\<lambda>x. if p x then f x else x) ts) = filter (\<lambda>x. \<not> p x) (filter active ts)"
    using filter_ended [of f p ts] assms(2) by (simp add: conj_commute)
  show ?thesis using assms(1) unfolding one_active_def rest by (rule distinct_map_filter)
qed

lemma active_collects_ended:
  assumes "active_collects cs ts" "\<And>x. \<not> active (f x)"
  shows "active_collects cs (map (\<lambda>x. if p x then f x else x) ts)"
  using assms by (auto simp: active_collects_def)

lemma sound_ended:
  assumes "conversations_sound s" "turn_rows t = map (\<lambda>x. if p x then f x else x) (turn_rows s)"
    and "\<And>x. \<not> active (f x)" "\<And>x. tn_id (f x) = tn_id x" "\<And>x. tn_conversation (f x) = tn_conversation x"
    and "conversation_rows t = conversation_rows s" "feedback_rows t = feedback_rows s"
  shows "conversations_sound t"
proof -
  have "tn_conversation ` set (turn_rows t) = tn_conversation ` set (turn_rows s)"
    unfolding assms(2) by (rule image_update) (rule assms(5))
  moreover have "map tn_id (turn_rows t) = map tn_id (turn_rows s)"
    unfolding assms(2) by (rule map_update) (rule assms(4))
  moreover have "one_active (turn_rows t)" "active_collects (conversation_rows s) (turn_rows t)"
    using assms(1) one_active_ended [OF _ assms(3)] active_collects_ended [OF _ assms(3)]
    by (simp_all add: conversations_sound_def assms(2))
  ultimately show ?thesis
    using assms(1) by (simp add: conversations_sound_def assms(6,7))
qed

end
