(* ===== verification/Escalation.thy ===== *)
theory Escalation
  imports EmployeeAgent
begin

text \<open>
  The end of a conversation in \<open>employee_agent/service.py\<close>: the feedback on a proposed resolution, the draft that
  unresolved feedback opens with the ticket service, and the submission of the reviewed draft as a ticket.
\<close>

record feedback_request =
  fq_helpful :: bool
  fq_resolved :: bool
  fq_comment :: "string option"
  fq_draft :: "draft_command option"

text \<open>A use case of the ticket service, run between the units of work of the agent.\<close>

definition on_tickets :: "(desk_db \<Rightarrow> (app_error + 'a) \<times> desk_db) \<Rightarrow> agent_db \<Rightarrow> (app_error + 'a) \<times> agent_db" where
  "on_tickets m db = (case m (desk_of db) of (r, d) \<Rightarrow> (r, db\<lparr>ag_desk := d\<rparr>))"

text \<open>A stateful step followed by the next one, unless it raised.\<close>

definition then_do :: "('s \<Rightarrow> ('e + 'a) \<times> 's) \<Rightarrow> ('a \<Rightarrow> 's \<Rightarrow> ('e + 'b) \<times> 's) \<Rightarrow> 's \<Rightarrow> ('e + 'b) \<times> 's" where
  "then_do m f s = (case m s of (Inl e, s') \<Rightarrow> (Inl e, s') | (Inr x, s') \<Rightarrow> f x s')"

definition stop_unless :: "bool \<Rightarrow> 'e \<Rightarrow> ('s \<Rightarrow> ('e + 'a) \<times> 's) \<Rightarrow> 's \<Rightarrow> ('e + 'a) \<times> 's" where
  "stop_unless b e m s = (if b then m s else (Inl e, s))"

definition message_excerpt :: "string list \<Rightarrow> string" where
  "message_excerpt ms = (let s = last_chars 1500 (py_join '' | ''
       (map (\<lambda>m. take 500 (collapse m)) (filter (\<lambda>m. \<not> contains_prompt_injection m) ms)))
     in if s = [] then ''No safe conversation excerpt retained.'' else s)"

definition with_safe_summary :: "draft_command \<Rightarrow> string list \<Rightarrow> draft_command" where
  "with_safe_summary cmd ms = cmd\<lparr>dc_description := Some (take 20000
     ((case optional_text (dc_description cmd) of None \<Rightarrow> []
       | Some s \<Rightarrow> ''Employee-provided issue details:'' @ [CHR 0x0A] @ s @ [CHR 0x0A, CHR 0x0A])
      @ ''Bounded employee conversation summary:'' @ [CHR 0x0A] @ message_excerpt ms))\<rparr>"

definition not_awaiting :: app_error where
  "not_awaiting = ConflictError ''This conversation is not awaiting resolution feedback.''"

definition resolved_feedback ::
  "request_context \<Rightarrow> uuid \<Rightarrow> bool \<Rightarrow> string option \<Rightarrow> agent_db \<Rightarrow> (app_error + agent_state \<times> draft_view option) \<times> agent_db" where
  "resolved_feedback ctx i helpful comment =
     then_do (unit_of feedback_error (record_resolution_feedback ctx i helpful True comment)) (\<lambda>s.
     Pair (Inr (s, None)))"

definition draft_link_work :: "request_context \<Rightarrow> uuid \<Rightarrow> bool \<Rightarrow> string option \<Rightarrow> uuid \<Rightarrow> unit agent_op" where
  "draft_link_work ctx i helpful comment draft =
     bindS (record_resolution_feedback ctx i helpful False comment) (\<lambda>_. link_draft ctx i draft)"

definition unresolved_feedback ::
  "desk_env \<Rightarrow> request_context \<Rightarrow> uuid \<Rightarrow> bool \<Rightarrow> string option \<Rightarrow> draft_command \<Rightarrow> agent_db
     \<Rightarrow> (app_error + agent_state \<times> draft_view option) \<times> agent_db" where
  "unresolved_feedback env ctx i helpful comment cmd =
     then_do (unit_of uncaught (user_message_summary ctx i 5)) (\<lambda>ms.
     then_do (on_tickets (create_draft env ctx (with_safe_summary cmd ms) (Some i))) (\<lambda>w.
     then_do (unit_of feedback_error (draft_link_work ctx i helpful comment (dr_id (dw_draft w)))) (\<lambda>_.
     Pair (Inr (AWAITING_USER_CONFIRMATION, Some w)))))"

definition resolution_feedback ::
  "desk_env \<Rightarrow> request_context \<Rightarrow> uuid \<Rightarrow> feedback_request \<Rightarrow> agent_db
     \<Rightarrow> (app_error + agent_state \<times> draft_view option) \<times> agent_db" where
  "resolution_feedback env ctx i said =
     then_do (read_conversation ctx i) (\<lambda>c.
     stop_unless (cn_state c \<in> feedback_states) not_awaiting
     (let comment = optional_text (fq_comment said) in
      if fq_resolved said then resolved_feedback ctx i (fq_helpful said) comment
      else (case fq_draft said of
          None \<Rightarrow> Pair (Inl (UncaughtError ''AssertionError''))
        | Some cmd \<Rightarrow> stop_unless (cn_state c \<noteq> RESOLVED_WITHOUT_TICKET)
            (ConflictError ''This conversation can no longer create a ticket draft.'')
            (unresolved_feedback env ctx i (fq_helpful said) comment cmd))))"

definition confirm_link_error :: "agent_failure \<Rightarrow> app_error" where
  "confirm_link_error e = (if e = ConversationNotFound
     then ConflictError ''The submitted ticket could not be linked safely.'' else uncaught e)"

text \<open>The ticket of a draft: the one it was submitted as, or that of its submission now.\<close>

definition confirmed_ticket ::
  "desk_env \<Rightarrow> request_context \<Rightarrow> draft_view \<Rightarrow> uuid \<Rightarrow> int \<Rightarrow> string \<Rightarrow> desk_db \<Rightarrow> (app_error + ticket_answer \<times> bool) \<times> desk_db" where
  "confirmed_ticket env ctx w draft version key d =
     (if dr_status (dw_draft w) = ''SUBMITTED'' \<and> dw_ticket_key w \<noteq> None
      then (rbind (get_ticket ctx (the (dw_ticket_key w)) d) (\<lambda>a. Inr (a, True)), d)
      else if dr_status (dw_draft w) \<noteq> ''READY_FOR_REVIEW''
      then (Inl (ConflictError ''Review and validate the ticket draft before confirmation.''), d)
      else submit env ctx draft version key d)"

definition confirm_ticket ::
  "desk_env \<Rightarrow> request_context \<Rightarrow> uuid \<Rightarrow> int \<Rightarrow> string \<Rightarrow> agent_db \<Rightarrow> (app_error + ticket_answer \<times> bool) \<times> agent_db" where
  "confirm_ticket env ctx i version key =
     (case agent_permitted ctx of
        Inl e \<Rightarrow> Pair (Inl e)
      | Inr _ \<Rightarrow>
          then_do (unit_of missing_conversation (linked_draft ctx i)) (\<lambda>(draft, s).
          stop_unless (s \<in> {AWAITING_USER_CONFIRMATION, TICKET_SUBMITTED})
            (ConflictError ''The ticket draft is not awaiting confirmation.'')
          (then_do (on_tickets (get_draft ctx draft)) (\<lambda>w.
           then_do (on_tickets (confirmed_ticket env ctx w draft version key)) (\<lambda>(answer, replay).
           then_do (unit_of confirm_link_error (link_ticket ctx i draft (t_id (tv_ticket (fst answer))))) (\<lambda>_.
           Pair (Inr (answer, replay))))))))"

end
