(* ===== verification/AgentSteps.thy ===== *)
theory AgentSteps
  imports ConversationLaws Escalation
begin

text \<open>
  The units of work of the employee agent as a step relation, and the preservation of the invariant of the
  conversation tables by every one of them.
\<close>

subsection \<open>Preservation\<close>

lemma not_active [simp]: "\<not> active (cancelled now x)" "\<not> active (broken now code x)" "\<not> active (completed now m a x)"
  by (simp_all add: active_def cancelled_def broken_def completed_def)

lemma ended_ids [simp]: "tn_id (cancelled now x) = tn_id x" "tn_id (broken now code x) = tn_id x"
  "tn_id (completed now m a x) = tn_id x" "tn_conversation (completed now m a x) = tn_conversation x"
  "tn_conversation (cancelled now x) = tn_conversation x" "tn_conversation (broken now code x) = tn_conversation x"
  by (simp_all add: cancelled_def broken_def completed_def)

lemma cancel_sound:
  assumes "conversations_sound s" "cancel_turn now ctx i turn s = Inr (u, t)"
  shows "conversations_sound t"
  using assms(2)
proof (rule cancel_turn_effect)
  fix tenant user
  assume ts: "turn_rows t = map (\<lambda>x. if own_running tenant user i turn (conversation_rows s) x then cancelled now x else x) (turn_rows s)"
    and rest: "conversation_rows t = conversation_rows s" "feedback_rows t = feedback_rows s"
  show ?thesis by (rule sound_ended [OF assms(1) ts]) (simp_all add: rest)
qed

lemma fail_sound:
  assumes "conversations_sound s" "fail_turn now ctx i turn code s = Inr (u, t)"
  shows "conversations_sound t"
  using assms(2)
proof (rule fail_turn_effect)
  fix tenant user
  assume ts: "turn_rows t = map (\<lambda>x. if own_running tenant user i turn (conversation_rows s) x then broken now code x else x) (turn_rows s)"
    and rest: "conversation_rows t = conversation_rows s" "feedback_rows t = feedback_rows s"
  show ?thesis by (rule sound_ended [OF assms(1) ts]) (simp_all add: rest)
qed

lemma no_active_there:
  assumes "active_collects cs ts" "c \<in> set cs" "current_state c = Inr x" "x \<noteq> COLLECTING_INFORMATION" "t \<in> set ts" "active t"
  shows "tn_conversation t \<noteq> co_id c"
  using assms by (auto simp: active_collects_def current_state_iff)

text \<open>Changing the state of a conversation without an active turn.\<close>

lemma active_collects_update:
  assumes "active_collects cs ts" "\<forall>y\<in>set ts. active y \<longrightarrow> tn_conversation y \<noteq> i"
    and "\<And>c. p c \<Longrightarrow> co_id c = i" "\<And>c. co_id (f c) = co_id c"
  shows "active_collects (map (\<lambda>c. if p c then f c else c) cs) ts"
  unfolding active_collects_def
proof (intro ballI impI)
  fix t c
  assume t: "t \<in> set ts" "active t" and c: "c \<in> set (map (\<lambda>c. if p c then f c else c) cs)" "co_id c = tn_conversation t"
  from c(1) obtain d where d: "d \<in> set cs" "c = (if p d then f d else d)" by auto
  with c(2) assms(2-4) t have "\<not> p d" by auto
  with assms(1) t c(2) d show "co_state c = Some (state_code COLLECTING_INFORMATION)"
    by (simp add: active_collects_def)
qed

lemma state_recorded_other: "co_state c = Some (state_code x) \<Longrightarrow>
    x \<notin> {RESOLVED_WITHOUT_TICKET, AWAITING_USER_CONFIRMATION, TICKET_SUBMITTED} \<Longrightarrow> state_recorded fs c"
  by (simp add: state_recorded_def)

lemma state_recorded_restate: "x \<notin> {RESOLVED_WITHOUT_TICKET, AWAITING_USER_CONFIRMATION, TICKET_SUBMITTED} \<Longrightarrow>
    state_recorded fs (c\<lparr>co_state := Some (state_code x)\<rparr>)"
  by (simp add: state_recorded_def)

lemma create_sound:
  assumes "conversations_sound s" "create_conversation_row ctx s = Inr (r, t)"
  shows "conversations_sound t"
  using assms(2)
proof (rule create_effect)
  fix tenant user c
  assume c: "co_id c \<notin> co_id ` set (conversation_rows s)" "co_state c = Some (state_code NEW)"
    "conversation_rows t = conversation_rows s @ [c]" "turn_rows t = turn_rows s" "feedback_rows t = feedback_rows s"
  have "tn_conversation x \<noteq> co_id c" if "x \<in> set (turn_rows s)" for x
    using assms(1) c(1) imageI [OF that, of tn_conversation] by (auto simp: conversations_sound_def)
  with assms(1) have "active_collects (conversation_rows t) (turn_rows t)"
    unfolding c by (auto simp: conversations_sound_def active_collects_def)
  with c assms(1) state_recorded_other [OF c(2)] show ?thesis
    by (auto simp: conversations_sound_def)
qed

lemma start_sound:
  assumes "conversations_sound s" "start_turn now ctx i content limit s = Inr (r, t)"
  shows "conversations_sound t"
  using assms(2)
proof (rule start_turn_effect)
  fix tenant user c x
  assume found: "open_conversation tenant user i s = Some c"
    and idle: "\<forall>y\<in>set (turn_rows s). \<not> active_in i y" and new: "sd_turn r \<notin> tn_id ` set (turn_rows s)"
    and cs: "conversation_rows t = restate (\<lambda>c. co_id c = i) COLLECTING_INFORMATION (conversation_rows s)"
    and ts: "turn_rows t = turn_rows s @ [new_turn now tenant i r]" and fs: "feedback_rows t = feedback_rows s"
  have i: "i \<notin> tn_conversation ` set (filter active (turn_rows s))"
    using idle by (auto simp: active_in_def active_def)
  have "one_active (turn_rows t)"
    using assms(1) i by (simp add: conversations_sound_def one_active_def ts active_def new_turn_def)
  moreover have "active_collects (conversation_rows t) (turn_rows t)"
    unfolding active_collects_def
  proof (intro ballI impI)
    fix y c
    assume y: "y \<in> set (turn_rows t)" "active y" and c: "c \<in> set (conversation_rows t)" "co_id c = tn_conversation y"
    from c(1) obtain d where d: "d \<in> set (conversation_rows s)"
      "c = (if co_id d = i then d\<lparr>co_state := Some (state_code COLLECTING_INFORMATION)\<rparr> else d)" by (auto simp: cs in_restate)
    show "co_state c = Some (state_code COLLECTING_INFORMATION)"
    proof (cases "co_id d = i")
      case False
      with y c(2) d(2) have "y \<in> set (turn_rows s)" by (auto simp: ts new_turn_def)
      with False y(2) c(2) d assms(1) show ?thesis by (simp add: conversations_sound_def active_collects_def)
    qed (simp add: d(2))
  qed
  moreover have "\<forall>c\<in>set (conversation_rows t). state_recorded (feedback_rows t) c"
    using assms(1) by (auto simp: conversations_sound_def cs fs in_restate state_recorded_restate)
  moreover have "i \<in> co_id ` set (conversation_rows s)"
    using found by (auto simp: open_conversation_def owns_def find_Some_iff)
  ultimately show ?thesis
    using assms(1) new by (simp add: conversations_sound_def cs ts fs new_turn_def)
qed

text \<open>The states an answer leaves a conversation in.\<close>

definition answer_states :: "agent_state set" where
  "answer_states = {COLLECTING_TICKET_FIELDS, AWAITING_RESOLUTION_CONFIRMATION}"

lemma state_recorded_answer: "x \<in> answer_states \<Longrightarrow> state_recorded fs (c\<lparr>co_state := Some (state_code x)\<rparr>)"
  by (rule state_recorded_other [of _ x]) (auto simp: answer_states_def)

lemma finish_sound:
  assumes "conversations_sound s" "finish_turn now ctx i turn a s = Inr (m, t)" "an_state a \<in> answer_states"
  shows "conversations_sound t"
  using assms(2)
proof (rule finish_turn_effect)
  fix tenant user
  assume one: "length (filter (running_turn tenant i turn) (turn_rows s)) = 1"
    and cs: "conversation_rows t = restate (owns tenant user i) (an_state a) (conversation_rows s)"
    and ts: "turn_rows t = map (\<lambda>x. if running_turn tenant i turn x then completed now m a x else x) (turn_rows s)"
    and fs: "feedback_rows t = feedback_rows s"
  from one obtain y where y: "y \<in> set (turn_rows s)" "running_turn tenant i turn y"
    by (metis filter_empty_conv list.size(3) zero_neq_one)
  let ?u = "s\<lparr>turn_rows := turn_rows t\<rparr>"
  have u: "conversations_sound ?u"
    by (rule sound_ended [OF assms(1), where f = "completed now m a" and p = "running_turn tenant i turn"]) (simp_all add: ts)
  have gone: "tn_conversation x \<noteq> i" if x: "x \<in> set (turn_rows t)" "active x" for x
  proof
    assume "tn_conversation x = i"
    from x obtain z where z: "z \<in> set (turn_rows s)" "x = z" "\<not> running_turn tenant i turn z" by (auto simp: ts split: if_splits)
    have "distinct (map tn_conversation (filter active (turn_rows s)))"
      using assms(1) by (simp add: conversations_sound_def one_active_def)
    from same_id [OF this, of z y] z y x(2) \<open>tn_conversation x = i\<close> have "z = y"
      by (auto simp: running_turn_def active_def)
    with y z show False by simp
  qed
  have "active_collects (conversation_rows t) (turn_rows t)"
    using u gone unfolding cs restate_def
    by (intro active_collects_update [where i = i]) (auto simp: conversations_sound_def owns_def)
  moreover have "\<forall>c\<in>set (conversation_rows t). state_recorded (feedback_rows t) c"
    using assms(1,3) by (auto simp: conversations_sound_def cs fs in_restate state_recorded_answer)
  ultimately show ?thesis
    using u by (simp add: conversations_sound_def cs fs)
qed

lemma recorded_unique:
  assumes "one_outcome fs" "outcome_recorded fs c True" "outcome_recorded fs c False"
  shows False
proof -
  from assms obtain f g where f: "f \<in> set fs" "resolution_outcome (co_id c) (co_user c) f" "fb_resolved f"
    and g: "g \<in> set fs" "resolution_outcome (co_id c) (co_user c) g" "\<not> fb_resolved g"
    by (auto simp: outcome_recorded_def)
  then have "f = g"
    using same_id [of "\<lambda>f. (fb_conversation f, fb_user f)" "filter is_outcome fs" f g] assms(1)
    by (auto simp: one_outcome_def resolution_outcome_def is_outcome_def)
  with f g show False by simp
qed

lemma recorded_mono: "outcome_recorded fs c b \<Longrightarrow> outcome_recorded (fs @ gs) c b"
  by (auto simp: outcome_recorded_def)

lemma state_recorded_mono: "state_recorded fs c \<Longrightarrow> state_recorded (fs @ gs) c"
  by (auto simp: state_recorded_def recorded_mono)

text \<open>Feedback: the outcome of the caller is on record, with the value of this call.\<close>

lemma feedback_sound:
  assumes "conversations_sound s" "record_resolution_feedback ctx i helpful resolved comment s = Inr (target, t)"
  shows "conversations_sound t \<and> (\<forall>c\<in>set (conversation_rows t). co_id c = i \<longrightarrow> outcome_recorded (feedback_rows t) c resolved)"
  using assms(2)
proof (rule feedback_effect)
  fix tenant user c x f
  assume c: "helpdesk_conversation tenant user i s = Some c" "current_state c = Inr x" "x \<in> feedback_states"
    and target: "target = (if resolved then RESOLVED_WITHOUT_TICKET else COLLECTING_TICKET_FIELDS)"
    and f: "f \<in> set (feedback_rows t)" "resolution_outcome i user f" "same_feedback helpful resolved comment f"
    and fs: "feedback_rows t = feedback_rows s \<or> find (resolution_outcome i user) (feedback_rows s) = None \<and> feedback_rows t = feedback_rows s @ [f]"
    and cs: "conversation_rows t = restate (\<lambda>c. co_id c = i) target (conversation_rows s)"
    and ts: "turn_rows t = turn_rows s"
  from c(1) have own: "c \<in> set (conversation_rows s)" "co_id c = i" "co_user c = user"
    by (auto simp: helpdesk_conversation_def owns_def find_Some_iff)
  have only: "d = c" if "d \<in> set (conversation_rows s)" "co_id d = i" for d
    using same_id [of co_id "conversation_rows s" d c] assms(1) that own by (simp add: conversations_sound_def)
  have rec: "outcome_recorded (feedback_rows t) d resolved" if "co_id d = i" "co_user d = user" for d
    using f that by (auto simp: outcome_recorded_def same_feedback_def)
  have one: "one_outcome (feedback_rows t)"
  proof (cases "feedback_rows t = feedback_rows s")
    case True
    with assms(1) show ?thesis by (simp add: conversations_sound_def)
  next
    case False
    with fs have none: "\<forall>g\<in>set (feedback_rows s). \<not> resolution_outcome i user g" and app: "feedback_rows t = feedback_rows s @ [f]"
      by (auto simp: find_None_iff)
    from none f(2) have "(fb_conversation f, fb_user f) \<notin> (\<lambda>f. (fb_conversation f, fb_user f)) ` set (filter is_outcome (feedback_rows s))"
      by (auto simp: resolution_outcome_def is_outcome_def)
    with assms(1) show ?thesis by (simp add: conversations_sound_def one_outcome_def app)
  qed
  have keep: "state_recorded (feedback_rows t) d" if "d \<in> set (conversation_rows s)" for d
    using assms(1) that fs state_recorded_mono by (auto simp: conversations_sound_def)
  have idle: "tn_conversation y \<noteq> i" if "y \<in> set (turn_rows s)" "active y" for y
    using no_active_there [of "conversation_rows s" "turn_rows s" c x y] assms(1) own c that
    by (auto simp: conversations_sound_def feedback_states_def)
  have states: "state_recorded (feedback_rows t) d" if d: "d \<in> set (conversation_rows t)" for d
  proof -
    from d obtain e where e: "e \<in> set (conversation_rows s)"
      "d = (if co_id e = i then e\<lparr>co_state := Some (state_code target)\<rparr> else e)" by (auto simp: cs in_restate)
    show ?thesis
    proof (cases "co_id e = i")
      case True
      with only [OF e(1)] own e(2) rec [of d] show ?thesis by (auto simp: state_recorded_def target)
    next
      case False
      with e keep show ?thesis by simp
    qed
  qed
  have "active_collects (conversation_rows t) (turn_rows t)"
    using assms(1) idle unfolding cs ts restate_def
    by (intro active_collects_update [where i = i]) (auto simp: conversations_sound_def)
  moreover have "outcome_recorded (feedback_rows t) d resolved" if "d \<in> set (conversation_rows t)" "co_id d = i" for d
  proof -
    from that(1) obtain e where e: "e \<in> set (conversation_rows s)"
      "d = (if co_id e = i then e\<lparr>co_state := Some (state_code target)\<rparr> else e)" by (auto simp: cs in_restate)
    with that(2) have "co_id e = i" by (auto split: if_splits)
    with only [OF e(1)] own that(2) e(2) show ?thesis by (intro rec) simp_all
  qed
  ultimately show ?thesis
    using assms(1) one states by (auto simp: conversations_sound_def cs ts)
qed

lemma link_draft_sound:
  assumes "conversations_sound s" "link_draft ctx i draft s = Inr (u, t)"
    and "\<And>c. c \<in> set (conversation_rows s) \<Longrightarrow> co_id c = i \<Longrightarrow> outcome_recorded (feedback_rows s) c False"
    and "\<And>x. x \<in> set (turn_rows s) \<Longrightarrow> active x \<Longrightarrow> tn_conversation x \<noteq> i"
  shows "conversations_sound t"
  using assms(2)
proof (rule link_draft_effect)
  fix tenant user p
  assume p: "\<And>c. p c \<Longrightarrow> owns tenant user i c"
    and cs: "conversation_rows t = map (\<lambda>c. if p c then c\<lparr>co_state := Some (state_code AWAITING_USER_CONFIRMATION),
       co_draft := Some draft\<rparr> else c) (conversation_rows s)"
    and rest: "turn_rows t = turn_rows s" "feedback_rows t = feedback_rows s"
  have ids: "map co_id (conversation_rows t) = map co_id (conversation_rows s)"
    unfolding cs by (rule map_update) simp
  have owned: "co_id c = i" if "p c" for c using p [OF that] by (simp add: owns_def)
  have "active_collects (conversation_rows t) (turn_rows t)"
    using assms(1,4) owned unfolding cs rest
    by (intro active_collects_update [where i = i]) (auto simp: conversations_sound_def)
  moreover have "\<forall>c\<in>set (conversation_rows t). state_recorded (feedback_rows t) c"
  proof
    fix c
    assume "c \<in> set (conversation_rows t)"
    then obtain d where d: "d \<in> set (conversation_rows s)"
      "c = (if p d then d\<lparr>co_state := Some (state_code AWAITING_USER_CONFIRMATION), co_draft := Some draft\<rparr> else d)"
      by (auto simp: cs)
    show "state_recorded (feedback_rows t) c"
    proof (cases "p d")
      case True
      with assms(3) [OF d(1) owned] d show ?thesis by (simp add: state_recorded_def outcome_recorded_def rest)
    next
      case False
      with assms(1) d show ?thesis by (simp add: conversations_sound_def rest)
    qed
  qed
  moreover have "co_id ` set (conversation_rows t) = co_id ` set (conversation_rows s)"
    unfolding cs by (rule image_update) simp
  ultimately show ?thesis
    using assms(1) by (simp add: conversations_sound_def ids rest)
qed

lemma feedback_idle:
  assumes "conversations_sound s" "record_resolution_feedback ctx i helpful resolved comment s = Inr (target, t)"
    and "y \<in> set (turn_rows t)" "active y"
  shows "tn_conversation y \<noteq> i"
  using assms(2)
proof (rule feedback_effect)
  fix tenant user c x f
  assume c: "helpdesk_conversation tenant user i s = Some c" "current_state c = Inr x" "x \<in> feedback_states"
    and ts: "turn_rows t = turn_rows s"
  from c(1) have "c \<in> set (conversation_rows s)" "co_id c = i"
    by (auto simp: helpdesk_conversation_def owns_def find_Some_iff)
  with no_active_there [of "conversation_rows s" "turn_rows s" c x y] assms(1,3,4) c(2,3) ts show ?thesis
    by (auto simp: conversations_sound_def feedback_states_def)
qed

lemma draft_link_sound:
  assumes "conversations_sound s" "draft_link_work ctx i helpful comment draft s = Inr (u, t)"
  shows "conversations_sound t"
proof -
  from assms(2) obtain target s1 where r: "record_resolution_feedback ctx i helpful False comment s = Inr (target, s1)"
    and l: "link_draft ctx i draft s1 = Inr (u, t)"
    by (auto simp: draft_link_work_def bindS_Inr_iff)
  from feedback_sound [OF assms(1) r] feedback_idle [OF assms(1) r] show ?thesis
    by (intro link_draft_sound [OF _ l]) auto
qed

lemma linked_draft_effect:
  assumes "linked_draft ctx i s = Inr ((draft, x), t)"
  obtains tenant user c d where "ctx_tenant_id ctx = Some tenant" "ctx_user_id ctx = Some user" "t = s"
    "c \<in> set (conversation_rows s)" "owns tenant user i c" "co_state c = Some (state_code x)"
    "d \<in> set (drafts (ag_desk s))" "dr_id d = draft" "dr_conversation d = Some i" "dr_owner d = user"
proof -
  from assms obtain tenant user where ids: "ctx_tenant_id ctx = Some tenant" "ctx_user_id ctx = Some user"
    and found: "(case draft_links tenant user i s of
       [] \<Rightarrow> raise ConversationNotFound
     | [(d, v)] \<Rightarrow> bindS (liftS (state_named v)) (\<lambda>x. ret (d, x))
     | _ \<Rightarrow> raise (Failure (UncaughtError ''MultipleResultsFound''))) s = Inr ((draft, x), t)"
    by (auto simp: linked_draft_def as_caller_iff)
  from found obtain v where one: "draft_links tenant user i s = [(draft, v)]" and x: "state_named v = Inr x" "t = s"
    by (auto simp: bindS_Inr_iff split: list.splits)
  from one have "(draft, v) \<in> set (draft_links tenant user i s)" by simp
  then obtain c d where "c \<in> set (conversation_rows s)" "owns tenant user i c" "d \<in> set (drafts (ag_desk s))"
    "dr_conversation d = Some (co_id c)" "dr_owner d = user" "draft = dr_id d" "v = co_state c"
    by (auto simp: draft_links_def)
  moreover have "v = Some (state_code x)" using x(1) by (cases v) (auto simp: state_named_iff)
  ultimately show thesis using ids x by (intro that [of tenant user c d]) (auto simp: owns_def)
qed

lemma link_ticket_sound:
  assumes "conversations_sound s" "link_ticket ctx i draft ticket s = Inr (u, t)"
    and "c \<in> set (conversation_rows s)" "co_id c = i" "co_state c = Some (state_code x)"
    and "x \<in> {AWAITING_USER_CONFIRMATION, TICKET_SUBMITTED}"
  shows "conversations_sound t"
  using assms(2)
proof (rule link_ticket_effect)
  fix tenant user
  let ?p = "\<lambda>c. owns tenant user i c \<and> ticket_fits (ag_desk s) draft ticket c"
  assume cs: "conversation_rows t = map (\<lambda>c. if ?p c
       then c\<lparr>co_state := Some (state_code TICKET_SUBMITTED), co_ticket := Some ticket\<rparr> else c) (conversation_rows s)"
    and rest: "turn_rows t = turn_rows s" "feedback_rows t = feedback_rows s"
  have only: "d = c" if "d \<in> set (conversation_rows s)" "?p d" for d
    using same_id [of co_id "conversation_rows s" d c] assms(1,3,4) that by (simp add: conversations_sound_def owns_def)
  have idle: "\<forall>y\<in>set (turn_rows s). active y \<longrightarrow> tn_conversation y \<noteq> i"
    using assms(1,3-6) by (auto simp: conversations_sound_def active_collects_def)
  have "active_collects (conversation_rows t) (turn_rows t)"
    using assms(1) idle unfolding cs rest
    by (intro active_collects_update [where i = i]) (auto simp: conversations_sound_def owns_def)
  moreover have "state_recorded (feedback_rows t) d" if "d \<in> set (conversation_rows t)" for d
  proof -
    from that obtain e where e: "e \<in> set (conversation_rows s)"
      "d = (if ?p e then e\<lparr>co_state := Some (state_code TICKET_SUBMITTED), co_ticket := Some ticket\<rparr> else e)"
      by (auto simp: cs)
    have keep: "state_recorded (feedback_rows s) e" using assms(1) e(1) by (simp add: conversations_sound_def)
    show ?thesis
    proof (cases "?p e")
      case True
      with keep only [OF e(1)] assms(5,6) e(2) show ?thesis by (auto simp: state_recorded_def outcome_recorded_def rest)
    next
      case False
      with keep e show ?thesis by (simp add: rest)
    qed
  qed
  moreover have "map co_id (conversation_rows t) = map co_id (conversation_rows s)"
    unfolding cs by (rule map_update) simp
  moreover have "co_id ` set (conversation_rows t) = co_id ` set (conversation_rows s)"
    unfolding cs by (rule image_update) simp
  ultimately show ?thesis using assms(1) by (simp add: conversations_sound_def rest)
qed

end
