(* ===== verification/AgentRuns.thy ===== *)
theory AgentRuns
  imports AgentSteps
begin

text \<open>
  The employee agent as a transition system: its steps are the units of work that its use cases commit, and any
  change of the ticket desk. Each use case, the message stream with whatever is committed while it runs included,
  moves the tables along these steps.
\<close>

subsection \<open>Steps\<close>

definition awaiting :: "uuid \<Rightarrow> agent_db \<Rightarrow> bool" where
  "awaiting i s \<longleftrightarrow> (\<exists>c\<in>set (conversation_rows s). co_id c = i
     \<and> co_state c \<in> {Some (state_code AWAITING_USER_CONFIRMATION), Some (state_code TICKET_SUBMITTED)})"

inductive agent_step :: "agent_db \<Rightarrow> agent_db \<Rightarrow> bool" where
  creates: "create_conversation_row ctx s = Inr (c, t) \<Longrightarrow> agent_step s t"
| starts: "start_turn now ctx i content limit s = Inr (r, t) \<Longrightarrow> agent_step s t"
| finishes: "finish_turn now ctx i turn a s = Inr (m, t) \<Longrightarrow> an_state a \<in> answer_states \<Longrightarrow> agent_step s t"
| cancels: "cancel_turn now ctx i turn s = Inr (u, t) \<Longrightarrow> agent_step s t"
| fails: "fail_turn now ctx i turn code s = Inr (u, t) \<Longrightarrow> agent_step s t"
| resolves: "record_resolution_feedback ctx i helpful True comment s = Inr (x, t) \<Longrightarrow> agent_step s t"
| drafts_linked: "draft_link_work ctx i helpful comment draft s = Inr (u, t) \<Longrightarrow> agent_step s t"
| links: "link_ticket ctx i draft ticket s = Inr (u, t) \<Longrightarrow> awaiting i s \<Longrightarrow> agent_step s t"
| desk: "agent_step s (s\<lparr>ag_desk := d\<rparr>)"

definition agent_run :: "agent_db \<Rightarrow> agent_db \<Rightarrow> bool" where
  "agent_run = agent_step\<^sup>*\<^sup>*"

lemma run_refl [simp]: "agent_run s s"
  by (simp add: agent_run_def)

lemma run_step: "agent_step s t \<Longrightarrow> agent_run s t"
  by (simp add: agent_run_def)

lemma run_trans: "agent_run s t \<Longrightarrow> agent_run t u \<Longrightarrow> agent_run s u"
  by (simp add: agent_run_def)

lemma step_sound: "agent_step s t \<Longrightarrow> conversations_sound s \<Longrightarrow> conversations_sound t"
proof (induction rule: agent_step.induct)
  case (links ctx i draft ticket s u t)
  from links(2) obtain c x where "c \<in> set (conversation_rows s)" "co_id c = i" "co_state c = Some (state_code x)"
    "x \<in> {AWAITING_USER_CONFIRMATION, TICKET_SUBMITTED}" by (auto simp: awaiting_def)
  then show ?case using link_ticket_sound [OF links(3,1)] by blast
next
  case (desk s d)
  then show ?case by (rule sound_same_tables) simp_all
qed (blast intro: create_sound start_sound finish_sound cancel_sound fail_sound draft_link_sound dest: feedback_sound)+

lemma run_sound: "agent_run s t \<Longrightarrow> conversations_sound s \<Longrightarrow> conversations_sound t"
  unfolding agent_run_def by (induction rule: rtranclp_induct) (auto intro: step_sound)

lemma fresh_tables_sound: "conversation_rows s = [] \<Longrightarrow> turn_rows s = [] \<Longrightarrow> feedback_rows s = [] \<Longrightarrow> conversations_sound s"
  by (simp add: conversations_sound_def one_active_def one_outcome_def active_collects_def)

subsection \<open>An awaited confirmation is final\<close>

lemma restate_in: "c \<in> set cs \<Longrightarrow> \<not> p c \<Longrightarrow> c \<in> set (restate p x cs)"
  by (auto simp: in_restate)

lemma awaiting_kept:
  assumes "awaiting i s" "\<And>c. c \<in> set (conversation_rows s) \<Longrightarrow> co_id c = i \<Longrightarrow> \<not> p c"
    and "conversation_rows t = map (\<lambda>c. if p c then f c else c) (conversation_rows s)"
  shows "awaiting i t"
proof -
  from assms(1) obtain c where c: "c \<in> set (conversation_rows s)" "co_id c = i"
    "co_state c \<in> {Some (state_code AWAITING_USER_CONFIRMATION), Some (state_code TICKET_SUBMITTED)}"
    by (auto simp: awaiting_def)
  with assms(2) have "c \<in> set (conversation_rows t)" by (force simp: assms(3))
  with c show ?thesis unfolding awaiting_def by blast
qed

lemma awaiting_state:
  assumes "conversations_sound s" "awaiting i s" "c \<in> set (conversation_rows s)" "co_id c = i" "current_state c = Inr x"
  shows "x \<in> {AWAITING_USER_CONFIRMATION, TICKET_SUBMITTED}"
proof -
  from assms(2) obtain d where d: "d \<in> set (conversation_rows s)" "co_id d = i"
    "co_state d \<in> {Some (state_code AWAITING_USER_CONFIRMATION), Some (state_code TICKET_SUBMITTED)}"
    by (auto simp: awaiting_def)
  with assms(1,3,4) have "d = c" using same_id [of co_id "conversation_rows s" d c] by (simp add: conversations_sound_def)
  with d assms(5) show ?thesis by (auto simp: current_state_iff)
qed

lemma awaiting_recorded:
  assumes "conversations_sound s" "awaiting i s" "c \<in> set (conversation_rows s)" "co_id c = i"
  shows "outcome_recorded (feedback_rows s) c False"
proof -
  from assms(2) obtain d where d: "d \<in> set (conversation_rows s)" "co_id d = i"
    "co_state d \<in> {Some (state_code AWAITING_USER_CONFIRMATION), Some (state_code TICKET_SUBMITTED)}"
    by (auto simp: awaiting_def)
  with assms(1,3,4) have "d = c" using same_id [of co_id "conversation_rows s" d c] by (simp add: conversations_sound_def)
  moreover have "state_recorded (feedback_rows s) d" using assms(1) d(1) by (simp add: conversations_sound_def)
  ultimately show ?thesis using d(3) by (auto simp: state_recorded_def)
qed

lemma awaiting_idle:
  assumes "conversations_sound s" "awaiting i s" "y \<in> set (turn_rows s)" "active y"
  shows "tn_conversation y \<noteq> i"
  using assms by (auto simp: awaiting_def conversations_sound_def active_collects_def)

lemma start_awaiting:
  assumes "conversations_sound s" "awaiting i s" "start_turn now ctx j content limit s = Inr (r, t)"
  shows "awaiting i t"
  using assms(3)
proof (rule start_turn_effect)
  fix tenant user c x
  assume c: "open_conversation tenant user j s = Some c" "current_state c = Inr x" "x \<notin> closed_states"
    and cs: "conversation_rows t = restate (\<lambda>c. co_id c = j) COLLECTING_INFORMATION (conversation_rows s)"
  from c(1) have "c \<in> set (conversation_rows s)" "co_id c = j"
    by (auto simp: open_conversation_def owns_def find_Some_iff)
  with awaiting_state [OF assms(1,2)] c have "j \<noteq> i" by (auto simp: closed_states_def)
  then show ?thesis by (intro awaiting_kept [OF assms(2) _ cs [unfolded restate_def]]) simp
qed

lemma finish_awaiting:
  assumes "conversations_sound s" "awaiting i s" "finish_turn now ctx j turn a s = Inr (m, t)"
  shows "awaiting i t"
  using assms(3)
proof (rule finish_turn_effect)
  fix tenant user
  assume one: "length (filter (running_turn tenant j turn) (turn_rows s)) = 1"
    and cs: "conversation_rows t = restate (owns tenant user j) (an_state a) (conversation_rows s)"
  from one obtain y where "y \<in> set (turn_rows s)" "running_turn tenant j turn y"
    by (metis filter_empty_conv list.size(3) zero_neq_one)
  with awaiting_idle [OF assms(1,2)] have "j \<noteq> i" by (auto simp: running_turn_def active_def)
  then show ?thesis by (intro awaiting_kept [OF assms(2) _ cs [unfolded restate_def]]) (simp add: owns_def)
qed

text \<open>A different outcome than the recorded one is refused.\<close>

lemma resolve_not_awaiting:
  assumes "conversations_sound s" "record_resolution_feedback ctx i helpful True comment s = Inr (x, t)"
  shows "\<not> awaiting i s"
proof
  assume w: "awaiting i s"
  from feedback_sound [OF assms] have t: "conversations_sound t"
    and yes: "\<And>c. c \<in> set (conversation_rows t) \<Longrightarrow> co_id c = i \<Longrightarrow> outcome_recorded (feedback_rows t) c True" by blast+
  show False using assms(2)
  proof (rule feedback_effect)
    fix tenant user c y f
    assume c: "helpdesk_conversation tenant user i s = Some c"
      and fs: "feedback_rows t = feedback_rows s \<or> find (resolution_outcome i user) (feedback_rows s) = None \<and> feedback_rows t = feedback_rows s @ [f]"
      and cs: "conversation_rows t = restate (\<lambda>c. co_id c = i) x (conversation_rows s)"
    from c have own: "c \<in> set (conversation_rows s)" "co_id c = i"
      by (auto simp: helpdesk_conversation_def owns_def find_Some_iff)
    then have "c\<lparr>co_state := Some (state_code x)\<rparr> \<in> set (conversation_rows t)" by (auto simp: cs in_restate)
    from yes [OF this] own have "outcome_recorded (feedback_rows t) c True" by (simp add: outcome_recorded_def)
    moreover have "outcome_recorded (feedback_rows t) c False"
      using awaiting_recorded [OF assms(1) w own] fs recorded_mono by auto
    ultimately show False using t recorded_unique by (auto simp: conversations_sound_def)
  qed
qed

lemma feedback_awaiting:
  assumes "conversations_sound s" "awaiting i s" "record_resolution_feedback ctx j helpful True comment s = Inr (x, t)"
  shows "awaiting i t"
proof -
  from resolve_not_awaiting [OF assms(1,3)] assms(2) have "j \<noteq> i" by auto
  from assms(3) show ?thesis
  proof (rule feedback_effect)
    assume cs: "conversation_rows t = restate (\<lambda>c. co_id c = j) x (conversation_rows s)"
    with \<open>j \<noteq> i\<close> show ?thesis by (intro awaiting_kept [OF assms(2) _ cs [unfolded restate_def]]) simp
  qed
qed

lemma draft_link_awaiting:
  assumes "awaiting i s" "draft_link_work ctx j helpful comment draft s = Inr (u, t)"
  shows "awaiting i t"
proof -
  from assms(2) obtain x s1 where r: "record_resolution_feedback ctx j helpful False comment s = Inr (x, s1)"
    and l: "link_draft ctx j draft s1 = Inr (u, t)"
    by (auto simp: draft_link_work_def bindS_Inr_iff)
  from r obtain q where cs1: "conversation_rows s1 = restate (\<lambda>c. co_id c = j) q (conversation_rows s)"
    by (rule feedback_effect) blast
  from l show ?thesis
  proof (rule link_draft_effect)
    fix tenant user p
    assume p: "\<And>c. p c \<Longrightarrow> owns tenant user j c" and one: "length (filter p (conversation_rows s1)) = 1"
      and cs: "conversation_rows t = map (\<lambda>c. if p c then c\<lparr>co_state := Some (state_code AWAITING_USER_CONFIRMATION),
         co_draft := Some draft\<rparr> else c) (conversation_rows s1)"
    show ?thesis
    proof (cases "j = i")
      case True
      from one obtain c where "c \<in> set (conversation_rows s1)" "p c"
        by (metis filter_empty_conv list.size(3) zero_neq_one)
      with p [of c] True show ?thesis unfolding awaiting_def cs
        by (intro bexI [of _ "c\<lparr>co_state := Some (state_code AWAITING_USER_CONFIRMATION), co_draft := Some draft\<rparr>"])
          (auto simp: owns_def)
    next
      case False
      then have "awaiting i s1" by (intro awaiting_kept [OF assms(1) _ cs1 [unfolded restate_def]]) simp
      with p False show ?thesis by (intro awaiting_kept [OF _ _ cs]) (auto simp: owns_def)
    qed
  qed
qed

lemma link_awaiting:
  assumes "awaiting i s" "link_ticket ctx j draft ticket s = Inr (u, t)"
  shows "awaiting i t"
  using assms(2)
proof (rule link_ticket_effect)
  fix tenant user
  let ?p = "\<lambda>c. owns tenant user j c \<and> ticket_fits (ag_desk s) draft ticket c"
  assume cs: "conversation_rows t = map (\<lambda>c. if ?p c
       then c\<lparr>co_state := Some (state_code TICKET_SUBMITTED), co_ticket := Some ticket\<rparr> else c) (conversation_rows s)"
  from assms(1) obtain c where c: "c \<in> set (conversation_rows s)" "co_id c = i"
    "co_state c \<in> {Some (state_code AWAITING_USER_CONFIRMATION), Some (state_code TICKET_SUBMITTED)}"
    by (auto simp: awaiting_def)
  then show ?thesis unfolding awaiting_def cs
    by (intro bexI [of _ "if ?p c then c\<lparr>co_state := Some (state_code TICKET_SUBMITTED), co_ticket := Some ticket\<rparr> else c"])
      auto
qed

lemma step_awaiting: "agent_step s t \<Longrightarrow> conversations_sound s \<Longrightarrow> awaiting i s \<Longrightarrow> awaiting i t"
proof (induction rule: agent_step.induct)
  case (creates ctx s c t)
  from creates(1) obtain d where "conversation_rows t = conversation_rows s @ [d]" by (rule create_effect) blast
  with creates(3) show ?case by (auto simp: awaiting_def)
next
  case (cancels now ctx j turn s u t)
  from cancels(1) have "conversation_rows t = conversation_rows s" by (rule cancel_turn_effect) blast
  with cancels(3) show ?case by (simp add: awaiting_def)
next
  case (fails now ctx j turn code s u t)
  from fails(1) have "conversation_rows t = conversation_rows s" by (rule fail_turn_effect) blast
  with fails(3) show ?case by (simp add: awaiting_def)
next
  case (desk s d)
  then show ?case by (simp add: awaiting_def)
qed (blast intro: start_awaiting finish_awaiting feedback_awaiting draft_link_awaiting link_awaiting)+

lemma run_awaiting: "agent_run s t \<Longrightarrow> conversations_sound s \<Longrightarrow> awaiting i s \<Longrightarrow> conversations_sound t \<and> awaiting i t"
  unfolding agent_run_def
  by (induction rule: rtranclp_induct) (auto intro: step_sound step_awaiting)

end
