(* ===== verification/AgentSpec.thy ===== *)
theory AgentSpec
  imports AgentRuns
begin

text \<open>
  The properties of the employee agent: what its messages and answers can be, that its use cases run along the
  steps of \<open>AgentRuns\<close>, and what the tables hold after a turn, a feedback and a confirmation.
\<close>

subsection \<open>Answers\<close>

lemma settle_on_iff: "settle_on s a = Inr b \<longleftrightarrow> b = a \<and> COLLECTING_TICKET_FIELDS \<in> set (transitions s)"
  by (auto simp: settle_on_def move_def advance_def)

lemma settle_searching [simp]: "settle_on SEARCHING_KNOWLEDGE a = Inr a"
  by (simp add: settle_on_iff)

lemma reply_fields [simp]: "an_state (reply text oc) = COLLECTING_TICKET_FIELDS" "an_outcome (reply text oc) = oc"
  "an_citations (reply text oc) = []" "an_evidence (reply text oc) = []" "an_text (reply text oc) = text"
  by (simp_all add: reply_def)

lemmas fixed_replies = unavailable_answer_def escalation_answer_def continue_answer_def injection_answer_def
  sensitive_answer_def no_evidence_answer_def tool_answer_def empty_answer_def

text \<open>An answer either sends the employee on to the ticket form, or proposes a resolution from usable evidence.\<close>

definition proposes :: "agent_env \<Rightarrow> world \<Rightarrow> string \<Rightarrow> chat_message list \<Rightarrow> agent_answer \<Rightarrow> bool" where
  "proposes env w content earlier a \<longleftrightarrow> (\<exists>r g.
     w_retrieve w content (ae_max_evidence env) = Inr r \<and> usable_evidence env (rr_evidence r) \<noteq> []
     \<and> w_generate w agent_invariants (prompt_messages env earlier (usable_evidence env (rr_evidence r))) = Inr g
     \<and> ge_tools g = 0 \<and> py_strip (strip_markers (ge_text g)) \<noteq> []
     \<and> a = proposal (rr_configuration r) (ge_run g) (py_strip (strip_markers (ge_text g))) (usable_evidence env (rr_evidence r)))"

lemma read_generation_searching: "read_generation SEARCHING_KNOWLEDGE cfg es g = Inr
    (if ge_tools g \<noteq> 0 then tool_answer cfg (ge_run g)
     else if py_strip (strip_markers (ge_text g)) = [] then empty_answer cfg (ge_run g)
     else proposal cfg (ge_run g) (py_strip (strip_markers (ge_text g))) es)"
  by (simp add: read_generation_def Let_def move_def advance_def)

lemma compose_answer_cases:
  assumes "compose_answer env w content earlier SEARCHING_KNOWLEDGE = Inr a"
  shows "proposes env w content earlier a
    \<or> an_state a = COLLECTING_TICKET_FIELDS \<and> an_citations a = [] \<and> an_evidence a = [] \<and> an_outcome a \<noteq> RESOLUTION_PROPOSED"
proof (cases "w_retrieve w content (ae_max_evidence env)")
  case (Inl e)
  with assms show ?thesis by (cases e) (auto simp: compose_answer_def fixed_replies)
next
  case r: (Inr r)
  show ?thesis
  proof (cases "usable_evidence env (rr_evidence r) = []")
    case True
    with assms r show ?thesis by (auto simp: compose_answer_def fixed_replies)
  next
    case False
    show ?thesis
    proof (cases "w_generate w agent_invariants (prompt_messages env earlier (usable_evidence env (rr_evidence r)))")
      case (Inl e)
      with assms r False show ?thesis by (cases e) (auto simp: compose_answer_def Let_def fixed_replies)
    next
      case (Inr g)
      with assms r False show ?thesis
        by (auto simp: compose_answer_def Let_def read_generation_searching proposes_def fixed_replies split: if_splits)
    qed
  qed
qed

lemma proposal_fields [simp]: "an_state (proposal cfg run text es) = AWAITING_RESOLUTION_CONFIRMATION"
  "an_outcome (proposal cfg run text es) = RESOLUTION_PROPOSED" "an_evidence (proposal cfg run text es) = es"
  "an_citations (proposal cfg run text es) = map (\<lambda>(n, e). citation_of n e) (enumerate 1 es)"
  "an_run (proposal cfg run text es) = Some run"
  by (simp_all add: proposal_def Let_def)

lemma race_answer_cases:
  assumes "race_answer env w content earlier SEARCHING_KNOWLEDGE = Inr a"
  shows "w_race w = Answered \<and> proposes env w content earlier a
    \<or> an_state a = COLLECTING_TICKET_FIELDS \<and> an_citations a = [] \<and> an_evidence a = [] \<and> an_outcome a \<noteq> RESOLUTION_PROPOSED"
proof (cases "w_race w")
  case Answered
  with assms have "compose_answer env w content earlier SEARCHING_KNOWLEDGE = Inr a"
    by (cases "compose_answer env w content earlier SEARCHING_KNOWLEDGE") (auto simp: race_answer_def)
  from compose_answer_cases [OF this] Answered show ?thesis by blast
qed (use assms in \<open>auto simp: race_answer_def fixed_replies\<close>)

text \<open>The state a conversation can be in when a turn starts.\<close>

definition open_states :: "agent_state set" where
  "open_states = {NEW, COLLECTING_INFORMATION, AWAITING_RESOLUTION_CONFIRMATION, COLLECTING_TICKET_FIELDS}"

lemma think_open:
  assumes "s \<in> open_states"
  shows "think env w turn content earlier s =
    (if s = COLLECTING_TICKET_FIELDS then ([StateEvent turn COLLECTING_INFORMATION], Inr continue_answer)
     else if contains_prompt_injection content
     then ([StateEvent turn COLLECTING_INFORMATION, StateEvent turn CLASSIFIED], Inr injection_answer)
     else if requires_immediate_escalation content
     then ([StateEvent turn COLLECTING_INFORMATION, StateEvent turn CLASSIFIED], Inr sensitive_answer)
     else ([StateEvent turn COLLECTING_INFORMATION, StateEvent turn CLASSIFIED, StateEvent turn SEARCHING_KNOWLEDGE],
       race_answer env w content earlier SEARCHING_KNOWLEDGE))"
  using assms by (auto simp: open_states_def think_def enter_def move_def advance_def settle_on_def Let_def)

lemma think_closed:
  "s \<notin> open_states \<Longrightarrow> \<exists>es. think env w turn content earlier s = (es, Inl (Raises (UncaughtError ''InvalidAgentTransition'')))"
  by (cases s) (simp_all add: open_states_def think_def enter_def move_def advance_def Let_def)

lemma think_answer:
  assumes "think env w turn content earlier s = (es, Inr a)"
  shows "an_state a \<in> answer_states"
proof (cases "s \<in> open_states")
  case True
  have fixed: "an_state b \<in> answer_states" if "b \<in> {continue_answer, injection_answer, sensitive_answer}" for b
    using that by (auto simp: answer_states_def fixed_replies)
  have "an_state a \<in> answer_states" if "race_answer env w content earlier SEARCHING_KNOWLEDGE = Inr a"
    using race_answer_cases [OF that] by (auto simp: answer_states_def proposes_def)
  with assms fixed show ?thesis by (auto simp: think_open [OF True] split: if_splits)
next
  case False
  from think_closed [OF this, of env w turn content earlier] assms show ?thesis by auto
qed

subsection \<open>Use cases as runs\<close>

lemma unit_of_cases:
  assumes "unit_of h m s = (r, t)"
  obtains (failed) e where "m s = Inl e" "r = Inl (h e)" "t = s"
    | (ok) x where "m s = Inr (x, t)" "r = Inr x"
  using assms by (auto simp: unit_of_def split: sum.splits)

lemma unit_step: "(\<And>x t. m s = Inr (x, t) \<Longrightarrow> agent_step s t) \<Longrightarrow> agent_run s (snd (unit_of h m s))"
  by (auto simp: unit_of_def split: sum.splits intro: run_step)

lemma on_tickets_run: "agent_run s (snd (on_tickets m s))"
  by (auto simp: on_tickets_def split: prod.splits intro: run_step desk)

lemma then_do_run:
  assumes "agent_run s (snd (m s))" "\<And>x t. m s = (Inr x, t) \<Longrightarrow> agent_run t (snd (f x t))"
  shows "agent_run s (snd (then_do m f s))"
  using assms by (cases "m s") (auto simp: then_do_def intro: run_trans split: sum.splits)

lemma stop_unless_run: "(b \<Longrightarrow> agent_run s (snd (m s))) \<Longrightarrow> agent_run s (snd (stop_unless b e m s))"
  by (simp add: stop_unless_def)

lemma owned_same: "owned_conversation ctx i s = Inr (c, t) \<Longrightarrow> t = s"
  by (auto simp: owned_conversation_def as_caller_iff bindS_Inr_iff)

lemma read_same: "snd (read_conversation ctx i s) = s"
  by (auto simp: read_conversation_def unit_of_def split: sum.splits dest: owned_same)

lemma read_result:
  assumes "read_conversation ctx i s = (Inr c, t)"
  obtains tenant user row where "t = s" "ctx_tenant_id ctx = Some tenant" "ctx_user_id ctx = Some user"
    "open_conversation tenant user i s = Some row" "current_state row = Inr (cn_state c)" "agent_permitted ctx = Inr ()"
  using assms
  by (auto simp: read_conversation_def unit_of_def owned_conversation_def as_caller_iff bindS_Inr_iff split: sum.splits)

lemma create_run: "agent_run s (snd (create_conversation ctx s))"
proof -
  have "agent_run s (snd (unit_of uncaught (create_conversation_row ctx) s))" by (rule unit_step) (rule creates)
  then show ?thesis by (auto simp: create_conversation_def split: sum.splits)
qed

lemma cancel_unit_run: "agent_run s (snd (cancel_unit now ctx i turn s))"
  unfolding cancel_unit_def by (rule unit_step) (rule cancels)

lemma cancel_run: "agent_run s (snd (cancel now ctx i turn s))"
  by (auto simp: cancel_def cancel_unit_run split: sum.splits)

lemma fail_stream_run: "agent_run s (snd (fail_stream now ctx i turn e s))"
proof -
  have "agent_run s (snd (fail_unit now ctx i turn s))"
    unfolding fail_unit_def by (rule unit_step) (rule fails)
  then show ?thesis by (auto simp: fail_stream_def split: prod.splits sum.splits)
qed

lemma close_turn_run:
  assumes "\<And>a. result = Inr a \<Longrightarrow> an_state a \<in> answer_states"
  shows "agent_run s (snd (snd (close_turn now ctx i turn result s)))"
proof (cases result)
  case (Inl e)
  then show ?thesis
    using cancel_unit_run [of s now ctx i turn] fail_stream_run [of s now ctx i turn]
    by (auto simp: close_turn_def split: interruption.splits prod.splits sum.splits)
next
  case (Inr a)
  have "agent_run s (snd (unit_of uncaught (finish_turn now ctx i turn a) s))"
    using assms [OF Inr] by (intro unit_step) (rule finishes)
  then show ?thesis
    using Inr fail_stream_run [of _ now ctx i turn]
    by (auto simp: close_turn_def split: prod.splits sum.splits intro: run_trans)
qed

lemma open_turn_result:
  assumes "open_turn env w ctx i content s = (Inr (x, started), t)"
  obtains tenant user row where "ctx_tenant_id ctx = Some tenant" "ctx_user_id ctx = Some user"
    "open_conversation tenant user i s = Some row" "current_state row = Inr x" "agent_permitted ctx = Inr ()"
    "start_turn (env_now env) ctx i content (ae_history env) (w_between w s) = Inr (started, t)"
proof -
  from assms obtain c s1 where r: "read_conversation ctx i s = (Inr c, s1)" and x: "x = cn_state c"
    and st: "unit_of start_error (start_turn (env_now env) ctx i content (ae_history env)) (w_between w s1) = (Inr started, t)"
    by (auto simp: open_turn_def split: prod.splits sum.splits)
  from st have "start_turn (env_now env) ctx i content (ae_history env) (w_between w s1) = Inr (started, t)"
    by (auto simp: unit_of_def split: sum.splits)
  with r x show thesis by (elim read_result) (auto intro: that)
qed

definition others_run :: "world \<Rightarrow> bool" where
  "others_run w \<longleftrightarrow> (\<forall>u. agent_run u (w_between w u) \<and> agent_run u (w_meanwhile w u))"

lemma open_turn_run:
  assumes "others_run w"
  shows "agent_run s (snd (open_turn env w ctx i content s))"
proof -
  have start: "agent_run u (snd (unit_of start_error (start_turn (env_now env) ctx i content (ae_history env)) u))" for u
    by (rule unit_step) (rule starts)
  have "agent_run s (w_between w s)" using assms by (simp add: others_run_def)
  then have after: "agent_run s (snd (unit_of start_error (start_turn (env_now env) ctx i content (ae_history env)) (w_between w s)))"
    using start by (rule run_trans)
  have "snd (read_conversation ctx i s) = s" by (rule read_same)
  with after show ?thesis by (auto simp: open_turn_def split: prod.splits sum.splits)
qed

text \<open>A stream is refused before its first event, closed by its consumer, or run to its end.\<close>

lemma stream_cases:
  assumes "stream_message env w ctx i content s = (ev, how, t)"
  obtains (refused) e where "ev = []" "how = Raised e" "t = s \<or> t = snd (open_turn env w ctx i content s)"
    | (closed) x started s1 es result n where "open_turn env w ctx i content s = (Inr (x, started), s1)"
        "think env w (sd_turn started) content (sd_messages started) x = (es, result)" "w_taken w = Some n" "0 < n"
        "n \<le> length (shown env (sd_turn started) es result)" "ev = take n (shown env (sd_turn started) es result)"
        "how = Closed" "t = w_meanwhile w s1"
    | (ended) x started s1 es result rest where "open_turn env w ctx i content s = (Inr (x, started), s1)"
        "think env w (sd_turn started) content (sd_messages started) x = (es, result)"
        "close_turn (w_finish w) ctx i (sd_turn started) result (w_meanwhile w s1) = (rest, how, t)"
        "ev = shown env (sd_turn started) es result @ rest"
proof (cases "agent_permitted ctx")
  case (Inl e)
  with assms show thesis by (intro refused) (auto simp: stream_message_def)
next
  case ok: (Inr u)
  obtain r s1 where opened: "open_turn env w ctx i content s = (r, s1)" by fastforce
  show thesis
  proof (cases r)
    case (Inl e)
    with assms ok opened show thesis by (intro refused) (auto simp: stream_message_def)
  next
    case (Inr p)
    obtain x started where p: "p = (x, started)" by fastforce
    obtain es result where t: "think env w (sd_turn started) content (sd_messages started) x = (es, result)" by fastforce
    obtain rest how' t' where c: "close_turn (w_finish w) ctx i (sd_turn started) result (w_meanwhile w s1) = (rest, how', t')"
      by (metis prod_cases3)
    from assms ok opened Inr p t c have run:
      "(if \<exists>n. w_taken w = Some n \<and> 0 < n \<and> n \<le> length (shown env (sd_turn started) es result)
        then (take (the (w_taken w)) (shown env (sd_turn started) es result), Closed, w_meanwhile w s1)
        else (shown env (sd_turn started) es result @ rest, how', t')) = (ev, how, t)"
      by (simp add: stream_message_def Let_def cong: if_cong)
    show thesis
    proof (cases "\<exists>n. w_taken w = Some n \<and> 0 < n \<and> n \<le> length (shown env (sd_turn started) es result)")
      case True
      then obtain n where "w_taken w = Some n" "0 < n" "n \<le> length (shown env (sd_turn started) es result)" by blast
      with run opened Inr p t show thesis by (intro closed) auto
    next
      case False
      with run opened Inr p t c show thesis by (intro ended) auto
    qed
  qed
qed

lemma stream_run:
  assumes "others_run w"
  shows "agent_run s (snd (snd (stream_message env w ctx i content s)))"
proof -
  obtain ev how t where m: "stream_message env w ctx i content s = (ev, how, t)" by (metis prod_cases3)
  have opens: "agent_run s (snd (open_turn env w ctx i content s))" using assms by (rule open_turn_run)
  have later: "agent_run s (w_meanwhile w s1)" if "open_turn env w ctx i content s = (r, s1)" for r s1
    using opens that assms by (auto simp: others_run_def intro: run_trans)
  from m have "agent_run s t"
  proof (cases rule: stream_cases)
    case refused
    with opens show ?thesis by auto
  next
    case closed
    with later show ?thesis by simp
  next
    case (ended x started s1 es result rest)
    have "agent_run (w_meanwhile w s1) (snd (snd (close_turn (w_finish w) ctx i (sd_turn started) result (w_meanwhile w s1))))"
      using ended(2) by (intro close_turn_run) (simp add: think_answer)
    with ended(3) later [OF ended(1)] show ?thesis by (auto intro: run_trans)
  qed
  with m show ?thesis by simp
qed

subsection \<open>Feedback and confirmation\<close>

lemma user_summary_same: "user_message_summary ctx i limit s = Inr (ms, t) \<Longrightarrow> t = s"
  by (auto simp: user_message_summary_def as_caller_iff)

lemma summary_run: "agent_run s (snd (unit_of h (user_message_summary ctx i limit) s))"
  by (auto simp: unit_of_def split: sum.splits dest: user_summary_same)

lemma pair_run: "agent_run s (snd (Pair r s))"
  by simp

lemma feedback_run: "agent_run s (snd (resolution_feedback env ctx i said s))"
proof -
  have yes: "agent_run u (snd (resolved_feedback ctx i h c u))" for u h c
    unfolding resolved_feedback_def by (intro then_do_run unit_step) (auto intro: resolves)
  have no: "agent_run u (snd (unresolved_feedback env ctx i h c cmd u))" for u h c cmd
    unfolding unresolved_feedback_def
    by (intro then_do_run unit_step summary_run on_tickets_run) (auto intro: drafts_linked)
  have "agent_run s (snd (read_conversation ctx i s))" by (simp add: read_same)
  then show ?thesis
    unfolding resolution_feedback_def Let_def
    by (intro then_do_run stop_unless_run) (auto intro: yes no stop_unless_run split: option.splits)
qed

lemma then_do_cases:
  assumes "then_do m f s = (r, t)"
  obtains (stopped) e where "m s = (Inl e, t)" "r = Inl e"
    | (went) x s1 where "m s = (Inr x, s1)" "f x s1 = (r, t)"
  using assms by (auto simp: then_do_def split: prod.splits sum.splits)

text \<open>A confirmation either touches no conversation, or links the ticket it answers with.\<close>

lemma confirm_cases:
  assumes "confirm_ticket env ctx i version key s = (r, t)"
  obtains (refused) d e where "r = Inl e" "t = s\<lparr>ag_desk := d\<rparr>"
    | (linked) draft x w d1 answer replay d2 where "r = Inr (answer, replay)" "linked_draft ctx i s = Inr ((draft, x), s)"
        "x \<in> {AWAITING_USER_CONFIRMATION, TICKET_SUBMITTED}" "get_draft ctx draft (desk_of s) = (Inr w, d1)"
        "confirmed_ticket env ctx w draft version key (desk_of (s\<lparr>ag_desk := d1\<rparr>)) = (Inr (answer, replay), d2)"
        "link_ticket ctx i draft (t_id (tv_ticket (fst answer))) (s\<lparr>ag_desk := d2\<rparr>) = Inr ((), t)"
proof -
  have desk: "\<exists>d. u' = u\<lparr>ag_desk := d\<rparr>" if "on_tickets m u = (q, u')" for u u' and m :: "desk_db \<Rightarrow> (app_error + 'b) \<times> desk_db" and q
    using that by (auto simp: on_tickets_def split: prod.splits)
  have desk2: "\<exists>d. u' = u\<lparr>ag_desk := d\<rparr>" if "on_tickets m u = (q, u')" for u u' and m :: "desk_db \<Rightarrow> (app_error + 'c) \<times> desk_db" and q
    using that by (auto simp: on_tickets_def split: prod.splits)
  have same: "s = s\<lparr>ag_desk := ag_desk s\<rparr>" by simp
  show thesis
  proof (cases "agent_permitted ctx")
    case (Inl e)
    with assms show thesis by (intro refused [of e "ag_desk s"]) (auto simp: confirm_ticket_def)
  next
    case (Inr u)
    with assms have "then_do (unit_of missing_conversation (linked_draft ctx i)) (\<lambda>(draft, x).
          stop_unless (x \<in> {AWAITING_USER_CONFIRMATION, TICKET_SUBMITTED})
            (ConflictError ''The ticket draft is not awaiting confirmation.'')
          (then_do (on_tickets (get_draft ctx draft)) (\<lambda>w.
           then_do (on_tickets (confirmed_ticket env ctx w draft version key)) (\<lambda>(answer, replay).
           then_do (unit_of confirm_link_error (link_ticket ctx i draft (t_id (tv_ticket (fst answer))))) (\<lambda>_.
           Pair (Inr (answer, replay))))))) s = (r, t)"
      by (simp add: confirm_ticket_def)
    then show thesis
    proof (cases rule: then_do_cases)
      case (stopped e)
      then show thesis by (intro refused [of e "ag_desk s"]) (auto elim: unit_of_cases)
    next
      case (went p s1)
      obtain draft x where p: "p = (draft, x)" by fastforce
      from went(1) have l1: "linked_draft ctx i s = Inr ((draft, x), s1)" by (auto simp: p elim: unit_of_cases)
      then have s1: "s1 = s" by (rule linked_draft_effect) blast
      show thesis
      proof (cases "x \<in> {AWAITING_USER_CONFIRMATION, TICKET_SUBMITTED}")
        case False
        with went(2) p s1 show thesis by (intro refused [of _ "ag_desk s"]) (auto simp: stop_unless_def)
      next
        case ok: True
        with went(2) p s1 have "then_do (on_tickets (get_draft ctx draft)) (\<lambda>w.
           then_do (on_tickets (confirmed_ticket env ctx w draft version key)) (\<lambda>(answer, replay).
           then_do (unit_of confirm_link_error (link_ticket ctx i draft (t_id (tv_ticket (fst answer))))) (\<lambda>_.
           Pair (Inr (answer, replay))))) s = (r, t)"
          by (auto simp: stop_unless_def)
        then show thesis
        proof (cases rule: then_do_cases)
          case (stopped e)
          with desk [OF stopped(1)] show thesis by (auto intro: refused)
        next
          case g: (went w s2)
          then obtain d1 where d1: "get_draft ctx draft (desk_of s) = (Inr w, d1)" "s2 = s\<lparr>ag_desk := d1\<rparr>"
            by (auto simp: on_tickets_def split: prod.splits)
          from g(2) show thesis
          proof (cases rule: then_do_cases)
            case (stopped e)
            with desk2 [OF stopped(1)] d1(2) show thesis by (auto intro: refused)
          next
            case c: (went q s3)
            obtain answer replay where q: "q = (answer, replay)" by fastforce
            with c(1) d1(2) obtain d2 where
              d2: "confirmed_ticket env ctx w draft version key (desk_of (s\<lparr>ag_desk := d1\<rparr>)) = (Inr (answer, replay), d2)"
                "s3 = s\<lparr>ag_desk := d2\<rparr>"
              by (auto simp: on_tickets_def split: prod.splits)
            from c(2) [unfolded q prod.case] show thesis
            proof (cases rule: then_do_cases)
              case (stopped e)
              with d2(2) show thesis by (auto intro: refused elim!: unit_of_cases)
            next
              case (went v s4)
              from went(1) d2(2) have "link_ticket ctx i draft (t_id (tv_ticket (fst answer))) (s\<lparr>ag_desk := d2\<rparr>) = Inr ((), s4)"
                by (auto elim: unit_of_cases)
              with went(2) l1 s1 ok d1 d2 show thesis
                by (intro linked [of answer replay draft x w d1 d2]) simp_all
            qed
          qed
        qed
      qed
    qed
  qed
qed

lemma confirm_run: "agent_run s (snd (confirm_ticket env ctx i version key s))"
proof -
  obtain r t where c: "confirm_ticket env ctx i version key s = (r, t)" by fastforce
  from c have "agent_run s t"
  proof (cases rule: confirm_cases)
    case (refused d e)
    then show ?thesis by (auto intro: run_step desk)
  next
    case (linked draft x w d1 answer replay d2)
    from linked(2) have "awaiting i s"
      by (rule linked_draft_effect) (use linked(3) in \<open>auto simp: awaiting_def owns_def\<close>)
    then have "awaiting i (s\<lparr>ag_desk := d2\<rparr>)" by (simp add: awaiting_def)
    with linked(6) have "agent_run (s\<lparr>ag_desk := d2\<rparr>) t" by (intro run_step links)
    moreover have "agent_run s (s\<lparr>ag_desk := d2\<rparr>)" by (rule run_step [OF desk])
    ultimately show ?thesis by (rule run_trans [rotated])
  qed
  with c show ?thesis by simp
qed

end
