(* ===== verification/AgentProps.thy ===== *)
theory AgentProps
  imports AgentSpec
begin

text \<open>
  The properties of the employee agent: its tables over any interleaving of its use cases, what a stream shows
  against what it stores, what reaches the model, and what a confirmation leaves behind.
\<close>

subsection \<open>Tables\<close>

lemma state_is: "co_state c = Some (state_code x) \<Longrightarrow> current_state c = Inr x"
  by (simp add: current_state_iff)

lemma state_of_late: "current_state c = Inr x \<Longrightarrow> x \<noteq> NEW \<Longrightarrow> co_state c = Some (state_code x)"
  by (auto simp: current_state_iff)

lemma distinct_filter_one: "distinct (map f xs) \<Longrightarrow> length (filter (\<lambda>x. f x = i) xs) \<le> 1"
proof (induction xs)
  case (Cons x xs)
  have "filter (\<lambda>y. f y = i) xs = []" if "f x = i"
    using Cons.prems that by (fastforce simp: filter_empty_conv image_iff)
  with Cons show ?case by auto
qed simp

lemma active_in_at_most_one: "one_active ts \<Longrightarrow> length (filter (active_in i) ts) \<le> 1"
proof -
  assume "one_active ts"
  then have "length (filter (\<lambda>t. tn_conversation t = i) (filter active ts)) \<le> 1"
    by (intro distinct_filter_one) (simp add: one_active_def)
  moreover have "filter (active_in i) ts = filter (\<lambda>t. tn_conversation t = i) (filter active ts)"
    by (induction ts) (auto simp: active_in_def active_def)
  ultimately show ?thesis by simp
qed

definition tables_agree :: "agent_db \<Rightarrow> conversation_row \<Rightarrow> bool" where
  "tables_agree t c \<longleftrightarrow>
     (list_ex (active_in (co_id c)) (turn_rows t) \<longrightarrow> current_state c = Inr COLLECTING_INFORMATION)
     \<and> (current_state c = Inr RESOLVED_WITHOUT_TICKET \<longrightarrow>
         outcome_recorded (feedback_rows t) c True \<and> \<not> outcome_recorded (feedback_rows t) c False)
     \<and> (current_state c \<in> {Inr AWAITING_USER_CONFIRMATION, Inr TICKET_SUBMITTED} \<longrightarrow>
         outcome_recorded (feedback_rows t) c False \<and> \<not> outcome_recorded (feedback_rows t) c True)
     \<and> (current_state c = Inr TICKET_SUBMITTED \<longrightarrow> co_ticket c \<noteq> None)"

lemma sound_agree:
  assumes "conversations_sound t" "c \<in> set (conversation_rows t)"
  shows "tables_agree t c"
proof -
  from assms have rec: "state_recorded (feedback_rows t) c" and one: "one_outcome (feedback_rows t)"
    and act: "active_collects (conversation_rows t) (turn_rows t)" by (simp_all add: conversations_sound_def)
  have "current_state c = Inr COLLECTING_INFORMATION" if "list_ex (active_in (co_id c)) (turn_rows t)"
    using act assms(2) that by (auto simp: active_collects_def active_in_def active_def list_ex_iff intro: state_is)
  moreover have "outcome_recorded (feedback_rows t) c True \<and> \<not> outcome_recorded (feedback_rows t) c False"
    if "current_state c = Inr RESOLVED_WITHOUT_TICKET"
    using rec recorded_unique [OF one] state_of_late [OF that] by (auto simp: state_recorded_def)
  moreover have "outcome_recorded (feedback_rows t) c False \<and> \<not> outcome_recorded (feedback_rows t) c True"
    if "current_state c = Inr x" "x \<in> {AWAITING_USER_CONFIRMATION, TICKET_SUBMITTED}" for x
    using rec recorded_unique [OF one] state_of_late [OF that(1)] that(2) by (auto simp: state_recorded_def)
  moreover have "co_ticket c \<noteq> None" if "current_state c = Inr TICKET_SUBMITTED"
    using rec state_of_late [OF that] by (auto simp: state_recorded_def)
  ultimately show ?thesis unfolding tables_agree_def by blast
qed

text \<open>Every use case of the agent, with whatever other use cases commit while a stream is open, commits only
  steps of \<open>agent_step\<close>; only the confirmation of a linked draft submits a ticket.\<close>

lemma agent_cases_run:
  "agent_run s (snd (create_conversation ctx s))"
  "agent_run s (snd (cancel now ctx i turn s))"
  "agent_run s (snd (resolution_feedback denv ctx i said s))"
  "agent_run s (snd (confirm_ticket denv ctx i version key s))"
  "others_run w \<Longrightarrow> agent_run s (snd (snd (stream_message env w ctx i content s)))"
  by (fact create_run cancel_run feedback_run confirm_run stream_run)+

text \<open>A conversation that awaits the confirmation of its draft takes no message.\<close>

lemma start_turn_closed:
  assumes "conversations_sound s" "awaiting i s"
  shows "\<exists>e. start_turn now ctx i content limit s = Inl e"
proof (cases "start_turn now ctx i content limit s")
  case (Inr p)
  obtain r t where "p = (r, t)" by fastforce
  with Inr have "start_turn now ctx i content limit s = Inr (r, t)" by simp
  then show ?thesis
  proof (rule start_turn_effect)
    fix tenant user c x
    assume c: "open_conversation tenant user i s = Some c" "current_state c = Inr x" "x \<notin> closed_states"
    from c(1) have "c \<in> set (conversation_rows s)" "co_id c = i"
      by (auto simp: open_conversation_def owns_def find_Some_iff)
    with awaiting_state [OF assms] c(2,3) show ?thesis by (auto simp: closed_states_def)
  qed
qed simp

lemma stream_refused:
  assumes "conversations_sound s" "awaiting i s" "others_run w"
  shows "\<exists>e t. stream_message env w ctx i content s = ([], Raised e, t)"
proof (cases "agent_permitted ctx")
  case (Inr u)
  have between: "conversations_sound (w_between w s) \<and> awaiting i (w_between w s)"
    using assms run_awaiting [of s "w_between w s" i] by (simp add: others_run_def)
  obtain r t where opened: "open_turn env w ctx i content s = (r, t)" by fastforce
  have "\<exists>e. r = Inl e"
  proof (cases r)
    case (Inr p)
    obtain x started where "p = (x, started)" by fastforce
    with opened Inr have "open_turn env w ctx i content s = (Inr (x, started), t)" by simp
    then obtain e where "start_turn (env_now env) ctx i content (ae_history env) (w_between w s) = Inr (started, t)"
      by (rule open_turn_result)
    with start_turn_closed [of "w_between w s" i "env_now env" ctx content "ae_history env"] between show ?thesis by simp
  qed simp
  with opened Inr show ?thesis by (auto simp: stream_message_def)
qed (simp add: stream_message_def)

text \<open>C32: over any interleaving of the units of work that the use cases of the agent commit (\<open>agent_cases_run\<close>), from
  empty tables, a conversation has at most one active turn and collects information while it has one; it is
  resolved only when the outcome its employee recorded says resolved, it awaits the confirmation of a draft or is
  submitted only when that outcome says unresolved, and a submitted one has its ticket. Once it awaits the
  confirmation it stays so or becomes submitted: it has no active turn, and a further message, with whatever else
  is committed meanwhile, is refused before its first event.\<close>

theorem agent_history:
  assumes "conversation_rows z = []" "turn_rows z = []" "feedback_rows z = []" "agent_run z s" "agent_run s t"
  shows "(\<forall>i. length (filter (active_in i) (turn_rows t)) \<le> 1) \<and> list_all (tables_agree t) (conversation_rows t)
    \<and> (\<forall>i. awaiting i s \<longrightarrow> awaiting i t \<and> \<not> list_ex (active_in i) (turn_rows t)
        \<and> (\<forall>env w ctx content. others_run w \<longrightarrow> (\<exists>e u. stream_message env w ctx i content t = ([], Raised e, u))))"
proof -
  have s: "conversations_sound s" using run_sound [OF assms(4)] fresh_tables_sound [OF assms(1-3)] by blast
  then have t: "conversations_sound t" by (rule run_sound [OF assms(5)])
  have "awaiting i t" "\<not> list_ex (active_in i) (turn_rows t)" if "awaiting i s" for i
    using run_awaiting [OF assms(5) s that] awaiting_idle [of t i]
    by (auto simp: list_ex_iff active_in_def active_def)
  moreover have "length (filter (active_in i) (turn_rows t)) \<le> 1" for i
    using t by (intro active_in_at_most_one) (simp add: conversations_sound_def)
  ultimately show ?thesis
    using stream_refused [OF t] sound_agree [OF t] by (simp add: list_all_iff)
qed

subsection \<open>What reaches the model\<close>














subsection \<open>What a stream shows and leaves behind\<close>

definition deltas :: "turn_event list \<Rightarrow> string" where
  "deltas ev = concat (map (\<lambda>e. case e of DeltaEvent _ text \<Rightarrow> text | _ \<Rightarrow> []) ev)"

definition cited :: "turn_event list \<Rightarrow> citation list" where
  "cited ev = concat (map (\<lambda>e. case e of CitationEvent _ c \<Rightarrow> [c] | _ \<Rightarrow> []) ev)"

lemma shown_append [simp]: "deltas (xs @ ys) = deltas xs @ deltas ys" "cited (xs @ ys) = cited xs @ cited ys"
  by (simp_all add: deltas_def cited_def)

lemma shown_single [simp]: "deltas [DoneEvent turn x oc] = []" "cited [DoneEvent turn x oc] = []"
  by (simp_all add: deltas_def cited_def)

lemma think_shows_states:
  assumes "think env w turn content earlier s = (es, result)"
  shows "deltas es = []" "cited es = []"
proof -
  have "\<forall>e\<in>set es. \<exists>x. e = StateEvent turn x"
    using assms by (auto simp: think_def Let_def split: sum.splits if_splits)
  then show "deltas es = []" "cited es = []" by (auto simp: deltas_def cited_def)
qed

lemma answer_shown:
  assumes "0 < ae_chunk env"
  shows "deltas (answer_events env turn a) = an_text a" "cited (answer_events env turn a) = an_citations a"
  using concat_chunks [OF assms, of "an_text a"]
  by (simp_all add: answer_events_def deltas_def cited_def comp_def)

text \<open>A stream that was read to its end and not cancelled has shown, in its deltas and citations, exactly the message
  and the citations it stored; its last event names the state that the turn and the conversation are stored in.\<close>

lemma streamed_is_stored:
  assumes "stream_message env w ctx i content s = (ev, Exhausted, t)" "0 < ae_chunk env"
  obtains (cancelled) turn where "last ev = CancelledEvent turn"
    | (stored) turn m x outcome where "last ev = DoneEvent turn x outcome" "m \<in> set (message_rows t)"
        "ms_conversation m = i" "ms_role m = ''ASSISTANT''" "ms_text m = Some (deltas ev)" "ms_answer m = Some (outcome, cited ev)"
        "\<exists>y\<in>set (turn_rows t). tn_id y = turn \<and> tn_status y = ''COMPLETED'' \<and> tn_state y = x
          \<and> tn_outcome y = Some outcome \<and> tn_answer y = Some (ms_id m)"
        "\<exists>c\<in>set (conversation_rows t). co_id c = i \<and> co_state c = Some (state_code x)"
  using assms(1)
proof (cases rule: stream_cases)
  case (ended x started s1 es result rest)
  let ?turn = "sd_turn started" and ?now = "w_finish w" and ?s = "w_meanwhile w s1"
  show thesis
  proof (cases result)
    case (Inl e)
    show thesis
    proof (cases e)
      case TurnCancelled
      with Inl ended(3,4) show thesis by (intro cancelled [of ?turn]) (auto simp: close_turn_def)
    next
      case CancelledError
      with Inl ended(3) show thesis by (auto simp: close_turn_def split: prod.splits sum.splits)
    next
      case (Raises x)
      with Inl ended(3) show thesis by (auto simp: close_turn_def fail_stream_def split: prod.splits sum.splits)
    qed
  next
    case (Inr a)
    from ended(3) obtain m where f: "finish_turn ?now ctx i ?turn a ?s = Inr (m, t)"
      and rest: "rest = [DoneEvent ?turn (an_state a) (an_outcome a)]"
      by (auto simp: close_turn_def Inr fail_stream_def unit_of_def split: prod.splits sum.splits)
    have seen: "deltas ev = an_text a" "cited ev = an_citations a"
      using think_shows_states [OF ended(2)] answer_shown [OF assms(2)] by (simp_all add: ended(4) rest shown_def Inr)
    from f show thesis
    proof (rule finish_turn_effect)
      fix tenant user
      assume own: "\<exists>c\<in>set (conversation_rows ?s). owns tenant user i c"
        and one: "length (filter (running_turn tenant i ?turn) (turn_rows ?s)) = 1"
        and cs: "conversation_rows t = restate (owns tenant user i) (an_state a) (conversation_rows ?s)"
        and ts: "turn_rows t = map (\<lambda>x. if running_turn tenant i ?turn x then completed ?now m a x else x) (turn_rows ?s)"
        and ms: "message_rows t = message_rows ?s @ [\<lparr>ms_id = m, ms_conversation = i, ms_role = ''ASSISTANT'',
          ms_text = Some (an_text a), ms_answer = Some (an_outcome a, an_citations a), ms_at = ?now\<rparr>]"
      from one obtain y where y: "y \<in> set (turn_rows ?s)" "running_turn tenant i ?turn y"
        by (metis filter_empty_conv list.size(3) zero_neq_one)
      from own obtain c where c: "c \<in> set (conversation_rows ?s)" "owns tenant user i c" by blast
      have turn: "\<exists>z\<in>set (turn_rows t). tn_id z = ?turn \<and> tn_status z = ''COMPLETED'' \<and> tn_state z = an_state a
          \<and> tn_outcome z = Some (an_outcome a) \<and> tn_answer z = Some m"
        using y by (intro bexI [of _ "completed ?now m a y"]) (auto simp: ts completed_def running_turn_def)
      have conv: "\<exists>d\<in>set (conversation_rows t). co_id d = i \<and> co_state d = Some (state_code (an_state a))"
        using c by (intro bexI [of _ "c\<lparr>co_state := Some (state_code (an_state a))\<rparr>"]) (auto simp: cs in_restate owns_def)
      show thesis
        by (rule stored [of ?turn "an_state a" "an_outcome a" "last (message_rows t)"])
          (use seen turn conv in \<open>simp_all add: ended(4) rest ms\<close>)
    qed
  qed
qed simp_all

text \<open>A consumer that closes the stream early leaves the turn active: until it is cancelled, no further message of the
  conversation is taken.\<close>

lemma closed_stream_blocks:
  assumes "stream_message env w ctx i content s = (ev, Closed, t)" "w_meanwhile w = id"
  shows "list_ex (active_in i) (turn_rows t) \<and> isl (start_turn now ctx' i content' limit t)"
  using assms(1)
proof (cases rule: stream_cases)
  case (closed x started s1 es result n)
  from closed(1) obtain u where "start_turn (env_now env) ctx i content (ae_history env) u = Inr (started, s1)"
    by (rule open_turn_result)
  then have "\<exists>y\<in>set (turn_rows s1). active_in i y"
    by (rule start_turn_effect) (auto simp: active_in_def new_turn_def)
  with closed assms(2) have active: "list_ex (active_in i) (turn_rows t)" by (auto simp: list_ex_iff)
  have "isl (start_turn now ctx' i content' limit t)"
  proof (cases "start_turn now ctx' i content' limit t")
    case (Inr p)
    then obtain r v where "start_turn now ctx' i content' limit t = Inr (r, v)" by (cases p) simp
    then show ?thesis by (rule start_turn_effect) (use active in \<open>auto simp: list_ex_iff\<close>)
  qed simp
  with active show ?thesis by simp
next
  case (ended x started s1 es result rest)
  then show ?thesis by (auto simp: close_turn_def fail_stream_def split: sum.splits interruption.splits prod.splits)
qed simp_all

text \<open>An answered confirmation leaves the conversation submitted, with the ticket it answered, which came of the draft
  and of the conversation; it was awaiting that, or the same confirmation had been answered before.\<close>

lemma confirmed_ticket_linked:
  assumes "confirm_ticket env ctx i version key s = (Inr (answer, replay), t)"
  obtains c d where "c \<in> set (conversation_rows t)" "co_id c = i" "Some (co_user c) = ctx_user_id ctx"
    "co_state c = Some (state_code TICKET_SUBMITTED)" "co_ticket c = Some (t_id (tv_ticket (fst answer)))"
    "d \<in> set (drafts (ag_desk t))" "dr_conversation d = Some i" "dr_ticket d = Some (t_id (tv_ticket (fst answer)))"
    "\<exists>x\<in>set (tickets (desk_case (ag_desk t))). t_id x = t_id (tv_ticket (fst answer)) \<and> t_conversation x = Some i"
    "awaiting i s"
  using assms
proof (cases rule: confirm_cases)
  case (linked draft x w d1 answer' replay' d2)
  let ?ticket = "t_id (tv_ticket (fst answer))" and ?s = "s\<lparr>ag_desk := d2\<rparr>"
  from linked(2) have waits: "awaiting i s"
    by (rule linked_draft_effect) (use linked(3) in \<open>auto simp: awaiting_def owns_def\<close>)
  have "link_ticket ctx i draft ?ticket ?s = Inr ((), t)" using linked(1,6) by simp
  then show thesis
  proof (rule link_ticket_effect)
    fix tenant user
    let ?p = "\<lambda>c. owns tenant user i c \<and> ticket_fits (ag_desk ?s) draft ?ticket c"
    assume ids: "ctx_user_id ctx = Some user" and one: "length (filter ?p (conversation_rows ?s)) = 1"
      and cs: "conversation_rows t = map (\<lambda>c. if ?p c
         then c\<lparr>co_state := Some (state_code TICKET_SUBMITTED), co_ticket := Some ?ticket\<rparr> else c) (conversation_rows ?s)"
      and kept: "drafts (ag_desk t) = drafts (ag_desk ?s)" "tickets (desk_case (ag_desk t)) = tickets (desk_case (ag_desk ?s))"
    from one obtain c where c: "c \<in> set (conversation_rows ?s)" "?p c"
      by (metis (no_types, lifting) filter_empty_conv list.size(3) zero_neq_one)
    then obtain d where d: "d \<in> set (drafts (ag_desk ?s))" "dr_conversation d = Some (co_id c)" "dr_ticket d = Some ?ticket"
      and x: "\<exists>x\<in>set (tickets (desk_case (ag_desk ?s))). t_id x = ?ticket \<and> t_conversation x = Some (co_id c)"
      by (auto simp: ticket_fits_def)
    have "c\<lparr>co_state := Some (state_code TICKET_SUBMITTED), co_ticket := Some ?ticket\<rparr> \<in> set (conversation_rows t)"
      using c by (auto simp: cs)
    with c(2) d x ids waits show thesis
      by (intro that [of "c\<lparr>co_state := Some (state_code TICKET_SUBMITTED), co_ticket := Some ?ticket\<rparr>" d])
        (simp_all add: owns_def kept)
  qed
qed simp

end
