(* ===== verification/AgentDemo.thy ===== *)
theory AgentDemo
  imports AgentProps TicketDemo
begin

text \<open>
  A conversation on the small desk: opened, answered with the way to the ticket form, and linked to the draft
  that came of it; the history of the agent applied to it.
\<close>

definition demo_agent :: agent_db where
  "demo_agent = \<lparr>ag_desk = demo_draft_desk\<lparr>drafts := [demo_draft\<lparr>dr_conversation := Some 1000\<rparr>]\<rparr>,
     conversation_rows = [], message_rows = [], turn_rows = [], feedback_rows = [], evidence_rows = []\<rparr>"

definition demo_employee :: request_context where
  "demo_employee = demo_context 2 ''EMPLOYEE''"

definition demo_dialogue :: "unit agent_op" where
  "demo_dialogue = bindS (create_conversation_row demo_employee) (\<lambda>c.
     bindS (start_turn 10 demo_employee (cn_id c) ''My laptop is slow.'' 20) (\<lambda>r.
     bindS (finish_turn 20 demo_employee (cn_id c) (sd_turn r) continue_answer) (\<lambda>_.
     draft_link_work demo_employee (cn_id c) False None 100)))"

definition demo_linked :: agent_db where
  "demo_linked = (case demo_dialogue demo_agent of Inl _ \<Rightarrow> demo_agent | Inr (_, t) \<Rightarrow> t)"

lemma demo_dialogue_ok: "isl (demo_dialogue demo_agent) = False"
  by code_simp

lemma demo_dialogue_state: "map (\<lambda>c. (co_id c, co_state c)) (conversation_rows demo_linked)
    = [(1000, Some ''AWAITING_USER_CONFIRMATION'')]"
  by code_simp

lemma demo_agent_run: "agent_run demo_agent demo_linked"
proof -
  obtain t where t: "demo_dialogue demo_agent = Inr ((), t)" "demo_linked = t"
    using demo_dialogue_ok by (cases "demo_dialogue demo_agent") (auto simp: demo_linked_def)
  then obtain c s1 r s2 m s3 where steps: "create_conversation_row demo_employee demo_agent = Inr (c, s1)"
    "start_turn 10 demo_employee (cn_id c) ''My laptop is slow.'' 20 s1 = Inr (r, s2)"
    "finish_turn 20 demo_employee (cn_id c) (sd_turn r) continue_answer s2 = Inr (m, s3)"
    "draft_link_work demo_employee (cn_id c) False None 100 s3 = Inr ((), t)"
    by (auto simp: demo_dialogue_def bindS_Inr_iff)
  have "agent_step demo_agent s1" "agent_step s1 s2" "agent_step s2 s3" "agent_step s3 t"
    using steps by (auto intro: creates starts finishes drafts_linked simp: answer_states_def continue_answer_def escalation_answer_def)
  then show ?thesis unfolding t(2) by (blast intro: run_step run_trans)
qed

lemma demo_awaits: "awaiting 1000 demo_linked"
proof -
  have "(1000, Some ''AWAITING_USER_CONFIRMATION'') \<in> (\<lambda>c. (co_id c, co_state c)) ` set (conversation_rows demo_linked)"
    unfolding set_map [symmetric] demo_dialogue_state by simp
  then show ?thesis by (auto simp: awaiting_def state_code_def)
qed

definition demo_world :: world where
  "demo_world = \<lparr>w_retrieve = \<lambda>_ _. Inl RetrievalUnavailable, w_generate = \<lambda>_ _. Inl AIDisabled, w_race = Answered,
     w_between = id, w_meanwhile = id, w_finish = 30, w_taken = None\<rparr>"

lemma demo_alone: "others_run demo_world"
  by (simp add: others_run_def demo_world_def)

theorem agent_history_witness:
  "awaiting 1000 (snd (cancel 40 demo_employee 1000 1002 demo_linked))
   \<and> length (filter (active_in 1000) (turn_rows demo_linked)) \<le> 1
   \<and> list_all (tables_agree demo_linked) (conversation_rows demo_linked)
   \<and> (\<forall>env. \<exists>e u. stream_message env demo_world demo_employee 1000 ''Hello?'' demo_linked = ([], Raised e, u))"
proof -
  have fresh: "conversation_rows demo_agent = []" "turn_rows demo_agent = []" "feedback_rows demo_agent = []"
    by (simp_all add: demo_agent_def)
  from agent_history [OF fresh demo_agent_run run_refl] agent_history [OF fresh demo_agent_run agent_cases_run(2)]
    demo_awaits demo_alone show ?thesis by blast
qed

subsection \<open>The filters of the agent\<close>

lemma demo_injections:
  "found_in ''a RUN sql'' (injection_patterns ! 4)" "\<not> found_in ''rerun sql'' (injection_patterns ! 4)"
  by code_simp+

text \<open>Removing markers once can leave a new one: the text of the model may still carry a citation of its own.\<close>

lemma forged_marker: "strip_markers ''See [[1]2].'' = ''See [2].''"
  by code_simp



end
