(* ===== verification/Spec2Isabelle.thy ===== *)
theory Spec2Isabelle
  imports CalendarSpec SlaSpec Helpdesk QueueDemo AgentDemo
begin

text \<open>
  Verification of the HelpdeskAgent case-management core.

  The program is a multi-tenant service desk: a FastAPI application (\<open>apps/api/app\<close>) whose services
  run units of work over one PostgreSQL database, and workers (\<open>apps/worker/worker\<close>) that consume the
  outbox those units of work write. Modelled here is the deterministic core: who may do what, how a
  ticket moves, who approves it, who gets it, and which deadlines it has.

  Parts and theories, in the order of their imports:

  \<^item> Prelude: the state-and-error operations (\<open>bindS\<close>, \<open>liftS\<close>, \<open>getS\<close>, \<open>run_uow\<close>), the interface
    \<open>history\<close> of reflexive transitive relations that operations keep, and Python's string functions.
  \<^item> PyValue, Rules: JSON values with Python's equality and order, and \<open>core/rules.py\<close>, the rule language
    of guards, routing rules and SLA goals.
  \<^item> Authorization: \<open>identity/authorization.py\<close> with the caller of \<open>core/context.py\<close>.
  \<^item> Calendar, CalendarLaws, CalendarSpec: \<open>sla/calendar.py\<close>, business time in a zone with gaps and folds.
  \<^item> SlaModel, SlaEngine, SlaLaws, SlaWorker, SlaSpec: \<open>sla/service.py\<close> over the tables of
    \<open>sla/repository.py\<close>, and the loop of \<open>sla_worker.py\<close> that claims, retries and dead-letters events.
  \<^item> Literals, IsoTime, PyText: Python's \<open>Decimal\<close>, ISO dates and datetimes, \<open>str\<close> and \<open>json.dumps\<close>, with
    the proofs that what is printed is read back.
  \<^item> Forms, FormSpec: \<open>catalog/rules.py\<close> and \<open>tickets/validation.py\<close>, the fields of request forms.
  \<^item> Catalog, CatalogSpec: \<open>catalog/repository.py\<close> and \<open>catalog/service.py\<close>, the published configuration.
  \<^item> HelpdeskDb, Frames, Idempotency: the tables the case services share, the statements all of them
    issue, what each statement leaves alone, and the idempotency protocol of the mutating use cases.
  \<^item> Approvals, ApprovalLaws, ApprovalSpec: \<open>approvals/service.py\<close> and \<open>approvals/repository.py\<close>.
  \<^item> Workflow, WorkflowSpec: \<open>workflows/service.py\<close> and \<open>workflows/repository.py\<close>.
  \<^item> Routing, RoutingSpec: \<open>routing/service.py\<close> and \<open>routing/repository.py\<close>.
  \<^item> Helpdesk: the services together, as steps of one database, and what approvals tell the SLA engine.
  \<^item> Cursors, Desk, Tickets: the opaque cursors, statements and use cases of \<open>tickets/service.py\<close> and
    \<open>tickets/repository.py\<close>: drafts, submission, lists, watches and comments; the tables of the case
    services and the catalogue are parts of their state (\<open>desk_db\<close>).
  \<^item> TicketPages, TicketLaws, TicketSpec, TicketDemo: keyset pagination as an interface of both lists, the
    relation along which the desk moves, and the properties of submission with a small desk.
  \<^item> QueueDb, QueueFilter, QueueCursor, Shelves, Queues: \<open>queues/service.py\<close> and \<open>queues/repository.py\<close>: the
    personal lists of an analyst, which are one description (\<open>list_rules\<close>) instantiated for canned responses and
    for saved filters, published queues with their filters as SQL conditions, cursors in JSON, timelines and
    comments.
  \<^item> FilterSpec, ShelfSpec, QueueSpec, QueueDemo: a direct reading of filters, the interface of a personal list
    and its two interpretations, the pages of a queue, and what employees see of comments.
  \<^item> AgentMachine, AgentText, Conversations, EmployeeAgent, Escalation: the employee agent. The conversation states of
    \<open>employee_agent/state_machine.py\<close>, the filters of \<open>safety.py\<close> with a small matcher for their patterns, the
    statements of \<open>repository.py\<close> over the tables of conversations (\<open>agent_db\<close>, which holds the desk), and
    \<open>service.py\<close>: the message stream as the events it yields and the way it ends, feedback, and the confirmation of
    the draft it opened with the ticket service.
  \<^item> ConversationLaws, AgentSteps, AgentRuns, AgentSpec, AgentProps, AgentDemo: what each statement changes, the
    invariant of the conversation tables, the units of work as a step relation (\<open>agent_step\<close>) along which every
    use case moves, and the properties of the agent.
  \<^item> Demo: the small database at which the properties of the case services are applied.

  How code and model correspond. A dataclass or a table is a record with the columns the code reads,
  an enumeration a datatype, a UUID a 128-bit word, an instant an integer of microseconds, a JSON
  document a value of type \<open>pyval\<close>. Tables are lists in insertion order; a query is a filter, a join is
  a lookup, \<open>ORDER BY\<close> a stable sort, \<open>ON CONFLICT DO NOTHING\<close> a test on the unique columns. A unit of
  work is a function from the tables to an error or a result and new tables; an exception that leaves
  it gives the tables back as they were (\<open>run_uow\<close>). Exceptions are constructors of \<open>app_error\<close>,
  \<open>sla_error\<close>, \<open>rule_error\<close>; what the code does not catch is \<open>UncaughtError\<close>. Row locks make each unit of
  work one step, so an interleaving of calls is a sequence of steps (\<open>helpdesk_step\<close>). Where a service commits
  and then reads its answer in a second unit of work (\<open>execute\<close>, \<open>decide\<close>, \<open>add_comment\<close>), both are one step
  here: the answer is the one of an undisturbed read.

  Parameters stand for what is not under \<open>src/\<close>: the clock of the transaction and of the process, the
  SHA-256 digest, drawn identifiers (\<open>service_env\<close>, \<open>fresh_id\<close>), the offsets of a time zone (\<open>Calendar\<close>),
  Python's \<open>str\<close> of values that are no strings (\<open>SlaWorker\<close>), and for the employee agent what retrieval and the model
  answer, how the race of an answer against its timeout and its cancellation ends, and what others commit while a
  stream is open (\<open>world\<close>).

  What the lemmas show. Authorization: a permission needs an authenticated caller of the same tenant
  with a granting role. AgentMachine: every state of the table has a way to an end.
  Employee agent: over any interleaving the tables of conversations agree with the outcome an employee recorded, an
  awaited confirmation is final, only safe prompts reach the model, what was streamed is what is stored, and a
  confirmation links the ticket it answers with.
  Calendar: business time over a regular calendar splits over instants and is inverted by adding it. SLA: rows keep their
  identity, breaches are final and announced once, the queue is worked off up to later retries. Approvals: the status of an approval
  is the tally of recorded decisions, at every step of any history; a decision has exactly the effect
  it announces. Workflow: a transition writes only what its configuration allows, once, on the ticket
  version the agent saw. Forms: validated values are in their stored form and validate again unchanged. Routing: the selected
  rule is the first that matches, in any order of the query's rows; round robin is fair over any history.
  Helpdesk: all of it under any interleaving. Tickets: cursors end and show every ticket once, a submission
  opens one ticket for one draft, a repetition none, under any interleaving with the case services.
  Queues: a compiled filter means what its document says, pages end, personal lists stay
  private and in order, internal comments stay internal. Error properties say that a failed call leaves no trace but an expired approval; replay properties
  that a repeated call is answered without a change.

  Bounds and fuel. The calendar searches at most 3660 days ahead, as the code does, and reports an
  exhausted search as the code's error. The JSON reader of queue cursors has fuel for two levels of recursion
  per character, and every level reads one; cursors the service gave out are proved to be read back.
  A client that follows cursors (\<open>walk_pages\<close>) has fuel for its pages, and running out of it is a result of its
  own, \<open>None\<close>; one page more than there are tickets is proved to be enough. Nothing else needs fuel: loops run over lists, \<open>evaluate\<close> over
  the size of the rule, and retries of the worker end with \<open>max_attempts\<close>.

  Not modelled, and why. Attachments, notifications, ingestion, retrieval and the model gateway are mostly calls
  of an object store, a mail server, parsers, PostgreSQL's search and model providers; knowledge governance and
  administration maintain tables that the modelled services only read. HTTP parsing,
  settings, OIDC, object storage, parsers, embeddings and model providers belong to frameworks and external
  services. Of the modelled services logging, tracing and metrics are left out, as are the wall-clock
  column \<open>updated_at\<close> of tickets, the time of the creation event and the log rows of the trigger on ticket
  updates. Request bodies are taken as already validated by their schemas. The five columns a transition may
  write are one function per ticket; a custom field value read back for routing is taken as decoded. Text
  is ordered by code points, as in the C collation.
\<close>

end
